(* ===== verification/FFI_Prelude.thy ===== *)
theory FFI_Prelude
  imports Main "HOL-Library.Word"
begin

text \<open>
  What the components of the development share: the widths of the machine integers of the
  Rust and Go sources, the outcome of a piece of Rust code (it returns, it unwinds with a
  panic, or it reads memory it does not own), state passing over an outcome, the question
  mark operator of Rust on \<open>Result\<close>, and the standard-library operations on slices and
  decimal numbers that the sources call. The lemma collections \<open>io_defs\<close> and
  \<open>ffi_defs\<close> are filled by the components.
\<close>

named_theorems io_defs \<open>definitions of the state-passing combinators\<close>
named_theorems ffi_defs \<open>definitions of the modelled operations, for evaluation\<close>

section \<open>Machine integers and bytes\<close>

type_synonym u8 = "8 word"
type_synonym u32 = "32 word"
type_synonym u64 = "64 word"
type_synonym u128 = "128 word"
type_synonym i32 = "32 word" \<comment> \<open>read with \<open>sint\<close>\<close>
type_synonym i64 = "64 word" \<comment> \<open>read with \<open>sint\<close>\<close>
type_synonym bytes = "8 word list"

text \<open>\<open>s.into_bytes()\<close>: the bytes of a string.\<close>

definition str_bytes :: "string \<Rightarrow> bytes" where
  "str_bytes s = map (\<lambda>c. word_of_nat (of_char c)) s"

definition continuation :: "u8 \<Rightarrow> bool" where
  "continuation b \<longleftrightarrow> 0x80 \<le> b \<and> b \<le> 0xBF"

text \<open>UTF-8: the well-formed sequences of one to four bytes, no overlong forms, no surrogates, nothing above
  \<open>U+10FFFF\<close>.\<close>

fun utf8_valid :: "bytes \<Rightarrow> bool" where
  "utf8_valid [] = True"
| "utf8_valid (a # rest) =
     (if a < 0x80 then utf8_valid rest
      else if 0xC2 \<le> a \<and> a \<le> 0xDF then
        (case rest of b # rest' \<Rightarrow> continuation b \<and> utf8_valid rest' | _ \<Rightarrow> False)
      else if 0xE0 \<le> a \<and> a \<le> 0xEF then
        (case rest of
           b # c # rest' \<Rightarrow> continuation b \<and> continuation c \<and> (a = 0xE0 \<longrightarrow> 0xA0 \<le> b) \<and> (a = 0xED \<longrightarrow> b \<le> 0x9F) \<and>
             utf8_valid rest'
         | _ \<Rightarrow> False)
      else if 0xF0 \<le> a \<and> a \<le> 0xF4 then
        (case rest of
           b # c # d # rest' \<Rightarrow> continuation b \<and> continuation c \<and> continuation d \<and> (a = 0xF0 \<longrightarrow> 0x90 \<le> b) \<and>
             (a = 0xF4 \<longrightarrow> b \<le> 0x8F) \<and> utf8_valid rest'
         | _ \<Rightarrow> False)
      else False)"

text \<open>The decimal digits that \<open>{}\<close> prints for an integer.\<close>

function show_nat :: "nat \<Rightarrow> string" where
  "show_nat n = (if n < 10 then [char_of (48 + n)] else show_nat (n div 10) @ [char_of (48 + n mod 10)])"
  by pat_completeness auto
termination
  by (relation "measure id") auto

declare show_nat.simps [simp del]

definition show_int :: "int \<Rightarrow> string" where
  "show_int i = (if i < 0 then CHR ''-'' # show_nat (nat (- i)) else show_nat (nat i))"

section \<open>Outcomes\<close>

text \<open>
  A panic carries a payload. \<open>panic!\<close> with a literal and no argument unwinds with a
  \<open>&'static str\<close>, any formatted message (and \<open>expect\<close>, \<open>unwrap\<close>,
  \<open>assert_eq!\<close> and slice indexing, which format theirs) with a \<open>String\<close>.
  \<open>Undefined\<close> is a read or a write outside the memory the code was given: nothing is
  known of what follows.
\<close>

datatype panic_payload = StrPayload string | StringPayload string

text \<open>\<open>unwrap\<close> on an \<open>Err\<close>; the message goes on with the error, which nothing reads.\<close>

definition unwrap_failed :: panic_payload where
  "unwrap_failed = StringPayload ''called `Result::unwrap()` on an `Err` value''"

datatype 'a exec = Returns 'a | Panics panic_payload | Undefined

type_synonym ('s, 'a) io = "'s \<Rightarrow> 'a exec \<times> 's"

definition ret :: "'a \<Rightarrow> ('s, 'a) io" where
  "ret a s = (Returns a, s)"

definition raise :: "panic_payload \<Rightarrow> ('s, 'a) io" where
  "raise p s = (Panics p, s)"

definition stuck :: "('s, 'a) io" where
  "stuck s = (Undefined, s)"

definition bind_io :: "('s, 'a) io \<Rightarrow> ('a \<Rightarrow> ('s, 'b) io) \<Rightarrow> ('s, 'b) io" where
  "bind_io m f s =
     (case m s of
        (Returns a, s') \<Rightarrow> f a s'
      | (Panics p, s') \<Rightarrow> (Panics p, s')
      | (Undefined, s') \<Rightarrow> (Undefined, s'))"

text \<open>The \<open>?\<close> operator: an error ends the function with that error.\<close>

definition try_io :: "('s, 'e + 'a) io \<Rightarrow> ('a \<Rightarrow> ('s, 'e + 'b) io) \<Rightarrow> ('s, 'e + 'b) io" where
  "try_io m f = bind_io m (\<lambda>r. case r of Inl e \<Rightarrow> ret (Inl e) | Inr a \<Rightarrow> f a)"

text \<open>\<open>r?\<close> on a value that needs no state.\<close>

definition try_val :: "'e + 'a \<Rightarrow> ('a \<Rightarrow> ('s, 'e + 'b) io) \<Rightarrow> ('s, 'e + 'b) io" where
  "try_val r f = (case r of Inl e \<Rightarrow> ret (Inl e) | Inr a \<Rightarrow> f a)"

text \<open>A computation that reads memory: no state, an outcome only.\<close>

definition from_exec :: "'a exec \<Rightarrow> ('s, 'a) io" where
  "from_exec x s = (x, s)"

definition bind_exec :: "'a exec \<Rightarrow> ('a \<Rightarrow> 'b exec) \<Rightarrow> 'b exec" where
  "bind_exec x f = (case x of Returns a \<Rightarrow> f a | Panics p \<Rightarrow> Panics p | Undefined \<Rightarrow> Undefined)"

lemmas io_comb_defs [io_defs] =
  ret_def raise_def stuck_def bind_io_def try_io_def try_val_def from_exec_def

lemma bind_exec_simps [simp]:
  "bind_exec (Returns a) f = f a"
  "bind_exec (Panics p) f = Panics p"
  "bind_exec Undefined f = Undefined"
  by (simp_all add: bind_exec_def)

lemma bind_io_ret [simp]: "bind_io (ret a) f = f a"
  by (simp add: fun_eq_iff bind_io_def ret_def)

lemma bind_io_from_exec [simp]:
  "bind_io (from_exec (Returns a)) f = f a"
  "bind_io (from_exec (Panics p)) f = raise p"
  "bind_io (from_exec Undefined) f = stuck"
  by (simp_all add: fun_eq_iff bind_io_def from_exec_def raise_def stuck_def)

lemma bind_io_raise [simp]: "bind_io (raise p) f = raise p"
  by (simp add: fun_eq_iff bind_io_def raise_def)

lemma bind_io_stuck [simp]: "bind_io stuck f = stuck"
  by (simp add: fun_eq_iff bind_io_def stuck_def)

lemma bind_io_Returns: "m s = (Returns a, s') \<Longrightarrow> bind_io m f s = f a s'"
  by (simp add: bind_io_def)

lemma bind_io_Panics: "m s = (Panics p, s') \<Longrightarrow> bind_io m f s = (Panics p, s')"
  by (simp add: bind_io_def)

lemma bind_io_Undefined: "m s = (Undefined, s') \<Longrightarrow> bind_io m f s = (Undefined, s')"
  by (simp add: bind_io_def)

lemmas bind_io_run = bind_io_Returns bind_io_Panics bind_io_Undefined

lemma try_io_run:
  "m s = (Returns (Inr a), s') \<Longrightarrow> try_io m f s = f a s'"
  "m s = (Returns (Inl e), s') \<Longrightarrow> try_io m f s = (Returns (Inl e), s')"
  "m s = (Panics p, s') \<Longrightarrow> try_io m f s = (Panics p, s')"
  "m s = (Undefined, s') \<Longrightarrow> try_io m f s = (Undefined, s')"
  by (simp_all add: try_io_def bind_io_def ret_def)

lemma bind_io_assoc: "bind_io (bind_io m f) g = bind_io m (\<lambda>a. bind_io (f a) g)"
  by (auto simp: fun_eq_iff bind_io_def split: prod.splits exec.splits)

lemma try_io_ret [simp]:
  "try_io (ret (Inr a)) f = f a"
  "try_io (ret (Inl e)) f = ret (Inl e)"
  by (simp_all add: try_io_def)

lemma try_val_simps [simp]:
  "try_val (Inr a) f = f a"
  "try_val (Inl e) f = ret (Inl e)"
  by (simp_all add: try_val_def)

lemma bind_io_cases:
  assumes "bind_io m f s = (x, s')"
  obtains (Returns) a t where "m s = (Returns a, t)" and "f a t = (x, s')"
  | (Panics) p where "m s = (Panics p, s')" and "x = Panics p"
  | (Undefined) "m s = (Undefined, s')" and "x = Undefined"
  using assms by (auto simp: bind_io_def split: prod.splits exec.splits)

text \<open>A computation that leaves one part of the state alone, whatever its outcome.\<close>

definition keeps :: "('s \<Rightarrow> 'b) \<Rightarrow> ('s, 'a) io \<Rightarrow> bool" where
  "keeps f m \<longleftrightarrow> (\<forall>s x s'. m s = (x, s') \<longrightarrow> f s' = f s)"

lemma keepsI: "(\<And>s x s'. m s = (x, s') \<Longrightarrow> f s' = f s) \<Longrightarrow> keeps f m"
  by (simp add: keeps_def)

lemma keepsD: "keeps f m \<Longrightarrow> m s = (x, s') \<Longrightarrow> f s' = f s"
  by (simp add: keeps_def)

lemma keeps_run: "keeps f m \<Longrightarrow> f (snd (m s)) = f s"
  by (erule keepsD) (rule prod.collapse [symmetric])

lemma keeps_basic [intro, simp]:
  "keeps f (ret a)" "keeps f (raise p)" "keeps f stuck" "keeps f (from_exec x)"
  by (simp_all add: keeps_def ret_def raise_def stuck_def from_exec_def)

lemma keeps_bind [intro]: "keeps f m \<Longrightarrow> (\<And>a. keeps f (k a)) \<Longrightarrow> keeps f (bind_io m k)"
  by (rule keepsI, erule bind_io_cases) (metis keepsD)+

lemma keeps_try [intro]: "keeps f m \<Longrightarrow> (\<And>a. keeps f (k a)) \<Longrightarrow> keeps f (try_io m k)"
  unfolding try_io_def by (rule keeps_bind) (auto split: sum.splits)

lemma keeps_try_val [intro]: "(\<And>a. keeps f (k a)) \<Longrightarrow> keeps f (try_val r k)"
  by (cases r) auto

section \<open>Slices\<close>

text \<open>\<open>slice.par_chunks(n)\<close>: pieces of \<open>n\<close> elements in order, the last one shorter when
  \<open>n\<close> does not divide the length. All sizes in the sources are positive constants.\<close>

function chunks :: "nat \<Rightarrow> 'a list \<Rightarrow> 'a list list" where
  "chunks n xs = (if n = 0 \<or> xs = [] then [] else take n xs # chunks n (drop n xs))"
  by pat_completeness auto
termination
  by (relation "measure (\<lambda>(n, xs). length xs)") auto

declare chunks.simps [simp del]

lemma chunks_Nil [simp]: "chunks n [] = []"
  by (simp add: chunks.simps)

lemma chunks_append:
  assumes "length xs = n" and "0 < n"
  shows "chunks n (xs @ ys) = xs # chunks n ys"
  using assms by (subst chunks.simps) auto

text \<open>Flattening pieces of one size and cutting them again gives the pieces back.\<close>

lemma chunks_concat:
  assumes "\<forall>x \<in> set xss. length x = n" and "0 < n"
  shows "chunks n (concat xss) = xss"
  using assms by (induction xss) (auto simp: chunks_append)

lemma concat_chunks:
  assumes "0 < n"
  shows "concat (chunks n xs) = xs"
  using assms by (induction n xs rule: chunks.induct) (subst chunks.simps, simp)

lemma chunks_lengths:
  assumes "length xs mod n = 0" and "0 < n"
  shows "list_all (\<lambda>c. length c = n) (chunks n xs)"
  using assms
proof (induction n xs rule: chunks.induct)
  case (1 n xs)
  show ?case
  proof (cases "xs = []")
    case False
    with 1 have le: "n \<le> length xs"
      by (metis dvd_imp_le length_greater_0_conv mod_0_imp_dvd)
    then have "length (drop n xs) mod n = 0"
      using 1 by (simp add: le_mod_geq)
    with 1 False have "list_all (\<lambda>c. length c = n) (chunks n (drop n xs))" by simp
    with False le \<open>0 < n\<close> show ?thesis by (simp add: chunks.simps [of n xs])
  qed simp
qed

lemma length_chunks:
  assumes "length xs mod n = 0" and "0 < n"
  shows "length (chunks n xs) = length xs div n"
  using assms
proof (induction n xs rule: chunks.induct)
  case (1 n xs)
  show ?case
  proof (cases "xs = []")
    case False
    with 1 have le: "n \<le> length xs"
      by (metis dvd_imp_le length_greater_0_conv mod_0_imp_dvd)
    then have "length (drop n xs) mod n = 0"
      using 1 by (simp add: le_mod_geq)
    with 1 False have "length (chunks n (drop n xs)) = length (drop n xs) div n" by simp
    with False le \<open>0 < n\<close> show ?thesis by (simp add: chunks.simps [of n xs] le_div_geq)
  qed simp
qed

text \<open>\<open>iter.collect::<Result<Vec<_>, _>>()\<close>: all values, or the first error.\<close>

fun collect_results :: "('e + 'a) list \<Rightarrow> 'e + 'a list" where
  "collect_results [] = Inr []"
| "collect_results (Inl e # _) = Inl e"
| "collect_results (Inr a # rs) =
     (case collect_results rs of Inl e \<Rightarrow> Inl e | Inr as \<Rightarrow> Inr (a # as))"

lemma collect_results_map_Inr [simp]: "collect_results (map (\<lambda>x. Inr (f x)) xs) = Inr (map f xs)"
  by (induction xs) auto

lemma collect_results_Inr_iff:
  "collect_results rs = Inr as \<longleftrightarrow> rs = map Inr as"
proof (induction rs arbitrary: as)
  case Nil
  then show ?case by auto
next
  case (Cons r rs)
  then show ?case by (cases r; cases as) (auto split: sum.splits)
qed

lemma those_eq_Some_iff: "those xs = Some ys \<longleftrightarrow> xs = map Some ys"
proof (induction xs arbitrary: ys)
  case Nil
  then show ?case by auto
next
  case (Cons x xs)
  then show ?case by (cases x; cases ys) auto
qed

lemma those_map_Some [simp]: "those (map Some xs) = Some xs"
  by (simp add: those_eq_Some_iff)

lemma map_Some_eq [simp]: "map Some xs = map Some ys \<longleftrightarrow> xs = ys"
  by (simp add: inj_map_eq_map)

lemma map_of_rev_distinct: "distinct (map fst xs) \<Longrightarrow> map_of (rev xs) = map_of xs"
  by (subst map_of_inject_set) (simp_all add: rev_map [symmetric])

text \<open>\<open>write_all\<close> into a \<open>&mut [u8]\<close>: the bytes overwrite the front of the slice; it fails
  when the slice is too short.\<close>

definition write_all :: "bytes \<Rightarrow> bytes \<Rightarrow> bytes option" where
  "write_all buf bs = (if length bs \<le> length buf then Some (bs @ drop (length bs) buf) else None)"

lemma write_all_exact [simp]: "length bs = length buf \<Longrightarrow> write_all buf bs = Some bs"
  by (simp add: write_all_def)

section \<open>Words\<close>

text \<open>A length below the sign bit survives the cast to a signed word.\<close>

lemma sint_word_of_nat:
  assumes "n < 2 ^ 31"
  shows "sint (word_of_nat n :: i32) = int n"
  using assms by (simp add: signed_of_nat signed_take_bit_int_eq_self)

end
