(* ===== verification/Util_Types.thy ===== *)
theory Util_Types
  imports FFI_Prelude
begin

text \<open>
  The response layer of \<open>rust/src/util/types.rs\<close> and the logger guard of
  \<open>rust/src/util/api.rs\<close> it calls: status codes, the \<open>Result\<close> struct that crosses
  the C boundary, its constructors and conversions, \<open>init_log\<close> behind its \<open>Once\<close>, and
  the \<open>catch_panic_response\<close> family that every exported function of the proofs and FVM
  modules runs in. The locales \<open>unwind_guard\<close> and \<open>panic_guard\<close> are the contracts
  these wrappers share.
\<close>

section \<open>Errors\<close>

text \<open>
  An \<open>anyhow::Error\<close> is known by what it displays; the only concrete error the sources
  downcast to is \<open>StorageProofsError::FaultySectors\<close>, which carries sector numbers.
\<close>

datatype anyhow = AnyhowMsg string | FaultySectors "u64 list" string

fun anyhow_to_string :: "anyhow \<Rightarrow> string" where
  "anyhow_to_string (AnyhowMsg m) = m"
| "anyhow_to_string (FaultySectors _ m) = m"

section \<open>The process state the library keeps\<close>

text \<open>
  \<open>log_init\<close> is the \<open>static LOG_INIT: Once\<close>; \<open>open_fds\<close> is the process's table of
  file descriptors (a \<open>std::fs::File\<close> closes its descriptor when it is dropped);
  \<open>ext\<close> is everything that the libraries called by the code own.
\<close>

datatype once_state = Incomplete | Poisoned | Completed

record 's world =
  log_init :: once_state
  open_fds :: "i32 \<Rightarrow> bool"
  ext :: 's

definition lift_ext :: "('s, 'a) io \<Rightarrow> ('s world, 'a) io" where
  "lift_ext m w = (case m (ext w) of (x, e) \<Rightarrow> (x, w\<lparr>ext := e\<rparr>))"

text \<open>Dropping a \<open>File\<close> closes its descriptor.\<close>

definition drop_file :: "i32 \<Rightarrow> ('s world, unit) io" where
  "drop_file fd w = (Returns (), w\<lparr>open_fds := (open_fds w)(fd := False)\<rparr>)"

text \<open>The \<open>fil_logger\<close> and \<open>log\<close> crates, as the code calls them.\<close>

record 's logger =
  fil_logger_init :: "('s, unit) io"
  fil_logger_init_with_file :: "i32 \<Rightarrow> ('s, unit) io"
  log_info :: "string \<Rightarrow> ('s, unit) io"

text \<open>\<open>Once::call_once\<close>: runs the closure the first time, does nothing once it has
  completed, and panics for ever after a run that panicked.\<close>

definition call_once :: "('s world, unit) io \<Rightarrow> ('s world, unit) io" where
  "call_once f w =
     (case log_init w of
        Completed \<Rightarrow> (Returns (), w)
      | Poisoned \<Rightarrow> (Panics (StrPayload ''Once instance has previously been poisoned''), w)
      | Incomplete \<Rightarrow>
          (case f w of
             (Returns _, w') \<Rightarrow> (Returns (), w'\<lparr>log_init := Completed\<rparr>)
           | (Panics p, w') \<Rightarrow> (Panics p, w'\<lparr>log_init := Poisoned\<rparr>)
           | (Undefined, w') \<Rightarrow> (Undefined, w')))"

definition init_log :: "'s logger \<Rightarrow> ('s world, unit) io" where
  "init_log L = call_once (lift_ext (fil_logger_init L))"

definition info :: "'s logger \<Rightarrow> string \<Rightarrow> ('s world, unit) io" where
  "info L m = lift_ext (log_info L m)"

section \<open>Responses\<close>

datatype FCPResponseStatus = NoError | UnclassifiedError | CallerError | ReceiverError

fun FCPResponseStatus_code :: "FCPResponseStatus \<Rightarrow> i32" where
  "FCPResponseStatus_code NoError = 0"
| "FCPResponseStatus_code UnclassifiedError = 1"
| "FCPResponseStatus_code CallerError = 2"
| "FCPResponseStatus_code ReceiverError = 3"

record 'a Result =
  status_code :: FCPResponseStatus
  error_msg :: bytes
  value_of :: 'a

definition Result_default :: "'a \<Rightarrow> 'a Result" where
  "Result_default d = \<lparr>status_code = NoError, error_msg = [], value_of = d\<rparr>"

definition Result_ok :: "'a \<Rightarrow> 'a Result" where
  "Result_ok v = \<lparr>status_code = NoError, error_msg = [], value_of = v\<rparr>"

definition Result_from_value :: "'a \<Rightarrow> 'a Result" where
  "Result_from_value v = \<lparr>status_code = NoError, error_msg = [], value_of = v\<rparr>"

definition err_with_default :: "bytes \<Rightarrow> 'a \<Rightarrow> 'a Result" where
  "err_with_default m v = \<lparr>status_code = UnclassifiedError, error_msg = m, value_of = v\<rparr>"

text \<open>\<open>MaybeUninit::zeroed().assume_init()\<close>: the value whose bytes are all zero.\<close>

definition err_no_default :: "'a \<Rightarrow> bytes \<Rightarrow> 'a Result" where
  "err_no_default zeroed m = \<lparr>status_code = UnclassifiedError, error_msg = m, value_of = zeroed\<rparr>"

text \<open>\<open>Result::err\<close>; the first argument is the type's \<open>Default::default()\<close>.\<close>

definition Result_err :: "'a \<Rightarrow> bytes \<Rightarrow> 'a Result" where
  "Result_err d m = \<lparr>status_code = UnclassifiedError, error_msg = m, value_of = d\<rparr>"

definition Result_from :: "'a \<Rightarrow> string + 'a \<Rightarrow> 'a Result" where
  "Result_from d r =
     (case r of Inr v \<Rightarrow> Result_ok v | Inl e \<Rightarrow> Result_err d (str_bytes e))"

text \<open>\<open>as_path_buf\<close> on Linux: any byte sequence is a path.\<close>

definition as_path_buf :: "bytes \<Rightarrow> anyhow + bytes" where
  "as_path_buf b = Inr b"

section \<open>Catching panics\<close>

definition catch_unwind :: "('s, 'a) io \<Rightarrow> ('s, panic_payload + 'a) io" where
  "catch_unwind m s =
     (case m s of
        (Returns a, s') \<Rightarrow> (Returns (Inr a), s')
      | (Panics p, s') \<Rightarrow> (Returns (Inl p), s')
      | (Undefined, s') \<Rightarrow> (Undefined, s'))"

text \<open>\<open>panic.downcast_ref::<&'static str>()\<close>, with the fallback text.\<close>

fun panic_message :: "panic_payload \<Rightarrow> string" where
  "panic_message (StrPayload m) = m"
| "panic_message (StringPayload _) = ''no unwind information''"

definition panic_text :: "panic_payload \<Rightarrow> string" where
  "panic_text p = ''Rust panic: '' @ panic_message p"

definition catch_panic_response_raw_no_log ::
    "'a \<Rightarrow> ('s, 'a Result) io \<Rightarrow> ('s, 'a Result) io" where
  "catch_panic_response_raw_no_log d callback =
     bind_io (catch_unwind callback) (\<lambda>r.
       case r of
         Inr t \<Rightarrow> ret t
       | Inl p \<Rightarrow> ret (Result_from d (Inl (panic_text p))))"

definition map_err_string :: "anyhow + 'a \<Rightarrow> string + 'a" where
  "map_err_string r = (case r of Inl e \<Rightarrow> Inl (anyhow_to_string e) | Inr a \<Rightarrow> Inr a)"

definition catch_panic_response_no_log ::
    "'a \<Rightarrow> ('s, anyhow + 'a) io \<Rightarrow> ('s, 'a Result) io" where
  "catch_panic_response_no_log d callback =
     catch_panic_response_raw_no_log d
       (bind_io callback (\<lambda>r. ret (Result_from d (map_err_string r))))"

text \<open>The closure with its log lines around it: \<open>init_log\<close>, start, the callback, end.\<close>

definition logged :: "'s logger \<Rightarrow> string \<Rightarrow> ('s world, 'a) io \<Rightarrow> ('s world, 'a) io" where
  "logged L name callback =
     bind_io (init_log L) (\<lambda>_.
     bind_io (info L (name @ '': start'')) (\<lambda>_.
     bind_io callback (\<lambda>res.
     bind_io (info L (name @ '': end'')) (\<lambda>_. ret res))))"

definition catch_panic_response_raw ::
    "'s logger \<Rightarrow> 'a \<Rightarrow> string \<Rightarrow> ('s world, 'a Result) io \<Rightarrow> ('s world, 'a Result) io" where
  "catch_panic_response_raw L d name callback =
     catch_panic_response_raw_no_log d (logged L name callback)"

definition catch_panic_response ::
    "'s logger \<Rightarrow> 'a \<Rightarrow> string \<Rightarrow> ('s world, anyhow + 'a) io \<Rightarrow> ('s world, 'a Result) io" where
  "catch_panic_response L d name callback =
     catch_panic_response_raw L d name
       (bind_io callback (\<lambda>r. ret (Result_from d (map_err_string r))))"

definition catch_panic_response_no_default ::
    "'s logger \<Rightarrow> 'a \<Rightarrow> string \<Rightarrow> ('s world, anyhow + 'a) io \<Rightarrow> ('s world, 'a Result) io" where
  "catch_panic_response_no_default L zeroed name callback =
     bind_io (catch_unwind (logged L name callback)) (\<lambda>r.
       case r of
         Inr t \<Rightarrow>
           (case t of
              Inr v \<Rightarrow> ret (Result_ok v)
            | Inl e \<Rightarrow> ret (err_no_default zeroed (str_bytes (anyhow_to_string e))))
       | Inl p \<Rightarrow> ret (err_no_default zeroed (str_bytes (panic_text p))))"

lemmas result_defs [ffi_defs] =
  Result_default_def Result_ok_def Result_from_value_def err_with_default_def
  err_no_default_def Result_err_def Result_from_def

lemmas guard_defs [ffi_defs] =
  catch_unwind_def catch_panic_response_raw_no_log_def catch_panic_response_no_log_def
  catch_panic_response_raw_def catch_panic_response_def catch_panic_response_no_default_def
  logged_def init_log_def info_def lift_ext_def call_once_def map_err_string_def

section \<open>What a response looks like\<close>

text \<open>
  A response is well formed over a default value when it is a success with no message, or
  an unclassified error whose value is the default.
\<close>

definition response_wf :: "'a \<Rightarrow> 'a Result \<Rightarrow> bool" where
  "response_wf d r \<longleftrightarrow>
     (status_code r = NoError \<and> error_msg r = []) \<or>
     (status_code r = UnclassifiedError \<and> value_of r = d)"

lemma response_wf_simps [simp]:
  "response_wf d (Result_ok v)"
  "response_wf d (Result_err d m)"
  "response_wf d (err_no_default d m)"
  "response_wf d (Result_from d r)"
  by (simp_all add: response_wf_def result_defs split: sum.splits)

lemma Result_ok_sel [simp]:
  "status_code (Result_ok v) = NoError" "error_msg (Result_ok v) = []" "value_of (Result_ok v) = v"
  by (simp_all add: Result_ok_def)

lemma Result_err_sel [simp]:
  "status_code (Result_err d m) = UnclassifiedError" "error_msg (Result_err d m) = m"
  "value_of (Result_err d m) = d"
  by (simp_all add: Result_err_def)

lemma err_no_default_eq: "err_no_default = Result_err"
  by (simp add: fun_eq_iff err_no_default_def Result_err_def)

section \<open>The contract of the wrappers\<close>

text \<open>
  The guards turn a closure into a response. What a caller relies on: no panic leaves
  a guard (\<open>unwind_guard\<close>), and, for the guards that build the response themselves, a
  response that comes back is well formed (\<open>panic_guard\<close>).
\<close>

locale unwind_guard =
  fixes guard :: "('w, 'c) io \<Rightarrow> ('w, 'a Result) io"
  assumes guard_no_panic: "guard cb w \<noteq> (Panics p, w')"
begin

text \<open>Any number of guarded calls, one after the other, comes back without a panic.\<close>

lemma guard_sequence_no_panic:
  "fold (\<lambda>cb. \<lambda>(x, w). case x of Returns _ \<Rightarrow> guard cb w | _ \<Rightarrow> (x, w)) cbs (Returns r0, w)
     \<noteq> (Panics p, w')"
proof (induction cbs arbitrary: r0 w)
  case Nil
  then show ?case by simp
next
  case (Cons cb cbs)
  have stay: "fold (\<lambda>cb. \<lambda>(x, w). case x of Returns _ \<Rightarrow> guard cb w | _ \<Rightarrow> (x, w)) cbs (Undefined, v)
      = (Undefined, v)" for v
    by (induction cbs) auto
  obtain x v where g: "guard cb w = (x, v)" by (cases "guard cb w")
  with guard_no_panic [of cb w] Cons.IH stay show ?case by (cases x) auto
qed

end

locale panic_guard = unwind_guard guard
  for guard :: "('w, 'c) io \<Rightarrow> ('w, 'a Result) io" +
  fixes dflt :: 'a
  assumes guard_wf: "guard cb w = (Returns r, w') \<Longrightarrow> response_wf dflt r"
begin

lemma guard_outcome:
  "(\<exists>r. fst (guard cb w) = Returns r \<and> response_wf dflt r) \<or> fst (guard cb w) = Undefined"
proof (cases "guard cb w")
  case (Pair x w')
  with guard_no_panic [of cb w] guard_wf [of cb w] show ?thesis by (cases x) auto
qed

text \<open>An error response always carries the default value, so a reader of its value never
  sees a value computed by a call that failed.\<close>

lemma guard_error_value:
  assumes "guard cb w = (Returns r, w')" and "status_code r \<noteq> NoError"
  shows "value_of r = dflt"
  using guard_wf [OF assms(1)] assms(2) by (auto simp: response_wf_def)

end

lemma catch_unwind_no_panic: "catch_unwind m s \<noteq> (Panics p, s')"
  by (auto simp: catch_unwind_def split: prod.splits exec.splits)

lemma catch_unwind_cases:
  obtains (Returns) a s' where "m s = (Returns a, s')" "catch_unwind m s = (Returns (Inr a), s')"
  | (Panics) p s' where "m s = (Panics p, s')" "catch_unwind m s = (Returns (Inl p), s')"
  | (Undefined) s' where "m s = (Undefined, s')" "catch_unwind m s = (Undefined, s')"
  by (cases "m s", cases "fst (m s)") (auto simp: catch_unwind_def)

lemma raw_no_log_cases:
  obtains (Returns) r s' where "cb s = (Returns r, s')"
      "catch_panic_response_raw_no_log d cb s = (Returns r, s')"
  | (Panics) p s' where "cb s = (Panics p, s')"
      "catch_panic_response_raw_no_log d cb s = (Returns (Result_err d (str_bytes (panic_text p))), s')"
  | (Undefined) s' where "cb s = (Undefined, s')"
      "catch_panic_response_raw_no_log d cb s = (Undefined, s')"
  by (rule catch_unwind_cases [of cb s])
     (auto simp: catch_panic_response_raw_no_log_def bind_io_def ret_def Result_from_def)

lemma no_default_cases:
  obtains (Returns) v s' where "logged L name cb s = (Returns (Inr v), s')"
      "catch_panic_response_no_default L z name cb s = (Returns (Result_ok v), s')"
  | (Err) e s' where "logged L name cb s = (Returns (Inl e), s')"
      "catch_panic_response_no_default L z name cb s =
         (Returns (Result_err z (str_bytes (anyhow_to_string e))), s')"
  | (Panics) p s' where "logged L name cb s = (Panics p, s')"
      "catch_panic_response_no_default L z name cb s =
         (Returns (Result_err z (str_bytes (panic_text p))), s')"
  | (Undefined) s' where "logged L name cb s = (Undefined, s')"
      "catch_panic_response_no_default L z name cb s = (Undefined, s')"
proof (rule catch_unwind_cases [of "logged L name cb" s])
  fix r s'
  assume "logged L name cb s = (Returns r, s')"
    and "catch_unwind (logged L name cb) s = (Returns (Inr r), s')"
  with that(1,2) show thesis
    by (cases r) (auto simp: catch_panic_response_no_default_def bind_io_def ret_def err_no_default_eq)
qed (use that(3,4) in \<open>auto simp: catch_panic_response_no_default_def bind_io_def ret_def
    err_no_default_eq\<close>)

lemma converted_wf:
  assumes "bind_io callback (\<lambda>r. ret (Result_from d (map_err_string r))) s = (Returns t, s')"
  shows "response_wf d t"
  using assms by (auto simp: bind_io_def ret_def split: prod.splits exec.splits)

lemma logged_Returns:
  assumes "logged L name cb w = (Returns r, w')"
  obtains w1 w2 where "cb w1 = (Returns r, w2)"
  using assms that by (auto simp: logged_def ret_def elim!: bind_io_cases)

lemma no_log_wf:
  assumes "catch_panic_response_no_log d cb w = (Returns r, w')"
  shows "response_wf d r"
  using assms unfolding catch_panic_response_no_log_def
  by (rule_tac raw_no_log_cases [of "bind_io cb (\<lambda>r. ret (Result_from d (map_err_string r)))" w d])
     (auto dest: converted_wf)

lemma guarded_wf:
  assumes "catch_panic_response L d name cb w = (Returns r, w')"
  shows "response_wf d r"
  using assms unfolding catch_panic_response_def catch_panic_response_raw_def
  by (rule_tac raw_no_log_cases
        [of "logged L name (bind_io cb (\<lambda>r. ret (Result_from d (map_err_string r))))" w d])
     (auto elim!: logged_Returns dest!: converted_wf)

lemma no_default_no_panic: "catch_panic_response_no_default L z name cb w \<noteq> (Panics p, w')"
  by (rule no_default_cases [of L name cb w z]) auto

lemma no_default_wf:
  assumes "catch_panic_response_no_default L z name cb w = (Returns r, w')"
  shows "response_wf z r"
  using assms by (rule_tac no_default_cases [of L name cb w z]) auto

interpretation raw_no_log: unwind_guard "catch_panic_response_raw_no_log d" for d
  by unfold_locales (metis raw_no_log_cases exec.distinct(1) exec.distinct(5) prod.inject)

interpretation raw: unwind_guard "catch_panic_response_raw L d name" for L d name
  by unfold_locales (simp add: catch_panic_response_raw_def raw_no_log.guard_no_panic)

interpretation no_log: panic_guard "catch_panic_response_no_log d" d for d
  by unfold_locales
     (simp add: catch_panic_response_no_log_def raw_no_log.guard_no_panic, rule no_log_wf)

interpretation guarded: panic_guard "catch_panic_response L d name" d for L d name
  by unfold_locales (simp add: catch_panic_response_def raw.guard_no_panic, rule guarded_wf)

interpretation no_default: panic_guard "catch_panic_response_no_default L z name" z for L z name
  by unfold_locales (rule no_default_no_panic, rule no_default_wf)

section \<open>What a guarded call leaves alone\<close>

lemma keeps_catch_unwind [intro]: "keeps f m \<Longrightarrow> keeps f (catch_unwind m)"
  by (rule keepsI) (auto simp: catch_unwind_def dest: keepsD split: prod.splits exec.splits)

lemma keeps_logged:
  "keeps f (init_log L) \<Longrightarrow> (\<And>m. keeps f (info L m)) \<Longrightarrow> keeps f cb \<Longrightarrow> keeps f (logged L name cb)"
  unfolding logged_def by (intro keeps_bind keeps_basic)

lemma keeps_guarded:
  assumes "keeps f (init_log L)" and "\<And>m. keeps f (info L m)" and "keeps f cb"
  shows "keeps f (catch_panic_response L d name cb)"
    and "keeps f (catch_panic_response_no_default L d name cb)"
  using assms
  by (auto simp: catch_panic_response_def catch_panic_response_raw_def catch_panic_response_raw_no_log_def
        catch_panic_response_no_default_def intro!: keeps_bind keeps_catch_unwind keeps_logged
        split: sum.splits)

text \<open>A fact about the state that the logger keeps holds when the closure starts; what the closure
  makes of it, the call makes of it.\<close>

lemma logged_rule:
  assumes "logged L name cb w = (x, w')" and "I w"
    and "\<And>v y v'. init_log L v = (y, v') \<Longrightarrow> I v \<Longrightarrow> I v'"
    and "\<And>m v y v'. info L m v = (y, v') \<Longrightarrow> I v \<Longrightarrow> I v'"
    and "\<And>v y v'. cb v = (y, v') \<Longrightarrow> I v \<Longrightarrow> I v' \<and> (\<forall>a. y = Returns a \<longrightarrow> Q a)"
  shows "I w' \<and> (\<forall>a. x = Returns a \<longrightarrow> Q a)"
  using assms(1,2) unfolding logged_def
  by (auto elim!: bind_io_cases simp: ret_def) (use assms(3-5) in metis)+

lemma guarded_fails:
  assumes "catch_panic_response L d name cb w = (Returns r, w')" and "I w"
    and "\<And>v y v'. init_log L v = (y, v') \<Longrightarrow> I v \<Longrightarrow> I v'"
    and "\<And>m v y v'. info L m v = (y, v') \<Longrightarrow> I v \<Longrightarrow> I v'"
    and "\<And>v y v'. cb v = (y, v') \<Longrightarrow> I v \<Longrightarrow> I v' \<and> (\<forall>a. y \<noteq> Returns (Inr a))"
  shows "I w' \<and> status_code r = UnclassifiedError"
proof -
  let ?cb = "bind_io cb (\<lambda>r. ret (Result_from d (map_err_string r)))"
  have cb: "I v' \<and> (\<forall>t. y = Returns t \<longrightarrow> status_code t = UnclassifiedError)"
    if "?cb v = (y, v')" and "I v" for v y v'
    using that assms(5) [of v "Returns (Inr _)"] assms(5) [of v]
    by (auto simp: ret_def Result_from_def map_err_string_def elim!: bind_io_cases split: sum.splits)
  have "I v' \<and> (\<forall>t. y = Returns t \<longrightarrow> status_code t = UnclassifiedError)"
    if "logged L name ?cb w = (y, v')" for y v'
    using logged_rule [where I = I, OF that assms(2-4) cb] .
  then show ?thesis
    using assms(1) unfolding catch_panic_response_def catch_panic_response_raw_def
    by (rule_tac raw_no_log_cases [of "logged L name ?cb" w d]) fastforce+
qed

text \<open>A success comes from a closure that succeeded.\<close>

lemma guarded_success:
  assumes "catch_panic_response L d name cb w = (Returns r, w')" and "status_code r = NoError"
  obtains w1 w2 v where "cb w1 = (Returns (Inr v), w2)" and "r = Result_ok v"
proof -
  let ?cb = "bind_io cb (\<lambda>r. ret (Result_from d (map_err_string r)))"
  obtain w3 where "logged L name ?cb w = (Returns r, w3)"
    using assms unfolding catch_panic_response_def catch_panic_response_raw_def
    by (rule_tac raw_no_log_cases [of "logged L name ?cb" w d]) auto
  then obtain w1 w2 where "?cb w1 = (Returns r, w2)" by (rule logged_Returns)
  then show thesis
    using assms(2) that
    by (auto simp: ret_def Result_from_def map_err_string_def elim!: bind_io_cases split: sum.splits)
qed

text \<open>Neither the logger nor a library function can close a descriptor.\<close>

lemma keeps_open_fds [simp, intro]:
  "keeps open_fds (lift_ext m)" "keeps open_fds (init_log L)" "keeps open_fds (info L t)"
  by (auto simp: keeps_def lift_ext_def init_log_def info_def call_once_def
      split: prod.splits once_state.splits exec.splits)

section \<open>The response of a guarded call, when the logger works\<close>

text \<open>The logger neither panics nor misbehaves, in any of its states.\<close>

definition logger_ok :: "'s logger \<Rightarrow> bool" where
  "logger_ok L \<longleftrightarrow>
     (\<forall>s m. fst (fil_logger_init L s) = Returns () \<and> fst (log_info L m s) = Returns ())"

text \<open>The state the callback starts in, and the state after the end line.\<close>

definition log_started :: "'s logger \<Rightarrow> string \<Rightarrow> 's world \<Rightarrow> 's world" where
  "log_started L name w = snd (info L (name @ '': start'') (snd (init_log L w)))"

definition log_ended :: "'s logger \<Rightarrow> string \<Rightarrow> 's world \<Rightarrow> 's world" where
  "log_ended L name w = snd (info L (name @ '': end'') w)"

lemma log_lines_open_fds [simp]:
  "open_fds (log_started L name w) = open_fds w" "open_fds (log_ended L name w) = open_fds w"
  by (simp_all add: log_started_def log_ended_def keeps_run [OF keeps_open_fds(2)]
      keeps_run [OF keeps_open_fds(3)])

lemma info_ok: "logger_ok L \<Longrightarrow> info L m w = (Returns (), snd (info L m w))"
  by (cases "log_info L m (ext w)")
     (auto simp: logger_ok_def info_def lift_ext_def split: prod.splits, metis fst_conv)

lemma init_log_ok:
  "logger_ok L \<Longrightarrow> log_init w \<noteq> Poisoned \<Longrightarrow> init_log L w = (Returns (), snd (init_log L w))"
  by (cases "fil_logger_init L (ext w)"; cases "log_init w")
     (auto simp: logger_ok_def init_log_def call_once_def lift_ext_def split: prod.splits exec.splits,
      (metis fst_conv exec.distinct(1) exec.distinct(3))+)

lemma bind_init_log_ok:
  assumes "logger_ok L" and "log_init w \<noteq> Poisoned"
  shows "bind_io (init_log L) f w = f () (snd (init_log L w))"
  by (rule bind_io_Returns) (rule init_log_ok [OF assms])

lemma bind_info_ok:
  assumes "logger_ok L"
  shows "bind_io (info L m) f v = f () (snd (info L m v))"
  by (rule bind_io_Returns) (rule info_ok [OF assms])

lemma logged_ok:
  assumes "logger_ok L" and "log_init w \<noteq> Poisoned"
  shows "logged L name cb w =
    (case cb (log_started L name w) of
       (Returns a, w') \<Rightarrow> (Returns a, log_ended L name w')
     | (Panics p, w') \<Rightarrow> (Panics p, w')
     | (Undefined, w') \<Rightarrow> (Undefined, w'))"
  by (simp add: logged_def log_started_def log_ended_def bind_io_def [of cb] ret_def
        bind_init_log_ok [OF assms] bind_info_ok [OF assms(1)] split: prod.splits exec.splits)

lemma catch_panic_response_eq:
  assumes "logger_ok L" and "log_init w \<noteq> Poisoned"
  shows "catch_panic_response L d name cb w =
    (case cb (log_started L name w) of
       (Returns r, w') \<Rightarrow> (Returns (Result_from d (map_err_string r)), log_ended L name w')
     | (Panics p, w') \<Rightarrow> (Returns (Result_err d (str_bytes (panic_text p))), w')
     | (Undefined, w') \<Rightarrow> (Undefined, w'))"
  by (cases "cb (log_started L name w)", cases "fst (cb (log_started L name w))")
     (auto simp: catch_panic_response_def catch_panic_response_raw_def
        catch_panic_response_raw_no_log_def catch_unwind_def logged_ok [OF assms] bind_io_def ret_def
        Result_from_def [of d "Inl _"])

lemma catch_panic_response_no_default_eq:
  assumes "logger_ok L" and "log_init w \<noteq> Poisoned"
  shows "catch_panic_response_no_default L z name cb w =
    (case cb (log_started L name w) of
       (Returns r, w') \<Rightarrow> (Returns (Result_from z (map_err_string r)), log_ended L name w')
     | (Panics p, w') \<Rightarrow> (Returns (Result_err z (str_bytes (panic_text p))), w')
     | (Undefined, w') \<Rightarrow> (Undefined, w'))"
  by (cases "cb (log_started L name w)", cases "fst (cb (log_started L name w))")
     (auto simp: catch_panic_response_no_default_def catch_unwind_def logged_ok [OF assms] bind_io_def
        ret_def Result_from_def map_err_string_def err_no_default_eq split: sum.splits)

section \<open>Properties\<close>

text \<open>A raw guard passes the response of its closure through, whatever it is.\<close>

lemma raw_no_log_outcome:
  "(\<exists>r. fst (catch_panic_response_raw_no_log d cb s) = Returns r \<and>
      ((\<exists>s'. cb s = (Returns r, s')) \<or> (\<exists>p. r = Result_err d (str_bytes (panic_text p))))) \<or>
   fst (catch_panic_response_raw_no_log d cb s) = Undefined"
  by (auto simp: catch_panic_response_raw_no_log_def catch_unwind_def bind_io_def ret_def Result_from_def
      split: prod.splits exec.splits sum.splits)

lemma raw_outcome:
  "(\<exists>r. fst (catch_panic_response_raw L d name cb w) = Returns r \<and>
      ((\<exists>v v'. cb v = (Returns r, v')) \<or> (\<exists>p. r = Result_err d (str_bytes (panic_text p))))) \<or>
   fst (catch_panic_response_raw L d name cb w) = Undefined"
  using raw_no_log_outcome [of d "logged L name cb" w]
  unfolding catch_panic_response_raw_def by (blast elim: logged_Returns)


definition silent_logger :: "string list logger" where
  "silent_logger =
     \<lparr>fil_logger_init = ret (), fil_logger_init_with_file = (\<lambda>_. ret ()),
      log_info = (\<lambda>m s. (Returns (), s @ [m]))\<rparr>"

definition fresh_world :: "string list world" where
  "fresh_world = \<lparr>log_init = Incomplete, open_fds = (\<lambda>_. True), ext = []\<rparr>"

lemma silent_logger_ok: "logger_ok silent_logger"
  by (simp add: logger_ok_def silent_logger_def ret_def)

text \<open>C32: the response a caller gets, on every branch of the closure. A value is a success and the
  end line is logged; an error is its displayed text; a panic with a literal message is that
  text after \<open>Rust panic: \<close>; a panic with any formatted message is reported as
  \<open>no unwind information\<close>; after a panic no end line is logged.\<close>
theorem guarded_response:
  assumes "logger_ok L" and "log_init w \<noteq> Poisoned"
  shows "catch_panic_response L d name cb w =
    (case cb (log_started L name w) of
       (Returns (Inr v), w') \<Rightarrow> (Returns (Result_ok v), log_ended L name w')
     | (Returns (Inl e), w') \<Rightarrow>
         (Returns (Result_err d (str_bytes (anyhow_to_string e))), log_ended L name w')
     | (Panics (StrPayload m), w') \<Rightarrow> (Returns (Result_err d (str_bytes (''Rust panic: '' @ m))), w')
     | (Panics (StringPayload m), w') \<Rightarrow>
         (Returns (Result_err d (str_bytes ''Rust panic: no unwind information'')), w')
     | (Undefined, w') \<Rightarrow> (Undefined, w'))"
  by (auto simp: catch_panic_response_eq [OF assms] Result_from_def map_err_string_def panic_text_def
           split: prod.splits exec.splits sum.splits panic_payload.splits)

theorem guarded_response_witness:
  "catch_panic_response silent_logger (0::nat) ''f'' (raise (StringPayload ''index 3'')) fresh_world =
     (Returns (Result_err 0 (str_bytes ''Rust panic: no unwind information'')),
      fresh_world\<lparr>log_init := Completed, ext := [''f: start'']\<rparr>)"
proof -
  have "log_init fresh_world \<noteq> Poisoned" by (simp add: fresh_world_def)
  from guarded_response [OF silent_logger_ok this, of "0::nat" "''f''" "raise (StringPayload ''index 3'')"]
  show ?thesis
    by (simp add: raise_def log_started_def info_def init_log_def call_once_def lift_ext_def
          silent_logger_def fresh_world_def ret_def)
qed

end
