(* ===== verification/Boxes.thy ===== *)
theory Boxes
  imports Util_Types
begin

text \<open>
  Memory that crosses the C boundary: what \<open>repr_c::Box::new\<close>, \<open>c_slice::Box\<close> and the
  \<open>destructor!\<close> macro of \<open>rust/src/util/types.rs\<close> do to the heap. A value of a Rust type is
  stored as a tree of allocations; dropping it releases the allocations that its type
  says it owns (the drop glue of Rust, by recursion on the type), and is \<open>None\<close> when one of
  them is not there any more or does not have the shape of the type. The Go side copies a
  value out of the heap by the same types. The lemmas show that a value that was stored is
  copied back, that dropping it releases exactly what storing it allocated, and that
  dropping it twice is an error.
\<close>

section \<open>Layouts, values and memory\<close>

text \<open>Data that owns no memory: numbers, arrays and enums.\<close>

datatype plain = PUnit | PBool bool | PByte u8 | PWord u64 | PArray bytes | PEnum nat

text \<open>The layout of a type: plain data, a struct, \<open>c_slice::Box\<close>, \<open>repr_c::Box\<close>, and an \<open>Option\<close>
  around one of the two boxes.\<close>

datatype layout =
    TPlain
  | TStruct "layout list"
  | TSlice layout
  | TBox layout
  | TOption layout

datatype val =
    VPlain plain
  | VStruct "val list"
  | VSlice "val list"
  | VBox val
  | VNoSlice
  | VNoBox

type_synonym addr = nat

text \<open>An empty slice has a pointer that is not null and points nowhere.\<close>

datatype ptr = Null | Dangling | At addr

datatype cval = CPlain plain | CStruct "cval list" | CSlice ptr nat | CBox ptr

record heap =
  cells :: "addr \<rightharpoonup> cval list"
  next_addr :: addr

definition empty_heap :: heap where
  "empty_heap = \<lparr>cells = Map.empty, next_addr = 0\<rparr>"

definition malloc :: "cval list \<Rightarrow> heap \<Rightarrow> addr \<times> heap" where
  "malloc cs h =
     (next_addr h, h\<lparr>cells := (cells h)(next_addr h \<mapsto> cs), next_addr := Suc (next_addr h)\<rparr>)"

definition free :: "addr \<Rightarrow> heap \<Rightarrow> heap option" where
  "free a h = (case cells h a of None \<Rightarrow> None | Some _ \<Rightarrow> Some (h\<lparr>cells := (cells h)(a := None)\<rparr>))"

text \<open>Moving a value into memory; the elements of a slice before the slice.\<close>

fun store_val :: "val \<Rightarrow> heap \<Rightarrow> cval \<times> heap"
  and store_vals :: "val list \<Rightarrow> heap \<Rightarrow> cval list \<times> heap" where
  "store_val (VPlain p) h = (CPlain p, h)"
| "store_val (VStruct vs) h = (case store_vals vs h of (cs, h') \<Rightarrow> (CStruct cs, h'))"
| "store_val (VSlice vs) h =
     (if vs = [] then (CSlice Dangling 0, h)
      else case store_vals vs h of (cs, h1) \<Rightarrow>
             (case malloc cs h1 of (a, h2) \<Rightarrow> (CSlice (At a) (length cs), h2)))"
| "store_val (VBox v) h =
     (case store_val v h of (c, h1) \<Rightarrow> (case malloc [c] h1 of (a, h2) \<Rightarrow> (CBox (At a), h2)))"
| "store_val VNoSlice h = (CSlice Null 0, h)"
| "store_val VNoBox h = (CBox Null, h)"
| "store_vals [] h = ([], h)"
| "store_vals (v # vs) h =
     (case store_val v h of (c, h1) \<Rightarrow> (case store_vals vs h1 of (cs, h2) \<Rightarrow> (c # cs, h2)))"

section \<open>Drop glue\<close>

fun drop_each :: "(cval \<Rightarrow> heap \<Rightarrow> heap option) list \<Rightarrow> cval list \<Rightarrow> heap \<Rightarrow> heap option" where
  "drop_each [] [] h = Some h"
| "drop_each (f # fs) (c # cs) h = (case f c h of None \<Rightarrow> None | Some h' \<Rightarrow> drop_each fs cs h')"
| "drop_each _ _ _ = None"

definition is_none :: "cval \<Rightarrow> bool" where
  "is_none c \<longleftrightarrow> (case c of CSlice Null _ \<Rightarrow> True | CBox Null \<Rightarrow> True | _ \<Rightarrow> False)"

primrec drop_glue :: "layout \<Rightarrow> cval \<Rightarrow> heap \<Rightarrow> heap option" where
  "drop_glue TPlain = (\<lambda>c h. case c of CPlain _ \<Rightarrow> Some h | _ \<Rightarrow> None)"
| "drop_glue (TStruct ts) = (\<lambda>c h.
     case c of CStruct cs \<Rightarrow> drop_each (map drop_glue ts) cs h | _ \<Rightarrow> None)"
| "drop_glue (TSlice t) = (\<lambda>c h.
     case c of
       CSlice Dangling 0 \<Rightarrow> Some h
     | CSlice (At a) n \<Rightarrow>
         (case cells h a of
            Some cs \<Rightarrow>
              if length cs = n
              then (case drop_each (replicate n (drop_glue t)) cs h of
                      None \<Rightarrow> None
                    | Some h' \<Rightarrow> free a h')
              else None
          | None \<Rightarrow> None)
     | _ \<Rightarrow> None)"
| "drop_glue (TBox t) = (\<lambda>c h.
     case c of
       CBox (At a) \<Rightarrow>
         (case cells h a of
            Some [c'] \<Rightarrow> (case drop_glue t c' h of None \<Rightarrow> None | Some h' \<Rightarrow> free a h')
          | _ \<Rightarrow> None)
     | _ \<Rightarrow> None)"
| "drop_glue (TOption t) = (\<lambda>c h. if is_none c then Some h else drop_glue t c h)"

section \<open>Copying out\<close>

fun copy_each :: "(cval \<Rightarrow> heap \<Rightarrow> val option) list \<Rightarrow> cval list \<Rightarrow> heap \<Rightarrow> val list option" where
  "copy_each [] [] h = Some []"
| "copy_each (f # fs) (c # cs) h =
     (case f c h of
        None \<Rightarrow> None
      | Some v \<Rightarrow> (case copy_each fs cs h of None \<Rightarrow> None | Some vs \<Rightarrow> Some (v # vs)))"
| "copy_each _ _ _ = None"

definition none_val :: "cval \<Rightarrow> val" where
  "none_val c = (case c of CBox _ \<Rightarrow> VNoBox | _ \<Rightarrow> VNoSlice)"

primrec copy_as :: "layout \<Rightarrow> cval \<Rightarrow> heap \<Rightarrow> val option" where
  "copy_as TPlain = (\<lambda>c h. case c of CPlain p \<Rightarrow> Some (VPlain p) | _ \<Rightarrow> None)"
| "copy_as (TStruct ts) = (\<lambda>c h.
     case c of
       CStruct cs \<Rightarrow> (case copy_each (map copy_as ts) cs h of None \<Rightarrow> None | Some vs \<Rightarrow> Some (VStruct vs))
     | _ \<Rightarrow> None)"
| "copy_as (TSlice t) = (\<lambda>c h.
     case c of
       CSlice Dangling 0 \<Rightarrow> Some (VSlice [])
     | CSlice (At a) n \<Rightarrow>
         (case cells h a of
            Some cs \<Rightarrow>
              if length cs = n
              then (case copy_each (replicate n (copy_as t)) cs h of None \<Rightarrow> None | Some vs \<Rightarrow> Some (VSlice vs))
              else None
          | None \<Rightarrow> None)
     | _ \<Rightarrow> None)"
| "copy_as (TBox t) = (\<lambda>c h.
     case c of
       CBox (At a) \<Rightarrow>
         (case cells h a of
            Some [c'] \<Rightarrow> (case copy_as t c' h of None \<Rightarrow> None | Some v \<Rightarrow> Some (VBox v))
          | _ \<Rightarrow> None)
     | _ \<Rightarrow> None)"
| "copy_as (TOption t) = (\<lambda>c h. if is_none c then Some (none_val c) else copy_as t c h)"

section \<open>Typing\<close>

primrec has_layout :: "layout \<Rightarrow> val \<Rightarrow> bool" where
  "has_layout TPlain = (\<lambda>v. \<exists>p. v = VPlain p)"
| "has_layout (TStruct ts) = (\<lambda>v. \<exists>vs. v = VStruct vs \<and> list_all2 (\<lambda>P x. P x) (map has_layout ts) vs)"
| "has_layout (TSlice t) = (\<lambda>v. \<exists>vs. v = VSlice vs \<and> list_all (has_layout t) vs)"
| "has_layout (TBox t) = (\<lambda>v. \<exists>v'. v = VBox v' \<and> has_layout t v')"
| "has_layout (TOption t) = (\<lambda>v. v = VNoSlice \<or> v = VNoBox \<or> has_layout t v)"

section \<open>What a stored value owns\<close>

definition heap_ok :: "heap \<Rightarrow> bool" where
  "heap_ok h \<longleftrightarrow> (\<forall>a. next_addr h \<le> a \<longrightarrow> cells h a = None)"

text \<open>\<open>holds k v c A\<close>: in the heap \<open>k\<close>, \<open>c\<close> is the value \<open>v\<close>, and it owns the cells \<open>A\<close>.\<close>

inductive holds :: "heap \<Rightarrow> val \<Rightarrow> cval \<Rightarrow> addr set \<Rightarrow> bool"
  and holds_all :: "heap \<Rightarrow> val list \<Rightarrow> cval list \<Rightarrow> addr set \<Rightarrow> bool" for k where
  plain: "holds k (VPlain p) (CPlain p) {}"
| struct: "holds_all k vs cs A \<Longrightarrow> holds k (VStruct vs) (CStruct cs) A"
| empty: "holds k (VSlice []) (CSlice Dangling 0) {}"
| slice: "holds_all k vs cs A \<Longrightarrow> vs \<noteq> [] \<Longrightarrow> cells k a = Some cs \<Longrightarrow> a \<notin> A \<Longrightarrow>
    holds k (VSlice vs) (CSlice (At a) (length cs)) (insert a A)"
| box: "holds k v c A \<Longrightarrow> cells k a = Some [c] \<Longrightarrow> a \<notin> A \<Longrightarrow>
    holds k (VBox v) (CBox (At a)) (insert a A)"
| no_slice: "holds k VNoSlice (CSlice Null 0) {}"
| no_box: "holds k VNoBox (CBox Null) {}"
| nil: "holds_all k [] [] {}"
| cons: "holds k v c A \<Longrightarrow> holds_all k vs cs B \<Longrightarrow> A \<inter> B = {} \<Longrightarrow>
    holds_all k (v # vs) (c # cs) (A \<union> B)"

inductive_cases holds_elims [elim!]:
  "holds k (VPlain p) c A" "holds k (VStruct vs) c A" "holds k (VSlice vs) c A" "holds k (VBox v) c A"
  "holds k VNoSlice c A" "holds k VNoBox c A" "holds_all k [] cs A" "holds_all k (v # vs) cs A"

lemma holds_all_length: "holds_all k vs cs A \<Longrightarrow> length cs = length vs"
  by (induction vs arbitrary: cs A) auto

lemma holds_frame:
  "holds k v c A \<Longrightarrow> (\<And>a. a \<in> A \<Longrightarrow> cells k' a = cells k a) \<Longrightarrow> holds k' v c A"
  "holds_all k vs cs A \<Longrightarrow> (\<And>a. a \<in> A \<Longrightarrow> cells k' a = cells k a) \<Longrightarrow> holds_all k' vs cs A"
  by (induction rule: holds_holds_all.inducts) (auto intro: holds_holds_all.intros)

text \<open>Storing allocates new cells only, and the value owns them.\<close>

definition grows :: "heap \<Rightarrow> heap \<Rightarrow> addr set \<Rightarrow> bool" where
  "grows h h' A \<longleftrightarrow> next_addr h \<le> next_addr h' \<and> A \<subseteq> {next_addr h..<next_addr h'} \<and>
     (\<forall>a. a \<notin> A \<longrightarrow> cells h' a = cells h a)"

lemma grows_refl [simp]: "grows h h {}"
  by (simp add: grows_def)

lemma grows_trans: "grows h h1 A \<Longrightarrow> grows h1 h2 B \<Longrightarrow> grows h h2 (A \<union> B) \<and> A \<inter> B = {}"
  by (fastforce simp: grows_def)

lemma grows_malloc: "malloc cs h = (a, h') \<Longrightarrow> grows h h' {a} \<and> cells h' a = Some cs"
  by (auto simp: grows_def malloc_def)

lemma grows_heap_ok: "grows h h' A \<Longrightarrow> heap_ok h \<Longrightarrow> heap_ok h'"
  unfolding heap_ok_def grows_def
  by (metis atLeastLessThan_iff dual_order.trans leD subsetD)

lemma grows_keeps:
  assumes "grows h h' A" and "grows h' h'' B"
  shows "holds h' v c A \<Longrightarrow> holds h'' v c A" and "holds_all h' vs cs A \<Longrightarrow> holds_all h'' vs cs A"
proof -
  have "cells h'' a = cells h' a" if "a \<in> A" for a
    using that grows_trans [OF assms] assms(2) by (auto simp: grows_def)
  then show "holds h' v c A \<Longrightarrow> holds h'' v c A" and "holds_all h' vs cs A \<Longrightarrow> holds_all h'' vs cs A"
    by (auto intro: holds_frame)
qed

lemma store_holds:
  "store_val v h = (c, h') \<Longrightarrow> \<exists>A. grows h h' A \<and> holds h' v c A"
  "store_vals vs h = (cs, h') \<Longrightarrow> \<exists>A. grows h h' A \<and> holds_all h' vs cs A"
proof (induction v h and vs h arbitrary: c h' and cs h' rule: store_val_store_vals.induct)
  case (3 vs h)
  show ?case
  proof (cases "vs = []")
    case True
    with 3 show ?thesis by (auto intro: exI [of _ "{}"] holds_holds_all.empty)
  next
    case False
    with 3(2) obtain cs h1 a where s: "store_vals vs h = (cs, h1)" and m: "malloc cs h1 = (a, h')"
      and c: "c = CSlice (At a) (length cs)"
      by (auto split: prod.splits)
    from 3(1) [OF False s] obtain A where A: "grows h h1 A" "holds_all h1 vs cs A" by blast
    from grows_malloc [OF m] have g: "grows h1 h' {a}" "cells h' a = Some cs" by auto
    have "a \<notin> A" and "grows h h' (insert a A)" using grows_trans [OF A(1) g(1)] by auto
    with g grows_keeps(2) [OF A(1) g(1) A(2)] False c show ?thesis
      by (blast intro: holds_holds_all.slice)
  qed
next
  case (4 v h)
  then obtain c' h1 a where s: "store_val v h = (c', h1)" and m: "malloc [c'] h1 = (a, h')"
    and c: "c = CBox (At a)"
    by (auto split: prod.splits)
  from 4(1) [OF s] obtain A where A: "grows h h1 A" "holds h1 v c' A" by blast
  from grows_malloc [OF m] have g: "grows h1 h' {a}" "cells h' a = Some [c']" by auto
  have "a \<notin> A" and "grows h h' (insert a A)" using grows_trans [OF A(1) g(1)] by auto
  with g grows_keeps(1) [OF A(1) g(1) A(2)] c show ?case by (blast intro: holds_holds_all.box)
next
  case (8 v vs h)
  then obtain c' cs' h1 where s: "store_val v h = (c', h1)" "store_vals vs h1 = (cs', h')"
    and cs: "cs = c' # cs'"
    by (auto split: prod.splits)
  from 8(1) [OF s(1)] obtain A where A: "grows h h1 A" "holds h1 v c' A" by blast
  from 8(2) [OF s(1) [symmetric] s(2)] obtain B where B: "grows h1 h' B" "holds_all h' vs cs' B" by blast
  from grows_trans [OF A(1) B(1)] grows_keeps(1) [OF A(1) B(1) A(2)] B(2) cs show ?case
    by (blast intro: holds_holds_all.cons)
qed (auto intro: holds_holds_all.intros exI [of _ "{}"] split: prod.splits)

section \<open>Dropping and copying\<close>

text \<open>\<open>h'\<close> is \<open>h\<close> without the cells \<open>A\<close>.\<close>

definition without :: "heap \<Rightarrow> addr set \<Rightarrow> heap" where
  "without h A = h\<lparr>cells := cells h |` (- A)\<rparr>"

lemma without_empty [simp]: "without h {} = h"
  by (simp add: without_def restrict_map_def)

lemma without_without [simp]: "without (without h A) B = without h (A \<union> B)"
  by (auto simp: without_def restrict_map_def fun_eq_iff)

lemma cells_without [simp]: "cells (without h A) a = (if a \<in> A then None else cells h a)"
  by (simp add: without_def restrict_map_def)

lemma next_addr_without [simp]: "next_addr (without h A) = next_addr h"
  by (simp add: without_def)

lemma heap_ok_without: "heap_ok h \<Longrightarrow> heap_ok (without h A)"
  by (simp add: heap_ok_def)

lemma free_without: "cells h a = Some cs \<Longrightarrow> free a h = Some (without h {a})"
  by (simp add: free_def without_def restrict_map_def fun_eq_iff fun_upd_def)

lemma grows_without: "grows h h' A \<Longrightarrow> heap_ok h \<Longrightarrow> cells (without h' A) = cells h"
  by (auto simp: fun_eq_iff grows_def heap_ok_def subset_iff)

lemma is_none_iff: "holds k v c A \<Longrightarrow> is_none c \<longleftrightarrow> v = VNoSlice \<or> v = VNoBox"
  by (cases v) (auto simp: is_none_def)

text \<open>A list of drop functions, each good for its value.\<close>

lemma drop_each_holds:
  assumes "holds_all k vs cs A" and "length fs = length vs"
    and "\<And>f v c k A. (f, v) \<in> set (zip fs vs) \<Longrightarrow> holds k v c A \<Longrightarrow> f c k = Some (without k A)"
  shows "drop_each fs cs k = Some (without k A)"
  using assms
proof (induction fs arbitrary: vs cs k A)
  case (Cons f fs)
  then obtain v vs' where vs: "vs = v # vs'" by (cases vs) auto
  with Cons.prems(1) obtain c cs' B D where cs: "cs = c # cs'" "A = B \<union> D" "B \<inter> D = {}"
    and h: "holds k v c B" "holds_all k vs' cs' D"
    by auto
  have k: "holds_all (without k B) vs' cs' D"
    by (rule holds_frame(2) [OF h(2)]) (use cs(3) in auto)
  have "f c k = Some (without k B)" using Cons.prems(3) [OF _ h(1)] vs by simp
  moreover have "drop_each fs cs' (without k B) = Some (without (without k B) D)"
  proof (rule Cons.IH [OF k])
    show "length fs = length vs'" using Cons.prems(2) vs by simp
    show "g c' k' = Some (without k' A')" if "(g, u) \<in> set (zip fs vs')" and "holds k' u c' A'" for g u c' k' A'
      by (rule Cons.prems(3) [OF _ that(2)]) (use that(1) vs in simp)
  qed
  ultimately show ?case using cs by simp
qed auto

lemma drop_holds: "has_layout t v \<Longrightarrow> holds k v c A \<Longrightarrow> drop_glue t c k = Some (without k A)"
proof (induction t arbitrary: v c k A)
  case (TStruct ts)
  from TStruct.prems obtain vs cs where v: "v = VStruct vs" "c = CStruct cs" "holds_all k vs cs A"
    and ty: "list_all2 (\<lambda>P x. P x) (map has_layout ts) vs"
    by auto
  have "drop_each (map drop_glue ts) cs k = Some (without k A)"
  proof (rule drop_each_holds [OF v(3)])
    show "length (map drop_glue ts) = length vs" using list_all2_lengthD [OF ty] by simp
    fix f u c k A
    assume "(f, u) \<in> set (zip (map drop_glue ts) vs)" and "holds k u c A"
    moreover from this(1) obtain t where "t \<in> set ts" "f = drop_glue t" "has_layout t u"
      using ty by (auto simp: set_zip list_all2_conv_all_nth) (metis nth_mem)
    ultimately show "f c k = Some (without k A)" using TStruct.IH by blast
  qed
  with v show ?case by simp
next
  case (TSlice t)
  from TSlice.prems(1) obtain vs where v: "v = VSlice vs" and ty: "list_all (has_layout t) vs" by auto
  show ?case
  proof (cases "vs = []")
    case False
    with TSlice.prems(2) v obtain cs a B where c: "c = CSlice (At a) (length cs)" "A = insert a B"
        "cells k a = Some cs" "a \<notin> B" and h: "holds_all k vs cs B"
      by auto
    have "drop_each (replicate (length cs) (drop_glue t)) cs k = Some (without k B)"
      by (rule drop_each_holds [OF h])
         (use TSlice.IH ty holds_all_length [OF h] in \<open>auto simp: set_zip list_all_length\<close>)
    with c show ?thesis by (simp add: free_without)
  qed (use TSlice.prems v in auto)
next
  case (TBox t)
  then obtain v' c' a B where v: "v = VBox v'" "c = CBox (At a)" "A = insert a B" "cells k a = Some [c']"
      "a \<notin> B" "has_layout t v'" "holds k v' c' B"
    by auto
  with TBox.IH [OF v(6,7)] show ?case by (simp add: free_without)
next
  case (TOption t)
  with is_none_iff [OF TOption.prems(2)] show ?case by auto
qed auto


lemma copy_each_holds:
  assumes "holds_all k vs cs A" and "length fs = length vs"
    and "\<And>f v c A. (f, v) \<in> set (zip fs vs) \<Longrightarrow> holds k v c A \<Longrightarrow> f c k = Some v"
  shows "copy_each fs cs k = Some vs"
  using assms
proof (induction fs arbitrary: vs cs A)
  case (Cons f fs)
  then obtain v vs' where vs: "vs = v # vs'" by (cases vs) auto
  with Cons.prems(1) obtain c cs' B D where cs: "cs = c # cs'"
    and h: "holds k v c B" "holds_all k vs' cs' D"
    by auto
  have "f c k = Some v" using Cons.prems(3) [OF _ h(1)] vs by simp
  moreover have "copy_each fs cs' k = Some vs'"
    by (rule Cons.IH [OF h(2)]) (use Cons.prems vs in auto)
  ultimately show ?case using vs cs by simp
qed auto

lemma copy_holds: "has_layout t v \<Longrightarrow> holds k v c A \<Longrightarrow> copy_as t c k = Some v"
proof (induction t arbitrary: v c A)
  case (TStruct ts)
  from TStruct.prems obtain vs cs where v: "v = VStruct vs" "c = CStruct cs" "holds_all k vs cs A"
    and ty: "list_all2 (\<lambda>P x. P x) (map has_layout ts) vs"
    by auto
  have "copy_each (map copy_as ts) cs k = Some vs"
  proof (rule copy_each_holds [OF v(3)])
    show "length (map copy_as ts) = length vs" using list_all2_lengthD [OF ty] by simp
    fix f u c A
    assume "(f, u) \<in> set (zip (map copy_as ts) vs)" and "holds k u c A"
    moreover from this(1) obtain t where "t \<in> set ts" "f = copy_as t" "has_layout t u"
      using ty by (auto simp: set_zip list_all2_conv_all_nth) (metis nth_mem)
    ultimately show "f c k = Some u" using TStruct.IH by blast
  qed
  with v show ?case by simp
next
  case (TSlice t)
  from TSlice.prems(1) obtain vs where v: "v = VSlice vs" and ty: "list_all (has_layout t) vs" by auto
  show ?case
  proof (cases "vs = []")
    case False
    with TSlice.prems(2) v obtain cs a B where c: "c = CSlice (At a) (length cs)" "cells k a = Some cs"
      and h: "holds_all k vs cs B"
      by auto
    have "copy_each (replicate (length cs) (copy_as t)) cs k = Some vs"
      by (rule copy_each_holds [OF h])
         (use TSlice.IH ty holds_all_length [OF h] in \<open>auto simp: set_zip list_all_length\<close>)
    with c v show ?thesis by simp
  qed (use TSlice.prems v in auto)
next
  case (TBox t)
  then show ?case by fastforce
next
  case (TOption t)
  with is_none_iff [OF TOption.prems(2)] show ?case by (auto simp: none_val_def)
qed auto

text \<open>Dropping a value a second time, or any value whose cells are gone, is an error.\<close>

lemma drop_each_gone:
  assumes "holds_all k vs cs A" and "length fs = length vs" and "A \<noteq> {}"
    and "\<And>a. a \<in> A \<Longrightarrow> cells k' a = None"
    and "\<And>f v c B. (f, v) \<in> set (zip fs vs) \<Longrightarrow> holds k v c B \<Longrightarrow> B \<noteq> {} \<Longrightarrow>
      (\<And>a. a \<in> B \<Longrightarrow> cells k' a = None) \<Longrightarrow> f c k' = None"
    and "\<And>f v c. (f, v) \<in> set (zip fs vs) \<Longrightarrow> holds k v c {} \<Longrightarrow> f c k' = Some k'"
  shows "drop_each fs cs k' = None"
  using assms
proof (induction fs arbitrary: vs cs A)
  case (Cons f fs)
  then obtain v vs' where vs: "vs = v # vs'" by (cases vs) auto
  with Cons.prems(1) obtain c cs' B D where cs: "cs = c # cs'" "A = B \<union> D"
    and h: "holds k v c B" "holds_all k vs' cs' D"
    by auto
  show ?case
  proof (cases "B = {}")
    case True
    then have "f c k' = Some k'" using Cons.prems(6) [of f v c] vs h(1) by simp
    moreover have "drop_each fs cs' k' = None"
    proof (rule Cons.IH [OF h(2)])
      show "length fs = length vs'" using Cons.prems(2) vs by simp
      show "D \<noteq> {}" using Cons.prems(3) cs(2) True by simp
      show "cells k' a = None" if "a \<in> D" for a using Cons.prems(4) cs(2) that by simp
      show "g c' k' = None" if "(g, u) \<in> set (zip fs vs')" "holds k u c' B'" "B' \<noteq> {}"
        "\<And>a. a \<in> B' \<Longrightarrow> cells k' a = None" for g u c' B'
        by (rule Cons.prems(5) [OF _ that(2-4)]) (use that(1) vs in simp)
      show "g c' k' = Some k'" if "(g, u) \<in> set (zip fs vs')" "holds k u c' {}" for g u c'
        by (rule Cons.prems(6) [OF _ that(2)]) (use that(1) vs in simp)
    qed
    ultimately show ?thesis using cs by simp
  next
    case False
    then have "f c k' = None" using Cons.prems(5) [of f v c B] Cons.prems(4) vs cs h(1) by simp
    then show ?thesis using cs by simp
  qed
qed auto

lemma drop_nothing: "has_layout t v \<Longrightarrow> holds k v c {} \<Longrightarrow> drop_glue t c k' = Some k'"
  using drop_holds [of t v k' c "{}"] holds_frame(1) [of k v c "{}" k'] by simp

lemma drop_gone:
  "has_layout t v \<Longrightarrow> holds k v c A \<Longrightarrow> A \<noteq> {} \<Longrightarrow> (\<And>a. a \<in> A \<Longrightarrow> cells k' a = None) \<Longrightarrow>
    drop_glue t c k' = None"
proof (induction t arbitrary: v c A)
  case (TStruct ts)
  from TStruct.prems obtain vs cs where v: "v = VStruct vs" "c = CStruct cs" "holds_all k vs cs A"
    and ty: "list_all2 (\<lambda>P x. P x) (map has_layout ts) vs"
    by auto
  have each: "\<exists>t \<in> set ts. f = drop_glue t \<and> has_layout t u" if "(f, u) \<in> set (zip (map drop_glue ts) vs)" for f u
    using ty that by (auto simp: set_zip list_all2_conv_all_nth)
  have "drop_each (map drop_glue ts) cs k' = None"
  proof (rule drop_each_gone [OF v(3) _ TStruct.prems(3,4)])
    show "length (map drop_glue ts) = length vs" using list_all2_lengthD [OF ty] by simp
    show "f c' k' = None" if "(f, u) \<in> set (zip (map drop_glue ts) vs)" and "holds k u c' B" and "B \<noteq> {}"
      and "\<And>a. a \<in> B \<Longrightarrow> cells k' a = None" for f u c' B
      using each [OF that(1)] by (auto intro: TStruct.IH [OF _ _ that(2-4)])
    show "f c' k' = Some k'" if "(f, u) \<in> set (zip (map drop_glue ts) vs)" and "holds k u c' {}" for f u c'
      using each [OF that(1)] drop_nothing that(2) by blast
  qed
  with v show ?case by simp
next
  case (TSlice t)
  then show ?case by (cases "v = VSlice []") auto
next
  case (TBox t)
  then show ?case by auto
next
  case (TOption t)
  with is_none_iff [OF TOption.prems(2)] show ?case by auto
qed auto

section \<open>Boxes and destructors\<close>

text \<open>\<open>repr_c::Box::new(v)\<close>, and \<open>Box::into_raw(Box::new(self))\<close> of \<open>into_boxed_raw\<close>.\<close>

definition box_new :: "val \<Rightarrow> heap \<Rightarrow> cval \<times> heap" where
  "box_new v h = store_val (VBox v) h"

definition into_boxed_raw :: "val \<Rightarrow> heap \<Rightarrow> cval \<times> heap" where
  "into_boxed_raw v h = box_new v h"

text \<open>The macro \<open>destructor!(name, type)\<close>: takes the box and drops it.\<close>

definition destructor :: "layout \<Rightarrow> cval \<Rightarrow> heap \<Rightarrow> heap option" where
  "destructor t p h = drop_glue (TBox t) p h"

lemma box_new_holds:
  assumes "box_new v h = (p, h')" and "heap_ok h"
  obtains A where "grows h h' A" and "holds h' (VBox v) p A" and "heap_ok h'" and "A \<noteq> {}"
proof -
  from store_holds(1) [OF assms(1) [unfolded box_new_def]] obtain A
    where A: "grows h h' A" "holds h' (VBox v) p A" by (elim exE conjE)
  from A(2) have "A \<noteq> {}" by (elim holds_elims(4)) simp
  then show thesis by (rule that [OF A grows_heap_ok [OF A(1) assms(2)]])
qed

text \<open>What is left of a heap after a value was stored and dropped: nothing but the counter.\<close>

lemma destructor_releases:
  assumes "box_new v h = (p, h')" and "heap_ok h" and "has_layout t v"
  shows "\<exists>h''. destructor t p h' = Some h'' \<and> cells h'' = cells h \<and> heap_ok h'' \<and>
    destructor t p h'' = None"
proof (rule box_new_holds [OF assms(1,2)])
  fix A
  assume A: "grows h h' A" "holds h' (VBox v) p A" "heap_ok h'" "A \<noteq> {}"
  have ty: "has_layout (TBox t) (VBox v)" using assms(3) by simp
  have "destructor t p h' = Some (without h' A)"
    unfolding destructor_def by (rule drop_holds [OF ty A(2)])
  moreover have "destructor t p (without h' A) = None"
    unfolding destructor_def by (rule drop_gone [OF ty A(2,4)]) simp
  ultimately show ?thesis
    using grows_without [OF A(1) assms(2)] heap_ok_without [OF A(3)] by blast
qed

end
