(* ===== verification/Util_Api.thy ===== *)
theory Util_Api
  imports Util_Types
begin

text \<open>
  \<open>rust/src/util/api.rs\<close>: the logger that is initialised at most once, by the first call
  of any exported function or by \<open>init_log_fd\<close>, and the list of GPU devices. The
  properties are about the order of the calls and about who closes the descriptor that
  \<open>init_log_fd\<close> is given.
\<close>

text \<open>
  \<open>File::from_raw_fd\<close> takes the descriptor over. \<open>None\<close>, and a \<open>Once\<close> that is
  poisoned, drop the \<open>File\<close> and so close it; otherwise it moves into the logger.
\<close>

definition init_log_with_file :: "'s logger \<Rightarrow> i32 \<Rightarrow> ('s world, unit option) io" where
  "init_log_with_file L fd w =
     (if log_init w = Completed
      then bind_io (drop_file fd) (\<lambda>_. ret None) w
      else (case call_once (lift_ext (fil_logger_init_with_file L fd)) w of
              (Returns _, w') \<Rightarrow> (Returns (Some ()), w')
            | (Panics p, w') \<Rightarrow>
                (Panics p, if log_init w = Poisoned then snd (drop_file fd w') else w')
            | (Undefined, w') \<Rightarrow> (Undefined, w')))"

definition active_logger_msg :: string where
  "active_logger_msg =
     ''There is already an active logger. `init_log_fd()` needs to be called before any other FFI function is called.''"

definition init_log_fd :: "'s logger \<Rightarrow> i32 \<Rightarrow> ('s world, unit Result) io" where
  "init_log_fd L log_fd =
     catch_panic_response_no_log ()
       (bind_io (init_log_with_file L log_fd) (\<lambda>r.
          if r = None then ret (Inl (AnyhowMsg active_logger_msg)) else ret (Inr ())))"

text \<open>\<open>rust_gpu_tools::Device::all()\<close> and \<open>name()\<close> give the device names.\<close>

definition get_gpu_devices ::
    "'s logger \<Rightarrow> ('s, string list) io \<Rightarrow> ('s world, bytes list Result) io" where
  "get_gpu_devices L device_names =
     catch_panic_response L [] ''get_gpu_devices''
       (bind_io (lift_ext device_names) (\<lambda>devices. ret (Inr (map str_bytes devices))))"

lemmas util_api_defs [ffi_defs] =
  init_log_with_file_def init_log_fd_def get_gpu_devices_def drop_file_def

section \<open>The logger is initialised once\<close>

lemma lift_ext_log_init: "lift_ext m w = (x, w') \<Longrightarrow> log_init w' = log_init w"
  by (auto simp: lift_ext_def split: prod.splits)

lemma info_log_init: "info L m w = (x, w') \<Longrightarrow> log_init w' = log_init w"
  by (simp add: info_def lift_ext_log_init)

lemma call_once_log_init:
  assumes "call_once f w = (x, w')"
  shows "x = Returns y \<Longrightarrow> log_init w' = Completed"
    and "x = Panics p \<Longrightarrow> log_init w' = Poisoned"
    and "log_init w \<noteq> Incomplete \<Longrightarrow> log_init w' = log_init w"
  using assms by (auto simp: call_once_def split: once_state.splits prod.splits exec.splits)

text \<open>Every callback of the library leaves \<open>LOG_INIT\<close> alone.\<close>

lemma keeps_log_init_intros:
  "keeps log_init (lift_ext m)"
  "keeps log_init (drop_file fd)"
  by (auto simp: keeps_def drop_file_def lift_ext_log_init)

text \<open>After a guarded call that comes back, the \<open>Once\<close> has run.\<close>

lemma logged_log_init:
  assumes "logged L name cb w = (x, w')" and "keeps log_init cb" and "x \<noteq> Undefined"
  shows "log_init w' \<noteq> Incomplete"
proof -
  have once: "log_init v \<noteq> Incomplete" if "init_log L w = (y, v)" and "y \<noteq> Undefined" for y v
    using that call_once_log_init(1,2) [OF that(1) [unfolded init_log_def]] by (cases y) auto
  have keep: "cb u = (y, v) \<Longrightarrow> log_init v = log_init u" for u y v
    using assms(2) by (auto dest: keepsD)
  from assms(1,3) show ?thesis
    unfolding logged_def
    by (auto elim!: bind_io_cases simp: ret_def dest!: info_log_init keep dest: once)
qed

lemma guarded_log_init:
  assumes "catch_panic_response L d name cb w = (Returns r, w')" and "keeps log_init cb"
  shows "log_init w' \<noteq> Incomplete"
proof -
  let ?cb = "bind_io cb (\<lambda>r. ret (Result_from d (map_err_string r)))"
  have keep: "keeps log_init ?cb"
    using assms(2) by auto
  show ?thesis
    using assms(1) unfolding catch_panic_response_def catch_panic_response_raw_def
    by (rule_tac raw_no_log_cases [of "logged L name ?cb" w d])
       (auto dest!: logged_log_init [OF _ keep])
qed

text \<open>With the \<open>Once\<close> no longer fresh, \<open>init_log_fd\<close> fails and closes what it was given.\<close>

lemma init_log_fd_late:
  assumes "log_init w \<noteq> Incomplete"
  shows "\<exists>m. init_log_fd L fd w =
           (Returns (Result_err () m), w\<lparr>open_fds := (open_fds w)(fd := False)\<rparr>) \<and>
         m = str_bytes (if log_init w = Completed then active_logger_msg
             else ''Rust panic: Once instance has previously been poisoned'')"
  using assms
  by (cases "log_init w")
     (simp_all add: init_log_fd_def init_log_with_file_def call_once_def guard_defs result_defs
        drop_file_def bind_io_def ret_def panic_text_def)

text \<open>As the first call it succeeds: the descriptor moves into the logger and stays open.\<close>

lemma init_log_fd_fresh:
  assumes "log_init w = Incomplete"
    and "fil_logger_init_with_file L fd (ext w) = (Returns (), e)"
  shows "init_log_fd L fd w = (Returns (Result_ok ()), w\<lparr>log_init := Completed, ext := e\<rparr>)"
  using assms
  by (simp add: init_log_fd_def init_log_with_file_def call_once_def guard_defs
        lift_ext_def bind_io_def ret_def Result_from_def)

section \<open>Properties\<close>

text \<open>\<open>init_log_fd\<close> works before every other exported function only. Once a guarded call has
  come back, it answers with an error, does not change the logger, and has closed the
  descriptor that the caller passed in.\<close>
lemma init_log_fd_after_call:
  assumes "catch_panic_response L d name cb w = (Returns r, w')" and "keeps log_init cb"
  shows "\<exists>m. init_log_fd L fd w' =
    (Returns (Result_err () m), w'\<lparr>open_fds := (open_fds w')(fd := False)\<rparr>)"
  using init_log_fd_late [OF guarded_log_init [OF assms]] by blast

lemma init_log_fd_after_call_instance:
  "\<exists>m. init_log_fd silent_logger 3 (snd (get_gpu_devices silent_logger (ret [''gpu'']) fresh_world)) =
    (Returns (Result_err () m),
     fresh_world\<lparr>log_init := Completed, ext := [''get_gpu_devices: start'', ''get_gpu_devices: end''],
       open_fds := (\<lambda>_. True)(3 := False)\<rparr>)"
proof -
  let ?cb = "bind_io (lift_ext (ret [''gpu''])) (\<lambda>ds. ret (Inr (map str_bytes ds)))
    :: (string list world, anyhow + bytes list) io"
  let ?w = "fresh_world\<lparr>log_init := Completed, ext := [''get_gpu_devices: start'', ''get_gpu_devices: end'']\<rparr>"
  have run: "catch_panic_response silent_logger [] ''get_gpu_devices'' ?cb fresh_world =
      (Returns (Result_ok [str_bytes ''gpu'']), ?w)"
    by (simp add: guard_defs bind_io_def ret_def silent_logger_def fresh_world_def Result_from_def)
  have "keeps log_init ?cb" by (auto intro: keeps_log_init_intros)
  from init_log_fd_after_call [OF run this, of 3] run show ?thesis
    by (simp add: get_gpu_devices_def fresh_world_def)
qed

end
