(* ===== verification/Proofs_Types.thy ===== *)
theory Proofs_Types
  imports Util_Api
begin

text \<open>
  \<open>rust/src/proofs/types.rs\<close> and \<open>helpers.rs\<close>: the enums and structs that cross the C
  boundary of the proofs module, their conversions to and from the types of
  \<open>filecoin_proofs_api\<close>, their defaults, and the maps of replicas that the PoSt functions
  build from a slice. A 32-byte array is a list of bytes; the API's enums have the
  constructors that the exhaustive matches of the conversions name.
\<close>

section \<open>Registered proofs\<close>

subsection \<open>\<open>RegisteredSealProof\<close>\<close>

datatype RegisteredSealProof =
    StackedDrg2KiBV1
  | StackedDrg8MiBV1
  | StackedDrg512MiBV1
  | StackedDrg32GiBV1
  | StackedDrg64GiBV1
  | StackedDrg2KiBV1_1
  | StackedDrg8MiBV1_1
  | StackedDrg512MiBV1_1
  | StackedDrg32GiBV1_1
  | StackedDrg64GiBV1_1

datatype api_RegisteredSealProof =
    StackedDrg2KiBV1
  | StackedDrg8MiBV1
  | StackedDrg512MiBV1
  | StackedDrg32GiBV1
  | StackedDrg64GiBV1
  | StackedDrg2KiBV1_1
  | StackedDrg8MiBV1_1
  | StackedDrg512MiBV1_1
  | StackedDrg32GiBV1_1
  | StackedDrg64GiBV1_1

fun from_api_seal :: "api_RegisteredSealProof \<Rightarrow> RegisteredSealProof" where
  "from_api_seal api_RegisteredSealProof.StackedDrg2KiBV1 = RegisteredSealProof.StackedDrg2KiBV1"
| "from_api_seal api_RegisteredSealProof.StackedDrg8MiBV1 = RegisteredSealProof.StackedDrg8MiBV1"
| "from_api_seal api_RegisteredSealProof.StackedDrg512MiBV1 = RegisteredSealProof.StackedDrg512MiBV1"
| "from_api_seal api_RegisteredSealProof.StackedDrg32GiBV1 = RegisteredSealProof.StackedDrg32GiBV1"
| "from_api_seal api_RegisteredSealProof.StackedDrg64GiBV1 = RegisteredSealProof.StackedDrg64GiBV1"
| "from_api_seal api_RegisteredSealProof.StackedDrg2KiBV1_1 = RegisteredSealProof.StackedDrg2KiBV1_1"
| "from_api_seal api_RegisteredSealProof.StackedDrg8MiBV1_1 = RegisteredSealProof.StackedDrg8MiBV1_1"
| "from_api_seal api_RegisteredSealProof.StackedDrg512MiBV1_1 = RegisteredSealProof.StackedDrg512MiBV1_1"
| "from_api_seal api_RegisteredSealProof.StackedDrg32GiBV1_1 = RegisteredSealProof.StackedDrg32GiBV1_1"
| "from_api_seal api_RegisteredSealProof.StackedDrg64GiBV1_1 = RegisteredSealProof.StackedDrg64GiBV1_1"

fun to_api_seal :: "RegisteredSealProof \<Rightarrow> api_RegisteredSealProof" where
  "to_api_seal RegisteredSealProof.StackedDrg2KiBV1 = api_RegisteredSealProof.StackedDrg2KiBV1"
| "to_api_seal RegisteredSealProof.StackedDrg8MiBV1 = api_RegisteredSealProof.StackedDrg8MiBV1"
| "to_api_seal RegisteredSealProof.StackedDrg512MiBV1 = api_RegisteredSealProof.StackedDrg512MiBV1"
| "to_api_seal RegisteredSealProof.StackedDrg32GiBV1 = api_RegisteredSealProof.StackedDrg32GiBV1"
| "to_api_seal RegisteredSealProof.StackedDrg64GiBV1 = api_RegisteredSealProof.StackedDrg64GiBV1"
| "to_api_seal RegisteredSealProof.StackedDrg2KiBV1_1 = api_RegisteredSealProof.StackedDrg2KiBV1_1"
| "to_api_seal RegisteredSealProof.StackedDrg8MiBV1_1 = api_RegisteredSealProof.StackedDrg8MiBV1_1"
| "to_api_seal RegisteredSealProof.StackedDrg512MiBV1_1 = api_RegisteredSealProof.StackedDrg512MiBV1_1"
| "to_api_seal RegisteredSealProof.StackedDrg32GiBV1_1 = api_RegisteredSealProof.StackedDrg32GiBV1_1"
| "to_api_seal RegisteredSealProof.StackedDrg64GiBV1_1 = api_RegisteredSealProof.StackedDrg64GiBV1_1"

subsection \<open>\<open>RegisteredPoStProof\<close>\<close>

datatype RegisteredPoStProof =
    StackedDrgWinning2KiBV1
  | StackedDrgWinning8MiBV1
  | StackedDrgWinning512MiBV1
  | StackedDrgWinning32GiBV1
  | StackedDrgWinning64GiBV1
  | StackedDrgWindow2KiBV1
  | StackedDrgWindow8MiBV1
  | StackedDrgWindow512MiBV1
  | StackedDrgWindow32GiBV1
  | StackedDrgWindow64GiBV1

datatype api_RegisteredPoStProof =
    StackedDrgWinning2KiBV1
  | StackedDrgWinning8MiBV1
  | StackedDrgWinning512MiBV1
  | StackedDrgWinning32GiBV1
  | StackedDrgWinning64GiBV1
  | StackedDrgWindow2KiBV1
  | StackedDrgWindow8MiBV1
  | StackedDrgWindow512MiBV1
  | StackedDrgWindow32GiBV1
  | StackedDrgWindow64GiBV1

fun from_api_post :: "api_RegisteredPoStProof \<Rightarrow> RegisteredPoStProof" where
  "from_api_post api_RegisteredPoStProof.StackedDrgWinning2KiBV1 = RegisteredPoStProof.StackedDrgWinning2KiBV1"
| "from_api_post api_RegisteredPoStProof.StackedDrgWinning8MiBV1 = RegisteredPoStProof.StackedDrgWinning8MiBV1"
| "from_api_post api_RegisteredPoStProof.StackedDrgWinning512MiBV1 = RegisteredPoStProof.StackedDrgWinning512MiBV1"
| "from_api_post api_RegisteredPoStProof.StackedDrgWinning32GiBV1 = RegisteredPoStProof.StackedDrgWinning32GiBV1"
| "from_api_post api_RegisteredPoStProof.StackedDrgWinning64GiBV1 = RegisteredPoStProof.StackedDrgWinning64GiBV1"
| "from_api_post api_RegisteredPoStProof.StackedDrgWindow2KiBV1 = RegisteredPoStProof.StackedDrgWindow2KiBV1"
| "from_api_post api_RegisteredPoStProof.StackedDrgWindow8MiBV1 = RegisteredPoStProof.StackedDrgWindow8MiBV1"
| "from_api_post api_RegisteredPoStProof.StackedDrgWindow512MiBV1 = RegisteredPoStProof.StackedDrgWindow512MiBV1"
| "from_api_post api_RegisteredPoStProof.StackedDrgWindow32GiBV1 = RegisteredPoStProof.StackedDrgWindow32GiBV1"
| "from_api_post api_RegisteredPoStProof.StackedDrgWindow64GiBV1 = RegisteredPoStProof.StackedDrgWindow64GiBV1"

fun to_api_post :: "RegisteredPoStProof \<Rightarrow> api_RegisteredPoStProof" where
  "to_api_post RegisteredPoStProof.StackedDrgWinning2KiBV1 = api_RegisteredPoStProof.StackedDrgWinning2KiBV1"
| "to_api_post RegisteredPoStProof.StackedDrgWinning8MiBV1 = api_RegisteredPoStProof.StackedDrgWinning8MiBV1"
| "to_api_post RegisteredPoStProof.StackedDrgWinning512MiBV1 = api_RegisteredPoStProof.StackedDrgWinning512MiBV1"
| "to_api_post RegisteredPoStProof.StackedDrgWinning32GiBV1 = api_RegisteredPoStProof.StackedDrgWinning32GiBV1"
| "to_api_post RegisteredPoStProof.StackedDrgWinning64GiBV1 = api_RegisteredPoStProof.StackedDrgWinning64GiBV1"
| "to_api_post RegisteredPoStProof.StackedDrgWindow2KiBV1 = api_RegisteredPoStProof.StackedDrgWindow2KiBV1"
| "to_api_post RegisteredPoStProof.StackedDrgWindow8MiBV1 = api_RegisteredPoStProof.StackedDrgWindow8MiBV1"
| "to_api_post RegisteredPoStProof.StackedDrgWindow512MiBV1 = api_RegisteredPoStProof.StackedDrgWindow512MiBV1"
| "to_api_post RegisteredPoStProof.StackedDrgWindow32GiBV1 = api_RegisteredPoStProof.StackedDrgWindow32GiBV1"
| "to_api_post RegisteredPoStProof.StackedDrgWindow64GiBV1 = api_RegisteredPoStProof.StackedDrgWindow64GiBV1"

subsection \<open>\<open>RegisteredAggregationProof\<close>\<close>

datatype RegisteredAggregationProof =
    SnarkPackV1

datatype api_RegisteredAggregationProof =
    SnarkPackV1

fun from_api_aggregation :: "api_RegisteredAggregationProof \<Rightarrow> RegisteredAggregationProof" where
  "from_api_aggregation api_RegisteredAggregationProof.SnarkPackV1 = RegisteredAggregationProof.SnarkPackV1"

fun to_api_aggregation :: "RegisteredAggregationProof \<Rightarrow> api_RegisteredAggregationProof" where
  "to_api_aggregation RegisteredAggregationProof.SnarkPackV1 = api_RegisteredAggregationProof.SnarkPackV1"

subsection \<open>\<open>RegisteredUpdateProof\<close>\<close>

datatype RegisteredUpdateProof =
    StackedDrg2KiBV1
  | StackedDrg8MiBV1
  | StackedDrg512MiBV1
  | StackedDrg32GiBV1
  | StackedDrg64GiBV1

datatype api_RegisteredUpdateProof =
    StackedDrg2KiBV1
  | StackedDrg8MiBV1
  | StackedDrg512MiBV1
  | StackedDrg32GiBV1
  | StackedDrg64GiBV1

fun from_api_update :: "api_RegisteredUpdateProof \<Rightarrow> RegisteredUpdateProof" where
  "from_api_update api_RegisteredUpdateProof.StackedDrg2KiBV1 = RegisteredUpdateProof.StackedDrg2KiBV1"
| "from_api_update api_RegisteredUpdateProof.StackedDrg8MiBV1 = RegisteredUpdateProof.StackedDrg8MiBV1"
| "from_api_update api_RegisteredUpdateProof.StackedDrg512MiBV1 = RegisteredUpdateProof.StackedDrg512MiBV1"
| "from_api_update api_RegisteredUpdateProof.StackedDrg32GiBV1 = RegisteredUpdateProof.StackedDrg32GiBV1"
| "from_api_update api_RegisteredUpdateProof.StackedDrg64GiBV1 = RegisteredUpdateProof.StackedDrg64GiBV1"

fun to_api_update :: "RegisteredUpdateProof \<Rightarrow> api_RegisteredUpdateProof" where
  "to_api_update RegisteredUpdateProof.StackedDrg2KiBV1 = api_RegisteredUpdateProof.StackedDrg2KiBV1"
| "to_api_update RegisteredUpdateProof.StackedDrg8MiBV1 = api_RegisteredUpdateProof.StackedDrg8MiBV1"
| "to_api_update RegisteredUpdateProof.StackedDrg512MiBV1 = api_RegisteredUpdateProof.StackedDrg512MiBV1"
| "to_api_update RegisteredUpdateProof.StackedDrg32GiBV1 = api_RegisteredUpdateProof.StackedDrg32GiBV1"
| "to_api_update RegisteredUpdateProof.StackedDrg64GiBV1 = api_RegisteredUpdateProof.StackedDrg64GiBV1"

section \<open>Structs\<close>

type_synonym path = bytes
type_synonym array32 = bytes

definition zero32 :: array32 where "zero32 = replicate 32 0"

record PublicPieceInfo =
  num_bytes :: u64
  comm_p :: array32

record api_PieceInfo =
  commitment :: array32
  piece_size :: u64

definition to_api_piece :: "PublicPieceInfo \<Rightarrow> api_PieceInfo" where
  "to_api_piece x = \<lparr>commitment = comm_p x, piece_size = num_bytes x\<rparr>"

record ApiPoStProof =
  api_registered_proof :: api_RegisteredPoStProof
  api_proof :: bytes

record PoStProof =
  post_registered_proof :: RegisteredPoStProof
  post_proof :: bytes

definition PoStProof_default :: PoStProof where
  "PoStProof_default = \<lparr>post_registered_proof = RegisteredPoStProof.StackedDrgWindow32GiBV1, post_proof = []\<rparr>"

definition to_api_post_proof :: "PoStProof \<Rightarrow> ApiPoStProof" where
  "to_api_post_proof p =
     \<lparr>api_registered_proof = to_api_post (post_registered_proof p), api_proof = post_proof p\<rparr>"

record ApiPartitionSnarkProof =
  api_partition_registered_proof :: api_RegisteredPoStProof
  api_partition_proof :: bytes

record PartitionSnarkProof =
  partition_registered_proof :: RegisteredPoStProof
  partition_proof_bytes :: bytes

definition PartitionSnarkProof_default :: PartitionSnarkProof where
  "PartitionSnarkProof_default =
     \<lparr>partition_registered_proof = RegisteredPoStProof.StackedDrgWindow32GiBV1, partition_proof_bytes = []\<rparr>"

definition to_api_partition_snark_proof :: "PartitionSnarkProof \<Rightarrow> ApiPartitionSnarkProof" where
  "to_api_partition_snark_proof p =
     \<lparr>api_partition_registered_proof = to_api_post (partition_registered_proof p),
      api_partition_proof = partition_proof_bytes p\<rparr>"

record PrivateReplicaInfo =
  pri_registered_proof :: RegisteredPoStProof
  pri_cache_dir_path :: bytes
  pri_comm_r :: array32
  pri_replica_path :: bytes
  pri_sector_id :: u64

record PublicReplicaInfo =
  pub_registered_proof :: RegisteredPoStProof
  pub_comm_r :: array32
  pub_sector_id :: u64

record GenerateFallbackSectorChallenges =
  fb_ids :: "u64 list"
  fb_challenges :: "u64 list list"

definition GenerateFallbackSectorChallenges_default :: GenerateFallbackSectorChallenges where
  "GenerateFallbackSectorChallenges_default = \<lparr>fb_ids = [], fb_challenges = []\<rparr>"

record GenerateWindowPoSt =
  wp_proofs :: "PoStProof list"
  wp_faulty_sectors :: "u64 list"

definition GenerateWindowPoSt_default :: GenerateWindowPoSt where
  "GenerateWindowPoSt_default = \<lparr>wp_proofs = [], wp_faulty_sectors = []\<rparr>"

record GenerateSingleWindowPoStWithVanilla =
  sw_partition_proof :: PartitionSnarkProof
  single_faulty_sectors :: "u64 list"

definition GenerateSingleWindowPoStWithVanilla_default :: GenerateSingleWindowPoStWithVanilla where
  "GenerateSingleWindowPoStWithVanilla_default =
     \<lparr>sw_partition_proof = PartitionSnarkProof_default, single_faulty_sectors = []\<rparr>"

record WriteWithAlignment =
  wwa_comm_p :: array32
  left_alignment_unpadded :: u64
  wwa_total_write_unpadded :: u64

definition WriteWithAlignment_default :: WriteWithAlignment where
  "WriteWithAlignment_default =
     \<lparr>wwa_comm_p = zero32, left_alignment_unpadded = 0, wwa_total_write_unpadded = 0\<rparr>"

record WriteWithoutAlignment =
  wwo_comm_p :: array32
  wwo_total_write_unpadded :: u64

definition WriteWithoutAlignment_default :: WriteWithoutAlignment where
  "WriteWithoutAlignment_default = \<lparr>wwo_comm_p = zero32, wwo_total_write_unpadded = 0\<rparr>"

record SealPreCommitPhase2 =
  spc2_registered_proof :: RegisteredSealProof
  spc2_comm_d :: array32
  spc2_comm_r :: array32

definition SealPreCommitPhase2_default :: SealPreCommitPhase2 where
  "SealPreCommitPhase2_default =
     \<lparr>spc2_registered_proof = RegisteredSealProof.StackedDrg2KiBV1_1, spc2_comm_d = zero32, spc2_comm_r = zero32\<rparr>"

record AggregationInputs =
  ai_comm_r :: array32
  ai_comm_d :: array32
  ai_sector_id :: u64
  ai_ticket :: array32
  ai_seed :: array32

record GeneratePieceCommitment =
  gpc_comm_p :: array32
  num_bytes_aligned :: u64

definition GeneratePieceCommitment_default :: GeneratePieceCommitment where
  "GeneratePieceCommitment_default = \<lparr>gpc_comm_p = zero32, num_bytes_aligned = 0\<rparr>"

record EmptySectorUpdateEncodeInto =
  upd_comm_r_new :: array32
  upd_comm_r_last_new :: array32
  upd_comm_d_new :: array32

definition EmptySectorUpdateEncodeInto_default :: EmptySectorUpdateEncodeInto where
  "EmptySectorUpdateEncodeInto_default =
     \<lparr>upd_comm_r_new = zero32, upd_comm_r_last_new = zero32, upd_comm_d_new = zero32\<rparr>"

section \<open>Replica maps\<close>

record api_PublicReplicaInfo =
  api_pub_proof :: api_RegisteredPoStProof
  api_pub_comm_r :: array32

record api_PrivateReplicaInfo =
  api_pri_proof :: api_RegisteredPoStProof
  api_pri_comm_r :: array32
  api_pri_cache_dir :: path
  api_pri_replica_path :: path

text \<open>Collecting pairs into a \<open>BTreeMap\<close>, in the order of the slice: a later pair replaces an
  earlier one with the same key. Rayon collects the pairs in that order too.\<close>

definition collect_map :: "('k \<times> 'v) list \<Rightarrow> 'k \<rightharpoonup> 'v" where
  "collect_map kvs = foldl (\<lambda>m (k, v). m(k \<mapsto> v)) Map.empty kvs"

definition public_replica :: "PublicReplicaInfo \<Rightarrow> u64 \<times> api_PublicReplicaInfo" where
  "public_replica ffi_info =
     (pub_sector_id ffi_info,
      \<lparr>api_pub_proof = to_api_post (pub_registered_proof ffi_info), api_pub_comm_r = pub_comm_r ffi_info\<rparr>)"

definition to_public_replica_info_map :: "PublicReplicaInfo list \<Rightarrow> u64 \<rightharpoonup> api_PublicReplicaInfo" where
  "to_public_replica_info_map replicas = collect_map (map public_replica replicas)"

definition private_replica :: "PrivateReplicaInfo \<Rightarrow> anyhow + u64 \<times> api_PrivateReplicaInfo" where
  "private_replica ffi_info =
     (case as_path_buf (pri_cache_dir_path ffi_info) of
        Inl e \<Rightarrow> Inl e
      | Inr cache_dir_path \<Rightarrow>
          (case as_path_buf (pri_replica_path ffi_info) of
             Inl e \<Rightarrow> Inl e
           | Inr replica_path \<Rightarrow>
               Inr (pri_sector_id ffi_info,
                 \<lparr>api_pri_proof = to_api_post (pri_registered_proof ffi_info), api_pri_comm_r = pri_comm_r ffi_info,
                  api_pri_cache_dir = cache_dir_path, api_pri_replica_path = replica_path\<rparr>)))"

definition to_private_replica_info_map ::
    "PrivateReplicaInfo list \<Rightarrow> anyhow + (u64 \<rightharpoonup> api_PrivateReplicaInfo)" where
  "to_private_replica_info_map replicas =
     (case collect_results (map private_replica replicas) of
        Inl e \<Rightarrow> Inl e
      | Inr kvs \<Rightarrow> Inr (collect_map kvs))"

section \<open>Lemmas\<close>

lemma collect_map_eq: "collect_map kvs = map_of (rev kvs)"
proof -
  have "foldl (\<lambda>m (k, v). m(k \<mapsto> v)) m kvs = m ++ map_of (rev kvs)" for m
    by (induction kvs arbitrary: m) auto
  then show ?thesis by (simp add: collect_map_def)
qed

lemma dom_collect_map: "dom (collect_map kvs) = fst ` set kvs"
  by (simp add: collect_map_eq dom_map_of_conv_image_fst)

lemma collect_map_last: "k \<notin> fst ` set later \<Longrightarrow> collect_map (earlier @ (k, v) # later) k = Some v"
  by (simp add: collect_map_eq map_add_def map_of_eq_None_iff [THEN iffD2])

text \<open>What the proofs module relies on for each of the enums: the two conversions are inverse.\<close>

locale api_enum =
  fixes to_api :: "'a \<Rightarrow> 'b" and from_api :: "'b \<Rightarrow> 'a"
  assumes from_to: "from_api (to_api x) = x" and to_from: "to_api (from_api y) = y"
begin

lemma bij_to_api: "bij to_api"
  by (rule o_bij [of from_api]) (simp_all add: fun_eq_iff from_to to_from)

lemma to_api_eq_iff: "to_api x = to_api x' \<longleftrightarrow> x = x'"
  by (metis from_to)

end

interpretation seal_enum: api_enum to_api_seal from_api_seal
proof unfold_locales
  show "from_api_seal (to_api_seal x) = x" for x by (cases x) simp_all
  show "to_api_seal (from_api_seal y) = y" for y by (cases y) simp_all
qed

interpretation post_enum: api_enum to_api_post from_api_post
proof unfold_locales
  show "from_api_post (to_api_post x) = x" for x by (cases x) simp_all
  show "to_api_post (from_api_post y) = y" for y by (cases y) simp_all
qed

interpretation aggregation_enum: api_enum to_api_aggregation from_api_aggregation
proof unfold_locales
  show "from_api_aggregation (to_api_aggregation x) = x" for x by (cases x) simp_all
  show "to_api_aggregation (from_api_aggregation y) = y" for y by (cases y) simp_all
qed

interpretation update_enum: api_enum to_api_update from_api_update
proof unfold_locales
  show "from_api_update (to_api_update x) = x" for x by (cases x) simp_all
  show "to_api_update (from_api_update y) = y" for y by (cases y) simp_all
qed

lemma private_replica_ok:
  "private_replica ffi_info = Inr (pri_sector_id ffi_info,
     \<lparr>api_pri_proof = to_api_post (pri_registered_proof ffi_info), api_pri_comm_r = pri_comm_r ffi_info,
      api_pri_cache_dir = pri_cache_dir_path ffi_info, api_pri_replica_path = pri_replica_path ffi_info\<rparr>)"
  by (simp add: private_replica_def as_path_buf_def)

section \<open>Properties\<close>

text \<open>The four enums of registered proofs translate to the API's enums and back without loss,
  in both directions.\<close>
lemma registered_proofs_roundtrip:
  "from_api_seal (to_api_seal p) = p \<and> to_api_seal (from_api_seal a) = a \<and>
   from_api_post (to_api_post q) = q \<and> to_api_post (from_api_post b) = b \<and>
   from_api_aggregation (to_api_aggregation r) = r \<and> to_api_aggregation (from_api_aggregation c) = c \<and>
   from_api_update (to_api_update s) = s \<and> to_api_update (from_api_update d) = d"
  by (simp add: seal_enum.from_to seal_enum.to_from post_enum.from_to post_enum.to_from
      aggregation_enum.from_to aggregation_enum.to_from update_enum.from_to update_enum.to_from)

text \<open>The replica maps have exactly the sectors of the slice; the last entry of a sector number
  is the one that counts, whatever came before it; no path is refused.\<close>
lemma replica_maps:
  "dom (to_public_replica_info_map pubs) = pub_sector_id ` set pubs \<and>
   (pub_sector_id p \<notin> pub_sector_id ` set later \<longrightarrow>
      to_public_replica_info_map (pubs @ p # later) (pub_sector_id p) = Some (snd (public_replica p))) \<and>
   (\<exists>m. to_private_replica_info_map pris = Inr m \<and> dom m = pri_sector_id ` set pris \<and>
      (\<forall>k. m k = map_of (rev (map (\<lambda>i. (pri_sector_id i, snd (projr (private_replica i)))) pris)) k))"
proof -
  have pub: "map public_replica xs = map (\<lambda>i. (pub_sector_id i, snd (public_replica i))) xs" for xs
    by (simp add: public_replica_def)
  have pri: "map private_replica pris =
      map (\<lambda>i. Inr (pri_sector_id i, snd (projr (private_replica i)))) pris"
    by (simp add: private_replica_ok)
  have "dom (to_public_replica_info_map pubs) = pub_sector_id ` set pubs"
    unfolding to_public_replica_info_map_def pub by (simp add: dom_collect_map image_image)
  moreover have "to_public_replica_info_map (pubs @ p # later) (pub_sector_id p) = Some (snd (public_replica p))"
    if "pub_sector_id p \<notin> pub_sector_id ` set later"
    unfolding to_public_replica_info_map_def pub
    using that by (simp add: collect_map_last image_image)
  moreover have "\<exists>m. to_private_replica_info_map pris = Inr m \<and> dom m = pri_sector_id ` set pris \<and>
      (\<forall>k. m k = map_of (rev (map (\<lambda>i. (pri_sector_id i, snd (projr (private_replica i)))) pris)) k)"
    unfolding to_private_replica_info_map_def pri collect_results_map_Inr
    by (simp add: dom_collect_map image_image) (simp add: collect_map_eq)
  ultimately show ?thesis by blast
qed

end
