(* ===== verification/Par_Reduce.thy ===== *)
theory Par_Reduce
  imports FFI_Prelude
begin

text \<open>
  The parallel reduction of the crate \<open>rayon\<close> that \<open>verify_aggregate_seal_proof\<close> runs over its
  inputs. The crate is a parameter; what it documents is the relation \<open>reduction\<close>, and a
  client whose operation is a monoid gets from it one value for every schedule of the
  threads (\<open>monoid_reduction\<close>).
\<close>

section \<open>What the crate documents\<close>

text \<open>\<open>par_iter().map(f).try_reduce(identity, op)\<close> of the crate \<open>rayon\<close>, as a parameter: from the
  outcomes of the mapped items to the outcome of the reduction.\<close>

type_synonym ('e, 'a) try_reduce = "'a \<Rightarrow> ('a \<Rightarrow> 'a \<Rightarrow> 'e + 'a) \<Rightarrow> ('e + 'a) exec list \<Rightarrow> ('e + 'a) exec"

definition failed :: "('e + 'a) exec \<Rightarrow> bool" where
  "failed x \<longleftrightarrow> (\<forall>a. x \<noteq> Returns (Inr a))"

text \<open>What the crate documents of it: the items are taken in any grouping that keeps their order,
  the identity is put in as needed, two adjacent partial results are combined by \<open>op\<close>, and
  as soon as a part fails (or panics) the rest may be left out and that failure is the outcome.\<close>

inductive reduction :: "'a \<Rightarrow> ('a \<Rightarrow> 'a \<Rightarrow> 'e + 'a) \<Rightarrow> ('e + 'a) exec list \<Rightarrow> ('e + 'a) exec \<Rightarrow> bool"
  for identity op where
  reduce_identity: "reduction identity op [] (Returns (Inr identity))"
| reduce_item: "reduction identity op [x] x"
| reduce_join: "reduction identity op xs (Returns (Inr a)) \<Longrightarrow> reduction identity op ys (Returns (Inr b)) \<Longrightarrow>
    reduction identity op (xs @ ys) (Returns (op a b))"
| reduce_left_fails: "reduction identity op xs x \<Longrightarrow> failed x \<Longrightarrow> reduction identity op (xs @ ys) x"
| reduce_right_fails: "reduction identity op ys y \<Longrightarrow> failed y \<Longrightarrow> reduction identity op (xs @ ys) y"

definition rayon_contract :: "('e, 'a) try_reduce \<Rightarrow> bool" where
  "rayon_contract try_reduce \<longleftrightarrow> (\<forall>identity op xs. reduction identity op xs (try_reduce identity op xs))"

text \<open>A client whose \<open>op\<close> never fails, is associative and has the identity as its unit gets the same
  value from every grouping.\<close>

locale monoid_reduction =
  fixes identity :: 'a and op :: "'a \<Rightarrow> 'a \<Rightarrow> 'e + 'a" and f :: "'a \<Rightarrow> 'a \<Rightarrow> 'a"
  assumes op_succeeds: "op a b = Inr (f a b)"
    and f_assoc: "f (f a b) c = f a (f b c)"
    and f_unit_left: "f identity a = a"
    and f_unit_right: "f a identity = a"
begin

lemma foldr_unit: "foldr f (vs @ us) identity = f (foldr f vs identity) (foldr f us identity)"
  by (induction vs) (simp_all add: f_assoc f_unit_left)

lemma reduction_outcome:
  "reduction identity op xs x \<Longrightarrow>
    (\<exists>vs. xs = map (\<lambda>v. Returns (Inr v)) vs \<and> x = Returns (Inr (foldr f vs identity))) \<or> (x \<in> set xs \<and> failed x)"
proof (induction rule: reduction.induct)
  case (reduce_item x)
  show ?case
  proof (cases "failed x")
    case False
    then obtain v where "x = Returns (Inr v)" by (auto simp: failed_def)
    then show ?thesis by (intro disjI1 exI [of _ "[v]"]) (simp add: f_unit_right)
  qed simp
next
  case (reduce_join xs a ys b)
  then obtain vs us where "xs = map (\<lambda>v. Returns (Inr v)) vs" "a = foldr f vs identity"
    and "ys = map (\<lambda>v. Returns (Inr v)) us" "b = foldr f us identity"
    by (auto simp: failed_def)
  then show ?case by (intro disjI1 exI [of _ "vs @ us"]) (simp only: op_succeeds foldr_unit map_append simp_thms)
qed (auto simp: failed_def)

end

text \<open>The reduction by one thread keeps the contract.\<close>

fun sequential :: "('e, 'a) try_reduce" where
  "sequential identity op [] = Returns (Inr identity)"
| "sequential identity op (Returns (Inr a) # xs) =
     (case sequential identity op xs of Returns (Inr b) \<Rightarrow> Returns (op a b) | x \<Rightarrow> x)"
| "sequential identity op (x # xs) = x"

lemma reduce_first: "failed x \<Longrightarrow> reduction identity op (x # xs) x"
  using reduce_left_fails [OF reduce_item, of x identity op xs] by simp

lemma sequential_contract: "rayon_contract sequential"
  unfolding rayon_contract_def
proof (intro allI)
  fix identity :: 'a and op :: "'a \<Rightarrow> 'a \<Rightarrow> 'e + 'a" and xs
  show "reduction identity op xs (sequential identity op xs)"
  proof (induction identity op xs rule: sequential.induct)
    case (2 identity op a xs)
    have item: "reduction identity op [Returns (Inr a)] (Returns (Inr a))" by (rule reduce_item)
    show ?case
    proof (cases "failed (sequential identity op xs)")
      case True
      from reduce_right_fails [OF 2 True, of "[Returns (Inr a)]"] True show ?thesis
        by (auto simp: failed_def split: exec.splits sum.splits)
    next
      case False
      then obtain b where b: "sequential identity op xs = Returns (Inr b)" by (auto simp: failed_def)
      from reduce_join [OF item 2 [unfolded b]] b show ?thesis by simp
    qed
  qed (simp_all add: reduce_identity reduce_first failed_def)
qed

end
