(* ===== verification/Proofs_Seal.thy ===== *)
theory Proofs_Seal
  imports Proofs_Types Par_Reduce
begin

text \<open>
  The sealing half of \<open>rust/src/proofs/api.rs\<close>: writing pieces, the four sealing phases,
  aggregation, unsealing, verification, commitments, and the accessors of registered seal
  proofs. Every exported function converts its arguments, calls one function of
  \<open>filecoin_proofs_api\<close> inside a panic guard and converts the result; the library is the
  record \<open>seal_lib\<close>, whose functions act on the state \<open>ext\<close> of the world (the file system
  and the caches), and cannot close a descriptor. The properties are about what reaches
  the library, what comes back, and who closes which descriptor.
\<close>

section \<open>The library\<close>

record SealPreCommitPhase2Output =
  out_registered_proof :: api_RegisteredSealProof
  out_comm_r :: array32
  out_comm_d :: array32

text \<open>\<open>'p1\<close> and \<open>'c1\<close> are the outputs of the first phases, which the caller holds as JSON;
  \<open>'fr\<close> is the scalar field. The accessors do not touch the state.\<close>

record ('s, 'p1, 'c1, 'fr) seal_lib =
  lib_add_piece :: "api_RegisteredSealProof \<Rightarrow> i32 \<Rightarrow> i32 \<Rightarrow> u64 \<Rightarrow> u64 list
    \<Rightarrow> ('s, anyhow + api_PieceInfo \<times> u64) io"
  lib_write_and_preprocess :: "api_RegisteredSealProof \<Rightarrow> i32 \<Rightarrow> i32 \<Rightarrow> u64
    \<Rightarrow> ('s, anyhow + api_PieceInfo \<times> u64) io"
  lib_fauxrep :: "api_RegisteredSealProof \<Rightarrow> path \<Rightarrow> path \<Rightarrow> ('s, anyhow + array32) io"
  lib_fauxrep2 :: "api_RegisteredSealProof \<Rightarrow> path \<Rightarrow> path \<Rightarrow> ('s, anyhow + array32) io"
  lib_seal_pre_commit_phase1 :: "api_RegisteredSealProof \<Rightarrow> path \<Rightarrow> path \<Rightarrow> path \<Rightarrow> array32 \<Rightarrow> u64
    \<Rightarrow> array32 \<Rightarrow> api_PieceInfo list \<Rightarrow> ('s, anyhow + 'p1) io"
  phase1_to_vec :: "'p1 \<Rightarrow> anyhow + bytes"
  phase1_from_slice :: "bytes \<Rightarrow> anyhow + 'p1"
  lib_seal_pre_commit_phase2 :: "'p1 \<Rightarrow> path \<Rightarrow> path \<Rightarrow> ('s, anyhow + SealPreCommitPhase2Output) io"
  lib_seal_commit_phase1 :: "path \<Rightarrow> path \<Rightarrow> array32 \<Rightarrow> u64 \<Rightarrow> array32 \<Rightarrow> array32
    \<Rightarrow> SealPreCommitPhase2Output \<Rightarrow> api_PieceInfo list \<Rightarrow> ('s, anyhow + 'c1) io"
  commit1_to_vec :: "'c1 \<Rightarrow> anyhow + bytes"
  commit1_from_slice :: "bytes \<Rightarrow> anyhow + 'c1"
  lib_seal_commit_phase2 :: "'c1 \<Rightarrow> array32 \<Rightarrow> u64 \<Rightarrow> ('s, anyhow + bytes) io"
  lib_aggregate_seal_commit_proofs :: "api_RegisteredSealProof \<Rightarrow> api_RegisteredAggregationProof
    \<Rightarrow> array32 list \<Rightarrow> array32 list \<Rightarrow> bytes list \<Rightarrow> ('s, anyhow + bytes) io"
  lib_get_seal_inputs :: "api_RegisteredSealProof \<Rightarrow> array32 \<Rightarrow> array32 \<Rightarrow> array32 \<Rightarrow> u64 \<Rightarrow> array32
    \<Rightarrow> array32 \<Rightarrow> (anyhow + 'fr list list) exec"
  lib_verify_aggregate :: "api_RegisteredSealProof \<Rightarrow> api_RegisteredAggregationProof \<Rightarrow> bytes
    \<Rightarrow> array32 list \<Rightarrow> array32 list \<Rightarrow> 'fr list list \<Rightarrow> ('s, anyhow + bool) io"
  lib_file_path :: "i32 \<Rightarrow> ('s, path option) io"
  lib_get_unsealed_range_mapped :: "api_RegisteredSealProof \<Rightarrow> path \<Rightarrow> path \<Rightarrow> i32 \<Rightarrow> array32 \<Rightarrow> u64
    \<Rightarrow> array32 \<Rightarrow> array32 \<Rightarrow> u64 \<Rightarrow> u64 \<Rightarrow> ('s, anyhow + u64) io"
  lib_verify_seal :: "api_RegisteredSealProof \<Rightarrow> array32 \<Rightarrow> array32 \<Rightarrow> array32 \<Rightarrow> u64 \<Rightarrow> array32
    \<Rightarrow> array32 \<Rightarrow> bytes \<Rightarrow> ('s, anyhow + bool) io"
  lib_generate_piece_commitment :: "api_RegisteredSealProof \<Rightarrow> i32 \<Rightarrow> u64 \<Rightarrow> ('s, anyhow + api_PieceInfo) io"
  lib_compute_comm_d :: "api_RegisteredSealProof \<Rightarrow> api_PieceInfo list \<Rightarrow> ('s, anyhow + array32) io"
  lib_clear_cache :: "u64 \<Rightarrow> path \<Rightarrow> ('s, anyhow + unit) io"
  lib_max_user_bytes :: "api_RegisteredSealProof \<Rightarrow> u64 exec"

section \<open>Writing pieces\<close>

definition alloc_boxed_slice :: "u64 \<Rightarrow> bytes" where
  "alloc_boxed_slice n = replicate (unat n) 0"

text \<open>A \<open>std::fs::File\<close> owns its descriptor and closes it when it is dropped; a \<open>ManuallyDrop\<close>
  does not drop what it holds; a \<open>FileDescriptorRef\<close> holds a \<open>File\<close> in a \<open>ManuallyDrop\<close>, and its drop
  glue is that of its field.\<close>

datatype File = File (file_fd: i32)

datatype 'a ManuallyDrop = ManuallyDrop (held: 'a)

datatype FileDescriptorRef = FileDescriptorRef (ref_file: "File ManuallyDrop")

definition drop_File :: "File \<Rightarrow> ('s world, unit) io" where
  "drop_File f = drop_file (file_fd f)"

definition drop_ManuallyDrop :: "('a \<Rightarrow> ('s world, unit) io) \<Rightarrow> 'a ManuallyDrop \<Rightarrow> ('s world, unit) io" where
  "drop_ManuallyDrop drop_held m = ret ()"

definition drop_FileDescriptorRef :: "FileDescriptorRef \<Rightarrow> ('s world, unit) io" where
  "drop_FileDescriptorRef r = drop_ManuallyDrop drop_File (ref_file r)"

definition FileDescriptorRef_new :: "i32 \<Rightarrow> FileDescriptorRef" where
  "FileDescriptorRef_new raw = FileDescriptorRef (ManuallyDrop (File raw))"

text \<open>The descriptor that reads, writes and seeks go to.\<close>

definition ref_fd :: "FileDescriptorRef \<Rightarrow> i32" where
  "ref_fd r = file_fd (held (ref_file r))"

text \<open>A call that takes the references by value drops them when it is left, by a return or a panic.\<close>

fun drop_all :: "FileDescriptorRef list \<Rightarrow> ('s world, unit) io" where
  "drop_all [] = ret ()"
| "drop_all (r # rs) = bind_io (drop_FileDescriptorRef r) (\<lambda>_. drop_all rs)"

definition moved_into :: "FileDescriptorRef list \<Rightarrow> ('s world, 'a) io \<Rightarrow> ('s world, 'a) io" where
  "moved_into refs call w =
     (case call w of
        (Returns a, w') \<Rightarrow> bind_io (drop_all refs) (\<lambda>_. ret a) w'
      | (Panics p, w') \<Rightarrow> bind_io (drop_all refs) (\<lambda>_. raise p) w'
      | (Undefined, w') \<Rightarrow> (Undefined, w'))"

text \<open>\<open>written - n\<close> is a 64-bit subtraction, which wraps in a release build.\<close>

definition write_with_alignment ::
    "'s logger \<Rightarrow> ('s, 'p1, 'c1, 'fr) seal_lib \<Rightarrow> RegisteredSealProof \<Rightarrow> i32 \<Rightarrow> u64 \<Rightarrow> i32 \<Rightarrow> u64 list
      \<Rightarrow> ('s world, WriteWithAlignment Result) io" where
  "write_with_alignment L S registered_proof src_fd src_size dst_fd existing_piece_sizes =
     catch_panic_response L WriteWithAlignment_default ''write_with_alignment''
       (let piece_sizes = existing_piece_sizes; n = src_size;
            src = FileDescriptorRef_new src_fd; dst = FileDescriptorRef_new dst_fd
        in try_io (moved_into [src, dst] (lift_ext (lib_add_piece S (to_api_seal registered_proof)
             (ref_fd src) (ref_fd dst) n piece_sizes))) (\<lambda>(piece, written).
           ret (Inr \<lparr>wwa_comm_p = commitment piece, left_alignment_unpadded = written - n,
                     wwa_total_write_unpadded = written\<rparr>)))"

definition write_without_alignment ::
    "'s logger \<Rightarrow> ('s, 'p1, 'c1, 'fr) seal_lib \<Rightarrow> RegisteredSealProof \<Rightarrow> i32 \<Rightarrow> u64 \<Rightarrow> i32
      \<Rightarrow> ('s world, WriteWithoutAlignment Result) io" where
  "write_without_alignment L S registered_proof src_fd src_size dst_fd =
     catch_panic_response L WriteWithoutAlignment_default ''write_without_alignment''
       (let src = FileDescriptorRef_new src_fd; dst = FileDescriptorRef_new dst_fd
        in try_io (moved_into [src, dst] (lift_ext (lib_write_and_preprocess S (to_api_seal registered_proof)
             (ref_fd src) (ref_fd dst) src_size))) (\<lambda>(piece, written).
           ret (Inr \<lparr>wwo_comm_p = commitment piece, wwo_total_write_unpadded = written\<rparr>)))"

definition fauxrep ::
    "'s logger \<Rightarrow> ('s, 'p1, 'c1, 'fr) seal_lib \<Rightarrow> RegisteredSealProof \<Rightarrow> bytes \<Rightarrow> bytes
      \<Rightarrow> ('s world, array32 Result) io" where
  "fauxrep L S registered_proof cache_dir_path sealed_sector_path =
     catch_panic_response L zero32 ''fauxrep''
       (try_val (as_path_buf cache_dir_path) (\<lambda>cache_dir.
        try_val (as_path_buf sealed_sector_path) (\<lambda>sealed_sector.
        try_io (lift_ext (lib_fauxrep S (to_api_seal registered_proof) cache_dir sealed_sector)) (\<lambda>res.
        ret (Inr res)))))"

definition fauxrep2 ::
    "'s logger \<Rightarrow> ('s, 'p1, 'c1, 'fr) seal_lib \<Rightarrow> RegisteredSealProof \<Rightarrow> bytes \<Rightarrow> bytes
      \<Rightarrow> ('s world, array32 Result) io" where
  "fauxrep2 L S registered_proof cache_dir_path existing_p_aux_path =
     catch_panic_response L zero32 ''fauxrep2''
       (try_val (as_path_buf cache_dir_path) (\<lambda>cache_dir.
        try_val (as_path_buf existing_p_aux_path) (\<lambda>p_aux.
        try_io (lift_ext (lib_fauxrep2 S (to_api_seal registered_proof) cache_dir p_aux)) (\<lambda>result.
        ret (Inr result)))))"

section \<open>Sealing\<close>

definition seal_pre_commit_phase1 ::
    "'s logger \<Rightarrow> ('s, 'p1, 'c1, 'fr) seal_lib \<Rightarrow> RegisteredSealProof \<Rightarrow> bytes \<Rightarrow> bytes \<Rightarrow> bytes \<Rightarrow> u64
      \<Rightarrow> array32 \<Rightarrow> array32 \<Rightarrow> PublicPieceInfo list \<Rightarrow> ('s world, bytes Result) io" where
  "seal_pre_commit_phase1 L S registered_proof cache_dir_path staged_sector_path sealed_sector_path
     sector_id prover_id ticket pieces =
     catch_panic_response L [] ''seal_pre_commit_phase1''
       (let public_pieces = map to_api_piece pieces
        in
        try_val (as_path_buf cache_dir_path) (\<lambda>cache_dir.
        try_val (as_path_buf staged_sector_path) (\<lambda>staged_sector.
        try_val (as_path_buf sealed_sector_path) (\<lambda>sealed_sector.
        try_io (lift_ext (lib_seal_pre_commit_phase1 S (to_api_seal registered_proof) cache_dir
          staged_sector sealed_sector prover_id sector_id ticket public_pieces)) (\<lambda>result.
        try_val (phase1_to_vec S result) (\<lambda>result.
        ret (Inr result)))))))"

definition seal_pre_commit_phase2 ::
    "'s logger \<Rightarrow> ('s, 'p1, 'c1, 'fr) seal_lib \<Rightarrow> bytes \<Rightarrow> bytes \<Rightarrow> bytes
      \<Rightarrow> ('s world, SealPreCommitPhase2 Result) io" where
  "seal_pre_commit_phase2 L S seal_pre_commit_phase1_output cache_dir_path sealed_sector_path =
     catch_panic_response L SealPreCommitPhase2_default ''seal_pre_commit_phase2''
       (try_val (phase1_from_slice S seal_pre_commit_phase1_output) (\<lambda>phase_1_output.
        try_val (as_path_buf cache_dir_path) (\<lambda>cache_dir.
        try_val (as_path_buf sealed_sector_path) (\<lambda>sealed_sector.
        try_io (lift_ext (lib_seal_pre_commit_phase2 S phase_1_output cache_dir sealed_sector)) (\<lambda>output.
        ret (Inr \<lparr>spc2_registered_proof = from_api_seal (out_registered_proof output),
                  spc2_comm_d = out_comm_d output, spc2_comm_r = out_comm_r output\<rparr>))))))"

definition seal_commit_phase1 ::
    "'s logger \<Rightarrow> ('s, 'p1, 'c1, 'fr) seal_lib \<Rightarrow> RegisteredSealProof \<Rightarrow> array32 \<Rightarrow> array32 \<Rightarrow> bytes
      \<Rightarrow> bytes \<Rightarrow> u64 \<Rightarrow> array32 \<Rightarrow> array32 \<Rightarrow> array32 \<Rightarrow> PublicPieceInfo list \<Rightarrow> ('s world, bytes Result) io" where
  "seal_commit_phase1 L S registered_proof comm_r comm_d cache_dir_path replica_path sector_id
     prover_id ticket seed pieces =
     catch_panic_response L [] ''seal_commit_phase1''
       (let spcp2o = \<lparr>out_registered_proof = to_api_seal registered_proof, out_comm_r = comm_r,
                      out_comm_d = comm_d\<rparr>;
            public_pieces = map to_api_piece pieces
        in
        try_val (as_path_buf cache_dir_path) (\<lambda>cache_dir.
        try_val (as_path_buf replica_path) (\<lambda>replica.
        try_io (lift_ext (lib_seal_commit_phase1 S cache_dir replica prover_id sector_id ticket seed
          spcp2o public_pieces)) (\<lambda>output.
        try_val (commit1_to_vec S output) (\<lambda>result.
        ret (Inr result))))))"

definition seal_commit_phase2 ::
    "'s logger \<Rightarrow> ('s, 'p1, 'c1, 'fr) seal_lib \<Rightarrow> bytes \<Rightarrow> u64 \<Rightarrow> array32 \<Rightarrow> ('s world, bytes Result) io" where
  "seal_commit_phase2 L S seal_commit_phase1_output sector_id prover_id =
     catch_panic_response L [] ''seal_commit_phase2''
       (try_val (commit1_from_slice S seal_commit_phase1_output) (\<lambda>scp1o.
        try_io (lift_ext (lib_seal_commit_phase2 S scp1o prover_id sector_id)) (\<lambda>proof.
        ret (Inr proof))))"

definition aggregate_seal_proofs ::
    "'s logger \<Rightarrow> ('s, 'p1, 'c1, 'fr) seal_lib \<Rightarrow> RegisteredSealProof \<Rightarrow> RegisteredAggregationProof
      \<Rightarrow> array32 list \<Rightarrow> array32 list \<Rightarrow> bytes list \<Rightarrow> ('s world, bytes Result) io" where
  "aggregate_seal_proofs L S registered_proof registered_aggregation comm_rs seeds seal_commit_responses =
     catch_panic_response L [] ''aggregate_seal_proofs''
       (let outputs = seal_commit_responses
        in try_io (lift_ext (lib_aggregate_seal_commit_proofs S (to_api_seal registered_proof)
             (to_api_aggregation registered_aggregation) comm_rs seeds outputs)) (\<lambda>result.
           ret (Inr result)))"

definition convert_aggregation_inputs ::
    "('s, 'p1, 'c1, 'fr) seal_lib \<Rightarrow> RegisteredSealProof \<Rightarrow> array32 \<Rightarrow> AggregationInputs
      \<Rightarrow> (anyhow + 'fr list list) exec" where
  "convert_aggregation_inputs S registered_proof prover_id input =
     lib_get_seal_inputs S (to_api_seal registered_proof) (ai_comm_r input) (ai_comm_d input) prover_id
       (ai_sector_id input) (ai_ticket input) (ai_seed input)"

text \<open>The closure that \<open>try_reduce\<close> combines two parts with: \<open>acc.extend(current); Ok(acc)\<close>.\<close>

definition extend_inputs :: "'fr list list \<Rightarrow> 'fr list list \<Rightarrow> anyhow + 'fr list list" where
  "extend_inputs acc current = Inr (acc @ current)"

type_synonym 'fr rayon = "(anyhow, 'fr list list) try_reduce"

definition verify_aggregate_seal_proof ::
    "'s logger \<Rightarrow> ('s, 'p1, 'c1, 'fr) seal_lib \<Rightarrow> 'fr rayon \<Rightarrow> RegisteredSealProof \<Rightarrow> RegisteredAggregationProof
      \<Rightarrow> array32 \<Rightarrow> bytes \<Rightarrow> AggregationInputs list \<Rightarrow> ('s world, bool Result) io" where
  "verify_aggregate_seal_proof L S try_reduce registered_proof registered_aggregation prover_id proof commit_inputs =
     catch_panic_response L False ''verify_aggregate_seal_proof''
       (try_io (from_exec (try_reduce [] extend_inputs
          (map (convert_aggregation_inputs S registered_proof prover_id) commit_inputs))) (\<lambda>inputs.
        let proof_bytes = proof;
            comm_rs = map ai_comm_r commit_inputs;
            seeds = map ai_seed commit_inputs
        in try_io (lift_ext (lib_verify_aggregate S (to_api_seal registered_proof)
             (to_api_aggregation registered_aggregation) proof_bytes comm_rs seeds inputs)) (\<lambda>result.
           ret (Inr result))))"

section \<open>Unsealing and descriptors\<close>

text \<open>A \<open>File\<close> made from a descriptor closes it when it is dropped: when the closure returns early,
  when it unwinds, and not after \<open>into_raw_fd\<close>.\<close>

definition close_fds :: "i32 list \<Rightarrow> 's world \<Rightarrow> 's world" where
  "close_fds fds w = fold (\<lambda>fd w. snd (drop_file fd w)) fds w"

definition files_until_raw :: "i32 list \<Rightarrow> ('s world, anyhow + 'a) io \<Rightarrow> ('s world, anyhow + 'a) io" where
  "files_until_raw fds m w =
     (case m w of
        (Returns (Inr a), w') \<Rightarrow> (Returns (Inr a), w')
      | (Returns (Inl e), w') \<Rightarrow> (Returns (Inl e), close_fds fds w')
      | (Panics p, w') \<Rightarrow> (Panics p, close_fds fds w')
      | (Undefined, w') \<Rightarrow> (Undefined, w'))"

definition unseal_range ::
    "'s logger \<Rightarrow> ('s, 'p1, 'c1, 'fr) seal_lib \<Rightarrow> RegisteredSealProof \<Rightarrow> bytes \<Rightarrow> i32 \<Rightarrow> i32 \<Rightarrow> u64
      \<Rightarrow> array32 \<Rightarrow> array32 \<Rightarrow> array32 \<Rightarrow> u64 \<Rightarrow> u64 \<Rightarrow> ('s world, unit Result) io" where
  "unseal_range L S registered_proof cache_dir_path sealed_sector_fd_raw unseal_output_fd_raw sector_id
     prover_id ticket comm_d unpadded_byte_index unpadded_bytes_amount =
     catch_panic_response L () ''unseal_range''
       (files_until_raw [unseal_output_fd_raw, sealed_sector_fd_raw]
         (try_val (as_path_buf cache_dir_path) (\<lambda>cache_dir.
          bind_io (lift_ext (lib_file_path S sealed_sector_fd_raw)) (\<lambda>sealed_path.
          case sealed_path of
            None \<Rightarrow> raise unwrap_failed
          | Some sealed \<Rightarrow>
              try_io (lift_ext (lib_get_unsealed_range_mapped S (to_api_seal registered_proof) cache_dir
                sealed unseal_output_fd_raw prover_id sector_id comm_d ticket unpadded_byte_index
                unpadded_bytes_amount)) (\<lambda>_.
              ret (Inr ()))))))"

definition verify_seal ::
    "'s logger \<Rightarrow> ('s, 'p1, 'c1, 'fr) seal_lib \<Rightarrow> RegisteredSealProof \<Rightarrow> array32 \<Rightarrow> array32 \<Rightarrow> array32
      \<Rightarrow> array32 \<Rightarrow> array32 \<Rightarrow> u64 \<Rightarrow> bytes \<Rightarrow> ('s world, bool Result) io" where
  "verify_seal L S registered_proof comm_r comm_d prover_id ticket seed sector_id proof =
     catch_panic_response L False ''verify_seal''
       (let proof_bytes = proof
        in try_io (lift_ext (lib_verify_seal S (to_api_seal registered_proof) comm_r comm_d prover_id
             sector_id ticket seed proof_bytes)) (\<lambda>result.
           ret (Inr result)))"

text \<open>The \<open>File\<close> is turned back into its number after the call, before the result is looked at:
  only a panic of the library drops it.\<close>

definition file_unless_panic :: "i32 \<Rightarrow> ('s world, 'a) io \<Rightarrow> ('s world, 'a) io" where
  "file_unless_panic fd m w =
     (case m w of
        (Panics p, w') \<Rightarrow> (Panics p, snd (drop_file fd w'))
      | r \<Rightarrow> r)"

definition generate_piece_commitment ::
    "'s logger \<Rightarrow> ('s, 'p1, 'c1, 'fr) seal_lib \<Rightarrow> RegisteredSealProof \<Rightarrow> i32 \<Rightarrow> u64
      \<Rightarrow> ('s world, GeneratePieceCommitment Result) io" where
  "generate_piece_commitment L S registered_proof piece_fd_raw unpadded_piece_size =
     catch_panic_response L GeneratePieceCommitment_default ''generate_piece_commitment''
       (bind_io (file_unless_panic piece_fd_raw (lift_ext (lib_generate_piece_commitment S
          (to_api_seal registered_proof) piece_fd_raw unpadded_piece_size))) (\<lambda>result.
        try_val (map_sum id (\<lambda>meta. \<lparr>gpc_comm_p = commitment meta, num_bytes_aligned = piece_size meta\<rparr>) result)
          (\<lambda>result. ret (Inr result))))"

definition generate_data_commitment ::
    "'s logger \<Rightarrow> ('s, 'p1, 'c1, 'fr) seal_lib \<Rightarrow> RegisteredSealProof \<Rightarrow> PublicPieceInfo list
      \<Rightarrow> ('s world, array32 Result) io" where
  "generate_data_commitment L S registered_proof pieces =
     catch_panic_response L zero32 ''generate_data_commitment''
       (let public_pieces = map to_api_piece pieces
        in try_io (lift_ext (lib_compute_comm_d S (to_api_seal registered_proof) public_pieces)) (\<lambda>result.
           ret (Inr result)))"

definition clear_cache ::
    "'s logger \<Rightarrow> ('s, 'p1, 'c1, 'fr) seal_lib \<Rightarrow> u64 \<Rightarrow> bytes \<Rightarrow> ('s world, unit Result) io" where
  "clear_cache L S sector_size cache_dir_path =
     catch_panic_response L () ''clear_cache''
       (try_val (as_path_buf cache_dir_path) (\<lambda>cache_dir.
        try_io (lift_ext (lib_clear_cache S sector_size cache_dir)) (\<lambda>result. ret (Inr result))))"

section \<open>Accessors, which run outside the guards\<close>

definition get_max_user_bytes_per_staged_sector :: "('s, 'p1, 'c1, 'fr) seal_lib \<Rightarrow> RegisteredSealProof \<Rightarrow> u64 exec" where
  "get_max_user_bytes_per_staged_sector S registered_proof = lib_max_user_bytes S (to_api_seal registered_proof)"

text \<open>The methods of the API's enums: CIDs, paths and names as strings, a path already through
  \<open>to_string_lossy\<close>, and the \<open>Debug\<close> form.\<close>

record 'p proof_info =
  params_cid :: "'p \<Rightarrow> (anyhow + string) exec"
  verifying_key_cid :: "'p \<Rightarrow> (anyhow + string) exec"
  cache_params_path :: "'p \<Rightarrow> (anyhow + string) exec"
  cache_verifying_key_path :: "'p \<Rightarrow> (anyhow + string) exec"
  circuit_identifier :: "'p \<Rightarrow> (anyhow + string) exec"
  debug_fmt :: "'p \<Rightarrow> string"

definition string_response :: "anyhow + string \<Rightarrow> bytes Result" where
  "string_response r =
     Result_from [] (case r of Inl e \<Rightarrow> Inl (anyhow_to_string e) | Inr v \<Rightarrow> Inr (str_bytes v))"

definition registered_seal_proof_accessor ::
    "RegisteredSealProof \<Rightarrow> (api_RegisteredSealProof \<Rightarrow> (anyhow + string) exec) \<Rightarrow> bytes Result exec" where
  "registered_seal_proof_accessor registered_proof op =
     (let rsp = to_api_seal registered_proof
      in bind_exec (op rsp) (\<lambda>r. Returns (string_response r)))"

definition get_seal_params_cid :: "api_RegisteredSealProof proof_info \<Rightarrow> RegisteredSealProof \<Rightarrow> bytes Result exec" where
  "get_seal_params_cid I registered_proof = registered_seal_proof_accessor registered_proof (params_cid I)"

definition get_seal_verifying_key_cid :: "api_RegisteredSealProof proof_info \<Rightarrow> RegisteredSealProof \<Rightarrow> bytes Result exec" where
  "get_seal_verifying_key_cid I registered_proof =
     registered_seal_proof_accessor registered_proof (verifying_key_cid I)"

definition get_seal_params_path :: "api_RegisteredSealProof proof_info \<Rightarrow> RegisteredSealProof \<Rightarrow> bytes Result exec" where
  "get_seal_params_path I registered_proof =
     registered_seal_proof_accessor registered_proof (cache_params_path I)"

definition get_seal_verifying_key_path :: "api_RegisteredSealProof proof_info \<Rightarrow> RegisteredSealProof \<Rightarrow> bytes Result exec" where
  "get_seal_verifying_key_path I registered_proof =
     registered_seal_proof_accessor registered_proof (cache_verifying_key_path I)"

definition get_seal_circuit_identifier :: "api_RegisteredSealProof proof_info \<Rightarrow> RegisteredSealProof \<Rightarrow> bytes Result exec" where
  "get_seal_circuit_identifier I registered_proof =
     registered_seal_proof_accessor registered_proof (circuit_identifier I)"

definition get_seal_version :: "api_RegisteredSealProof proof_info \<Rightarrow> RegisteredSealProof \<Rightarrow> bytes Result exec" where
  "get_seal_version I registered_proof =
     registered_seal_proof_accessor registered_proof (\<lambda>p. Returns (Inr (debug_fmt I p)))"

section \<open>Descriptors\<close>

lemma drop_all_refs [simp]: "drop_all refs = ret ()"
  by (induction refs) (simp_all add: drop_FileDescriptorRef_def drop_ManuallyDrop_def)

lemma moved_into_refs [simp]: "moved_into refs call = call"
  by (simp add: fun_eq_iff moved_into_def ret_def raise_def split: prod.splits exec.splits)

lemma ref_fd_new [simp]: "ref_fd (FileDescriptorRef_new raw) = raw"
  by (simp add: ref_fd_def FileDescriptorRef_new_def)

text \<open>The two functions that write pieces leave every descriptor open, also after a panic.\<close>

lemma write_functions_keep_descriptors:
  "keeps open_fds (write_with_alignment L S p src n dst sizes)"
  "keeps open_fds (write_without_alignment L S p src n dst)"
  unfolding write_with_alignment_def write_without_alignment_def Let_def moved_into_refs
  by (intro keeps_guarded(1) keeps_try; auto)+

lemma close_fds_open: "open_fds (close_fds fds w) fd = (open_fds w fd \<and> fd \<notin> set fds)"
  by (induction fds arbitrary: w) (auto simp: close_fds_def drop_file_def)

lemma files_until_raw_open:
  assumes "files_until_raw fds m w = (x, w')" and "keeps open_fds m" and "x \<noteq> Undefined"
  shows "open_fds w' fd = (open_fds w fd \<and> ((\<exists>a. x = Returns (Inr a)) \<or> fd \<notin> set fds))"
  using assms
  by (auto simp: files_until_raw_def close_fds_open dest: keepsD split: prod.splits exec.splits sum.splits)

lemma file_unless_panic_open:
  assumes "file_unless_panic fd0 m w = (x, w')" and "keeps open_fds m"
  shows "open_fds w' fd = (open_fds w fd \<and> ((\<exists>p. x = Panics p) \<longrightarrow> fd \<noteq> fd0))"
  using assms
  by (auto simp: file_unless_panic_def drop_file_def dest: keepsD split: prod.splits exec.splits if_splits)

section \<open>A concrete library\<close>

text \<open>It keeps nothing, computes small values, fails on the descriptor 9 and panics on the
  descriptor 10.\<close>

definition sample_piece :: api_PieceInfo where
  "sample_piece = \<lparr>commitment = zero32, piece_size = 127\<rparr>"

definition sample_seal :: "(string list, bytes, bytes, nat) seal_lib" where
  "sample_seal =
     \<lparr>lib_add_piece = (\<lambda>p src dst n sizes. ret (Inr (sample_piece, n + 254))),
      lib_write_and_preprocess = (\<lambda>p src dst n. ret (Inr (sample_piece, n))),
      lib_fauxrep = (\<lambda>p c s. ret (Inr zero32)), lib_fauxrep2 = (\<lambda>p c s. ret (Inr zero32)),
      lib_seal_pre_commit_phase1 = (\<lambda>p c st se prover sector ticket pieces. ret (Inr c)),
      phase1_to_vec = Inr, phase1_from_slice = Inr,
      lib_seal_pre_commit_phase2 = (\<lambda>o' c s. ret (Inr \<lparr>out_registered_proof = api_RegisteredSealProof.StackedDrg2KiBV1,
        out_comm_r = zero32, out_comm_d = zero32\<rparr>)),
      lib_seal_commit_phase1 = (\<lambda>c r prover sector ticket seed out pieces. ret (Inr r)),
      commit1_to_vec = Inr, commit1_from_slice = Inr,
      lib_seal_commit_phase2 = (\<lambda>o' prover sector. ret (Inr o')),
      lib_aggregate_seal_commit_proofs = (\<lambda>p a rs seeds outs. ret (Inr (concat outs))),
      lib_get_seal_inputs = (\<lambda>p r d prover sector ticket seed.
        if sector = 0 then Returns (Inl (AnyhowMsg ''no sector''))
        else if sector = 1 then Panics (StrPayload ''bad inputs'') else Returns (Inr [[unat sector]])),
      lib_verify_aggregate = (\<lambda>p a proof rs seeds inputs. ret (Inr (length inputs = length rs))),
      lib_file_path = (\<lambda>fd. ret (Some [])),
      lib_get_unsealed_range_mapped = (\<lambda>p c s fd prover sector d t i n.
        if fd = 9 then ret (Inl (AnyhowMsg ''unseal failed'')) else ret (Inr n)),
      lib_verify_seal = (\<lambda>p r d prover sector t seed proof. ret (Inr True)),
      lib_generate_piece_commitment = (\<lambda>p fd n. if fd = 10 then raise (StrPayload ''bad piece'') else ret (Inr sample_piece)),
      lib_compute_comm_d = (\<lambda>p pieces. ret (Inr zero32)), lib_clear_cache = (\<lambda>n c. ret (Inr ())),
      lib_max_user_bytes = (\<lambda>p. Returns 2032)\<rparr>"

lemma fresh_world_ok: "log_init fresh_world \<noteq> Poisoned"
  by (simp add: fresh_world_def)

lemmas seal_eval = catch_panic_response_eq [OF silent_logger_ok fresh_world_ok] as_path_buf_def try_io_def
  try_val_def bind_io_def ret_def raise_def lift_ext_def Let_def Result_from_def map_err_string_def
  file_unless_panic_def files_until_raw_def sample_seal_def

section \<open>Properties\<close>

text \<open>C6: what \<open>unseal_range\<close> does to the two descriptors it is given: both stay open when it
  succeeds, and both have been closed when it answers with an error, whether the library
  failed or panicked. No other descriptor is touched.\<close>
theorem unseal_range_descriptors:
  assumes "logger_ok L" and "log_init w \<noteq> Poisoned"
    and "unseal_range L S p cache sealed_fd out_fd sector prover ticket comm_d index amount w = (Returns r, w')"
  shows "open_fds w' fd = (open_fds w fd \<and> (status_code r = NoError \<or> fd \<notin> {sealed_fd, out_fd}))"
proof -
  let ?body = "try_val (as_path_buf cache) (\<lambda>cache_dir.
          bind_io (lift_ext (lib_file_path S sealed_fd)) (\<lambda>sealed_path.
          case sealed_path of
            None \<Rightarrow> raise unwrap_failed
          | Some sealed \<Rightarrow>
              try_io (lift_ext (lib_get_unsealed_range_mapped S (to_api_seal p) cache_dir
                sealed out_fd prover sector comm_d ticket index amount)) (\<lambda>_. ret (Inr ()))))"
  let ?w = "log_started L ''unseal_range'' w"
  obtain x v where x: "files_until_raw [out_fd, sealed_fd] ?body ?w = (x, v)" by fastforce
  have keep: "keeps open_fds ?body" by (intro keeps_try_val keeps_bind) (auto split: option.split)
  have "x \<noteq> Undefined" and st: "status_code r = NoError \<longleftrightarrow> (\<exists>a. x = Returns (Inr a))"
    and w': "open_fds w' = open_fds v"
    using assms(3) x
    by (auto simp: unseal_range_def catch_panic_response_eq [OF assms(1,2)] Result_from_def map_err_string_def
        split: exec.splits sum.splits)
  with files_until_raw_open [OF x keep] show ?thesis by auto
qed

theorem unseal_range_descriptors_witness:
  "\<exists>r w'. unseal_range silent_logger sample_seal RegisteredSealProof.StackedDrg2KiBV1 [] 8 9 1 zero32 zero32 zero32 0 127
       fresh_world = (Returns r, w') \<and> status_code r \<noteq> NoError \<and>
     \<not> open_fds w' 8 \<and> \<not> open_fds w' 9 \<and> open_fds w' 7"
proof -
  let ?u = "unseal_range silent_logger sample_seal RegisteredSealProof.StackedDrg2KiBV1 [] 8 9 1 zero32 zero32 zero32 0 127
    fresh_world"
  have "fst ?u = Returns (Result_err () (str_bytes ''unseal failed''))"
    by (simp add: unseal_range_def seal_eval)
  then obtain m w' where u: "?u = (Returns (Result_err () m), w')" by (metis prod.collapse)
  have "open_fds fresh_world fd" for fd by (simp add: fresh_world_def)
  with unseal_range_descriptors [OF silent_logger_ok fresh_world_ok u] u show ?thesis by auto
qed

text \<open>C35: \<open>generate_piece_commitment\<close> leaves its descriptor open when the library returns, with a
  value or with an error, and closes it when the library panics.\<close>
theorem generate_piece_commitment_descriptor:
  assumes "logger_ok L" and "log_init w \<noteq> Poisoned"
  shows "open_fds (snd (generate_piece_commitment L S p piece_fd n w)) fd =
    (open_fds w fd \<and>
      (case fst (lib_generate_piece_commitment S (to_api_seal p) piece_fd n
          (ext (log_started L ''generate_piece_commitment'' w))) of
         Panics _ \<Rightarrow> fd \<noteq> piece_fd
       | _ \<Rightarrow> True))"
proof -
  let ?w = "log_started L ''generate_piece_commitment'' w"
  obtain x e where x: "lib_generate_piece_commitment S (to_api_seal p) piece_fd n (ext ?w) = (x, e)"
    by fastforce
  have fds: "open_fds (?w\<lparr>ext := e\<rparr>) = open_fds w" by simp
  show ?thesis
    using x fds
    by (cases x)
       (auto simp: generate_piece_commitment_def catch_panic_response_eq [OF assms] file_unless_panic_def
          lift_ext_def bind_io_def try_val_def ret_def drop_file_def split: sum.splits)
qed

theorem generate_piece_commitment_descriptor_witness:
  "\<not> open_fds (snd (generate_piece_commitment silent_logger sample_seal RegisteredSealProof.StackedDrg2KiBV1 10 127
       fresh_world)) 10"
  using generate_piece_commitment_descriptor [OF silent_logger_ok fresh_world_ok, of sample_seal
      RegisteredSealProof.StackedDrg2KiBV1 10 127 10]
  by (simp add: sample_seal_def raise_def)

lemma pre_commit_phase1_success:
  assumes "seal_pre_commit_phase1 L S p cache staged sealed sector prover ticket pieces w = (Returns r, w')"
    and "status_code r = NoError"
  obtains out1 e e' where "lib_seal_pre_commit_phase1 S (to_api_seal p) cache staged sealed prover sector ticket
      (map to_api_piece pieces) e = (Returns (Inr out1), e')" and "phase1_to_vec S out1 = Inr (value_of r)"
  by (rule guarded_success [OF assms(1) [unfolded seal_pre_commit_phase1_def Let_def] assms(2)])
     (use that in \<open>auto simp: as_path_buf_def try_io_def try_val_def lift_ext_def ret_def elim!: bind_io_cases
        split: sum.splits prod.splits\<close>)

lemma commit_phase1_success:
  assumes "seal_commit_phase1 L S p comm_r comm_d cache sealed sector prover ticket seed pieces w = (Returns r, w')"
    and "status_code r = NoError"
  obtains out1 e e' where "lib_seal_commit_phase1 S cache sealed prover sector ticket seed
      \<lparr>out_registered_proof = to_api_seal p, out_comm_r = comm_r, out_comm_d = comm_d\<rparr>
      (map to_api_piece pieces) e = (Returns (Inr out1), e')" and "commit1_to_vec S out1 = Inr (value_of r)"
  by (rule guarded_success [OF assms(1) [unfolded seal_commit_phase1_def Let_def] assms(2)])
     (use that in \<open>auto simp: as_path_buf_def try_io_def try_val_def lift_ext_def ret_def elim!: bind_io_cases
        split: sum.splits prod.splits\<close>)

text \<open>The caller carries the output of the first pre-commit phase as JSON into the second one.
  When the JSON of the library reads back as what was written, the second phase runs on
  exactly the value that the first phase computed.\<close>
lemma pre_commit_phases_compose:
  assumes "\<And>o' b. phase1_to_vec S o' = Inr b \<Longrightarrow> phase1_from_slice S b = Inr o'"
    and "seal_pre_commit_phase1 L S p cache staged sealed sector prover ticket pieces w = (Returns r, w')"
    and "status_code r = NoError"
  shows "\<exists>out1 e e'. lib_seal_pre_commit_phase1 S (to_api_seal p) cache staged sealed prover sector ticket
        (map to_api_piece pieces) e = (Returns (Inr out1), e') \<and>
      seal_pre_commit_phase2 L S (value_of r) cache sealed =
        catch_panic_response L SealPreCommitPhase2_default ''seal_pre_commit_phase2''
          (try_io (lift_ext (lib_seal_pre_commit_phase2 S out1 cache sealed)) (\<lambda>output.
           ret (Inr \<lparr>spc2_registered_proof = from_api_seal (out_registered_proof output),
                     spc2_comm_d = out_comm_d output, spc2_comm_r = out_comm_r output\<rparr>)))"
proof (rule pre_commit_phase1_success [OF assms(2,3)])
  fix out1 e e'
  assume lib: "lib_seal_pre_commit_phase1 S (to_api_seal p) cache staged sealed prover sector ticket
      (map to_api_piece pieces) e = (Returns (Inr out1), e')"
    and "phase1_to_vec S out1 = Inr (value_of r)"
  from assms(1) [OF this(2)] lib show ?thesis
    by (auto simp: seal_pre_commit_phase2_def as_path_buf_def)
qed

text \<open>The same for the two commit phases: the second one proves exactly the value that the
  first one computed.\<close>
lemma commit_phases_compose:
  assumes "\<And>o' b. commit1_to_vec S o' = Inr b \<Longrightarrow> commit1_from_slice S b = Inr o'"
    and "seal_commit_phase1 L S p comm_r comm_d cache sealed sector prover ticket seed pieces w = (Returns r, w')"
    and "status_code r = NoError"
  shows "\<exists>out1 e e'. lib_seal_commit_phase1 S cache sealed prover sector ticket seed
        \<lparr>out_registered_proof = to_api_seal p, out_comm_r = comm_r, out_comm_d = comm_d\<rparr>
        (map to_api_piece pieces) e = (Returns (Inr out1), e') \<and>
      seal_commit_phase2 L S (value_of r) sector prover =
        catch_panic_response L [] ''seal_commit_phase2''
          (try_io (lift_ext (lib_seal_commit_phase2 S out1 prover sector)) (\<lambda>proof. ret (Inr proof)))"
proof (rule commit_phase1_success [OF assms(2,3)])
  fix out1 e e'
  assume lib: "lib_seal_commit_phase1 S cache sealed prover sector ticket seed
      \<lparr>out_registered_proof = to_api_seal p, out_comm_r = comm_r, out_comm_d = comm_d\<rparr>
      (map to_api_piece pieces) e = (Returns (Inr out1), e')"
    and "commit1_to_vec S out1 = Inr (value_of r)"
  from assms(1) [OF this(2)] lib show ?thesis by (auto simp: seal_commit_phase2_def)
qed

text \<open>Appending is associative with the empty vector as its unit: every grouping of the inputs gives
  their concatenation in order.\<close>

interpretation seal_inputs: monoid_reduction "[]" extend_inputs "(@)"
  by unfold_locales (simp_all add: extend_inputs_def)

lemma foldr_append_concat: "foldr (@) vs [] = concat vs"
  by (induction vs) simp_all

lemma reduced_inputs:
  assumes "rayon_contract try_reduce"
  obtains (Ok) vs where "xs = map (\<lambda>v. Returns (Inr v)) vs" and "try_reduce [] extend_inputs xs = Returns (Inr (concat vs))"
  | (Failed) "try_reduce [] extend_inputs xs \<in> set xs" and "failed (try_reduce [] extend_inputs xs)"
  using seal_inputs.reduction_outcome [of xs "try_reduce [] extend_inputs xs"] assms
  by (auto simp: rayon_contract_def foldr_append_concat)

lemma reduced_inputs_ok:
  assumes "rayon_contract try_reduce"
  shows "try_reduce [] extend_inputs (map (\<lambda>v. Returns (Inr v)) vs) = Returns (Inr (concat vs))"
proof (cases rule: reduced_inputs [OF assms, of "map (\<lambda>v. Returns (Inr v)) vs", case_names Ok Failed])
  case (Ok us)
  moreover from Ok(1) have "us = vs" by (simp add: inj_map_eq_map inj_def)
  ultimately show ?thesis by simp
qed (auto simp: failed_def)

text \<open>C29: \<open>verify_aggregate_seal_proof\<close>, whatever the threads of the parallel reduction do: when all
  inputs convert, the library verifies the proof against their concatenation in the order
  of the slice, together with the commitments and seeds in that order. When one does not,
  the library is not called, and the answer is the error of one of the inputs that failed,
  or, when the conversion panicked, the text of that panic.\<close>
theorem verify_aggregate_outcome:
  assumes "logger_ok L" and "log_init w \<noteq> Poisoned" and "rayon_contract try_reduce"
  shows "(\<exists>vs. map (convert_aggregation_inputs S p prover) inputs = map (\<lambda>v. Returns (Inr v)) vs \<and>
      verify_aggregate_seal_proof L S try_reduce p agg prover proof inputs =
        catch_panic_response L False ''verify_aggregate_seal_proof''
          (try_io (lift_ext (lib_verify_aggregate S (to_api_seal p) (to_api_aggregation agg) proof
             (map ai_comm_r inputs) (map ai_seed inputs) (concat vs))) (\<lambda>result. ret (Inr result)))) \<or>
    (\<exists>i\<in>set inputs. \<exists>e. convert_aggregation_inputs S p prover i = Returns (Inl e) \<and>
      verify_aggregate_seal_proof L S try_reduce p agg prover proof inputs w =
        (Returns (Result_err False (str_bytes (anyhow_to_string e))),
         log_ended L ''verify_aggregate_seal_proof'' (log_started L ''verify_aggregate_seal_proof'' w))) \<or>
    (\<exists>i\<in>set inputs. \<exists>m. convert_aggregation_inputs S p prover i = Panics m \<and>
      verify_aggregate_seal_proof L S try_reduce p agg prover proof inputs w =
        (Returns (Result_err False (str_bytes (panic_text m))), log_started L ''verify_aggregate_seal_proof'' w)) \<or>
    (\<exists>i\<in>set inputs. convert_aggregation_inputs S p prover i = Undefined \<and>
      fst (verify_aggregate_seal_proof L S try_reduce p agg prover proof inputs w) = Undefined)"
proof (cases rule: reduced_inputs [OF assms(3), of "map (convert_aggregation_inputs S p prover) inputs", case_names Ok Failed])
  case (Ok vs)
  then show ?thesis by (intro disjI1) (auto simp: verify_aggregate_seal_proof_def try_io_def)
next
  case Failed
  then obtain i where i: "i \<in> set inputs"
    "try_reduce [] extend_inputs (map (convert_aggregation_inputs S p prover) inputs) =
      convert_aggregation_inputs S p prover i" by auto
  note eval = verify_aggregate_seal_proof_def i(2) catch_panic_response_eq [OF assms(1,2)] try_io_def ret_def
    raise_def stuck_def Result_from_def map_err_string_def
  consider (err) e where "convert_aggregation_inputs S p prover i = Returns (Inl e)"
    | (panic) m where "convert_aggregation_inputs S p prover i = Panics m"
    | (undef) "convert_aggregation_inputs S p prover i = Undefined"
    using Failed(2) unfolding i(2) failed_def by (metis exec.exhaust sum.exhaust)
  then show ?thesis
  proof cases
    case err
    then show ?thesis using i(1) by (intro disjI2 [OF disjI1] bexI [of _ i] exI [of _ e]) (simp_all add: eval)
  next
    case panic
    then show ?thesis
      using i(1) by (intro disjI2 [OF disjI2 [OF disjI1]] bexI [of _ i] exI [of _ m]) (simp_all add: eval)
  next
    case undef
    then show ?thesis using i(1) by (intro disjI2 [OF disjI2 [OF disjI2]] bexI [of _ i]) (simp_all add: eval)
  qed
qed

theorem verify_aggregate_outcome_witness:
  "\<exists>e. verify_aggregate_seal_proof silent_logger sample_seal sequential RegisteredSealProof.StackedDrg2KiBV1
       RegisteredAggregationProof.SnarkPackV1 zero32 []
       [\<lparr>ai_comm_r = [], ai_comm_d = [], ai_sector_id = 0, ai_ticket = [], ai_seed = []\<rparr>] fresh_world =
     (Returns (Result_err False e),
      log_ended silent_logger ''verify_aggregate_seal_proof''
        (log_started silent_logger ''verify_aggregate_seal_proof'' fresh_world))"
  using verify_aggregate_outcome [OF silent_logger_ok fresh_world_ok sequential_contract, of sample_seal
      RegisteredSealProof.StackedDrg2KiBV1 zero32
      "[\<lparr>ai_comm_r = [], ai_comm_d = [], ai_sector_id = 0, ai_ticket = [], ai_seed = []\<rparr>]"
      RegisteredAggregationProof.SnarkPackV1 "[]"]
  by (auto simp: convert_aggregation_inputs_def sample_seal_def)

text \<open>\<open>write_with_alignment\<close> reports the bytes that the library wrote and how many of them are
  alignment. As long as the library writes at least the piece, the subtraction does not
  wrap: piece and alignment add up to the total.\<close>
lemma write_with_alignment_adds_up:
  assumes "\<And>e c written e'. lib_add_piece S (to_api_seal p) src dst n sizes e = (Returns (Inr (c, written)), e') \<Longrightarrow> n \<le> written"
    and "write_with_alignment L S p src n dst sizes w = (Returns r, w')" and "status_code r = NoError"
  shows "unat n + unat (left_alignment_unpadded (value_of r)) = unat (wwa_total_write_unpadded (value_of r))"
proof -
  obtain e c written e' where lib: "lib_add_piece S (to_api_seal p) src dst n sizes e = (Returns (Inr (c, written)), e')"
    and r: "value_of r = \<lparr>wwa_comm_p = commitment c, left_alignment_unpadded = written - n,
      wwa_total_write_unpadded = written\<rparr>"
    by (rule guarded_success [OF assms(2) [unfolded write_with_alignment_def Let_def] assms(3)])
       (auto simp: try_io_def lift_ext_def ret_def elim!: bind_io_cases
          split: sum.splits prod.splits)
  from assms(1) [OF lib] show ?thesis by (simp add: r unat_sub word_le_nat_alt)
qed

text \<open>The response of an accessor, for every outcome of the API's method.\<close>

definition accessor_outcome :: "(anyhow + string) exec \<Rightarrow> bytes Result exec" where
  "accessor_outcome x =
     (case x of
        Returns (Inr v) \<Rightarrow> Returns (Result_ok (str_bytes v))
      | Returns (Inl e) \<Rightarrow> Returns (Result_err [] (str_bytes (anyhow_to_string e)))
      | Panics p \<Rightarrow> Panics p
      | Undefined \<Rightarrow> Undefined)"

lemma seal_accessor_outcome: "registered_seal_proof_accessor p op = accessor_outcome (op (to_api_seal p))"
  by (auto simp: registered_seal_proof_accessor_def accessor_outcome_def string_response_def Result_from_def
      split: exec.splits sum.splits)

text \<open>Each accessor answers with the outcome of the API's method for the same proof.\<close>

lemma seal_accessors_run:
  "get_seal_params_cid I p = accessor_outcome (params_cid I (to_api_seal p)) \<and>
   get_seal_verifying_key_cid I p = accessor_outcome (verifying_key_cid I (to_api_seal p)) \<and>
   get_seal_params_path I p = accessor_outcome (cache_params_path I (to_api_seal p)) \<and>
   get_seal_verifying_key_path I p = accessor_outcome (cache_verifying_key_path I (to_api_seal p)) \<and>
   get_seal_circuit_identifier I p = accessor_outcome (circuit_identifier I (to_api_seal p)) \<and>
   get_seal_version I p = Returns (Result_ok (str_bytes (debug_fmt I (to_api_seal p))))"
  by (simp add: get_seal_params_cid_def get_seal_verifying_key_cid_def get_seal_params_path_def
      get_seal_verifying_key_path_def get_seal_circuit_identifier_def get_seal_version_def
      seal_accessor_outcome) (simp add: accessor_outcome_def)

end
