(* ===== verification/Proofs_Post.thy ===== *)
theory Proofs_Post
  imports Proofs_Seal
begin

text \<open>
  The proof-of-spacetime half of \<open>rust/src/proofs/api.rs\<close>: challenges, vanilla proofs,
  winning and window PoSt, their verification, the functions on single partitions, and the
  accessors of registered PoSt proofs. The window functions build their response
  themselves, so that an error can carry the sectors that were faulty. The library is the
  record \<open>post_lib\<close>.
\<close>

section \<open>The library\<close>

text \<open>A \<open>BTreeMap\<close> that comes back is the list of its entries in the order of the keys.\<close>

record 's post_lib =
  lib_winning_post_sector_challenge :: "api_RegisteredPoStProof \<Rightarrow> array32 \<Rightarrow> u64 \<Rightarrow> array32
    \<Rightarrow> ('s, anyhow + u64 list) io"
  lib_fallback_sector_challenges :: "api_RegisteredPoStProof \<Rightarrow> array32 \<Rightarrow> u64 list \<Rightarrow> array32
    \<Rightarrow> ('s, anyhow + (u64 \<times> u64 list) list) io"
  lib_single_vanilla_proof :: "api_RegisteredPoStProof \<Rightarrow> u64 \<Rightarrow> api_PrivateReplicaInfo \<Rightarrow> u64 list
    \<Rightarrow> ('s, anyhow + bytes) io"
  lib_winning_post_with_vanilla :: "api_RegisteredPoStProof \<Rightarrow> array32 \<Rightarrow> array32 \<Rightarrow> bytes list
    \<Rightarrow> ('s, anyhow + (api_RegisteredPoStProof \<times> bytes) list) io"
  lib_winning_post :: "array32 \<Rightarrow> (u64 \<rightharpoonup> api_PrivateReplicaInfo) \<Rightarrow> array32
    \<Rightarrow> ('s, anyhow + (api_RegisteredPoStProof \<times> bytes) list) io"
  lib_verify_winning_post :: "array32 \<Rightarrow> bytes \<Rightarrow> (u64 \<rightharpoonup> api_PublicReplicaInfo) \<Rightarrow> array32
    \<Rightarrow> ('s, anyhow + bool) io"
  lib_window_post_with_vanilla :: "api_RegisteredPoStProof \<Rightarrow> array32 \<Rightarrow> array32 \<Rightarrow> bytes list
    \<Rightarrow> ('s, anyhow + (api_RegisteredPoStProof \<times> bytes) list) io"
  lib_window_post :: "array32 \<Rightarrow> (u64 \<rightharpoonup> api_PrivateReplicaInfo) \<Rightarrow> array32
    \<Rightarrow> ('s, anyhow + (api_RegisteredPoStProof \<times> bytes) list) io"
  lib_verify_window_post :: "array32 \<Rightarrow> (api_RegisteredPoStProof \<times> bytes) list
    \<Rightarrow> (u64 \<rightharpoonup> api_PublicReplicaInfo) \<Rightarrow> array32 \<Rightarrow> ('s, anyhow + bool) io"
  lib_merge_window_post_partition_proofs :: "api_RegisteredPoStProof \<Rightarrow> bytes list \<Rightarrow> ('s, anyhow + bytes) io"
  lib_num_partition_for_fallback_post :: "api_RegisteredPoStProof \<Rightarrow> u64 \<Rightarrow> ('s, anyhow + u64) io"
  lib_single_window_post_with_vanilla :: "api_RegisteredPoStProof \<Rightarrow> array32 \<Rightarrow> array32 \<Rightarrow> bytes list \<Rightarrow> u64
    \<Rightarrow> ('s, anyhow + bytes) io"

section \<open>Challenges and vanilla proofs\<close>

definition generate_winning_post_sector_challenge ::
    "'s logger \<Rightarrow> 's post_lib \<Rightarrow> RegisteredPoStProof \<Rightarrow> array32 \<Rightarrow> u64 \<Rightarrow> array32
      \<Rightarrow> ('s world, u64 list Result) io" where
  "generate_winning_post_sector_challenge L P registered_proof randomness sector_set_len prover_id =
     catch_panic_response L [] ''generate_winning_post_sector_challenge''
       (try_io (lift_ext (lib_winning_post_sector_challenge P (to_api_post registered_proof) randomness
          sector_set_len prover_id)) (\<lambda>result. ret (Inr result)))"

definition generate_fallback_sector_challenges ::
    "'s logger \<Rightarrow> 's post_lib \<Rightarrow> RegisteredPoStProof \<Rightarrow> array32 \<Rightarrow> u64 list \<Rightarrow> array32
      \<Rightarrow> ('s world, GenerateFallbackSectorChallenges Result) io" where
  "generate_fallback_sector_challenges L P registered_proof randomness sector_ids prover_id =
     catch_panic_response L GenerateFallbackSectorChallenges_default ''generate_fallback_sector_challenges''
       (let pub_sectors = sector_ids
        in try_io (lift_ext (lib_fallback_sector_challenges P (to_api_post registered_proof) randomness
             pub_sectors prover_id)) (\<lambda>output.
           ret (Inr \<lparr>fb_ids = map (\<lambda>(i, _). i) output, fb_challenges = map (\<lambda>(_, cs). cs) output\<rparr>)))"

definition generate_single_vanilla_proof ::
    "'s logger \<Rightarrow> 's post_lib \<Rightarrow> PrivateReplicaInfo \<Rightarrow> u64 list \<Rightarrow> ('s world, bytes Result) io" where
  "generate_single_vanilla_proof L P replica challenges =
     catch_panic_response L [] ''generate_single_vanilla_proof''
       (let sector_id = pri_sector_id replica
        in
        try_val (as_path_buf (pri_cache_dir_path replica)) (\<lambda>cache_dir_path.
        try_val (as_path_buf (pri_replica_path replica)) (\<lambda>replica_path.
        let replica_v1 = \<lparr>api_pri_proof = to_api_post (pri_registered_proof replica),
                          api_pri_comm_r = pri_comm_r replica, api_pri_cache_dir = cache_dir_path,
                          api_pri_replica_path = replica_path\<rparr>
        in try_io (lift_ext (lib_single_vanilla_proof P (to_api_post (pri_registered_proof replica)) sector_id
             replica_v1 challenges)) (\<lambda>result. ret (Inr result)))))"

section \<open>Winning PoSt\<close>

definition ffi_post_proofs :: "(api_RegisteredPoStProof \<times> bytes) list \<Rightarrow> PoStProof list" where
  "ffi_post_proofs = map (\<lambda>(t, proof). \<lparr>post_registered_proof = from_api_post t, post_proof = proof\<rparr>)"

definition generate_winning_post_with_vanilla ::
    "'s logger \<Rightarrow> 's post_lib \<Rightarrow> RegisteredPoStProof \<Rightarrow> array32 \<Rightarrow> array32 \<Rightarrow> bytes list
      \<Rightarrow> ('s world, PoStProof list Result) io" where
  "generate_winning_post_with_vanilla L P registered_proof randomness prover_id vanilla_proofs =
     catch_panic_response L [] ''generate_winning_post_with_vanilla''
       (try_io (lift_ext (lib_winning_post_with_vanilla P (to_api_post registered_proof) randomness prover_id
          vanilla_proofs)) (\<lambda>result. ret (Inr (ffi_post_proofs result))))"

definition generate_winning_post ::
    "'s logger \<Rightarrow> 's post_lib \<Rightarrow> array32 \<Rightarrow> PrivateReplicaInfo list \<Rightarrow> array32
      \<Rightarrow> ('s world, PoStProof list Result) io" where
  "generate_winning_post L P randomness replicas prover_id =
     catch_panic_response L [] ''generate_winning_post''
       (try_val (to_private_replica_info_map replicas) (\<lambda>replicas.
        try_io (lift_ext (lib_winning_post P randomness replicas prover_id)) (\<lambda>result.
        ret (Inr (ffi_post_proofs result)))))"

definition verify_winning_post ::
    "'s logger \<Rightarrow> 's post_lib \<Rightarrow> array32 \<Rightarrow> PublicReplicaInfo list \<Rightarrow> PoStProof list \<Rightarrow> array32
      \<Rightarrow> ('s world, bool Result) io" where
  "verify_winning_post L P randomness replicas proofs prover_id =
     catch_panic_response L False ''verify_winning_post''
       (let replicas = to_public_replica_info_map replicas;
            proofs = concat (map post_proof proofs)
        in try_io (lift_ext (lib_verify_winning_post P randomness proofs replicas prover_id)) (\<lambda>result.
           ret (Inr result)))"

section \<open>Window PoSt\<close>

text \<open>The match that both window functions end with: the response starts as the default and its
  fields are set.\<close>

definition window_post_response ::
    "anyhow + (api_RegisteredPoStProof \<times> bytes) list \<Rightarrow> GenerateWindowPoSt Result" where
  "window_post_response result =
     (let response = Result_default GenerateWindowPoSt_default
      in case result of
           Inr output \<Rightarrow>
             response\<lparr>status_code := NoError,
                      value_of := (value_of response)\<lparr>wp_proofs := ffi_post_proofs output\<rparr>\<rparr>
         | Inl err \<Rightarrow>
             let response1 = (case err of
                   FaultySectors sectors _ \<Rightarrow>
                     response\<lparr>value_of := (value_of response)\<lparr>wp_faulty_sectors := sectors\<rparr>\<rparr>
                 | AnyhowMsg _ \<Rightarrow> response)
             in response1\<lparr>status_code := UnclassifiedError,
                          error_msg := str_bytes (anyhow_to_string err)\<rparr>)"

definition generate_window_post_with_vanilla ::
    "'s logger \<Rightarrow> 's post_lib \<Rightarrow> RegisteredPoStProof \<Rightarrow> array32 \<Rightarrow> array32 \<Rightarrow> bytes list
      \<Rightarrow> ('s world, GenerateWindowPoSt Result) io" where
  "generate_window_post_with_vanilla L P registered_proof randomness prover_id vanilla_proofs =
     catch_panic_response_raw L GenerateWindowPoSt_default ''generate_window_post_with_vanilla''
       (bind_io (lift_ext (lib_window_post_with_vanilla P (to_api_post registered_proof) randomness prover_id
          vanilla_proofs)) (\<lambda>result. ret (window_post_response result)))"

definition generate_window_post ::
    "'s logger \<Rightarrow> 's post_lib \<Rightarrow> array32 \<Rightarrow> PrivateReplicaInfo list \<Rightarrow> array32
      \<Rightarrow> ('s world, GenerateWindowPoSt Result) io" where
  "generate_window_post L P randomness replicas prover_id =
     catch_panic_response_raw L GenerateWindowPoSt_default ''generate_window_post''
       (bind_io (try_val (to_private_replica_info_map replicas) (\<lambda>replicas.
          lift_ext (lib_window_post P randomness replicas prover_id))) (\<lambda>result.
        ret (window_post_response result)))"

definition verify_window_post ::
    "'s logger \<Rightarrow> 's post_lib \<Rightarrow> array32 \<Rightarrow> PublicReplicaInfo list \<Rightarrow> PoStProof list \<Rightarrow> array32
      \<Rightarrow> ('s world, bool Result) io" where
  "verify_window_post L P randomness replicas proofs prover_id =
     catch_panic_response L False ''verify_window_post''
       (let replicas = to_public_replica_info_map replicas;
            proofs = map (\<lambda>x. (to_api_post (post_registered_proof x), post_proof x)) proofs
        in try_io (lift_ext (lib_verify_window_post P randomness proofs replicas prover_id)) (\<lambda>result.
           ret (Inr result)))"

section \<open>Single partitions\<close>

definition merge_window_post_partition_proofs ::
    "'s logger \<Rightarrow> 's post_lib \<Rightarrow> RegisteredPoStProof \<Rightarrow> bytes list \<Rightarrow> ('s world, PoStProof Result) io" where
  "merge_window_post_partition_proofs L P registered_proof partition_proofs =
     catch_panic_response L PoStProof_default ''merge_window_post_partition_proofs''
       (try_io (lift_ext (lib_merge_window_post_partition_proofs P (to_api_post registered_proof) partition_proofs))
          (\<lambda>proof. ret (Inr \<lparr>post_registered_proof = registered_proof, post_proof = proof\<rparr>)))"

definition get_num_partition_for_fallback_post ::
    "'s logger \<Rightarrow> 's post_lib \<Rightarrow> RegisteredPoStProof \<Rightarrow> u64 \<Rightarrow> ('s world, u64 Result) io" where
  "get_num_partition_for_fallback_post L P registered_proof num_sectors =
     catch_panic_response L 0 ''get_num_partition_for_fallback_post''
       (try_io (lift_ext (lib_num_partition_for_fallback_post P (to_api_post registered_proof) num_sectors))
          (\<lambda>result. ret (Inr result)))"

definition single_window_post_response ::
    "RegisteredPoStProof \<Rightarrow> anyhow + bytes \<Rightarrow> GenerateSingleWindowPoStWithVanilla Result" where
  "single_window_post_response registered_proof result =
     (let response = Result_default GenerateSingleWindowPoStWithVanilla_default
      in case result of
           Inr output \<Rightarrow>
             response\<lparr>status_code := NoError,
                      value_of := (value_of response)\<lparr>sw_partition_proof :=
                        \<lparr>partition_registered_proof = registered_proof, partition_proof_bytes = output\<rparr>\<rparr>\<rparr>
         | Inl err \<Rightarrow>
             let response1 = (case err of
                   FaultySectors sectors _ \<Rightarrow>
                     response\<lparr>value_of := (value_of response)\<lparr>single_faulty_sectors := sectors\<rparr>\<rparr>
                 | AnyhowMsg _ \<Rightarrow> response)
             in response1\<lparr>status_code := UnclassifiedError,
                          error_msg := str_bytes (anyhow_to_string err)\<rparr>)"

definition generate_single_window_post_with_vanilla ::
    "'s logger \<Rightarrow> 's post_lib \<Rightarrow> RegisteredPoStProof \<Rightarrow> array32 \<Rightarrow> array32 \<Rightarrow> bytes list \<Rightarrow> u64
      \<Rightarrow> ('s world, GenerateSingleWindowPoStWithVanilla Result) io" where
  "generate_single_window_post_with_vanilla L P registered_proof randomness prover_id vanilla_proofs partition_index =
     catch_panic_response_raw L GenerateSingleWindowPoStWithVanilla_default ''generate_single_window_post_with_vanilla''
       (bind_io (lift_ext (lib_single_window_post_with_vanilla P (to_api_post registered_proof) randomness prover_id
          vanilla_proofs partition_index)) (\<lambda>result.
        ret (single_window_post_response registered_proof result)))"

section \<open>Accessors\<close>

definition registered_post_proof_accessor ::
    "RegisteredPoStProof \<Rightarrow> (api_RegisteredPoStProof \<Rightarrow> (anyhow + string) exec) \<Rightarrow> bytes Result exec" where
  "registered_post_proof_accessor registered_proof op =
     (let rsp = to_api_post registered_proof
      in bind_exec (op rsp) (\<lambda>r. Returns (string_response r)))"

definition get_post_params_cid :: "api_RegisteredPoStProof proof_info \<Rightarrow> RegisteredPoStProof \<Rightarrow> bytes Result exec" where
  "get_post_params_cid I registered_proof = registered_post_proof_accessor registered_proof (params_cid I)"

definition get_post_verifying_key_cid :: "api_RegisteredPoStProof proof_info \<Rightarrow> RegisteredPoStProof \<Rightarrow> bytes Result exec" where
  "get_post_verifying_key_cid I registered_proof =
     registered_post_proof_accessor registered_proof (verifying_key_cid I)"

definition get_post_params_path :: "api_RegisteredPoStProof proof_info \<Rightarrow> RegisteredPoStProof \<Rightarrow> bytes Result exec" where
  "get_post_params_path I registered_proof =
     registered_post_proof_accessor registered_proof (cache_params_path I)"

definition get_post_verifying_key_path :: "api_RegisteredPoStProof proof_info \<Rightarrow> RegisteredPoStProof \<Rightarrow> bytes Result exec" where
  "get_post_verifying_key_path I registered_proof =
     registered_post_proof_accessor registered_proof (cache_verifying_key_path I)"

definition get_post_circuit_identifier :: "api_RegisteredPoStProof proof_info \<Rightarrow> RegisteredPoStProof \<Rightarrow> bytes Result exec" where
  "get_post_circuit_identifier I registered_proof =
     registered_post_proof_accessor registered_proof (circuit_identifier I)"

definition get_post_version :: "api_RegisteredPoStProof proof_info \<Rightarrow> RegisteredPoStProof \<Rightarrow> bytes Result exec" where
  "get_post_version I registered_proof =
     registered_post_proof_accessor registered_proof (\<lambda>p. Returns (Inr (debug_fmt I p)))"

section \<open>Lemmas\<close>

lemma window_post_response_eq:
  "window_post_response (Inr output) = Result_ok \<lparr>wp_proofs = ffi_post_proofs output, wp_faulty_sectors = []\<rparr>"
  "window_post_response (Inl (FaultySectors sectors m)) =
     Result_err \<lparr>wp_proofs = [], wp_faulty_sectors = sectors\<rparr> (str_bytes m)"
  "window_post_response (Inl (AnyhowMsg m)) = Result_err GenerateWindowPoSt_default (str_bytes m)"
  by (simp_all add: window_post_response_def Result_default_def Result_ok_def Result_err_def
      GenerateWindowPoSt_default_def)

lemma catch_panic_response_raw_eq:
  assumes "logger_ok L" and "log_init w \<noteq> Poisoned"
  shows "catch_panic_response_raw L d name cb w =
    (case cb (log_started L name w) of
       (Returns r, w') \<Rightarrow> (Returns r, log_ended L name w')
     | (Panics p, w') \<Rightarrow> (Returns (Result_err d (str_bytes (panic_text p))), w')
     | (Undefined, w') \<Rightarrow> (Undefined, w'))"
  by (cases "cb (log_started L name w)", cases "fst (cb (log_started L name w))")
     (auto simp: catch_panic_response_raw_def catch_panic_response_raw_no_log_def catch_unwind_def
        logged_ok [OF assms] bind_io_def ret_def Result_from_def)

lemma ffi_post_proofs_back:
  "map (\<lambda>x. (to_api_post (post_registered_proof x), post_proof x)) (ffi_post_proofs ps) = ps"
  by (induction ps) (auto simp: ffi_post_proofs_def post_enum.to_from)

lemma post_accessor_outcome: "registered_post_proof_accessor p op = accessor_outcome (op (to_api_post p))"
  by (auto simp: registered_post_proof_accessor_def accessor_outcome_def string_response_def Result_from_def
      split: exec.splits sum.splits)

section \<open>A concrete library\<close>

text \<open>Its window PoSt finds sector 13 faulty and proves every other set of sectors.\<close>

definition sample_post :: "string list post_lib" where
  "sample_post =
     \<lparr>lib_winning_post_sector_challenge = (\<lambda>p r n prover. ret (Inr [0])),
      lib_fallback_sector_challenges = (\<lambda>p r sectors prover. ret (Inr [(1, [10, 11]), (2, [20])])),
      lib_single_vanilla_proof = (\<lambda>p sector replica cs. ret (Inr [1])),
      lib_winning_post_with_vanilla = (\<lambda>p r prover vs. ret (Inr [(p, concat vs)])),
      lib_winning_post = (\<lambda>r replicas prover. ret (Inr [(api_RegisteredPoStProof.StackedDrgWinning2KiBV1, [1])])),
      lib_verify_winning_post = (\<lambda>r proof replicas prover. ret (Inr True)),
      lib_window_post_with_vanilla = (\<lambda>p r prover vs. ret (Inr [(p, concat vs)])),
      lib_window_post = (\<lambda>r replicas prover.
        if replicas 13 = None then ret (Inr [(api_RegisteredPoStProof.StackedDrgWindow2KiBV1, [1])])
        else ret (Inl (FaultySectors [13] ''faulty sectors''))),
      lib_verify_window_post = (\<lambda>r proofs replicas prover. ret (Inr True)),
      lib_merge_window_post_partition_proofs = (\<lambda>p ps. ret (Inr (concat ps))),
      lib_num_partition_for_fallback_post = (\<lambda>p n. ret (Inr n)),
      lib_single_window_post_with_vanilla = (\<lambda>p r prover vs i. ret (Inr (concat vs)))\<rparr>"

definition sample_replica :: "u64 \<Rightarrow> PrivateReplicaInfo" where
  "sample_replica n = \<lparr>pri_registered_proof = RegisteredPoStProof.StackedDrgWindow2KiBV1, pri_cache_dir_path = [],
     pri_comm_r = zero32, pri_replica_path = [], pri_sector_id = n\<rparr>"

section \<open>Properties\<close>

text \<open>C28: the answer of \<open>generate_window_post\<close> on every outcome of the library: the proofs with no
  faulty sector; an error with exactly the faulty sectors the library reported, and only
  then; any other error and a panic with an empty value.\<close>
theorem window_post_reports_faults:
  assumes "logger_ok L" and "log_init w \<noteq> Poisoned" and "to_private_replica_info_map replicas = Inr m"
  shows "fst (generate_window_post L P randomness replicas prover w) =
    (case fst (lib_window_post P randomness m prover (ext (log_started L ''generate_window_post'' w))) of
       Returns (Inr output) \<Rightarrow> Returns (Result_ok \<lparr>wp_proofs = ffi_post_proofs output, wp_faulty_sectors = []\<rparr>)
     | Returns (Inl (FaultySectors sectors msg)) \<Rightarrow>
         Returns (Result_err \<lparr>wp_proofs = [], wp_faulty_sectors = sectors\<rparr> (str_bytes msg))
     | Returns (Inl (AnyhowMsg msg)) \<Rightarrow> Returns (Result_err GenerateWindowPoSt_default (str_bytes msg))
     | Panics p \<Rightarrow> Returns (Result_err GenerateWindowPoSt_default (str_bytes (panic_text p)))
     | Undefined \<Rightarrow> Undefined)"
  by (cases "lib_window_post P randomness m prover (ext (log_started L ''generate_window_post'' w))")
     (auto simp: generate_window_post_def catch_panic_response_raw_eq [OF assms(1,2)] assms(3) bind_io_def
        ret_def lift_ext_def window_post_response_eq split: exec.splits sum.splits anyhow.splits)

theorem window_post_reports_faults_witness:
  "fst (generate_window_post silent_logger sample_post zero32 [sample_replica 13] zero32 fresh_world) =
     Returns (Result_err \<lparr>wp_proofs = [], wp_faulty_sectors = [13]\<rparr> (str_bytes ''faulty sectors''))"
proof -
  have "to_private_replica_info_map [sample_replica 13] =
      Inr (collect_map [(13, snd (projr (private_replica (sample_replica 13))))])"
    by (simp add: to_private_replica_info_map_def private_replica_ok sample_replica_def)
  from window_post_reports_faults [OF silent_logger_ok fresh_world_ok this, of sample_post zero32 zero32]
  show ?thesis by (simp add: sample_post_def collect_map_def ret_def)
qed

text \<open>Window proofs that were generated can be handed to the verification as they are: the list of
  proofs in the answer reaches the verifier as the list that the prover returned, types and
  bytes, over the public replicas of the slice.\<close>
lemma window_post_proofs_reach_verifier:
  assumes "generate_window_post L P randomness replicas prover w = (Returns r, w')"
    and "status_code r = NoError"
  shows "\<exists>m output e e'. to_private_replica_info_map replicas = Inr m \<and>
    lib_window_post P randomness m prover e = (Returns (Inr output), e') \<and>
    verify_window_post L P randomness publics (wp_proofs (value_of r)) prover =
      catch_panic_response L False ''verify_window_post''
        (try_io (lift_ext (lib_verify_window_post P randomness output (to_public_replica_info_map publics) prover))
          (\<lambda>result. ret (Inr result)))"
proof -
  let ?cb = "bind_io (try_val (to_private_replica_info_map replicas) (\<lambda>replicas.
    lift_ext (lib_window_post P randomness replicas prover))) (\<lambda>result. ret (window_post_response result))"
  obtain w3 where "logged L ''generate_window_post'' ?cb w = (Returns r, w3)"
    using assms unfolding generate_window_post_def catch_panic_response_raw_def
    by (rule_tac raw_no_log_cases [of "logged L ''generate_window_post'' ?cb" w GenerateWindowPoSt_default]) auto
  then obtain w1 w2 where "?cb w1 = (Returns r, w2)" by (rule logged_Returns)
  then obtain res where res: "try_val (to_private_replica_info_map replicas) (\<lambda>replicas.
      lift_ext (lib_window_post P randomness replicas prover)) w1 = (Returns res, w2)"
    and r: "r = window_post_response res"
    by (auto simp: ret_def elim!: bind_io_cases)
  obtain out where ok: "res = Inr out"
    using assms(2) r by (cases res; cases "projl res") (auto simp: window_post_response_eq)
  obtain m where m: "to_private_replica_info_map replicas = Inr m"
    and lib: "lib_window_post P randomness m prover (ext w1) = (Returns (Inr out), ext w2)"
    using res ok by (auto simp: try_val_def ret_def lift_ext_def split: sum.splits prod.splits)
  have "wp_proofs (value_of r) = ffi_post_proofs out"
    by (simp add: r ok window_post_response_eq)
  then have "verify_window_post L P randomness publics (wp_proofs (value_of r)) prover =
      catch_panic_response L False ''verify_window_post''
        (try_io (lift_ext (lib_verify_window_post P randomness out (to_public_replica_info_map publics) prover))
          (\<lambda>result. ret (Inr result)))"
    by (simp add: verify_window_post_def ffi_post_proofs_back)
  with m lib show ?thesis by blast
qed

text \<open>\<open>generate_fallback_sector_challenges\<close> gives the challenges in two lists; the sector numbers
  and the challenge lists pair up, one for one, with the map of the library.\<close>
lemma fallback_challenges_pair_up:
  assumes "generate_fallback_sector_challenges L P p randomness sectors prover w = (Returns r, w')"
    and "status_code r = NoError"
  shows "\<exists>output e e'. lib_fallback_sector_challenges P (to_api_post p) randomness sectors prover e =
      (Returns (Inr output), e') \<and>
    zip (fb_ids (value_of r)) (fb_challenges (value_of r)) = output \<and>
    length (fb_ids (value_of r)) = length (fb_challenges (value_of r))"
proof (rule guarded_success [OF assms(1) [unfolded generate_fallback_sector_challenges_def Let_def] assms(2)])
  fix w1 w2 v
  assume "try_io (lift_ext (lib_fallback_sector_challenges P (to_api_post p) randomness sectors prover))
      (\<lambda>output. ret (Inr \<lparr>fb_ids = map (\<lambda>(i, _). i) output, fb_challenges = map (\<lambda>(_, cs). cs) output\<rparr>)) w1
      = (Returns (Inr v), w2)" and r: "r = Result_ok v"
  then obtain out e' where "lib_fallback_sector_challenges P (to_api_post p) randomness sectors prover (ext w1) =
      (Returns (Inr out), e')"
    and v: "v = \<lparr>fb_ids = map (\<lambda>(i, _). i) out, fb_challenges = map (\<lambda>(_, cs). cs) out\<rparr>"
    by (auto simp: try_io_def lift_ext_def ret_def elim!: bind_io_cases split: sum.splits prod.splits)
  moreover have "zip (map (\<lambda>(i, _). i) out) (map (\<lambda>(_, cs). cs) out) = out"
    by (induction out) auto
  ultimately show ?thesis by (auto simp: r)
qed

lemma post_accessors_run:
  "get_post_params_cid I p = accessor_outcome (params_cid I (to_api_post p)) \<and>
   get_post_verifying_key_cid I p = accessor_outcome (verifying_key_cid I (to_api_post p)) \<and>
   get_post_params_path I p = accessor_outcome (cache_params_path I (to_api_post p)) \<and>
   get_post_verifying_key_path I p = accessor_outcome (cache_verifying_key_path I (to_api_post p)) \<and>
   get_post_circuit_identifier I p = accessor_outcome (circuit_identifier I (to_api_post p)) \<and>
   get_post_version I p = Returns (Result_ok (str_bytes (debug_fmt I (to_api_post p))))"
  by (simp add: get_post_params_cid_def get_post_verifying_key_cid_def get_post_params_path_def
      get_post_verifying_key_path_def get_post_circuit_identifier_def get_post_version_def
      post_accessor_outcome) (simp add: accessor_outcome_def)

end
