(* ===== verification/Proofs_Update.thy ===== *)
theory Proofs_Update
  imports Proofs_Post
begin

text \<open>
  The empty-sector-update functions of \<open>rust/src/proofs/api.rs\<close>: encoding data into a
  sector, decoding it, removing it, and the update proofs, whole and by partition. The
  library is the record \<open>update_lib\<close>. The property is that the proofs of the partitions
  pass from the prover to the verifier, and to the prover that compresses them, unchanged.
\<close>

section \<open>The library\<close>

record UpdateOutput =
  out_comm_r_new :: array32
  out_comm_r_last_new :: array32
  out_comm_d_new :: array32

record 's update_lib =
  lib_encode_into :: "api_RegisteredUpdateProof \<Rightarrow> path \<Rightarrow> path \<Rightarrow> path \<Rightarrow> path \<Rightarrow> path \<Rightarrow> api_PieceInfo list
    \<Rightarrow> ('s, anyhow + UpdateOutput) io"
  lib_decode_from :: "api_RegisteredUpdateProof \<Rightarrow> path \<Rightarrow> path \<Rightarrow> path \<Rightarrow> path \<Rightarrow> array32 \<Rightarrow> ('s, anyhow + unit) io"
  lib_remove_encoded_data :: "api_RegisteredUpdateProof \<Rightarrow> path \<Rightarrow> path \<Rightarrow> path \<Rightarrow> path \<Rightarrow> path \<Rightarrow> array32
    \<Rightarrow> ('s, anyhow + unit) io"
  lib_generate_partition_proofs :: "api_RegisteredUpdateProof \<Rightarrow> array32 \<Rightarrow> array32 \<Rightarrow> array32 \<Rightarrow> path \<Rightarrow> path
    \<Rightarrow> path \<Rightarrow> path \<Rightarrow> ('s, anyhow + bytes list) io"
  lib_verify_partition_proofs :: "api_RegisteredUpdateProof \<Rightarrow> bytes list \<Rightarrow> array32 \<Rightarrow> array32 \<Rightarrow> array32
    \<Rightarrow> ('s, anyhow + bool) io"
  lib_update_proof_with_vanilla :: "api_RegisteredUpdateProof \<Rightarrow> bytes list \<Rightarrow> array32 \<Rightarrow> array32 \<Rightarrow> array32
    \<Rightarrow> ('s, anyhow + bytes) io"
  lib_update_proof :: "api_RegisteredUpdateProof \<Rightarrow> array32 \<Rightarrow> array32 \<Rightarrow> array32 \<Rightarrow> path \<Rightarrow> path \<Rightarrow> path \<Rightarrow> path
    \<Rightarrow> ('s, anyhow + bytes) io"
  lib_verify_update_proof :: "api_RegisteredUpdateProof \<Rightarrow> bytes \<Rightarrow> array32 \<Rightarrow> array32 \<Rightarrow> array32
    \<Rightarrow> ('s, anyhow + bool) io"

section \<open>Encoding and decoding\<close>

definition empty_sector_update_encode_into ::
    "'s logger \<Rightarrow> 's update_lib \<Rightarrow> RegisteredUpdateProof \<Rightarrow> bytes \<Rightarrow> bytes \<Rightarrow> bytes \<Rightarrow> bytes \<Rightarrow> bytes
      \<Rightarrow> PublicPieceInfo list \<Rightarrow> ('s world, EmptySectorUpdateEncodeInto Result) io" where
  "empty_sector_update_encode_into L U registered_proof new_replica_path new_cache_dir_path sector_key_path
     sector_key_cache_dir_path staged_data_path pieces =
     catch_panic_response L EmptySectorUpdateEncodeInto_default ''empty_sector_update_encode_into''
       (let public_pieces = map to_api_piece pieces
        in
        try_val (as_path_buf new_replica_path) (\<lambda>new_replica.
        try_val (as_path_buf new_cache_dir_path) (\<lambda>new_cache_dir.
        try_val (as_path_buf sector_key_path) (\<lambda>sector_key.
        try_val (as_path_buf sector_key_cache_dir_path) (\<lambda>sector_key_cache_dir.
        try_val (as_path_buf staged_data_path) (\<lambda>staged_data.
        try_io (lift_ext (lib_encode_into U (to_api_update registered_proof) new_replica new_cache_dir sector_key
          sector_key_cache_dir staged_data public_pieces)) (\<lambda>output.
        ret (Inr \<lparr>upd_comm_r_new = out_comm_r_new output, upd_comm_r_last_new = out_comm_r_last_new output,
                  upd_comm_d_new = out_comm_d_new output\<rparr>))))))))"

definition empty_sector_update_decode_from ::
    "'s logger \<Rightarrow> 's update_lib \<Rightarrow> RegisteredUpdateProof \<Rightarrow> bytes \<Rightarrow> bytes \<Rightarrow> bytes \<Rightarrow> bytes \<Rightarrow> array32
      \<Rightarrow> ('s world, unit Result) io" where
  "empty_sector_update_decode_from L U registered_proof out_data_path replica_path sector_key_path
     sector_key_cache_dir_path comm_d_new =
     catch_panic_response L () ''empty_sector_update_decode_from''
       (try_val (as_path_buf out_data_path) (\<lambda>out_data.
        try_val (as_path_buf replica_path) (\<lambda>replica.
        try_val (as_path_buf sector_key_path) (\<lambda>sector_key.
        try_val (as_path_buf sector_key_cache_dir_path) (\<lambda>sector_key_cache_dir.
        try_io (lift_ext (lib_decode_from U (to_api_update registered_proof) out_data replica sector_key
          sector_key_cache_dir comm_d_new)) (\<lambda>_. ret (Inr ())))))))"

definition empty_sector_update_remove_encoded_data ::
    "'s logger \<Rightarrow> 's update_lib \<Rightarrow> RegisteredUpdateProof \<Rightarrow> bytes \<Rightarrow> bytes \<Rightarrow> bytes \<Rightarrow> bytes \<Rightarrow> bytes \<Rightarrow> array32
      \<Rightarrow> ('s world, unit Result) io" where
  "empty_sector_update_remove_encoded_data L U registered_proof sector_key_path sector_key_cache_dir_path
     replica_path replica_cache_path data_path comm_d_new =
     catch_panic_response L () ''empty_sector_update_remove_encoded_data''
       (try_val (as_path_buf sector_key_path) (\<lambda>sector_key.
        try_val (as_path_buf sector_key_cache_dir_path) (\<lambda>sector_key_cache_dir.
        try_val (as_path_buf replica_path) (\<lambda>replica.
        try_val (as_path_buf replica_cache_path) (\<lambda>replica_cache.
        try_val (as_path_buf data_path) (\<lambda>data.
        try_io (lift_ext (lib_remove_encoded_data U (to_api_update registered_proof) sector_key
          sector_key_cache_dir replica replica_cache data comm_d_new)) (\<lambda>_. ret (Inr ()))))))))"

section \<open>Update proofs\<close>

definition generate_empty_sector_update_partition_proofs ::
    "'s logger \<Rightarrow> 's update_lib \<Rightarrow> RegisteredUpdateProof \<Rightarrow> array32 \<Rightarrow> array32 \<Rightarrow> array32 \<Rightarrow> bytes \<Rightarrow> bytes \<Rightarrow> bytes
      \<Rightarrow> bytes \<Rightarrow> ('s world, bytes list Result) io" where
  "generate_empty_sector_update_partition_proofs L U registered_proof comm_r_old comm_r_new comm_d_new
     sector_key_path sector_key_cache_dir_path replica_path replica_cache_path =
     catch_panic_response L [] ''generate_empty_sector_update_partition_proofs''
       (try_val (as_path_buf sector_key_path) (\<lambda>sector_key.
        try_val (as_path_buf sector_key_cache_dir_path) (\<lambda>sector_key_cache_dir.
        try_val (as_path_buf replica_path) (\<lambda>replica.
        try_val (as_path_buf replica_cache_path) (\<lambda>replica_cache.
        try_io (lift_ext (lib_generate_partition_proofs U (to_api_update registered_proof) comm_r_old comm_r_new
          comm_d_new sector_key sector_key_cache_dir replica replica_cache)) (\<lambda>result.
        ret (Inr result)))))))"

definition verify_empty_sector_update_partition_proofs ::
    "'s logger \<Rightarrow> 's update_lib \<Rightarrow> RegisteredUpdateProof \<Rightarrow> bytes list \<Rightarrow> array32 \<Rightarrow> array32 \<Rightarrow> array32
      \<Rightarrow> ('s world, bool Result) io" where
  "verify_empty_sector_update_partition_proofs L U registered_proof proofs comm_r_old comm_r_new comm_d_new =
     catch_panic_response L False ''verify_empty_sector_update_partition_proofs''
       (try_io (lift_ext (lib_verify_partition_proofs U (to_api_update registered_proof) proofs comm_r_old
          comm_r_new comm_d_new)) (\<lambda>result. ret (Inr result)))"

definition generate_empty_sector_update_proof_with_vanilla ::
    "'s logger \<Rightarrow> 's update_lib \<Rightarrow> RegisteredUpdateProof \<Rightarrow> bytes list \<Rightarrow> array32 \<Rightarrow> array32 \<Rightarrow> array32
      \<Rightarrow> ('s world, bytes Result) io" where
  "generate_empty_sector_update_proof_with_vanilla L U registered_proof vanilla_proofs comm_r_old comm_r_new comm_d_new =
     catch_panic_response L [] ''generate_empty_sector_update_proof_with_vanilla''
       (try_io (lift_ext (lib_update_proof_with_vanilla U (to_api_update registered_proof) vanilla_proofs comm_r_old
          comm_r_new comm_d_new)) (\<lambda>result. ret (Inr result)))"

definition generate_empty_sector_update_proof ::
    "'s logger \<Rightarrow> 's update_lib \<Rightarrow> RegisteredUpdateProof \<Rightarrow> array32 \<Rightarrow> array32 \<Rightarrow> array32 \<Rightarrow> bytes \<Rightarrow> bytes \<Rightarrow> bytes
      \<Rightarrow> bytes \<Rightarrow> ('s world, bytes Result) io" where
  "generate_empty_sector_update_proof L U registered_proof comm_r_old comm_r_new comm_d_new sector_key_path
     sector_key_cache_dir_path replica_path replica_cache_path =
     catch_panic_response L [] ''generate_empty_sector_update_proof''
       (try_val (as_path_buf sector_key_path) (\<lambda>sector_key.
        try_val (as_path_buf sector_key_cache_dir_path) (\<lambda>sector_key_cache_dir.
        try_val (as_path_buf replica_path) (\<lambda>replica.
        try_val (as_path_buf replica_cache_path) (\<lambda>replica_cache.
        try_io (lift_ext (lib_update_proof U (to_api_update registered_proof) comm_r_old comm_r_new comm_d_new
          sector_key sector_key_cache_dir replica replica_cache)) (\<lambda>result.
        ret (Inr result)))))))"

definition verify_empty_sector_update_proof ::
    "'s logger \<Rightarrow> 's update_lib \<Rightarrow> RegisteredUpdateProof \<Rightarrow> bytes \<Rightarrow> array32 \<Rightarrow> array32 \<Rightarrow> array32
      \<Rightarrow> ('s world, bool Result) io" where
  "verify_empty_sector_update_proof L U registered_proof proof comm_r_old comm_r_new comm_d_new =
     catch_panic_response L False ''verify_empty_sector_update_proof''
       (let proof_bytes = proof
        in try_io (lift_ext (lib_verify_update_proof U (to_api_update registered_proof) proof_bytes comm_r_old
             comm_r_new comm_d_new)) (\<lambda>result. ret (Inr result)))"

section \<open>Properties\<close>

definition sample_update :: "string list update_lib" where
  "sample_update =
     \<lparr>lib_encode_into = (\<lambda>p nr nc k kc d pieces. ret (Inr \<lparr>out_comm_r_new = [1], out_comm_r_last_new = [2], out_comm_d_new = [3]\<rparr>)),
      lib_decode_from = (\<lambda>p o' r k kc d. ret (Inr ())), lib_remove_encoded_data = (\<lambda>p k kc r rc data d. ret (Inr ())),
      lib_generate_partition_proofs = (\<lambda>p a b c k kc r rc. ret (Inr [[1], [2]])),
      lib_verify_partition_proofs = (\<lambda>p ps a b c. ret (Inr True)),
      lib_update_proof_with_vanilla = (\<lambda>p ps a b c. ret (Inr (concat ps))),
      lib_update_proof = (\<lambda>p a b c k kc r rc. ret (Inr [1, 2])),
      lib_verify_update_proof = (\<lambda>p proof a b c. ret (Inr True))\<rparr>"

lemma partition_proofs_success:
  assumes "generate_empty_sector_update_partition_proofs L U p r_old r_new d_new key key_cache replica
      replica_cache w = (Returns r, w')"
    and "status_code r = NoError"
  obtains e e' where "lib_generate_partition_proofs U (to_api_update p) r_old r_new d_new key key_cache replica
      replica_cache e = (Returns (Inr (value_of r)), e')"
  by (rule guarded_success [OF assms(1) [unfolded generate_empty_sector_update_partition_proofs_def] assms(2)])
     (use that in \<open>auto simp: as_path_buf_def try_io_def lift_ext_def ret_def elim!: bind_io_cases
        split: sum.splits prod.splits\<close>)

text \<open>The partition proofs that the update prover returns reach the verifier of partitions, and
  the prover that compresses them, exactly as the library computed them, for the same
  registered proof and commitments.\<close>
lemma partition_proofs_reach_verifier:
  assumes "generate_empty_sector_update_partition_proofs L U p r_old r_new d_new key key_cache replica
      replica_cache w = (Returns r, w')"
    and "status_code r = NoError"
  shows "\<exists>proofs e e'. lib_generate_partition_proofs U (to_api_update p) r_old r_new d_new key key_cache replica
      replica_cache e = (Returns (Inr proofs), e') \<and>
    verify_empty_sector_update_partition_proofs L U p (value_of r) r_old r_new d_new =
      catch_panic_response L False ''verify_empty_sector_update_partition_proofs''
        (try_io (lift_ext (lib_verify_partition_proofs U (to_api_update p) proofs r_old r_new d_new))
          (\<lambda>result. ret (Inr result))) \<and>
    generate_empty_sector_update_proof_with_vanilla L U p (value_of r) r_old r_new d_new =
      catch_panic_response L [] ''generate_empty_sector_update_proof_with_vanilla''
        (try_io (lift_ext (lib_update_proof_with_vanilla U (to_api_update p) proofs r_old r_new d_new))
          (\<lambda>result. ret (Inr result)))"
proof (rule partition_proofs_success [OF assms])
  fix e e'
  assume "lib_generate_partition_proofs U (to_api_update p) r_old r_new d_new key key_cache replica
      replica_cache e = (Returns (Inr (value_of r)), e')"
  then show ?thesis
    unfolding verify_empty_sector_update_partition_proofs_def generate_empty_sector_update_proof_with_vanilla_def
    by blast
qed

end
