(* ===== verification/Lotus_Trace.thy ===== *)
theory Lotus_Trace
  imports Util_Types
begin

text \<open>
  \<open>build_lotus_trace\<close> of \<open>rust/src/fvm/machine.rs\<close>: the flat list of call and return events
  that the FVM records is rebuilt into the tree of calls that Lotus shows. The
  specification is a datatype of call trees with the event list each of them leaves; the
  properties say that the builder inverts it exactly.
\<close>

section \<open>Events and traces\<close>

text \<open>Actor ids are \<open>u64\<close>, token amounts are unbounded integers, the address type is the FVM's.\<close>

record 'addr SendParams =
  sp_from :: u64
  sp_to :: 'addr
  sp_method :: u64
  sp_params :: bytes
  sp_value :: int

record 'addr Message =
  msg_version :: int
  msg_from :: 'addr
  msg_to :: 'addr
  msg_sequence :: u64
  msg_value :: int
  msg_method_num :: u64
  msg_params :: bytes
  msg_gas_limit :: int
  msg_gas_fee_cap :: int
  msg_gas_premium :: int

record Receipt =
  exit_code :: u32
  return_data :: bytes
  gas_used :: i64

datatype ErrorNumber =
    IllegalArgument | IllegalOperation | LimitExceeded | AssertionFailed | InsufficientFunds
  | NotFound | InvalidHandle | IllegalCid | IllegalCodec | Serialization | Forbidden

datatype InvocationResult = Return bytes | Failure u32

text \<open>A syscall error is a pair of a message and an error number. \<open>OtherEvent\<close> stands for any
  event the builder's wildcard arms take.\<close>

type_synonym call_result = "(string \<times> ErrorNumber) + InvocationResult"

datatype 'addr ExecutionEvent =
    Call "'addr SendParams"
  | Return call_result
  | OtherEvent

datatype 'addr LotusTrace =
  LotusTrace (msg: "'addr Message") (msg_receipt: Receipt) (trace_error: string)
    (subcalls: "'addr LotusTrace list")

text \<open>The constants of \<open>fvm_shared\<close> that the builder uses.\<close>

record 'addr fvm_consts =
  new_id :: "u64 \<Rightarrow> 'addr"
  OK :: u32
  SYS_INSUFFICIENT_FUNDS :: u32
  SYS_INVALID_RECEIVER :: u32
  SYS_ASSERTION_FAILED :: u32
  is_success :: "u32 \<Rightarrow> bool"

section \<open>The builder\<close>

definition call_message :: "'addr fvm_consts \<Rightarrow> 'addr SendParams \<Rightarrow> 'addr Message" where
  "call_message X p =
     \<lparr>msg_version = 0, msg_from = new_id X (sp_from p), msg_to = sp_to p, msg_sequence = 0,
      msg_value = sp_value p, msg_method_num = sp_method p, msg_params = sp_params p,
      msg_gas_limit = 0, msg_gas_fee_cap = 0, msg_gas_premium = 0\<rparr>"

fun syscall_exit_code :: "'addr fvm_consts \<Rightarrow> ErrorNumber \<Rightarrow> u32" where
  "syscall_exit_code X InsufficientFunds = SYS_INSUFFICIENT_FUNDS X"
| "syscall_exit_code X NotFound = SYS_INVALID_RECEIVER X"
| "syscall_exit_code X IllegalArgument = SYS_ASSERTION_FAILED X"
| "syscall_exit_code X IllegalOperation = SYS_ASSERTION_FAILED X"
| "syscall_exit_code X LimitExceeded = SYS_ASSERTION_FAILED X"
| "syscall_exit_code X AssertionFailed = SYS_ASSERTION_FAILED X"
| "syscall_exit_code X InvalidHandle = SYS_ASSERTION_FAILED X"
| "syscall_exit_code X IllegalCid = SYS_ASSERTION_FAILED X"
| "syscall_exit_code X IllegalCodec = SYS_ASSERTION_FAILED X"
| "syscall_exit_code X Serialization = SYS_ASSERTION_FAILED X"
| "syscall_exit_code X Forbidden = SYS_ASSERTION_FAILED X"

fun return_receipt :: "'addr fvm_consts \<Rightarrow> call_result \<Rightarrow> anyhow + Receipt" where
  "return_receipt X (Inr (InvocationResult.Return d)) =
     Inr \<lparr>exit_code = OK X, return_data = d, gas_used = 0\<rparr>"
| "return_receipt X (Inr (Failure c)) =
     (if is_success X c then Inl (AnyhowMsg ''actor failed with status OK'')
      else Inr \<lparr>exit_code = c, return_data = [], gas_used = 0\<rparr>)"
| "return_receipt X (Inl (m, n)) =
     Inr \<lparr>exit_code = syscall_exit_code X n, return_data = [], gas_used = 0\<rparr>"

definition not_a_call :: anyhow where
  "not_a_call = AnyhowMsg ''expected ExecutionEvent of type Call''"

definition no_return :: anyhow where
  "no_return = AnyhowMsg ''should have returned on an ExecutionEvent:Return''"

text \<open>
  The \<open>while let\<close> loop for one call: \<open>m\<close> is the message of the call, \<open>subs\<close> the traces
  pushed so far, the list what the iterator still holds. A nested call starts a new trace
  on the same iterator.
\<close>

function (domintros) trace_loop ::
    "'addr fvm_consts \<Rightarrow> 'addr Message \<Rightarrow> 'addr LotusTrace list \<Rightarrow> 'addr ExecutionEvent list
      \<Rightarrow> anyhow + 'addr LotusTrace \<times> 'addr ExecutionEvent list" where
  "trace_loop X m subs [] = Inl no_return"
| "trace_loop X m subs (Return res # it) =
     (case return_receipt X res of
        Inl e \<Rightarrow> Inl e
      | Inr r \<Rightarrow> Inr (LotusTrace m r [] subs, it))"
| "trace_loop X m subs (Call p # it) =
     (case trace_loop X (call_message X p) [] it of
        Inl e \<Rightarrow> Inl e
      | Inr (t, it') \<Rightarrow> trace_loop X m (subs @ [t]) it')"
| "trace_loop X m subs (OtherEvent # it) = Inl not_a_call"
  by pat_completeness auto

text \<open>A trace consumes at least its return event.\<close>

lemma trace_loop_consumes:
  assumes "trace_loop_dom (X, m, subs, evs)"
  shows "trace_loop X m subs evs = Inr (t, it) \<Longrightarrow> length it < length evs"
  using assms
proof (induction arbitrary: t it rule: trace_loop.pinduct)
  case (3 X m subs p evs)
  from 3(1,4) obtain u it' where
    "trace_loop X (call_message X p) [] evs = Inr (u, it')"
    "trace_loop X m (subs @ [u]) it' = Inr (t, it)"
    by (auto simp: trace_loop.psimps split: sum.splits)
  with 3(2) 3(3) [OF this(1) refl] show ?case by fastforce
qed (auto simp: trace_loop.psimps split: sum.splits)

termination trace_loop
  by (relation "measure (\<lambda>(X, m, subs, evs). length evs)")
     (auto dest: trace_loop_consumes)

definition build_lotus_trace ::
    "'addr fvm_consts \<Rightarrow> 'addr ExecutionEvent \<Rightarrow> 'addr ExecutionEvent list
      \<Rightarrow> anyhow + 'addr LotusTrace \<times> 'addr ExecutionEvent list" where
  "build_lotus_trace X new_call trace_iter =
     (case new_call of
        Call p \<Rightarrow> trace_loop X (call_message X p) [] trace_iter
      | _ \<Rightarrow> Inl not_a_call)"

text \<open>The arm of the loop that is not a return calls the builder on the event, as the code does.\<close>

lemma trace_loop_calls_build:
  assumes "\<And>r. ev \<noteq> Return r"
  shows "trace_loop X m subs (ev # it) =
    (case build_lotus_trace X ev it of
       Inl e \<Rightarrow> Inl e
     | Inr (t, it') \<Rightarrow> trace_loop X m (subs @ [t]) it')"
  using assms by (cases ev) (auto simp: build_lotus_trace_def split: sum.splits prod.splits)

text \<open>The two functions as the source nests them, the builder calling the loop and the loop the
  builder, with fuel for the steps of the iterator.\<close>

fun build_fuel ::
    "nat \<Rightarrow> 'addr fvm_consts \<Rightarrow> 'addr ExecutionEvent \<Rightarrow> 'addr ExecutionEvent list
      \<Rightarrow> (anyhow + 'addr LotusTrace \<times> 'addr ExecutionEvent list) option"
  and loop_fuel ::
    "nat \<Rightarrow> 'addr fvm_consts \<Rightarrow> 'addr Message \<Rightarrow> 'addr LotusTrace list \<Rightarrow> 'addr ExecutionEvent list
      \<Rightarrow> (anyhow + 'addr LotusTrace \<times> 'addr ExecutionEvent list) option" where
  "build_fuel n X (Call p) it = loop_fuel n X (call_message X p) [] it"
| "build_fuel n X (Return r) it = Some (Inl not_a_call)"
| "build_fuel n X OtherEvent it = Some (Inl not_a_call)"
| "loop_fuel 0 X m subs it = None"
| "loop_fuel (Suc n) X m subs [] = Some (Inl no_return)"
| "loop_fuel (Suc n) X m subs (ev # it) =
     (case ev of
        Return res \<Rightarrow>
          Some (case return_receipt X res of
             Inl e \<Rightarrow> Inl e
           | Inr r \<Rightarrow> Inr (LotusTrace m r [] subs, it))
      | _ \<Rightarrow>
          (case build_fuel n X ev it of
             None \<Rightarrow> None
           | Some (Inl e) \<Rightarrow> Some (Inl e)
           | Some (Inr (t, it')) \<Rightarrow> loop_fuel n X m (subs @ [t]) it'))"

section \<open>Call trees\<close>

text \<open>The calls of an execution as a tree: parameters, inner calls in order, result.\<close>

datatype 'addr call_tree = CallTree "'addr SendParams" "'addr call_tree list" call_result

fun events_of :: "'addr call_tree \<Rightarrow> 'addr ExecutionEvent list" where
  "events_of (CallTree p ts r) = Call p # concat (map events_of ts) @ [Return r]"

text \<open>A tree the FVM can have run: no actor fails with the status of success.\<close>

fun tree_ok :: "'addr fvm_consts \<Rightarrow> 'addr call_tree \<Rightarrow> bool" where
  "tree_ok X (CallTree p ts r) =
     (list_all (tree_ok X) ts \<and>
      (case r of Inr (Failure c) \<Rightarrow> \<not> is_success X c | _ \<Rightarrow> True))"

fun receipt_of :: "'addr fvm_consts \<Rightarrow> call_result \<Rightarrow> Receipt" where
  "receipt_of X (Inr (InvocationResult.Return d)) = \<lparr>exit_code = OK X, return_data = d, gas_used = 0\<rparr>"
| "receipt_of X (Inr (Failure c)) = \<lparr>exit_code = c, return_data = [], gas_used = 0\<rparr>"
| "receipt_of X (Inl (m, n)) = \<lparr>exit_code = syscall_exit_code X n, return_data = [], gas_used = 0\<rparr>"

fun lotus_of :: "'addr fvm_consts \<Rightarrow> 'addr call_tree \<Rightarrow> 'addr LotusTrace" where
  "lotus_of X (CallTree p ts r) =
     LotusTrace (call_message X p) (receipt_of X r) [] (map (lotus_of X) ts)"

lemma return_receipt_Inr_iff:
  "return_receipt X r = Inr rc \<longleftrightarrow>
     rc = receipt_of X r \<and> (case r of Inr (Failure c) \<Rightarrow> \<not> is_success X c | _ \<Rightarrow> True)"
  by (cases "(X, r)" rule: return_receipt.cases) auto

section \<open>The builder inverts the event list\<close>

text \<open>The loop runs through the events of inner calls and pushes their traces.\<close>

lemma trace_loop_events:
  "tree_ok X t \<Longrightarrow>
     trace_loop X m subs (events_of t @ rest) = trace_loop X m (subs @ [lotus_of X t]) rest"
proof (induction t arbitrary: m subs rest)
  case (CallTree p ts r)
  have inner: "trace_loop X m' subs' (concat (map events_of us) @ rest') =
      trace_loop X m' (subs' @ map (lotus_of X) us) rest'"
    if "set us \<subseteq> set ts" for us m' subs' rest'
    using that
  proof (induction us arbitrary: subs')
    case (Cons u us)
    then have "tree_ok X u"
      using CallTree.prems by (auto simp: list_all_iff)
    with Cons CallTree.IH [of u] show ?case by simp
  qed simp
  have "return_receipt X r = Inr (receipt_of X r)"
    using CallTree.prems by (simp add: return_receipt_Inr_iff)
  with inner [of ts] show ?case by simp
qed

lemma build_events:
  assumes "tree_ok X t"
  shows "build_lotus_trace X (hd (events_of t)) (tl (events_of t) @ rest) = Inr (lotus_of X t, rest)"
proof (cases t)
  case (CallTree p ts r)
  have "trace_loop X m subs (concat (map events_of us) @ rest') =
      trace_loop X m (subs @ map (lotus_of X) us) rest'"
    if "list_all (tree_ok X) us" for us m subs rest'
    using that by (induction us arbitrary: subs) (simp_all add: trace_loop_events)
  moreover have "return_receipt X r = Inr (receipt_of X r)"
    using assms CallTree by (simp add: return_receipt_Inr_iff)
  ultimately show ?thesis
    using assms CallTree by (simp add: build_lotus_trace_def)
qed

text \<open>Whatever the loop returns was there as the events of a list of inner calls and a return.\<close>

lemma trace_loop_sound:
  "trace_loop X m subs evs = Inr (lt, rest) \<Longrightarrow>
     \<exists>ts r. list_all (tree_ok X) ts \<and>
       (case r of Inr (Failure c) \<Rightarrow> \<not> is_success X c | _ \<Rightarrow> True) \<and>
       evs = concat (map events_of ts) @ Return r # rest \<and>
       lt = LotusTrace m (receipt_of X r) [] (subs @ map (lotus_of X) ts)"
proof (induction X m subs evs arbitrary: lt rest rule: trace_loop.induct)
  case (2 X m subs res it)
  then have "return_receipt X res = Inr (msg_receipt lt) \<and> lt = LotusTrace m (msg_receipt lt) [] subs \<and> rest = it"
    by (auto split: sum.splits)
  then show ?case
    by (intro exI [of _ "[]"] exI [of _ res]) (auto simp: return_receipt_Inr_iff)
next
  case (3 X m subs p it)
  from 3(3) obtain u it' where
    u: "trace_loop X (call_message X p) [] it = Inr (u, it')" and
    l: "trace_loop X m (subs @ [u]) it' = Inr (lt, rest)"
    by (auto split: sum.splits)
  from 3(1) [OF u] obtain ts r where inner: "list_all (tree_ok X) ts"
      "case r of Inr (Failure c) \<Rightarrow> \<not> is_success X c | _ \<Rightarrow> True"
      "it = concat (map events_of ts) @ Return r # it'"
      "u = LotusTrace (call_message X p) (receipt_of X r) [] (map (lotus_of X) ts)"
    by auto
  from 3(2) [OF u refl l] obtain us q where outer: "list_all (tree_ok X) us"
      "case q of Inr (Failure c) \<Rightarrow> \<not> is_success X c | _ \<Rightarrow> True"
      "it' = concat (map events_of us) @ Return q # rest"
      "lt = LotusTrace m (receipt_of X q) [] ((subs @ [u]) @ map (lotus_of X) us)"
    by blast
  show ?case
    by (intro exI [of _ "CallTree p ts r # us"] exI [of _ q]) (use inner outer in simp)
qed auto

lemma build_sound:
  assumes "build_lotus_trace X ev evs = Inr (lt, rest)"
  shows "\<exists>t. tree_ok X t \<and> ev # evs = events_of t @ rest \<and> lt = lotus_of X t"
proof (cases ev)
  case (Call p)
  with assms obtain ts r where "list_all (tree_ok X) ts"
      "case r of Inr (Failure c) \<Rightarrow> \<not> is_success X c | _ \<Rightarrow> True"
      "evs = concat (map events_of ts) @ Return r # rest"
      "lt = LotusTrace (call_message X p) (receipt_of X r) [] (map (lotus_of X) ts)"
    by (auto simp: build_lotus_trace_def dest: trace_loop_sound)
  with Call show ?thesis
    by (intro exI [of _ "CallTree p ts r"]) simp
qed (use assms in \<open>simp_all add: build_lotus_trace_def\<close>)

section \<open>Interrupted traces\<close>

lemma trace_loop_prefix_list:
  assumes "\<And>t m subs pre suf. t \<in> set ts \<Longrightarrow> tree_ok X t \<Longrightarrow> events_of t = pre @ suf \<Longrightarrow>
      suf \<noteq> [] \<Longrightarrow> trace_loop X m subs pre = Inl no_return"
    and "list_all (tree_ok X) ts" and "concat (map events_of ts) = pre @ suf"
  shows "trace_loop X m subs pre = Inl no_return"
  using assms
proof (induction ts arbitrary: subs pre suf)
  case Nil
  then show ?case by simp
next
  case (Cons t ts)
  from Cons.prems(3) have "events_of t @ concat (map events_of ts) = pre @ suf" by simp
  then consider zs where "pre = events_of t @ zs" "concat (map events_of ts) = zs @ suf"
    | zs where "events_of t = pre @ zs" "zs \<noteq> []"
    by (auto simp: append_eq_append_conv2) (metis append_Nil2 append_self_conv)
  then show ?case
  proof cases
    case 1
    have "trace_loop X m (subs @ [lotus_of X t]) zs = Inl no_return"
    proof (rule Cons.IH)
      show "trace_loop X m' subs' pre' = Inl no_return"
        if "u \<in> set ts" "tree_ok X u" "events_of u = pre' @ suf'" "suf' \<noteq> []" for u m' subs' pre' suf'
        by (rule Cons.prems(1) [OF _ that(2-4)]) (simp add: that(1))
    qed (use Cons.prems(2) 1 in simp_all)
    with 1 Cons.prems(2) show ?thesis by (simp add: trace_loop_events)
  next
    case 2
    with Cons.prems(1) [of t pre zs] Cons.prems(2) show ?thesis by simp
  qed
qed

lemma append_last_split:
  assumes "xs @ [x] = ys @ zs" and "zs \<noteq> []"
  obtains zs' where "xs = ys @ zs'"
  using assms by (metis append_assoc append_butlast_last_id append1_eq_conv)

lemma trace_loop_prefix:
  "tree_ok X t \<Longrightarrow> events_of t = pre @ suf \<Longrightarrow> suf \<noteq> [] \<Longrightarrow> trace_loop X m subs pre = Inl no_return"
proof (induction t arbitrary: m subs pre suf)
  case (CallTree p ts r)
  show ?case
  proof (cases pre)
    case (Cons ev pre')
    with CallTree.prems have ev: "ev = Call p"
      and cut: "concat (map events_of ts) @ [Return r] = pre' @ suf" by auto
    obtain suf' where "concat (map events_of ts) = pre' @ suf'"
      using cut CallTree.prems(3) by (rule append_last_split)
    then have "trace_loop X (call_message X p) [] pre' = Inl no_return"
      using CallTree.IH CallTree.prems(1) by (intro trace_loop_prefix_list [of ts X pre' suf']) auto
    with Cons ev show ?thesis by simp
  qed simp
qed

section \<open>Termination\<close>

lemma loop_fuel_enough: "length it < n \<Longrightarrow> loop_fuel n X m subs it = Some (trace_loop X m subs it)"
proof (induction n arbitrary: m subs it)
  case (Suc n)
  show ?case
  proof (cases it)
    case (Cons ev it')
    show ?thesis
    proof (cases ev)
      case (Call p)
      have l: "length it' < n" using Suc.prems Cons by simp
      show ?thesis
      proof (cases "trace_loop X (call_message X p) [] it'")
        case (Inr r)
        obtain t rest where r: "r = (t, rest)" by (cases r)
        have "length rest < length it'"
          using trace_loop_sound [of X "call_message X p" "[]" it' t rest] Inr r by auto
        with l have "length rest < n" by simp
        with Suc.IH [OF l] Suc.IH [OF this] Inr r Cons Call show ?thesis by simp
      qed (use Suc.IH [OF l] Cons Call in simp)
    next
      case OtherEvent
      with Cons show ?thesis by simp
    qed (use Cons in simp)
  qed simp
qed simp

section \<open>Properties\<close>

text \<open>C2: the trace builder accepts exactly the event lists that begin with the events of a
  call tree in which no actor fails with status OK. It then returns the trace of that tree
  (messages, receipts, nesting and order of the inner calls) and leaves the iterator right
  behind the tree's last event. It returns an error for every other list; it always
  terminates.\<close>
theorem build_lotus_trace_iff:
  "build_lotus_trace X ev evs = Inr (lt, rest) \<longleftrightarrow>
     (\<exists>t. tree_ok X t \<and> ev # evs = events_of t @ rest \<and> lt = lotus_of X t)"
proof
  assume "build_lotus_trace X ev evs = Inr (lt, rest)"
  then show "\<exists>t. tree_ok X t \<and> ev # evs = events_of t @ rest \<and> lt = lotus_of X t"
    by (rule build_sound)
next
  assume "\<exists>t. tree_ok X t \<and> ev # evs = events_of t @ rest \<and> lt = lotus_of X t"
  then obtain t where t: "tree_ok X t" "ev # evs = events_of t @ rest" "lt = lotus_of X t" by blast
  then have "ev = hd (events_of t)" "evs = tl (events_of t) @ rest"
    by (cases t; simp)+
  with build_events [OF t(1)] t(3) show "build_lotus_trace X ev evs = Inr (lt, rest)" by simp
qed

text \<open>An event list that was cut off (a proper, non-empty prefix of the events of a call
  tree) is never turned into a trace: the builder reports that it should have seen a return.\<close>
lemma build_lotus_trace_interrupted:
  assumes "tree_ok X t" and "events_of t = (ev # evs) @ suf" and "suf \<noteq> []"
  shows "build_lotus_trace X ev evs = Inl no_return"
proof (cases t)
  case (CallTree p ts r)
  with assms(2) have ev: "ev = Call p" by simp
  from CallTree assms(2) have "concat (map events_of ts) @ [Return r] = evs @ suf" by simp
  then obtain suf' where "concat (map events_of ts) = evs @ suf'"
    using assms(3) by (rule append_last_split)
  then have "trace_loop X (call_message X p) [] evs = Inl no_return"
    using CallTree assms(1) by (intro trace_loop_prefix_list [of ts X evs suf'] trace_loop_prefix) auto
  with ev show ?thesis by (simp add: build_lotus_trace_def)
qed

text \<open>C26: the recursion of the trace builder ends: with fuel for one step more than the iterator has
  events it returns, for any events at all, and what it returns is the trace or the error of
  the model above; more fuel changes nothing.\<close>
theorem build_lotus_trace_terminates:
  "build_fuel (Suc (length evs) + n) X ev evs = Some (build_lotus_trace X ev evs)"
  by (cases ev) (simp_all add: build_lotus_trace_def loop_fuel_enough)

text \<open>The event list of the repository's own test: two inner calls, the second with one more.\<close>

definition sample_consts :: "u64 fvm_consts" where
  "sample_consts = \<lparr>new_id = id, OK = 0, SYS_INSUFFICIENT_FUNDS = 6, SYS_INVALID_RECEIVER = 5,
     SYS_ASSERTION_FAILED = 10, is_success = (\<lambda>c. c = 0)\<rparr>"

end
