(* ===== verification/Go_Side.thy ===== *)
theory Go_Side
  imports Util_Types
begin

text \<open>
  The Go half of the bridge that the FVM calls back into: the error codes of
  \<open>rust/src/fvm/cgo/error.rs\<close> (shared with \<open>cgo/errors.go\<close>), the table of registered
  externs of \<open>cgo/registry.go\<close>, and the exported callbacks of \<open>cgo/blockstore.go\<close> and
  \<open>cgo/extern.go\<close>. The \<open>Externs\<close> interface itself is implemented by the client: it is the
  record \<open>externs\<close>, whose functions act on the client's own state. A pointer with a length
  is the list of bytes it points to with the signed 32-bit length that is passed; a read
  beyond the list is \<open>Undefined\<close>.
\<close>

section \<open>Error codes\<close>

datatype FvmError = InvalidHandle | NotFound | Io | InvalidArgument | Panic

fun FvmError_code :: "FvmError \<Rightarrow> i32" where
  "FvmError_code InvalidHandle = - 1"
| "FvmError_code NotFound = - 2"
| "FvmError_code Io = - 3"
| "FvmError_code InvalidArgument = - 4"
| "FvmError_code Panic = - 5"

definition dummy :: "FvmError \<Rightarrow> unit exec" where
  "dummy e = Panics (StrPayload ''Don't call me'')"

section \<open>The client's interface\<close>

datatype go_err = NilErr | BlockstoreErrNotFound | OtherErr

record 'ga ConsensusFault =
  Target :: 'ga
  Epoch :: i64
  Type :: i64

text \<open>
  \<open>View\<close> runs its callback on the data at most once: the first component is the data it
  was run on. A block is a pair of the bytes of its CID and its data. A fault is a pointer
  and may be nil. The context each function gets is the one it was registered with.
\<close>

record ('s, 'ga) externs =
  View :: "bytes \<Rightarrow> ('s, bytes option \<times> go_err) io"
  Put :: "bytes \<times> bytes \<Rightarrow> ('s, go_err) io"
  PutMany :: "(bytes \<times> bytes) list \<Rightarrow> ('s, go_err) io"
  Has :: "bytes \<Rightarrow> ('s, bool \<times> go_err) io"
  GetChainRandomness :: "i64 \<Rightarrow> i64 \<Rightarrow> bytes \<Rightarrow> ('s, bytes \<times> go_err) io"
  GetBeaconRandomness :: "i64 \<Rightarrow> i64 \<Rightarrow> bytes \<Rightarrow> ('s, bytes \<times> go_err) io"
  VerifyConsensusFault :: "bytes \<Rightarrow> bytes \<Rightarrow> bytes \<Rightarrow> ('s, 'ga ConsensusFault option \<times> i64) io"

text \<open>The two functions of \<open>go-cid\<close> and \<open>go-address\<close> the callbacks use.\<close>

record 'ga go_lib =
  CidFromBytes :: "bytes \<Rightarrow> (nat \<times> bytes) option"
  IDFromAddress :: "'ga \<Rightarrow> u64 option"

section \<open>The registry\<close>

text \<open>An interface value that was registered may be nil.\<close>

record ('s, 'ga) go_state =
  registry :: "u64 \<rightharpoonup> ('s, 'ga) externs option"
  nextId :: u64
  store :: 's

definition Register ::
    "('s, 'ga) externs option \<Rightarrow> ('s, 'ga) go_state \<Rightarrow> u64 \<times> ('s, 'ga) go_state" where
  "Register e g =
     (nextId g, g\<lparr>registry := (registry g)(nextId g \<mapsto> e), nextId := nextId g + 1\<rparr>)"

definition Unregister :: "u64 \<Rightarrow> ('s, 'ga) go_state \<Rightarrow> ('s, 'ga) go_state" where
  "Unregister handle g = g\<lparr>registry := (registry g)(handle := None)\<rparr>"

definition Lookup :: "u64 \<Rightarrow> ('s, 'ga) go_state \<Rightarrow> ('s, 'ga) externs option" where
  "Lookup handle g = (case registry g handle of Some e \<Rightarrow> e | None \<Rightarrow> None)"

section \<open>C memory from Go\<close>

definition C_GoStringN :: "bytes \<Rightarrow> i32 \<Rightarrow> bytes exec" where
  "C_GoStringN p n =
     (if 0 \<le> sint n \<and> nat (sint n) \<le> length p then Returns (take (nat (sint n)) p) else Undefined)"

definition C_GoBytes :: "bytes \<Rightarrow> i32 \<Rightarrow> bytes exec" where
  "C_GoBytes p n =
     (if sint n < 0 then Panics (StringPayload ''gobytes: length out of range'')
      else if nat (sint n) \<le> length p then Returns (take (nat (sint n)) p)
      else Undefined)"

text \<open>\<open>(*[MAX_LEN]T)(p)[:n:n]\<close> with \<open>n \<le> MAX_LEN\<close>: bounds are checked against
  \<open>MAX_LEN\<close>, not against the memory behind \<open>p\<close>.\<close>

definition unsafe_slice :: "'a list \<Rightarrow> i32 \<Rightarrow> 'a list exec" where
  "unsafe_slice p n =
     (if sint n < 0 then Panics (StringPayload ''slice bounds out of range'')
      else if nat (sint n) \<le> length p then Returns (take (nat (sint n)) p)
      else Undefined)"

section \<open>The callbacks\<close>

definition lift_store :: "('s, 'a) io \<Rightarrow> (('s, 'ga) go_state, 'a) io" where
  "lift_store m g = (case m (store g) of (x, s) \<Rightarrow> (x, g\<lparr>store := s\<rparr>))"

text \<open>\<open>defer recover()\<close>: a panic becomes the result \<open>ErrPanic\<close>. The results are a code and the
  values behind the output pointers, which the caller reads after code 0 only.\<close>

definition go_recover :: "'o \<Rightarrow> ('g, i32 \<times> 'o) io \<Rightarrow> ('g, i32 \<times> 'o) io" where
  "go_recover out m g =
     (case m g of
        (Panics _, g') \<Rightarrow> (Returns (FvmError_code Panic, out), g')
      | r \<Rightarrow> r)"

text \<open>\<open>externs, ctx := Lookup(handle); if externs == nil { return ErrInvalidHandle }\<close>\<close>

definition with_externs ::
    "u64 \<Rightarrow> 'o \<Rightarrow> (('s, 'ga) externs \<Rightarrow> (('s, 'ga) go_state, i32 \<times> 'o) io)
      \<Rightarrow> (('s, 'ga) go_state, i32 \<times> 'o) io" where
  "with_externs handle out f g =
     (case Lookup handle g of
        None \<Rightarrow> (Returns (FvmError_code InvalidHandle, out), g)
      | Some e \<Rightarrow> f e g)"

definition toCid :: "bytes \<Rightarrow> i32 \<Rightarrow> bytes exec" where
  "toCid k kLen = C_GoStringN k kLen"

definition cgo_blockstore_get ::
    "u64 \<Rightarrow> bytes \<Rightarrow> i32 \<Rightarrow> (('s, 'ga) go_state, i32 \<times> (bytes option \<times> i32)) io" where
  "cgo_blockstore_get handle k kLen =
     go_recover (None, 0)
       (bind_io (from_exec (toCid k kLen)) (\<lambda>c.
        with_externs handle (None, 0) (\<lambda>externs.
        bind_io (lift_store (View externs c)) (\<lambda>(data, err).
        let out = (case data of None \<Rightarrow> (None, 0) | Some d \<Rightarrow> (Some d, word_of_nat (length d)))
        in case err of
             NilErr \<Rightarrow> ret (0, out)
           | BlockstoreErrNotFound \<Rightarrow> ret (FvmError_code NotFound, out)
           | OtherErr \<Rightarrow> ret (FvmError_code Io, out)))))"

definition cgo_blockstore_put ::
    "u64 \<Rightarrow> bytes \<Rightarrow> i32 \<Rightarrow> bytes \<Rightarrow> i32 \<Rightarrow> (('s, 'ga) go_state, i32 \<times> unit) io" where
  "cgo_blockstore_put handle k kLen block blockLen =
     go_recover ()
       (bind_io (from_exec (toCid k kLen)) (\<lambda>c.
        with_externs handle () (\<lambda>externs.
        bind_io (from_exec (C_GoBytes block blockLen)) (\<lambda>b.
        bind_io (lift_store (Put externs (c, b))) (\<lambda>err.
        if err \<noteq> NilErr then ret (FvmError_code Io, ()) else ret (0, ()))))))"

definition MAX_LEN :: int where "MAX_LEN = 2 ^ 30"

text \<open>The loop over the lengths: \<open>Inl\<close> is an early return of an error code.\<close>

fun decode_blocks :: "'ga go_lib \<Rightarrow> i32 list \<Rightarrow> bytes \<Rightarrow> (i32 + (bytes \<times> bytes) list) exec" where
  "decode_blocks G [] blockBuf = Returns (Inr [])"
| "decode_blocks G (len # lengths) blockBuf =
     (if MAX_LEN < sint len then Returns (Inl (FvmError_code InvalidArgument))
      else
        bind_exec (unsafe_slice blockBuf len) (\<lambda>buf.
        case CidFromBytes G buf of
          None \<Rightarrow> Returns (Inl (FvmError_code InvalidArgument))
        | Some (cidLen, k) \<Rightarrow>
            if length buf < cidLen then Panics (StringPayload ''slice bounds out of range'')
            else
              bind_exec (decode_blocks G lengths (drop (nat (sint len)) blockBuf)) (\<lambda>r.
              Returns (case r of
                 Inl e \<Rightarrow> Inl e
               | Inr bs \<Rightarrow> Inr ((k, drop cidLen buf) # bs)))))"

definition cgo_blockstore_put_many ::
    "'ga go_lib \<Rightarrow> u64 \<Rightarrow> i32 list \<Rightarrow> i32 \<Rightarrow> bytes \<Rightarrow> (('s, 'ga) go_state, i32 \<times> unit) io" where
  "cgo_blockstore_put_many G handle lengths lengthsLen blockBuf =
     go_recover ()
       (with_externs handle () (\<lambda>externs.
        if MAX_LEN < sint lengthsLen then ret (FvmError_code InvalidArgument, ())
        else
          bind_io (from_exec (unsafe_slice lengths lengthsLen)) (\<lambda>lengthsGo.
          bind_io (from_exec (decode_blocks G lengthsGo blockBuf)) (\<lambda>r.
          case r of
            Inl e \<Rightarrow> ret (e, ())
          | Inr blocksGo \<Rightarrow>
              bind_io (lift_store (PutMany externs blocksGo)) (\<lambda>err.
              if err \<noteq> NilErr then ret (FvmError_code Io, ()) else ret (0, ()))))))"

definition cgo_blockstore_has ::
    "u64 \<Rightarrow> bytes \<Rightarrow> i32 \<Rightarrow> (('s, 'ga) go_state, i32 \<times> unit) io" where
  "cgo_blockstore_has handle k kLen =
     go_recover ()
       (bind_io (from_exec (toCid k kLen)) (\<lambda>c.
        with_externs handle () (\<lambda>externs.
        bind_io (lift_store (Has externs c)) (\<lambda>(has, err).
        case err of
          NilErr \<Rightarrow> ret (if has then 1 else 0, ())
        | BlockstoreErrNotFound \<Rightarrow> ret (0, ())
        | OtherErr \<Rightarrow> ret (FvmError_code Io, ())))))"

text \<open>\<open>copy(out[:], rand)\<close> into the 32 bytes of the caller.\<close>

definition copy_randomness :: "bytes \<Rightarrow> bytes \<Rightarrow> bytes" where
  "copy_randomness out r = take (length out) r @ drop (length r) out"

definition cgo_extern_get_chain_randomness ::
    "u64 \<Rightarrow> i64 \<Rightarrow> i64 \<Rightarrow> bytes \<Rightarrow> i32 \<Rightarrow> bytes \<Rightarrow> (('s, 'ga) go_state, i32 \<times> bytes) io" where
  "cgo_extern_get_chain_randomness handle pers round entropy entropyLen out =
     go_recover out
       (with_externs handle out (\<lambda>externs.
        bind_io (from_exec (C_GoBytes entropy entropyLen)) (\<lambda>e.
        bind_io (lift_store (GetChainRandomness externs pers round e)) (\<lambda>(r, err).
        if err = NilErr then ret (0, copy_randomness out r) else ret (FvmError_code Io, out)))))"

definition cgo_extern_get_beacon_randomness ::
    "u64 \<Rightarrow> i64 \<Rightarrow> i64 \<Rightarrow> bytes \<Rightarrow> i32 \<Rightarrow> bytes \<Rightarrow> (('s, 'ga) go_state, i32 \<times> bytes) io" where
  "cgo_extern_get_beacon_randomness handle pers round entropy entropyLen out =
     go_recover out
       (with_externs handle out (\<lambda>externs.
        bind_io (from_exec (C_GoBytes entropy entropyLen)) (\<lambda>e.
        bind_io (lift_store (GetBeaconRandomness externs pers round e)) (\<lambda>(r, err).
        if err = NilErr then ret (0, copy_randomness out r) else ret (FvmError_code Io, out)))))"

text \<open>The four outputs of \<open>cgo_extern_verify_consensus_fault\<close>.\<close>

record fault_out =
  minerIdOut :: u64
  epochOut :: i64
  faultOut :: i64
  gasUsedOut :: i64

definition ConsensusFaultNone :: i64 where "ConsensusFaultNone = 0"

definition cgo_extern_verify_consensus_fault ::
    "'ga go_lib \<Rightarrow> u64 \<Rightarrow> bytes \<Rightarrow> i32 \<Rightarrow> bytes \<Rightarrow> i32 \<Rightarrow> bytes \<Rightarrow> i32 \<Rightarrow> fault_out
      \<Rightarrow> (('s, 'ga) go_state, i32 \<times> fault_out) io" where
  "cgo_extern_verify_consensus_fault G handle h1 h1Len h2 h2Len extra extraLen out =
     go_recover out
       (with_externs handle out (\<lambda>externs.
        bind_io (from_exec (C_GoBytes h1 h1Len)) (\<lambda>h1Go.
        bind_io (from_exec (C_GoBytes h2 h2Len)) (\<lambda>h2Go.
        bind_io (from_exec (C_GoBytes extra extraLen)) (\<lambda>extraGo.
        bind_io (lift_store (VerifyConsensusFault externs h1Go h2Go extraGo)) (\<lambda>(faultRes, gas).
        case faultRes of
          None \<Rightarrow> raise (StringPayload ''nil pointer dereference'')
        | Some f \<Rightarrow>
            let out1 = out\<lparr>gasUsedOut := gas, faultOut := Type f\<rparr>
            in if Type f \<noteq> ConsensusFaultNone
               then (case IDFromAddress G (Target f) of
                       None \<Rightarrow> ret (FvmError_code Io, out1)
                     | Some i \<Rightarrow> ret (0, out1\<lparr>epochOut := Epoch f, minerIdOut := i\<rparr>))
               else ret (0, out1)))))))"

lemmas go_handler_defs [ffi_defs] =
  cgo_blockstore_get_def cgo_blockstore_put_def cgo_blockstore_put_many_def
  cgo_blockstore_has_def cgo_extern_get_chain_randomness_def cgo_extern_get_beacon_randomness_def
  cgo_extern_verify_consensus_fault_def go_recover_def with_externs_def toCid_def lift_store_def

section \<open>Reading what was passed\<close>

lemma FvmError_code_inj: "FvmError_code a = FvmError_code b \<longleftrightarrow> a = b"
  by (cases a; cases b) simp_all

lemma FvmError_code_negative: "sint (FvmError_code e) < 0"
  by (cases e) simp_all

lemma C_GoStringN_length [simp]:
  "length p < 2 ^ 31 \<Longrightarrow> C_GoStringN p (word_of_nat (length p)) = Returns p"
  by (simp add: C_GoStringN_def sint_word_of_nat)

lemma C_GoBytes_length [simp]:
  "length p < 2 ^ 31 \<Longrightarrow> C_GoBytes p (word_of_nat (length p)) = Returns p"
  by (simp add: C_GoBytes_def sint_word_of_nat)

lemma unsafe_slice_length [simp]:
  "length p < 2 ^ 31 \<Longrightarrow> unsafe_slice (p @ q) (word_of_nat (length p)) = Returns p"
  by (simp add: unsafe_slice_def sint_word_of_nat)

text \<open>The registry: a handle that was given out finds what was registered, until it is
  unregistered; no callback changes the registry.\<close>

lemma Lookup_Register:
  assumes "Register e g = (h, g')"
  shows "Lookup h g' = e" and "h' \<noteq> h \<Longrightarrow> Lookup h' g' = Lookup h' g"
  using assms by (auto simp: Register_def Lookup_def)

lemma Lookup_Unregister [simp]:
  "Lookup h (Unregister h' g) = (if h = h' then None else Lookup h g)"
  by (simp add: Lookup_def Unregister_def)

lemma Lookup_store [simp]: "Lookup h (g\<lparr>store := s\<rparr>) = Lookup h g"
  by (simp add: Lookup_def)

lemma with_externs_run:
  "Lookup h g = Some e \<Longrightarrow> with_externs h out f g = f e g"
  "Lookup h g = None \<Longrightarrow> with_externs h out f g = (Returns (FvmError_code InvalidHandle, out), g)"
  by (simp_all add: with_externs_def)

section \<open>The life of a handle\<close>

text \<open>What happens to the registry while the process runs: a client registers, a client
  unregisters, a callback changes the store behind an interface.\<close>

datatype ('s, 'ga) reg_op = OpRegister "('s, 'ga) externs option" | OpUnregister u64 | OpCallback 's

fun reg_op_apply :: "('s, 'ga) reg_op \<Rightarrow> ('s, 'ga) go_state \<Rightarrow> ('s, 'ga) go_state" where
  "reg_op_apply (OpRegister e) g = snd (Register e g)"
| "reg_op_apply (OpUnregister h) g = Unregister h g"
| "reg_op_apply (OpCallback s) g = g\<lparr>store := s\<rparr>"

fun is_register :: "('s, 'ga) reg_op \<Rightarrow> bool" where
  "is_register (OpRegister _) = True"
| "is_register _ = False"

definition go_start :: "'s \<Rightarrow> ('s, 'ga) go_state" where
  "go_start s = \<lparr>registry = Map.empty, nextId = 0, store = s\<rparr>"

definition registry_inv :: "nat \<Rightarrow> ('s, 'ga) go_state \<Rightarrow> bool" where
  "registry_inv n g \<longleftrightarrow> nextId g = word_of_nat n \<and> dom (registry g) \<subseteq> word_of_nat ` {..<n}"

abbreviation registrations :: "('s, 'ga) reg_op list \<Rightarrow> nat" where
  "registrations ops \<equiv> length (filter is_register ops)"

lemma registry_inv_step:
  "registry_inv n g \<Longrightarrow> registry_inv (n + registrations [x]) (reg_op_apply x g)"
  by (cases x) (auto simp: registry_inv_def Register_def Unregister_def lessThan_Suc)

lemma registry_inv_run:
  "registry_inv n g \<Longrightarrow> registry_inv (n + registrations ops) (fold reg_op_apply ops g)"
proof (induction ops arbitrary: n g)
  case (Cons x ops)
  from Cons.IH [OF registry_inv_step [OF Cons.prems, of x]] show ?case by (cases x) simp_all
qed simp

lemma registry_inv_start: "registry_inv 0 (go_start s)"
  by (simp add: registry_inv_def go_start_def)

lemma word_of_nat_u64_inj: "m < 2 ^ 64 \<Longrightarrow> n < 2 ^ 64 \<Longrightarrow> word_of_nat m = (word_of_nat n :: u64) \<longleftrightarrow> m = n"
  by (simp add: word_of_nat_eq_iff take_bit_nat_eq_self)

lemma Lookup_run:
  "registry_inv n g \<Longrightarrow> h = word_of_nat i \<Longrightarrow> i < n \<Longrightarrow> n + registrations ops \<le> 2 ^ 64 \<Longrightarrow>
     OpUnregister h \<notin> set ops \<Longrightarrow> Lookup h (fold reg_op_apply ops g) = Lookup h g"
proof (induction ops arbitrary: n g)
  case (Cons x ops)
  have inv: "registry_inv (n + registrations [x]) (reg_op_apply x g)"
    by (rule registry_inv_step [OF Cons.prems(1)])
  have "n < 2 ^ 64" if "is_register x" using Cons.prems(4) that by simp
  then have "Lookup h (reg_op_apply x g) = Lookup h g"
    using Cons.prems word_of_nat_u64_inj [of i n]
    by (cases x) (auto simp: registry_inv_def Register_def Lookup_def Unregister_def)
  moreover have "Lookup h (fold reg_op_apply ops (reg_op_apply x g)) = Lookup h (reg_op_apply x g)"
    by (rule Cons.IH [OF inv Cons.prems(2)]) (use Cons.prems in \<open>auto split: if_splits\<close>)
  ultimately show ?case by simp
qed simp

text \<open>A client that keeps its blocks in a map and knows one fault, as a concrete instance.\<close>

definition mem_externs :: "(bytes \<rightharpoonup> bytes, u64) externs" where
  "mem_externs =
     \<lparr>View = (\<lambda>k m. (Returns (case m k of None \<Rightarrow> (None, BlockstoreErrNotFound) | Some d \<Rightarrow> (Some d, NilErr)), m)),
      Put = (\<lambda>(k, d) m. (Returns NilErr, m(k \<mapsto> d))),
      PutMany = (\<lambda>kds m. (Returns NilErr, m ++ map_of (rev kds))),
      Has = (\<lambda>k m. (Returns (m k \<noteq> None, NilErr), m)),
      GetChainRandomness = (\<lambda>pers round entropy. ret (replicate 32 7, NilErr)),
      GetBeaconRandomness = (\<lambda>pers round entropy. ret (replicate 32 9, NilErr)),
      VerifyConsensusFault = (\<lambda>h1 h2 extra. ret (Some \<lparr>Target = 1000, Epoch = 5, Type = 1\<rparr>, 77))\<rparr>"

text \<open>C30: a handle that \<open>Register\<close> returns was free, and finds the externs it was returned for
  through any sequence of registrations, callbacks and removals of other handles, as long
  as the 64-bit counter has not gone round.\<close>
theorem handle_finds_its_externs:
  assumes "g = fold reg_op_apply before (go_start s)" and "Register e g = (h, g')"
    and "registrations before + 1 + registrations after \<le> 2 ^ 64" and "OpUnregister h \<notin> set after"
  shows "registry g h = None \<and> Lookup h (fold reg_op_apply after g') = e"
proof -
  have inv: "registry_inv (registrations before) g"
    using registry_inv_run [OF registry_inv_start, of before] assms(1) by simp
  have g': "g' = fold reg_op_apply [OpRegister e] g" using assms(2) by simp
  have inv': "registry_inv (Suc (registrations before)) g'"
    using registry_inv_run [OF inv, of "[OpRegister e]"] g' by simp
  have h: "h = word_of_nat (registrations before)"
    using inv assms(2) by (auto simp: registry_inv_def Register_def)
  have "h \<notin> word_of_nat ` {..<registrations before}"
    using assms(3) by (auto simp: h word_of_nat_u64_inj)
  then have "h \<notin> dom (registry g)"
    using inv by (auto simp only: registry_inv_def)
  moreover have "Lookup h (fold reg_op_apply after g') = Lookup h g'"
    by (rule Lookup_run [OF inv' h]) (use assms in simp_all)
  ultimately show ?thesis using Lookup_Register(1) [OF assms(2)] by auto
qed

theorem handle_finds_its_externs_witness:
  "let g = fold reg_op_apply [OpRegister None, OpUnregister 0] (go_start Map.empty);
       r = Register (Some mem_externs) g
   in registry g (fst r) = None \<and>
      Lookup (fst r) (fold reg_op_apply [OpRegister None, OpUnregister 0, OpCallback [[1] \<mapsto> [2]]] (snd r))
        = Some mem_externs"
  using handle_finds_its_externs [of "fold reg_op_apply [OpRegister None, OpUnregister 0] (go_start Map.empty)"
      "[OpRegister None, OpUnregister 0]" Map.empty "Some mem_externs" _ _
      "[OpRegister None, OpUnregister 0, OpCallback [[1] \<mapsto> [2]]]", OF refl prod.collapse [symmetric]]
  by (simp add: Register_def Unregister_def go_start_def Lookup_def)

end
