(* ===== verification/Cgo_Blockstore.thy ===== *)
theory Cgo_Blockstore
  imports Go_Side
begin

text \<open>
  \<open>rust/src/fvm/blockstore/cgo.rs\<close>: the blockstore of the FVM that calls out to Go. Each
  operation passes bytes and lengths to a callback of \<open>Go_Side\<close> and turns its code into a
  value, an error or a panic. \<open>put_many_keyed\<close> packs blocks into one buffer with a list
  of lengths and flushes it when it is full; the specification of what reaches the Go
  blockstore is \<open>run_batches\<close> over \<open>batches\<close>, and the main lemma is that the buffered
  code does exactly that. The \<open>Blockstore\<close> trait of \<open>fvm_ipld_blockstore\<close> is a record of
  its methods.
\<close>

section \<open>The trait\<close>

record ('cid, 'code, 'blk, 's) Blockstore =
  bs_has :: "'cid \<Rightarrow> ('s, anyhow + bool) io"
  bs_get :: "'cid \<Rightarrow> ('s, anyhow + bytes option) io"
  bs_put :: "'code \<Rightarrow> 'blk \<Rightarrow> ('s, anyhow + 'cid) io"
  bs_put_many :: "('code \<times> 'blk) list \<Rightarrow> ('s, anyhow + unit) io"
  bs_put_many_keyed :: "('cid \<times> bytes) list \<Rightarrow> ('s, anyhow + unit) io"
  bs_put_keyed :: "'cid \<Rightarrow> bytes \<Rightarrow> ('s, anyhow + unit) io"

text \<open>\<open>k.to_bytes()\<close> and \<open>k.write_bytes\<close> of the \<open>cid\<close> crate: the bytes of a CID. The
  trait's provided methods \<open>put\<close> and \<open>put_many\<close>, which \<open>CgoBlockstore\<close> does not override,
  come with the library too.\<close>

record ('cid, 'code, 'blk, 's) cid_lib =
  cid_to_bytes :: "'cid \<Rightarrow> bytes"
  provided_put :: "'code \<Rightarrow> 'blk \<Rightarrow> ('s, anyhow + 'cid) io"
  provided_put_many :: "('code \<times> 'blk) list \<Rightarrow> ('s, anyhow + unit) io"

section \<open>CgoBlockstore\<close>

definition not_registered :: "u64 \<Rightarrow> panic_payload" where
  "not_registered handle = StringPayload (''blockstore '' @ show_nat (unat handle) @ '' not registered'')"

definition invalid_return :: "string \<Rightarrow> i32 \<Rightarrow> panic_payload" where
  "invalid_return op r = StringPayload (''invalid return value from '' @ op @ '': '' @ show_int (sint r))"

text \<open>A word in single quotes, as the messages have it.\<close>

definition quoted :: "string \<Rightarrow> string" where
  "quoted m = CHR 0x27 # m @ [CHR 0x27]"

definition cgo_failed :: "string \<Rightarrow> i32 \<Rightarrow> anyhow" where
  "cgo_failed op e = AnyhowMsg (''cgo blockstore '' @ quoted op @ '' failed with error code '' @ show_int (sint e))"

abbreviation len_i32 :: "'a list \<Rightarrow> i32" where
  "len_i32 xs \<equiv> word_of_nat (length xs)"

definition has :: "('cid, 'code, 'blk, ('s, 'ga) go_state) cid_lib \<Rightarrow> u64 \<Rightarrow> 'cid
    \<Rightarrow> (('s, 'ga) go_state, anyhow + bool) io" where
  "has C handle k =
     (let k_bytes = cid_to_bytes C k
      in bind_io (cgo_blockstore_has handle k_bytes (len_i32 k_bytes)) (\<lambda>(x, _).
         if x = 0 then ret (Inr False)
         else if x = FvmError_code NotFound then ret (Inr False)
         else if x = 1 then ret (Inr True)
         else if 2 \<le> sint x then raise (invalid_return ''has'' x)
         else if x = FvmError_code InvalidHandle then raise (not_registered handle)
         else ret (Inl (cgo_failed ''has'' x))))"

text \<open>\<open>Vec::from_raw_parts(buf, size as usize, size as usize)\<close>: the vector owns the memory that
  Go allocated, so the pointer must not be null and the size must be its length.\<close>

definition from_raw_parts :: "bytes option \<Rightarrow> i32 \<Rightarrow> bytes exec" where
  "from_raw_parts buf sz =
     (case buf of
        None \<Rightarrow> Undefined
      | Some d \<Rightarrow> if sint sz = int (length d) then Returns d else Undefined)"

definition get :: "('cid, 'code, 'blk, ('s, 'ga) go_state) cid_lib \<Rightarrow> u64 \<Rightarrow> 'cid
    \<Rightarrow> (('s, 'ga) go_state, anyhow + bytes option) io" where
  "get C handle k =
     (let k_bytes = cid_to_bytes C k
      in bind_io (cgo_blockstore_get handle k_bytes (len_i32 k_bytes)) (\<lambda>(x, buf, sz).
         if x = 0 then bind_io (from_exec (from_raw_parts buf sz)) (\<lambda>v. ret (Inr (Some v)))
         else if 1 \<le> sint x then raise (invalid_return ''get'' x)
         else if x = FvmError_code InvalidHandle then raise (not_registered handle)
         else if x = FvmError_code NotFound then ret (Inr None)
         else ret (Inl (cgo_failed ''get'' x))))"

text \<open>The match on a put result, the same in \<open>flush_buffered\<close> and \<open>put_keyed\<close> but for the
  name of the operation in the first panic.\<close>

definition put_result :: "string \<Rightarrow> u64 \<Rightarrow> i32 \<Rightarrow> ('g, anyhow + unit) io" where
  "put_result op handle x =
     (if x = 0 then ret (Inr ())
      else if 1 \<le> sint x then raise (invalid_return op x)
      else if x = FvmError_code InvalidHandle then raise (not_registered handle)
      else if x = FvmError_code NotFound then raise (StrPayload ''not found error on put'')
      else ret (Inl (cgo_failed ''put'' x)))"

definition MAX_BUF_SIZE :: nat where "MAX_BUF_SIZE = 4 * 2 ^ 20"
definition MAX_BLOCK_BATCH :: nat where "MAX_BLOCK_BATCH = 1024"
definition EST_MAX_CID_LEN :: nat where "EST_MAX_CID_LEN = 100"

text \<open>\<open>flush_buffered\<close> gives the two vectors as it leaves them and its result.\<close>

definition flush_buffered ::
    "'ga go_lib \<Rightarrow> u64 \<Rightarrow> i32 list \<Rightarrow> bytes
      \<Rightarrow> (('s, 'ga) go_state, (i32 list \<times> bytes) \<times> (anyhow + unit)) io" where
  "flush_buffered G handle lengths buf =
     (if buf = [] then ret ((lengths, buf), Inr ())
      else
        bind_io (cgo_blockstore_put_many G handle lengths (len_i32 lengths) buf) (\<lambda>(result, _).
        bind_io (put_result ''put_many'' handle result) (\<lambda>r. ret (([], []), r))))"

text \<open>One block appended: its CID, its data, and the length of both.\<close>

definition push_block ::
    "('cid, 'code, 'blk, 'g) cid_lib \<Rightarrow> 'cid \<Rightarrow> bytes \<Rightarrow> i32 list \<times> bytes \<Rightarrow> i32 list \<times> bytes" where
  "push_block C k block = (\<lambda>(lengths, buf).
     let start = length buf;
         buf' = (buf @ cid_to_bytes C k) @ block;
         sz = length buf' - start
     in (lengths @ [word_of_nat sz], buf'))"

fun put_many_loop ::
    "('cid, 'code, 'blk, ('s, 'ga) go_state) cid_lib \<Rightarrow> 'ga go_lib \<Rightarrow> u64
      \<Rightarrow> ('cid \<times> bytes) list \<Rightarrow> i32 list \<times> bytes \<Rightarrow> (('s, 'ga) go_state, anyhow + unit) io" where
  "put_many_loop C G handle [] (lengths, buf) =
     bind_io (flush_buffered G handle lengths buf) (\<lambda>(_, r). ret r)"
| "put_many_loop C G handle ((k, block) # blocks) (lengths, buf) =
     (if MAX_BLOCK_BATCH \<le> length lengths
         \<or> MAX_BUF_SIZE < EST_MAX_CID_LEN + length block + length buf
      then
        bind_io (flush_buffered G handle lengths buf) (\<lambda>(v, r).
        case r of
          Inl e \<Rightarrow> ret (Inl e)
        | Inr _ \<Rightarrow> put_many_loop C G handle blocks (push_block C k block v))
      else put_many_loop C G handle blocks (push_block C k block (lengths, buf)))"

definition put_many_keyed ::
    "('cid, 'code, 'blk, ('s, 'ga) go_state) cid_lib \<Rightarrow> 'ga go_lib \<Rightarrow> u64
      \<Rightarrow> ('cid \<times> bytes) list \<Rightarrow> (('s, 'ga) go_state, anyhow + unit) io" where
  "put_many_keyed C G handle blocks = put_many_loop C G handle blocks ([], [])"

definition put_keyed ::
    "('cid, 'code, 'blk, ('s, 'ga) go_state) cid_lib \<Rightarrow> u64 \<Rightarrow> 'cid \<Rightarrow> bytes
      \<Rightarrow> (('s, 'ga) go_state, anyhow + unit) io" where
  "put_keyed C handle k block =
     (let k_bytes = cid_to_bytes C k
      in bind_io (cgo_blockstore_put handle k_bytes (len_i32 k_bytes) block (len_i32 block)) (\<lambda>(x, _).
         put_result ''put'' handle x))"

definition CgoBlockstore ::
    "('cid, 'code, 'blk, ('s, 'ga) go_state) cid_lib \<Rightarrow> 'ga go_lib \<Rightarrow> u64
      \<Rightarrow> ('cid, 'code, 'blk, ('s, 'ga) go_state) Blockstore" where
  "CgoBlockstore C G handle =
     \<lparr>bs_has = has C handle, bs_get = get C handle,
      bs_put = provided_put C, bs_put_many = provided_put_many C,
      bs_put_many_keyed = put_many_keyed C G handle, bs_put_keyed = put_keyed C handle\<rparr>"

lemmas cgo_limits = MAX_BUF_SIZE_def MAX_BLOCK_BATCH_def EST_MAX_CID_LEN_def

section \<open>What the codecs of the two languages promise each other\<close>

text \<open>The bytes that Rust writes for a CID are non-empty and shorter than \<open>2^31\<close>, and Go reads
  them back from the front of any buffer.\<close>

definition cid_codec :: "('cid, 'code, 'blk, 'g) cid_lib \<Rightarrow> 'ga go_lib \<Rightarrow> bool" where
  "cid_codec C G \<longleftrightarrow>
     (\<forall>k rest. CidFromBytes G (cid_to_bytes C k @ rest) =
        Some (length (cid_to_bytes C k), cid_to_bytes C k)) \<and>
     (\<forall>k. cid_to_bytes C k \<noteq> [] \<and> length (cid_to_bytes C k) < 2 ^ 31)"

abbreviation enc :: "('cid, 'code, 'blk, 'g) cid_lib \<Rightarrow> 'cid \<times> bytes \<Rightarrow> bytes" where
  "enc C kb \<equiv> cid_to_bytes C (fst kb) @ snd kb"

abbreviation go_block :: "('cid, 'code, 'blk, 'g) cid_lib \<Rightarrow> 'cid \<times> bytes \<Rightarrow> bytes \<times> bytes" where
  "go_block C kb \<equiv> (cid_to_bytes C (fst kb), snd kb)"

definition small_block :: "('cid, 'code, 'blk, 'g) cid_lib \<Rightarrow> 'cid \<times> bytes \<Rightarrow> bool" where
  "small_block C kb \<longleftrightarrow> length (enc C kb) \<le> 2 ^ 30"

section \<open>Decoding a buffer\<close>

lemma decode_blocks_enc:
  assumes "cid_codec C G" and "list_all (small_block C) kbs"
  shows "decode_blocks G (map (\<lambda>kb. word_of_nat (length (enc C kb))) kbs) (concat (map (enc C) kbs) @ rest)
    = Returns (Inr (map (go_block C) kbs))"
  using assms(2)
proof (induction kbs)
  case Nil
  then show ?case by simp
next
  case (Cons kb kbs)
  let ?e = "enc C kb"
  have le: "length ?e \<le> 2 ^ 30" using Cons.prems by (simp add: small_block_def)
  then have s: "sint (word_of_nat (length ?e) :: i32) = int (length ?e)"
    by (intro sint_word_of_nat) simp
  have sl: "unsafe_slice (?e @ concat (map (enc C) kbs) @ rest) (word_of_nat (length ?e)) = Returns ?e"
    using le by (intro unsafe_slice_length) simp
  have "CidFromBytes G ?e = Some (length (cid_to_bytes C (fst kb)), cid_to_bytes C (fst kb))"
    using assms(1) by (simp add: cid_codec_def)
  moreover have "\<not> MAX_LEN < sint (word_of_nat (length ?e) :: i32)"
    unfolding s MAX_LEN_def using le by simp
  moreover have "drop (nat (sint (word_of_nat (length ?e) :: i32)))
      (?e @ concat (map (enc C) kbs) @ rest) = concat (map (enc C) kbs) @ rest"
    unfolding s by simp
  moreover have "decode_blocks G (map (\<lambda>kb. word_of_nat (length (enc C kb))) kbs)
      (concat (map (enc C) kbs) @ rest) = Returns (Inr (map (go_block C) kbs))"
    using Cons by simp
  ultimately show ?case
    using sl by (simp only: list.map concat.simps append_assoc decode_blocks.simps if_False
      bind_exec_simps option.case prod.case sum.case length_append not_less le_add1) simp
qed

section \<open>What the buffered writes do\<close>

text \<open>One batch handed to the client's \<open>PutMany\<close>, with the code that comes back read by Rust.\<close>

definition put_batch ::
    "('cid, 'code, 'blk, 'h) cid_lib \<Rightarrow> ('s, 'ga) externs \<Rightarrow> ('cid \<times> bytes) list
      \<Rightarrow> (('s, 'ga) go_state, anyhow + unit) io" where
  "put_batch C e kbs g =
     (case PutMany e (map (go_block C) kbs) (store g) of
        (Returns err, s) \<Rightarrow>
          (Returns (if err = NilErr then Inr () else Inl (cgo_failed ''put'' (FvmError_code Io))),
           g\<lparr>store := s\<rparr>)
      | (Panics _, s) \<Rightarrow> (Returns (Inl (cgo_failed ''put'' (FvmError_code Panic))), g\<lparr>store := s\<rparr>)
      | (Undefined, s) \<Rightarrow> (Undefined, g\<lparr>store := s\<rparr>))"

fun run_batches ::
    "('cid, 'code, 'blk, 'h) cid_lib \<Rightarrow> ('s, 'ga) externs \<Rightarrow> ('cid \<times> bytes) list list
      \<Rightarrow> (('s, 'ga) go_state, anyhow + unit) io" where
  "run_batches C e [] = ret (Inr ())"
| "run_batches C e (b # bs) = try_io (put_batch C e b) (\<lambda>_. run_batches C e bs)"

text \<open>The batches: \<open>cur\<close> is the one being filled.\<close>

abbreviation enc_len :: "('cid, 'code, 'blk, 'g) cid_lib \<Rightarrow> ('cid \<times> bytes) list \<Rightarrow> nat" where
  "enc_len C kbs \<equiv> length (concat (map (enc C) kbs))"

fun batches ::
    "('cid, 'code, 'blk, 'g) cid_lib \<Rightarrow> ('cid \<times> bytes) list \<Rightarrow> ('cid \<times> bytes) list
      \<Rightarrow> ('cid \<times> bytes) list list" where
  "batches C cur [] = (if cur = [] then [] else [cur])"
| "batches C cur (kb # kbs) =
     (if cur \<noteq> [] \<and> (MAX_BLOCK_BATCH \<le> length cur
           \<or> MAX_BUF_SIZE < EST_MAX_CID_LEN + length (snd kb) + enc_len C cur)
      then cur # batches C [kb] kbs
      else batches C (cur @ [kb]) kbs)"

text \<open>The two vectors that hold a list of blocks.\<close>

definition vecs :: "('cid, 'code, 'blk, 'g) cid_lib \<Rightarrow> ('cid \<times> bytes) list \<Rightarrow> i32 list \<times> bytes" where
  "vecs C kbs = (map (\<lambda>kb. word_of_nat (length (enc C kb))) kbs, concat (map (enc C) kbs))"

lemma push_block_vecs: "push_block C k b (vecs C kbs) = vecs C (kbs @ [(k, b)])"
  by (simp add: push_block_def vecs_def Let_def)

lemma vecs_empty: "cid_codec C G \<Longrightarrow> snd (vecs C kbs) = [] \<longleftrightarrow> kbs = []"
  by (cases kbs) (auto simp: vecs_def cid_codec_def)

lemma put_result_codes [simp]:
  "put_result op h 0 = ret (Inr ())"
  "put_result op h (FvmError_code Io) = ret (Inl (cgo_failed ''put'' (FvmError_code Io)))"
  "put_result op h (FvmError_code Panic) = ret (Inl (cgo_failed ''put'' (FvmError_code Panic)))"
  "put_result op h (FvmError_code InvalidArgument) =
     ret (Inl (cgo_failed ''put'' (FvmError_code InvalidArgument)))"
  "put_result op h (FvmError_code InvalidHandle) = raise (not_registered h)"
  by (simp_all add: put_result_def)

lemma flush_vecs:
  assumes codec: "cid_codec C G" and e: "Lookup h g = Some e"
    and small: "list_all (small_block C) kbs" and len: "length kbs \<le> 1024" and ne: "kbs \<noteq> []"
  shows "flush_buffered G h (fst (vecs C kbs)) (snd (vecs C kbs)) g =
    bind_io (put_batch C e kbs) (\<lambda>r. ret (([], []), r)) g"
proof -
  let ?ls = "fst (vecs C kbs)" and ?buf = "snd (vecs C kbs)"
  have s: "sint (len_i32 ?ls) = int (length ?ls)"
    using len by (intro sint_word_of_nat) (simp add: vecs_def)
  have sl: "unsafe_slice ?ls (len_i32 ?ls) = Returns ?ls"
    using unsafe_slice_length [of ?ls "[]"] len by (simp add: vecs_def)
  have dec: "decode_blocks G ?ls ?buf = Returns (Inr (map (go_block C) kbs))"
    using decode_blocks_enc [OF codec small, of "[]"] by (simp add: vecs_def)
  have m: "\<not> MAX_LEN < sint (len_i32 ?ls)"
    unfolding s MAX_LEN_def using len by (simp add: vecs_def)
  obtain x st where p: "PutMany e (map (go_block C) kbs) (store g) = (x, st)"
    by (cases "PutMany e (map (go_block C) kbs) (store g)")
  have ls: "lift_store (PutMany e (map (go_block C) kbs)) g = (x, g\<lparr>store := st\<rparr>)"
    by (simp add: lift_store_def p)
  have "cgo_blockstore_put_many G h ?ls (len_i32 ?ls) ?buf g =
     (case x of
        Returns err \<Rightarrow> (Returns (if err = NilErr then 0 else FvmError_code Io, ()), g\<lparr>store := st\<rparr>)
      | Panics _ \<Rightarrow> (Returns (FvmError_code Panic, ()), g\<lparr>store := st\<rparr>)
      | Undefined \<Rightarrow> (Undefined, g\<lparr>store := st\<rparr>))"
    using m by (cases x)
      (simp_all add: cgo_blockstore_put_many_def go_recover_def with_externs_run(1) [OF e] sl dec
         bind_io_def [of "lift_store (PutMany e (map (go_block C) kbs))"] ls ret_def
         del: FvmError_code.simps)
  then show ?thesis
    using vecs_empty [OF codec, of kbs] ne
    by (cases x) (simp_all add: flush_buffered_def put_batch_def p bind_io_def ret_def
         del: FvmError_code.simps split: if_splits)
qed

lemma put_batch_Lookup: "put_batch C e kbs g = (x, g') \<Longrightarrow> Lookup h g' = Lookup h g"
  by (auto simp: put_batch_def split: prod.splits exec.splits)

lemma flush_nothing: "flush_buffered G h ls [] = ret ((ls, []), Inr ())"
  by (simp add: flush_buffered_def)

lemma flush_vecs_empty:
  "cid_codec C G \<Longrightarrow> flush_buffered G h (fst (vecs C [])) (snd (vecs C [])) g = (Returns (vecs C [], Inr ()), g)"
  by (simp add: flush_buffered_def vecs_def ret_def)

text \<open>The loop with the two vectors is the run of the batches.\<close>

lemma put_many_loop_batches:
  assumes codec: "cid_codec C G"
  shows "Lookup h g = Some e \<Longrightarrow> list_all (small_block C) (cur @ kbs) \<Longrightarrow> length cur \<le> 1024 \<Longrightarrow>
    put_many_loop C G h kbs (vecs C cur) g = run_batches C e (batches C cur kbs) g"
proof (induction kbs arbitrary: cur g)
  case Nil
  have "put_many_loop C G h [] (vecs C cur) g =
      bind_io (flush_buffered G h (fst (vecs C cur)) (snd (vecs C cur))) (\<lambda>(_, r). ret r) g"
    by (cases "vecs C cur") simp
  with Nil show ?case
    by (cases "cur = []")
       (auto simp: flush_vecs_empty [OF codec] flush_vecs [OF codec] bind_io_def try_io_def ret_def
             split: prod.splits exec.splits sum.splits)
next
  case (Cons kb kbs)
  obtain k b where kb: "kb = (k, b)" by (cases kb)
  let ?ls = "fst (vecs C cur)" and ?buf = "snd (vecs C cur)"
  have sizes: "length ?ls = length cur" "length ?buf = enc_len C cur"
    by (simp_all add: vecs_def)
  have unfold: "put_many_loop C G h (kb # kbs) (vecs C cur) =
     (if MAX_BLOCK_BATCH \<le> length cur \<or> MAX_BUF_SIZE < EST_MAX_CID_LEN + length b + enc_len C cur
      then bind_io (flush_buffered G h ?ls ?buf) (\<lambda>(v, r).
        case r of Inl e \<Rightarrow> ret (Inl e) | Inr _ \<Rightarrow> put_many_loop C G h kbs (push_block C k b v))
      else put_many_loop C G h kbs (vecs C (cur @ [kb])))"
    by (cases "vecs C cur") (use sizes in \<open>simp add: kb push_block_vecs [symmetric]\<close>)
  have one: "put_many_loop C G h kbs (vecs C [kb]) g' = run_batches C e (batches C [kb] kbs) g'"
    if "Lookup h g' = Some e" for g'
    by (rule Cons.IH [OF that]) (use Cons.prems in simp_all)
  have start: "push_block C k b ([], []) = vecs C [kb]"
    using push_block_vecs [of C k b "[]"] by (simp add: vecs_def kb)
  consider (empty) "cur = []" | (flush) "cur \<noteq> []"
      "MAX_BLOCK_BATCH \<le> length cur \<or> MAX_BUF_SIZE < EST_MAX_CID_LEN + length b + enc_len C cur"
    | (keep) "\<not> (MAX_BLOCK_BATCH \<le> length cur \<or> MAX_BUF_SIZE < EST_MAX_CID_LEN + length b + enc_len C cur)"
    by blast
  then show ?case
  proof cases
    case empty
    have nil: "fst (vecs C []) = []" "snd (vecs C []) = []" by (simp_all add: vecs_def)
    have "put_many_loop C G h (kb # kbs) (vecs C []) = put_many_loop C G h kbs (vecs C [kb])"
      using unfold [unfolded empty] start by (simp add: nil flush_nothing)
    with one [OF Cons.prems(1)] empty show ?thesis by simp
  next
    case flush
    have small: "list_all (small_block C) cur" using Cons.prems(2) by simp
    have "put_many_loop C G h (kb # kbs) (vecs C cur) g =
        try_io (put_batch C e cur) (\<lambda>_. put_many_loop C G h kbs (vecs C [kb])) g"
      using flush flush_vecs [OF codec Cons.prems(1) small Cons.prems(3)] start
      by (simp add: unfold try_io_def bind_io_def ret_def split: prod.splits exec.splits)
    also have "\<dots> = try_io (put_batch C e cur) (\<lambda>_. run_batches C e (batches C [kb] kbs)) g"
      using one put_batch_Lookup [of C e cur g _ _ h] Cons.prems(1)
      by (simp add: try_io_def bind_io_def ret_def split: prod.splits exec.splits sum.splits)
    finally show ?thesis using flush by (simp add: kb)
  next
    case keep
    then have "length (cur @ [kb]) \<le> 1024" by (simp add: MAX_BLOCK_BATCH_def)
    then have "put_many_loop C G h kbs (vecs C (cur @ [kb])) g =
        run_batches C e (batches C (cur @ [kb]) kbs) g"
      by (intro Cons.IH) (use Cons.prems in simp_all)
    with keep show ?thesis unfolding unfold by (simp add: kb)
  qed
qed

lemma put_many_keyed_batches:
  assumes "cid_codec C G" and "Lookup h g = Some e" and "list_all (small_block C) kbs"
  shows "put_many_keyed C G h kbs g = run_batches C e (batches C [] kbs) g"
  using put_many_loop_batches [OF assms(1,2), of "[]" kbs] assms(3)
  by (simp add: put_many_keyed_def vecs_def)

section \<open>The batches\<close>

lemma concat_batches: "concat (batches C cur kbs) = cur @ kbs"
  by (induction kbs arbitrary: cur) auto

lemma batches_bounds:
  assumes "\<And>k. length (cid_to_bytes C k) \<le> EST_MAX_CID_LEN"
  shows "length cur \<le> MAX_BLOCK_BATCH \<Longrightarrow> length cur \<le> 1 \<or> enc_len C cur \<le> MAX_BUF_SIZE \<Longrightarrow>
    b \<in> set (batches C cur kbs) \<Longrightarrow>
    b \<noteq> [] \<and> length b \<le> MAX_BLOCK_BATCH \<and> (length b = 1 \<or> enc_len C b \<le> MAX_BUF_SIZE)"
proof (induction kbs arbitrary: cur)
  case Nil
  then show ?case by (auto split: if_splits simp: le_Suc_eq)
next
  case (Cons kb kbs)
  show ?case
  proof (cases "cur \<noteq> [] \<and> (MAX_BLOCK_BATCH \<le> length cur
      \<or> MAX_BUF_SIZE < EST_MAX_CID_LEN + length (snd kb) + enc_len C cur)")
    case True
    with Cons.IH [of "[kb]"] Cons.prems show ?thesis
      by (auto simp: MAX_BLOCK_BATCH_def le_Suc_eq)
  next
    case False
    with Cons.IH [of "cur @ [kb]"] Cons.prems assms [of "fst kb"] show ?thesis
      by (cases "cur = []") (auto simp: MAX_BLOCK_BATCH_def)
  qed
qed

section \<open>Single operations on a registered store\<close>

text \<open>What Go answers when the client's function returned, failed or panicked.\<close>

definition call_store ::
    "('s, 'a) io \<Rightarrow> ('a \<Rightarrow> (('s, 'ga) go_state, 'b) io) \<Rightarrow> 'b \<Rightarrow> (('s, 'ga) go_state, 'b) io" where
  "call_store m f on_panic g =
     (case m (store g) of
        (Returns a, s) \<Rightarrow> f a (g\<lparr>store := s\<rparr>)
      | (Panics _, s) \<Rightarrow> (Returns on_panic, g\<lparr>store := s\<rparr>)
      | (Undefined, s) \<Rightarrow> (Undefined, g\<lparr>store := s\<rparr>))"

lemma has_run:
  assumes "Lookup h g = Some e" and "length (cid_to_bytes C k) < 2 ^ 31"
  shows "has C h k g =
    call_store (Has e (cid_to_bytes C k))
      (\<lambda>(b, err). ret (case err of NilErr \<Rightarrow> Inr b | BlockstoreErrNotFound \<Rightarrow> Inr False
         | OtherErr \<Rightarrow> Inl (cgo_failed ''has'' (FvmError_code Io))))
      (Inl (cgo_failed ''has'' (FvmError_code Panic))) g"
proof (cases "Has e (cid_to_bytes C k) (store g)")
  case (Pair x s)
  with assms show ?thesis
    by (cases x)
       (auto simp: has_def call_store_def cgo_blockstore_has_def go_recover_def with_externs_run
          lift_store_def toCid_def bind_io_def ret_def Let_def split: go_err.splits)
qed

lemma get_run:
  assumes "Lookup h g = Some e" and "length (cid_to_bytes C k) < 2 ^ 31"
  shows "get C h k g =
    call_store (View e (cid_to_bytes C k))
      (\<lambda>(d, err). case err of
           NilErr \<Rightarrow> bind_io (from_exec (from_raw_parts d (case d of None \<Rightarrow> 0 | Some b \<Rightarrow> len_i32 b)))
             (\<lambda>v. ret (Inr (Some v)))
         | BlockstoreErrNotFound \<Rightarrow> ret (Inr None)
         | OtherErr \<Rightarrow> ret (Inl (cgo_failed ''get'' (FvmError_code Io))))
      (Inl (cgo_failed ''get'' (FvmError_code Panic))) g"
proof (cases "View e (cid_to_bytes C k) (store g)")
  case (Pair x s)
  with assms show ?thesis
    by (cases x)
       (auto simp: get_def call_store_def cgo_blockstore_get_def go_recover_def with_externs_run
          lift_store_def toCid_def bind_io_def ret_def Let_def split: go_err.splits option.splits)
qed

lemma put_keyed_run:
  assumes "Lookup h g = Some e" and "length (cid_to_bytes C k) < 2 ^ 31" and "length b < 2 ^ 31"
  shows "put_keyed C h k b g =
    call_store (Put e (cid_to_bytes C k, b))
      (\<lambda>err. ret (if err = NilErr then Inr () else Inl (cgo_failed ''put'' (FvmError_code Io))))
      (Inl (cgo_failed ''put'' (FvmError_code Panic))) g"
proof (cases "Put e (cid_to_bytes C k, b) (store g)")
  case (Pair x s)
  with assms show ?thesis
    by (cases x)
       (auto simp: put_keyed_def call_store_def cgo_blockstore_put_def go_recover_def with_externs_run
          lift_store_def toCid_def bind_io_def ret_def Let_def
          simp del: FvmError_code.simps)
qed

section \<open>Properties\<close>

text \<open>C7: \<open>put_many_keyed\<close> hands the client's \<open>PutMany\<close> the given blocks in the given order, cut
  into batches; it stops at the first batch that fails. No batch is empty, none has more
  than 1024 blocks, and only a batch of one block can exceed 4 MiB.\<close>
theorem put_many_keyed_is_batched:
  assumes "cid_codec C G" and "Lookup h g = Some e" and "list_all (small_block C) kbs"
    and "\<And>k. length (cid_to_bytes C k) \<le> EST_MAX_CID_LEN"
  shows "put_many_keyed C G h kbs g = run_batches C e (batches C [] kbs) g \<and>
    concat (batches C [] kbs) = kbs \<and>
    list_all (\<lambda>b. b \<noteq> [] \<and> length b \<le> MAX_BLOCK_BATCH \<and>
      (length b = 1 \<or> enc_len C b \<le> MAX_BUF_SIZE)) (batches C [] kbs)"
  using put_many_keyed_batches [OF assms(1-3)] concat_batches [of C "[]" kbs]
    batches_bounds [OF assms(4), of "[]"]
  by (auto simp: list_all_iff)

text \<open>A concrete codec: a CID is one byte, and stands for itself.\<close>

definition byte_cids :: "(u8, unit, unit, 'g) cid_lib" where
  "byte_cids = \<lparr>cid_to_bytes = (\<lambda>k. [k]), provided_put = (\<lambda>_ _. ret (Inr 0)),
     provided_put_many = (\<lambda>_. ret (Inr ()))\<rparr>"

definition byte_go :: "u64 go_lib" where
  "byte_go = \<lparr>CidFromBytes = (\<lambda>b. case b of [] \<Rightarrow> None | k # _ \<Rightarrow> Some (1, [k])), IDFromAddress = Some\<rparr>"

definition mem_go :: "(bytes \<rightharpoonup> bytes, u64) go_state" where
  "mem_go = \<lparr>registry = [3 \<mapsto> Some mem_externs], nextId = 4, store = Map.empty\<rparr>"

lemma byte_codec: "cid_codec byte_cids byte_go"
  by (simp add: cid_codec_def byte_cids_def byte_go_def)

lemma mem_go_Lookup: "Lookup 3 mem_go = Some mem_externs"
  by (simp add: mem_go_def Lookup_def)

theorem put_many_keyed_is_batched_witness:
  "put_many_keyed byte_cids byte_go 3 [(1, [10]), (2, [20, 21]), (1, [11])] mem_go =
     (Returns (Inr ()), mem_go\<lparr>store := [[1] \<mapsto> [11], [2] \<mapsto> [20, 21]]\<rparr>)"
proof -
  let ?kbs = "[(1, [10]), (2, [20, 21]), (1, [11])] :: (u8 \<times> bytes) list"
  have "batches (byte_cids :: (u8, unit, unit, (bytes \<rightharpoonup> bytes, u64) go_state) cid_lib) [] ?kbs = [?kbs]"
    by (simp add: byte_cids_def cgo_limits)
  with put_many_keyed_is_batched [OF byte_codec mem_go_Lookup, of ?kbs]
  show ?thesis
    by (simp add: small_block_def byte_cids_def EST_MAX_CID_LEN_def put_batch_def mem_externs_def
          try_io_def bind_io_def ret_def mem_go_def fun_eq_iff)
qed

text \<open>With a handle that is not registered, every operation that reaches Go panics, with the
  handle in the message, and changes nothing. A batch with no block does not reach Go.\<close>
lemma unregistered_handle_panics:
  assumes "Lookup h g = None" and "cid_codec C G" and "kbs \<noteq> []"
  shows "has C h k g = (Panics (not_registered h), g) \<and>
    get C h k g = (Panics (not_registered h), g) \<and>
    put_keyed C h k b g = (Panics (not_registered h), g) \<and>
    put_many_keyed C G h kbs g = (Panics (not_registered h), g) \<and>
    put_many_keyed C G h [] g = (Returns (Inr ()), g)"
proof -
  have flush: "flush_buffered G h ls buf g = (Panics (not_registered h), g)" if "buf \<noteq> []" for ls buf
    using that assms(1)
    by (simp add: flush_buffered_def cgo_blockstore_put_many_def go_recover_def with_externs_def
          bind_io_def put_result_def raise_def)
  have loop: "put_many_loop C G h xs (ls, buf) g = (Panics (not_registered h), g)" if "buf \<noteq> []" for xs ls buf
    using that
  proof (induction xs arbitrary: ls buf)
    case (Cons x xs)
    then show ?case
      using flush [of buf ls] by (cases x) (simp add: bind_io_def push_block_def Let_def)
  qed (simp add: flush bind_io_def)
  obtain k0 b0 kbs' where kbs: "kbs = (k0, b0) # kbs'" using assms(3) by (cases kbs) auto
  have "cid_to_bytes C k0 \<noteq> []" and len: "length (cid_to_bytes C k) < 2 ^ 31"
    using assms(2) by (auto simp: cid_codec_def)
  then have "put_many_keyed C G h kbs g = (Panics (not_registered h), g)"
    by (simp add: kbs put_many_keyed_def flush_nothing push_block_def Let_def loop)
  with assms(1) len show ?thesis
    by (simp add: has_def get_def put_keyed_def put_result_def put_many_keyed_def flush_nothing ret_def
          cgo_blockstore_has_def cgo_blockstore_get_def cgo_blockstore_put_def go_recover_def
          with_externs_def toCid_def bind_io_def raise_def Let_def)
qed

text \<open>On a registered store a single put or \<open>has\<close> is one call of the client's function with the
  key's bytes; a client error is the code -3, a client panic is recovered in Go and is the
  code -5, both as error values, so that a panic of the client never unwinds through Rust.\<close>
lemma single_operations:
  assumes "Lookup h g = Some e" and "length (cid_to_bytes C k) < 2 ^ 31" and "length b < 2 ^ 31"
  shows "put_keyed C h k b g =
      (case Put e (cid_to_bytes C k, b) (store g) of
         (Returns err, s) \<Rightarrow> (Returns (if err = NilErr then Inr () else Inl (cgo_failed ''put'' (- 3))), g\<lparr>store := s\<rparr>)
       | (Panics _, s) \<Rightarrow> (Returns (Inl (cgo_failed ''put'' (- 5))), g\<lparr>store := s\<rparr>)
       | (Undefined, s) \<Rightarrow> (Undefined, g\<lparr>store := s\<rparr>)) \<and>
    has C h k g =
      (case Has e (cid_to_bytes C k) (store g) of
         (Returns (found, err), s) \<Rightarrow>
           (Returns (case err of NilErr \<Rightarrow> Inr found | BlockstoreErrNotFound \<Rightarrow> Inr False
              | OtherErr \<Rightarrow> Inl (cgo_failed ''has'' (- 3))), g\<lparr>store := s\<rparr>)
       | (Panics _, s) \<Rightarrow> (Returns (Inl (cgo_failed ''has'' (- 5))), g\<lparr>store := s\<rparr>)
       | (Undefined, s) \<Rightarrow> (Undefined, g\<lparr>store := s\<rparr>))"
  by (auto simp: put_keyed_run [OF assms] has_run [OF assms(1,2)] call_store_def ret_def
           split: prod.splits exec.splits go_err.splits)

end
