(* ===== verification/Blockstores.thy ===== *)
theory Blockstores
  imports Cgo_Blockstore
begin

text \<open>
  The three blockstores of \<open>rust/src/fvm/blockstore\<close>. The contract of the trait is two
  locales: \<open>Blockstore_read\<close> (\<open>get\<close> and \<open>has\<close> report one view of the store and leave
  it alone) and \<open>Blockstore_write\<close> (a successful put changes the view as a map update).
  \<open>CgoBlockstore\<close> implements both over a client store that keeps its own contract;
  \<open>OverlayBlockstore\<close> and \<open>FakeBlockstore\<close> are functors: over any base that implements
  \<open>Blockstore_read\<close> they implement it again, with a view in which the blocks in memory
  come first.
\<close>

section \<open>The overlay\<close>

record ('cid, 's) OverlayBlockstore =
  over :: "'cid \<rightharpoonup> bytes"
  over_base :: 's

definition lift_over :: "('s, 'a) io \<Rightarrow> (('cid, 's) OverlayBlockstore, 'a) io" where
  "lift_over m o' = (case m (over_base o') of (x, s) \<Rightarrow> (x, o'\<lparr>over_base := s\<rparr>))"

definition overlay_new :: "('cid \<rightharpoonup> bytes) \<Rightarrow> 's \<Rightarrow> ('cid, 's) OverlayBlockstore" where
  "overlay_new overlay base = \<lparr>over = overlay, over_base = base\<rparr>"

definition overlay_get ::
    "('cid, 'code, 'blk, 's) Blockstore \<Rightarrow> 'cid \<Rightarrow> (('cid, 's) OverlayBlockstore, anyhow + bytes option) io" where
  "overlay_get B k o' =
     (case over o' k of
        Some blk \<Rightarrow> (Returns (Inr (Some blk)), o')
      | None \<Rightarrow> lift_over (bs_get B k) o')"

definition overlay_has ::
    "('cid, 'code, 'blk, 's) Blockstore \<Rightarrow> 'cid \<Rightarrow> (('cid, 's) OverlayBlockstore, anyhow + bool) io" where
  "overlay_has B k o' =
     (if over o' k \<noteq> None then (Returns (Inr True), o')
      else try_io (lift_over (bs_has B k)) (\<lambda>b. ret (Inr b)) o')"

definition Overlay ::
    "('cid, 'code, 'blk, 's) Blockstore \<Rightarrow> ('cid, 'code, 'blk, ('cid, 's) OverlayBlockstore) Blockstore" where
  "Overlay B =
     \<lparr>bs_has = overlay_has B, bs_get = overlay_get B,
      bs_put = (\<lambda>mh_code block. lift_over (bs_put B mh_code block)),
      bs_put_many = (\<lambda>blocks. lift_over (bs_put_many B blocks)),
      bs_put_many_keyed = (\<lambda>blocks. lift_over (bs_put_many_keyed B blocks)),
      bs_put_keyed = (\<lambda>k block. lift_over (bs_put_keyed B k block))\<rparr>"

section \<open>The fake store\<close>

text \<open>The multihash operations of the \<open>cid\<close> crate that \<open>put_keyed\<close> uses.\<close>

record ('cid, 'mh, 'code) hash_lib =
  cid_hash :: "'cid \<Rightarrow> 'mh"
  hash_code :: "'mh \<Rightarrow> u64"
  code_try_from :: "u64 \<Rightarrow> 'code option"
  code_digest :: "'code \<Rightarrow> bytes \<Rightarrow> 'mh"

record ('cid, 's) FakeBlockstore =
  fake_blocks :: "'cid \<rightharpoonup> bytes"
  fake_base :: 's

definition fake_new :: "'s \<Rightarrow> ('cid, 's) FakeBlockstore" where
  "fake_new bs = \<lparr>fake_blocks = Map.empty, fake_base = bs\<rparr>"

definition lift_fake :: "('s, 'a) io \<Rightarrow> (('cid, 's) FakeBlockstore, 'a) io" where
  "lift_fake m f = (case m (fake_base f) of (x, s) \<Rightarrow> (x, f\<lparr>fake_base := s\<rparr>))"

definition fake_get ::
    "('cid, 'code, 'blk, 's) Blockstore \<Rightarrow> 'cid \<Rightarrow> (('cid, 's) FakeBlockstore, anyhow + bytes option) io" where
  "fake_get B k f =
     (case fake_blocks f k of
        Some blk \<Rightarrow> (Returns (Inr (Some blk)), f)
      | None \<Rightarrow> lift_fake (bs_get B k) f)"

definition hash_matches :: "('cid, 'mh, 'code) hash_lib \<Rightarrow> 'cid \<Rightarrow> bytes \<Rightarrow> bool" where
  "hash_matches H k block =
     (case code_try_from H (hash_code H (cid_hash H k)) of
        None \<Rightarrow> False
      | Some code \<Rightarrow> code_digest H code block = cid_hash H k)"

definition fake_put_keyed ::
    "('cid, 'mh, 'code) hash_lib \<Rightarrow> ('cid, 'code, 'blk, 's) Blockstore \<Rightarrow> 'cid \<Rightarrow> bytes
      \<Rightarrow> (('cid, 's) FakeBlockstore, anyhow + unit) io" where
  "fake_put_keyed H B k block f =
     (if hash_matches H k block then lift_fake (bs_put_keyed B k block) f
      else (Returns (Inr ()), f\<lparr>fake_blocks := (fake_blocks f)(k \<mapsto> block)\<rparr>))"

definition fake_has ::
    "('cid, 'code, 'blk, 's) Blockstore \<Rightarrow> 'cid \<Rightarrow> (('cid, 's) FakeBlockstore, anyhow + bool) io" where
  "fake_has B k f =
     (if fake_blocks f k \<noteq> None then (Returns (Inr True), f)
      else try_io (lift_fake (bs_has B k)) (\<lambda>b. ret (Inr b)) f)"

fun fake_put_many_keyed ::
    "('cid, 'mh, 'code) hash_lib \<Rightarrow> ('cid, 'code, 'blk, 's) Blockstore \<Rightarrow> ('cid \<times> bytes) list
      \<Rightarrow> (('cid, 's) FakeBlockstore, anyhow + unit) io" where
  "fake_put_many_keyed H B [] = ret (Inr ())"
| "fake_put_many_keyed H B ((c, b) # blocks) =
     try_io (fake_put_keyed H B c b) (\<lambda>_. fake_put_many_keyed H B blocks)"

definition Fake ::
    "('cid, 'mh, 'code) hash_lib \<Rightarrow> ('cid, 'code, 'blk, 's) Blockstore
      \<Rightarrow> ('cid, 'code, 'blk, ('cid, 's) FakeBlockstore) Blockstore" where
  "Fake H B =
     \<lparr>bs_has = fake_has B, bs_get = fake_get B,
      bs_put = (\<lambda>mh_code block. lift_fake (bs_put B mh_code block)),
      bs_put_many = (\<lambda>blocks. lift_fake (bs_put_many B blocks)),
      bs_put_many_keyed = fake_put_many_keyed H B,
      bs_put_keyed = fake_put_keyed H B\<rparr>"

definition finish :: "('cid, 's) FakeBlockstore \<Rightarrow> ('cid, 's) OverlayBlockstore" where
  "finish f = overlay_new (fake_blocks f) (fake_base f)"

section \<open>The contract of a blockstore\<close>

locale Blockstore_read =
  fixes B :: "('cid, 'code, 'blk, 's) Blockstore"
    and inv :: "'s \<Rightarrow> bool"
    and view :: "'s \<Rightarrow> 'cid \<rightharpoonup> bytes"
  assumes get_ok: "inv s \<Longrightarrow> bs_get B k s = (Returns (Inr r), s') \<Longrightarrow> r = view s k"
    and get_keeps: "inv s \<Longrightarrow> bs_get B k s = (x, s') \<Longrightarrow> inv s' \<and> view s' = view s"
    and has_ok: "inv s \<Longrightarrow> bs_has B k s = (Returns (Inr b), s') \<Longrightarrow> b = (view s k \<noteq> None)"
    and has_keeps: "inv s \<Longrightarrow> bs_has B k s = (y, s') \<Longrightarrow> inv s' \<and> view s' = view s"
begin

lemma has_then_get:
  assumes "inv s" and "bs_has B k s = (Returns (Inr b), s1)" and "bs_get B k s1 = (Returns (Inr r), s2)"
  shows "b = (r \<noteq> None)"
proof -
  have "inv s1" "view s1 = view s" using has_keeps [OF assms(1,2)] by auto
  then show ?thesis using has_ok [OF assms(1,2)] get_ok [OF _ assms(3)] by simp
qed

end

locale Blockstore_write = Blockstore_read B inv view
  for B :: "('cid, 'code, 'blk, 's) Blockstore"
    and inv :: "'s \<Rightarrow> bool"
    and view :: "'s \<Rightarrow> 'cid \<rightharpoonup> bytes" +
  fixes fits :: "'cid \<times> bytes \<Rightarrow> bool"
  assumes put_ok: "inv s \<Longrightarrow> fits (k, b) \<Longrightarrow> bs_put_keyed B k b s = (Returns (Inr u), s') \<Longrightarrow>
      inv s' \<and> view s' = (view s)(k \<mapsto> b)"
    and put_many_ok: "inv s \<Longrightarrow> list_all fits kbs \<Longrightarrow> bs_put_many_keyed B kbs s = (Returns (Inr u), s') \<Longrightarrow>
      inv s' \<and> view s' = view s ++ map_of (rev kbs)"
begin

lemma get_after_put:
  assumes "inv s" and "fits (k, b)" and "bs_put_keyed B k b s = (Returns (Inr u), s1)"
    and "bs_get B k' s1 = (Returns (Inr r), s2)"
  shows "r = (if k' = k then Some b else view s k')"
  using put_ok [OF assms(1-3)] get_ok [OF _ assms(4)] by auto

text \<open>One batch of puts is seen by \<open>get\<close> as the puts one after the other: the last block
  given for a key is the one that is read.\<close>

lemma get_after_put_many:
  assumes "inv s" and "list_all fits kbs" and "bs_put_many_keyed B kbs s = (Returns (Inr u), s1)"
    and "bs_get B k s1 = (Returns (Inr r), s2)"
  shows "r = (case map_of (rev kbs) k of Some b \<Rightarrow> Some b | None \<Rightarrow> view s k)"
  using put_many_ok [OF assms(1-3)] get_ok [OF _ assms(4)]
  by (auto simp: map_add_def split: option.splits)

end

section \<open>Overlays of a blockstore\<close>

lemma overlay_sel [simp]:
  "bs_get (Overlay B) = overlay_get B" "bs_has (Overlay B) = overlay_has B"
  "bs_put_keyed (Overlay B) k b = lift_over (bs_put_keyed B k b)"
  "bs_put_many_keyed (Overlay B) kbs = lift_over (bs_put_many_keyed B kbs)"
  by (simp_all add: Overlay_def)

lemma fake_sel [simp]:
  "bs_get (Fake H B) = fake_get B" "bs_has (Fake H B) = fake_has B"
  "bs_put_keyed (Fake H B) = fake_put_keyed H B"
  "bs_put_many_keyed (Fake H B) = fake_put_many_keyed H B"
  by (simp_all add: Fake_def)

abbreviation over_view :: "('s \<Rightarrow> 'cid \<rightharpoonup> bytes) \<Rightarrow> ('cid, 's) OverlayBlockstore \<Rightarrow> 'cid \<rightharpoonup> bytes" where
  "over_view view o' \<equiv> view (over_base o') ++ over o'"

abbreviation fake_view :: "('s \<Rightarrow> 'cid \<rightharpoonup> bytes) \<Rightarrow> ('cid, 's) FakeBlockstore \<Rightarrow> 'cid \<rightharpoonup> bytes" where
  "fake_view view f \<equiv> view (fake_base f) ++ fake_blocks f"

locale Overlay_store = Blockstore_read B inv view
  for B :: "('cid, 'code, 'blk, 's) Blockstore"
    and inv :: "'s \<Rightarrow> bool"
    and view :: "'s \<Rightarrow> 'cid \<rightharpoonup> bytes"

sublocale Overlay_store \<subseteq> overlay: Blockstore_read "Overlay B" "\<lambda>o'. inv (over_base o')" "over_view view"
proof unfold_locales
  fix s k r s'
  assume "inv (over_base s)" and "bs_get (Overlay B) k s = (Returns (Inr r), s')"
  then show "r = over_view view s k"
    by (auto simp: overlay_get_def lift_over_def map_add_def dest: get_ok
             split: option.splits prod.splits)
next
  fix s k x s'
  assume "inv (over_base s)" and "bs_get (Overlay B) k s = (x, s')"
  then show "inv (over_base s') \<and> over_view view s' = over_view view s"
    by (auto simp: overlay_get_def lift_over_def dest: get_keeps split: option.splits prod.splits)
next
  fix s k b s'
  assume "inv (over_base s)" and "bs_has (Overlay B) k s = (Returns (Inr b), s')"
  then show "b = (over_view view s k \<noteq> None)"
    by (auto simp: overlay_has_def lift_over_def map_add_def try_io_def bind_io_def ret_def dest: has_ok
             split: option.splits prod.splits exec.splits sum.splits if_splits)
next
  fix s k y s'
  assume "inv (over_base s)" and "bs_has (Overlay B) k s = (y, s')"
  then show "inv (over_base s') \<and> over_view view s' = over_view view s"
    by (auto simp: overlay_has_def lift_over_def try_io_def bind_io_def ret_def dest: has_keeps
             split: option.splits prod.splits exec.splits sum.splits if_splits)
qed

text \<open>The two stores in memory run the same code; \<open>finish\<close> relates their states.\<close>

lemma finish_sel [simp]: "over (finish f) = fake_blocks f" "over_base (finish f) = fake_base f"
  by (simp_all add: finish_def overlay_new_def)

lemma finish_get: "overlay_get B k (finish f) = (case fake_get B k f of (x, f') \<Rightarrow> (x, finish f'))"
  by (auto simp: overlay_get_def fake_get_def lift_over_def lift_fake_def finish_def overlay_new_def
           split: option.splits prod.splits)

lemma finish_has: "overlay_has B k (finish f) = (case fake_has B k f of (x, f') \<Rightarrow> (x, finish f'))"
  by (auto simp: overlay_has_def fake_has_def lift_over_def lift_fake_def finish_def overlay_new_def
             try_io_def bind_io_def ret_def split: option.splits prod.splits exec.splits sum.splits)

locale Fake_store = Overlay_store B inv view
  for B :: "('cid, 'code, 'blk, 's) Blockstore"
    and inv :: "'s \<Rightarrow> bool"
    and view :: "'s \<Rightarrow> 'cid \<rightharpoonup> bytes" +
  fixes H :: "('cid, 'mh, 'code) hash_lib"

sublocale Fake_store \<subseteq> fake: Blockstore_read "Fake H B" "\<lambda>f. inv (fake_base f)" "fake_view view"
proof unfold_locales
  fix f k r f'
  assume i: "inv (fake_base f)" and g: "bs_get (Fake H B) k f = (Returns (Inr r), f')"
  have "bs_get (Overlay B) k (finish f) = (Returns (Inr r), finish f')"
    using g by (simp add: finish_get)
  from overlay.get_ok [OF _ this] i show "r = fake_view view f k" by simp
next
  fix f k x f'
  assume i: "inv (fake_base f)" and g: "bs_get (Fake H B) k f = (x, f')"
  have "bs_get (Overlay B) k (finish f) = (x, finish f')"
    using g by (simp add: finish_get)
  from overlay.get_keeps [OF _ this] i
  show "inv (fake_base f') \<and> fake_view view f' = fake_view view f" by simp
next
  fix f k b f'
  assume i: "inv (fake_base f)" and g: "bs_has (Fake H B) k f = (Returns (Inr b), f')"
  have "bs_has (Overlay B) k (finish f) = (Returns (Inr b), finish f')"
    using g by (simp add: finish_has)
  from overlay.has_ok [OF _ this] i show "b = (fake_view view f k \<noteq> None)" by simp
next
  fix f k y f'
  assume i: "inv (fake_base f)" and g: "bs_has (Fake H B) k f = (y, f')"
  have "bs_has (Overlay B) k (finish f) = (y, finish f')"
    using g by (simp add: finish_has)
  from overlay.has_keeps [OF _ this] i
  show "inv (fake_base f') \<and> fake_view view f' = fake_view view f" by simp
qed

text \<open>Over a base that can be written, a run of puts splits: the blocks whose hash matches their
  CID reach the base in their order, the others stay in memory.\<close>

locale Fake_write = Fake_store B inv view H + Blockstore_write B inv view fits
  for B :: "('cid, 'code, 'blk, 's) Blockstore"
    and inv :: "'s \<Rightarrow> bool"
    and view :: "'s \<Rightarrow> 'cid \<rightharpoonup> bytes"
    and H :: "('cid, 'mh, 'code) hash_lib"
    and fits :: "'cid \<times> bytes \<Rightarrow> bool"
begin

lemma fake_put_keyed_ok:
  assumes "inv (fake_base f)" and "fits (k, b)" and "fake_put_keyed H B k b f = (Returns (Inr u), f')"
  shows "inv (fake_base f') \<and>
    view (fake_base f') = view (fake_base f) ++ map_of (rev (filter (\<lambda>(k, b). hash_matches H k b) [(k, b)])) \<and>
    fake_blocks f' = fake_blocks f ++ map_of (rev (filter (\<lambda>(k, b). \<not> hash_matches H k b) [(k, b)]))"
  using assms put_ok [OF assms(1,2)]
  by (auto simp: fake_put_keyed_def lift_fake_def split: if_splits prod.splits)

lemma fake_put_many_keyed_ok:
  "inv (fake_base f) \<Longrightarrow> list_all fits kbs \<Longrightarrow> fake_put_many_keyed H B kbs f = (Returns (Inr u), f') \<Longrightarrow>
    inv (fake_base f') \<and>
    view (fake_base f') = view (fake_base f) ++ map_of (rev (filter (\<lambda>(k, b). hash_matches H k b) kbs)) \<and>
    fake_blocks f' = fake_blocks f ++ map_of (rev (filter (\<lambda>(k, b). \<not> hash_matches H k b) kbs))"
proof (induction kbs arbitrary: f)
  case (Cons kb kbs)
  obtain k b where kb: "kb = (k, b)" by (cases kb)
  from Cons.prems(3) kb obtain f1 v where one: "fake_put_keyed H B k b f = (Returns (Inr v), f1)"
    and rest: "fake_put_many_keyed H B kbs f1 = (Returns (Inr u), f')"
    by (auto simp: try_io_def ret_def elim!: bind_io_cases split: sum.splits)
  have fits: "fits (k, b)" "list_all fits kbs" using Cons.prems(2) kb by simp_all
  from fake_put_keyed_ok [OF Cons.prems(1) fits(1) one] Cons.IH [OF _ fits(2) rest] kb
  show ?case by (auto split: if_splits)
qed (simp add: ret_def)

text \<open>What is read after \<open>finish\<close>: the blocks in memory first, then the base.\<close>

lemma finish_view:
  assumes "inv (fake_base f)" and "list_all fits kbs"
    and "fake_put_many_keyed H B kbs f = (Returns (Inr u), f')"
    and "overlay_get B k (finish f') = (Returns (Inr r), o')"
  shows "r = (view (fake_base f) ++ map_of (rev (filter (\<lambda>(k, b). hash_matches H k b) kbs))
    ++ (fake_blocks f ++ map_of (rev (filter (\<lambda>(k, b). \<not> hash_matches H k b) kbs)))) k"
  using fake_put_many_keyed_ok [OF assms(1-3)] overlay.get_ok [of "finish f'" k r o'] assms(4)
  by simp

end

section \<open>The bridge to Go implements the contract\<close>

text \<open>What a client's store promises, over an abstraction \<open>\<alpha>\<close> of its state: reads report the
  blocks it has and change nothing; a put that succeeds stores its blocks.\<close>

definition go_store_ok :: "('s, 'ga) externs \<Rightarrow> ('s \<Rightarrow> bytes \<rightharpoonup> bytes) \<Rightarrow> bool" where
  "go_store_ok e \<alpha> \<longleftrightarrow>
     (\<forall>k s. \<alpha> (snd (View e k s)) = \<alpha> s \<and> \<alpha> (snd (Has e k s)) = \<alpha> s) \<and>
     (\<forall>k s d err. fst (View e k s) = Returns (d, err) \<longrightarrow>
        (err = NilErr \<longrightarrow> d = \<alpha> s k) \<and> (err = BlockstoreErrNotFound \<longrightarrow> \<alpha> s k = None)) \<and>
     (\<forall>k s b err. fst (Has e k s) = Returns (b, err) \<longrightarrow>
        (err = NilErr \<longrightarrow> b = (\<alpha> s k \<noteq> None)) \<and> (err = BlockstoreErrNotFound \<longrightarrow> \<alpha> s k = None)) \<and>
     (\<forall>k d s. fst (Put e (k, d) s) = Returns NilErr \<longrightarrow> \<alpha> (snd (Put e (k, d) s)) = (\<alpha> s)(k \<mapsto> d)) \<and>
     (\<forall>kds s. fst (PutMany e kds s) = Returns NilErr \<longrightarrow>
        \<alpha> (snd (PutMany e kds s)) = \<alpha> s ++ map_of (rev kds))"

definition cgo_inv ::
    "('cid, 'code, 'blk, ('s, 'ga) go_state) cid_lib \<Rightarrow> 'ga go_lib \<Rightarrow> u64 \<Rightarrow> ('s, 'ga) externs
      \<Rightarrow> ('s \<Rightarrow> bytes \<rightharpoonup> bytes) \<Rightarrow> ('s, 'ga) go_state \<Rightarrow> bool" where
  "cgo_inv C G h e \<alpha> g \<longleftrightarrow>
     Lookup h g = Some e \<and> cid_codec C G \<and> inj (cid_to_bytes C) \<and> go_store_ok e \<alpha>"

definition cgo_view ::
    "('cid, 'code, 'blk, ('s, 'ga) go_state) cid_lib \<Rightarrow> ('s \<Rightarrow> bytes \<rightharpoonup> bytes)
      \<Rightarrow> ('s, 'ga) go_state \<Rightarrow> 'cid \<rightharpoonup> bytes" where
  "cgo_view C \<alpha> g k = \<alpha> (store g) (cid_to_bytes C k)"

lemma map_of_map_inj: "inj f \<Longrightarrow> map_of (map (\<lambda>kb. (f (fst kb), snd kb)) kbs) (f k) = map_of kbs k"
  by (induction kbs) (auto dest: injD)

lemma cgo_view_puts:
  assumes "cgo_inv C G h e \<alpha> g" and "\<alpha> s = \<alpha> (store g) ++ map_of (rev (map (go_block C) kbs))"
  shows "cgo_view C \<alpha> (g\<lparr>store := s\<rparr>) = cgo_view C \<alpha> g ++ map_of (rev kbs)"
  using assms map_of_map_inj [of "cid_to_bytes C" "rev kbs"]
  by (simp add: fun_eq_iff cgo_view_def cgo_inv_def map_add_def rev_map split: option.splits)

lemma cgo_inv_store [simp]: "cgo_inv C G h e \<alpha> (g\<lparr>store := s\<rparr>) = cgo_inv C G h e \<alpha> g"
  by (simp add: cgo_inv_def)

lemma put_batch_ok:
  assumes "cgo_inv C G h e \<alpha> g" and "put_batch C e kbs g = (Returns (Inr u), g')"
  shows "cgo_inv C G h e \<alpha> g' \<and> cgo_view C \<alpha> g' = cgo_view C \<alpha> g ++ map_of (rev kbs)"
proof -
  let ?p = "PutMany e (map (go_block C) kbs) (store g)"
  have r: "fst ?p = Returns NilErr" and g': "g' = g\<lparr>store := snd ?p\<rparr>"
    using assms(2) by (auto simp: put_batch_def split: prod.splits exec.splits if_splits)
  from r assms(1) have "\<alpha> (snd ?p) = \<alpha> (store g) ++ map_of (rev (map (go_block C) kbs))"
    by (simp add: cgo_inv_def go_store_ok_def)
  from cgo_view_puts [OF assms(1) this] assms(1) g' show ?thesis by simp
qed

lemma run_batches_ok:
  "cgo_inv C G h e \<alpha> g \<Longrightarrow> run_batches C e bs g = (Returns (Inr u), g') \<Longrightarrow>
    cgo_inv C G h e \<alpha> g' \<and> cgo_view C \<alpha> g' = cgo_view C \<alpha> g ++ map_of (rev (concat bs))"
proof (induction bs arbitrary: g)
  case (Cons b bs)
  from Cons.prems(2) obtain g1 v where b: "put_batch C e b g = (Returns (Inr v), g1)"
    and bs: "run_batches C e bs g1 = (Returns (Inr u), g')"
    by (auto simp: try_io_def ret_def elim!: bind_io_cases split: sum.splits)
  from put_batch_ok [OF Cons.prems(1) b] Cons.IH [OF _ bs] show ?case by simp
qed (simp add: ret_def)

lemma cgo_get_state:
  assumes "cgo_inv C G h e \<alpha> g" and "bs_get (CgoBlockstore C G h) k g = (x, g')"
  shows "g' = g\<lparr>store := snd (View e (cid_to_bytes C k) (store g))\<rparr>"
    and "x = Returns (Inr r) \<Longrightarrow> \<exists>err. fst (View e (cid_to_bytes C k) (store g)) = Returns (r, NilErr) \<or>
          r = None \<and> fst (View e (cid_to_bytes C k) (store g)) = Returns (err, BlockstoreErrNotFound)"
  using assms get_run [of h g e C k]
  by (auto simp: CgoBlockstore_def cgo_inv_def cid_codec_def call_store_def bind_io_def from_exec_def
        from_raw_parts_def ret_def split: prod.splits exec.splits go_err.splits option.splits if_splits)

lemma cgo_has_state:
  assumes "cgo_inv C G h e \<alpha> g" and "bs_has (CgoBlockstore C G h) k g = (x, g')"
  shows "g' = g\<lparr>store := snd (Has e (cid_to_bytes C k) (store g))\<rparr>"
    and "x = Returns (Inr b) \<Longrightarrow> \<exists>b'. fst (Has e (cid_to_bytes C k) (store g)) = Returns (b, NilErr) \<or>
          \<not> b \<and> fst (Has e (cid_to_bytes C k) (store g)) = Returns (b', BlockstoreErrNotFound)"
  using assms has_run [of h g e C k]
  by (auto simp: CgoBlockstore_def cgo_inv_def cid_codec_def call_store_def ret_def
        split: prod.splits exec.splits go_err.splits)

lemma cgo_view_store: "\<alpha> s = \<alpha> (store g) \<Longrightarrow> cgo_view C \<alpha> (g\<lparr>store := s\<rparr>) = cgo_view C \<alpha> g"
  by (simp add: fun_eq_iff cgo_view_def)

interpretation cgo: Blockstore_write "CgoBlockstore C G h" "cgo_inv C G h e \<alpha>" "cgo_view C \<alpha>" "small_block C"
  for C G h e \<alpha>
proof unfold_locales
  fix s k r s'
  assume i: "cgo_inv C G h e \<alpha> s" and g: "bs_get (CgoBlockstore C G h) k s = (Returns (Inr r), s')"
  from cgo_get_state(2) [OF i g refl] i show "r = cgo_view C \<alpha> s k"
    by (auto simp: cgo_inv_def go_store_ok_def cgo_view_def)
next
  fix s k x s'
  assume i: "cgo_inv C G h e \<alpha> s" and "bs_get (CgoBlockstore C G h) k s = (x, s')"
  from cgo_get_state(1) [OF this] i show "cgo_inv C G h e \<alpha> s' \<and> cgo_view C \<alpha> s' = cgo_view C \<alpha> s"
    by (simp add: cgo_view_store cgo_inv_def go_store_ok_def)
next
  fix s k b s'
  assume i: "cgo_inv C G h e \<alpha> s" and g: "bs_has (CgoBlockstore C G h) k s = (Returns (Inr b), s')"
  let ?k = "cid_to_bytes C k" and ?h = "fst (Has e (cid_to_bytes C k) (store s))"
  from i have "go_store_ok e \<alpha>" by (simp add: cgo_inv_def)
  then have nil: "?h = Returns (b', NilErr) \<Longrightarrow> b' = (\<alpha> (store s) ?k \<noteq> None)"
    and missing: "?h = Returns (b', BlockstoreErrNotFound) \<Longrightarrow> \<alpha> (store s) ?k = None" for b'
    unfolding go_store_ok_def by blast+
  from cgo_has_state(2) [OF i g refl] show "b = (cgo_view C \<alpha> s k \<noteq> None)"
    unfolding cgo_view_def using nil [of b] missing by metis
next
  fix s k y s'
  assume i: "cgo_inv C G h e \<alpha> s" and "bs_has (CgoBlockstore C G h) k s = (y, s')"
  from cgo_has_state(1) [OF this] i show "cgo_inv C G h e \<alpha> s' \<and> cgo_view C \<alpha> s' = cgo_view C \<alpha> s"
    by (simp add: cgo_view_store cgo_inv_def go_store_ok_def)
next
  fix s k b u s'
  assume i: "cgo_inv C G h e \<alpha> s" and small: "small_block C (k, b)"
    and p: "bs_put_keyed (CgoBlockstore C G h) k b s = (Returns (Inr u), s')"
  have len: "length b < 2 ^ 31" "length (cid_to_bytes C k) < 2 ^ 31"
    using small by (simp_all add: small_block_def)
  let ?p = "Put e (cid_to_bytes C k, b) (store s)"
  have r: "fst ?p = Returns NilErr" and s': "s' = s\<lparr>store := snd ?p\<rparr>"
    using p i put_keyed_run [OF _ len(2,1), of h s e]
    by (auto simp: CgoBlockstore_def cgo_inv_def call_store_def ret_def
             split: prod.splits exec.splits if_splits)
  have "\<alpha> (snd ?p) = \<alpha> (store s) ++ map_of (rev (map (go_block C) [(k, b)]))"
    using r i by (simp add: cgo_inv_def go_store_ok_def)
  from cgo_view_puts [OF i this] i s'
  show "cgo_inv C G h e \<alpha> s' \<and> cgo_view C \<alpha> s' = (cgo_view C \<alpha> s)(k \<mapsto> b)" by simp
next
  fix s kbs u s'
  assume i: "cgo_inv C G h e \<alpha> s" and small: "list_all (small_block C) kbs"
    and p: "bs_put_many_keyed (CgoBlockstore C G h) kbs s = (Returns (Inr u), s')"
  have "run_batches C e (batches C [] kbs) s = (Returns (Inr u), s')"
    using p put_many_keyed_batches [of C G h s e, OF _ _ small] i
    by (simp add: CgoBlockstore_def cgo_inv_def)
  from run_batches_ok [OF i this]
  show "cgo_inv C G h e \<alpha> s' \<and> cgo_view C \<alpha> s' = cgo_view C \<alpha> s ++ map_of (rev kbs)"
    by (simp add: concat_batches)
qed

interpretation cgo_mem: Fake_write "CgoBlockstore C G h" "cgo_inv C G h e \<alpha>" "cgo_view C \<alpha>" H "small_block C"
  for C G h e \<alpha> H
  by unfold_locales

section \<open>Properties\<close>

lemma mem_store_ok: "go_store_ok mem_externs id"
  by (simp add: go_store_ok_def mem_externs_def split: option.splits)

lemma mem_go_inv: "cgo_inv byte_cids byte_go 3 mem_externs id mem_go"
  using mem_go_Lookup byte_codec mem_store_ok by (simp add: cgo_inv_def inj_def byte_cids_def)

text \<open>C1: over a client store that keeps its contract, a block written with \<open>put_many_keyed\<close> is
  read back by \<open>get\<close>, whatever batches it went through: the last block given for a key wins,
  and the other keys read as before.\<close>
theorem cgo_get_after_put_many:
  assumes "cgo_inv C G h e \<alpha> g" and "list_all (small_block C) kbs"
    and "put_many_keyed C G h kbs g = (Returns (Inr u), g1)"
    and "get C h k g1 = (Returns (Inr r), g2)"
  shows "r = (case map_of (rev kbs) k of Some b \<Rightarrow> Some b | None \<Rightarrow> cgo_view C \<alpha> g k)"
  using cgo.get_after_put_many [OF assms(1,2)] assms(3,4) by (auto simp: CgoBlockstore_def)

theorem cgo_get_after_put_many_witness:
  "\<exists>g1 g2 r. put_many_keyed byte_cids byte_go 3 [(1, [10]), (1, [11])] mem_go = (Returns (Inr ()), g1) \<and>
     get byte_cids 3 1 g1 = (Returns (Inr r), g2) \<and>
     r = (case map_of (rev [(1, [10]), (1, [11])]) (1::u8) of Some b \<Rightarrow> Some b
          | None \<Rightarrow> cgo_view byte_cids id mem_go 1)"
proof -
  let ?kbs = "[(1, [10]), (1, [11])] :: (u8 \<times> bytes) list"
  let ?g = "mem_go\<lparr>store := [[1] \<mapsto> [11]]\<rparr>"
  have small: "list_all (small_block byte_cids) ?kbs"
    by (simp add: small_block_def byte_cids_def)
  have put: "put_many_keyed byte_cids byte_go 3 ?kbs mem_go = (Returns (Inr ()), ?g)"
    using put_many_keyed_batches [OF byte_codec mem_go_Lookup small]
    by (simp add: byte_cids_def cgo_limits put_batch_def mem_externs_def try_io_def bind_io_def ret_def
          mem_go_def fun_eq_iff)
  have get: "get byte_cids 3 1 ?g = (Returns (Inr (Some [11])), ?g)"
    using get_run [of 3 ?g mem_externs byte_cids 1]
    by (simp add: mem_go_Lookup call_store_def)
       (simp add: mem_externs_def byte_cids_def bind_io_def from_exec_def from_raw_parts_def ret_def)
  from put get cgo_get_after_put_many [OF mem_go_inv small put get] show ?thesis by blast
qed

text \<open>The overlay over the Go store answers \<open>has\<close> and \<open>get\<close> alike, whether a key is in the
  overlay or in the base.\<close>
lemma overlay_has_agrees_with_get:
  assumes "cgo_inv C G h e \<alpha> (over_base o')"
    and "overlay_has (CgoBlockstore C G h) k o' = (Returns (Inr b), o1)"
    and "overlay_get (CgoBlockstore C G h) k o1 = (Returns (Inr r), o2)"
  shows "b = (r \<noteq> None)"
  using cgo_mem.overlay.has_then_get [OF assms(1)] assms(2,3) by auto

text \<open>C11: the fake store over Go. After a successful run of puts the Go store has exactly the blocks
  whose digest matches their CID, in their order, the other blocks are in memory only, and
  once \<open>finish\<close> has turned the store into an overlay, \<open>get\<close> reads the blocks in memory
  first and then the base.\<close>
theorem fake_put_many_then_finish:
  assumes "cgo_inv C G h e \<alpha> (fake_base f)" and "list_all (small_block C) kbs"
    and "fake_put_many_keyed H (CgoBlockstore C G h) kbs f = (Returns (Inr u), f')"
    and "overlay_get (CgoBlockstore C G h) k (finish f') = (Returns (Inr r), o')"
  shows "cgo_view C \<alpha> (fake_base f') = cgo_view C \<alpha> (fake_base f) ++
      map_of (rev (filter (\<lambda>(k, b). hash_matches H k b) kbs)) \<and>
    r = (cgo_view C \<alpha> (fake_base f') ++
      (fake_blocks f ++ map_of (rev (filter (\<lambda>(k, b). \<not> hash_matches H k b) kbs)))) k"
  using cgo_mem.fake_put_many_keyed_ok [OF assms(1-3)] cgo_mem.finish_view [OF assms] by simp

text \<open>A digest that is the first byte of the block.\<close>

definition byte_hash :: "(u8, u8, unit) hash_lib" where
  "byte_hash = \<lparr>cid_hash = id, hash_code = (\<lambda>_. 0), code_try_from = (\<lambda>c. if c = 0 then Some () else None),
     code_digest = (\<lambda>_ b. case b of [] \<Rightarrow> 0 | x # _ \<Rightarrow> x)\<rparr>"

theorem fake_put_many_then_finish_witness:
  "\<exists>f' o' r. fake_put_many_keyed byte_hash (CgoBlockstore byte_cids byte_go 3) [(1, [1]), (2, [9])] (fake_new mem_go)
       = (Returns (Inr ()), f') \<and>
     overlay_get (CgoBlockstore byte_cids byte_go 3) 2 (finish f') = (Returns (Inr r), o') \<and>
     cgo_view byte_cids id (fake_base f') = [1 \<mapsto> [1]] \<and> r = Some [9]"
proof -
  let ?B = "CgoBlockstore byte_cids byte_go 3 ::
    (u8, unit, unit, (bytes \<rightharpoonup> bytes, u64) go_state) Blockstore"
  let ?f = "fake_new mem_go :: (u8, (bytes \<rightharpoonup> bytes, u64) go_state) FakeBlockstore"
  let ?f' = "\<lparr>fake_blocks = [2 \<mapsto> [9]], fake_base = mem_go\<lparr>store := [[1] \<mapsto> [1]]\<rparr>\<rparr>"
  have one: "put_keyed byte_cids 3 1 [1] mem_go = (Returns (Inr ()), mem_go\<lparr>store := [[1] \<mapsto> [1]]\<rparr>)"
    using put_keyed_run [OF mem_go_Lookup, of byte_cids 1 "[1]"]
    by (simp add: byte_cids_def call_store_def mem_externs_def mem_go_def ret_def)
  have put: "fake_put_many_keyed byte_hash ?B [(1, [1]), (2, [9])] ?f = (Returns (Inr ()), ?f')"
    by (simp add: fake_put_keyed_def hash_matches_def byte_hash_def lift_fake_def fake_new_def
          CgoBlockstore_def one try_io_def bind_io_def ret_def)
  have get: "overlay_get ?B 2 (finish ?f') = (Returns (Inr (Some [9])), finish ?f')"
    by (simp add: overlay_get_def)
  have inv: "cgo_inv byte_cids byte_go 3 mem_externs id (fake_base ?f)"
    by (simp add: fake_new_def mem_go_inv)
  have small: "list_all (small_block byte_cids) [(1, [1]), (2, [9])]"
    by (simp add: small_block_def byte_cids_def)
  have "cgo_view byte_cids id (fake_base ?f) = (\<lambda>_. None)"
    by (simp add: fake_new_def cgo_view_def mem_go_def fun_eq_iff)
  then have "cgo_view byte_cids id (fake_base ?f') = [1 \<mapsto> [1]]"
    using fake_put_many_then_finish [OF inv small put get] by (simp add: hash_matches_def byte_hash_def)
  with put get show ?thesis by blast
qed

end
