(* ===== verification/Externs.thy ===== *)
theory Externs
  imports Cgo_Blockstore
begin

text \<open>
  \<open>rust/src/fvm/externs.rs\<close>: \<open>CgoExterns\<close>, through which the FVM asks the client for chain
  and beacon randomness and for the verification of a consensus fault. Each method passes
  its arguments and output locations to a callback of \<open>Go_Side\<close> and reads the code that
  comes back. The properties give the result of each method on every outcome of the
  client's function.
\<close>

section \<open>Randomness\<close>

definition extern_not_registered :: "u64 \<Rightarrow> panic_payload" where
  "extern_not_registered handle = StringPayload (''extern '' @ show_nat (unat handle) @ '' not registered'')"

definition extern_failed :: "string \<Rightarrow> i32 \<Rightarrow> anyhow" where
  "extern_failed op e = AnyhowMsg (''cgo extern '' @ quoted op @ '' failed with error code '' @ show_int (sint e))"

text \<open>The match on the code of a callback: \<open>ok\<close> is the arm for 0. All three methods name \<open>has\<close>
  in the panic for a positive code.\<close>

definition extern_result :: "string \<Rightarrow> u64 \<Rightarrow> anyhow + 'a \<Rightarrow> i32 \<Rightarrow> ('g, anyhow + 'a) io" where
  "extern_result op handle ok x =
     (if x = 0 then ret ok
      else if 1 \<le> sint x then raise (invalid_return ''has'' x)
      else if x = FvmError_code InvalidHandle then raise (extern_not_registered handle)
      else ret (Inl (extern_failed op x)))"

text \<open>\<open>pers\<close> is the domain separation tag after its cast to \<open>i64\<close>.\<close>

definition get_chain_randomness ::
    "u64 \<Rightarrow> i64 \<Rightarrow> i64 \<Rightarrow> bytes \<Rightarrow> (('s, 'ga) go_state, anyhow + bytes) io" where
  "get_chain_randomness handle pers round entropy =
     (let buf = replicate 32 0
      in bind_io (cgo_extern_get_chain_randomness handle pers round entropy (len_i32 entropy) buf)
           (\<lambda>(x, buf). extern_result ''get_chain_randomness'' handle (Inr buf) x))"

definition get_beacon_randomness ::
    "u64 \<Rightarrow> i64 \<Rightarrow> i64 \<Rightarrow> bytes \<Rightarrow> (('s, 'ga) go_state, anyhow + bytes) io" where
  "get_beacon_randomness handle pers round entropy =
     (let buf = replicate 32 0
      in bind_io (cgo_extern_get_beacon_randomness handle pers round entropy (len_i32 entropy) buf)
           (\<lambda>(x, buf). extern_result ''get_beacon_randomness'' handle (Inr buf) x))"

section \<open>Consensus faults\<close>

text \<open>\<open>Address::new_id\<close> and \<open>FromPrimitive::from_i64\<close> of the fault type, of \<open>fvm_shared\<close>.\<close>

record ('addr, 'ft) fault_lib =
  fault_new_id :: "u64 \<Rightarrow> 'addr"
  fault_from_i64 :: "i64 \<Rightarrow> 'ft option"

record ('addr, 'ft) fvm_fault =
  fault_target :: 'addr
  fault_epoch :: i64
  fault_type :: 'ft

definition read_fault ::
    "('addr, 'ft) fault_lib \<Rightarrow> fault_out \<Rightarrow> anyhow + ('addr, 'ft) fvm_fault option \<times> i64" where
  "read_fault F out =
     (if faultOut out = 0 then Inr (None, gasUsedOut out)
      else (case fault_from_i64 F (faultOut out) of
              None \<Rightarrow> Inl (AnyhowMsg ''invalid fault type'')
            | Some t \<Rightarrow>
                Inr (Some \<lparr>fault_target = fault_new_id F (minerIdOut out), fault_epoch = epochOut out,
                  fault_type = t\<rparr>, gasUsedOut out)))"

definition verify_consensus_fault ::
    "('addr, 'ft) fault_lib \<Rightarrow> 'ga go_lib \<Rightarrow> u64 \<Rightarrow> bytes \<Rightarrow> bytes \<Rightarrow> bytes
      \<Rightarrow> (('s, 'ga) go_state, anyhow + ('addr, 'ft) fvm_fault option \<times> i64) io" where
  "verify_consensus_fault F G handle h1 h2 extra =
     (let out = \<lparr>minerIdOut = 0, epochOut = 0, faultOut = 0, gasUsedOut = 0\<rparr>
      in bind_io (cgo_extern_verify_consensus_fault G handle h1 (len_i32 h1) h2 (len_i32 h2)
             extra (len_i32 extra) out)
           (\<lambda>(x, out). extern_result ''verify_consensus_fault'' handle (read_fault F out) x))"

section \<open>The match on the code\<close>

lemma extern_result_codes [simp]:
  "extern_result op h ok 0 = ret ok"
  "extern_result op h ok (FvmError_code Io) = ret (Inl (extern_failed op (FvmError_code Io)))"
  "extern_result op h ok (FvmError_code Panic) = ret (Inl (extern_failed op (FvmError_code Panic)))"
  "extern_result op h ok (FvmError_code InvalidHandle) = raise (extern_not_registered h)"
  by (simp_all add: extern_result_def)

lemma FvmError_code_values: "FvmError_code Panic = - 5" "FvmError_code Io = - 3"
  by simp_all

text \<open>What the client's randomness becomes in the 32 bytes of the caller.\<close>

definition fit32 :: "bytes \<Rightarrow> bytes" where
  "fit32 r = take 32 r @ replicate (32 - length r) 0"

lemma copy_randomness_zero: "copy_randomness (replicate 32 0) r = fit32 r"
  by (simp add: copy_randomness_def fit32_def)

lemma length_fit32 [simp]: "length (fit32 r) = 32"
  by (simp add: fit32_def)

lemma fit32_exact: "length r = 32 \<Longrightarrow> fit32 r = r"
  by (simp add: fit32_def)

text \<open>The two randomness callbacks, for a client function that returned, failed or panicked.\<close>

definition randomness_run ::
    "string \<Rightarrow> ('s, bytes \<times> go_err) io \<Rightarrow> (('s, 'ga) go_state, anyhow + bytes) io" where
  "randomness_run op m =
     call_store m
       (\<lambda>(r, err). ret (if err = NilErr then Inr (fit32 r) else Inl (extern_failed op (- 3))))
       (Inl (extern_failed op (- 5)))"

lemmas randomness_simps = call_store_def go_recover_def lift_store_def bind_io_def ret_def Let_def
  copy_randomness_zero randomness_run_def FvmError_code_values [symmetric]

lemma get_chain_randomness_run:
  assumes "Lookup h g = Some e" and "length entropy < 2 ^ 31"
  shows "get_chain_randomness h pers round entropy g =
    randomness_run ''get_chain_randomness'' (GetChainRandomness e pers round entropy) g"
proof (cases "GetChainRandomness e pers round entropy (store g)")
  case (Pair x s)
  with assms show ?thesis
    by (cases x) (auto simp: get_chain_randomness_def cgo_extern_get_chain_randomness_def
      with_externs_run(1) [OF assms(1)] randomness_simps simp del: FvmError_code.simps)
qed

lemma get_beacon_randomness_run:
  assumes "Lookup h g = Some e" and "length entropy < 2 ^ 31"
  shows "get_beacon_randomness h pers round entropy g =
    randomness_run ''get_beacon_randomness'' (GetBeaconRandomness e pers round entropy) g"
proof (cases "GetBeaconRandomness e pers round entropy (store g)")
  case (Pair x s)
  with assms show ?thesis
    by (cases x) (auto simp: get_beacon_randomness_def cgo_extern_get_beacon_randomness_def
      with_externs_run(1) [OF assms(1)] randomness_simps simp del: FvmError_code.simps)
qed

section \<open>Properties\<close>

text \<open>A request for chain or beacon randomness is one call of the client's function with the
  same arguments. What it returns comes back as 32 bytes, unchanged when it has 32 bytes;
  its error is the code -3 and its panic the code -5, both as error values.\<close>
lemma randomness_from_client:
  assumes "Lookup h g = Some e" and "length entropy < 2 ^ 31"
  shows "get_chain_randomness h pers round entropy g =
      randomness_run ''get_chain_randomness'' (GetChainRandomness e pers round entropy) g \<and>
    get_beacon_randomness h pers round entropy g =
      randomness_run ''get_beacon_randomness'' (GetBeaconRandomness e pers round entropy) g \<and>
    length (fit32 r) = 32 \<and> (length r = 32 \<longrightarrow> fit32 r = r)"
  using get_chain_randomness_run [OF assms] get_beacon_randomness_run [OF assms]
  by (simp add: fit32_exact)

text \<open>C31: the verification of a consensus fault, on every outcome of the client's function: no
  fault is \<open>None\<close>; a fault is returned with the miner's id, epoch, type and gas of the
  client; a target that has no id, a type that Rust does not know, a nil fault and a panic
  of the client are errors.\<close>
theorem consensus_fault_from_client:
  assumes "Lookup h g = Some e"
    and "length h1 < 2 ^ 31" and "length h2 < 2 ^ 31" and "length extra < 2 ^ 31"
  shows "verify_consensus_fault F G h h1 h2 extra g =
    call_store (VerifyConsensusFault e h1 h2 extra)
      (\<lambda>(f, gas). ret
         (case f of
            None \<Rightarrow> Inl (extern_failed ''verify_consensus_fault'' (- 5))
          | Some f \<Rightarrow>
              if Type f = 0 then Inr (None, gas)
              else (case (IDFromAddress G (Target f), fault_from_i64 F (Type f)) of
                      (None, _) \<Rightarrow> Inl (extern_failed ''verify_consensus_fault'' (- 3))
                    | (Some i, None) \<Rightarrow> Inl (AnyhowMsg ''invalid fault type'')
                    | (Some i, Some t) \<Rightarrow>
                        Inr (Some \<lparr>fault_target = fault_new_id F i, fault_epoch = Epoch f, fault_type = t\<rparr>, gas))))
      (Inl (extern_failed ''verify_consensus_fault'' (- 5))) g"
proof (cases "VerifyConsensusFault e h1 h2 extra (store g)")
  case (Pair x s)
  show ?thesis
    unfolding FvmError_code_values [symmetric] using assms Pair
    by (cases x)
       (auto simp: verify_consensus_fault_def cgo_extern_verify_consensus_fault_def call_store_def
          go_recover_def with_externs_run lift_store_def bind_io_def ret_def raise_def Let_def
          read_fault_def ConsensusFaultNone_def simp del: FvmError_code.simps
          split: option.splits)
qed

text \<open>A fault library with one type.\<close>

definition id_faults :: "(u64, i64) fault_lib" where
  "id_faults = \<lparr>fault_new_id = id, fault_from_i64 = (\<lambda>t. if t = 1 then Some t else None)\<rparr>"

theorem consensus_fault_from_client_witness:
  "verify_consensus_fault id_faults byte_go 3 [1] [2] [] mem_go =
     (Returns (Inr (Some \<lparr>fault_target = 1000, fault_epoch = 5, fault_type = 1\<rparr>, 77)), mem_go)"
  using consensus_fault_from_client [OF mem_go_Lookup, of "[1]" "[2]" "[]" id_faults byte_go]
  by (simp add: call_store_def ret_def mem_go_def)
     (simp add: mem_externs_def ret_def byte_go_def id_faults_def)

end
