(* ===== verification/Fvm_Machine.thy ===== *)
theory Fvm_Machine
  imports Lotus_Trace Blockstores Externs
begin

text \<open>
  \<open>rust/src/fvm/machine.rs\<close> and \<open>types.rs\<close>: an FVM machine is created over the client's
  blockstore and externs, sits behind a mutex, executes messages and is flushed. Token
  amounts cross the boundary as two halves of 128 bits; the Go half of that
  (\<open>splitBigInt\<close>, \<open>reformBigInt\<close> and the callers of \<open>fvm.go\<close>) is here too. The machine's
  life is a step relation; a panic while the mutex is held poisons it for good. The FVM
  crates are the record \<open>fvm_lib\<close>.
\<close>

section \<open>Data\<close>

datatype FvmRegisteredVersion = V1

text \<open>The network versions that the code names, and any other that \<open>fvm_shared\<close> has.\<close>

datatype NetworkVersion = V14 | V15 | V16 | OtherVersion u32

datatype ApplyKind = Explicit | Implicit

record 'e Mutex =
  poisoned :: bool
  guarded_value :: 'e

record 'e InnerFvmMachine =
  machine :: "'e Mutex option"

record FvmMachineExecuteResponse =
  resp_exit_code :: u64
  resp_return_val :: "bytes option"
  resp_gas_used :: u64
  penalty_hi :: u64
  penalty_lo :: u64
  miner_tip_hi :: u64
  miner_tip_lo :: u64
  resp_exec_trace :: "bytes option"
  resp_failure_info :: "string option"

definition FvmMachineExecuteResponse_default :: FvmMachineExecuteResponse where
  "FvmMachineExecuteResponse_default =
     \<lparr>resp_exit_code = 0, resp_return_val = None, resp_gas_used = 0, penalty_hi = 0, penalty_lo = 0,
      miner_tip_hi = 0, miner_tip_lo = 0, resp_exec_trace = None, resp_failure_info = None\<rparr>"

text \<open>What \<open>execute_message\<close> of the executor returns, with the failure information displayed.\<close>

record 'addr ApplyRet =
  ret_receipt :: Receipt
  ret_penalty :: int
  ret_miner_tip :: int
  ret_failure_info :: "string option"
  ret_exec_trace :: "'addr ExecutionEvent list"

text \<open>The crates \<open>cid\<close>, \<open>fvm\<close>, \<open>fvm_shared\<close>, \<open>fvm_ipld_encoding\<close>, \<open>fvm_ipld_car\<close> and the actor
  bundles, as the code calls them. \<open>'g\<close> is the state behind the Go bridge, \<open>'m\<close> the
  executor with the store and the externs it was built over.\<close>

record ('cid, 'code, 'blk, 'g, 'cfg, 'ctx, 'm, 'msg, 'addr) fvm_lib =
  network_version_try_from :: "u32 \<Rightarrow> NetworkVersion option"
  cid_try_from :: "bytes \<Rightarrow> string + 'cid"
  network_config_new :: "NetworkVersion \<Rightarrow> 'cfg"
  override_actors :: "'cid \<Rightarrow> 'cfg \<Rightarrow> 'cfg"
  for_epoch :: "i64 \<Rightarrow> 'cid \<Rightarrow> 'cfg \<Rightarrow> 'ctx"
  set_base_fee :: "nat \<Rightarrow> 'ctx \<Rightarrow> 'ctx"
  set_circulating_supply :: "nat \<Rightarrow> 'ctx \<Rightarrow> 'ctx"
  enable_tracing :: "'ctx \<Rightarrow> 'ctx"
  actors_v6_BUNDLE_CAR :: bytes
  actors_v7_BUNDLE_CAR :: bytes
  load_car :: "('cid, 'code, 'blk, ('cid, 'g) FakeBlockstore) Blockstore \<Rightarrow> bytes
    \<Rightarrow> (('cid, 'g) FakeBlockstore, anyhow + 'cid list) io"
  machine_new :: "'ctx \<Rightarrow> ('cid, 'code, 'blk, ('cid, 'g) OverlayBlockstore) Blockstore \<Rightarrow> u64
    \<Rightarrow> (('cid, 'g) OverlayBlockstore, anyhow + 'm) io"
  msg_from_slice :: "bytes \<Rightarrow> anyhow + 'msg"
  execute_message :: "'msg \<Rightarrow> ApplyKind \<Rightarrow> u64 \<Rightarrow> ('g \<times> 'm, anyhow + 'addr ApplyRet) io"
  flush_machine :: "('g \<times> 'm, anyhow + 'cid) io"
  flush_cid_to_bytes :: "'cid \<Rightarrow> bytes"
  to_vec :: "'addr LotusTrace \<Rightarrow> bytes option"

text \<open>A logger that has its own part of the library state.\<close>

definition lift_fst :: "('l, 'a) io \<Rightarrow> ('l \<times> 'r, 'a) io" where
  "lift_fst m = (\<lambda>(l, r). case m l of (x, l') \<Rightarrow> (x, (l', r)))"

definition lift_snd :: "('r, 'a) io \<Rightarrow> ('l \<times> 'r, 'a) io" where
  "lift_snd m = (\<lambda>(l, r). case m r of (x, r') \<Rightarrow> (x, (l, r')))"

definition own_logger :: "'l logger \<Rightarrow> ('l \<times> 'r) logger" where
  "own_logger L =
     \<lparr>fil_logger_init = lift_fst (fil_logger_init L),
      fil_logger_init_with_file = (\<lambda>fd. lift_fst (fil_logger_init_with_file L fd)),
      log_info = (\<lambda>m. lift_fst (log_info L m))\<rparr>"

section \<open>Creating a machine\<close>

text \<open>\<open>((hi as u128) << u64::BITS) | lo as u128\<close>\<close>

definition u128_of_halves :: "u64 \<Rightarrow> u64 \<Rightarrow> u128" where
  "u128_of_halves hi lo = or (push_bit 64 (ucast hi)) (ucast lo)"

definition load_bundle ::
    "('cid, 'code, 'blk, 'g, 'cfg, 'ctx, 'm, 'msg, 'addr) fvm_lib
      \<Rightarrow> ('cid, 'code, 'blk, ('cid, 'g) FakeBlockstore) Blockstore \<Rightarrow> bytes
      \<Rightarrow> (('cid, 'g) FakeBlockstore, string + 'cid option) io" where
  "load_bundle V B car =
     bind_io (load_car V B car) (\<lambda>r.
       case r of
         Inl _ \<Rightarrow> raise unwrap_failed
       | Inr roots \<Rightarrow>
           if length roots \<noteq> 1 then raise (StringPayload ''assertion failed: `(left == right)`'')
           else ret (Inr (Some (roots ! 0))))"

definition import_actors ::
    "('cid, 'code, 'blk, 'g, 'cfg, 'ctx, 'm, 'msg, 'addr) fvm_lib
      \<Rightarrow> ('cid, 'code, 'blk, ('cid, 'g) FakeBlockstore) Blockstore \<Rightarrow> 'cid option \<Rightarrow> NetworkVersion
      \<Rightarrow> (('cid, 'g) FakeBlockstore, string + 'cid option) io" where
  "import_actors V blockstore manifest_cid network_version =
     (if manifest_cid \<noteq> None then ret (Inr manifest_cid)
      else case network_version of
             V14 \<Rightarrow> load_bundle V blockstore (actors_v6_BUNDLE_CAR V)
           | V15 \<Rightarrow> load_bundle V blockstore (actors_v7_BUNDLE_CAR V)
           | V16 \<Rightarrow> ret (Inr None)
           | OtherVersion _ \<Rightarrow> ret (Inl ''unsupported network version''))"

text \<open>A store that wraps the state behind the bridge while it is in use: \<open>wrap\<close> builds it and
  \<open>base\<close> gives the state back.\<close>

definition on_store :: "('g \<Rightarrow> 't) \<Rightarrow> ('t \<Rightarrow> 'g) \<Rightarrow> ('t, 'a) io \<Rightarrow> ('g, 'a \<times> 't) io" where
  "on_store wrap base m g =
     (case m (wrap g) of
        (Returns a, t) \<Rightarrow> (Returns (a, t), base t)
      | (Panics p, t) \<Rightarrow> (Panics p, base t)
      | (Undefined, t) \<Rightarrow> (Undefined, base t))"

definition map_err :: "string \<Rightarrow> string + 'a \<Rightarrow> anyhow + 'a" where
  "map_err prefix r = (case r of Inl e \<Rightarrow> Inl (AnyhowMsg (prefix @ e)) | Inr a \<Rightarrow> Inr a)"

definition read_manifest ::
    "('cid, 'code, 'blk, 'g, 'cfg, 'ctx, 'm, 'msg, 'addr) fvm_lib \<Rightarrow> bytes \<Rightarrow> anyhow + 'cid option" where
  "read_manifest V manifest_cid =
     (if manifest_cid \<noteq> []
      then (case map_err ''invalid manifest: '' (cid_try_from V manifest_cid) of
              Inl e \<Rightarrow> Inl e
            | Inr c \<Rightarrow> Inr (Some c))
      else Inr None)"

definition machine_context ::
    "('cid, 'code, 'blk, 'g, 'cfg, 'ctx, 'm, 'msg, 'addr) fvm_lib \<Rightarrow> NetworkVersion \<Rightarrow> 'cid option
      \<Rightarrow> i64 \<Rightarrow> 'cid \<Rightarrow> u128 \<Rightarrow> u128 \<Rightarrow> bool \<Rightarrow> 'ctx" where
  "machine_context V network_version manifest chain_epoch state_root base_fee base_circ_supply tracing =
     (let config = network_config_new V network_version;
          network_config = (case manifest of Some c \<Rightarrow> override_actors V c config | None \<Rightarrow> config);
          ctx = for_epoch V chain_epoch state_root network_config;
          ctx = set_circulating_supply V (unat base_circ_supply) (set_base_fee V (unat base_fee) ctx)
      in if tracing then enable_tracing V ctx else ctx)"

definition new_inner_machine :: "'m \<Rightarrow> 'm InnerFvmMachine" where
  "new_inner_machine m = \<lparr>machine = Some \<lparr>poisoned = False, guarded_value = m\<rparr>\<rparr>"

definition build_machine ::
    "('cid, 'code, 'blk, ('s, 'ga) go_state, 'cfg, 'ctx, 'm, 'msg, 'addr) fvm_lib
      \<Rightarrow> ('cid, 'code, 'blk, ('s, 'ga) go_state) cid_lib \<Rightarrow> 'ga go_lib \<Rightarrow> ('cid, 'mh, 'code) hash_lib
      \<Rightarrow> NetworkVersion \<Rightarrow> 'cid option \<Rightarrow> ('cid option \<Rightarrow> 'ctx) \<Rightarrow> u64 \<Rightarrow> u64
      \<Rightarrow> (('s, 'ga) go_state, anyhow + 'm InnerFvmMachine option) io" where
  "build_machine V C G H network_version manifest_cid context_of blockstore_id externs_id =
     bind_io (on_store fake_new fake_base
         (import_actors V (Fake H (CgoBlockstore C G blockstore_id)) manifest_cid network_version))
       (\<lambda>(r, blockstore).
        try_val (map_err ''couldn't load builtin actors: '' r) (\<lambda>manifest.
        bind_io (on_store (\<lambda>_. finish blockstore) over_base
            (machine_new V (context_of manifest) (Overlay (CgoBlockstore C G blockstore_id)) externs_id))
          (\<lambda>(r, _).
           case r of
             Inl err \<Rightarrow> ret (Inl (AnyhowMsg (''failed to create machine: '' @ anyhow_to_string err)))
           | Inr m \<Rightarrow> ret (Inr (Some (new_inner_machine m))))))"

definition create_fvm_machine ::
    "'l logger \<Rightarrow> ('cid, 'code, 'blk, ('s, 'ga) go_state, 'cfg, 'ctx, 'm, 'msg, 'addr) fvm_lib
      \<Rightarrow> ('cid, 'code, 'blk, ('s, 'ga) go_state) cid_lib \<Rightarrow> 'ga go_lib \<Rightarrow> ('cid, 'mh, 'code) hash_lib
      \<Rightarrow> FvmRegisteredVersion \<Rightarrow> u64 \<Rightarrow> u64 \<Rightarrow> u64 \<Rightarrow> u64 \<Rightarrow> u64 \<Rightarrow> u64 \<Rightarrow> bytes \<Rightarrow> bytes \<Rightarrow> bool \<Rightarrow> u64 \<Rightarrow> u64
      \<Rightarrow> (('l \<times> ('s, 'ga) go_state) world, 'm InnerFvmMachine option Result) io" where
  "create_fvm_machine L V C G H fvm_version chain_epoch base_fee_hi base_fee_lo base_circ_supply_hi
     base_circ_supply_lo network_version state_root manifest_cid tracing blockstore_id externs_id =
     catch_panic_response_no_default (own_logger L) None ''create_fvm_machine''
       (bind_io (case fvm_version of V1 \<Rightarrow> info (own_logger L) ''using FVM V1'') (\<lambda>_.
        let base_circ_supply = u128_of_halves base_circ_supply_hi base_circ_supply_lo;
            base_fee = u128_of_halves base_fee_hi base_fee_lo
        in
        try_val (case network_version_try_from V (ucast network_version) of
                   None \<Rightarrow> Inl (AnyhowMsg (''unsupported network version: '' @ show_nat (unat network_version)))
                 | Some v \<Rightarrow> Inr v) (\<lambda>nv.
        try_val (map_err ''invalid state root: '' (cid_try_from V state_root)) (\<lambda>root.
        try_val (read_manifest V manifest_cid) (\<lambda>manifest.
        lift_ext (lift_snd (build_machine V C G H nv manifest
          (\<lambda>actors. machine_context V nv actors chain_epoch root base_fee base_circ_supply tracing)
          blockstore_id externs_id)))))))"

section \<open>Using a machine\<close>

text \<open>\<open>machine.as_ref().expect(..).lock().unwrap()\<close> and the guard that lives to the end of the
  closure: a panic in between poisons the mutex.\<close>

definition with_lock :: "('g \<times> 'e, 'a) io \<Rightarrow> ('g \<times> 'e InnerFvmMachine, 'a) io" where
  "with_lock body = (\<lambda>(g, inner).
     case machine inner of
       None \<Rightarrow> (Panics (StringPayload ''missing executor''), (g, inner))
     | Some mutex \<Rightarrow>
         if poisoned mutex then (Panics unwrap_failed, (g, inner))
         else (case body (g, guarded_value mutex) of
                 (x, (g', e')) \<Rightarrow>
                   (x, (g', inner\<lparr>machine := Some \<lparr>poisoned = (case x of Panics _ \<Rightarrow> True | _ \<Rightarrow> False),
                                                guarded_value = e'\<rparr>\<rparr>))))"

definition u128_try_from :: "int \<Rightarrow> u128 option" where
  "u128_try_from i = (if 0 \<le> i \<and> i < 2 ^ 128 then Some (word_of_int i) else None)"

definition unwrap_io :: "'a option \<Rightarrow> ('g, 'a) io" where
  "unwrap_io r = (case r of None \<Rightarrow> raise unwrap_failed | Some a \<Rightarrow> ret a)"

definition encode_trace ::
    "'addr fvm_consts \<Rightarrow> ('addr LotusTrace \<Rightarrow> bytes option) \<Rightarrow> 'addr ExecutionEvent list \<Rightarrow> bytes option" where
  "encode_trace X encode exec_trace =
     (case exec_trace of
        [] \<Rightarrow> None
      | ev # trace_iter \<Rightarrow>
          (case build_lotus_trace X ev trace_iter of
             Inl _ \<Rightarrow> None
           | Inr (t, _) \<Rightarrow> encode t))"

definition apply_response ::
    "'addr fvm_consts \<Rightarrow> ('addr LotusTrace \<Rightarrow> bytes option) \<Rightarrow> 'addr ApplyRet
      \<Rightarrow> ('g, anyhow + FvmMachineExecuteResponse) io" where
  "apply_response X encode apply_ret =
     (let exec_trace = encode_trace X encode (ret_exec_trace apply_ret);
          failure_info = ret_failure_info apply_ret
      in
      bind_io (unwrap_io (u128_try_from (ret_penalty apply_ret))) (\<lambda>penalty.
      bind_io (unwrap_io (u128_try_from (ret_miner_tip apply_ret))) (\<lambda>miner_tip.
      let receipt = ret_receipt apply_ret;
          return_val = (if return_data receipt = [] then None else Some (return_data receipt))
      in ret (Inr
        \<lparr>resp_exit_code = ucast (exit_code receipt), resp_return_val = return_val,
         resp_gas_used = gas_used receipt,
         penalty_hi = ucast (drop_bit 64 penalty), penalty_lo = ucast penalty,
         miner_tip_hi = ucast (drop_bit 64 miner_tip), miner_tip_lo = ucast miner_tip,
         resp_exec_trace = exec_trace, resp_failure_info = failure_info\<rparr>))))"

definition fvm_machine_execute_message ::
    "'l logger \<Rightarrow> ('cid, 'code, 'blk, 'g, 'cfg, 'ctx, 'm, 'msg, 'addr) fvm_lib \<Rightarrow> 'addr fvm_consts
      \<Rightarrow> bytes \<Rightarrow> u64 \<Rightarrow> u64
      \<Rightarrow> (('l \<times> 'g \<times> 'm InnerFvmMachine) world, FvmMachineExecuteResponse Result) io" where
  "fvm_machine_execute_message L V X message chain_len apply_kind =
     catch_panic_response (own_logger L) FvmMachineExecuteResponse_default ''fvm_machine_execute_message''
       (lift_ext (lift_snd
         (let kind = (if apply_kind = 0 then Explicit else Implicit)
          in try_val (msg_from_slice V message) (\<lambda>message.
             with_lock (try_io (execute_message V message kind chain_len)
               (apply_response X (to_vec V)))))))"

definition fvm_machine_flush ::
    "'l logger \<Rightarrow> ('cid, 'code, 'blk, 'g, 'cfg, 'ctx, 'm, 'msg, 'addr) fvm_lib
      \<Rightarrow> (('l \<times> 'g \<times> 'm InnerFvmMachine) world, bytes Result) io" where
  "fvm_machine_flush L V =
     catch_panic_response (own_logger L) [] ''fvm_machine_flush''
       (lift_ext (lift_snd
         (with_lock (try_io (flush_machine V) (\<lambda>cid. ret (Inr (flush_cid_to_bytes V cid)))))))"

section \<open>The Go callers\<close>

text \<open>\<open>big.Int.Bits()\<close>: the 64-bit words of the absolute value, low word first, none at the top
  that is zero; \<open>SetBits\<close> is its inverse.\<close>

function big_bits :: "nat \<Rightarrow> u64 list" where
  "big_bits n = (if n = 0 then [] else word_of_nat n # big_bits (n div 2 ^ 64))"
  by pat_completeness auto
termination
  by (relation "measure id") auto

declare big_bits.simps [simp del]

fun big_of_bits :: "u64 list \<Rightarrow> nat" where
  "big_of_bits [] = 0"
| "big_of_bits (w # ws) = unat w + 2 ^ 64 * big_of_bits ws"

definition splitBigInt :: "int \<Rightarrow> string + u64 \<times> u64" where
  "splitBigInt i =
     (if i < 0 then Inl (''negative number: '' @ show_int i)
      else case big_bits (nat \<bar>i\<bar>) of
             [] \<Rightarrow> Inr (0, 0)
           | [lo] \<Rightarrow> Inr (0, lo)
           | [lo, hi] \<Rightarrow> Inr (hi, lo)
           | _ \<Rightarrow> Inl (''exceeds max bigint size: '' @ show_int i))"

definition reformBigInt :: "u64 \<Rightarrow> u64 \<Rightarrow> int" where
  "reformBigInt hi lo =
     (if 0 < hi then int (big_of_bits [lo, hi])
      else if 0 < lo then int (big_of_bits [lo])
      else 0)"

definition CheckErr :: "'a Result \<Rightarrow> bytes option" where
  "CheckErr resp = (if status_code resp = NoError then None else Some (error_msg resp))"

record go_ApplyRet =
  ReturnVal :: "bytes option"
  ExitCode :: u64
  GasUsed :: i64
  MinerPenalty :: int
  MinerTip :: int
  ExecTraceBytes :: "bytes option"
  FailureInfo :: string

definition go_ApplyMessage ::
    "'l logger \<Rightarrow> ('cid, 'code, 'blk, 'g, 'cfg, 'ctx, 'm, 'msg, 'addr) fvm_lib \<Rightarrow> 'addr fvm_consts
      \<Rightarrow> bytes \<Rightarrow> u64 \<Rightarrow> (('l \<times> 'g \<times> 'm InnerFvmMachine) world, bytes + go_ApplyRet) io" where
  "go_ApplyMessage L V X msgBytes chainLen =
     bind_io (fvm_machine_execute_message L V X msgBytes chainLen 0) (\<lambda>resp.
       case CheckErr resp of
         Some err \<Rightarrow> ret (Inl err)
       | None \<Rightarrow>
           let v = value_of resp
           in ret (Inr \<lparr>ReturnVal = resp_return_val v, ExitCode = resp_exit_code v,
                GasUsed = resp_gas_used v,
                MinerPenalty = reformBigInt (penalty_hi v) (penalty_lo v),
                MinerTip = reformBigInt (miner_tip_hi v) (miner_tip_lo v),
                ExecTraceBytes = resp_exec_trace v,
                FailureInfo = (case resp_failure_info v of None \<Rightarrow> [] | Some s \<Rightarrow> s)\<rparr>))"

section \<open>Token amounts as two halves\<close>

lemma unat_u128_of_halves: "unat (u128_of_halves hi lo) = unat hi * 2 ^ 64 + unat lo"
proof -
  let ?h = "uint hi" and ?l = "uint lo"
  have h: "0 \<le> ?h" "?h < 2 ^ 64" and l: "0 \<le> ?l" "?l < 2 ^ 64"
    using uint_bounded [of hi] uint_bounded [of lo] by simp_all
  have t: "take_bit 128 ?h = ?h" "take_bit 128 ?l = ?l" "take_bit 64 ?l = ?l"
    "take_bit 128 (push_bit 64 ?h) = push_bit 64 ?h"
    using h l by (simp_all add: take_bit_int_eq_self push_bit_eq_mult)
  have "uint (u128_of_halves hi lo) = or (take_bit 64 ?l) (push_bit 64 ?h)"
    unfolding u128_of_halves_def unsigned_or_eq unsigned_push_bit_eq unsigned_ucast_eq
    by (simp add: t or.commute)
  also have "\<dots> = take_bit 64 ?l + push_bit 64 ?h"
    using concat_bit_def [of 64 ?l ?h] concat_bit_eq [of 64 ?l ?h] by simp
  also have "\<dots> = ?l + ?h * 2 ^ 64"
    by (simp add: t push_bit_eq_mult)
  finally have "int (unat (u128_of_halves hi lo)) = int (unat hi * 2 ^ 64 + unat lo)" by simp
  then show ?thesis by (simp only: of_nat_eq_iff)
qed

lemma unat_halves:
  fixes p :: u128
  shows "unat (ucast (drop_bit 64 p) :: u64) = unat p div 2 ^ 64"
    and "unat (ucast p :: u64) = unat p mod 2 ^ 64"
proof -
  have "unat p < 2 ^ 128" using unsigned_less [of p] by simp
  then have lt: "unat p div 2 ^ 64 < 2 ^ 64" by (simp add: less_mult_imp_div_less)
  have "unat (ucast (drop_bit 64 p) :: u64) = take_bit 64 (drop_bit 64 (unat p))"
    unfolding unsigned_ucast_eq unsigned_drop_bit_eq
    using \<open>unat p < 2 ^ 128\<close> by (simp add: take_bit_nat_eq_self)
  also have "\<dots> = unat p div 2 ^ 64"
    unfolding drop_bit_eq_div using lt by (simp only: take_bit_nat_eq_self)
  finally show "unat (ucast (drop_bit 64 p) :: u64) = unat p div 2 ^ 64" .
  show "unat (ucast p :: u64) = unat p mod 2 ^ 64"
    unfolding unsigned_ucast_eq by (simp add: take_bit_eq_mod)
qed

lemma reformBigInt_eq: "reformBigInt hi lo = int (unat hi * 2 ^ 64 + unat lo)"
  by (simp add: reformBigInt_def word_gt_0 unat_eq_0)

lemma reform_halves:
  fixes p :: u128
  shows "reformBigInt (ucast (drop_bit 64 p)) (ucast p) = uint p"
  unfolding reformBigInt_eq unat_halves(1) by (simp only: unat_halves(2) div_mult_mod_eq uint_nat)

lemma reform_u128_try_from:
  assumes "u128_try_from i = Some p"
  shows "reformBigInt (ucast (drop_bit 64 p)) (ucast p) = i"
  using assms by (auto simp: reform_halves u128_try_from_def uint_word_of_int take_bit_int_eq_self
      split: if_splits)

lemma splitBigInt_value:
  assumes "splitBigInt i = Inr (hi, lo)"
  shows "0 \<le> i" and "int (unat hi * 2 ^ 64 + unat lo) = i"
proof -
  define n where "n = nat i"
  show "0 \<le> i" using assms by (simp add: splitBigInt_def split: if_splits)
  have div: "m div 2 ^ 64 div 2 ^ 64 = 0 \<Longrightarrow> m div 2 ^ 64 < 2 ^ 64" for m :: nat
    by (simp add: div_eq_0_iff)
  have "unat hi * 2 ^ 64 + unat lo = n"
    using assms \<open>0 \<le> i\<close> div [of n]
    by (auto simp: splitBigInt_def n_def [symmetric] big_bits.simps [of n] big_bits.simps [of "n div _"]
        big_bits.simps [of "n div _ div _"] unat_of_nat take_bit_nat_eq_self
        split: if_splits list.splits)
  with \<open>0 \<le> i\<close> show "int (unat hi * 2 ^ 64 + unat lo) = i" by (simp add: n_def)
qed

lemma splitBigInt_defined:
  assumes "0 \<le> i" and "i < 2 ^ 128"
  shows "\<exists>hi lo. splitBigInt i = Inr (hi, lo)"
proof -
  define n where "n = nat i"
  have "n < 2 ^ 128" using assms by (simp add: n_def)
  then have "n div 2 ^ 64 div 2 ^ 64 = 0" by (simp flip: div_mult2_eq)
  then show ?thesis
    using assms(1)
    by (auto simp: splitBigInt_def n_def [symmetric] big_bits.simps [of n] big_bits.simps [of "n div _"]
        big_bits.simps [of 0])
qed

section \<open>The mutex\<close>

abbreviation inner_of :: "('l \<times> 'g \<times> 'e InnerFvmMachine) world \<Rightarrow> 'e InnerFvmMachine" where
  "inner_of w \<equiv> snd (snd (ext w))"

definition usable :: "'e InnerFvmMachine \<Rightarrow> bool" where
  "usable i \<longleftrightarrow> (case machine i of None \<Rightarrow> False | Some m \<Rightarrow> \<not> poisoned m)"

lemma own_logger_keeps [simp, intro]:
  "keeps (\<lambda>w. snd (ext w)) (init_log (own_logger L))"
  "keeps (\<lambda>w. snd (ext w)) (info (own_logger L) m)"
  by (auto simp: keeps_def init_log_def info_def call_once_def lift_ext_def own_logger_def lift_fst_def
      split: once_state.splits prod.splits exec.splits)

lemma own_logger_ok: "logger_ok L \<Longrightarrow> logger_ok (own_logger L)"
  by (auto simp: logger_ok_def own_logger_def lift_fst_def split: prod.splits) (metis fst_conv)+

lemma log_started_own [simp]: "snd (ext (log_started (own_logger L) name w)) = snd (ext w)"
  unfolding log_started_def
  by (simp add: keeps_run [OF own_logger_keeps(1)] keeps_run [OF own_logger_keeps(2)])

lemma log_ended_own [simp]: "snd (ext (log_ended (own_logger L) name w)) = snd (ext w)"
  unfolding log_ended_def by (rule keeps_run [OF own_logger_keeps(2)])

lemma lift_ext_snd:
  "lift_ext (lift_snd m) w = (case m (snd (ext w)) of (x, r) \<Rightarrow> (x, w\<lparr>ext := (fst (ext w), r)\<rparr>))"
  by (simp add: lift_ext_def lift_snd_def split: prod.splits)

lemma with_lock_unusable:
  "\<not> usable i \<Longrightarrow> \<exists>p. with_lock body (g, i) = (Panics p, (g, i))"
  by (auto simp: with_lock_def usable_def split: option.splits)

lemma with_lock_usable:
  assumes "machine i = Some \<lparr>poisoned = False, guarded_value = e\<rparr>"
  shows "with_lock body (g, i) =
    (case body (g, e) of
       (x, (g', e')) \<Rightarrow> (x, (g', i\<lparr>machine := Some \<lparr>poisoned = (case x of Panics _ \<Rightarrow> True | _ \<Rightarrow> False),
                                        guarded_value = e'\<rparr>\<rparr>)))"
  using assms by (simp add: with_lock_def)

text \<open>A call on a machine that cannot be used fails and changes nothing behind the boundary.\<close>

lemma unusable_call:
  assumes "catch_panic_response (own_logger L) d name (lift_ext (lift_snd cb)) w = (Returns r, w')"
    and "\<not> usable (inner_of w)"
    and "\<And>g i x s. \<not> usable i \<Longrightarrow> cb (g, i) = (x, s) \<Longrightarrow> s = (g, i) \<and> (\<forall>a. x \<noteq> Returns (Inr a))"
  shows "status_code r = UnclassifiedError \<and> snd (ext w') = snd (ext w)"
proof -
  let ?I = "\<lambda>v. snd (ext v) = snd (ext w)"
  have "?I w' \<and> status_code r = UnclassifiedError"
  proof (rule guarded_fails [where I = ?I, OF assms(1) refl])
    fix v y v'
    assume "lift_ext (lift_snd cb) v = (y, v')" and "?I v"
    then show "?I v' \<and> (\<forall>a. y \<noteq> Returns (Inr a))"
      using assms(2) assms(3) [of "inner_of w" "fst (snd (ext w))"]
      by (auto simp: lift_ext_snd split: prod.splits)
  qed (auto dest: keepsD [OF own_logger_keeps(1)] keepsD [OF own_logger_keeps(2)])
  then show ?thesis by simp
qed

section \<open>The life of a machine\<close>

datatype machine_call = ExecuteCall bytes u64 u64 | FlushCall

text \<open>One call that comes back, with the status of its response.\<close>

inductive machine_step ::
    "'l logger \<Rightarrow> ('cid, 'code, 'blk, 'g, 'cfg, 'ctx, 'm, 'msg, 'addr) fvm_lib \<Rightarrow> 'addr fvm_consts
      \<Rightarrow> ('l \<times> 'g \<times> 'm InnerFvmMachine) world \<Rightarrow> machine_call \<Rightarrow> FCPResponseStatus
      \<Rightarrow> ('l \<times> 'g \<times> 'm InnerFvmMachine) world \<Rightarrow> bool"
  for L V X where
  execute: "fvm_machine_execute_message L V X message chain_len kind w = (Returns r, w') \<Longrightarrow>
    machine_step L V X w (ExecuteCall message chain_len kind) (status_code r) w'"
| flush: "fvm_machine_flush L V w = (Returns r, w') \<Longrightarrow>
    machine_step L V X w FlushCall (status_code r) w'"

inductive machine_run ::
    "'l logger \<Rightarrow> ('cid, 'code, 'blk, 'g, 'cfg, 'ctx, 'm, 'msg, 'addr) fvm_lib \<Rightarrow> 'addr fvm_consts
      \<Rightarrow> ('l \<times> 'g \<times> 'm InnerFvmMachine) world \<Rightarrow> (machine_call \<times> FCPResponseStatus) list
      \<Rightarrow> ('l \<times> 'g \<times> 'm InnerFvmMachine) world \<Rightarrow> bool"
  for L V X where
  stop: "machine_run L V X w [] w"
| more: "machine_step L V X w c st w' \<Longrightarrow> machine_run L V X w' cs w'' \<Longrightarrow>
    machine_run L V X w ((c, st) # cs) w''"

inductive_cases machine_runE: "machine_run L V X w ((c, st) # cs) w'"

lemma with_lock_frame:
  "\<not> usable i \<Longrightarrow> with_lock body (g, i) = (x, s) \<Longrightarrow> s = (g, i) \<and> (\<forall>a. x \<noteq> Returns (Inr a))"
  using with_lock_unusable [of i body g] by auto

lemma unusable_step:
  assumes "machine_step L V X w c st w'" and "\<not> usable (inner_of w)"
  shows "st = UnclassifiedError \<and> snd (ext w') = snd (ext w)"
  using assms(1)
proof (cases rule: machine_step.cases)
  case (execute message chain_len kind r)
  show ?thesis
    unfolding execute(2)
    by (rule unusable_call [OF execute(3) [unfolded fvm_machine_execute_message_def Let_def] assms(2)])
       (auto simp: try_val_def ret_def split: sum.splits dest: with_lock_frame)
next
  case (flush r)
  show ?thesis
    unfolding flush(2)
    by (rule unusable_call [OF flush(3) [unfolded fvm_machine_flush_def] assms(2)])
       (auto dest: with_lock_frame)
qed

lemma unusable_run:
  "machine_run L V X w cs w' \<Longrightarrow> \<not> usable (inner_of w) \<Longrightarrow>
    list_all (\<lambda>(c, st). st = UnclassifiedError) cs \<and> snd (ext w') = snd (ext w)"
proof (induction rule: machine_run.induct)
  case (more w c st w' cs w'')
  from unusable_step [OF more.hyps(1) more.prems] more.IH more.prems show ?case by simp
qed simp

text \<open>The response of an execution, for a machine that is usable and a logger that works.\<close>

lemma execute_message_run:
  assumes "logger_ok L" and "log_init w \<noteq> Poisoned" and "msg_from_slice V message = Inr m"
    and "machine (inner_of w) = Some \<lparr>poisoned = False, guarded_value = e\<rparr>"
    and "try_io (execute_message V m (if kind = 0 then Explicit else Implicit) chain_len)
           (apply_response X (to_vec V)) (fst (snd (ext w)), e) = (x, (g', e'))"
  shows "\<exists>w'. fst (fvm_machine_execute_message L V X message chain_len kind w) =
      (case x of
         Returns r \<Rightarrow> Returns (Result_from FvmMachineExecuteResponse_default (map_err_string r))
       | Panics p \<Rightarrow> Returns (Result_err FvmMachineExecuteResponse_default (str_bytes (panic_text p)))
       | Undefined \<Rightarrow> Undefined) \<and>
    snd (fvm_machine_execute_message L V X message chain_len kind w) = w' \<and>
    fst (snd (ext w')) = g' \<and>
    machine (inner_of w') = Some \<lparr>poisoned = (case x of Panics _ \<Rightarrow> True | _ \<Rightarrow> False), guarded_value = e'\<rparr>"
proof -
  let ?i = "inner_of w" and ?g = "fst (snd (ext w))"
  let ?v = "log_started (own_logger L) ''fvm_machine_execute_message'' w"
  let ?body = "try_io (execute_message V m (if kind = 0 then Explicit else Implicit) chain_len)
    (apply_response X (to_vec V))"
  have "with_lock ?body (snd (ext ?v)) =
      (x, (g', ?i\<lparr>machine := Some \<lparr>poisoned = (case x of Panics _ \<Rightarrow> True | _ \<Rightarrow> False), guarded_value = e'\<rparr>\<rparr>))"
    using with_lock_usable [OF assms(4), of ?body ?g] assms(5) by simp
  then show ?thesis
    by (cases x)
       (simp_all add: fvm_machine_execute_message_def Let_def assms(3) lift_ext_snd
          catch_panic_response_eq [OF own_logger_ok [OF assms(1)] assms(2)])
qed

text \<open>What the halves of an answer are put together to, and the other fields.\<close>

lemma apply_response_cases:
  obtains (Ok) r where "apply_response X encode a g = (Returns (Inr r), g)"
      "reformBigInt (penalty_hi r) (penalty_lo r) = ret_penalty a"
      "reformBigInt (miner_tip_hi r) (miner_tip_lo r) = ret_miner_tip a"
      "resp_exit_code r = ucast (exit_code (ret_receipt a))" "resp_gas_used r = gas_used (ret_receipt a)"
      "resp_return_val r = (if return_data (ret_receipt a) = [] then None else Some (return_data (ret_receipt a)))"
      "resp_exec_trace r = encode_trace X encode (ret_exec_trace a)" "resp_failure_info r = ret_failure_info a"
      "ret_penalty a \<in> {0..<2 ^ 128}" "ret_miner_tip a \<in> {0..<2 ^ 128}"
  | (Panics) "apply_response X encode a g = (Panics unwrap_failed, g)"
      "ret_penalty a \<notin> {0..<2 ^ 128} \<or> ret_miner_tip a \<notin> {0..<2 ^ 128}"
proof (cases "u128_try_from (ret_penalty a)"; cases "u128_try_from (ret_miner_tip a)")
  fix p t
  assume pt: "u128_try_from (ret_penalty a) = Some p" "u128_try_from (ret_miner_tip a) = Some t"
  then have "ret_penalty a \<in> {0..<2 ^ 128}" "ret_miner_tip a \<in> {0..<2 ^ 128}"
    by (auto simp: u128_try_from_def split: if_splits)
  with pt reform_u128_try_from [OF pt(1)] reform_u128_try_from [OF pt(2)] that(1) show thesis
    by (simp add: apply_response_def unwrap_io_def ret_def Let_def)
qed (use that(2) in \<open>auto simp: apply_response_def unwrap_io_def raise_def ret_def bind_io_def Let_def
      u128_try_from_def split: if_splits\<close>)

text \<open>\<open>CreateFVM\<close> of \<open>fvm.go\<close>, with the machine it wraps.\<close>

definition go_CreateFVM ::
    "'l logger \<Rightarrow> ('cid, 'code, 'blk, ('s, 'ga) go_state, 'cfg, 'ctx, 'm, 'msg, 'addr) fvm_lib
      \<Rightarrow> ('cid, 'code, 'blk, ('s, 'ga) go_state) cid_lib \<Rightarrow> 'ga go_lib \<Rightarrow> ('cid, 'mh, 'code) hash_lib
      \<Rightarrow> ('s, 'ga) externs \<Rightarrow> i64 \<Rightarrow> int \<Rightarrow> int \<Rightarrow> u64 \<Rightarrow> bytes \<Rightarrow> bytes \<Rightarrow> bool
      \<Rightarrow> (('l \<times> ('s, 'ga) go_state) world, bytes + 'm InnerFvmMachine option) io" where
  "go_CreateFVM L V C G H externs epoch base_fee circ_supply network_version state_base manifest tracing w =
     (case splitBigInt base_fee of
        Inl e \<Rightarrow> ret (Inl (str_bytes (''invalid basefee: '' @ e))) w
      | Inr (fee_hi, fee_lo) \<Rightarrow>
          (case splitBigInt circ_supply of
             Inl e \<Rightarrow> ret (Inl (str_bytes (''invalid circ supply: '' @ e))) w
           | Inr (circ_hi, circ_lo) \<Rightarrow>
               (case Register (Some externs) (snd (ext w)) of
                  (handle, g) \<Rightarrow>
                    bind_io (create_fvm_machine L V C G H V1 epoch fee_hi fee_lo circ_hi circ_lo
                        network_version state_base manifest tracing handle handle)
                      (\<lambda>resp. case CheckErr resp of
                          Some err \<Rightarrow> ret (Inl err)
                        | None \<Rightarrow> ret (Inr (value_of resp)))
                      (w\<lparr>ext := (fst (ext w), g)\<rparr>))))"

section \<open>A concrete library\<close>

definition sample_ret :: "u64 ApplyRet" where
  "sample_ret =
     \<lparr>ret_receipt = \<lparr>exit_code = 0, return_data = [1], gas_used = 7\<rparr>, ret_penalty = 2 ^ 64 + 5,
      ret_miner_tip = 3, ret_failure_info = None, ret_exec_trace = []\<rparr>"

text \<open>Its machine counts messages and panics on the message 0.\<close>

definition sample_fvm ::
    "(u8, unit, unit, (bytes \<rightharpoonup> bytes, u64) go_state, unit, unit, nat, bytes, u64) fvm_lib" where
  "sample_fvm =
     \<lparr>network_version_try_from = (\<lambda>v. if v = 16 then Some V16 else None),
      cid_try_from = (\<lambda>b. case b of [k] \<Rightarrow> Inr k | _ \<Rightarrow> Inl ''length''),
      network_config_new = (\<lambda>_. ()), override_actors = (\<lambda>_ c. c), for_epoch = (\<lambda>_ _ _. ()),
      set_base_fee = (\<lambda>_ c. c), set_circulating_supply = (\<lambda>_ c. c), enable_tracing = id,
      actors_v6_BUNDLE_CAR = [], actors_v7_BUNDLE_CAR = [],
      load_car = (\<lambda>_ _. ret (Inr [])), machine_new = (\<lambda>_ _ _. ret (Inr 0)),
      msg_from_slice = Inr,
      execute_message = (\<lambda>m k n. \<lambda>(g, e). if m = [0] then (Panics (StrPayload ''boom''), (g, e))
        else (Returns (Inr sample_ret), (g, Suc e))),
      flush_machine = ret (Inr 1), flush_cid_to_bytes = (\<lambda>k. [k]), to_vec = (\<lambda>_. None)\<rparr>"

definition sample_world :: "(string list \<times> (bytes \<rightharpoonup> bytes, u64) go_state \<times> nat InnerFvmMachine) world" where
  "sample_world = \<lparr>log_init = Incomplete, open_fds = (\<lambda>_. True), ext = ([], mem_go, new_inner_machine 0)\<rparr>"

lemma sample_world_sel [simp]:
  "log_init sample_world = Incomplete" "snd (ext sample_world) = (mem_go, new_inner_machine 0)"
  by (simp_all add: sample_world_def)

section \<open>Properties\<close>

text \<open>C10: a token amount that fits 128 bits is split by Go, put together by Rust and, on the way
  back, put together by Go to the same amount; any other amount is refused by Go.\<close>
theorem token_amounts_cross:
  "(\<exists>hi lo. 0 \<le> i \<and> i < 2 ^ 128 \<and> splitBigInt i = Inr (hi, lo) \<and>
      int (unat (u128_of_halves hi lo)) = i \<and> reformBigInt hi lo = i) \<or>
   ((i < 0 \<or> 2 ^ 128 \<le> i) \<and> (\<exists>e. splitBigInt i = Inl e))"
proof (cases "splitBigInt i")
  case (Inr hl)
  obtain hi lo where hl: "hl = (hi, lo)" by (cases hl)
  note v = splitBigInt_value [OF Inr [unfolded hl]]
  have "int (unat (u128_of_halves hi lo)) < 2 ^ 128"
    using unsigned_less [of "u128_of_halves hi lo", where 'a = int] by simp
  with v Inr hl show ?thesis by (auto simp: unat_u128_of_halves reformBigInt_eq)
next
  case (Inl e)
  with splitBigInt_defined [of i] show ?thesis by force
qed

text \<open>C8: what the executor returns for a message reaches the Go caller of \<open>ApplyMessage\<close> unchanged:
  exit code, gas, return value, both token amounts, and the trace when it can be built. The
  machine stays usable, in the state the executor left it in.\<close>
theorem apply_message_end_to_end:
  assumes "logger_ok L" and "log_init w \<noteq> Poisoned" and "msg_from_slice V message = Inr m"
    and "machine (inner_of w) = Some \<lparr>poisoned = False, guarded_value = e\<rparr>"
    and "execute_message V m Explicit chain_len (fst (snd (ext w)), e) = (Returns (Inr a), (g', e'))"
    and "ret_penalty a \<in> {0..<2 ^ 128}" and "ret_miner_tip a \<in> {0..<2 ^ 128}"
  shows "\<exists>w' r. go_ApplyMessage L V X message chain_len w = (Returns (Inr r), w') \<and>
    ExitCode r = ucast (exit_code (ret_receipt a)) \<and> GasUsed r = gas_used (ret_receipt a) \<and>
    ReturnVal r = (if return_data (ret_receipt a) = [] then None else Some (return_data (ret_receipt a))) \<and>
    MinerPenalty r = ret_penalty a \<and> MinerTip r = ret_miner_tip a \<and>
    FailureInfo r = (case ret_failure_info a of None \<Rightarrow> [] | Some s \<Rightarrow> s) \<and>
    ExecTraceBytes r = encode_trace X (to_vec V) (ret_exec_trace a) \<and>
    fst (snd (ext w')) = g' \<and> machine (inner_of w') = Some \<lparr>poisoned = False, guarded_value = e'\<rparr>"
proof (cases rule: apply_response_cases [of X "to_vec V" a "(g', e')"])
  case (Ok r)
  have "try_io (execute_message V m (if (0::u64) = 0 then Explicit else Implicit) chain_len)
      (apply_response X (to_vec V)) (fst (snd (ext w)), e) = (Returns (Inr r), (g', e'))"
    using assms(5) Ok(1) by (simp add: try_io_run)
  from execute_message_run [OF assms(1-4) this] Ok show ?thesis
    by (cases "fvm_machine_execute_message L V X message chain_len 0 w")
       (auto simp: go_ApplyMessage_def bind_io_def ret_def Let_def CheckErr_def Result_from_def
          map_err_string_def)
qed (use assms(6,7) in auto)

theorem apply_message_end_to_end_witness:
  "\<exists>w' r. go_ApplyMessage silent_logger sample_fvm sample_consts [9] 1 sample_world = (Returns (Inr r), w') \<and>
    MinerPenalty r = 2 ^ 64 + 5 \<and> MinerTip r = 3 \<and>
    machine (inner_of w') = Some \<lparr>poisoned = False, guarded_value = 1\<rparr>"
proof -
  have m: "machine (inner_of sample_world) = Some \<lparr>poisoned = False, guarded_value = 0\<rparr>"
    by (simp add: new_inner_machine_def)
  have f: "msg_from_slice sample_fvm [9] = Inr [9]" by (simp add: sample_fvm_def)
  have x: "execute_message sample_fvm [9] Explicit 1 (fst (snd (ext sample_world)), 0) =
      (Returns (Inr sample_ret), (mem_go, 1))"
    by (simp add: sample_fvm_def)
  have p: "ret_penalty sample_ret = 2 ^ 64 + 5" "ret_miner_tip sample_ret = 3"
    by (simp_all add: sample_ret_def)
  from apply_message_end_to_end [OF silent_logger_ok _ f m x, of sample_consts] p
  show ?thesis by auto
qed

text \<open>C5: a panic while a message is executed, in the FVM or because an amount does not fit
  128 bits, is reported as an error and ends the machine: whatever is called on it
  afterwards, in any order, fails, and neither the machine nor the client's store changes.\<close>
theorem panic_ends_machine:
  assumes "logger_ok L" and "log_init w \<noteq> Poisoned" and "msg_from_slice V message = Inr m"
    and "machine (inner_of w) = Some \<lparr>poisoned = False, guarded_value = e\<rparr>"
    and "try_io (execute_message V m (if kind = 0 then Explicit else Implicit) chain_len)
           (apply_response X (to_vec V)) (fst (snd (ext w)), e) = (Panics p, s)"
  shows "\<exists>w'. fvm_machine_execute_message L V X message chain_len kind w =
      (Returns (Result_err FvmMachineExecuteResponse_default (str_bytes (panic_text p))), w') \<and>
    \<not> usable (inner_of w') \<and>
    (\<forall>cs w''. machine_run L V X w' cs w'' \<longrightarrow>
       list_all (\<lambda>(c, st). st = UnclassifiedError) cs \<and> snd (ext w'') = snd (ext w'))"
proof -
  obtain g' e' where s: "s = (g', e')" by (cases s)
  from execute_message_run [OF assms(1-4), of kind chain_len X "Panics p" g' e'] assms(5) s
  obtain w' where w': "fvm_machine_execute_message L V X message chain_len kind w =
      (Returns (Result_err FvmMachineExecuteResponse_default (str_bytes (panic_text p))), w')"
    and "machine (inner_of w') = Some \<lparr>poisoned = True, guarded_value = e'\<rparr>"
    by (cases "fvm_machine_execute_message L V X message chain_len kind w") auto
  then have "\<not> usable (inner_of w')" by (simp add: usable_def)
  with w' unusable_run show ?thesis by blast
qed

theorem panic_ends_machine_witness:
  "\<exists>w'. fvm_machine_execute_message silent_logger sample_fvm sample_consts [0] 1 0 sample_world =
      (Returns (Result_err FvmMachineExecuteResponse_default (str_bytes ''Rust panic: boom'')), w') \<and>
    \<not> usable (inner_of w') \<and>
    (\<forall>cs w''. machine_run silent_logger sample_fvm sample_consts w' cs w'' \<longrightarrow>
       list_all (\<lambda>(c, st). st = UnclassifiedError) cs \<and> snd (ext w'') = snd (ext w'))"
proof -
  have m: "machine (inner_of sample_world) = Some \<lparr>poisoned = False, guarded_value = 0\<rparr>"
    by (simp add: new_inner_machine_def)
  have f: "msg_from_slice sample_fvm [0] = Inr [0]" by (simp add: sample_fvm_def)
  have x: "try_io (execute_message sample_fvm [0] (if (0::u64) = 0 then Explicit else Implicit) 1)
      (apply_response sample_consts (to_vec sample_fvm)) (fst (snd (ext sample_world)), 0) =
      (Panics (StrPayload ''boom''), (mem_go, 0))"
    by (simp add: sample_fvm_def try_io_def bind_io_def)
  from panic_ends_machine [OF silent_logger_ok _ f m x] show ?thesis by (simp add: panic_text_def)
qed

lemma build_machine_value:
  assumes "build_machine V C G H nv manifest context_of b x g = (Returns (Inr v), g')"
  obtains m where "v = Some (new_inner_machine m)"
  using assms that
  by (auto simp: build_machine_def try_val_def ret_def elim!: bind_io_cases split: sum.splits)

text \<open>\<open>create_fvm_machine\<close> comes back with a machine that can be used, or with an error and no
  machine; there is no third answer.\<close>
lemma create_answers:
  assumes "create_fvm_machine L V C G H version epoch fee_hi fee_lo circ_hi circ_lo nv root manifest
      tracing store_id externs_id w = (Returns r, w')"
  shows "(\<exists>m. r = Result_ok (Some (new_inner_machine m)) \<and> usable (new_inner_machine m)) \<or>
    (\<exists>msg. r = Result_err None msg)"
proof (rule no_default_cases)
  fix v s'
  let ?cb = "bind_io (case version of V1 \<Rightarrow> info (own_logger L) ''using FVM V1'') (\<lambda>_.
    try_val (case network_version_try_from V (ucast nv) of
        None \<Rightarrow> Inl (AnyhowMsg (''unsupported network version: '' @ show_nat (unat nv)))
      | Some v \<Rightarrow> Inr v) (\<lambda>nv.
    try_val (map_err ''invalid state root: '' (cid_try_from V root)) (\<lambda>root.
    try_val (read_manifest V manifest) (\<lambda>manifest.
    lift_ext (lift_snd (build_machine V C G H nv manifest
      (\<lambda>actors. machine_context V nv actors epoch root (u128_of_halves fee_hi fee_lo)
         (u128_of_halves circ_hi circ_lo) tracing) store_id externs_id))))))"
  assume l: "logged (own_logger L) ''create_fvm_machine'' ?cb w = (Returns (Inr v), s')"
    and c: "catch_panic_response_no_default (own_logger L) None ''create_fvm_machine'' ?cb w =
      (Returns (Result_ok v), s')"
  from l obtain w1 w2 where "?cb w1 = (Returns (Inr v), w2)" by (rule logged_Returns)
  then obtain nv' man ctx g g' where
    b: "build_machine V C G H nv' man ctx store_id externs_id g = (Returns (Inr v), g')"
    by (auto simp: try_val_def ret_def lift_ext_snd elim!: bind_io_cases split: sum.splits prod.splits)
  obtain m where "v = Some (new_inner_machine m)" by (rule build_machine_value [OF b])
  with c assms show ?thesis
    by (auto simp: create_fvm_machine_def Let_def usable_def new_inner_machine_def)
qed (use assms in \<open>auto simp: create_fvm_machine_def Let_def\<close>)

definition sample_start :: "(string list \<times> (bytes \<rightharpoonup> bytes, u64) go_state) world" where
  "sample_start = \<lparr>log_init = Incomplete, open_fds = (\<lambda>_. True), ext = ([], mem_go)\<rparr>"

text \<open>The closure of \<open>create_fvm_machine\<close> on a supported version, for a logger that works.\<close>

lemmas create_eval = create_fvm_machine_def catch_panic_response_no_default_def catch_unwind_def logged_def
  init_log_def info_def call_once_def lift_ext_def lift_fst_def lift_snd_def own_logger_def bind_io_def ret_def
  Let_def sample_start_def silent_logger_def sample_fvm_def map_err_def read_manifest_def build_machine_def
  on_store_def import_actors_def err_no_default_eq

text \<open>C34: the network version is cut to 32 bits before it is looked up: two numbers that agree in
  their low 32 bits create the same machine, when that version is known.\<close>
theorem network_version_is_truncated:
  assumes "ucast nv = (ucast nv' :: u32)" and "network_version_try_from V (ucast nv) = Some v"
  shows "create_fvm_machine L V C G H version epoch fee_hi fee_lo circ_hi circ_lo nv root manifest
      tracing store_id externs_id =
    create_fvm_machine L V C G H version epoch fee_hi fee_lo circ_hi circ_lo nv' root manifest
      tracing store_id externs_id"
  using assms by (simp add: create_fvm_machine_def)

theorem network_version_is_truncated_witness:
  "create_fvm_machine silent_logger sample_fvm byte_cids byte_go byte_hash V1 5 0 1 0 2 (2 ^ 32 + 16) [8] []
      True 3 3 =
    create_fvm_machine silent_logger sample_fvm byte_cids byte_go byte_hash V1 5 0 1 0 2 16 [8] [] True 3 3"
proof -
  have "ucast (2 ^ 32 + 16 :: u64) = (ucast (16 :: u64) :: u32)" by simp
  moreover have "network_version_try_from sample_fvm (ucast (2 ^ 32 + 16 :: u64)) = Some V16"
    by (simp add: sample_fvm_def)
  ultimately show ?thesis by (rule network_version_is_truncated)
qed

text \<open>The registry of the Go side is out of reach of the Rust side, but for the callbacks, and these
  change the client's store only.\<close>

definition store_keeps :: "('t \<Rightarrow> 'r) \<Rightarrow> ('cid, 'code, 'blk, 't) Blockstore \<Rightarrow> bool" where
  "store_keeps f B \<longleftrightarrow>
     (\<forall>k. keeps f (bs_has B k)) \<and> (\<forall>k. keeps f (bs_get B k)) \<and> (\<forall>c b. keeps f (bs_put B c b)) \<and>
     (\<forall>bs. keeps f (bs_put_many B bs)) \<and> (\<forall>bs. keeps f (bs_put_many_keyed B bs)) \<and>
     (\<forall>k b. keeps f (bs_put_keyed B k b))"

text \<open>What the crates promise: they reach the state behind a store only through the functions of the
  store, so what all of these leave alone stays as it was.\<close>

definition only_through_store ::
    "('cid, 'code, 'blk, ('s, 'ga) go_state, 'cfg, 'ctx, 'm, 'msg, 'addr) fvm_lib
      \<Rightarrow> ('cid, 'code, 'blk, ('s, 'ga) go_state) cid_lib \<Rightarrow> bool" where
  "only_through_store V C \<longleftrightarrow>
     (\<forall>(f :: _ \<Rightarrow> u64 \<rightharpoonup> ('s, 'ga) externs option) B car. store_keeps f B \<longrightarrow> keeps f (load_car V B car)) \<and>
     (\<forall>(f :: _ \<Rightarrow> u64 \<rightharpoonup> ('s, 'ga) externs option) ctx B i. store_keeps f B \<longrightarrow> keeps f (machine_new V ctx B i)) \<and>
     (\<forall>c b. keeps registry (provided_put C c b)) \<and> (\<forall>bs. keeps registry (provided_put_many C bs))"

lemma keeps_lift_store [simp, intro]: "keeps registry (lift_store m)"
  by (rule keepsI) (auto simp: lift_store_def split: prod.splits)

lemma keeps_go_recover [intro]: "keeps f m \<Longrightarrow> keeps f (go_recover out m)"
  by (rule keepsI) (auto simp: go_recover_def dest: keepsD split: prod.splits exec.splits)

lemma keeps_with_externs [intro]: "(\<And>e. keeps f (k e)) \<Longrightarrow> keeps f (with_externs h out k)"
  by (rule keepsI) (auto simp: with_externs_def dest: keepsD split: option.splits)

lemma callbacks_keep_registry [simp, intro]:
  "keeps registry (cgo_blockstore_get h k n)" "keeps registry (cgo_blockstore_put h k n b m)"
  "keeps registry (cgo_blockstore_put_many G h ls n b)" "keeps registry (cgo_blockstore_has h k n)"
  unfolding cgo_blockstore_get_def cgo_blockstore_put_def cgo_blockstore_put_many_def cgo_blockstore_has_def Let_def
  by (intro keeps_go_recover keeps_bind keeps_with_externs; auto split: go_err.splits sum.splits)+

lemma keeps_flush_buffered [intro]: "keeps registry (flush_buffered G h ls b)"
  unfolding flush_buffered_def put_result_def by (auto intro!: keeps_bind)

lemma keeps_put_many_loop [intro]: "keeps registry (put_many_loop C G h bs v)"
  by (induction C G h bs v rule: put_many_loop.induct)
     (auto intro!: keeps_bind keeps_flush_buffered split: sum.splits prod.splits)

lemma CgoBlockstore_keeps_registry:
  assumes "only_through_store V C"
  shows "store_keeps registry (CgoBlockstore C G h)"
  using assms
  by (auto simp: store_keeps_def only_through_store_def CgoBlockstore_def has_def get_def put_keyed_def
      put_many_keyed_def put_result_def Let_def intro!: keeps_bind split: prod.splits)

lemma keeps_lift_fake: "keeps f m \<Longrightarrow> keeps (\<lambda>t. f (fake_base t)) (lift_fake m)"
  by (rule keepsI) (auto simp: lift_fake_def dest: keepsD split: prod.splits)

lemma keeps_lift_over: "keeps f m \<Longrightarrow> keeps (\<lambda>t. f (over_base t)) (lift_over m)"
  by (rule keepsI) (auto simp: lift_over_def dest: keepsD split: prod.splits)

lemma Fake_keeps:
  fixes B :: "('cid, 'code, 'blk, 's) Blockstore"
  assumes "store_keeps f B"
  shows "store_keeps (\<lambda>t. f (fake_base t)) (Fake H B)"
proof -
  let ?f = "\<lambda>t :: ('cid, 's) FakeBlockstore. f (fake_base t)"
  have base: "keeps ?f (lift_fake (bs_has B k))" "keeps ?f (lift_fake (bs_get B k))"
    "keeps ?f (lift_fake (bs_put B c b))" "keeps ?f (lift_fake (bs_put_many B bs))"
    "keeps ?f (lift_fake (bs_put_keyed B k' b'))" for k c b bs k' b'
    using assms by (auto simp: store_keeps_def intro!: keeps_lift_fake)
  have put: "keeps ?f (fake_put_keyed H B k b)" for k b
    using base(5) by (auto simp: keeps_def fake_put_keyed_def)
  moreover have "keeps ?f (fake_put_many_keyed H B bs)" for bs
    by (induction bs) (auto intro!: keeps_try put)
  moreover have "keeps ?f (try_io (lift_fake (bs_has B k)) (\<lambda>b. ret (Inr b)))" for k
    by (intro keeps_try base) auto
  then have "keeps ?f (fake_has B k)" for k by (auto simp: keeps_def fake_has_def)
  moreover have "keeps ?f (fake_get B k)" for k
    using base(2) by (auto simp: keeps_def fake_get_def split: option.splits)
  ultimately show ?thesis using base by (simp add: store_keeps_def Fake_def)
qed

lemma Overlay_keeps:
  fixes B :: "('cid, 'code, 'blk, 's) Blockstore"
  assumes "store_keeps f B"
  shows "store_keeps (\<lambda>t. f (over_base t)) (Overlay B)"
proof -
  let ?f = "\<lambda>t :: ('cid, 's) OverlayBlockstore. f (over_base t)"
  have base: "keeps ?f (lift_over (bs_has B k))" "keeps ?f (lift_over (bs_get B k))"
    "keeps ?f (lift_over (bs_put B c b))" "keeps ?f (lift_over (bs_put_many B bs))"
    "keeps ?f (lift_over (bs_put_many_keyed B bs'))" "keeps ?f (lift_over (bs_put_keyed B k' b'))" for k c b bs bs' k' b'
    using assms by (auto simp: store_keeps_def intro!: keeps_lift_over)
  have "keeps ?f (try_io (lift_over (bs_has B k)) (\<lambda>b. ret (Inr b)))" for k
    by (intro keeps_try base) auto
  then have "keeps ?f (overlay_has B k)" for k by (auto simp: keeps_def overlay_has_def)
  moreover have "keeps ?f (overlay_get B k)" for k
    using base(2) by (auto simp: keeps_def overlay_get_def split: option.splits)
  ultimately show ?thesis using base by (simp add: store_keeps_def Overlay_def)
qed

lemma build_machine_keeps_registry:
  assumes "only_through_store V C"
  shows "keeps registry (build_machine V C G H nv manifest ctx b x)"
proof (rule keepsI)
  fix g y g'
  let ?S = "CgoBlockstore C G b"
  note store = CgoBlockstore_keeps_registry [OF assms, of G b]
  have "keeps (\<lambda>t. registry (fake_base t)) (load_bundle V (Fake H ?S) car)" for car
    using assms Fake_keeps [OF store, of H] unfolding load_bundle_def only_through_store_def
    by (auto intro!: keeps_bind split: sum.splits)
  then have imp: "keeps (\<lambda>t. registry (fake_base t)) (import_actors V (Fake H ?S) manifest nv)"
    by (auto simp: import_actors_def split: NetworkVersion.splits)
  have new: "keeps (\<lambda>t. registry (over_base t)) (machine_new V c (Overlay ?S) x)" for c
    using assms Overlay_keeps [OF store] unfolding only_through_store_def by auto
  assume "build_machine V C G H nv manifest ctx b x g = (y, g')"
  then show "registry g' = registry g"
    by (auto simp: build_machine_def on_store_def try_val_def ret_def bind_io_def fake_new_def
        dest!: keepsD [OF imp] keepsD [OF new] split: prod.splits exec.splits sum.splits)
qed

lemma create_keeps_registry:
  assumes "only_through_store V C"
  shows "keeps (\<lambda>w. registry (snd (ext w)))
    (create_fvm_machine L V C G H v epoch fh fl ch cl nv root manifest tracing b x)"
proof -
  have own: "keeps (\<lambda>w. registry (snd (ext w))) (init_log (own_logger L))"
      "\<And>m. keeps (\<lambda>w. registry (snd (ext w))) (info (own_logger L) m)"
    by (auto intro!: keepsI dest: keepsD [OF own_logger_keeps(1)] keepsD [OF own_logger_keeps(2)])
  have "keeps (\<lambda>w. registry (snd (ext w))) (lift_ext (lift_snd (build_machine V C G H n m c b x)))" for n m c
    by (rule keepsI)
       (auto simp: lift_ext_snd split: prod.splits dest!: keepsD [OF build_machine_keeps_registry [OF assms]])
  then show ?thesis
    unfolding create_fvm_machine_def Let_def
    by (intro keeps_guarded(2) keeps_bind keeps_try_val own) (auto split: FvmRegisteredVersion.splits intro: own)
qed

text \<open>C33: \<open>CreateFVM\<close> registers the externs before it creates the machine and never removes them
  when the creation fails: whatever the failure was (an unsupported network version, an
  invalid state root or manifest, actors that do not load, a machine that is not built, or
  a panic in any of them), when the call comes back with an error after the registration,
  the handle still finds the externs. The crates reach the Go side through the store only.\<close>
theorem failed_creation_keeps_handle:
  assumes "only_through_store V C"
    and "splitBigInt fee = Inr f" and "splitBigInt circ = Inr c"
    and "go_CreateFVM L V C G H e epoch fee circ nv root manifest tracing w = (Returns (Inl err), w')"
  shows "Lookup (nextId (snd (ext w))) (snd (ext w')) = Some e"
proof -
  obtain fh fl ch cl where fc: "f = (fh, fl)" "c = (ch, cl)" by (cases f; cases c)
  let ?h = "nextId (snd (ext w))"
  let ?w = "w\<lparr>ext := (fst (ext w), snd (Register (Some e) (snd (ext w))))\<rparr>"
  from assms(2-4) fc obtain r where
    "create_fvm_machine L V C G H V1 epoch fh fl ch cl nv root manifest tracing ?h ?h ?w = (Returns r, w')"
    by (auto simp: go_CreateFVM_def Register_def ret_def elim!: bind_io_cases split: option.splits)
  from keepsD [OF create_keeps_registry [OF assms(1)] this] show ?thesis
    by (simp add: Lookup_def Register_def)
qed

text \<open>Such failures exist: a version that the crate does not know.\<close>

lemma unsupported_version_fails:
  assumes "logger_ok L" and "log_init w \<noteq> Poisoned"
    and "splitBigInt fee = Inr f" and "splitBigInt circ = Inr c"
    and "network_version_try_from V (ucast nv) = None"
  obtains err w' where "go_CreateFVM L V C G H e epoch fee circ nv root manifest tracing w = (Returns (Inl err), w')"
proof -
  obtain fh fl ch cl where fc: "f = (fh, fl)" "c = (ch, cl)" by (cases f; cases c)
  let ?h = "nextId (snd (ext w))"
  let ?w = "w\<lparr>ext := (fst (ext w), snd (Register (Some e) (snd (ext w))))\<rparr>"
  let ?err = "AnyhowMsg (''unsupported network version: '' @ show_nat (unat nv))"
  let ?start = "log_started (own_logger L) ''create_fvm_machine'' ?w"
  let ?in = "snd (info (own_logger L) ''using FVM V1'' ?start)"
  have p: "log_init ?w \<noteq> Poisoned" using assms(2) by simp
  have cb: "bind_io (info (own_logger L) ''using FVM V1'') (\<lambda>_. ret (Inl a)) ?start =
      (Returns (Inl a), ?in)" for a :: anyhow
    by (simp add: bind_info_ok [OF own_logger_ok [OF assms(1)]] ret_def)
  have "create_fvm_machine L V C G H V1 epoch fh fl ch cl nv root manifest tracing ?h ?h ?w =
      (Returns (Result_err None (str_bytes (anyhow_to_string ?err))),
       log_ended (own_logger L) ''create_fvm_machine'' ?in)"
    by (simp add: create_fvm_machine_def Let_def assms(5) cb
          catch_panic_response_no_default_eq [OF own_logger_ok [OF assms(1)] p]
          Result_from_def map_err_string_def)
  then show thesis
    using assms(3,4) fc that
    by (simp add: go_CreateFVM_def Register_def bind_io_def CheckErr_def ret_def)
qed

theorem failed_creation_keeps_handle_witness:
  "\<exists>err w'. go_CreateFVM silent_logger sample_fvm byte_cids byte_go byte_hash mem_externs 5 0 0 99 [8] []
       False sample_start = (Returns (Inl err), w') \<and>
     Lookup 4 (snd (ext w')) = Some mem_externs"
proof -
  have z: "splitBigInt 0 = Inr (0, 0)" by (simp add: splitBigInt_def big_bits.simps)
  have v: "network_version_try_from sample_fvm (ucast (99 :: u64)) = None" by (simp add: sample_fvm_def)
  have o: "only_through_store sample_fvm byte_cids"
    by (auto simp: only_through_store_def sample_fvm_def byte_cids_def)
  have p: "log_init sample_start \<noteq> Poisoned" and n: "nextId (snd (ext sample_start)) = 4"
    by (simp_all add: sample_start_def mem_go_def)
  obtain err w' where run: "go_CreateFVM silent_logger sample_fvm byte_cids byte_go byte_hash mem_externs 5 0 0 99 [8] []
       False sample_start = (Returns (Inl err), w')"
    by (rule unsupported_version_fails [OF silent_logger_ok p z z v])
  from failed_creation_keeps_handle [OF o z z run] run n show ?thesis by auto
qed

end
