(* ===== verification/Bls.thy ===== *)
theory Bls
  imports FFI_Prelude
begin

text \<open>
  \<open>rust/src/bls/api.rs\<close>, the BLS signature functions, and the Go side of the same calls in
  \<open>bls.go\<close>, which flattens its arguments. None of these functions runs in
  \<open>catch_panic_response\<close>: a panic in them would cross the C boundary, so each returns
  an outcome, and the properties say for which arguments it is a value. The curve
  operations (crates \<open>bls_signatures\<close> and \<open>blstrs\<close>) are the record \<open>bls_lib\<close>.
\<close>

section \<open>The library\<close>

record ('sg, 'pk, 'sk, 'dg, 'rng) bls_lib =
  hash_sig :: "bytes \<Rightarrow> 'dg"
  dg_to_bytes :: "'dg \<Rightarrow> bytes"
  g2_from_compressed :: "bytes \<Rightarrow> 'dg option"
  sg_from_bytes :: "bytes \<Rightarrow> 'sg option"
  sg_as_bytes :: "'sg \<Rightarrow> bytes"
  sg_identity :: 'sg
  aggregate_sig :: "'sg list \<Rightarrow> 'sg option"
  pk_from_bytes :: "bytes \<Rightarrow> 'pk option"
  pk_as_bytes :: "'pk \<Rightarrow> bytes"
  sk_from_bytes :: "bytes \<Rightarrow> 'sk option"
  sk_as_bytes :: "'sk \<Rightarrow> bytes"
  sk_generate :: "'rng \<Rightarrow> 'sk"
  chacha_from_seed :: "bytes \<Rightarrow> 'rng"
  sk_sign :: "'sk \<Rightarrow> bytes \<Rightarrow> 'sg"
  sk_public_key :: "'sk \<Rightarrow> 'pk"
  verify_sig :: "'sg \<Rightarrow> 'dg list \<Rightarrow> 'pk list \<Rightarrow> bool"
  verify_messages_sig :: "'sg \<Rightarrow> bytes list \<Rightarrow> 'pk list \<Rightarrow> bool"

section \<open>The exported functions\<close>

definition SIGNATURE_BYTES :: nat where "SIGNATURE_BYTES = 96"
definition PRIVATE_KEY_BYTES :: nat where "PRIVATE_KEY_BYTES = 32"
definition PUBLIC_KEY_BYTES :: nat where "PUBLIC_KEY_BYTES = 48"
definition DIGEST_BYTES :: nat where "DIGEST_BYTES = 96"

text \<open>\<open>try_into().expect("known size")\<close> and \<open>write_bytes(..).expect("preallocated")\<close>.\<close>

definition into_array :: "nat \<Rightarrow> bytes \<Rightarrow> bytes exec" where
  "into_array n bs = (if length bs = n then Returns bs else Panics (StringPayload ''known size''))"

definition write_preallocated :: "nat \<Rightarrow> bytes \<Rightarrow> bytes exec" where
  "write_preallocated n bs =
     (case write_all (replicate n 0) bs of
        Some out \<Rightarrow> Returns out
      | None \<Rightarrow> Panics (StringPayload ''preallocated''))"

definition hash :: "('sg, 'pk, 'sk, 'dg, 'rng) bls_lib \<Rightarrow> bytes \<Rightarrow> bytes exec" where
  "hash B message = into_array DIGEST_BYTES (dg_to_bytes B (hash_sig B message))"

definition aggregate :: "('sg, 'pk, 'sk, 'dg, 'rng) bls_lib \<Rightarrow> bytes \<Rightarrow> bytes option exec" where
  "aggregate B flattened_signatures =
     (case those (map (sg_from_bytes B) (chunks SIGNATURE_BYTES flattened_signatures)) of
        None \<Rightarrow> Returns None
      | Some signatures \<Rightarrow>
          (case aggregate_sig B signatures of
             None \<Rightarrow> Returns None
           | Some aggregated \<Rightarrow>
               bind_exec (write_preallocated SIGNATURE_BYTES (sg_as_bytes B aggregated)) (\<lambda>signature.
               Returns (Some signature))))"

text \<open>The closure that decodes one digest; \<open>copy_from_slice\<close> panics on a length mismatch.\<close>

definition decode_digest ::
    "('sg, 'pk, 'sk, 'dg, 'rng) bls_lib \<Rightarrow> bytes \<Rightarrow> 'dg option exec" where
  "decode_digest B item =
     (if length item \<noteq> DIGEST_BYTES
      then Panics (StringPayload ''source slice length does not match destination slice length'')
      else Returns (g2_from_compressed B item))"

fun collect_exec :: "('a \<Rightarrow> 'b option exec) \<Rightarrow> 'a list \<Rightarrow> 'b list option exec" where
  "collect_exec f [] = Returns (Some [])"
| "collect_exec f (x # xs) =
     bind_exec (f x) (\<lambda>r.
     case r of
       None \<Rightarrow> Returns None
     | Some y \<Rightarrow> bind_exec (collect_exec f xs) (\<lambda>ys. Returns (map_option (Cons y) ys)))"

definition verify ::
    "('sg, 'pk, 'sk, 'dg, 'rng) bls_lib \<Rightarrow> bytes \<Rightarrow> bytes \<Rightarrow> bytes \<Rightarrow> bool exec" where
  "verify B signature flattened_digests flattened_public_keys =
     (case sg_from_bytes B signature of
        None \<Rightarrow> Returns False
      | Some sg \<Rightarrow>
          if length flattened_digests mod DIGEST_BYTES \<noteq> 0 then Returns False
          else if length flattened_public_keys mod PUBLIC_KEY_BYTES \<noteq> 0 then Returns False
          else if length flattened_digests div DIGEST_BYTES
               \<noteq> length flattened_public_keys div PUBLIC_KEY_BYTES then Returns False
          else
            bind_exec (collect_exec (decode_digest B) (chunks DIGEST_BYTES flattened_digests)) (\<lambda>ds.
            case ds of
              None \<Rightarrow> Returns False
            | Some digests \<Rightarrow>
                (case those (map (pk_from_bytes B) (chunks PUBLIC_KEY_BYTES flattened_public_keys)) of
                   None \<Rightarrow> Returns False
                 | Some public_keys \<Rightarrow> Returns (verify_sig B sg digests public_keys))))"

text \<open>\<open>&xs[a..b]\<close> with \<open>usize\<close> bounds: it panics unless \<open>a \<le> b \<le> xs.len()\<close>.\<close>

definition slice_range :: "'a list \<Rightarrow> u64 \<Rightarrow> u64 \<Rightarrow> 'a list exec" where
  "slice_range xs a b =
     (if a \<le> b \<and> unat b \<le> length xs
      then Returns (take (unat b - unat a) (drop (unat a) xs))
      else Panics (StringPayload ''range out of range for slice''))"

text \<open>The loop that cuts the messages out of the flattened buffer; \<open>offset\<close> is a
  \<open>usize\<close>, and its additions wrap.\<close>

fun split_messages :: "bytes \<Rightarrow> u64 \<Rightarrow> u64 list \<Rightarrow> bytes list exec" where
  "split_messages flattened_messages offset [] = Returns []"
| "split_messages flattened_messages offset (chunk_size # sizes) =
     bind_exec (slice_range flattened_messages offset (offset + chunk_size)) (\<lambda>m.
     bind_exec (split_messages flattened_messages (offset + chunk_size) sizes) (\<lambda>ms.
     Returns (m # ms)))"

definition hash_verify ::
    "('sg, 'pk, 'sk, 'dg, 'rng) bls_lib \<Rightarrow> bytes \<Rightarrow> bytes \<Rightarrow> u64 list \<Rightarrow> bytes \<Rightarrow> bool exec" where
  "hash_verify B signature flattened_messages message_sizes flattened_public_keys =
     (case sg_from_bytes B signature of
        None \<Rightarrow> Returns False
      | Some sg \<Rightarrow>
          bind_exec (split_messages flattened_messages 0 message_sizes) (\<lambda>messages.
          if length flattened_public_keys mod PUBLIC_KEY_BYTES \<noteq> 0 then Returns False
          else
            (case those (map (pk_from_bytes B) (chunks PUBLIC_KEY_BYTES flattened_public_keys)) of
               None \<Rightarrow> Returns False
             | Some public_keys \<Rightarrow> Returns (verify_messages_sig B sg messages public_keys))))"

definition private_key_generate ::
    "('sg, 'pk, 'sk, 'dg, 'rng) bls_lib \<Rightarrow> 'rng \<Rightarrow> bytes exec" where
  "private_key_generate B OsRng =
     write_preallocated PRIVATE_KEY_BYTES (sk_as_bytes B (sk_generate B OsRng))"

definition private_key_generate_with_seed ::
    "('sg, 'pk, 'sk, 'dg, 'rng) bls_lib \<Rightarrow> bytes \<Rightarrow> bytes exec" where
  "private_key_generate_with_seed B raw_seed =
     write_preallocated PRIVATE_KEY_BYTES (sk_as_bytes B (sk_generate B (chacha_from_seed B raw_seed)))"

definition private_key_sign ::
    "('sg, 'pk, 'sk, 'dg, 'rng) bls_lib \<Rightarrow> bytes \<Rightarrow> bytes \<Rightarrow> bytes option exec" where
  "private_key_sign B raw_private_key message =
     (case sk_from_bytes B raw_private_key of
        None \<Rightarrow> Returns None
      | Some private_key \<Rightarrow>
          bind_exec (write_preallocated SIGNATURE_BYTES (sg_as_bytes B (sk_sign B private_key message)))
            (\<lambda>raw_signature. Returns (Some raw_signature)))"

definition private_key_public_key ::
    "('sg, 'pk, 'sk, 'dg, 'rng) bls_lib \<Rightarrow> bytes \<Rightarrow> bytes option exec" where
  "private_key_public_key B raw_private_key =
     (case sk_from_bytes B raw_private_key of
        None \<Rightarrow> Returns None
      | Some private_key \<Rightarrow>
          bind_exec (write_preallocated PUBLIC_KEY_BYTES (pk_as_bytes B (sk_public_key B private_key)))
            (\<lambda>raw_public_key. Returns (Some raw_public_key)))"

definition create_zero_signature :: "('sg, 'pk, 'sk, 'dg, 'rng) bls_lib \<Rightarrow> bytes exec" where
  "create_zero_signature B = write_preallocated SIGNATURE_BYTES (sg_as_bytes B (sg_identity B))"

section \<open>The Go callers\<close>

text \<open>\<open>copy(buf[lo:hi], x)\<close>: as many bytes of \<open>x\<close> as fit overwrite the window.\<close>

definition go_copy :: "bytes \<Rightarrow> nat \<Rightarrow> nat \<Rightarrow> bytes \<Rightarrow> bytes" where
  "go_copy buf lo hi x =
     (let y = take (hi - lo) x in take lo buf @ y @ drop (lo + length y) buf)"

text \<open>The loop \<open>copy(flat[n*idx : n*(1+idx)], x[:])\<close> over the values of size \<open>n\<close>.\<close>

definition go_flatten :: "nat \<Rightarrow> bytes list \<Rightarrow> bytes" where
  "go_flatten n xs =
     foldl (\<lambda>flat (idx, x). go_copy flat (n * idx) (n * (1 + idx)) x)
       (replicate (n * length xs) 0) (enumerate 0 xs)"

definition go_Verify ::
    "('sg, 'pk, 'sk, 'dg, 'rng) bls_lib \<Rightarrow> bytes \<Rightarrow> bytes list \<Rightarrow> bytes list \<Rightarrow> bool exec" where
  "go_Verify B signature digests publicKeys =
     verify B signature (go_flatten DIGEST_BYTES digests) (go_flatten PUBLIC_KEY_BYTES publicKeys)"

definition go_HashVerify ::
    "('sg, 'pk, 'sk, 'dg, 'rng) bls_lib \<Rightarrow> bytes \<Rightarrow> bytes list \<Rightarrow> bytes list \<Rightarrow> bool exec" where
  "go_HashVerify B signature messages publicKeys =
     hash_verify B signature
       (foldl (@) [] messages)
       (map (\<lambda>m. word_of_nat (length m)) messages)
       (go_flatten PUBLIC_KEY_BYTES publicKeys)"

definition go_Aggregate ::
    "('sg, 'pk, 'sk, 'dg, 'rng) bls_lib \<Rightarrow> bytes list \<Rightarrow> bytes option exec" where
  "go_Aggregate B signatures = aggregate B (go_flatten SIGNATURE_BYTES signatures)"

lemmas bls_sizes [simp] =
  SIGNATURE_BYTES_def PRIVATE_KEY_BYTES_def PUBLIC_KEY_BYTES_def DIGEST_BYTES_def

lemmas bls_defs [ffi_defs] =
  hash_def aggregate_def verify_def hash_verify_def private_key_generate_def
  private_key_generate_with_seed_def private_key_sign_def private_key_public_key_def
  create_zero_signature_def write_preallocated_def into_array_def

section \<open>Flattening\<close>

lemma go_flatten_loop:
  assumes "\<forall>x \<in> set xs. length x = n" and "length pre = n * k"
  shows "foldl (\<lambda>flat (idx, x). go_copy flat (n * idx) (n * (1 + idx)) x)
           (pre @ replicate (n * length xs) 0) (enumerate k xs) = pre @ concat xs"
  using assms
proof (induction xs arbitrary: pre k)
  case Nil
  then show ?case by simp
next
  case (Cons x xs)
  have "go_copy (pre @ replicate (n * length (x # xs)) 0) (n * k) (n * (1 + k)) x
      = (pre @ x) @ replicate (n * length xs) 0"
    using Cons.prems by (simp add: go_copy_def Let_def)
  with Cons.IH [of "pre @ x" "Suc k"] Cons.prems show ?case by simp
qed

lemma go_flatten_concat: "\<forall>x \<in> set xs. length x = n \<Longrightarrow> go_flatten n xs = concat xs"
  using go_flatten_loop [of xs n "[]" 0] by (simp add: go_flatten_def)

lemma length_concat_same: "\<forall>x \<in> set xs. length x = n \<Longrightarrow> length (concat xs) = n * length xs"
  by (induction xs) auto

lemma length_le_concat: "x \<in> set xs \<Longrightarrow> length x \<le> length (concat xs)"
  by (induction xs) auto

lemma foldl_append_concat: "foldl (@) ys xs = ys @ concat xs"
  by (induction xs arbitrary: ys) auto

section \<open>Outcomes of the closures and loops\<close>

lemma collect_exec_Returns:
  assumes "list_all (\<lambda>x. f x = Returns (g x)) xs"
  shows "collect_exec f xs = Returns (those (map g xs))"
  using assms by (induction xs) (auto split: option.splits)

lemma collect_decode_digest:
  assumes "length fd mod 96 = 0"
  shows "collect_exec (decode_digest B) (chunks 96 fd) = Returns (those (map (g2_from_compressed B) (chunks 96 fd)))"
proof (rule collect_exec_Returns)
  have "list_all (\<lambda>c. length c = 96) (chunks 96 fd)"
    using assms by (rule chunks_lengths) simp
  then show "list_all (\<lambda>x. decode_digest B x = Returns (g2_from_compressed B x)) (chunks 96 fd)"
    by (rule list.pred_mono_strong) (simp add: decode_digest_def)
qed

text \<open>The sizes as numbers, without the wrap of \<open>usize\<close>.\<close>

abbreviation total_size :: "u64 list \<Rightarrow> nat" where
  "total_size sizes \<equiv> sum_list (map unat sizes)"

fun cut :: "nat list \<Rightarrow> 'a list \<Rightarrow> 'a list list" where
  "cut [] xs = []"
| "cut (n # ns) xs = take n xs # cut ns (drop n xs)"

lemma cut_concat: "cut (map length xss) (concat xss) = xss"
  by (induction xss) auto

lemma unat_add_no_wrap:
  fixes a b :: u64
  assumes "a \<le> a + b"
  shows "unat (a + b) = unat a + unat b"
  using assms by (simp add: unat_plus_simple)

text \<open>With a buffer no longer than \<open>isize::MAX\<close> allows, the loop returns exactly when the
  sizes fit in the buffer, and then it cuts the buffer into pieces of these sizes.\<close>

lemma split_messages_eq:
  assumes "length fm < 2 ^ 63" and "unat offset \<le> length fm"
  shows "split_messages fm offset sizes =
    (if unat offset + total_size sizes \<le> length fm
     then Returns (cut (map unat sizes) (drop (unat offset) fm))
     else Panics (StringPayload ''range out of range for slice''))"
  using assms(2)
proof (induction sizes arbitrary: offset)
  case Nil
  then show ?case by simp
next
  case (Cons c sizes)
  show ?case
  proof (cases "offset \<le> offset + c \<and> unat (offset + c) \<le> length fm")
    case True
    then have u: "unat (offset + c) = unat offset + unat c" by (simp add: unat_add_no_wrap)
    with True Cons.IH [of "offset + c"] show ?thesis
      by (simp add: slice_range_def add.commute add.left_commute)
  next
    case False
    have "length fm < unat offset + unat c"
    proof (cases "unat offset + unat c < 2 ^ 64")
      case True
      then have "unat (offset + c) = unat offset + unat c"
        by (simp add: unat_word_ariths)
      moreover have "offset \<le> offset + c"
        using calculation by (simp add: word_le_nat_alt)
      ultimately show ?thesis using False by simp
    qed (use assms(1) in simp)
    with False show ?thesis by (auto simp: slice_range_def)
  qed
qed

lemma write_preallocated_exact: "length bs = n \<Longrightarrow> write_preallocated n bs = Returns bs"
  by (simp add: write_preallocated_def)

lemma chunks_decoded_length:
  assumes "length xs mod n = 0" and "0 < n" and "map f (chunks n xs) = map Some ys"
  shows "length xs = n * length ys"
proof -
  have "length (chunks n xs) = length ys" using assms(3) by (metis length_map)
  then have "length ys = length xs div n" using length_chunks [OF assms(1,2)] by simp
  with assms(1,2) show ?thesis by auto
qed

lemma misaligned_chunk:
  assumes "length xs mod n \<noteq> 0" and "0 < n"
  shows "\<exists>c \<in> set (chunks n xs). length c \<noteq> n"
proof (rule ccontr)
  assume "\<not> ?thesis"
  then have "length (concat (chunks n xs)) = n * length (chunks n xs)"
    by (intro length_concat_same) blast
  with assms show False by (simp add: concat_chunks)
qed

text \<open>What the curve libraries document: fixed sizes and serialisation that can be read back.\<close>

definition digest_codec :: "('sg, 'pk, 'sk, 'dg, 'rng) bls_lib \<Rightarrow> bool" where
  "digest_codec B \<longleftrightarrow> (\<forall>x. length (dg_to_bytes B x) = 96 \<and> g2_from_compressed B (dg_to_bytes B x) = Some x)"

definition bls_contract :: "('sg, 'pk, 'sk, 'dg, 'rng) bls_lib \<Rightarrow> bool" where
  "bls_contract B \<longleftrightarrow>
     (\<forall>x. length (sg_as_bytes B x) = 96 \<and> sg_from_bytes B (sg_as_bytes B x) = Some x) \<and>
     (\<forall>x. length (pk_as_bytes B x) = 48 \<and> pk_from_bytes B (pk_as_bytes B x) = Some x) \<and>
     (\<forall>x. length (sk_as_bytes B x) = 32 \<and> sk_from_bytes B (sk_as_bytes B x) = Some x) \<and>
     digest_codec B"

text \<open>A key whose signatures the library accepts, as single signatures: every key but the zero key.\<close>

definition verifies_own :: "('sg, 'pk, 'sk, 'dg, 'rng) bls_lib \<Rightarrow> 'sk \<Rightarrow> bool" where
  "verifies_own B k \<longleftrightarrow>
     (\<forall>m. verify_sig B (sk_sign B k m) [hash_sig B m] [sk_public_key B k]) \<and>
     (\<forall>m. verify_messages_sig B (sk_sign B k m) [m] [sk_public_key B k])"

text \<open>A library of byte strings that satisfies it: a signature is the padded message.\<close>

typedef b96 = "{b :: bytes. length b = 96}" by (rule exI [of _ "replicate 96 0"]) simp
typedef b48 = "{b :: bytes. length b = 48}" by (rule exI [of _ "replicate 48 0"]) simp
typedef b32 = "{b :: bytes. length b = 32}" by (rule exI [of _ "replicate 32 0"]) simp

definition pad :: "nat \<Rightarrow> bytes \<Rightarrow> bytes" where
  "pad n b = take n b @ replicate (n - length b) 0"

definition sample_bls :: "(b96, b48, b32, b96, bytes) bls_lib" where
  "sample_bls = \<lparr>
     hash_sig = (\<lambda>m. Abs_b96 (pad 96 m)),
     dg_to_bytes = Rep_b96,
     g2_from_compressed = (\<lambda>b. if length b = 96 then Some (Abs_b96 b) else None),
     sg_from_bytes = (\<lambda>b. if length b = 96 then Some (Abs_b96 b) else None),
     sg_as_bytes = Rep_b96,
     sg_identity = Abs_b96 (replicate 96 0),
     aggregate_sig = (\<lambda>sgs. if sgs = [] then None else Some (hd sgs)),
     pk_from_bytes = (\<lambda>b. if length b = 48 then Some (Abs_b48 b) else None),
     pk_as_bytes = Rep_b48,
     sk_from_bytes = (\<lambda>b. if length b = 32 then Some (Abs_b32 b) else None),
     sk_as_bytes = Rep_b32,
     sk_generate = (\<lambda>r. Abs_b32 (pad 32 r)),
     chacha_from_seed = id,
     sk_sign = (\<lambda>k m. Abs_b96 (pad 96 m)),
     sk_public_key = (\<lambda>k. Abs_b48 (pad 48 (Rep_b32 k))),
     verify_sig = (\<lambda>sg ds ks. ds = [sg] \<and> length ks = 1),
     verify_messages_sig = (\<lambda>sg ms ks. map (\<lambda>m. Abs_b96 (pad 96 m)) ms = [sg] \<and> length ks = 1)\<rparr>"

lemma length_pad [simp]: "length (pad n b) = n"
  by (simp add: pad_def)

lemma Rep_lengths [simp]: "length (Rep_b96 x) = 96" "length (Rep_b48 y) = 48" "length (Rep_b32 z) = 32"
  using Rep_b96 [of x] Rep_b48 [of y] Rep_b32 [of z] by auto

lemma sample_bls_contract: "bls_contract sample_bls"
  by (simp add: bls_contract_def digest_codec_def sample_bls_def Rep_b96_inverse Rep_b48_inverse Rep_b32_inverse)

section \<open>Properties\<close>

text \<open>\<open>verify\<close> always returns: whatever bytes it is given, the length checks before the
  digest loop keep \<open>copy_from_slice\<close> from panicking. It answers true exactly when the
  signature, every digest and every public key decode, there are as many digests as public
  keys with no bytes left over, and the library accepts them in that order.\<close>
lemma verify_outcome:
  "verify B signature fd fp = Returns (\<exists>sg ds ks.
     sg_from_bytes B signature = Some sg \<and>
     length fd = DIGEST_BYTES * length ds \<and> length fp = PUBLIC_KEY_BYTES * length ks \<and>
     length ds = length ks \<and>
     map (g2_from_compressed B) (chunks DIGEST_BYTES fd) = map Some ds \<and>
     map (pk_from_bytes B) (chunks PUBLIC_KEY_BYTES fp) = map Some ks \<and>
     verify_sig B sg ds ks)"
proof (cases "length fd mod 96 = 0 \<and> length fp mod 48 = 0 \<and> length fd div 96 = length fp div 48")
  case True
  then have c: "collect_exec (decode_digest B) (chunks 96 fd) =
      Returns (those (map (g2_from_compressed B) (chunks 96 fd)))"
    using collect_decode_digest [of fd B] by simp
  have len: "length fd = 96 * length ds \<and> length fp = 48 * length ks \<and> length ds = length ks"
    if "map (g2_from_compressed B) (chunks 96 fd) = map Some ds"
      and "map (pk_from_bytes B) (chunks 48 fp) = map Some ks" for ds ks
  proof -
    have "length fd = 96 * length ds"
      by (rule chunks_decoded_length [OF _ _ that(1)]) (use True in simp_all)
    moreover have "length fp = 48 * length ks"
      by (rule chunks_decoded_length [OF _ _ that(2)]) (use True in simp_all)
    ultimately show ?thesis using True by simp
  qed
  show ?thesis
    using True c len by (auto simp: verify_def those_eq_Some_iff split: option.splits)
next
  case False
  then have "\<not> (\<exists>ds ks. length fd = 96 * length ds \<and> length fp = 48 * length ks \<and> length ds = length ks)"
    by auto
  moreover from False have "verify B signature fd fp = Returns False"
    by (auto simp: verify_def split: option.splits)
  ultimately show ?thesis by auto
qed


text \<open>C12: the outcome of \<open>hash_verify\<close> on every branch. A signature that does not decode is
  false, before anything else is read. The sizes are not guarded against overrunning the
  flattened messages: with a signature that decodes it panics exactly when the sizes add
  up to more than the buffer holds (also when their sum wraps around in \<open>usize\<close>). Otherwise
  it is false when the keys are not whole or one of them does not decode, and else it is the
  library's verdict on the consecutive pieces of the buffer of these sizes.\<close>
theorem hash_verify_outcome:
  assumes "length fm < 2 ^ 63"
  shows "hash_verify B signature fm sizes fp =
    (case sg_from_bytes B signature of
       None \<Rightarrow> Returns False
     | Some sg \<Rightarrow>
         if total_size sizes \<le> length fm
         then Returns (\<exists>ks. length fp = PUBLIC_KEY_BYTES * length ks \<and>
                map (pk_from_bytes B) (chunks PUBLIC_KEY_BYTES fp) = map Some ks \<and>
                verify_messages_sig B sg (cut (map unat sizes) fm) ks)
         else Panics (StringPayload ''range out of range for slice''))"
proof (cases "sg_from_bytes B signature")
  case None
  then show ?thesis by (simp add: hash_verify_def)
next
  case (Some sg)
  show ?thesis
  proof (cases "total_size sizes \<le> length fm")
    case True
    then have s: "split_messages fm 0 sizes = Returns (cut (map unat sizes) fm)"
      using split_messages_eq [OF assms, of 0 sizes] by simp
    show ?thesis
    proof (cases "length fp mod 48 = 0")
      case True
      with s \<open>total_size sizes \<le> length fm\<close> Some chunks_decoded_length [OF True, of "pk_from_bytes B"]
      show ?thesis by (auto simp: hash_verify_def those_eq_Some_iff split: option.splits)
    next
      case False
      with s \<open>total_size sizes \<le> length fm\<close> Some show ?thesis by (auto simp: hash_verify_def)
    qed
  next
    case False
    then have "split_messages fm 0 sizes = Panics (StringPayload ''range out of range for slice'')"
      using split_messages_eq [OF assms, of 0 sizes] by simp
    with False Some show ?thesis by (simp add: hash_verify_def)
  qed
qed

theorem hash_verify_outcome_witness:
  "hash_verify sample_bls (replicate 96 0) [1, 2, 3] [2, 5] [] =
     Panics (StringPayload ''range out of range for slice'') \<and>
   hash_verify sample_bls [] [1, 2, 3] [2, 5] [] = Returns False \<and>
   length ([1, 2, 3] :: bytes) < 2 ^ 63"
proof -
  have h: "sg_from_bytes sample_bls (replicate 96 0) = Some (Abs_b96 (replicate 96 0))"
    and n: "sg_from_bytes sample_bls [] = None"
    by (simp_all add: sample_bls_def)
  have l: "length ([1, 2, 3] :: bytes) < 2 ^ 63" by simp
  show ?thesis
    using h n l hash_verify_outcome [OF l, of sample_bls "replicate 96 0" "[2, 5]" "[]"]
      hash_verify_outcome [OF l, of sample_bls "[]" "[2, 5]" "[]"] by simp
qed

text \<open>The Go caller \<open>HashVerify\<close> and the Rust \<open>hash_verify\<close> agree on the flattening: for
  any messages and any 48-byte keys no panic crosses the boundary, and what the library
  verifies are the caller's messages and keys, in order.\<close>
lemma go_HashVerify_run:
  assumes "\<forall>k \<in> set publicKeys. length k = 48"
    and "length (concat messages) < 2 ^ 63"
  shows "go_HashVerify B signature messages publicKeys =
    Returns (\<exists>sg ks. sg_from_bytes B signature = Some sg \<and>
      map (pk_from_bytes B) publicKeys = map Some ks \<and> verify_messages_sig B sg messages ks)"
proof (cases "sg_from_bytes B signature")
  case None
  then show ?thesis by (simp add: go_HashVerify_def hash_verify_def)
next
  case (Some sg)
  let ?sizes = "map (\<lambda>m. word_of_nat (length m) :: u64) messages"
  have un: "unat (word_of_nat (length m) :: u64) = length m" if "m \<in> set messages" for m
  proof -
    have "length m \<le> length (concat messages)"
      using that by (rule length_le_concat)
    then show ?thesis using assms(2) by (simp add: unat_of_nat)
  qed
  then have sizes: "map unat ?sizes = map length messages" by simp
  then have "total_size ?sizes = length (concat messages)" by (simp only: length_concat)
  moreover have "go_flatten 48 publicKeys = concat publicKeys"
    by (rule go_flatten_concat) (rule assms(1))
  moreover have "chunks 48 (concat publicKeys) = publicKeys"
    by (rule chunks_concat) (use assms(1) in simp_all)
  moreover have "split_messages (concat messages) 0 ?sizes = Returns messages"
    using calculation(1) split_messages_eq [OF assms(2), of 0 ?sizes] cut_concat [of messages]
    by (simp only: sizes) simp
  moreover have "length (concat publicKeys) mod 48 = 0"
    using length_concat_same [OF assms(1)] by simp
  ultimately show ?thesis
    using Some by (auto simp: go_HashVerify_def hash_verify_def foldl_append_concat those_eq_Some_iff
                        split: option.splits)
qed

text \<open>The Go caller \<open>Verify\<close> and the Rust \<open>verify\<close> agree on the flattening of digests and
  public keys: the library verifies the caller's digests and keys, in order, and lists of
  different lengths never verify.\<close>
lemma go_Verify_run:
  assumes "\<forall>d \<in> set digests. length d = 96" and "\<forall>k \<in> set publicKeys. length k = 48"
  shows "go_Verify B signature digests publicKeys =
    Returns (\<exists>sg ds ks. sg_from_bytes B signature = Some sg \<and> length ds = length ks \<and>
      map (g2_from_compressed B) digests = map Some ds \<and>
      map (pk_from_bytes B) publicKeys = map Some ks \<and> verify_sig B sg ds ks)"
proof -
  have "go_flatten 96 digests = concat digests" "go_flatten 48 publicKeys = concat publicKeys"
    using assms by (simp_all add: go_flatten_concat)
  moreover have "chunks 96 (concat digests) = digests" "chunks 48 (concat publicKeys) = publicKeys"
    using assms by (simp_all add: chunks_concat)
  moreover have "length (concat digests) = 96 * length digests"
      "length (concat publicKeys) = 48 * length publicKeys"
    using assms by (simp_all add: length_concat_same)
  moreover have "collect_exec (decode_digest B) (chunks 96 (concat digests)) =
      Returns (those (map (g2_from_compressed B) (chunks 96 (concat digests))))"
    by (rule collect_decode_digest) (simp add: calculation)
  ultimately show ?thesis
    by (auto simp: go_Verify_def verify_def those_eq_Some_iff split: option.splits)
       (metis length_map)+
qed

text \<open>\<open>aggregate\<close> answers \<open>None\<close> on a byte string that is not a whole number of
  signatures (the library rejects a signature of the wrong size), and otherwise gives
  the 96 bytes of the library's aggregate of the signatures in order, or \<open>None\<close>.\<close>
lemma aggregate_run:
  assumes "\<And>b. length b \<noteq> 96 \<Longrightarrow> sg_from_bytes B b = None"
    and "\<And>sg. length (sg_as_bytes B sg) = 96"
  shows "aggregate B fs = Returns
    (if length fs mod SIGNATURE_BYTES \<noteq> 0 then None
     else Option.bind (those (map (sg_from_bytes B) (chunks SIGNATURE_BYTES fs)))
       (\<lambda>sgs. map_option (sg_as_bytes B) (aggregate_sig B sgs)))"
proof (cases "length fs mod 96 = 0")
  case True
  with assms(2) show ?thesis
    by (auto simp: aggregate_def write_preallocated_exact split: option.splits)
next
  case False
  then obtain c where c: "c \<in> set (chunks 96 fs)" "length c \<noteq> 96"
    using misaligned_chunk [of fs 96] by auto
  have "those (map (sg_from_bytes B) (chunks 96 fs)) = None"
  proof (cases "those (map (sg_from_bytes B) (chunks 96 fs))")
    case (Some sgs)
    then have "map (sg_from_bytes B) (chunks 96 fs) = map Some sgs"
      by (simp only: those_eq_Some_iff)
    with c(1) have "sg_from_bytes B c \<in> set (map Some sgs)"
      by (metis image_eqI list.set_map)
    with assms(1) [OF c(2)] show ?thesis by auto
  qed
  with False show ?thesis by (simp add: aggregate_def)
qed

end
