(* ===== verification/Responses.thy ===== *)
theory Responses
  imports Boxes Proofs_Update Fvm_Machine Bls
begin

text \<open>
  The responses as they lie in memory: the type aliases and \<open>repr(C)\<close> structs of
  \<open>rust/src/proofs/types.rs\<close> and \<open>fvm/types.rs\<close> as layouts, the destructors that
  \<open>proofs/api.rs\<close>, \<open>fvm/machine.rs\<close>, \<open>util/types.rs\<close> and \<open>bls/api.rs\<close> export, and the \<open>destroy\<close>
  methods of \<open>cgo/types.go\<close> that call them. The Go wrapper of an exported function reads
  the status, copies the error or the value, and destroys the response (\<open>go_call\<close>). The
  locale \<open>ffi_type\<close> says when a HOL type is what a layout describes; it is interpreted on
  the value type of each response.
\<close>

section \<open>The value types of the responses\<close>

text \<open>The types \<open>T\<close> for which a \<open>Result<T>\<close> is exported, by the name that the header gives them.\<close>

datatype value_type =
    R_void
  | R_bool
  | R_array32
  | R_size
  | R_slice_uint8
  | R_slice_uint64
  | R_slice_slice_uint8
  | R_slice_PoStProof
  | R_PoStProof
  | R_GeneratePieceCommitment
  | R_WriteWithAlignment
  | R_WriteWithoutAlignment
  | R_SealPreCommitPhase2
  | R_GenerateFallbackSectorChallenges
  | R_GenerateWindowPoSt
  | R_GenerateSingleWindowPoStWithVanilla
  | R_EmptySectorUpdateEncodeInto
  | R_InnerFvmMachine_ptr
  | R_FvmMachineExecuteResponse

abbreviation slice_uint8 :: layout where "slice_uint8 \<equiv> TSlice TPlain"
abbreviation slice_uint64 :: layout where "slice_uint64 \<equiv> TSlice TPlain"

definition PoStProof_layout :: layout where
  "PoStProof_layout = TStruct [TPlain, slice_uint8]"

definition PartitionSnarkProof_layout :: layout where
  "PartitionSnarkProof_layout = TStruct [TPlain, slice_uint8]"

definition PrivateReplicaInfo_layout :: layout where
  "PrivateReplicaInfo_layout = TStruct [TPlain, slice_uint8, TPlain, slice_uint8, TPlain]"

definition GenerateFallbackSectorChallenges_layout :: layout where
  "GenerateFallbackSectorChallenges_layout = TStruct [slice_uint64, TSlice slice_uint64]"

definition GenerateWindowPoSt_layout :: layout where
  "GenerateWindowPoSt_layout = TStruct [TSlice PoStProof_layout, slice_uint64]"

definition GenerateSingleWindowPoStWithVanilla_layout :: layout where
  "GenerateSingleWindowPoStWithVanilla_layout = TStruct [PartitionSnarkProof_layout, slice_uint64]"

definition FvmMachineExecuteResponse_layout :: layout where
  "FvmMachineExecuteResponse_layout =
     TStruct [TPlain, TOption slice_uint8, TPlain, TPlain, TPlain, TPlain, TPlain, TOption slice_uint8,
       TOption slice_uint8]"

text \<open>The machine behind the pointer is opaque to C; it is one allocation here.\<close>

definition FvmMachine_layout :: layout where
  "FvmMachine_layout = TOption (TBox TPlain)"

fun value_layout :: "value_type \<Rightarrow> layout" where
  "value_layout R_slice_uint8 = slice_uint8"
| "value_layout R_slice_uint64 = slice_uint64"
| "value_layout R_slice_slice_uint8 = TSlice slice_uint8"
| "value_layout R_slice_PoStProof = TSlice PoStProof_layout"
| "value_layout R_PoStProof = PoStProof_layout"
| "value_layout R_GeneratePieceCommitment = TStruct [TPlain, TPlain]"
| "value_layout R_WriteWithAlignment = TStruct [TPlain, TPlain, TPlain]"
| "value_layout R_WriteWithoutAlignment = TStruct [TPlain, TPlain]"
| "value_layout R_SealPreCommitPhase2 = TStruct [TPlain, TPlain, TPlain]"
| "value_layout R_GenerateFallbackSectorChallenges = GenerateFallbackSectorChallenges_layout"
| "value_layout R_GenerateWindowPoSt = GenerateWindowPoSt_layout"
| "value_layout R_GenerateSingleWindowPoStWithVanilla = GenerateSingleWindowPoStWithVanilla_layout"
| "value_layout R_EmptySectorUpdateEncodeInto = TStruct [TPlain, TPlain, TPlain]"
| "value_layout R_InnerFvmMachine_ptr = FvmMachine_layout"
| "value_layout R_FvmMachineExecuteResponse = FvmMachineExecuteResponse_layout"
| "value_layout _ = TPlain"

text \<open>\<open>Result<T>\<close>: status, message, value.\<close>

definition Result_layout :: "value_type \<Rightarrow> layout" where
  "Result_layout t = TStruct [TPlain, slice_uint8, value_layout t]"

section \<open>The response types\<close>

definition AggregateProof :: value_type where "AggregateProof = R_slice_uint8"
definition GenerateWinningPoStSectorChallenge :: value_type where
  "GenerateWinningPoStSectorChallenge = R_slice_uint64"
definition GenerateFallbackSectorChallengesResponse :: value_type where
  "GenerateFallbackSectorChallengesResponse = R_GenerateFallbackSectorChallenges"
definition GenerateSingleVanillaProofResponse :: value_type where
  "GenerateSingleVanillaProofResponse = R_slice_uint8"
definition GenerateWinningPoStResponse :: value_type where "GenerateWinningPoStResponse = R_slice_PoStProof"
definition GenerateWindowPoStResponse :: value_type where "GenerateWindowPoStResponse = R_GenerateWindowPoSt"
definition GenerateSingleWindowPoStWithVanillaResponse :: value_type where
  "GenerateSingleWindowPoStWithVanillaResponse = R_GenerateSingleWindowPoStWithVanilla"
definition GetNumPartitionForFallbackPoStResponse :: value_type where
  "GetNumPartitionForFallbackPoStResponse = R_size"
definition MergeWindowPoStPartitionProofsResponse :: value_type where
  "MergeWindowPoStPartitionProofsResponse = R_PoStProof"
definition WriteWithAlignmentResponse :: value_type where "WriteWithAlignmentResponse = R_WriteWithAlignment"
definition WriteWithoutAlignmentResponse :: value_type where
  "WriteWithoutAlignmentResponse = R_WriteWithoutAlignment"
definition SealPreCommitPhase1Response :: value_type where "SealPreCommitPhase1Response = R_slice_uint8"
definition FauxRepResponse :: value_type where "FauxRepResponse = R_array32"
definition SealPreCommitPhase2Response :: value_type where "SealPreCommitPhase2Response = R_SealPreCommitPhase2"
definition SealCommitPhase1Response :: value_type where "SealCommitPhase1Response = R_slice_uint8"
definition SealCommitPhase2Response :: value_type where "SealCommitPhase2Response = R_slice_uint8"
definition UnsealRangeResponse :: value_type where "UnsealRangeResponse = R_void"
definition VerifySealResponse :: value_type where "VerifySealResponse = R_bool"
definition VerifyAggregateSealProofResponse :: value_type where "VerifyAggregateSealProofResponse = R_bool"
definition VerifyWinningPoStResponse :: value_type where "VerifyWinningPoStResponse = R_bool"
definition VerifyWindowPoStResponse :: value_type where "VerifyWindowPoStResponse = R_bool"
definition FinalizeTicketResponse :: value_type where "FinalizeTicketResponse = R_array32"
definition GeneratePieceCommitmentResponse :: value_type where
  "GeneratePieceCommitmentResponse = R_GeneratePieceCommitment"
definition GenerateDataCommitmentResponse :: value_type where "GenerateDataCommitmentResponse = R_array32"
definition StringResponse :: value_type where "StringResponse = R_slice_uint8"
definition ClearCacheResponse :: value_type where "ClearCacheResponse = R_void"
definition EmptySectorUpdateEncodeIntoResponse :: value_type where
  "EmptySectorUpdateEncodeIntoResponse = R_EmptySectorUpdateEncodeInto"
definition EmptySectorUpdateDecodeFromResponse :: value_type where
  "EmptySectorUpdateDecodeFromResponse = R_void"
definition EmptySectorUpdateRemoveEncodedDataResponse :: value_type where
  "EmptySectorUpdateRemoveEncodedDataResponse = R_void"
definition EmptySectorUpdateProofResponse :: value_type where "EmptySectorUpdateProofResponse = R_slice_uint8"
definition PartitionProofResponse :: value_type where "PartitionProofResponse = R_slice_slice_uint8"
definition VerifyPartitionProofResponse :: value_type where "VerifyPartitionProofResponse = R_bool"
definition VerifyEmptySectorUpdateProofResponse :: value_type where
  "VerifyEmptySectorUpdateProofResponse = R_bool"
definition GpuDeviceResponse :: value_type where "GpuDeviceResponse = R_slice_slice_uint8"
definition InitLogFdResponse :: value_type where "InitLogFdResponse = R_void"

lemmas response_types =
  AggregateProof_def GenerateWinningPoStSectorChallenge_def GenerateFallbackSectorChallengesResponse_def
  GenerateSingleVanillaProofResponse_def GenerateWinningPoStResponse_def GenerateWindowPoStResponse_def
  GenerateSingleWindowPoStWithVanillaResponse_def GetNumPartitionForFallbackPoStResponse_def
  MergeWindowPoStPartitionProofsResponse_def WriteWithAlignmentResponse_def WriteWithoutAlignmentResponse_def
  SealPreCommitPhase1Response_def FauxRepResponse_def SealPreCommitPhase2Response_def
  SealCommitPhase1Response_def SealCommitPhase2Response_def UnsealRangeResponse_def VerifySealResponse_def
  VerifyAggregateSealProofResponse_def VerifyWinningPoStResponse_def VerifyWindowPoStResponse_def
  FinalizeTicketResponse_def GeneratePieceCommitmentResponse_def GenerateDataCommitmentResponse_def
  StringResponse_def ClearCacheResponse_def EmptySectorUpdateEncodeIntoResponse_def
  EmptySectorUpdateDecodeFromResponse_def EmptySectorUpdateRemoveEncodedDataResponse_def
  EmptySectorUpdateProofResponse_def PartitionProofResponse_def VerifyPartitionProofResponse_def
  VerifyEmptySectorUpdateProofResponse_def GpuDeviceResponse_def InitLogFdResponse_def

section \<open>Destructors\<close>

text \<open>\<open>destructor!(name, type)\<close> for the response types; a \<open>repr_c::Box\<close> of the type is dropped.\<close>

definition destroy_response :: "value_type \<Rightarrow> cval \<Rightarrow> heap \<Rightarrow> heap option" where
  "destroy_response t = destructor (Result_layout t)"

definition destroy_write_with_alignment_response :: "cval \<Rightarrow> heap \<Rightarrow> heap option" where
  "destroy_write_with_alignment_response = destroy_response WriteWithAlignmentResponse"
definition destroy_write_without_alignment_response :: "cval \<Rightarrow> heap \<Rightarrow> heap option" where
  "destroy_write_without_alignment_response = destroy_response WriteWithoutAlignmentResponse"
definition destroy_fauxrep_response :: "cval \<Rightarrow> heap \<Rightarrow> heap option" where
  "destroy_fauxrep_response = destroy_response FauxRepResponse"
definition destroy_seal_pre_commit_phase1_response :: "cval \<Rightarrow> heap \<Rightarrow> heap option" where
  "destroy_seal_pre_commit_phase1_response = destroy_response SealPreCommitPhase1Response"
definition destroy_seal_pre_commit_phase2_response :: "cval \<Rightarrow> heap \<Rightarrow> heap option" where
  "destroy_seal_pre_commit_phase2_response = destroy_response SealPreCommitPhase2Response"
definition destroy_seal_commit_phase1_response :: "cval \<Rightarrow> heap \<Rightarrow> heap option" where
  "destroy_seal_commit_phase1_response = destroy_response SealCommitPhase1Response"
definition destroy_seal_commit_phase2_response :: "cval \<Rightarrow> heap \<Rightarrow> heap option" where
  "destroy_seal_commit_phase2_response = destroy_response SealCommitPhase2Response"
definition destroy_unseal_range_response :: "cval \<Rightarrow> heap \<Rightarrow> heap option" where
  "destroy_unseal_range_response = destroy_response UnsealRangeResponse"
definition destroy_generate_piece_commitment_response :: "cval \<Rightarrow> heap \<Rightarrow> heap option" where
  "destroy_generate_piece_commitment_response = destroy_response GeneratePieceCommitmentResponse"
definition destroy_generate_data_commitment_response :: "cval \<Rightarrow> heap \<Rightarrow> heap option" where
  "destroy_generate_data_commitment_response = destroy_response GenerateDataCommitmentResponse"
definition destroy_string_response :: "cval \<Rightarrow> heap \<Rightarrow> heap option" where
  "destroy_string_response = destroy_response StringResponse"
definition destroy_verify_seal_response :: "cval \<Rightarrow> heap \<Rightarrow> heap option" where
  "destroy_verify_seal_response = destroy_response VerifySealResponse"
definition destroy_verify_aggregate_seal_response :: "cval \<Rightarrow> heap \<Rightarrow> heap option" where
  "destroy_verify_aggregate_seal_response = destroy_response VerifyAggregateSealProofResponse"
definition destroy_finalize_ticket_response :: "cval \<Rightarrow> heap \<Rightarrow> heap option" where
  "destroy_finalize_ticket_response = destroy_response FinalizeTicketResponse"
definition destroy_verify_winning_post_response :: "cval \<Rightarrow> heap \<Rightarrow> heap option" where
  "destroy_verify_winning_post_response = destroy_response VerifyWinningPoStResponse"
definition destroy_verify_window_post_response :: "cval \<Rightarrow> heap \<Rightarrow> heap option" where
  "destroy_verify_window_post_response = destroy_response VerifyWindowPoStResponse"
definition destroy_generate_fallback_sector_challenges_response :: "cval \<Rightarrow> heap \<Rightarrow> heap option" where
  "destroy_generate_fallback_sector_challenges_response = destroy_response GenerateFallbackSectorChallengesResponse"
definition destroy_generate_single_vanilla_proof_response :: "cval \<Rightarrow> heap \<Rightarrow> heap option" where
  "destroy_generate_single_vanilla_proof_response = destroy_response GenerateSingleVanillaProofResponse"
definition destroy_generate_single_window_post_with_vanilla_response :: "cval \<Rightarrow> heap \<Rightarrow> heap option" where
  "destroy_generate_single_window_post_with_vanilla_response = destroy_response GenerateSingleWindowPoStWithVanillaResponse"
definition destroy_get_num_partition_for_fallback_post_response :: "cval \<Rightarrow> heap \<Rightarrow> heap option" where
  "destroy_get_num_partition_for_fallback_post_response = destroy_response GetNumPartitionForFallbackPoStResponse"
definition destroy_merge_window_post_partition_proofs_response :: "cval \<Rightarrow> heap \<Rightarrow> heap option" where
  "destroy_merge_window_post_partition_proofs_response = destroy_response MergeWindowPoStPartitionProofsResponse"
definition destroy_generate_winning_post_response :: "cval \<Rightarrow> heap \<Rightarrow> heap option" where
  "destroy_generate_winning_post_response = destroy_response GenerateWinningPoStResponse"
definition destroy_generate_window_post_response :: "cval \<Rightarrow> heap \<Rightarrow> heap option" where
  "destroy_generate_window_post_response = destroy_response GenerateWindowPoStResponse"
definition destroy_generate_winning_post_sector_challenge :: "cval \<Rightarrow> heap \<Rightarrow> heap option" where
  "destroy_generate_winning_post_sector_challenge = destroy_response GenerateWinningPoStSectorChallenge"
definition destroy_clear_cache_response :: "cval \<Rightarrow> heap \<Rightarrow> heap option" where
  "destroy_clear_cache_response = destroy_response ClearCacheResponse"
definition destroy_aggregate_proof :: "cval \<Rightarrow> heap \<Rightarrow> heap option" where
  "destroy_aggregate_proof = destroy_response AggregateProof"
definition destroy_empty_sector_update_generate_proof_response :: "cval \<Rightarrow> heap \<Rightarrow> heap option" where
  "destroy_empty_sector_update_generate_proof_response = destroy_response EmptySectorUpdateProofResponse"
definition destroy_empty_sector_update_verify_proof_response :: "cval \<Rightarrow> heap \<Rightarrow> heap option" where
  "destroy_empty_sector_update_verify_proof_response = destroy_response VerifyEmptySectorUpdateProofResponse"
definition destroy_generate_empty_sector_update_partition_proof_response :: "cval \<Rightarrow> heap \<Rightarrow> heap option" where
  "destroy_generate_empty_sector_update_partition_proof_response = destroy_response PartitionProofResponse"
definition destroy_verify_empty_sector_update_partition_proof_response :: "cval \<Rightarrow> heap \<Rightarrow> heap option" where
  "destroy_verify_empty_sector_update_partition_proof_response = destroy_response VerifyPartitionProofResponse"
definition destroy_empty_sector_update_encode_into_response :: "cval \<Rightarrow> heap \<Rightarrow> heap option" where
  "destroy_empty_sector_update_encode_into_response = destroy_response EmptySectorUpdateEncodeIntoResponse"
definition destroy_empty_sector_update_decode_from_response :: "cval \<Rightarrow> heap \<Rightarrow> heap option" where
  "destroy_empty_sector_update_decode_from_response = destroy_response EmptySectorUpdateDecodeFromResponse"
definition destroy_empty_sector_update_remove_encoded_data_response :: "cval \<Rightarrow> heap \<Rightarrow> heap option" where
  "destroy_empty_sector_update_remove_encoded_data_response = destroy_response EmptySectorUpdateRemoveEncodedDataResponse"
definition destroy_gpu_device_response :: "cval \<Rightarrow> heap \<Rightarrow> heap option" where
  "destroy_gpu_device_response = destroy_response GpuDeviceResponse"
definition destroy_init_log_fd_response :: "cval \<Rightarrow> heap \<Rightarrow> heap option" where
  "destroy_init_log_fd_response = destroy_response InitLogFdResponse"
definition destroy_create_fvm_machine_response :: "cval \<Rightarrow> heap \<Rightarrow> heap option" where
  "destroy_create_fvm_machine_response = destroy_response R_InnerFvmMachine_ptr"
definition destroy_fvm_machine_execute_response :: "cval \<Rightarrow> heap \<Rightarrow> heap option" where
  "destroy_fvm_machine_execute_response = destroy_response R_FvmMachineExecuteResponse"
definition destroy_fvm_machine_flush_response :: "cval \<Rightarrow> heap \<Rightarrow> heap option" where
  "destroy_fvm_machine_flush_response = destroy_response R_slice_uint8"

text \<open>The destructors that take no response: the machine, a slice, and the arrays of the BLS module.\<close>

definition drop_fvm_machine :: "cval \<Rightarrow> heap \<Rightarrow> heap option" where
  "drop_fvm_machine = destructor TPlain"
definition destroy_boxed_slice :: "cval \<Rightarrow> heap \<Rightarrow> heap option" where
  "destroy_boxed_slice = drop_glue slice_uint8"
definition destroy_box_bls_digest :: "cval \<Rightarrow> heap \<Rightarrow> heap option" where
  "destroy_box_bls_digest = destructor TPlain"
definition destroy_box_bls_private_key :: "cval \<Rightarrow> heap \<Rightarrow> heap option" where
  "destroy_box_bls_private_key = destructor TPlain"
definition destroy_box_bls_public_key :: "cval \<Rightarrow> heap \<Rightarrow> heap option" where
  "destroy_box_bls_public_key = destructor TPlain"
definition destroy_box_bls_signature :: "cval \<Rightarrow> heap \<Rightarrow> heap option" where
  "destroy_box_bls_signature = destructor TPlain"

lemmas destructor_defs =
  destroy_write_with_alignment_response_def destroy_write_without_alignment_response_def
  destroy_fauxrep_response_def destroy_seal_pre_commit_phase1_response_def
  destroy_seal_pre_commit_phase2_response_def destroy_seal_commit_phase1_response_def
  destroy_seal_commit_phase2_response_def destroy_unseal_range_response_def
  destroy_generate_piece_commitment_response_def destroy_generate_data_commitment_response_def
  destroy_string_response_def destroy_verify_seal_response_def destroy_verify_aggregate_seal_response_def
  destroy_finalize_ticket_response_def destroy_verify_winning_post_response_def
  destroy_verify_window_post_response_def destroy_generate_fallback_sector_challenges_response_def
  destroy_generate_single_vanilla_proof_response_def
  destroy_generate_single_window_post_with_vanilla_response_def
  destroy_get_num_partition_for_fallback_post_response_def
  destroy_merge_window_post_partition_proofs_response_def destroy_generate_winning_post_response_def
  destroy_generate_window_post_response_def destroy_generate_winning_post_sector_challenge_def
  destroy_clear_cache_response_def destroy_aggregate_proof_def
  destroy_empty_sector_update_generate_proof_response_def
  destroy_empty_sector_update_verify_proof_response_def
  destroy_generate_empty_sector_update_partition_proof_response_def
  destroy_verify_empty_sector_update_partition_proof_response_def
  destroy_empty_sector_update_encode_into_response_def destroy_empty_sector_update_decode_from_response_def
  destroy_empty_sector_update_remove_encoded_data_response_def destroy_gpu_device_response_def
  destroy_init_log_fd_response_def destroy_create_fvm_machine_response_def
  destroy_fvm_machine_execute_response_def destroy_fvm_machine_flush_response_def

text \<open>The \<open>destroy\<close> methods that \<open>cgo/types.go\<close> declares on the result types: each calls the destructor
  of its type on a pointer that is not nil. The assignment of nil to the receiver is local
  to the method.\<close>

definition if_not_nil :: "(cval \<Rightarrow> heap \<Rightarrow> heap option) \<Rightarrow> cval \<Rightarrow> heap \<Rightarrow> heap option" where
  "if_not_nil destroy ptr h = (if ptr \<noteq> CBox Null then destroy ptr h else Some h)"

definition resultBool_destroy :: "cval \<Rightarrow> heap \<Rightarrow> heap option" where
  "resultBool_destroy ptr = if_not_nil destroy_verify_seal_response ptr"
definition resultGeneratePieceCommitment_destroy :: "cval \<Rightarrow> heap \<Rightarrow> heap option" where
  "resultGeneratePieceCommitment_destroy ptr = if_not_nil destroy_generate_piece_commitment_response ptr"
definition resultByteArray32_destroy :: "cval \<Rightarrow> heap \<Rightarrow> heap option" where
  "resultByteArray32_destroy ptr = if_not_nil destroy_generate_data_commitment_response ptr"
definition resultWriteWithAlignment_destroy :: "cval \<Rightarrow> heap \<Rightarrow> heap option" where
  "resultWriteWithAlignment_destroy ptr = if_not_nil destroy_write_with_alignment_response ptr"
definition resultWriteWithoutAlignment_destroy :: "cval \<Rightarrow> heap \<Rightarrow> heap option" where
  "resultWriteWithoutAlignment_destroy ptr = if_not_nil destroy_write_without_alignment_response ptr"
definition resultSliceBoxedUint8_destroy :: "cval \<Rightarrow> heap \<Rightarrow> heap option" where
  "resultSliceBoxedUint8_destroy ptr = if_not_nil destroy_seal_pre_commit_phase1_response ptr"
definition resultSealPreCommitPhase2_destroy :: "cval \<Rightarrow> heap \<Rightarrow> heap option" where
  "resultSealPreCommitPhase2_destroy ptr = if_not_nil destroy_seal_pre_commit_phase2_response ptr"
definition resultVoid_destroy :: "cval \<Rightarrow> heap \<Rightarrow> heap option" where
  "resultVoid_destroy ptr = if_not_nil destroy_unseal_range_response ptr"
definition resultSliceBoxedUint64_destroy :: "cval \<Rightarrow> heap \<Rightarrow> heap option" where
  "resultSliceBoxedUint64_destroy ptr = if_not_nil destroy_generate_winning_post_sector_challenge ptr"
definition resultSliceBoxedPoStProof_destroy :: "cval \<Rightarrow> heap \<Rightarrow> heap option" where
  "resultSliceBoxedPoStProof_destroy ptr = if_not_nil destroy_generate_winning_post_response ptr"
definition resultGenerateWindowPoSt_destroy :: "cval \<Rightarrow> heap \<Rightarrow> heap option" where
  "resultGenerateWindowPoSt_destroy ptr = if_not_nil destroy_generate_window_post_response ptr"
definition resultSliceBoxedSliceBoxedUint8_destroy :: "cval \<Rightarrow> heap \<Rightarrow> heap option" where
  "resultSliceBoxedSliceBoxedUint8_destroy ptr = if_not_nil destroy_generate_empty_sector_update_partition_proof_response ptr"
definition resultUint_destroy :: "cval \<Rightarrow> heap \<Rightarrow> heap option" where
  "resultUint_destroy ptr = if_not_nil destroy_get_num_partition_for_fallback_post_response ptr"
definition resultEmptySectorUpdateEncodeInto_destroy :: "cval \<Rightarrow> heap \<Rightarrow> heap option" where
  "resultEmptySectorUpdateEncodeInto_destroy ptr = if_not_nil destroy_empty_sector_update_encode_into_response ptr"
definition resultGenerateFallbackSectorChallenges_destroy :: "cval \<Rightarrow> heap \<Rightarrow> heap option" where
  "resultGenerateFallbackSectorChallenges_destroy ptr = if_not_nil destroy_generate_fallback_sector_challenges_response ptr"
definition resultGenerateSingleWindowPoStWithVanilla_destroy :: "cval \<Rightarrow> heap \<Rightarrow> heap option" where
  "resultGenerateSingleWindowPoStWithVanilla_destroy ptr = if_not_nil destroy_generate_single_window_post_with_vanilla_response ptr"
definition resultPoStProof_destroy :: "cval \<Rightarrow> heap \<Rightarrow> heap option" where
  "resultPoStProof_destroy ptr = if_not_nil destroy_merge_window_post_partition_proofs_response ptr"
definition resultFvmMachineExecuteResponse_destroy :: "cval \<Rightarrow> heap \<Rightarrow> heap option" where
  "resultFvmMachineExecuteResponse_destroy ptr = if_not_nil destroy_fvm_machine_execute_response ptr"
definition resultFvmMachine_destroy :: "cval \<Rightarrow> heap \<Rightarrow> heap option" where
  "resultFvmMachine_destroy ptr = if_not_nil destroy_create_fvm_machine_response ptr"

lemmas result_destroy_defs =
  resultBool_destroy_def
  resultGeneratePieceCommitment_destroy_def
  resultByteArray32_destroy_def
  resultWriteWithAlignment_destroy_def
  resultWriteWithoutAlignment_destroy_def
  resultSliceBoxedUint8_destroy_def
  resultSealPreCommitPhase2_destroy_def
  resultVoid_destroy_def
  resultSliceBoxedUint64_destroy_def
  resultSliceBoxedPoStProof_destroy_def
  resultGenerateWindowPoSt_destroy_def
  resultSliceBoxedSliceBoxedUint8_destroy_def
  resultUint_destroy_def
  resultEmptySectorUpdateEncodeInto_destroy_def
  resultGenerateFallbackSectorChallenges_destroy_def
  resultGenerateSingleWindowPoStWithVanilla_destroy_def
  resultPoStProof_destroy_def
  resultFvmMachineExecuteResponse_destroy_def
  resultFvmMachine_destroy_def

text \<open>The method of the interface \<open>result\<close> that a response of each type has.\<close>

fun go_destroy :: "value_type \<Rightarrow> cval \<Rightarrow> heap \<Rightarrow> heap option" where
  "go_destroy R_bool = resultBool_destroy"
| "go_destroy R_GeneratePieceCommitment = resultGeneratePieceCommitment_destroy"
| "go_destroy R_array32 = resultByteArray32_destroy"
| "go_destroy R_WriteWithAlignment = resultWriteWithAlignment_destroy"
| "go_destroy R_WriteWithoutAlignment = resultWriteWithoutAlignment_destroy"
| "go_destroy R_slice_uint8 = resultSliceBoxedUint8_destroy"
| "go_destroy R_SealPreCommitPhase2 = resultSealPreCommitPhase2_destroy"
| "go_destroy R_void = resultVoid_destroy"
| "go_destroy R_slice_uint64 = resultSliceBoxedUint64_destroy"
| "go_destroy R_slice_PoStProof = resultSliceBoxedPoStProof_destroy"
| "go_destroy R_GenerateWindowPoSt = resultGenerateWindowPoSt_destroy"
| "go_destroy R_slice_slice_uint8 = resultSliceBoxedSliceBoxedUint8_destroy"
| "go_destroy R_size = resultUint_destroy"
| "go_destroy R_EmptySectorUpdateEncodeInto = resultEmptySectorUpdateEncodeInto_destroy"
| "go_destroy R_GenerateFallbackSectorChallenges = resultGenerateFallbackSectorChallenges_destroy"
| "go_destroy R_GenerateSingleWindowPoStWithVanilla = resultGenerateSingleWindowPoStWithVanilla_destroy"
| "go_destroy R_PoStProof = resultPoStProof_destroy"
| "go_destroy R_FvmMachineExecuteResponse = resultFvmMachineExecuteResponse_destroy"
| "go_destroy R_InnerFvmMachine_ptr = resultFvmMachine_destroy"

text \<open>Each of them calls a destructor of the type it is declared on.\<close>

lemma go_destroy_eq: "go_destroy t = if_not_nil (destroy_response t)"
  by (cases t) (simp_all add: fun_eq_iff result_destroy_defs destructor_defs response_types)

declare go_destroy.simps [simp del]

lemma go_destroy_boxed: "p \<noteq> CBox Null \<Longrightarrow> go_destroy t p = destroy_response t p"
  by (simp add: fun_eq_iff go_destroy_eq if_not_nil_def)

lemma go_destroy_nil: "go_destroy t (CBox Null) h = Some h"
  by (simp add: go_destroy_eq if_not_nil_def)

lemma box_new_not_nil: "box_new v h = (p, h') \<Longrightarrow> p \<noteq> CBox Null"
  by (auto simp: box_new_def malloc_def split: prod.splits)

section \<open>Encoding values\<close>

definition enc_bytes :: "bytes \<Rightarrow> val" where
  "enc_bytes bs = VSlice (map (\<lambda>b. VPlain (PByte b)) bs)"

definition enc_words :: "u64 list \<Rightarrow> val" where
  "enc_words ws = VSlice (map (\<lambda>w. VPlain (PWord w)) ws)"

definition enc_option :: "('a \<Rightarrow> val) \<Rightarrow> 'a option \<Rightarrow> val" where
  "enc_option f x = (case x of None \<Rightarrow> VNoSlice | Some a \<Rightarrow> f a)"

text \<open>The discriminants of the enums, in the order of their declarations.\<close>

fun seal_code :: "RegisteredSealProof \<Rightarrow> nat" where
  "seal_code RegisteredSealProof.StackedDrg2KiBV1 = 0"
| "seal_code RegisteredSealProof.StackedDrg8MiBV1 = 1"
| "seal_code RegisteredSealProof.StackedDrg512MiBV1 = 2"
| "seal_code RegisteredSealProof.StackedDrg32GiBV1 = 3"
| "seal_code RegisteredSealProof.StackedDrg64GiBV1 = 4"
| "seal_code RegisteredSealProof.StackedDrg2KiBV1_1 = 5"
| "seal_code RegisteredSealProof.StackedDrg8MiBV1_1 = 6"
| "seal_code RegisteredSealProof.StackedDrg512MiBV1_1 = 7"
| "seal_code RegisteredSealProof.StackedDrg32GiBV1_1 = 8"
| "seal_code RegisteredSealProof.StackedDrg64GiBV1_1 = 9"

fun post_code :: "RegisteredPoStProof \<Rightarrow> nat" where
  "post_code RegisteredPoStProof.StackedDrgWinning2KiBV1 = 0"
| "post_code RegisteredPoStProof.StackedDrgWinning8MiBV1 = 1"
| "post_code RegisteredPoStProof.StackedDrgWinning512MiBV1 = 2"
| "post_code RegisteredPoStProof.StackedDrgWinning32GiBV1 = 3"
| "post_code RegisteredPoStProof.StackedDrgWinning64GiBV1 = 4"
| "post_code RegisteredPoStProof.StackedDrgWindow2KiBV1 = 5"
| "post_code RegisteredPoStProof.StackedDrgWindow8MiBV1 = 6"
| "post_code RegisteredPoStProof.StackedDrgWindow512MiBV1 = 7"
| "post_code RegisteredPoStProof.StackedDrgWindow32GiBV1 = 8"
| "post_code RegisteredPoStProof.StackedDrgWindow64GiBV1 = 9"

fun status_num :: "FCPResponseStatus \<Rightarrow> nat" where
  "status_num NoError = 0"
| "status_num UnclassifiedError = 1"
| "status_num CallerError = 2"
| "status_num ReceiverError = 3"

definition enc_PoStProof :: "PoStProof \<Rightarrow> val" where
  "enc_PoStProof p = VStruct [VPlain (PEnum (post_code (post_registered_proof p))), enc_bytes (post_proof p)]"

definition enc_PartitionSnarkProof :: "PartitionSnarkProof \<Rightarrow> val" where
  "enc_PartitionSnarkProof p =
     VStruct [VPlain (PEnum (post_code (partition_registered_proof p))), enc_bytes (partition_proof_bytes p)]"

definition enc_PrivateReplicaInfo :: "PrivateReplicaInfo \<Rightarrow> val" where
  "enc_PrivateReplicaInfo r =
     VStruct [VPlain (PEnum (post_code (pri_registered_proof r))), enc_bytes (pri_cache_dir_path r),
       VPlain (PArray (pri_comm_r r)), enc_bytes (pri_replica_path r), VPlain (PWord (pri_sector_id r))]"

definition enc_PoStProofs :: "PoStProof list \<Rightarrow> val" where
  "enc_PoStProofs ps = VSlice (map enc_PoStProof ps)"

definition enc_slices :: "bytes list \<Rightarrow> val" where
  "enc_slices bs = VSlice (map enc_bytes bs)"

definition enc_FallbackSectorChallenges :: "GenerateFallbackSectorChallenges \<Rightarrow> val" where
  "enc_FallbackSectorChallenges v = VStruct [enc_words (fb_ids v), VSlice (map enc_words (fb_challenges v))]"

definition enc_WindowPoSt :: "GenerateWindowPoSt \<Rightarrow> val" where
  "enc_WindowPoSt v = VStruct [enc_PoStProofs (wp_proofs v), enc_words (wp_faulty_sectors v)]"

definition enc_SingleWindowPoSt :: "GenerateSingleWindowPoStWithVanilla \<Rightarrow> val" where
  "enc_SingleWindowPoSt v =
     VStruct [enc_PartitionSnarkProof (sw_partition_proof v), enc_words (single_faulty_sectors v)]"

definition enc_WriteWithAlignment :: "WriteWithAlignment \<Rightarrow> val" where
  "enc_WriteWithAlignment v =
     VStruct [VPlain (PArray (wwa_comm_p v)), VPlain (PWord (left_alignment_unpadded v)),
       VPlain (PWord (wwa_total_write_unpadded v))]"

definition enc_WriteWithoutAlignment :: "WriteWithoutAlignment \<Rightarrow> val" where
  "enc_WriteWithoutAlignment v =
     VStruct [VPlain (PArray (wwo_comm_p v)), VPlain (PWord (wwo_total_write_unpadded v))]"

definition enc_PieceCommitment :: "GeneratePieceCommitment \<Rightarrow> val" where
  "enc_PieceCommitment v = VStruct [VPlain (PArray (gpc_comm_p v)), VPlain (PWord (num_bytes_aligned v))]"

definition enc_PreCommitPhase2 :: "SealPreCommitPhase2 \<Rightarrow> val" where
  "enc_PreCommitPhase2 v =
     VStruct [VPlain (PEnum (seal_code (spc2_registered_proof v))), VPlain (PArray (spc2_comm_d v)),
       VPlain (PArray (spc2_comm_r v))]"

definition enc_EncodeInto :: "EmptySectorUpdateEncodeInto \<Rightarrow> val" where
  "enc_EncodeInto v =
     VStruct [VPlain (PArray (upd_comm_r_new v)), VPlain (PArray (upd_comm_r_last_new v)),
       VPlain (PArray (upd_comm_d_new v))]"

definition enc_ExecuteResponse :: "FvmMachineExecuteResponse \<Rightarrow> val" where
  "enc_ExecuteResponse v =
     VStruct [VPlain (PWord (resp_exit_code v)), enc_option enc_bytes (resp_return_val v),
       VPlain (PWord (resp_gas_used v)), VPlain (PWord (penalty_hi v)), VPlain (PWord (penalty_lo v)),
       VPlain (PWord (miner_tip_hi v)), VPlain (PWord (miner_tip_lo v)),
       enc_option enc_bytes (resp_exec_trace v), enc_option enc_bytes (map_option str_bytes (resp_failure_info v))]"

definition enc_Result :: "('a \<Rightarrow> val) \<Rightarrow> 'a Result \<Rightarrow> val" where
  "enc_Result f r =
     VStruct [VPlain (PEnum (status_num (status_code r))), enc_bytes (error_msg r), f (value_of r)]"

section \<open>Calling an exported function from Go\<close>

text \<open>The exported function: the response is boxed, the pointer goes to the caller.\<close>

definition ffi_export :: "('a \<Rightarrow> val) \<Rightarrow> ('w, 'a) io \<Rightarrow> ('w \<times> heap, cval) io" where
  "ffi_export enc_v m = (\<lambda>(w, h).
     case m w of
       (Returns r, w') \<Rightarrow> (case box_new (enc_v r) h of (p, h') \<Rightarrow> (Returns p, (w', h')))
     | (Panics p, w') \<Rightarrow> (Panics p, (w', h))
     | (Undefined, w') \<Rightarrow> (Undefined, (w', h)))"

text \<open>The fields behind the pointer to a response, copied into Go memory.\<close>

definition read_response :: "value_type \<Rightarrow> cval \<Rightarrow> heap \<Rightarrow> (nat \<times> val \<times> val) option" where
  "read_response t p h =
     (case copy_as (TBox (Result_layout t)) p h of
        Some (VBox (VStruct [VPlain (PEnum st), emsg, v])) \<Rightarrow> Some (st, emsg, v)
      | _ \<Rightarrow> None)"

text \<open>\<open>resp := C.f(..); defer resp.destroy(); ..\<close>: what the wrapper returns is computed from the
  copies before the response is destroyed.\<close>

definition with_response ::
    "value_type \<Rightarrow> (nat \<Rightarrow> val \<Rightarrow> val \<Rightarrow> 'r) \<Rightarrow> ('w \<times> heap, cval) io \<Rightarrow> ('w \<times> heap, 'r) io" where
  "with_response t f call =
     bind_io call (\<lambda>resp. \<lambda>(w, h).
       case read_response t resp h of
         None \<Rightarrow> (Undefined, (w, h))
       | Some (st, emsg, v) \<Rightarrow>
           (case go_destroy t resp h of
              None \<Rightarrow> (Undefined, (w, h))
            | Some h' \<Rightarrow> (Returns (f st emsg v), (w, h'))))"

text \<open>\<open>if err := CheckErr(resp); err != nil { return .., err }; return resp.value.copy(), nil\<close>\<close>

definition check_and_copy :: "nat \<Rightarrow> val \<Rightarrow> val \<Rightarrow> val + val" where
  "check_and_copy st emsg v = (if st = status_num NoError then Inr v else Inl emsg)"

definition go_call :: "value_type \<Rightarrow> ('w \<times> heap, cval) io \<Rightarrow> ('w \<times> heap, val + val) io" where
  "go_call t = with_response t check_and_copy"

text \<open>What the wrapper returns for a response.\<close>

definition go_value :: "('a \<Rightarrow> val) \<Rightarrow> 'a Result \<Rightarrow> val + val" where
  "go_value enc_v r = (if status_code r = NoError then Inr (enc_v (value_of r)) else Inl (enc_bytes (error_msg r)))"

text \<open>A HOL type whose values have the layout of a response type.\<close>

locale ffi_layout =
  fixes rtype :: value_type and enc_v :: "'a \<Rightarrow> val"
  assumes typed: "has_layout (value_layout rtype) (enc_v v)"
begin

lemma result_typed: "has_layout (Result_layout rtype) (enc_Result enc_v r)"
  using typed by (simp add: Result_layout_def enc_Result_def enc_bytes_def list_all_iff)

text \<open>A response that was boxed is read back field by field, and its destructor gives back the
  memory, once.\<close>

lemma response_read:
  assumes "box_new (enc_Result enc_v r) h = (p, h')" and "heap_ok h"
  shows "read_response rtype p h' =
    Some (status_num (status_code r), enc_bytes (error_msg r), enc_v (value_of r))"
proof (rule box_new_holds [OF assms])
  fix A
  assume A: "holds h' (VBox (enc_Result enc_v r)) p A"
  have "copy_as (TBox (Result_layout rtype)) p h' = Some (VBox (enc_Result enc_v r))"
    by (rule copy_holds [OF _ A]) (use result_typed in simp)
  then show ?thesis by (simp add: read_response_def enc_Result_def)
qed

lemma with_response_run:
  assumes "m w = (Returns r, w')" and "heap_ok h"
  shows "\<exists>h'. with_response rtype f (ffi_export (enc_Result enc_v) m) (w, h) =
      (Returns (f (status_num (status_code r)) (enc_bytes (error_msg r)) (enc_v (value_of r))), (w', h')) \<and>
    cells h' = cells h \<and> heap_ok h'"
proof -
  obtain p k where b: "box_new (enc_Result enc_v r) h = (p, k)" by (cases "box_new (enc_Result enc_v r) h")
  from destructor_releases [OF b assms(2) result_typed]
  obtain h' where "destructor (Result_layout rtype) p k = Some h'" "cells h' = cells h" "heap_ok h'" by blast
  with b response_read [OF b assms(2)] assms(1) show ?thesis
    by (auto simp: with_response_def bind_io_def ffi_export_def go_destroy_boxed [OF box_new_not_nil [OF b]]
        destroy_response_def)
qed

lemma go_call_run:
  assumes "m w = (Returns r, w')" and "heap_ok h"
  shows "\<exists>h'. go_call rtype (ffi_export (enc_Result enc_v) m) (w, h) = (Returns (go_value enc_v r), (w', h')) \<and>
    cells h' = cells h \<and> heap_ok h'"
proof -
  have st: "status_num (status_code r) = 0 \<longleftrightarrow> status_code r = NoError" by (cases "status_code r") simp_all
  show ?thesis
    using with_response_run [where m = m and w = w and f = check_and_copy, OF assms] st
    by (simp add: go_call_def check_and_copy_def go_value_def)
qed

text \<open>A panic that leaves the exported function leaves the memory as it was.\<close>

lemma go_call_panics: "m w = (Panics p, w') \<Longrightarrow>
    go_call rtype (ffi_export (enc_Result enc_v) m) (w, h) = (Panics p, (w', h))"
  by (simp add: go_call_def with_response_def bind_io_def ffi_export_def)

end

text \<open>Where no two values look the same in memory, no two responses that differ in what the caller
  may see give the same result.\<close>

locale ffi_type = ffi_layout +
  assumes enc_inj: "enc_v v = enc_v v' \<Longrightarrow> v = v'"
begin

lemma go_value_inj:
  assumes "go_value enc_v r = go_value enc_v r'" and "status_code r = NoError"
  shows "status_code r' = NoError \<and> value_of r = value_of r'"
  using assms by (auto simp: go_value_def dest: enc_inj split: if_splits)

end

section \<open>The layouts describe the types\<close>

lemma enc_bytes_inj [simp]: "enc_bytes a = enc_bytes b \<longleftrightarrow> a = b"
  by (auto simp: enc_bytes_def inj_map_eq_map inj_on_def)

lemma enc_words_inj [simp]: "enc_words a = enc_words b \<longleftrightarrow> a = b"
  by (auto simp: enc_words_def inj_map_eq_map inj_on_def)

lemma seal_code_inj [simp]: "seal_code a = seal_code b \<longleftrightarrow> a = b"
  by (cases a; cases b) simp_all

lemma post_code_inj [simp]: "post_code a = post_code b \<longleftrightarrow> a = b"
  by (cases a; cases b) simp_all

lemma str_bytes_inj [simp]: "str_bytes a = str_bytes b \<longleftrightarrow> a = b"
proof -
  have lt: "of_char c < (256 :: nat)" for c using of_char_mod_256 [of c, where 'a = nat] by simp
  have "(word_of_nat (of_char c) :: u8) = word_of_nat (of_char d) \<longleftrightarrow> c = d" for c d
    using lt [of c] lt [of d] by (simp add: word_of_nat_eq_iff take_bit_nat_eq_self)
  then show ?thesis by (auto simp: str_bytes_def inj_map_eq_map inj_on_def)
qed

lemma enc_option_inj: "enc_option enc_bytes a = enc_option enc_bytes b \<longleftrightarrow> a = b"
  by (auto simp: enc_option_def enc_bytes_def inj_map_eq_map inj_on_def split: option.splits)

lemma enc_bytes_typed [simp]: "has_layout slice_uint8 (enc_bytes b)"
  by (auto simp: enc_bytes_def list_all_iff)

lemma enc_words_typed [simp]: "has_layout slice_uint64 (enc_words b)"
  by (auto simp: enc_words_def list_all_iff)

lemma enc_option_typed [simp]: "has_layout (TOption slice_uint8) (enc_option enc_bytes b)"
  using enc_bytes_typed by (auto simp: enc_option_def split: option.splits simp del: has_layout.simps(3))

lemma enc_PoStProof_typed [simp]: "has_layout PoStProof_layout (enc_PoStProof p)"
  using enc_bytes_typed by (auto simp: enc_PoStProof_def PoStProof_layout_def simp del: has_layout.simps(3))

lemma enc_PoStProof_inj [simp]: "enc_PoStProof p = enc_PoStProof q \<longleftrightarrow> p = q"
  by (cases p; cases q) (simp add: enc_PoStProof_def)

lemma enc_PartitionSnarkProof_typed [simp]: "has_layout PartitionSnarkProof_layout (enc_PartitionSnarkProof p)"
  using enc_bytes_typed
  by (auto simp: enc_PartitionSnarkProof_def PartitionSnarkProof_layout_def simp del: has_layout.simps(3))

lemma enc_PoStProofs_inj [simp]: "enc_PoStProofs p = enc_PoStProofs q \<longleftrightarrow> p = q"
  by (auto simp: enc_PoStProofs_def inj_map_eq_map inj_on_def)

lemma enc_PoStProofs_typed [simp]: "has_layout (TSlice PoStProof_layout) (enc_PoStProofs p)"
  by (auto simp: enc_PoStProofs_def list_all_iff)


interpretation void_type: ffi_type R_void "\<lambda>_ :: unit. VPlain PUnit"
  by unfold_locales simp_all

interpretation bool_type: ffi_type R_bool "\<lambda>b. VPlain (PBool b)"
  by unfold_locales simp_all

interpretation array32_type: ffi_type R_array32 "\<lambda>b. VPlain (PArray b)"
  by unfold_locales simp_all

interpretation size_type: ffi_type R_size "\<lambda>w. VPlain (PWord w)"
  by unfold_locales simp_all

interpretation bytes_type: ffi_type R_slice_uint8 enc_bytes
  by unfold_locales (use enc_bytes_typed in \<open>simp_all\<close>)

interpretation words_type: ffi_type R_slice_uint64 enc_words
  by unfold_locales (use enc_words_typed in \<open>simp_all\<close>)

interpretation slices_type: ffi_type R_slice_slice_uint8 enc_slices
  by unfold_locales (auto simp: enc_slices_def enc_bytes_def list_all_iff inj_map_eq_map inj_on_def)

interpretation post_proofs_type: ffi_type R_slice_PoStProof enc_PoStProofs
  by unfold_locales (use enc_PoStProofs_typed in simp_all)

interpretation post_proof_type: ffi_type R_PoStProof enc_PoStProof
  by unfold_locales (use enc_PoStProof_typed in simp_all)

interpretation piece_type: ffi_type R_GeneratePieceCommitment enc_PieceCommitment
  by unfold_locales (simp_all add: enc_PieceCommitment_def GeneratePieceCommitment.equality)

interpretation aligned_type: ffi_type R_WriteWithAlignment enc_WriteWithAlignment
  by unfold_locales (simp_all add: enc_WriteWithAlignment_def WriteWithAlignment.equality)

interpretation unaligned_type: ffi_type R_WriteWithoutAlignment enc_WriteWithoutAlignment
  by unfold_locales (simp_all add: enc_WriteWithoutAlignment_def WriteWithoutAlignment.equality)

interpretation phase2_type: ffi_type R_SealPreCommitPhase2 enc_PreCommitPhase2
  by unfold_locales (simp_all add: enc_PreCommitPhase2_def SealPreCommitPhase2.equality)

interpretation encode_type: ffi_type R_EmptySectorUpdateEncodeInto enc_EncodeInto
  by unfold_locales (simp_all add: enc_EncodeInto_def EmptySectorUpdateEncodeInto.equality)

interpretation challenges_type: ffi_type R_GenerateFallbackSectorChallenges enc_FallbackSectorChallenges
proof unfold_locales
  show "has_layout (value_layout R_GenerateFallbackSectorChallenges) (enc_FallbackSectorChallenges v)" for v
    by (auto simp: enc_FallbackSectorChallenges_def GenerateFallbackSectorChallenges_layout_def enc_words_def
        list_all_iff)
  show "v = v'" if "enc_FallbackSectorChallenges v = enc_FallbackSectorChallenges v'" for v v'
    using that
    by (auto simp: enc_FallbackSectorChallenges_def inj_map_eq_map inj_on_def
        intro: GenerateFallbackSectorChallenges.equality)
qed

interpretation window_type: ffi_type R_GenerateWindowPoSt enc_WindowPoSt
proof unfold_locales
  show "has_layout (value_layout R_GenerateWindowPoSt) (enc_WindowPoSt v)" for v
    using enc_PoStProofs_typed [of "wp_proofs v"] enc_words_typed [of "wp_faulty_sectors v"]
    by (simp add: enc_WindowPoSt_def GenerateWindowPoSt_layout_def)
  show "v = v'" if "enc_WindowPoSt v = enc_WindowPoSt v'" for v v'
    using that by (simp add: enc_WindowPoSt_def GenerateWindowPoSt.equality)
qed

interpretation single_window_type: ffi_type R_GenerateSingleWindowPoStWithVanilla enc_SingleWindowPoSt
proof unfold_locales
  show "has_layout (value_layout R_GenerateSingleWindowPoStWithVanilla) (enc_SingleWindowPoSt v)" for v
    using enc_PartitionSnarkProof_typed [of "sw_partition_proof v"] enc_words_typed [of "single_faulty_sectors v"]
    by (simp add: enc_SingleWindowPoSt_def GenerateSingleWindowPoStWithVanilla_layout_def)
  show "v = v'" if "enc_SingleWindowPoSt v = enc_SingleWindowPoSt v'" for v v'
    using that
    by (simp add: enc_SingleWindowPoSt_def enc_PartitionSnarkProof_def GenerateSingleWindowPoStWithVanilla.equality
        PartitionSnarkProof.equality)
qed

interpretation execute_type: ffi_type R_FvmMachineExecuteResponse enc_ExecuteResponse
proof unfold_locales
  show "has_layout (value_layout R_FvmMachineExecuteResponse) (enc_ExecuteResponse v)" for v
    using enc_option_typed by (simp add: enc_ExecuteResponse_def FvmMachineExecuteResponse_layout_def)
  show "v = v'" if "enc_ExecuteResponse v = enc_ExecuteResponse v'" for v v'
    using that
    by (auto simp: enc_ExecuteResponse_def enc_option_inj intro!: FvmMachineExecuteResponse.equality)
       (metis option.inj_map_strong str_bytes_inj)
qed

section \<open>Properties\<close>

text \<open>C15: the destroy method that Go declares on a result type gives back exactly the memory that the
  response of that type took, nested slices included, and never memory of anything else;
  destroying the response a second time is an error.\<close>
theorem response_is_released_once:
  assumes "heap_ok h" and "has_layout (Result_layout t) v" and "box_new v h = (p, h')"
  shows "\<exists>h''. go_destroy t p h' = Some h'' \<and> cells h'' = cells h \<and> go_destroy t p h'' = None"
  using destructor_releases [OF assms(3,1,2)]
  by (auto simp: go_destroy_boxed [OF box_new_not_nil [OF assms(3)]] destroy_response_def)

theorem response_is_released_once_witness:
  "\<exists>p h' h''. box_new (enc_Result enc_slices \<lparr>status_code = NoError, error_msg = [7], value_of = [[1, 2], [], [3]]\<rparr>)
       empty_heap = (p, h') \<and> cells h' \<noteq> Map.empty \<and>
     go_destroy R_slice_slice_uint8 p h' = Some h'' \<and> cells h'' = Map.empty \<and> go_destroy R_slice_slice_uint8 p h'' = None"
proof -
  let ?v = "enc_Result enc_slices \<lparr>status_code = NoError, error_msg = [7], value_of = [[1, 2], [], [3]]\<rparr>"
  obtain p h' where b: "box_new ?v empty_heap = (p, h')" by (cases "box_new ?v empty_heap")
  have ok: "heap_ok empty_heap" by (simp add: heap_ok_def empty_heap_def)
  have "cells h' \<noteq> Map.empty"
    using b by (auto simp: box_new_def enc_Result_def enc_slices_def enc_bytes_def malloc_def fun_eq_iff)
  with b response_is_released_once [OF ok slices_type.result_typed b] show ?thesis
    by (auto simp: empty_heap_def)
qed

end
