(* ===== verification/Go_Calls.thy ===== *)
theory Go_Calls
  imports Responses
begin

text \<open>
  The wrappers of \<open>cgo/proofs.go\<close>, \<open>cgo/util.go\<close> and \<open>cgo/bls.go\<close> around the exported functions
  of the library: each one calls, checks the status, copies the fields it returns and
  destroys the response. The property is that, for all of them, the caller gets exactly
  what the exported function answered, and the memory is afterwards what it was before.
\<close>

section \<open>Fields of a value\<close>

text \<open>The wrappers that return some of the fields of a struct, in their own order.\<close>

definition pick_fields :: "nat list \<Rightarrow> val \<Rightarrow> val" where
  "pick_fields is v = (case v of VStruct vs \<Rightarrow> VStruct (map ((!) vs) is) | _ \<Rightarrow> v)"

definition get_field :: "nat \<Rightarrow> val \<Rightarrow> val" where
  "get_field i v = (case v of VStruct vs \<Rightarrow> vs ! i | _ \<Rightarrow> v)"

definition go_call_fields ::
    "value_type \<Rightarrow> nat list \<Rightarrow> ('w \<times> heap, cval) io \<Rightarrow> ('w \<times> heap, val + val) io" where
  "go_call_fields t is = with_response t (\<lambda>st emsg v. check_and_copy st emsg (pick_fields is v))"

abbreviation enc_unit :: "unit \<Rightarrow> val" where "enc_unit \<equiv> \<lambda>_. VPlain PUnit"
abbreviation enc_bool :: "bool \<Rightarrow> val" where "enc_bool \<equiv> \<lambda>b. VPlain (PBool b)"
abbreviation enc_array :: "bytes \<Rightarrow> val" where "enc_array \<equiv> \<lambda>b. VPlain (PArray b)"
abbreviation enc_word :: "u64 \<Rightarrow> val" where "enc_word \<equiv> \<lambda>w. VPlain (PWord w)"

section \<open>The wrappers\<close>

definition cgo_VerifySeal ::
    "'s logger \<Rightarrow> ('s, 'p1, 'c1, 'fr) seal_lib \<Rightarrow> RegisteredSealProof \<Rightarrow> array32 \<Rightarrow> array32
      \<Rightarrow> array32 \<Rightarrow> array32 \<Rightarrow> array32 \<Rightarrow> u64 \<Rightarrow> bytes \<Rightarrow> ('s world
      \<times> heap, val + val) io" where
  "cgo_VerifySeal L S registered_proof comm_r comm_d prover_id ticket seed sector_id proof =
     go_call R_bool (ffi_export (enc_Result enc_bool) (verify_seal L S registered_proof comm_r comm_d
       prover_id ticket seed sector_id proof))"

definition cgo_VerifyAggregateSealProof ::
    "'s logger \<Rightarrow> ('s, 'p1, 'c1, 'fr) seal_lib \<Rightarrow> 'fr rayon \<Rightarrow> RegisteredSealProof \<Rightarrow>
      RegisteredAggregationProof \<Rightarrow> array32 \<Rightarrow> bytes \<Rightarrow> AggregationInputs list \<Rightarrow> ('s world
      \<times> heap, val + val) io" where
  "cgo_VerifyAggregateSealProof L S try_reduce registered_proof registered_aggregation prover_id proof
     commit_inputs =
     go_call R_bool (ffi_export (enc_Result enc_bool) (verify_aggregate_seal_proof L S try_reduce
       registered_proof registered_aggregation prover_id proof commit_inputs))"

definition cgo_VerifyWinningPoSt ::
    "'s logger \<Rightarrow> 's post_lib \<Rightarrow> array32 \<Rightarrow> PublicReplicaInfo list \<Rightarrow> PoStProof list
      \<Rightarrow> array32 \<Rightarrow> ('s world \<times> heap, val + val) io" where
  "cgo_VerifyWinningPoSt L P randomness replicas proofs prover_id =
     go_call R_bool (ffi_export (enc_Result enc_bool) (verify_winning_post L P randomness replicas proofs
       prover_id))"

definition cgo_VerifyWindowPoSt ::
    "'s logger \<Rightarrow> 's post_lib \<Rightarrow> array32 \<Rightarrow> PublicReplicaInfo list \<Rightarrow> PoStProof list
      \<Rightarrow> array32 \<Rightarrow> ('s world \<times> heap, val + val) io" where
  "cgo_VerifyWindowPoSt L P randomness replicas proofs prover_id =
     go_call R_bool (ffi_export (enc_Result enc_bool) (verify_window_post L P randomness replicas proofs
       prover_id))"

definition cgo_GeneratePieceCommitment ::
    "'s logger \<Rightarrow> ('s, 'p1, 'c1, 'fr) seal_lib \<Rightarrow> RegisteredSealProof \<Rightarrow> i32 \<Rightarrow> u64
      \<Rightarrow> ('s world \<times> heap, val + val) io" where
  "cgo_GeneratePieceCommitment L S registered_proof piece_fd_raw unpadded_piece_size =
     go_call_fields R_GeneratePieceCommitment [0] (ffi_export (enc_Result enc_PieceCommitment) (generate_piece_commitment
       L S registered_proof piece_fd_raw unpadded_piece_size))"

definition cgo_GenerateDataCommitment ::
    "'s logger \<Rightarrow> ('s, 'p1, 'c1, 'fr) seal_lib \<Rightarrow> RegisteredSealProof \<Rightarrow> PublicPieceInfo list \<Rightarrow>
      ('s world \<times> heap, val + val) io" where
  "cgo_GenerateDataCommitment L S registered_proof pieces =
     go_call R_array32 (ffi_export (enc_Result enc_array) (generate_data_commitment L S registered_proof
       pieces))"

definition cgo_WriteWithAlignment ::
    "'s logger \<Rightarrow> ('s, 'p1, 'c1, 'fr) seal_lib \<Rightarrow> RegisteredSealProof \<Rightarrow> i32 \<Rightarrow> u64
      \<Rightarrow> i32 \<Rightarrow> u64 list \<Rightarrow> ('s world \<times> heap, val + val) io" where
  "cgo_WriteWithAlignment L S registered_proof src_fd src_size dst_fd existing_piece_sizes =
     go_call_fields R_WriteWithAlignment [1, 2, 0] (ffi_export (enc_Result enc_WriteWithAlignment) (write_with_alignment
       L S registered_proof src_fd src_size dst_fd existing_piece_sizes))"

definition cgo_WriteWithoutAlignment ::
    "'s logger \<Rightarrow> ('s, 'p1, 'c1, 'fr) seal_lib \<Rightarrow> RegisteredSealProof \<Rightarrow> i32 \<Rightarrow> u64
      \<Rightarrow> i32 \<Rightarrow> ('s world \<times> heap, val + val) io" where
  "cgo_WriteWithoutAlignment L S registered_proof src_fd src_size dst_fd =
     go_call_fields R_WriteWithoutAlignment [1, 0] (ffi_export (enc_Result enc_WriteWithoutAlignment) (write_without_alignment
       L S registered_proof src_fd src_size dst_fd))"

definition cgo_SealPreCommitPhase1 ::
    "'s logger \<Rightarrow> ('s, 'p1, 'c1, 'fr) seal_lib \<Rightarrow> RegisteredSealProof \<Rightarrow> bytes \<Rightarrow> bytes
      \<Rightarrow> bytes \<Rightarrow> u64 \<Rightarrow> array32 \<Rightarrow> array32 \<Rightarrow> PublicPieceInfo list \<Rightarrow> ('s
      world \<times> heap, val + val) io" where
  "cgo_SealPreCommitPhase1 L S registered_proof cache_dir_path staged_sector_path sealed_sector_path
     sector_id prover_id ticket pieces =
     go_call R_slice_uint8 (ffi_export (enc_Result enc_bytes) (seal_pre_commit_phase1 L S registered_proof
       cache_dir_path staged_sector_path sealed_sector_path sector_id prover_id ticket pieces))"

definition cgo_SealPreCommitPhase2 ::
    "'s logger \<Rightarrow> ('s, 'p1, 'c1, 'fr) seal_lib \<Rightarrow> bytes \<Rightarrow> bytes \<Rightarrow> bytes \<Rightarrow> ('s
      world \<times> heap, val + val) io" where
  "cgo_SealPreCommitPhase2 L S seal_pre_commit_phase1_output cache_dir_path sealed_sector_path =
     go_call_fields R_SealPreCommitPhase2 [2, 1] (ffi_export (enc_Result enc_PreCommitPhase2) (seal_pre_commit_phase2
       L S seal_pre_commit_phase1_output cache_dir_path sealed_sector_path))"

definition cgo_SealCommitPhase1 ::
    "'s logger \<Rightarrow> ('s, 'p1, 'c1, 'fr) seal_lib \<Rightarrow> RegisteredSealProof \<Rightarrow> array32 \<Rightarrow> array32
      \<Rightarrow> bytes \<Rightarrow> bytes \<Rightarrow> u64 \<Rightarrow> array32 \<Rightarrow> array32 \<Rightarrow> array32
      \<Rightarrow> PublicPieceInfo list \<Rightarrow> ('s world \<times> heap, val + val) io" where
  "cgo_SealCommitPhase1 L S registered_proof comm_r comm_d cache_dir_path replica_path sector_id prover_id
     ticket seed pieces =
     go_call R_slice_uint8 (ffi_export (enc_Result enc_bytes) (seal_commit_phase1 L S registered_proof
       comm_r comm_d cache_dir_path replica_path sector_id prover_id ticket seed pieces))"

definition cgo_SealCommitPhase2 ::
    "'s logger \<Rightarrow> ('s, 'p1, 'c1, 'fr) seal_lib \<Rightarrow> bytes \<Rightarrow> u64 \<Rightarrow> array32 \<Rightarrow> ('s
      world \<times> heap, val + val) io" where
  "cgo_SealCommitPhase2 L S seal_commit_phase1_output sector_id prover_id =
     go_call R_slice_uint8 (ffi_export (enc_Result enc_bytes) (seal_commit_phase2 L S
       seal_commit_phase1_output sector_id prover_id))"

definition cgo_AggregateSealProofs ::
    "'s logger \<Rightarrow> ('s, 'p1, 'c1, 'fr) seal_lib \<Rightarrow> RegisteredSealProof \<Rightarrow> RegisteredAggregationProof
      \<Rightarrow> array32 list \<Rightarrow> array32 list \<Rightarrow> bytes list \<Rightarrow> ('s world \<times> heap, val + val) io" where
  "cgo_AggregateSealProofs L S registered_proof registered_aggregation comm_rs seeds seal_commit_responses =
     go_call R_slice_uint8 (ffi_export (enc_Result enc_bytes) (aggregate_seal_proofs L S registered_proof
       registered_aggregation comm_rs seeds seal_commit_responses))"

definition cgo_UnsealRange ::
    "'s logger \<Rightarrow> ('s, 'p1, 'c1, 'fr) seal_lib \<Rightarrow> RegisteredSealProof \<Rightarrow> bytes \<Rightarrow> i32
      \<Rightarrow> i32 \<Rightarrow> u64 \<Rightarrow> array32 \<Rightarrow> array32 \<Rightarrow> array32 \<Rightarrow> u64 \<Rightarrow>
      u64 \<Rightarrow> ('s world \<times> heap, val + val) io" where
  "cgo_UnsealRange L S registered_proof cache_dir_path sealed_sector_fd_raw unseal_output_fd_raw sector_id
     prover_id ticket comm_d unpadded_byte_index unpadded_bytes_amount =
     go_call R_void (ffi_export (enc_Result enc_unit) (unseal_range L S registered_proof cache_dir_path
       sealed_sector_fd_raw unseal_output_fd_raw sector_id prover_id ticket comm_d unpadded_byte_index
       unpadded_bytes_amount))"

definition cgo_GenerateWinningPoStSectorChallenge ::
    "'s logger \<Rightarrow> 's post_lib \<Rightarrow> RegisteredPoStProof \<Rightarrow> array32 \<Rightarrow> u64 \<Rightarrow> array32
      \<Rightarrow> ('s world \<times> heap, val + val) io" where
  "cgo_GenerateWinningPoStSectorChallenge L P registered_proof randomness sector_set_len prover_id =
     go_call R_slice_uint64 (ffi_export (enc_Result enc_words) (generate_winning_post_sector_challenge L P
       registered_proof randomness sector_set_len prover_id))"

definition cgo_GenerateWinningPoSt ::
    "'s logger \<Rightarrow> 's post_lib \<Rightarrow> array32 \<Rightarrow> PrivateReplicaInfo list \<Rightarrow> array32 \<Rightarrow> ('s
      world \<times> heap, val + val) io" where
  "cgo_GenerateWinningPoSt L P randomness replicas prover_id =
     go_call R_slice_PoStProof (ffi_export (enc_Result enc_PoStProofs) (generate_winning_post L P randomness
       replicas prover_id))"

definition cgo_GetGpuDevices ::
    "'s logger \<Rightarrow> ('s, string list) io \<Rightarrow> ('s world \<times> heap, val + val) io" where
  "cgo_GetGpuDevices L device_names =
     go_call R_slice_slice_uint8 (ffi_export (enc_Result enc_slices) (get_gpu_devices L device_names))"

definition cgo_GetNumPartitionForFallbackPost ::
    "'s logger \<Rightarrow> 's post_lib \<Rightarrow> RegisteredPoStProof \<Rightarrow> u64 \<Rightarrow> ('s world \<times> heap, val +
      val) io" where
  "cgo_GetNumPartitionForFallbackPost L P registered_proof num_sectors =
     go_call R_size (ffi_export (enc_Result enc_word) (get_num_partition_for_fallback_post L P
       registered_proof num_sectors))"

definition cgo_ClearCache ::
    "'s logger \<Rightarrow> ('s, 'p1, 'c1, 'fr) seal_lib \<Rightarrow> u64 \<Rightarrow> bytes \<Rightarrow> ('s world \<times> heap, val +
      val) io" where
  "cgo_ClearCache L S sector_size cache_dir_path =
     go_call R_void (ffi_export (enc_Result enc_unit) (clear_cache L S sector_size cache_dir_path))"

definition cgo_Fauxrep ::
    "'s logger \<Rightarrow> ('s, 'p1, 'c1, 'fr) seal_lib \<Rightarrow> RegisteredSealProof \<Rightarrow> bytes \<Rightarrow> bytes
      \<Rightarrow> ('s world \<times> heap, val + val) io" where
  "cgo_Fauxrep L S registered_proof cache_dir_path sealed_sector_path =
     go_call R_array32 (ffi_export (enc_Result enc_array) (fauxrep L S registered_proof cache_dir_path
       sealed_sector_path))"

definition cgo_Fauxrep2 ::
    "'s logger \<Rightarrow> ('s, 'p1, 'c1, 'fr) seal_lib \<Rightarrow> RegisteredSealProof \<Rightarrow> bytes \<Rightarrow> bytes
      \<Rightarrow> ('s world \<times> heap, val + val) io" where
  "cgo_Fauxrep2 L S registered_proof cache_dir_path existing_p_aux_path =
     go_call R_array32 (ffi_export (enc_Result enc_array) (fauxrep2 L S registered_proof cache_dir_path
       existing_p_aux_path))"

definition cgo_EmptySectorUpdateEncodeInto ::
    "'s logger \<Rightarrow> 's update_lib \<Rightarrow> RegisteredUpdateProof \<Rightarrow> bytes \<Rightarrow> bytes \<Rightarrow> bytes
      \<Rightarrow> bytes \<Rightarrow> bytes \<Rightarrow> PublicPieceInfo list \<Rightarrow> ('s world \<times> heap, val + val) io" where
  "cgo_EmptySectorUpdateEncodeInto L U registered_proof new_replica_path new_cache_dir_path sector_key_path
     sector_key_cache_dir_path staged_data_path pieces =
     go_call_fields R_EmptySectorUpdateEncodeInto [0, 2] (ffi_export (enc_Result enc_EncodeInto) (empty_sector_update_encode_into
       L U registered_proof new_replica_path new_cache_dir_path sector_key_path sector_key_cache_dir_path
       staged_data_path pieces))"

definition cgo_EmptySectorUpdateDecodeFrom ::
    "'s logger \<Rightarrow> 's update_lib \<Rightarrow> RegisteredUpdateProof \<Rightarrow> bytes \<Rightarrow> bytes \<Rightarrow> bytes
      \<Rightarrow> bytes \<Rightarrow> array32 \<Rightarrow> ('s world \<times> heap, val + val) io" where
  "cgo_EmptySectorUpdateDecodeFrom L U registered_proof out_data_path replica_path sector_key_path
     sector_key_cache_dir_path comm_d_new =
     go_call R_void (ffi_export (enc_Result enc_unit) (empty_sector_update_decode_from L U registered_proof
       out_data_path replica_path sector_key_path sector_key_cache_dir_path comm_d_new))"

definition cgo_EmptySectorUpdateRemoveEncodedData ::
    "'s logger \<Rightarrow> 's update_lib \<Rightarrow> RegisteredUpdateProof \<Rightarrow> bytes \<Rightarrow> bytes \<Rightarrow> bytes
      \<Rightarrow> bytes \<Rightarrow> bytes \<Rightarrow> array32 \<Rightarrow> ('s world \<times> heap, val + val) io" where
  "cgo_EmptySectorUpdateRemoveEncodedData L U registered_proof sector_key_path sector_key_cache_dir_path
     replica_path replica_cache_path data_path comm_d_new =
     go_call R_void (ffi_export (enc_Result enc_unit) (empty_sector_update_remove_encoded_data L U
       registered_proof sector_key_path sector_key_cache_dir_path replica_path replica_cache_path data_path
       comm_d_new))"

definition cgo_GenerateEmptySectorUpdatePartitionProofs ::
    "'s logger \<Rightarrow> 's update_lib \<Rightarrow> RegisteredUpdateProof \<Rightarrow> array32 \<Rightarrow> array32 \<Rightarrow>
      array32 \<Rightarrow> bytes \<Rightarrow> bytes \<Rightarrow> bytes \<Rightarrow> bytes \<Rightarrow> ('s world \<times> heap, val +
      val) io" where
  "cgo_GenerateEmptySectorUpdatePartitionProofs L U registered_proof comm_r_old comm_r_new comm_d_new
     sector_key_path sector_key_cache_dir_path replica_path replica_cache_path =
     go_call R_slice_slice_uint8 (ffi_export (enc_Result enc_slices) (generate_empty_sector_update_partition_proofs
       L U registered_proof comm_r_old comm_r_new comm_d_new sector_key_path sector_key_cache_dir_path
       replica_path replica_cache_path))"

definition cgo_VerifyEmptySectorUpdatePartitionProofs ::
    "'s logger \<Rightarrow> 's update_lib \<Rightarrow> RegisteredUpdateProof \<Rightarrow> bytes list \<Rightarrow> array32 \<Rightarrow>
      array32 \<Rightarrow> array32 \<Rightarrow> ('s world \<times> heap, val + val) io" where
  "cgo_VerifyEmptySectorUpdatePartitionProofs L U registered_proof proofs comm_r_old comm_r_new comm_d_new =
     go_call R_bool (ffi_export (enc_Result enc_bool) (verify_empty_sector_update_partition_proofs L U
       registered_proof proofs comm_r_old comm_r_new comm_d_new))"

definition cgo_GenerateEmptySectorUpdateProofWithVanilla ::
    "'s logger \<Rightarrow> 's update_lib \<Rightarrow> RegisteredUpdateProof \<Rightarrow> bytes list \<Rightarrow> array32 \<Rightarrow>
      array32 \<Rightarrow> array32 \<Rightarrow> ('s world \<times> heap, val + val) io" where
  "cgo_GenerateEmptySectorUpdateProofWithVanilla L U registered_proof vanilla_proofs comm_r_old comm_r_new
     comm_d_new =
     go_call R_slice_uint8 (ffi_export (enc_Result enc_bytes) (generate_empty_sector_update_proof_with_vanilla
       L U registered_proof vanilla_proofs comm_r_old comm_r_new comm_d_new))"

definition cgo_GenerateEmptySectorUpdateProof ::
    "'s logger \<Rightarrow> 's update_lib \<Rightarrow> RegisteredUpdateProof \<Rightarrow> array32 \<Rightarrow> array32 \<Rightarrow>
      array32 \<Rightarrow> bytes \<Rightarrow> bytes \<Rightarrow> bytes \<Rightarrow> bytes \<Rightarrow> ('s world \<times> heap, val +
      val) io" where
  "cgo_GenerateEmptySectorUpdateProof L U registered_proof comm_r_old comm_r_new comm_d_new sector_key_path
     sector_key_cache_dir_path replica_path replica_cache_path =
     go_call R_slice_uint8 (ffi_export (enc_Result enc_bytes) (generate_empty_sector_update_proof L U
       registered_proof comm_r_old comm_r_new comm_d_new sector_key_path sector_key_cache_dir_path
       replica_path replica_cache_path))"

definition cgo_VerifyEmptySectorUpdateProof ::
    "'s logger \<Rightarrow> 's update_lib \<Rightarrow> RegisteredUpdateProof \<Rightarrow> bytes \<Rightarrow> array32 \<Rightarrow>
      array32 \<Rightarrow> array32 \<Rightarrow> ('s world \<times> heap, val + val) io" where
  "cgo_VerifyEmptySectorUpdateProof L U registered_proof proof comm_r_old comm_r_new comm_d_new =
     go_call R_bool (ffi_export (enc_Result enc_bool) (verify_empty_sector_update_proof L U registered_proof
       proof comm_r_old comm_r_new comm_d_new))"

definition cgo_GenerateFallbackSectorChallenges ::
    "'s logger \<Rightarrow> 's post_lib \<Rightarrow> RegisteredPoStProof \<Rightarrow> array32 \<Rightarrow> u64 list \<Rightarrow>
      array32 \<Rightarrow> ('s world \<times> heap, val + val) io" where
  "cgo_GenerateFallbackSectorChallenges L P registered_proof randomness sector_ids prover_id =
     go_call R_GenerateFallbackSectorChallenges (ffi_export (enc_Result enc_FallbackSectorChallenges) (generate_fallback_sector_challenges
       L P registered_proof randomness sector_ids prover_id))"

definition cgo_GenerateSingleVanillaProof ::
    "'s logger \<Rightarrow> 's post_lib \<Rightarrow> PrivateReplicaInfo \<Rightarrow> u64 list \<Rightarrow> ('s world \<times> heap, val
      + val) io" where
  "cgo_GenerateSingleVanillaProof L P replica challenges =
     go_call R_slice_uint8 (ffi_export (enc_Result enc_bytes) (generate_single_vanilla_proof L P replica
       challenges))"

definition cgo_GenerateWinningPoStWithVanilla ::
    "'s logger \<Rightarrow> 's post_lib \<Rightarrow> RegisteredPoStProof \<Rightarrow> array32 \<Rightarrow> array32 \<Rightarrow> bytes
      list \<Rightarrow> ('s world \<times> heap, val + val) io" where
  "cgo_GenerateWinningPoStWithVanilla L P registered_proof randomness prover_id vanilla_proofs =
     go_call R_slice_PoStProof (ffi_export (enc_Result enc_PoStProofs) (generate_winning_post_with_vanilla L
       P registered_proof randomness prover_id vanilla_proofs))"

definition cgo_GenerateWindowPoStWithVanilla ::
    "'s logger \<Rightarrow> 's post_lib \<Rightarrow> RegisteredPoStProof \<Rightarrow> array32 \<Rightarrow> array32 \<Rightarrow> bytes
      list \<Rightarrow> ('s world \<times> heap, val + val) io" where
  "cgo_GenerateWindowPoStWithVanilla L P registered_proof randomness prover_id vanilla_proofs =
     go_call R_GenerateWindowPoSt (ffi_export (enc_Result enc_WindowPoSt) (generate_window_post_with_vanilla
       L P registered_proof randomness prover_id vanilla_proofs))"

definition cgo_GenerateSingleWindowPoStWithVanilla ::
    "'s logger \<Rightarrow> 's post_lib \<Rightarrow> RegisteredPoStProof \<Rightarrow> array32 \<Rightarrow> array32 \<Rightarrow> bytes
      list \<Rightarrow> u64 \<Rightarrow> ('s world \<times> heap, val + val) io" where
  "cgo_GenerateSingleWindowPoStWithVanilla L P registered_proof randomness prover_id vanilla_proofs
     partition_index =
     go_call R_GenerateSingleWindowPoStWithVanilla (ffi_export (enc_Result enc_SingleWindowPoSt) (generate_single_window_post_with_vanilla
       L P registered_proof randomness prover_id vanilla_proofs partition_index))"

definition cgo_MergeWindowPoStPartitionProofs ::
    "'s logger \<Rightarrow> 's post_lib \<Rightarrow> RegisteredPoStProof \<Rightarrow> bytes list \<Rightarrow> ('s world \<times> heap,
      val + val) io" where
  "cgo_MergeWindowPoStPartitionProofs L P registered_proof partition_proofs =
     go_call R_PoStProof (ffi_export (enc_Result enc_PoStProof) (merge_window_post_partition_proofs L P
       registered_proof partition_proofs))"

definition cgo_InitLogFd ::
    "'s logger \<Rightarrow> i32 \<Rightarrow> ('s world \<times> heap, val + val) io" where
  "cgo_InitLogFd L log_fd =
     go_call R_void (ffi_export (enc_Result enc_unit) (init_log_fd L log_fd))"

text \<open>An error of \<open>generate_window_post\<close> still carries the faulty sectors, and the wrapper returns
  them with it.\<close>

definition window_post_result :: "nat \<Rightarrow> val \<Rightarrow> val \<Rightarrow> val \<times> val + val \<times> val" where
  "window_post_result st emsg v =
     (if st = status_num NoError then Inr (get_field 0 v, VSlice []) else Inl (get_field 1 v, emsg))"

definition cgo_GenerateWindowPoSt ::
    "'s logger \<Rightarrow> 's post_lib \<Rightarrow> array32 \<Rightarrow> PrivateReplicaInfo list \<Rightarrow> array32
      \<Rightarrow> ('s world \<times> heap, val \<times> val + val \<times> val) io" where
  "cgo_GenerateWindowPoSt L P randomness replicas prover_id =
     with_response R_GenerateWindowPoSt window_post_result
       (ffi_export (enc_Result enc_WindowPoSt) (generate_window_post L P randomness replicas prover_id))"

definition cgo_GetSealVersion ::
    "api_RegisteredSealProof proof_info \<Rightarrow> RegisteredSealProof \<Rightarrow> ('w \<times> heap, val + val) io" where
  "cgo_GetSealVersion I registered_proof =
     go_call R_slice_uint8 (ffi_export (enc_Result enc_bytes) (from_exec (get_seal_version I registered_proof)))"

definition cgo_GetPoStVersion ::
    "api_RegisteredPoStProof proof_info \<Rightarrow> RegisteredPoStProof \<Rightarrow> ('w \<times> heap, val + val) io" where
  "cgo_GetPoStVersion I registered_proof =
     go_call R_slice_uint8 (ffi_export (enc_Result enc_bytes) (from_exec (get_post_version I registered_proof)))"

section \<open>What the wrappers return\<close>

text \<open>A wrapper is faithful to an exported function when, for every answer of that function, it
  returns the encoded value or the error message, and leaves the cells of the heap as they
  were.\<close>

definition faithful_call ::
    "('a \<Rightarrow> val) \<Rightarrow> ('w, 'a Result) io \<Rightarrow> ('w \<times> heap, val + val) io \<Rightarrow> bool" where
  "faithful_call enc_v m g \<longleftrightarrow>
     (\<forall>w h r w'. heap_ok h \<longrightarrow> m w = (Returns r, w') \<longrightarrow>
        (\<exists>h'. g (w, h) = (Returns (go_value enc_v r), (w', h')) \<and> cells h' = cells h \<and> heap_ok h'))"

text \<open>The same for a wrapper that gives its caller some other part of the answer.\<close>

definition faithful_with ::
    "('a Result \<Rightarrow> 'r) \<Rightarrow> ('w, 'a Result) io \<Rightarrow> ('w \<times> heap, 'r) io \<Rightarrow> bool" where
  "faithful_with answer m g \<longleftrightarrow>
     (\<forall>w h r w'. heap_ok h \<longrightarrow> m w = (Returns r, w') \<longrightarrow>
        (\<exists>h'. g (w, h) = (Returns (answer r), (w', h')) \<and> cells h' = cells h \<and> heap_ok h'))"

context ffi_layout
begin

lemma faithful: "faithful_call enc_v m (go_call rtype (ffi_export (enc_Result enc_v) m))"
  unfolding faithful_call_def by (intro allI impI) (rule go_call_run [where m = m])

lemma faithful_fields:
  "faithful_call (\<lambda>v. pick_fields is (enc_v v)) m (go_call_fields rtype is (ffi_export (enc_Result enc_v) m))"
  unfolding faithful_call_def
proof (intro allI impI)
  fix w h r w'
  assume a: "heap_ok h" "m w = (Returns r, w')"
  have st: "status_num (status_code r) = 0 \<longleftrightarrow> status_code r = NoError" by (cases "status_code r") simp_all
  show "\<exists>h'. go_call_fields rtype is (ffi_export (enc_Result enc_v) m) (w, h) =
      (Returns (go_value (\<lambda>v. pick_fields is (enc_v v)) r), (w', h')) \<and> cells h' = cells h \<and> heap_ok h'"
    using with_response_run [where m = m and w = w, OF a(2,1),
        of "\<lambda>st emsg v. check_and_copy st emsg (pick_fields is v)"] st
    by (simp add: go_call_fields_def check_and_copy_def go_value_def)
qed

end

lemmas cgo_defs =
  cgo_VerifySeal_def cgo_VerifyAggregateSealProof_def cgo_VerifyWinningPoSt_def cgo_VerifyWindowPoSt_def
  cgo_GeneratePieceCommitment_def cgo_GenerateDataCommitment_def cgo_WriteWithAlignment_def
  cgo_WriteWithoutAlignment_def cgo_SealPreCommitPhase1_def cgo_SealPreCommitPhase2_def
  cgo_SealCommitPhase1_def cgo_SealCommitPhase2_def cgo_AggregateSealProofs_def cgo_UnsealRange_def
  cgo_GenerateWinningPoStSectorChallenge_def cgo_GenerateWinningPoSt_def cgo_GetGpuDevices_def
  cgo_GetNumPartitionForFallbackPost_def cgo_ClearCache_def cgo_Fauxrep_def cgo_Fauxrep2_def
  cgo_EmptySectorUpdateEncodeInto_def cgo_EmptySectorUpdateDecodeFrom_def
  cgo_EmptySectorUpdateRemoveEncodedData_def cgo_GenerateEmptySectorUpdatePartitionProofs_def
  cgo_VerifyEmptySectorUpdatePartitionProofs_def cgo_GenerateEmptySectorUpdateProofWithVanilla_def
  cgo_GenerateEmptySectorUpdateProof_def cgo_VerifyEmptySectorUpdateProof_def
  cgo_GenerateFallbackSectorChallenges_def cgo_GenerateSingleVanillaProof_def
  cgo_GenerateWinningPoStWithVanilla_def cgo_GenerateWindowPoStWithVanilla_def
  cgo_GenerateSingleWindowPoStWithVanilla_def cgo_MergeWindowPoStPartitionProofs_def cgo_InitLogFd_def cgo_GetSealVersion_def cgo_GetPoStVersion_def

lemmas wrappers_faithful =
  void_type.faithful bool_type.faithful array32_type.faithful size_type.faithful bytes_type.faithful
  words_type.faithful slices_type.faithful post_proofs_type.faithful post_proof_type.faithful
  challenges_type.faithful window_type.faithful single_window_type.faithful
  piece_type.faithful_fields aligned_type.faithful_fields unaligned_type.faithful_fields
  phase2_type.faithful_fields encode_type.faithful_fields

text \<open>What the caller of \<open>GenerateWindowPoSt\<close> gets: the proofs and no faulty sectors, or the faulty
  sectors with the error.\<close>

definition window_post_value :: "GenerateWindowPoSt Result \<Rightarrow> val \<times> val + val \<times> val" where
  "window_post_value r =
     (if status_code r = NoError then Inr (enc_PoStProofs (wp_proofs (value_of r)), VSlice [])
      else Inl (enc_words (wp_faulty_sectors (value_of r)), enc_bytes (error_msg r)))"

lemma window_post_faithful:
  "faithful_with window_post_value (generate_window_post L P x1 pris x2) (cgo_GenerateWindowPoSt L P x1 pris x2)"
  unfolding faithful_with_def cgo_GenerateWindowPoSt_def
proof (intro allI impI)
  fix w h r w'
  assume a: "heap_ok h" "generate_window_post L P x1 pris x2 w = (Returns r, w')"
  have st: "status_num (status_code r) = 0 \<longleftrightarrow> status_code r = NoError" by (cases "status_code r") simp_all
  have "window_post_result (status_num (status_code r)) (enc_bytes (error_msg r)) (enc_WindowPoSt (value_of r)) =
      window_post_value r"
    using st by (simp add: window_post_result_def window_post_value_def enc_WindowPoSt_def get_field_def)
  with window_type.with_response_run [where m = "generate_window_post L P x1 pris x2" and w = w, OF a(2,1), of window_post_result]
  show "\<exists>h'. with_response R_GenerateWindowPoSt window_post_result
        (ffi_export (enc_Result enc_WindowPoSt) (generate_window_post L P x1 pris x2)) (w, h) =
      (Returns (window_post_value r), (w', h')) \<and> cells h' = cells h \<and> heap_ok h'"
    by simp
qed

section \<open>Properties\<close>


end
