(* ===== verification/Go_Proofs.thy ===== *)
theory Go_Proofs
  imports Go_Calls
begin

text \<open>
  The callers of \<open>proofs.go\<close> and \<open>distributed.go\<close> that allocate memory for their arguments:
  proofs, replica infos and vanilla proofs are boxed slices of Rust's allocator
  (\<open>AllocSliceBoxedUint8\<close>), read by the exported function through the pointer, and given back
  by a cleaner of the caller, or by the exported function when it takes its argument by
  value. The properties say which callers give back what they allocated, on success and on
  every error, and which do not. The conversions of CIDs and addresses are the record
  \<open>go_conv\<close>.
\<close>

section \<open>Conversions\<close>

text \<open>\<open>abi.RegisteredPoStProof\<close>: the constants that the source names, and any other number.\<close>

datatype abi_RegisteredPoStProof =
    abi_StackedDrgWinning2KiBV1
  | abi_StackedDrgWinning8MiBV1
  | abi_StackedDrgWinning512MiBV1
  | abi_StackedDrgWinning32GiBV1
  | abi_StackedDrgWinning64GiBV1
  | abi_StackedDrgWindow2KiBV1
  | abi_StackedDrgWindow8MiBV1
  | abi_StackedDrgWindow512MiBV1
  | abi_StackedDrgWindow32GiBV1
  | abi_StackedDrgWindow64GiBV1
  | abi_OtherPoSt int

text \<open>An error is known by its text, up to the value that it quotes; an error of the library is
  the message of the response.\<close>

datatype go_error = GoErr string | FfiErr val

text \<open>\<open>errors.Wrap(err, what)\<close> and \<open>xerrors.Errorf("what: %w", err)\<close>: an error of Go's own code with a prefix that says
  what failed.\<close>

definition wrap_error :: "string \<Rightarrow> go_error \<Rightarrow> go_error" where
  "wrap_error what e = (case e of GoErr m \<Rightarrow> GoErr (what @ m) | FfiErr v \<Rightarrow> FfiErr v)"

definition wrapped :: "string \<Rightarrow> (go_error + 'a) exec \<Rightarrow> (go_error + 'a) exec" where
  "wrapped what x = bind_exec x (\<lambda>r. Returns (map_sum (wrap_error what) id r))"

definition wrapped_io :: "string \<Rightarrow> ('s, go_error + 'a) io \<Rightarrow> ('s, go_error + 'a) io" where
  "wrapped_io what m = bind_io m (\<lambda>r. ret (map_sum (wrap_error what) id r))"

lemma wrapped_Returns [simp]: "wrapped what (Returns (Inr a)) = Returns (Inr a)"
  by (simp add: wrapped_def bind_exec_def)

lemma try_wrapped:
  "try_io (from_exec (wrapped what x)) f =
     bind_io (from_exec x) (\<lambda>r. case r of Inl e \<Rightarrow> ret (Inl (wrap_error what e)) | Inr a \<Rightarrow> f a)"
  "try_io (wrapped_io what m) f =
     bind_io m (\<lambda>r. case r of Inl e \<Rightarrow> ret (Inl (wrap_error what e)) | Inr a \<Rightarrow> f a)"
  by (auto simp: fun_eq_iff try_io_def wrapped_def wrapped_io_def bind_io_def bind_exec_def from_exec_def ret_def
      split: exec.splits sum.splits prod.splits)

fun toFilRegisteredPoStProof :: "abi_RegisteredPoStProof \<Rightarrow> go_error + RegisteredPoStProof" where
  "toFilRegisteredPoStProof abi_StackedDrgWinning2KiBV1 = Inr RegisteredPoStProof.StackedDrgWinning2KiBV1"
| "toFilRegisteredPoStProof abi_StackedDrgWinning8MiBV1 = Inr RegisteredPoStProof.StackedDrgWinning8MiBV1"
| "toFilRegisteredPoStProof abi_StackedDrgWinning512MiBV1 = Inr RegisteredPoStProof.StackedDrgWinning512MiBV1"
| "toFilRegisteredPoStProof abi_StackedDrgWinning32GiBV1 = Inr RegisteredPoStProof.StackedDrgWinning32GiBV1"
| "toFilRegisteredPoStProof abi_StackedDrgWinning64GiBV1 = Inr RegisteredPoStProof.StackedDrgWinning64GiBV1"
| "toFilRegisteredPoStProof abi_StackedDrgWindow2KiBV1 = Inr RegisteredPoStProof.StackedDrgWindow2KiBV1"
| "toFilRegisteredPoStProof abi_StackedDrgWindow8MiBV1 = Inr RegisteredPoStProof.StackedDrgWindow8MiBV1"
| "toFilRegisteredPoStProof abi_StackedDrgWindow512MiBV1 = Inr RegisteredPoStProof.StackedDrgWindow512MiBV1"
| "toFilRegisteredPoStProof abi_StackedDrgWindow32GiBV1 = Inr RegisteredPoStProof.StackedDrgWindow32GiBV1"
| "toFilRegisteredPoStProof abi_StackedDrgWindow64GiBV1 = Inr RegisteredPoStProof.StackedDrgWindow64GiBV1"
| "toFilRegisteredPoStProof (abi_OtherPoSt _) =
     Inl (GoErr ''no mapping to abi.RegisteredPoStProof value available'')"

fun fromFilRegisteredPoStProof :: "RegisteredPoStProof \<Rightarrow> abi_RegisteredPoStProof" where
  "fromFilRegisteredPoStProof RegisteredPoStProof.StackedDrgWinning2KiBV1 = abi_StackedDrgWinning2KiBV1"
| "fromFilRegisteredPoStProof RegisteredPoStProof.StackedDrgWinning8MiBV1 = abi_StackedDrgWinning8MiBV1"
| "fromFilRegisteredPoStProof RegisteredPoStProof.StackedDrgWinning512MiBV1 = abi_StackedDrgWinning512MiBV1"
| "fromFilRegisteredPoStProof RegisteredPoStProof.StackedDrgWinning32GiBV1 = abi_StackedDrgWinning32GiBV1"
| "fromFilRegisteredPoStProof RegisteredPoStProof.StackedDrgWinning64GiBV1 = abi_StackedDrgWinning64GiBV1"
| "fromFilRegisteredPoStProof RegisteredPoStProof.StackedDrgWindow2KiBV1 = abi_StackedDrgWindow2KiBV1"
| "fromFilRegisteredPoStProof RegisteredPoStProof.StackedDrgWindow8MiBV1 = abi_StackedDrgWindow8MiBV1"
| "fromFilRegisteredPoStProof RegisteredPoStProof.StackedDrgWindow512MiBV1 = abi_StackedDrgWindow512MiBV1"
| "fromFilRegisteredPoStProof RegisteredPoStProof.StackedDrgWindow32GiBV1 = abi_StackedDrgWindow32GiBV1"
| "fromFilRegisteredPoStProof RegisteredPoStProof.StackedDrgWindow64GiBV1 = abi_StackedDrgWindow64GiBV1"

text \<open>The packages \<open>go-fil-commcid\<close>, \<open>go-address\<close> and \<open>go-state-types\<close>, as the callers use them.\<close>

record ('cid, 'sp) go_conv =
  CIDToReplicaCommitmentV1 :: "'cid \<Rightarrow> bytes option"
  IDAddressPayload :: "u64 \<Rightarrow> bytes option"
  RegisteredWindowPoStProof :: "'sp \<Rightarrow> abi_RegisteredPoStProof option"
  RegisteredWinningPoStProof :: "'sp \<Rightarrow> abi_RegisteredPoStProof option"

text \<open>Byte by byte into a zeroed array of 32; an index beyond it panics.\<close>

definition AsByteArray32 :: "bytes \<Rightarrow> array32 exec" where
  "AsByteArray32 bs =
     (if length bs \<le> 32 then Returns (bs @ replicate (32 - length bs) 0)
      else Panics (StringPayload ''index out of range''))"

definition to32ByteCommR :: "('cid, 'sp) go_conv \<Rightarrow> 'cid \<Rightarrow> (go_error + array32) exec" where
  "to32ByteCommR G sealedCID =
     (case CIDToReplicaCommitmentV1 G sealedCID of
        None \<Rightarrow> Returns (Inl (GoErr ''failed to transform sealed CID to CommR''))
      | Some commR \<Rightarrow> bind_exec (AsByteArray32 commR) (\<lambda>a. Returns (Inr a)))"

definition toProverID :: "('cid, 'sp) go_conv \<Rightarrow> u64 \<Rightarrow> (go_error + array32) exec" where
  "toProverID G minerID =
     (case IDAddressPayload G minerID of
        None \<Rightarrow> Returns (Inl (GoErr ''failed to convert ActorID to prover id ([32]byte) for FFI''))
      | Some payload \<Rightarrow> bind_exec (AsByteArray32 payload) (\<lambda>a. Returns (Inr a)))"

section \<open>Memory of the arguments\<close>

text \<open>Steps on the heap: an allocation, and a release, which must not fail.\<close>

definition on_heap :: "(heap \<Rightarrow> 'a \<times> heap) \<Rightarrow> ('w \<times> heap, 'a) io" where
  "on_heap f = (\<lambda>(w, h). case f h of (a, h') \<Rightarrow> (Returns a, (w, h')))"

definition release :: "(heap \<Rightarrow> heap option) \<Rightarrow> ('w \<times> heap, unit) io" where
  "release f = (\<lambda>(w, h). case f h of None \<Rightarrow> (Undefined, (w, h)) | Some h' \<Rightarrow> (Returns (), (w, h')))"

definition read_heap :: "(heap \<Rightarrow> 'a option) \<Rightarrow> ('w \<times> heap, 'a) io" where
  "read_heap f = (\<lambda>(w, h). case f h of None \<Rightarrow> (Undefined, (w, h)) | Some a \<Rightarrow> (Returns a, (w, h)))"

text \<open>\<open>C.alloc_boxed_slice(len)\<close> gives zeroed memory, \<open>copy(ptr.slice(), goBytes)\<close> fills it.\<close>

definition write_slice :: "cval \<Rightarrow> bytes \<Rightarrow> heap \<Rightarrow> heap" where
  "write_slice c bs h =
     (case c of
        CSlice (At a) n \<Rightarrow> h\<lparr>cells := (cells h)(a \<mapsto> map (\<lambda>b. CPlain (PByte b)) bs)\<rparr>
      | _ \<Rightarrow> h)"

definition AllocSliceBoxedUint8 :: "bytes \<Rightarrow> heap \<Rightarrow> cval \<times> heap" where
  "AllocSliceBoxedUint8 goBytes h =
     (case store_val (enc_bytes (alloc_boxed_slice (word_of_nat (length goBytes)))) h of
        (ptr, h') \<Rightarrow> (ptr, write_slice ptr goBytes h'))"

text \<open>\<open>func (ptr *SliceBoxedUint8) Destroy()\<close>\<close>

definition SliceBoxedUint8_Destroy :: "cval \<Rightarrow> heap \<Rightarrow> heap option" where
  "SliceBoxedUint8_Destroy c h = (if c = CSlice Null 0 then Some h else destroy_boxed_slice c h)"

definition NewPoStProof :: "RegisteredPoStProof \<Rightarrow> bytes \<Rightarrow> heap \<Rightarrow> cval \<times> heap" where
  "NewPoStProof pp proof h =
     (case AllocSliceBoxedUint8 proof h of (c, h') \<Rightarrow> (CStruct [CPlain (PEnum (post_code pp)), c], h'))"

definition NewPrivateReplicaInfo ::
    "RegisteredPoStProof \<Rightarrow> bytes \<Rightarrow> array32 \<Rightarrow> bytes \<Rightarrow> u64 \<Rightarrow> heap \<Rightarrow> cval \<times> heap" where
  "NewPrivateReplicaInfo pp cacheDirPath commR replicaPath sectorId h =
     (case AllocSliceBoxedUint8 cacheDirPath h of
        (c, h1) \<Rightarrow>
          (case AllocSliceBoxedUint8 replicaPath h1 of
             (r, h2) \<Rightarrow>
               (CStruct [CPlain (PEnum (post_code pp)), c, CPlain (PArray commR), r, CPlain (PWord sectorId)], h2)))"

text \<open>\<open>func (ptr *PrivateReplicaInfo) Destroy()\<close>: the two paths.\<close>

definition PrivateReplicaInfo_Destroy :: "cval \<Rightarrow> heap \<Rightarrow> heap option" where
  "PrivateReplicaInfo_Destroy c h =
     (case c of
        CStruct [_, cache, _, replica, _] \<Rightarrow>
          (case SliceBoxedUint8_Destroy cache h of
             None \<Rightarrow> None
           | Some h' \<Rightarrow> SliceBoxedUint8_Destroy replica h')
      | _ \<Rightarrow> None)"

fun destroy_list :: "(cval \<Rightarrow> heap \<Rightarrow> heap option) \<Rightarrow> cval list \<Rightarrow> heap \<Rightarrow> heap option" where
  "destroy_list d [] h = Some h"
| "destroy_list d (c # cs) h = (case d c h of None \<Rightarrow> None | Some h' \<Rightarrow> destroy_list d cs h')"

definition makeCleanerPRI :: "cval list \<Rightarrow> ('w \<times> heap, unit) io" where
  "makeCleanerPRI src = release (destroy_list PrivateReplicaInfo_Destroy src)"

definition makeCleanerSBU :: "cval list \<Rightarrow> ('w \<times> heap, unit) io" where
  "makeCleanerSBU src = release (destroy_list SliceBoxedUint8_Destroy src)"

section \<open>What the exported functions read\<close>

definition dec_bytes :: "val \<Rightarrow> bytes option" where
  "dec_bytes v =
     (case v of
        VSlice vs \<Rightarrow> those (map (\<lambda>x. case x of VPlain (PByte b) \<Rightarrow> Some b | _ \<Rightarrow> None) vs)
      | _ \<Rightarrow> None)"

definition all_post_proofs :: "RegisteredPoStProof list" where
  "all_post_proofs =
     [RegisteredPoStProof.StackedDrgWinning2KiBV1, RegisteredPoStProof.StackedDrgWinning8MiBV1,
      RegisteredPoStProof.StackedDrgWinning512MiBV1, RegisteredPoStProof.StackedDrgWinning32GiBV1,
      RegisteredPoStProof.StackedDrgWinning64GiBV1, RegisteredPoStProof.StackedDrgWindow2KiBV1,
      RegisteredPoStProof.StackedDrgWindow8MiBV1, RegisteredPoStProof.StackedDrgWindow512MiBV1,
      RegisteredPoStProof.StackedDrgWindow32GiBV1, RegisteredPoStProof.StackedDrgWindow64GiBV1]"

definition post_of_code :: "nat \<Rightarrow> RegisteredPoStProof option" where
  "post_of_code n = (if n < length all_post_proofs then Some (all_post_proofs ! n) else None)"

definition dec_PoStProof :: "val \<Rightarrow> PoStProof option" where
  "dec_PoStProof v =
     (case v of
        VStruct [VPlain (PEnum n), b] \<Rightarrow>
          (case (post_of_code n, dec_bytes b) of
             (Some pp, Some bs) \<Rightarrow> Some \<lparr>post_registered_proof = pp, post_proof = bs\<rparr>
           | _ \<Rightarrow> None)
      | _ \<Rightarrow> None)"

definition dec_PrivateReplicaInfo :: "val \<Rightarrow> PrivateReplicaInfo option" where
  "dec_PrivateReplicaInfo v =
     (case v of
        VStruct [VPlain (PEnum n), c, VPlain (PArray commR), r, VPlain (PWord i)] \<Rightarrow>
          (case (post_of_code n, dec_bytes c, dec_bytes r) of
             (Some pp, Some cache, Some replica) \<Rightarrow>
               Some \<lparr>pri_registered_proof = pp, pri_cache_dir_path = cache, pri_comm_r = commR,
                 pri_replica_path = replica, pri_sector_id = i\<rparr>
           | _ \<Rightarrow> None)
      | _ \<Rightarrow> None)"

text \<open>A \<open>c_slice::Ref\<close> to structs that the caller allocated.\<close>

definition read_one :: "layout \<Rightarrow> (val \<Rightarrow> 'a option) \<Rightarrow> cval \<Rightarrow> heap \<Rightarrow> 'a option" where
  "read_one t dec c h = (case copy_as t c h of None \<Rightarrow> None | Some v \<Rightarrow> dec v)"

definition read_list :: "layout \<Rightarrow> (val \<Rightarrow> 'a option) \<Rightarrow> cval list \<Rightarrow> heap \<Rightarrow> 'a list option" where
  "read_list t dec cs h = those (map (\<lambda>c. read_one t dec c h) cs)"

section \<open>The callers\<close>

text \<open>An entry of the verify infos: the seal proof, the sector number and the sealed CID.\<close>

record ('cid, 'sp) SectorInfo =
  SealProof :: 'sp
  SectorNumber :: u64
  SealedCID :: 'cid

fun toFilPublicReplicaInfos ::
    "('cid, 'sp) go_conv \<Rightarrow> ('sp \<Rightarrow> abi_RegisteredPoStProof option) \<Rightarrow> ('cid, 'sp) SectorInfo list
      \<Rightarrow> (go_error + PublicReplicaInfo list) exec" where
  "toFilPublicReplicaInfos G typ [] = Returns (Inr [])"
| "toFilPublicReplicaInfos G typ (s # src) =
     bind_exec (to32ByteCommR G (SealedCID s)) (\<lambda>r.
     case r of
       Inl e \<Rightarrow> Returns (Inl e)
     | Inr commR \<Rightarrow>
         (case typ (SealProof s) of
            None \<Rightarrow> Returns (Inl (GoErr ''unsupported mapping''))
          | Some p \<Rightarrow>
              (case toFilRegisteredPoStProof p of
                 Inl e \<Rightarrow> Returns (Inl e)
               | Inr pp \<Rightarrow>
                   bind_exec (toFilPublicReplicaInfos G typ src) (\<lambda>rest.
                   Returns (case rest of
                      Inl e \<Rightarrow> Inl e
                    | Inr out \<Rightarrow> Inr (\<lparr>pub_registered_proof = pp, pub_comm_r = commR,
                        pub_sector_id = SectorNumber s\<rparr> # out))))))"

fun toFilPoStProofs ::
    "(abi_RegisteredPoStProof \<times> bytes) list \<Rightarrow> ('w \<times> heap, go_error + cval list) io" where
  "toFilPoStProofs [] = ret (Inr [])"
| "toFilPoStProofs ((p, proofBytes) # src) =
     try_val (toFilRegisteredPoStProof p) (\<lambda>pp.
     bind_io (on_heap (NewPoStProof pp proofBytes)) (\<lambda>c.
     try_io (toFilPoStProofs src) (\<lambda>cs. ret (Inr (c # cs)))))"

text \<open>An error of the wrapper is the error of the caller.\<close>

definition ffi_result :: "val + val \<Rightarrow> go_error + val" where
  "ffi_result r = (case r of Inl e \<Rightarrow> Inl (FfiErr e) | Inr v \<Rightarrow> Inr v)"

definition go_VerifyWindowPoSt ::
    "('cid, 'sp) go_conv \<Rightarrow> 's logger \<Rightarrow> 's post_lib \<Rightarrow> bytes \<Rightarrow> (abi_RegisteredPoStProof \<times> bytes) list
      \<Rightarrow> ('cid, 'sp) SectorInfo list \<Rightarrow> u64 \<Rightarrow> ('s world \<times> heap, go_error + val) io" where
  "go_VerifyWindowPoSt G L P randomness proofs sectors prover =
     try_io (from_exec (wrapped ''failed to create public replica info array for FFI: ''
       (toFilPublicReplicaInfos G (RegisteredWindowPoStProof G) sectors))) (\<lambda>filPublicReplicaInfos.
     try_io (wrapped_io ''failed to create PoSt proofs array for FFI: '' (toFilPoStProofs proofs)) (\<lambda>filPoStProofs.
     try_io (from_exec (toProverID G prover)) (\<lambda>proverID.
     bind_io (from_exec (AsByteArray32 randomness)) (\<lambda>rnd.
     bind_io (read_heap (read_list PoStProof_layout dec_PoStProof filPoStProofs)) (\<lambda>ps.
     bind_io (cgo_VerifyWindowPoSt L P rnd filPublicReplicaInfos ps proverID) (\<lambda>r.
     ret (ffi_result r)))))))"

definition go_VerifyWinningPoSt ::
    "('cid, 'sp) go_conv \<Rightarrow> 's logger \<Rightarrow> 's post_lib \<Rightarrow> bytes \<Rightarrow> (abi_RegisteredPoStProof \<times> bytes) list
      \<Rightarrow> ('cid, 'sp) SectorInfo list \<Rightarrow> u64 \<Rightarrow> ('s world \<times> heap, go_error + val) io" where
  "go_VerifyWinningPoSt G L P randomness proofs sectors prover =
     try_io (from_exec (wrapped ''failed to create public replica info array for FFI: ''
       (toFilPublicReplicaInfos G (RegisteredWinningPoStProof G) sectors))) (\<lambda>filPublicReplicaInfos.
     try_io (wrapped_io ''failed to create PoSt proofs array for FFI: '' (toFilPoStProofs proofs)) (\<lambda>filPoStProofs.
     try_io (from_exec (toProverID G prover)) (\<lambda>proverID.
     bind_io (from_exec (AsByteArray32 randomness)) (\<lambda>rnd.
     bind_io (read_heap (read_list PoStProof_layout dec_PoStProof filPoStProofs)) (\<lambda>ps.
     bind_io (cgo_VerifyWinningPoSt L P rnd filPublicReplicaInfos ps proverID) (\<lambda>r.
     ret (ffi_result r)))))))"

record 'cid PrivateSectorInfo =
  priv_SectorNumber :: u64
  priv_SealedCID :: 'cid
  CacheDirPath :: bytes
  PoStProofType :: abi_RegisteredPoStProof
  SealedSectorPath :: bytes

definition toFilPrivateReplicaInfo ::
    "('cid, 'sp) go_conv \<Rightarrow> 'cid PrivateSectorInfo \<Rightarrow> ('w \<times> heap, go_error + cval) io" where
  "toFilPrivateReplicaInfo G src =
     try_io (from_exec (to32ByteCommR G (priv_SealedCID src))) (\<lambda>commR.
     try_val (toFilRegisteredPoStProof (PoStProofType src)) (\<lambda>pp.
     bind_io (on_heap (NewPrivateReplicaInfo pp (CacheDirPath src) commR (SealedSectorPath src)
       (priv_SectorNumber src))) (\<lambda>c. ret (Inr c))))"

text \<open>The loop that fills \<open>out\<close>: on an error, what was filled so far is destroyed.\<close>

fun toFilPrivateReplicaInfos ::
    "('cid, 'sp) go_conv \<Rightarrow> cval list \<Rightarrow> 'cid PrivateSectorInfo list \<Rightarrow> ('w \<times> heap, go_error + cval list) io" where
  "toFilPrivateReplicaInfos G out [] = ret (Inr out)"
| "toFilPrivateReplicaInfos G out (s # src) =
     bind_io (toFilPrivateReplicaInfo G s) (\<lambda>r.
     case r of
       Inl e \<Rightarrow> bind_io (makeCleanerPRI out) (\<lambda>_. ret (Inl e))
     | Inr c \<Rightarrow> toFilPrivateReplicaInfos G (out @ [c]) src)"

text \<open>\<open>defer cleanup()\<close>: the cleaner runs whatever the rest does, unless the memory is already lost.\<close>

definition deferred :: "('s, unit) io \<Rightarrow> ('s, 'a) io \<Rightarrow> ('s, 'a) io" where
  "deferred cleanup m s =
     (case m s of
        (Undefined, s') \<Rightarrow> (Undefined, s')
      | (x, s') \<Rightarrow> (case cleanup s' of (Returns _, s'') \<Rightarrow> (x, s'') | (y, s'') \<Rightarrow> (Undefined, s'')))"

text \<open>What the wrappers copied out, as Go values: the proofs and the faulty sectors.\<close>

definition dec_PoStProofs :: "val \<Rightarrow> PoStProof list option" where
  "dec_PoStProofs v = (case v of VSlice vs \<Rightarrow> those (map dec_PoStProof vs) | _ \<Rightarrow> None)"

definition dec_words :: "val \<Rightarrow> u64 list option" where
  "dec_words v =
     (case v of
        VSlice vs \<Rightarrow> those (map (\<lambda>x. case x of VPlain (PWord w) \<Rightarrow> Some w | _ \<Rightarrow> None) vs)
      | _ \<Rightarrow> None)"

type_synonym go_PoStProof = "abi_RegisteredPoStProof \<times> bytes"

definition fromFilPoStProof :: "PoStProof \<Rightarrow> go_PoStProof" where
  "fromFilPoStProof p = (fromFilRegisteredPoStProof (post_registered_proof p), post_proof p)"

definition fromFilPoStProofs :: "val \<Rightarrow> go_error + go_PoStProof list" where
  "fromFilPoStProofs src =
     (case dec_PoStProofs src of
        None \<Rightarrow> Inl (GoErr ''no mapping to abi.RegisteredPoStProof value available'')
      | Some ps \<Rightarrow> Inr (map fromFilPoStProof ps))"

definition fromFilPoStFaultySectors :: "val \<Rightarrow> u64 list" where
  "fromFilPoStFaultySectors src = (case dec_words src of None \<Rightarrow> [] | Some ws \<Rightarrow> ws)"

definition go_GenerateWinningPoSt ::
    "('cid, 'sp) go_conv \<Rightarrow> 's logger \<Rightarrow> 's post_lib \<Rightarrow> u64 \<Rightarrow> 'cid PrivateSectorInfo list \<Rightarrow> bytes
      \<Rightarrow> ('s world \<times> heap, go_error + go_PoStProof list) io" where
  "go_GenerateWinningPoSt G L P minerID privateSectorInfo randomness =
     try_io (wrapped_io ''failed to create private replica info array for FFI: ''
       (toFilPrivateReplicaInfos G [] privateSectorInfo)) (\<lambda>filReplicas.
     deferred (makeCleanerPRI filReplicas)
       (try_io (from_exec (toProverID G minerID)) (\<lambda>proverID.
        bind_io (from_exec (AsByteArray32 randomness)) (\<lambda>rnd.
        bind_io (read_heap (read_list PrivateReplicaInfo_layout dec_PrivateReplicaInfo filReplicas)) (\<lambda>replicas.
        bind_io (cgo_GenerateWinningPoSt L P rnd replicas proverID) (\<lambda>r.
        try_val (ffi_result r) (\<lambda>rawProofs. ret (fromFilPoStProofs rawProofs))))))))"

text \<open>The error comes with the faulty sectors.\<close>

definition window_caller_result :: "val \<times> val + val \<times> val \<Rightarrow> (u64 list \<times> go_error) + go_PoStProof list" where
  "window_caller_result r =
     (case r of
        Inl (faultsRaw, e) \<Rightarrow> Inl (fromFilPoStFaultySectors faultsRaw, FfiErr e)
      | Inr (proofsRaw, _) \<Rightarrow> map_sum (\<lambda>e. ([], e)) id (fromFilPoStProofs proofsRaw))"

definition go_GenerateWindowPoSt ::
    "('cid, 'sp) go_conv \<Rightarrow> 's logger \<Rightarrow> 's post_lib \<Rightarrow> u64 \<Rightarrow> 'cid PrivateSectorInfo list \<Rightarrow> bytes
      \<Rightarrow> ('s world \<times> heap, (u64 list \<times> go_error) + go_PoStProof list) io" where
  "go_GenerateWindowPoSt G L P minerID privateSectorInfo randomness =
     bind_io (toFilPrivateReplicaInfos G [] privateSectorInfo) (\<lambda>filReplicas.
     case filReplicas of
       Inl e \<Rightarrow> ret (Inl ([], wrap_error ''failed to create private replica info array for FFI: '' e))
     | Inr filReplicas \<Rightarrow>
         deferred (makeCleanerPRI filReplicas)
           (bind_io (from_exec (toProverID G minerID)) (\<lambda>proverID.
            case proverID of
              Inl e \<Rightarrow> ret (Inl ([], e))
            | Inr proverID \<Rightarrow>
                bind_io (from_exec (AsByteArray32 randomness)) (\<lambda>rnd.
                bind_io (read_heap (read_list PrivateReplicaInfo_layout dec_PrivateReplicaInfo filReplicas))
                  (\<lambda>replicas.
                bind_io (cgo_GenerateWindowPoSt L P rnd replicas proverID) (\<lambda>r.
                ret (window_caller_result r)))))))"

section \<open>Vanilla proofs\<close>

fun toVanillaProofs :: "bytes list \<Rightarrow> ('w \<times> heap, cval list) io" where
  "toVanillaProofs [] = ret []"
| "toVanillaProofs (b # src) =
     bind_io (on_heap (AllocSliceBoxedUint8 b)) (\<lambda>c.
     bind_io (toVanillaProofs src) (\<lambda>cs. ret (c # cs)))"

definition go_GenerateWinningPoStWithVanilla ::
    "('cid, 'sp) go_conv \<Rightarrow> 's logger \<Rightarrow> 's post_lib \<Rightarrow> abi_RegisteredPoStProof \<Rightarrow> u64 \<Rightarrow> bytes \<Rightarrow> bytes list
      \<Rightarrow> ('s world \<times> heap, go_error + go_PoStProof list) io" where
  "go_GenerateWinningPoStWithVanilla G L P proofType minerID randomness proofs =
     try_val (toFilRegisteredPoStProof proofType) (\<lambda>pp.
     try_io (from_exec (toProverID G minerID)) (\<lambda>proverID.
     bind_io (toVanillaProofs proofs) (\<lambda>fproofs.
     deferred (makeCleanerSBU fproofs)
       (bind_io (from_exec (AsByteArray32 randomness)) (\<lambda>rnd.
        bind_io (read_heap (read_list slice_uint8 dec_bytes fproofs)) (\<lambda>vanilla.
        bind_io (cgo_GenerateWinningPoStWithVanilla L P pp rnd proverID vanilla) (\<lambda>r.
        try_val (ffi_result r) (\<lambda>resp. ret (fromFilPoStProofs resp))))))))) "

text \<open>The faulty sectors of the response are not used.\<close>

definition go_GenerateWindowPoStWithVanilla ::
    "('cid, 'sp) go_conv \<Rightarrow> 's logger \<Rightarrow> 's post_lib \<Rightarrow> abi_RegisteredPoStProof \<Rightarrow> u64 \<Rightarrow> bytes \<Rightarrow> bytes list
      \<Rightarrow> ('s world \<times> heap, go_error + go_PoStProof list) io" where
  "go_GenerateWindowPoStWithVanilla G L P proofType minerID randomness proofs =
     try_val (toFilRegisteredPoStProof proofType) (\<lambda>pp.
     try_io (from_exec (toProverID G minerID)) (\<lambda>proverID.
     bind_io (toVanillaProofs proofs) (\<lambda>fproofs.
     deferred (makeCleanerSBU fproofs)
       (bind_io (from_exec (AsByteArray32 randomness)) (\<lambda>rnd.
        bind_io (read_heap (read_list slice_uint8 dec_bytes fproofs)) (\<lambda>vanilla.
        bind_io (cgo_GenerateWindowPoStWithVanilla L P pp rnd proverID vanilla) (\<lambda>r.
        try_val (ffi_result r) (\<lambda>resp. ret (fromFilPoStProofs (get_field 0 resp))))))))))"

definition dec_PartitionProof :: "val \<Rightarrow> go_error + go_PoStProof" where
  "dec_PartitionProof v =
     (case dec_PoStProof v of
        None \<Rightarrow> Inl (GoErr ''no mapping to abi.RegisteredPoStProof value available'')
      | Some p \<Rightarrow> Inr (fromFilPoStProof p))"

definition go_GenerateSinglePartitionWindowPoStWithVanilla ::
    "('cid, 'sp) go_conv \<Rightarrow> 's logger \<Rightarrow> 's post_lib \<Rightarrow> abi_RegisteredPoStProof \<Rightarrow> u64 \<Rightarrow> bytes \<Rightarrow> bytes list
      \<Rightarrow> u64 \<Rightarrow> ('s world \<times> heap, go_error + go_PoStProof) io" where
  "go_GenerateSinglePartitionWindowPoStWithVanilla G L P proofType minerID randomness proofs partitionIndex =
     try_val (toFilRegisteredPoStProof proofType) (\<lambda>pp.
     try_io (from_exec (toProverID G minerID)) (\<lambda>proverID.
     bind_io (toVanillaProofs proofs) (\<lambda>fproofs.
     deferred (makeCleanerSBU fproofs)
       (bind_io (from_exec (AsByteArray32 randomness)) (\<lambda>rnd.
        bind_io (read_heap (read_list slice_uint8 dec_bytes fproofs)) (\<lambda>vanilla.
        bind_io (cgo_GenerateSingleWindowPoStWithVanilla L P pp rnd proverID vanilla partitionIndex) (\<lambda>r.
        try_val (ffi_result r) (\<lambda>resp. ret (dec_PartitionProof (get_field 0 resp))))))))))"

text \<open>\<open>toPartitionProofs\<close> allocates the bytes of each proof.\<close>

definition toPartitionProofs :: "go_PoStProof list \<Rightarrow> ('w \<times> heap, cval list) io" where
  "toPartitionProofs src = toVanillaProofs (map snd src)"

definition go_MergeWindowPoStPartitionProofs ::
    "'s logger \<Rightarrow> 's post_lib \<Rightarrow> abi_RegisteredPoStProof \<Rightarrow> go_PoStProof list
      \<Rightarrow> ('s world \<times> heap, go_error + go_PoStProof) io" where
  "go_MergeWindowPoStPartitionProofs L P proofType partitionProofs =
     try_val (toFilRegisteredPoStProof proofType) (\<lambda>pp.
     bind_io (toPartitionProofs partitionProofs) (\<lambda>fproofs.
     deferred (makeCleanerSBU fproofs)
       (bind_io (read_heap (read_list slice_uint8 dec_bytes fproofs)) (\<lambda>vanilla.
        bind_io (cgo_MergeWindowPoStPartitionProofs L P pp vanilla) (\<lambda>r.
        try_val (ffi_result r) (\<lambda>resp. ret (dec_PartitionProof resp)))))))"

text \<open>\<open>generate_single_vanilla_proof\<close> takes the replica by value: it owns the two paths and drops
  them when it returns.\<close>

definition ffi_single_vanilla_proof ::
    "'s logger \<Rightarrow> 's post_lib \<Rightarrow> cval \<Rightarrow> u64 list \<Rightarrow> ('s world \<times> heap, cval) io" where
  "ffi_single_vanilla_proof L P replica challenges =
     bind_io (read_heap (read_one PrivateReplicaInfo_layout dec_PrivateReplicaInfo replica)) (\<lambda>info.
     deferred (release (drop_glue PrivateReplicaInfo_layout replica))
       (ffi_export (enc_Result enc_bytes) (generate_single_vanilla_proof L P info challenges)))"

definition go_GenerateSingleVanillaProof ::
    "('cid, 'sp) go_conv \<Rightarrow> 's logger \<Rightarrow> 's post_lib \<Rightarrow> 'cid PrivateSectorInfo \<Rightarrow> u64 list
      \<Rightarrow> ('s world \<times> heap, go_error + val) io" where
  "go_GenerateSingleVanillaProof G L P replica challenges =
     try_io (toFilPrivateReplicaInfo G replica) (\<lambda>rep.
     bind_io (go_call R_slice_uint8 (ffi_single_vanilla_proof L P rep challenges)) (\<lambda>r.
     ret (ffi_result r)))"

section \<open>Allocated arguments are stored values\<close>

abbreviation small :: "bytes \<Rightarrow> bool" where "small b \<equiv> length b < 2 ^ 64"

lemma store_plain_bytes:
  "store_vals (map (\<lambda>b. VPlain (PByte b)) bs) h = (map (\<lambda>b. CPlain (PByte b)) bs, h)"
  by (induction bs) simp_all

lemma store_enc_bytes:
  "store_val (enc_bytes bs) h =
     (if bs = [] then (CSlice Dangling 0, h)
      else (CSlice (At (next_addr h)) (length bs),
        h\<lparr>cells := (cells h)(next_addr h \<mapsto> map (\<lambda>b. CPlain (PByte b)) bs), next_addr := Suc (next_addr h)\<rparr>))"
  by (simp add: enc_bytes_def store_plain_bytes malloc_def)

text \<open>Zeroed memory that is filled is memory that holds the bytes.\<close>

lemma AllocSliceBoxedUint8_eq: "small bs \<Longrightarrow> AllocSliceBoxedUint8 bs h = store_val (enc_bytes bs) h"
  by (auto simp: AllocSliceBoxedUint8_def alloc_boxed_slice_def store_enc_bytes write_slice_def unat_of_nat
      take_bit_nat_eq_self)

lemma NewPoStProof_eq:
  "small b \<Longrightarrow> NewPoStProof pp b h = store_val (enc_PoStProof \<lparr>post_registered_proof = pp, post_proof = b\<rparr>) h"
  by (simp add: NewPoStProof_def AllocSliceBoxedUint8_eq enc_PoStProof_def split: prod.splits)

lemma NewPrivateReplicaInfo_eq:
  "small c \<Longrightarrow> small r \<Longrightarrow> NewPrivateReplicaInfo pp c commR r i h =
     store_val (enc_PrivateReplicaInfo \<lparr>pri_registered_proof = pp, pri_cache_dir_path = c, pri_comm_r = commR,
       pri_replica_path = r, pri_sector_id = i\<rparr>) h"
  by (simp add: NewPrivateReplicaInfo_def AllocSliceBoxedUint8_eq enc_PrivateReplicaInfo_def split: prod.splits)

lemma enc_PrivateReplicaInfo_typed [simp]: "has_layout PrivateReplicaInfo_layout (enc_PrivateReplicaInfo r)"
  using enc_bytes_typed [of "pri_cache_dir_path r"] enc_bytes_typed [of "pri_replica_path r"]
  by (simp add: enc_PrivateReplicaInfo_def PrivateReplicaInfo_layout_def)

lemma dec_enc_bytes [simp]: "dec_bytes (enc_bytes b) = Some b"
  by (simp add: dec_bytes_def enc_bytes_def comp_def)

lemma post_of_code [simp]: "post_of_code (post_code p) = Some p"
  by (cases p) (simp_all add: post_of_code_def all_post_proofs_def)

lemma dec_enc_PoStProof [simp]: "dec_PoStProof (enc_PoStProof p) = Some p"
  by (simp add: dec_PoStProof_def enc_PoStProof_def)

lemma dec_enc_PrivateReplicaInfo [simp]: "dec_PrivateReplicaInfo (enc_PrivateReplicaInfo p) = Some p"
  by (simp add: dec_PrivateReplicaInfo_def enc_PrivateReplicaInfo_def)

text \<open>What the exported function reads is what the caller stored.\<close>

lemma read_one_holds:
  assumes "holds k v c A" and "has_layout t v" and "dec v = Some x"
  shows "read_one t dec c k = Some x"
  using copy_holds [OF assms(2,1)] assms(3) by (simp add: read_one_def)

lemma read_list_holds:
  assumes "holds_all k (map enc_v xs) cs A" and "\<And>x. has_layout t (enc_v x)" and "\<And>x. dec (enc_v x) = Some x"
  shows "read_list t dec cs k = Some xs"
  using assms(1)
proof (induction xs arbitrary: cs A)
  case (Cons x xs)
  then obtain c cs' B D where "cs = c # cs'" "holds k (enc_v x) c B" "holds_all k (map enc_v xs) cs' D" by auto
  with Cons.IH read_one_holds [of k "enc_v x" c B t dec x] assms(2,3) show ?case by (simp add: read_list_def)
qed (auto simp: read_list_def)

lemma holds_append:
  "holds_all k vs cs A \<Longrightarrow> holds k v c B \<Longrightarrow> A \<inter> B = {} \<Longrightarrow> holds_all k (vs @ [v]) (cs @ [c]) (A \<union> B)"
proof (induction vs arbitrary: cs A)
  case Nil
  then have "cs = []" "A = {}" by auto
  with Nil holds_holds_all.cons [OF Nil.prems(2) holds_holds_all.nil] show ?case by simp
next
  case (Cons u vs)
  then obtain d ds C D where cs: "cs = d # ds" "A = C \<union> D" "C \<inter> D = {}" "holds k u d C" "holds_all k vs ds D"
    by auto
  have "holds_all k (vs @ [v]) (ds @ [c]) (D \<union> B)" by (rule Cons.IH) (use Cons.prems cs in auto)
  moreover have "C \<inter> (D \<union> B) = {}" using cs Cons.prems(3) by auto
  ultimately show ?case using holds_holds_all.cons [OF cs(4)] cs(1,2) by (simp add: Un_assoc)
qed

section \<open>Cleaners\<close>

text \<open>A cleaner gives back exactly what the stored arguments own.\<close>

lemma destroy_list_holds:
  assumes "holds_all k (map enc_v xs) cs A"
    and "\<And>x c k A. holds k (enc_v x) c A \<Longrightarrow> d c k = Some (without k A)"
  shows "destroy_list d cs k = Some (without k A)"
  using assms(1)
proof (induction xs arbitrary: cs k A)
  case (Cons x xs)
  then obtain c cs' B D where cs: "cs = c # cs'" "A = B \<union> D" "B \<inter> D = {}"
    and h: "holds k (enc_v x) c B" "holds_all k (map enc_v xs) cs' D"
    by auto
  have "holds_all (without k B) (map enc_v xs) cs' D"
    by (rule holds_frame(2) [OF h(2)]) (use cs(3) in auto)
  from Cons.IH [OF this] assms(2) [OF h(1)] cs show ?case by simp
qed auto

lemma Destroy_slice:
  assumes "holds k (enc_bytes b) c A"
  shows "SliceBoxedUint8_Destroy c k = Some (without k A)"
proof -
  have "c \<noteq> CSlice Null 0" using assms by (auto simp: enc_bytes_def)
  then show ?thesis
    using drop_holds [OF enc_bytes_typed assms] by (simp add: SliceBoxedUint8_Destroy_def destroy_boxed_slice_def)
qed

lemma Destroy_replica:
  assumes "holds k (enc_PrivateReplicaInfo r) c A"
  shows "PrivateReplicaInfo_Destroy c k = Some (without k A)"
proof -
  from assms obtain c1 c2 c3 c4 c5 B D where c: "c = CStruct [c1, c2, c3, c4, c5]" "A = B \<union> D" "B \<inter> D = {}"
    and h: "holds k (enc_bytes (pri_cache_dir_path r)) c2 B" "holds k (enc_bytes (pri_replica_path r)) c4 D"
    by (auto simp: enc_PrivateReplicaInfo_def)
  have "holds (without k B) (enc_bytes (pri_replica_path r)) c4 D"
    by (rule holds_frame(1) [OF h(2)]) (use c(3) in auto)
  from Destroy_slice [OF h(1)] Destroy_slice [OF this] c show ?thesis
    by (simp add: PrivateReplicaInfo_Destroy_def)
qed

end
