(* ===== verification/Go_Memory.thy ===== *)
theory Go_Memory
  imports Go_Proofs
begin

text \<open>
  The callers of \<open>proofs.go\<close> and \<open>distributed.go\<close> against computations without a heap: what a
  caller answers is what the exported function answers on the converted arguments, and the
  memory that the caller allocated for them is given back, on success, on every error and
  on a panic. The two verifiers of proofs of spacetime answer right but give back nothing.
\<close>

section \<open>Computations with a heap and without\<close>

text \<open>\<open>refines C m g\<close>: from a heap with the cells \<open>C\<close>, \<open>g\<close> does what \<open>m\<close> does and ends in a heap with
  the cells \<open>C\<close>; wherever \<open>m\<close> is undefined, nothing is said.\<close>

definition refines :: "(addr \<rightharpoonup> cval list) \<Rightarrow> ('w, 'a) io \<Rightarrow> ('w \<times> heap, 'a) io \<Rightarrow> bool" where
  "refines C m g \<longleftrightarrow>
     (\<forall>w h x w'. heap_ok h \<longrightarrow> cells h = C \<longrightarrow> m w = (x, w') \<longrightarrow> x \<noteq> Undefined \<longrightarrow>
        (\<exists>h'. g (w, h) = (x, (w', h')) \<and> cells h' = C \<and> heap_ok h'))"

lemma refinesI:
  assumes "\<And>w h x w'. heap_ok h \<Longrightarrow> cells h = C \<Longrightarrow> m w = (x, w') \<Longrightarrow> x \<noteq> Undefined \<Longrightarrow>
    \<exists>h'. g (w, h) = (x, (w', h')) \<and> cells h' = C \<and> heap_ok h'"
  shows "refines C m g"
  using assms unfolding refines_def by blast

lemma refinesD:
  assumes "refines C m g" and "heap_ok h" and "cells h = C" and "m w = (x, w')" and "x \<noteq> Undefined"
  obtains h' where "g (w, h) = (x, (w', h'))" and "cells h' = C" and "heap_ok h'"
  using assms unfolding refines_def by blast

lemma refines_ret: "refines C (ret a) (ret a)"
  by (simp add: refines_def ret_def)

lemma refines_from_exec: "refines C (from_exec e) (from_exec e)"
  by (simp add: refines_def from_exec_def)

lemma refines_bind:
  assumes m: "refines C m g" and f: "\<And>a. refines C (f a) (k a)"
  shows "refines C (bind_io m f) (bind_io g k)"
proof (rule refinesI)
  fix w h x w'
  assume h: "heap_ok h" "cells h = C" and run: "bind_io m f w = (x, w')" and x: "x \<noteq> Undefined"
  obtain y w1 where y: "m w = (y, w1)" by (cases "m w")
  have "y \<noteq> Undefined" using run x y by (auto simp: bind_io_def)
  then obtain h1 where h1: "g (w, h) = (y, (w1, h1))" "cells h1 = C" "heap_ok h1"
    using refinesD [OF m h y] by blast
  show "\<exists>h'. bind_io g k (w, h) = (x, (w', h')) \<and> cells h' = C \<and> heap_ok h'"
  proof (cases y)
    case (Returns a)
    with run y have "f a w1 = (x, w')" by (simp add: bind_io_Returns)
    from refinesD [OF f h1(3,2) this x] Returns h1(1) show ?thesis by (metis bind_io_Returns)
  next
    case (Panics p)
    with run y h1 show ?thesis by (simp add: bind_io_def)
  qed (use \<open>y \<noteq> Undefined\<close> in simp)
qed

lemma refines_try:
  "refines C m g \<Longrightarrow> (\<And>a. refines C (f a) (k a)) \<Longrightarrow> refines C (try_io m f) (try_io g k)"
  unfolding try_io_def by (rule refines_bind) (auto intro: refines_ret split: sum.splits)

lemma refines_try_val: "(\<And>a. refines C (f a) (k a)) \<Longrightarrow> refines C (try_val r f) (try_val r k)"
  by (auto simp: try_val_def intro: refines_ret split: sum.splits)

lemma refines_case:
  "(\<And>e. refines C (f e) (f' e)) \<Longrightarrow> (\<And>a. refines C (g a) (g' a)) \<Longrightarrow>
    refines C (case s of Inl e \<Rightarrow> f e | Inr a \<Rightarrow> g a) (case s of Inl e \<Rightarrow> f' e | Inr a \<Rightarrow> g' a)"
  by (cases s) simp_all

lemma refines_read:
  assumes "\<And>h. cells h = C \<Longrightarrow> f h = Some a" and "refines C m (k a)"
  shows "refines C m (bind_io (read_heap f) k)"
proof (rule refinesI)
  fix w h x w'
  assume h: "heap_ok h" "cells h = C" "m w = (x, w')" "x \<noteq> Undefined"
  with assms(1) have "read_heap f (w, h) = (Returns a, (w, h))" by (simp add: read_heap_def)
  with refinesD [OF assms(2) h] show "\<exists>h'. bind_io (read_heap f) k (w, h) = (x, (w', h')) \<and> cells h' = C \<and> heap_ok h'"
    by (metis bind_io_Returns)
qed

text \<open>A wrapper is the exported function followed by the copy of its answer.\<close>

context ffi_layout
begin

lemma refines_with_response:
  "refines C
     (bind_io m (\<lambda>r. ret (f (status_num (status_code r)) (enc_bytes (error_msg r)) (enc_v (value_of r)))))
     (with_response rtype f (ffi_export (enc_Result enc_v) m))"
proof (rule refinesI)
  fix w h x w'
  assume h: "heap_ok h" "cells h = C" and x: "x \<noteq> Undefined"
    and run: "bind_io m (\<lambda>r. ret (f (status_num (status_code r)) (enc_bytes (error_msg r)) (enc_v (value_of r)))) w = (x, w')"
  obtain y w1 where y: "m w = (y, w1)" by (cases "m w")
  show "\<exists>h'. with_response rtype f (ffi_export (enc_Result enc_v) m) (w, h) = (x, (w', h')) \<and> cells h' = C \<and> heap_ok h'"
  proof (cases y)
    case (Returns r)
    with y run have "x = Returns (f (status_num (status_code r)) (enc_bytes (error_msg r)) (enc_v (value_of r)))" "w' = w1"
      by (auto simp: bind_io_Returns ret_def)
    with with_response_run [of m w r w1 h f] y Returns h show ?thesis by simp
  next
    case (Panics p)
    with y run h show ?thesis by (auto simp: bind_io_def with_response_def ffi_export_def)
  qed (use y run x in \<open>simp add: bind_io_def\<close>)
qed

lemma refines_call:
  "refines C (bind_io m (\<lambda>r. ret (go_value enc_v r))) (go_call rtype (ffi_export (enc_Result enc_v) m))"
proof -
  have "status_num (status_code r) = 0 \<longleftrightarrow> status_code r = NoError" for r :: "'a Result"
    by (cases "status_code r") simp_all
  then show ?thesis
    using refines_with_response [of C m check_and_copy]
    by (simp add: go_call_def check_and_copy_def go_value_def)
qed

end

section \<open>Releasing the arguments\<close>

lemma refines_deferred:
  assumes body: "refines (cells k) m g" "m w = (x, w')" "x \<noteq> Undefined"
    and args: "grows h k A" "heap_ok h" "holds_all k (map enc_v xs) cs A"
    and d: "\<And>x c k A. holds k (enc_v x) c A \<Longrightarrow> d c k = Some (without k A)"
  shows "\<exists>h'. deferred (release (destroy_list d cs)) g (w, k) = (x, (w', h')) \<and> cells h' = cells h \<and> heap_ok h'"
proof -
  have k: "heap_ok k" using grows_heap_ok args(1,2) by blast
  from refinesD [OF body(1) k refl body(2,3)] obtain k1 where
    k1: "g (w, k) = (x, (w', k1))" "cells k1 = cells k" "heap_ok k1" by blast
  have "holds_all k1 (map enc_v xs) cs A" by (rule holds_frame(2) [OF args(3)]) (simp add: k1)
  from destroy_list_holds [OF this d] have r: "destroy_list d cs k1 = Some (without k1 A)" by simp
  have "cells (without k1 A) = cells h"
    using grows_without [OF args(1,2)] k1(2) by (simp add: without_def)
  moreover have "deferred (release (destroy_list d cs)) g (w, k) = (x, (w', without k1 A))"
    using k1(1) r body(3) by (simp add: deferred_def release_def split: exec.split)
  ultimately show ?thesis using heap_ok_without [OF k1(3)] by simp
qed

section \<open>Computations without a heap\<close>

text \<open>The converted private sector infos, or the first conversion that fails.\<close>

definition replica_of ::
    "('cid, 'sp) go_conv \<Rightarrow> 'cid PrivateSectorInfo \<Rightarrow> (go_error + PrivateReplicaInfo) exec" where
  "replica_of G s =
     bind_exec (to32ByteCommR G (priv_SealedCID s)) (\<lambda>r.
     Returns (case r of
        Inl e \<Rightarrow> Inl e
      | Inr commR \<Rightarrow>
          map_sum id
            (\<lambda>pp. \<lparr>pri_registered_proof = pp, pri_cache_dir_path = CacheDirPath s, pri_comm_r = commR,
                pri_replica_path = SealedSectorPath s, pri_sector_id = priv_SectorNumber s\<rparr>)
            (toFilRegisteredPoStProof (PoStProofType s))))"

fun replicas_of ::
    "('cid, 'sp) go_conv \<Rightarrow> 'cid PrivateSectorInfo list \<Rightarrow> (go_error + PrivateReplicaInfo list) exec" where
  "replicas_of G [] = Returns (Inr [])"
| "replicas_of G (s # src) =
     bind_exec (replica_of G s) (\<lambda>r.
     case r of
       Inl e \<Rightarrow> Returns (Inl e)
     | Inr x \<Rightarrow> bind_exec (replicas_of G src) (\<lambda>rs. Returns (map_sum id (Cons x) rs)))"

text \<open>A commitment of a CID has at most 32 bytes, so that it fits the array.\<close>

definition conv_ok :: "('cid, 'sp) go_conv \<Rightarrow> bool" where
  "conv_ok G \<longleftrightarrow> (\<forall>c b. CIDToReplicaCommitmentV1 G c = Some b \<longrightarrow> length b \<le> 32)"

definition small_paths :: "'cid PrivateSectorInfo \<Rightarrow> bool" where
  "small_paths s \<longleftrightarrow> small (CacheDirPath s) \<and> small (SealedSectorPath s)"

lemma replica_of_Returns: "conv_ok G \<Longrightarrow> \<exists>r. replica_of G s = Returns r"
  by (auto simp: replica_of_def to32ByteCommR_def AsByteArray32_def conv_ok_def split: option.split)

lemma replicas_of_Returns: "conv_ok G \<Longrightarrow> \<exists>r. replicas_of G src = Returns r"
proof (induction src)
  case (Cons s src)
  then show ?case using replica_of_Returns [of G s] by (auto split: sum.split)
qed simp

lemma toFilPrivateReplicaInfo_run:
  assumes "conv_ok G" and "small_paths s"
  shows "toFilPrivateReplicaInfo G s (w, h) =
    (case replica_of G s of
       Returns (Inl e) \<Rightarrow> (Returns (Inl e), (w, h))
     | Returns (Inr x) \<Rightarrow> (case store_val (enc_PrivateReplicaInfo x) h of (c, h') \<Rightarrow> (Returns (Inr c), (w, h')))
     | Panics p \<Rightarrow> (Panics p, (w, h)) | Undefined \<Rightarrow> (Undefined, (w, h)))"
  using assms
  by (auto simp: toFilPrivateReplicaInfo_def replica_of_def to32ByteCommR_def AsByteArray32_def conv_ok_def
      small_paths_def try_io_def try_val_def bind_io_def from_exec_def ret_def on_heap_def NewPrivateReplicaInfo_eq
      split: option.splits sum.splits prod.splits)

text \<open>The loop holds the replicas converted so far; an error gives them back.\<close>

lemma toFilPrivateReplicaInfos_run:
  assumes "conv_ok G" and "heap_ok h" and "list_all small_paths src"
    and "grows h k A" and "holds_all k (map enc_PrivateReplicaInfo xs) out A"
  shows "case replicas_of G src of
      Returns (Inr ys) \<Rightarrow> \<exists>cs k' B. toFilPrivateReplicaInfos G out src (w, k) = (Returns (Inr cs), (w, k')) \<and>
        grows h k' B \<and> holds_all k' (map enc_PrivateReplicaInfo (xs @ ys)) cs B
    | Returns (Inl e) \<Rightarrow> \<exists>k'. toFilPrivateReplicaInfos G out src (w, k) = (Returns (Inl e), (w, k')) \<and>
        cells k' = cells h \<and> heap_ok k'
    | _ \<Rightarrow> True"
  using assms(3-5)
proof (induction src arbitrary: out k A xs)
  case Nil
  then show ?case by (auto simp: ret_def)
next
  case (Cons s src)
  obtain r where r: "replica_of G s = Returns r" using replica_of_Returns [OF assms(1)] by blast
  show ?case
  proof (cases r)
    case (Inl e)
    have "destroy_list PrivateReplicaInfo_Destroy out k = Some (without k A)"
      by (rule destroy_list_holds [OF Cons.prems(3)]) (rule Destroy_replica)
    then have "toFilPrivateReplicaInfos G out (s # src) (w, k) = (Returns (Inl e), (w, without k A))"
      using Cons.prems(1) r Inl
      by (simp add: bind_io_def toFilPrivateReplicaInfo_run [OF assms(1)] makeCleanerPRI_def release_def ret_def)
    moreover have "heap_ok (without k A)" using grows_heap_ok [OF Cons.prems(2) assms(2)] by (rule heap_ok_without)
    ultimately show ?thesis using r Inl grows_without [OF Cons.prems(2) assms(2)] by simp
  next
    case (Inr x)
    obtain c k1 where st: "store_val (enc_PrivateReplicaInfo x) k = (c, k1)"
      by (cases "store_val (enc_PrivateReplicaInfo x) k")
    then obtain B where B: "grows k k1 B" "holds k1 (enc_PrivateReplicaInfo x) c B" using store_holds(1) by blast
    from grows_trans [OF Cons.prems(2) B(1)] have g: "grows h k1 (A \<union> B)" "A \<inter> B = {}" by auto
    have "holds_all k1 (map enc_PrivateReplicaInfo (xs @ [x])) (out @ [c]) (A \<union> B)"
      using holds_append [OF grows_keeps(2) [OF Cons.prems(2) B(1) Cons.prems(3)] B(2) g(2)] by simp
    note IH = Cons.IH [OF _ g(1) this]
    have "toFilPrivateReplicaInfos G out (s # src) (w, k) = toFilPrivateReplicaInfos G (out @ [c]) src (w, k1)"
      using Cons.prems(1) r Inr st by (simp add: bind_io_def toFilPrivateReplicaInfo_run [OF assms(1)])
    then show ?thesis
      using IH Cons.prems(1) r Inr by (auto split: exec.splits sum.splits)
  qed
qed

lemma toVanillaProofs_run:
  assumes "heap_ok h" and "list_all small bs"
  shows "\<exists>cs k A. toVanillaProofs bs (w, h) = (Returns cs, (w, k)) \<and> grows h k A \<and> holds_all k (map enc_bytes bs) cs A"
  using assms
proof (induction bs arbitrary: h)
  case Nil
  then show ?case by (auto simp: ret_def intro!: exI [of _ "{}"] holds_holds_all.nil)
next
  case (Cons b bs)
  obtain c h1 where st: "store_val (enc_bytes b) h = (c, h1)" by (cases "store_val (enc_bytes b) h")
  then obtain A where A: "grows h h1 A" "holds h1 (enc_bytes b) c A" using store_holds(1) by blast
  from Cons.IH [OF grows_heap_ok [OF A(1) Cons.prems(1)]] Cons.prems(2) obtain cs k B where
    B: "toVanillaProofs bs (w, h1) = (Returns cs, (w, k))" "grows h1 k B" "holds_all k (map enc_bytes bs) cs B" by auto
  have "toVanillaProofs (b # bs) (w, h) = (Returns (c # cs), (w, k))"
    using Cons.prems(2) st B(1) by (simp add: bind_io_def on_heap_def AllocSliceBoxedUint8_eq ret_def)
  moreover have "holds_all k (map enc_bytes (b # bs)) (c # cs) (A \<union> B)"
    using holds_holds_all.cons [OF grows_keeps(1) [OF A(1) B(2) A(2)] B(3)] grows_trans [OF A(1) B(2)] by simp
  ultimately show ?case using grows_trans [OF A(1) B(2)] by blast
qed

text \<open>Around a body that reads the converted arguments, the conversion and the cleaner are the
  conversion without a heap.\<close>

lemma holds_all_cells: "holds_all k vs cs A \<Longrightarrow> cells h = cells k \<Longrightarrow> holds_all h vs cs A"
  by (erule holds_frame(2)) simp

lemma refines_with_replicas:
  assumes G: "conv_ok G" "list_all small_paths src"
    and body: "\<And>xs cs D. (\<And>h. cells h = D \<Longrightarrow>
        read_list PrivateReplicaInfo_layout dec_PrivateReplicaInfo cs h = Some xs) \<Longrightarrow> refines D (f xs) (g cs)"
  shows "refines C
     (bind_io (from_exec (replicas_of G src)) (\<lambda>r. case r of Inl e \<Rightarrow> ret (fail e) | Inr xs \<Rightarrow> f xs))
     (bind_io (toFilPrivateReplicaInfos G [] src)
        (\<lambda>r. case r of Inl e \<Rightarrow> ret (fail e) | Inr cs \<Rightarrow> deferred (makeCleanerPRI cs) (g cs)))"
    (is "refines C ?m ?g")
proof (rule refinesI)
  fix w h x w'
  assume h: "heap_ok h" "cells h = C" and run: "?m w = (x, w')" and x: "x \<noteq> Undefined"
  obtain r where r: "replicas_of G src = Returns r" using replicas_of_Returns [OF G(1)] by blast
  note conv = toFilPrivateReplicaInfos_run [OF G(1) h(1) G(2) grows_refl, of "[]" "[]" w, simplified,
      OF holds_holds_all.nil, unfolded r]
  show "\<exists>h'. ?g (w, h) = (x, (w', h')) \<and> cells h' = C \<and> heap_ok h'"
  proof (cases r)
    case (Inl e)
    with conv run r h(2) show ?thesis by (auto simp: bind_io_def ret_def)
  next
    case (Inr xs)
    with conv obtain cs k A where
      k: "toFilPrivateReplicaInfos G [] src (w, h) = (Returns (Inr cs), (w, k))" "grows h k A"
      "holds_all k (map enc_PrivateReplicaInfo xs) cs A"
      by auto
    have "refines (cells k) (f xs) (g cs)"
      by (rule body, rule read_list_holds [OF holds_all_cells [OF k(3)]]) simp_all
    from refines_deferred [OF this _ x k(2) h(1) k(3) Destroy_replica] k(1) run r Inr h(2)
    show ?thesis by (simp add: bind_io_def makeCleanerPRI_def)
  qed
qed

lemma refines_with_vanilla:
  assumes small: "list_all small bs"
    and body: "\<And>cs D. (\<And>h. cells h = D \<Longrightarrow> read_list slice_uint8 dec_bytes cs h = Some bs) \<Longrightarrow> refines D m (g cs)"
  shows "refines C m (bind_io (toVanillaProofs bs) (\<lambda>cs. deferred (makeCleanerSBU cs) (g cs)))"
proof (rule refinesI)
  fix w h x w'
  assume h: "heap_ok h" "cells h = C" and run: "m w = (x, w')" and x: "x \<noteq> Undefined"
  obtain cs k A where k: "toVanillaProofs bs (w, h) = (Returns cs, (w, k))" "grows h k A"
    "holds_all k (map enc_bytes bs) cs A"
    using toVanillaProofs_run [OF h(1) small, of w] by (elim exE conjE) (rule that)
  have "refines (cells k) m (g cs)"
    by (rule body, rule read_list_holds [OF holds_all_cells [OF k(3)] enc_bytes_typed dec_enc_bytes])
  from refines_deferred [OF this run x k(2) h(1) k(3) Destroy_slice] k(1) h(2)
  show "\<exists>h'. bind_io (toVanillaProofs bs) (\<lambda>cs. deferred (makeCleanerSBU cs) (g cs)) (w, h) = (x, (w', h')) \<and>
      cells h' = C \<and> heap_ok h'"
    by (simp add: bind_io_def makeCleanerSBU_def)
qed

section \<open>What the callers compute\<close>

text \<open>The answer of a caller for a response: the converted value, or the error text.\<close>

definition answer :: "('a \<Rightarrow> 'b) \<Rightarrow> 'a Result \<Rightarrow> go_error + 'b" where
  "answer f r = (if status_code r = NoError then Inr (f (value_of r)) else Inl (FfiErr (enc_bytes (error_msg r))))"

definition window_answer :: "GenerateWindowPoSt Result \<Rightarrow> (u64 list \<times> go_error) + go_PoStProof list" where
  "window_answer r =
     (if status_code r = NoError then Inr (map fromFilPoStProof (wp_proofs (value_of r)))
      else Inl (wp_faulty_sectors (value_of r), FfiErr (enc_bytes (error_msg r))))"

definition spec_GenerateWinningPoSt ::
    "('cid, 'sp) go_conv \<Rightarrow> 's logger \<Rightarrow> 's post_lib \<Rightarrow> u64 \<Rightarrow> 'cid PrivateSectorInfo list \<Rightarrow> bytes
      \<Rightarrow> ('s world, go_error + go_PoStProof list) io" where
  "spec_GenerateWinningPoSt G L P minerID infos randomness =
     try_io (from_exec (wrapped ''failed to create private replica info array for FFI: '' (replicas_of G infos))) (\<lambda>replicas.
     try_io (from_exec (toProverID G minerID)) (\<lambda>proverID.
     bind_io (from_exec (AsByteArray32 randomness)) (\<lambda>rnd.
     bind_io (generate_winning_post L P rnd replicas proverID) (\<lambda>r. ret (answer (map fromFilPoStProof) r)))))"

definition spec_GenerateWindowPoSt ::
    "('cid, 'sp) go_conv \<Rightarrow> 's logger \<Rightarrow> 's post_lib \<Rightarrow> u64 \<Rightarrow> 'cid PrivateSectorInfo list \<Rightarrow> bytes
      \<Rightarrow> ('s world, (u64 list \<times> go_error) + go_PoStProof list) io" where
  "spec_GenerateWindowPoSt G L P minerID infos randomness =
     bind_io (from_exec (replicas_of G infos)) (\<lambda>r.
     case r of
       Inl e \<Rightarrow> ret (Inl ([], wrap_error ''failed to create private replica info array for FFI: '' e))
     | Inr replicas \<Rightarrow>
         bind_io (from_exec (toProverID G minerID)) (\<lambda>p.
         case p of
           Inl e \<Rightarrow> ret (Inl ([], e))
         | Inr proverID \<Rightarrow>
             bind_io (from_exec (AsByteArray32 randomness)) (\<lambda>rnd.
             bind_io (generate_window_post L P rnd replicas proverID) (\<lambda>r. ret (window_answer r)))))"

text \<open>A caller that hands vanilla proofs to an exported function.\<close>

definition spec_with_vanilla ::
    "('cid, 'sp) go_conv \<Rightarrow> abi_RegisteredPoStProof \<Rightarrow> u64 \<Rightarrow> bytes
      \<Rightarrow> (RegisteredPoStProof \<Rightarrow> array32 \<Rightarrow> array32 \<Rightarrow> ('w, 'a Result) io) \<Rightarrow> ('a \<Rightarrow> 'b)
      \<Rightarrow> ('w, go_error + 'b) io" where
  "spec_with_vanilla G proofType minerID randomness export f =
     try_val (toFilRegisteredPoStProof proofType) (\<lambda>pp.
     try_io (from_exec (toProverID G minerID)) (\<lambda>proverID.
     bind_io (from_exec (AsByteArray32 randomness)) (\<lambda>rnd.
     bind_io (export pp rnd proverID) (\<lambda>r. ret (answer f r)))))"

text \<open>Go's copy of a value converts to what the value is.\<close>

lemma fromFilPoStProofs_enc [simp]: "fromFilPoStProofs (enc_PoStProofs ps) = Inr (map fromFilPoStProof ps)"
proof -
  have "those (map (Some :: PoStProof \<Rightarrow> _) ps) = Some ps" by (induction ps) simp_all
  then show ?thesis by (simp add: fromFilPoStProofs_def dec_PoStProofs_def enc_PoStProofs_def comp_def)
qed

lemma fromFilPoStFaultySectors_enc [simp]: "fromFilPoStFaultySectors (enc_words ws) = ws"
proof -
  have "those (map (Some :: u64 \<Rightarrow> _) ws) = Some ws" by (induction ws) simp_all
  then show ?thesis by (simp add: fromFilPoStFaultySectors_def dec_words_def enc_words_def comp_def)
qed

lemma get_field_window [simp]:
  "get_field 0 (enc_WindowPoSt v) = enc_PoStProofs (wp_proofs v)"
  "get_field (Suc 0) (enc_WindowPoSt v) = enc_words (wp_faulty_sectors v)"
  "get_field 0 (enc_SingleWindowPoSt u) = enc_PartitionSnarkProof (sw_partition_proof u)"
  by (simp_all add: get_field_def enc_WindowPoSt_def enc_SingleWindowPoSt_def)

definition fromFilPartitionProof :: "PartitionSnarkProof \<Rightarrow> go_PoStProof" where
  "fromFilPartitionProof p = (fromFilRegisteredPoStProof (partition_registered_proof p), partition_proof_bytes p)"

lemma dec_PartitionProof_enc [simp]:
  "dec_PartitionProof (enc_PoStProof p) = Inr (fromFilPoStProof p)"
  "dec_PartitionProof (enc_PartitionSnarkProof q) = Inr (fromFilPartitionProof q)"
proof -
  show "dec_PartitionProof (enc_PoStProof p) = Inr (fromFilPoStProof p)" by (simp add: dec_PartitionProof_def)
  show "dec_PartitionProof (enc_PartitionSnarkProof q) = Inr (fromFilPartitionProof q)"
    by (simp add: dec_PartitionProof_def dec_PoStProof_def enc_PartitionSnarkProof_def fromFilPoStProof_def
        fromFilPartitionProof_def)
qed

text \<open>The end of a caller: the wrapper's result converted is the response converted.\<close>

context ffi_layout
begin

lemma refines_answer:
  assumes "\<And>v. f (enc_v v) = Inr (f' v)"
  shows "refines C (bind_io m (\<lambda>r. ret (answer f' r)))
    (bind_io (go_call rtype (ffi_export (enc_Result enc_v) m)) (\<lambda>r. try_val (ffi_result r) (\<lambda>v. ret (f v))))"
proof -
  have "(\<lambda>r. ret (answer f' r)) = (\<lambda>r. bind_io (ret (go_value enc_v r)) (\<lambda>r. try_val (ffi_result r) (\<lambda>v. ret (f v))))"
    by (rule ext) (simp add: answer_def go_value_def ffi_result_def assms)
  then show ?thesis
    unfolding \<open>(\<lambda>r. ret (answer f' r)) = _\<close> bind_io_assoc [symmetric]
    by (intro refines_bind refines_call refines_try_val refines_ret)
qed

end

lemma window_post_call:
  "refines C (bind_io (generate_window_post L P rnd replicas proverID) (\<lambda>r. ret (window_answer r)))
     (bind_io (cgo_GenerateWindowPoSt L P rnd replicas proverID) (\<lambda>r. ret (window_caller_result r)))"
proof -
  have "status_num (status_code r) = 0 \<longleftrightarrow> status_code r = NoError" for r :: "GenerateWindowPoSt Result"
    by (cases "status_code r") simp_all
  then have eq: "(\<lambda>r. ret (window_answer r)) =
      (\<lambda>r. bind_io (ret (window_post_result (status_num (status_code r)) (enc_bytes (error_msg r))
        (enc_WindowPoSt (value_of r)))) (\<lambda>r. ret (window_caller_result r)))"
    by (intro ext) (simp add: window_answer_def window_post_result_def window_caller_result_def)
  show ?thesis
    unfolding cgo_GenerateWindowPoSt_def eq bind_io_assoc [symmetric]
    by (intro refines_bind window_type.refines_with_response refines_ret)
qed

lemmas refines_rules =
  refines_ret refines_case refines_try_val refines_bind [OF refines_from_exec] refines_try [OF refines_from_exec]
  refines_read

section \<open>An argument that the exported function owns\<close>

lemma holds_dom:
  "holds k v c A \<Longrightarrow> A \<subseteq> dom (cells k)"
  "holds_all k vs cs A \<Longrightarrow> A \<subseteq> dom (cells k)"
  by (induction rule: holds_holds_all.inducts) auto

context ffi_layout
begin

text \<open>Reading and destroying a response does not depend on what else was released before.\<close>

lemma response_released:
  assumes "holds k (VBox (enc_Result enc_v r)) p B"
  shows "read_response rtype p k =
      Some (status_num (status_code r), enc_bytes (error_msg r), enc_v (value_of r))"
    and "go_destroy rtype p k = Some (without k B)"
proof -
  have ty: "has_layout (TBox (Result_layout rtype)) (VBox (enc_Result enc_v r))" using result_typed by simp
  show "read_response rtype p k =
      Some (status_num (status_code r), enc_bytes (error_msg r), enc_v (value_of r))"
    using copy_holds [OF ty assms] by (simp add: read_response_def enc_Result_def)
  show "go_destroy rtype p k = Some (without k B)"
    using drop_holds [OF ty assms] assms
    by (auto simp: go_destroy_boxed destroy_response_def destructor_def elim!: holds_elims(4))
qed

text \<open>The export takes the value in \<open>c\<close> and releases it: the caller is left with the response.\<close>

lemma owned_call_run:
  assumes c: "grows h k A" "heap_ok h" "holds k v c A" "has_layout t v"
    and m: "m w = (Returns r, w')"
  shows "\<exists>h'. with_response rtype f (deferred (release (drop_glue t c)) (ffi_export (enc_Result enc_v) m)) (w, k) =
      (Returns (f (status_num (status_code r)) (enc_bytes (error_msg r)) (enc_v (value_of r))), (w', h')) \<and>
    cells h' = cells h \<and> heap_ok h'"
proof -
  have k: "heap_ok k" by (rule grows_heap_ok [OF c(1,2)])
  obtain p k2 where b: "box_new (enc_Result enc_v r) k = (p, k2)" by (cases "box_new (enc_Result enc_v r) k")
  obtain B where B: "grows k k2 B" "holds k2 (VBox (enc_Result enc_v r)) p B" "heap_ok k2"
    by (rule box_new_holds [OF b k])
  have AB: "grows h k2 (A \<union> B)" "A \<inter> B = {}" using grows_trans [OF c(1) B(1)] by auto
  have "drop_glue t c k2 = Some (without k2 A)"
    by (rule drop_holds [OF c(4) grows_keeps(1) [OF c(1) B(1) c(3)]])
  then have call: "deferred (release (drop_glue t c)) (ffi_export (enc_Result enc_v) m) (w, k) =
      (Returns p, (w', without k2 A))"
    using m b by (simp add: deferred_def release_def ffi_export_def)
  have "holds (without k2 A) (VBox (enc_Result enc_v r)) p B"
    by (rule holds_frame(1) [OF B(2)]) (use AB(2) in auto)
  note rel = response_released [OF this]
  have "cells (without (without k2 A) B) = cells h" using grows_without [OF AB(1) c(2)] by simp
  with call rel show ?thesis
    by (simp add: with_response_def bind_io_def heap_ok_without [OF B(3)])
qed

lemma owned_call_refines:
  assumes c: "grows h k A" "heap_ok h" "holds k v c A" "has_layout t v"
    and run: "bind_io m (\<lambda>r. ret (answer enc_v r)) w = (x, w')" "x \<noteq> Undefined"
  shows "\<exists>h'. bind_io (go_call rtype (deferred (release (drop_glue t c)) (ffi_export (enc_Result enc_v) m)))
      (\<lambda>r. ret (ffi_result r)) (w, k) = (x, (w', h')) \<and> cells h' = cells h \<and> heap_ok h'"
proof -
  obtain y w1 where y: "m w = (y, w1)" by (cases "m w")
  show ?thesis
  proof (cases y)
    case (Returns r)
    have "status_num (status_code r) = 0 \<longleftrightarrow> status_code r = NoError" by (cases "status_code r") simp_all
    with owned_call_run [OF c, of m w r w1 check_and_copy] y Returns run(1) show ?thesis
      by (auto simp: bind_io_def ret_def go_call_def check_and_copy_def answer_def ffi_result_def)
  next
    case (Panics p)
    with y run drop_holds [OF c(4,3)] grows_without [OF c(1,2)] heap_ok_without [OF grows_heap_ok [OF c(1,2)]]
    show ?thesis
      by (auto simp: bind_io_def go_call_def with_response_def deferred_def release_def ffi_export_def)
  qed (use y run in \<open>simp add: bind_io_def\<close>)
qed

end

definition spec_GenerateSingleVanillaProof ::
    "('cid, 'sp) go_conv \<Rightarrow> 's logger \<Rightarrow> 's post_lib \<Rightarrow> 'cid PrivateSectorInfo \<Rightarrow> u64 list
      \<Rightarrow> ('s world, go_error + val) io" where
  "spec_GenerateSingleVanillaProof G L P replica challenges =
     try_io (from_exec (replica_of G replica)) (\<lambda>info.
     bind_io (generate_single_vanilla_proof L P info challenges) (\<lambda>r. ret (answer enc_bytes r)))"

section \<open>Proofs that are not given back\<close>

text \<open>The proofs that the verifiers convert.\<close>

fun post_proofs_of :: "go_PoStProof list \<Rightarrow> go_error + PoStProof list" where
  "post_proofs_of [] = Inr []"
| "post_proofs_of ((p, b) # src) =
     (case toFilRegisteredPoStProof p of
        Inl e \<Rightarrow> Inl e
      | Inr pp \<Rightarrow> map_sum id (Cons \<lparr>post_registered_proof = pp, post_proof = b\<rparr>) (post_proofs_of src))"

lemma toFilPoStProofs_run:
  assumes "heap_ok h" and "list_all (small \<circ> snd) src" and "post_proofs_of src = Inr ps"
  shows "\<exists>cs k A. toFilPoStProofs src (w, h) = (Returns (Inr cs), (w, k)) \<and> grows h k A \<and>
    holds_all k (map enc_PoStProof ps) cs A"
  using assms
proof (induction src arbitrary: h ps)
  case Nil
  then show ?case by (auto simp: ret_def intro!: exI [of _ "{}"] holds_holds_all.nil)
next
  case (Cons q src)
  obtain p b where q: "q = (p, b)" by (cases q)
  with Cons.prems(3) obtain pp ps' where pp: "toFilRegisteredPoStProof p = Inr pp" "post_proofs_of src = Inr ps'"
    "ps = \<lparr>post_registered_proof = pp, post_proof = b\<rparr> # ps'"
    by (auto split: sum.splits simp: map_sum_def)
  let ?p = "\<lparr>post_registered_proof = pp, post_proof = b\<rparr>"
  obtain c h1 where st: "store_val (enc_PoStProof ?p) h = (c, h1)" by (cases "store_val (enc_PoStProof ?p) h")
  then obtain A where A: "grows h h1 A" "holds h1 (enc_PoStProof ?p) c A" using store_holds(1) by blast
  have "list_all (small \<circ> snd) src" using Cons.prems(2) by (simp add: comp_def)
  from Cons.IH [OF grows_heap_ok [OF A(1) Cons.prems(1)] this pp(2)] obtain cs k B where
    B: "toFilPoStProofs src (w, h1) = (Returns (Inr cs), (w, k))" "grows h1 k B"
      "holds_all k (map enc_PoStProof ps') cs B"
    by (elim exE conjE)
  have "toFilPoStProofs (q # src) (w, h) = (Returns (Inr (c # cs)), (w, k))"
    using Cons.prems(2) q pp st B(1) by (simp add: bind_io_def try_io_def on_heap_def NewPoStProof_eq ret_def)
  moreover have "holds_all k (map enc_PoStProof ps) (c # cs) (A \<union> B)"
    using holds_holds_all.cons [OF grows_keeps(1) [OF A(1) B(2) A(2)] B(3)] grows_trans [OF A(1) B(2)] pp(3) by simp
  ultimately show ?case using grows_trans [OF A(1) B(2)] by (intro exI conjI) auto
qed

text \<open>A proof with bytes owns one cell, an empty one none.\<close>

lemma proof_cells:
  "holds_all k (map enc_PoStProof ps) cs A \<Longrightarrow> finite A \<and> card A = length (filter (\<lambda>p. post_proof p \<noteq> []) ps)"
proof (induction ps arbitrary: cs A)
  case (Cons p ps)
  then obtain c cs' B D where cs: "A = B \<union> D" "B \<inter> D = {}" "holds k (enc_PoStProof p) c B"
    "holds_all k (map enc_PoStProof ps) cs' D"
    by auto
  obtain v where v: "holds k (enc_bytes (post_proof p)) v B" using cs(3) by (auto simp: enc_PoStProof_def)
  have pl: "holds_all k (map (\<lambda>b. VPlain (PByte b)) bs) ds E \<Longrightarrow> E = {}" for bs ds E
    by (induction bs arbitrary: ds E) auto
  from v have "finite B \<and> card B = (if post_proof p = [] then 0 else 1)" by (auto simp: enc_bytes_def dest: pl)
  with Cons.IH [OF cs(4)] cs(1,2) show ?case by (simp add: card_Un_disjoint)
qed auto

lemma kept_cells:
  assumes "grows h k A" and "heap_ok h" and "holds_all k (map enc_PoStProof ps) cs A" and "cells h' = cells k"
  shows "cells h \<subseteq>\<^sub>m cells h' \<and> card (dom (cells h') - dom (cells h)) = length (filter (\<lambda>p. post_proof p \<noteq> []) ps)"
proof -
  have new: "cells h a = None" if "a \<in> A" for a using that assms(1,2) by (auto simp: grows_def heap_ok_def)
  have "dom (cells k) - dom (cells h) = A"
    using holds_dom(2) [OF assms(3)] assms(1) new by (auto simp: grows_def dom_def)
  moreover have "cells k a = cells h a" if "cells h a \<noteq> None" for a
    using that new [of a] assms(1) by (metis grows_def)
  then have "cells h \<subseteq>\<^sub>m cells k" by (auto simp: map_le_def dom_def)
  ultimately show ?thesis using proof_cells [OF assms(3)] assms(4) by simp
qed

lemma try_io_converted [simp]: "try_io (from_exec (Returns (Inr a))) f = f a"
  by (simp add: try_io_def)

text \<open>What both verifiers do once the sectors are converted.\<close>

definition verify_post_with ::
    "('cid, 'sp) go_conv \<Rightarrow> (array32 \<Rightarrow> PublicReplicaInfo list \<Rightarrow> PoStProof list \<Rightarrow> array32 \<Rightarrow> ('w \<times> heap, val + val) io)
      \<Rightarrow> bytes \<Rightarrow> go_PoStProof list \<Rightarrow> PublicReplicaInfo list \<Rightarrow> u64 \<Rightarrow> ('w \<times> heap, go_error + val) io" where
  "verify_post_with G call randomness proofs pubs prover =
     try_io (wrapped_io ''failed to create PoSt proofs array for FFI: '' (toFilPoStProofs proofs)) (\<lambda>filPoStProofs.
     try_io (from_exec (toProverID G prover)) (\<lambda>proverID.
     bind_io (from_exec (AsByteArray32 randomness)) (\<lambda>rnd.
     bind_io (read_heap (read_list PoStProof_layout dec_PoStProof filPoStProofs)) (\<lambda>ps.
     bind_io (call rnd pubs ps proverID) (\<lambda>r.
     ret (ffi_result r))))))"

lemma verify_post_leaks:
  assumes h: "heap_ok h" "list_all (small \<circ> snd) proofs" "post_proofs_of proofs = Inr ps"
    and conv: "toProverID G prover = Returns (Inr proverID)" "AsByteArray32 randomness = Returns rnd"
    and call: "faithful_call enc_bool (export_v rnd pubs ps proverID) (call rnd pubs ps proverID)"
    and run: "export_v rnd pubs ps proverID w = (Returns r, w')"
  shows "\<exists>h'. verify_post_with G call randomness proofs pubs prover (w, h) =
      (Returns (answer (\<lambda>b. VPlain (PBool b)) r), (w', h')) \<and> cells h \<subseteq>\<^sub>m cells h' \<and>
    card (dom (cells h') - dom (cells h)) = length (filter (\<lambda>p. post_proof p \<noteq> []) ps)"
proof -
  from toFilPoStProofs_run [OF h, of w] obtain cs k A where
    k: "toFilPoStProofs proofs (w, h) = (Returns (Inr cs), (w, k))" "grows h k A"
      "holds_all k (map enc_PoStProof ps) cs A"
    by (elim exE conjE)
  have read: "read_list PoStProof_layout dec_PoStProof cs k = Some ps"
    by (rule read_list_holds [OF k(3) enc_PoStProof_typed dec_enc_PoStProof])
  from call run grows_heap_ok [OF k(2) h(1)] obtain h' where
    h': "call rnd pubs ps proverID (w, k) = (Returns (go_value enc_bool r), (w', h'))" "cells h' = cells k"
    unfolding faithful_call_def by blast
  have "verify_post_with G call randomness proofs pubs prover (w, h) =
      (Returns (answer (\<lambda>b. VPlain (PBool b)) r), (w', h'))"
    using k(1) read h'(1) conv
    unfolding verify_post_with_def try_wrapped
    by (simp add: try_io_def bind_io_def from_exec_def read_heap_def ret_def ffi_result_def
        go_value_def answer_def)
  with kept_cells [OF k(2) h(1) k(3) h'(2)] show ?thesis by blast
qed

section \<open>Concrete conversions\<close>

text \<open>CIDs are numbers; the CID 0 is not a sealed CID.\<close>

definition sample_conv :: "(nat, unit) go_conv" where
  "sample_conv =
     \<lparr>CIDToReplicaCommitmentV1 = (\<lambda>c. if c = 0 then None else Some (replicate 32 (word_of_nat c))),
      IDAddressPayload = (\<lambda>i. Some [ucast i]),
      RegisteredWindowPoStProof = (\<lambda>_. Some abi_StackedDrgWindow2KiBV1),
      RegisteredWinningPoStProof = (\<lambda>_. Some abi_StackedDrgWinning2KiBV1)\<rparr>"

definition sample_private :: "u64 \<Rightarrow> nat PrivateSectorInfo" where
  "sample_private n =
     \<lparr>priv_SectorNumber = n, priv_SealedCID = 7, CacheDirPath = [1, 2], PoStProofType = abi_StackedDrgWindow2KiBV1,
      SealedSectorPath = [3]\<rparr>"

definition sample_sector :: "(nat, unit) SectorInfo" where
  "sample_sector = \<lparr>SealProof = (), SectorNumber = 5, SealedCID = 7\<rparr>"

lemma sample_conv_ok: "conv_ok sample_conv"
  by (simp add: conv_ok_def sample_conv_def)

lemma sample_private_small: "small_paths (sample_private n)"
  by (simp add: small_paths_def sample_private_def)

lemma empty_heap_ok: "heap_ok empty_heap"
  by (simp add: heap_ok_def empty_heap_def)

section \<open>Properties\<close>

text \<open>C18: the Go function GenerateWindowPoSt is the exported function on the converted arguments: it
  answers with the proofs, or with the faulty sectors and the error text, and the memory it
  allocated for the replica infos is given back on success, on every error and on a panic.\<close>
theorem go_GenerateWindowPoSt_refines:
  assumes "conv_ok G" and "list_all small_paths infos"
  shows "refines C (spec_GenerateWindowPoSt G L P minerID infos randomness)
    (go_GenerateWindowPoSt G L P minerID infos randomness)"
  unfolding spec_GenerateWindowPoSt_def go_GenerateWindowPoSt_def
  by (assumption | rule refines_with_replicas [OF assms] window_post_call refines_rules)+

theorem go_GenerateWindowPoSt_refines_witness:
  "\<exists>w' h'. go_GenerateWindowPoSt sample_conv silent_logger sample_post 1000 [sample_private 5, sample_private 13] zero32
       (fresh_world, empty_heap) = (Returns (Inl ([13], FfiErr (enc_bytes (str_bytes ''faulty sectors'')))), (w', h')) \<and>
     cells h' = Map.empty"
proof -
  let ?infos = "[sample_private 5, sample_private 13]"
  let ?replica = "\<lambda>n. \<lparr>pri_registered_proof = RegisteredPoStProof.StackedDrgWindow2KiBV1, pri_cache_dir_path = [1, 2],
    pri_comm_r = replicate 32 7, pri_replica_path = [3], pri_sector_id = n\<rparr>"
  have r: "replicas_of sample_conv ?infos = Returns (Inr [?replica 5, ?replica 13])"
    by (simp add: replica_of_def to32ByteCommR_def AsByteArray32_def sample_conv_def sample_private_def)
  have p: "toProverID sample_conv 1000 = Returns (Inr (232 # replicate 31 0))"
    by (simp add: toProverID_def AsByteArray32_def sample_conv_def)
  have "fst (generate_window_post silent_logger sample_post zero32 [?replica 5, ?replica 13] (232 # replicate 31 0)
      fresh_world) = Returns (Result_err \<lparr>wp_proofs = [], wp_faulty_sectors = [13]\<rparr> (str_bytes ''faulty sectors''))"
    by (simp add: generate_window_post_def catch_panic_response_raw_eq [OF silent_logger_ok fresh_world_ok]
        to_private_replica_info_map_def private_replica_ok collect_map_def sample_post_def
        bind_io_def lift_ext_def ret_def window_post_response_eq)
  then obtain w' where "generate_window_post silent_logger sample_post zero32 [?replica 5, ?replica 13]
      (232 # replicate 31 0) fresh_world =
      (Returns (Result_err \<lparr>wp_proofs = [], wp_faulty_sectors = [13]\<rparr> (str_bytes ''faulty sectors'')), w')"
    by (metis prod.collapse)
  moreover have "AsByteArray32 zero32 = Returns zero32" by (simp add: AsByteArray32_def zero32_def)
  ultimately have run: "spec_GenerateWindowPoSt sample_conv silent_logger sample_post 1000 ?infos zero32 fresh_world =
      (Returns (Inl ([13], FfiErr (enc_bytes (str_bytes ''faulty sectors'')))), w')"
    by (simp add: spec_GenerateWindowPoSt_def r p bind_io_Returns window_answer_def Result_err_def ret_def
        del: replicas_of.simps)
  have ref: "refines Map.empty (spec_GenerateWindowPoSt sample_conv silent_logger sample_post 1000 ?infos zero32)
      (go_GenerateWindowPoSt sample_conv silent_logger sample_post 1000 ?infos zero32)"
    by (rule go_GenerateWindowPoSt_refines [OF sample_conv_ok]) (simp add: sample_private_small)
  have "cells empty_heap = Map.empty" by (simp add: empty_heap_def)
  from refinesD [OF ref empty_heap_ok this run] obtain h' where "go_GenerateWindowPoSt sample_conv silent_logger sample_post 1000 ?infos zero32
      (fresh_world, empty_heap) = (Returns (Inl ([13], FfiErr (enc_bytes (str_bytes ''faulty sectors'')))), (w', h'))"
    "cells h' = Map.empty"
    by blast
  then show ?thesis by (intro exI conjI)
qed

text \<open>The Go function GenerateWinningPoSt is the exported function on the converted arguments,
  and gives back the memory of the replica infos in every case.\<close>
lemma go_GenerateWinningPoSt_refines:
  assumes "conv_ok G" and "list_all small_paths infos"
  shows "refines C (spec_GenerateWinningPoSt G L P minerID infos randomness)
    (go_GenerateWinningPoSt G L P minerID infos randomness)"
  unfolding spec_GenerateWinningPoSt_def go_GenerateWinningPoSt_def cgo_GenerateWinningPoSt_def try_wrapped
  by (assumption | rule refines_with_replicas [OF assms] post_proofs_type.refines_answer refines_rules
      fromFilPoStProofs_enc)+

text \<open>C19: the four callers that hand over vanilla or partition proofs answer with the converted
  value of the exported function, or its error text, and give back the memory of the
  proofs, whatever the exported function answers.\<close>
theorem go_vanilla_callers_refine:
  assumes "list_all small proofs" and "list_all (small \<circ> snd) partitions"
  shows "refines C
      (spec_with_vanilla G proofType minerID randomness
        (\<lambda>pp rnd p. generate_winning_post_with_vanilla L P pp rnd p proofs) (map fromFilPoStProof))
      (go_GenerateWinningPoStWithVanilla G L P proofType minerID randomness proofs) \<and>
    refines C
      (spec_with_vanilla G proofType minerID randomness
        (\<lambda>pp rnd p. generate_window_post_with_vanilla L P pp rnd p proofs) (map fromFilPoStProof \<circ> wp_proofs))
      (go_GenerateWindowPoStWithVanilla G L P proofType minerID randomness proofs) \<and>
    refines C
      (spec_with_vanilla G proofType minerID randomness
        (\<lambda>pp rnd p. generate_single_window_post_with_vanilla L P pp rnd p proofs i)
        (fromFilPartitionProof \<circ> sw_partition_proof))
      (go_GenerateSinglePartitionWindowPoStWithVanilla G L P proofType minerID randomness proofs i) \<and>
    refines C
      (try_val (toFilRegisteredPoStProof proofType) (\<lambda>pp.
         bind_io (merge_window_post_partition_proofs L P pp (map snd partitions)) (\<lambda>r.
         ret (answer fromFilPoStProof r))))
      (go_MergeWindowPoStPartitionProofs L P proofType partitions)"
proof (intro conjI)
  have parts: "list_all small (map snd partitions)" using assms(2) by (simp add: list_all_length)
  note rules = refines_with_vanilla [OF assms(1)] refines_with_vanilla [OF parts] refines_rules
  show "refines C
      (spec_with_vanilla G proofType minerID randomness
        (\<lambda>pp rnd p. generate_winning_post_with_vanilla L P pp rnd p proofs) (map fromFilPoStProof))
      (go_GenerateWinningPoStWithVanilla G L P proofType minerID randomness proofs)"
    unfolding spec_with_vanilla_def go_GenerateWinningPoStWithVanilla_def cgo_GenerateWinningPoStWithVanilla_def
    by (assumption | rule post_proofs_type.refines_answer rules fromFilPoStProofs_enc)+
  show "refines C
      (spec_with_vanilla G proofType minerID randomness
        (\<lambda>pp rnd p. generate_window_post_with_vanilla L P pp rnd p proofs) (map fromFilPoStProof \<circ> wp_proofs))
      (go_GenerateWindowPoStWithVanilla G L P proofType minerID randomness proofs)"
    unfolding spec_with_vanilla_def go_GenerateWindowPoStWithVanilla_def cgo_GenerateWindowPoStWithVanilla_def
    by (assumption | rule window_type.refines_answer rules | simp)+
  show "refines C
      (spec_with_vanilla G proofType minerID randomness
        (\<lambda>pp rnd p. generate_single_window_post_with_vanilla L P pp rnd p proofs i)
        (fromFilPartitionProof \<circ> sw_partition_proof))
      (go_GenerateSinglePartitionWindowPoStWithVanilla G L P proofType minerID randomness proofs i)"
    unfolding spec_with_vanilla_def go_GenerateSinglePartitionWindowPoStWithVanilla_def
      cgo_GenerateSingleWindowPoStWithVanilla_def
    by (assumption | rule single_window_type.refines_answer rules | simp)+
  show "refines C
      (try_val (toFilRegisteredPoStProof proofType) (\<lambda>pp.
         bind_io (merge_window_post_partition_proofs L P pp (map snd partitions)) (\<lambda>r.
         ret (answer fromFilPoStProof r))))
      (go_MergeWindowPoStPartitionProofs L P proofType partitions)"
    unfolding go_MergeWindowPoStPartitionProofs_def cgo_MergeWindowPoStPartitionProofs_def toPartitionProofs_def
    by (assumption | rule post_proof_type.refines_answer rules | simp)+
qed

theorem go_vanilla_callers_refine_witness:
  "\<forall>C randomness.
    refines C
      (spec_with_vanilla sample_conv abi_StackedDrgWindow2KiBV1 1000 randomness
        (\<lambda>pp rnd p. generate_window_post_with_vanilla silent_logger sample_post pp rnd p [[1, 2], [], [3]])
        (map fromFilPoStProof \<circ> wp_proofs))
      (go_GenerateWindowPoStWithVanilla sample_conv silent_logger sample_post abi_StackedDrgWindow2KiBV1 1000 randomness
        [[1, 2], [], [3]])"
proof (intro allI)
  fix C randomness
  show "refines C
      (spec_with_vanilla sample_conv abi_StackedDrgWindow2KiBV1 1000 randomness
        (\<lambda>pp rnd p. generate_window_post_with_vanilla silent_logger sample_post pp rnd p [[1, 2], [], [3]])
        (map fromFilPoStProof \<circ> wp_proofs))
      (go_GenerateWindowPoStWithVanilla sample_conv silent_logger sample_post abi_StackedDrgWindow2KiBV1 1000 randomness
        [[1, 2], [], [3]])"
    using go_vanilla_callers_refine [of "[[1, 2], [], [3]]" "[]" C sample_conv abi_StackedDrgWindow2KiBV1 1000
        randomness silent_logger sample_post] by simp
qed

text \<open>GenerateSingleVanillaProof hands the replica info over by value: the exported function
  releases it, the wrapper releases the response, and nothing is released twice; the
  caller gets the exported function's proof or its error text.\<close>
lemma go_GenerateSingleVanillaProof_refines:
  assumes "conv_ok G" and "small_paths replica"
  shows "refines C (spec_GenerateSingleVanillaProof G L P replica challenges)
    (go_GenerateSingleVanillaProof G L P replica challenges)"
proof (rule refinesI)
  fix w h x w'
  assume h: "heap_ok h" "cells h = C" and x: "x \<noteq> Undefined"
    and run: "spec_GenerateSingleVanillaProof G L P replica challenges w = (x, w')"
  obtain q where q: "replica_of G replica = Returns q" using replica_of_Returns [OF assms(1)] by blast
  show "\<exists>h'. go_GenerateSingleVanillaProof G L P replica challenges (w, h) = (x, (w', h')) \<and> cells h' = C \<and> heap_ok h'"
  proof (cases q)
    case (Inl e)
    with q run h show ?thesis
      by (auto simp: go_GenerateSingleVanillaProof_def spec_GenerateSingleVanillaProof_def try_io_def bind_io_def
          from_exec_def ret_def toFilPrivateReplicaInfo_run [OF assms])
  next
    case (Inr info)
    obtain c k where st: "store_val (enc_PrivateReplicaInfo info) h = (c, k)"
      by (cases "store_val (enc_PrivateReplicaInfo info) h")
    then obtain A where A: "grows h k A" "holds k (enc_PrivateReplicaInfo info) c A" using store_holds(1) by blast
    have "\<exists>h'. bind_io (go_call R_slice_uint8 (deferred (release (drop_glue PrivateReplicaInfo_layout c))
          (ffi_export (enc_Result enc_bytes) (generate_single_vanilla_proof L P info challenges))))
        (\<lambda>r. ret (ffi_result r)) (w, k) = (x, (w', h')) \<and> cells h' = cells h \<and> heap_ok h'"
      by (rule bytes_type.owned_call_refines [OF A(1) h(1) A(2) enc_PrivateReplicaInfo_typed _ x])
         (use run q Inr in \<open>simp add: spec_GenerateSingleVanillaProof_def try_io_def\<close>)
    moreover have "read_one PrivateReplicaInfo_layout dec_PrivateReplicaInfo c k = Some info"
      by (rule read_one_holds [OF A(2)]) simp_all
    ultimately show ?thesis
      using q Inr st h(2)
      by (simp add: go_GenerateSingleVanillaProof_def ffi_single_vanilla_proof_def try_io_def bind_io_def
          toFilPrivateReplicaInfo_run [OF assms] read_heap_def go_call_def with_response_def)
  qed
qed

lemma go_GenerateSingleVanillaProof_refines_instance:
  "\<forall>C challenges. refines C
     (spec_GenerateSingleVanillaProof sample_conv silent_logger sample_post (sample_private 5) challenges)
     (go_GenerateSingleVanillaProof sample_conv silent_logger sample_post (sample_private 5) challenges)"
  by (intro allI go_GenerateSingleVanillaProof_refines sample_conv_ok sample_private_small)

text \<open>C24: VerifyWindowPoSt and VerifyWinningPoSt answer what the exported verifiers answer on exactly
  the given proofs, but the memory of the proofs is never given back: every non-empty proof
  leaves one allocation behind, on a success and on an error of the verifier.\<close>
theorem go_verifiers_leak_the_proofs:
  assumes "heap_ok h" and "list_all (small \<circ> snd) proofs" and "post_proofs_of proofs = Inr ps"
    and "toProverID G prover = Returns (Inr proverID)" and "AsByteArray32 randomness = Returns rnd"
  shows "(toFilPublicReplicaInfos G (RegisteredWindowPoStProof G) sectors = Returns (Inr pubs) \<and>
      verify_window_post L P rnd pubs ps proverID w = (Returns r, w') \<longrightarrow>
      (\<exists>h'. go_VerifyWindowPoSt G L P randomness proofs sectors prover (w, h) =
          (Returns (answer (\<lambda>b. VPlain (PBool b)) r), (w', h')) \<and> cells h \<subseteq>\<^sub>m cells h' \<and>
        card (dom (cells h') - dom (cells h)) = length (filter (\<lambda>p. post_proof p \<noteq> []) ps))) \<and>
    (toFilPublicReplicaInfos G (RegisteredWinningPoStProof G) sectors = Returns (Inr pubs) \<and>
      verify_winning_post L P rnd pubs ps proverID w = (Returns r, w') \<longrightarrow>
      (\<exists>h'. go_VerifyWinningPoSt G L P randomness proofs sectors prover (w, h) =
          (Returns (answer (\<lambda>b. VPlain (PBool b)) r), (w', h')) \<and> cells h \<subseteq>\<^sub>m cells h' \<and>
        card (dom (cells h') - dom (cells h)) = length (filter (\<lambda>p. post_proof p \<noteq> []) ps)))"
  using verify_post_leaks [OF assms, of "verify_window_post L P" pubs "cgo_VerifyWindowPoSt L P" w r w']
    verify_post_leaks [OF assms, of "verify_winning_post L P" pubs "cgo_VerifyWinningPoSt L P" w r w']
  unfolding go_VerifyWindowPoSt_def go_VerifyWinningPoSt_def verify_post_with_def [symmetric]
  by (simp add: cgo_VerifyWindowPoSt_def cgo_VerifyWinningPoSt_def bool_type.faithful)

theorem go_verifiers_leak_the_proofs_witness:
  "\<exists>w' h'. go_VerifyWindowPoSt sample_conv silent_logger sample_post zero32 [(abi_StackedDrgWindow2KiBV1, [9, 9])]
       [sample_sector] 1000 (fresh_world, empty_heap) = (Returns (Inr (VPlain (PBool True))), (w', h')) \<and>
     card (dom (cells h')) = 1"
proof -
  let ?proofs = "[(abi_StackedDrgWindow2KiBV1, [9, 9])]"
  let ?ps = "[\<lparr>post_registered_proof = RegisteredPoStProof.StackedDrgWindow2KiBV1, post_proof = [9, 9]\<rparr>]"
  let ?pub = "\<lparr>pub_registered_proof = RegisteredPoStProof.StackedDrgWindow2KiBV1, pub_comm_r = replicate 32 7,
    pub_sector_id = 5\<rparr>"
  have pubs: "toFilPublicReplicaInfos sample_conv (RegisteredWindowPoStProof sample_conv) [sample_sector] =
      Returns (Inr [?pub])"
    by (simp add: to32ByteCommR_def AsByteArray32_def sample_conv_def sample_sector_def)
  have p: "toProverID sample_conv 1000 = Returns (Inr (232 # replicate 31 0))"
    by (simp add: toProverID_def AsByteArray32_def sample_conv_def)
  have "fst (verify_window_post silent_logger sample_post zero32 [?pub] ?ps (232 # replicate 31 0) fresh_world) =
      Returns (Result_ok True)"
    by (simp add: verify_window_post_def catch_panic_response_eq [OF silent_logger_ok fresh_world_ok] sample_post_def
        try_io_def bind_io_def lift_ext_def ret_def Result_from_def map_err_string_def)
  then obtain w' where v: "verify_window_post silent_logger sample_post zero32 [?pub] ?ps (232 # replicate 31 0)
      fresh_world = (Returns (Result_ok True), w')"
    by (metis prod.collapse)
  have "AsByteArray32 zero32 = Returns zero32" by (simp add: AsByteArray32_def zero32_def)
  from go_verifiers_leak_the_proofs [OF empty_heap_ok _ _ p this, of ?proofs ?ps "[sample_sector]" "[?pub]"
      silent_logger sample_post fresh_world "Result_ok True" w'] pubs v
  show ?thesis by (auto simp: answer_def Result_ok_def empty_heap_def)
qed

end
