(* ===== verification/Fvm_Client.thy ===== *)
theory Fvm_Client
  imports Go_Memory
begin

text \<open>
  The life of an FVM machine seen from Go (\<open>fvm.go\<close> and \<open>cgo/fvm.go\<close>) with the memory it takes:
  \<open>CreateFvmMachine\<close> takes the pointer out of the response before it destroys the response,
  the calls on the machine read and destroy their responses, and the finalizer drops the
  machine and unregisters the externs. The lemmas relate the calls to the computations
  without a heap; the properties are that a whole session leaves nothing behind, and that a
  machine whose executor does not panic answers every call.
\<close>

section \<open>Creating\<close>

definition enc_machine :: "'m InnerFvmMachine option \<Rightarrow> val" where
  "enc_machine m = (case m of None \<Rightarrow> VNoBox | Some _ \<Rightarrow> VBox (VPlain PUnit))"

text \<open>\<open>executor := resp.value; resp.value = nil\<close>\<close>

definition take_value :: "cval \<Rightarrow> heap \<Rightarrow> (cval \<times> heap) option" where
  "take_value resp h =
     (case resp of
        CBox (At a) \<Rightarrow>
          (case cells h a of
             Some [CStruct [st, emsg, v]] \<Rightarrow>
               Some (v, h\<lparr>cells := (cells h)(a \<mapsto> [CStruct [st, emsg, CBox Null]])\<rparr>)
           | _ \<Rightarrow> None)
      | _ \<Rightarrow> None)"

definition take_executor :: "cval \<Rightarrow> ('w \<times> heap, cval) io" where
  "take_executor resp = (\<lambda>(w, h).
     case take_value resp h of None \<Rightarrow> (Undefined, (w, h)) | Some (v, h') \<Rightarrow> (Returns v, (w, h')))"

definition cgo_CreateFvmMachine ::
    "'l logger \<Rightarrow> ('cid, 'code, 'blk, ('s, 'ga) go_state, 'cfg, 'ctx, 'm, 'msg, 'addr) fvm_lib
      \<Rightarrow> ('cid, 'code, 'blk, ('s, 'ga) go_state) cid_lib \<Rightarrow> 'ga go_lib \<Rightarrow> ('cid, 'mh, 'code) hash_lib
      \<Rightarrow> FvmRegisteredVersion \<Rightarrow> u64 \<Rightarrow> u64 \<Rightarrow> u64 \<Rightarrow> u64 \<Rightarrow> u64 \<Rightarrow> u64 \<Rightarrow> bytes \<Rightarrow> bytes \<Rightarrow> bool \<Rightarrow> u64 \<Rightarrow> u64
      \<Rightarrow> (('l \<times> ('s, 'ga) go_state) world \<times> heap, val + cval) io" where
  "cgo_CreateFvmMachine L V C G H fvmVersion chainEpoch baseFeeHi baseFeeLo baseCircSupplyHi baseCircSupplyLo
     networkVersion stateRoot manifestCid tracing blockstoreId externsId =
     bind_io (ffi_export (enc_Result enc_machine)
         (create_fvm_machine L V C G H fvmVersion chainEpoch baseFeeHi baseFeeLo baseCircSupplyHi
            baseCircSupplyLo networkVersion stateRoot manifestCid tracing blockstoreId externsId)) (\<lambda>resp.
     bind_io (take_executor resp) (\<lambda>executor.
     with_response R_InnerFvmMachine_ptr
       (\<lambda>st emsg _. if st = status_num NoError then Inr executor else Inl emsg) (ret resp)))"

section \<open>Calls on the machine\<close>

definition cgo_FvmMachineExecuteMessage ::
    "'l logger \<Rightarrow> ('cid, 'code, 'blk, 'g, 'cfg, 'ctx, 'm, 'msg, 'addr) fvm_lib \<Rightarrow> 'addr fvm_consts
      \<Rightarrow> bytes \<Rightarrow> u64 \<Rightarrow> u64 \<Rightarrow> (('l \<times> 'g \<times> 'm InnerFvmMachine) world \<times> heap, val + val) io" where
  "cgo_FvmMachineExecuteMessage L V X message chainLen applyKind =
     go_call R_FvmMachineExecuteResponse
       (ffi_export (enc_Result enc_ExecuteResponse) (fvm_machine_execute_message L V X message chainLen applyKind))"

definition cgo_FvmMachineFlush ::
    "'l logger \<Rightarrow> ('cid, 'code, 'blk, 'g, 'cfg, 'ctx, 'm, 'msg, 'addr) fvm_lib
      \<Rightarrow> (('l \<times> 'g \<times> 'm InnerFvmMachine) world \<times> heap, val + val) io" where
  "cgo_FvmMachineFlush L V = go_call R_slice_uint8 (ffi_export (enc_Result enc_bytes) (fvm_machine_flush L V))"

text \<open>\<open>func (r FvmMachineExecuteResponse) copy()\<close>, and the \<open>ApplyRet\<close> made of it; \<open>ApplyImplicitMessage\<close>
  leaves out the trace.\<close>

definition bytes_str :: "bytes \<Rightarrow> string" where
  "bytes_str = map (\<lambda>b. char_of (unat b))"

definition opt_bytes :: "val \<Rightarrow> bytes option" where
  "opt_bytes v = (if v = VNoSlice then None else dec_bytes v)"

definition apply_ret_of :: "bool \<Rightarrow> val \<Rightarrow> go_error + go_ApplyRet" where
  "apply_ret_of traced v =
     (case v of
        VStruct [VPlain (PWord ec), rv, VPlain (PWord gas), VPlain (PWord ph), VPlain (PWord pl),
          VPlain (PWord th), VPlain (PWord tlo), tr, fi] \<Rightarrow>
          Inr \<lparr>ReturnVal = opt_bytes rv, ExitCode = ec, GasUsed = gas, MinerPenalty = reformBigInt ph pl,
            MinerTip = reformBigInt th tlo, ExecTraceBytes = (if traced then opt_bytes tr else None),
            FailureInfo = (case opt_bytes fi of None \<Rightarrow> [] | Some b \<Rightarrow> bytes_str b)\<rparr>
      | _ \<Rightarrow> Inl (GoErr ''not a response''))"

definition FVM_ApplyMessage ::
    "'l logger \<Rightarrow> ('cid, 'code, 'blk, 'g, 'cfg, 'ctx, 'm, 'msg, 'addr) fvm_lib \<Rightarrow> 'addr fvm_consts
      \<Rightarrow> bytes \<Rightarrow> u64 \<Rightarrow> (('l \<times> 'g \<times> 'm InnerFvmMachine) world \<times> heap, go_error + go_ApplyRet) io" where
  "FVM_ApplyMessage L V X msgBytes chainLen =
     bind_io (cgo_FvmMachineExecuteMessage L V X msgBytes chainLen 0) (\<lambda>r.
     try_val (ffi_result r) (\<lambda>resp. ret (apply_ret_of True resp)))"

definition FVM_ApplyImplicitMessage ::
    "'l logger \<Rightarrow> ('cid, 'code, 'blk, 'g, 'cfg, 'ctx, 'm, 'msg, 'addr) fvm_lib \<Rightarrow> 'addr fvm_consts
      \<Rightarrow> bytes \<Rightarrow> (('l \<times> 'g \<times> 'm InnerFvmMachine) world \<times> heap, go_error + go_ApplyRet) io" where
  "FVM_ApplyImplicitMessage L V X msgBytes =
     bind_io (cgo_FvmMachineExecuteMessage L V X msgBytes 0 1) (\<lambda>r.
     try_val (ffi_result r) (\<lambda>resp. ret (apply_ret_of False resp)))"

text \<open>\<open>cid.Cast\<close> is the package's: the first argument.\<close>

definition FVM_Flush ::
    "(bytes \<Rightarrow> go_error + 'gc) \<Rightarrow> 'l logger \<Rightarrow> ('cid, 'code, 'blk, 'g, 'cfg, 'ctx, 'm, 'msg, 'addr) fvm_lib
      \<Rightarrow> (('l \<times> 'g \<times> 'm InnerFvmMachine) world \<times> heap, go_error + 'gc) io" where
  "FVM_Flush cid_cast L V =
     bind_io (cgo_FvmMachineFlush L V) (\<lambda>r.
     try_val (ffi_result r) (\<lambda>stateRoot.
     ret (case dec_bytes stateRoot of None \<Rightarrow> Inl (GoErr ''not bytes'') | Some b \<Rightarrow> cid_cast b)))"

text \<open>The finalizer of the \<open>FVM\<close> object; the executor is nil once it ran.\<close>

record go_FVM =
  executor :: "cval option"
  exHandle :: u64

definition FVM_finalize ::
    "go_FVM \<Rightarrow> ('s, 'ga) go_state \<Rightarrow> heap \<Rightarrow> (go_FVM \<times> ('s, 'ga) go_state \<times> heap) option" where
  "FVM_finalize f g h =
     (case executor f of
        None \<Rightarrow> Some (f, g, h)
      | Some c \<Rightarrow>
          (case drop_fvm_machine c h of
             None \<Rightarrow> None
           | Some h' \<Rightarrow> Some (f\<lparr>executor := None\<rparr>, Unregister (exHandle f) g, h')))"

section \<open>Without a heap\<close>

definition apply_ret :: "bool \<Rightarrow> FvmMachineExecuteResponse \<Rightarrow> go_ApplyRet" where
  "apply_ret traced v =
     \<lparr>ReturnVal = resp_return_val v, ExitCode = resp_exit_code v, GasUsed = resp_gas_used v,
      MinerPenalty = reformBigInt (penalty_hi v) (penalty_lo v),
      MinerTip = reformBigInt (miner_tip_hi v) (miner_tip_lo v),
      ExecTraceBytes = (if traced then resp_exec_trace v else None),
      FailureInfo = (case resp_failure_info v of None \<Rightarrow> [] | Some s \<Rightarrow> s)\<rparr>"

lemma bytes_str_bytes [simp]: "bytes_str (str_bytes s) = s"
proof -
  have "of_char c < (256 :: nat)" for c using of_char_mod_256 [of c, where 'a = nat] by simp
  then have "char_of (unat (word_of_nat (of_char c) :: u8)) = c" for c
    by (simp add: unat_of_nat take_bit_nat_eq_self)
  then show ?thesis by (simp add: bytes_str_def str_bytes_def comp_def)
qed

lemma opt_bytes_enc [simp]: "opt_bytes (enc_option enc_bytes b) = b"
proof -
  have "enc_bytes c \<noteq> VNoSlice" for c by (simp add: enc_bytes_def)
  then show ?thesis by (cases b) (simp_all add: opt_bytes_def enc_option_def)
qed

lemma apply_ret_of_enc [simp]: "apply_ret_of traced (enc_ExecuteResponse v) = Inr (apply_ret traced v)"
  by (simp add: apply_ret_of_def apply_ret_def enc_ExecuteResponse_def split: option.split)

lemma apply_message_refines:
  "refines C (bind_io (fvm_machine_execute_message L V X msgBytes chainLen 0) (\<lambda>r. ret (answer (apply_ret True) r)))
     (FVM_ApplyMessage L V X msgBytes chainLen)"
  "refines C (bind_io (fvm_machine_execute_message L V X msgBytes 0 1) (\<lambda>r. ret (answer (apply_ret False) r)))
     (FVM_ApplyImplicitMessage L V X msgBytes)"
  unfolding FVM_ApplyMessage_def FVM_ApplyImplicitMessage_def cgo_FvmMachineExecuteMessage_def
  by (rule execute_type.refines_answer, simp)+

text \<open>The answer of \<open>Flush\<close> when the conversion of the CID may fail.\<close>

definition flush_answer :: "(bytes \<Rightarrow> go_error + 'gc) \<Rightarrow> bytes Result \<Rightarrow> go_error + 'gc" where
  "flush_answer cid_cast r =
     (if status_code r = NoError then cid_cast (value_of r) else Inl (FfiErr (enc_bytes (error_msg r))))"

lemma flush_refines:
  "refines C (bind_io (fvm_machine_flush L V) (\<lambda>r. ret (flush_answer cid_cast r))) (FVM_Flush cid_cast L V)"
proof -
  have eq: "(\<lambda>r. ret (flush_answer cid_cast r)) = (\<lambda>r. bind_io (ret (go_value enc_bytes r)) (\<lambda>r.
      try_val (ffi_result r) (\<lambda>stateRoot.
      ret (case dec_bytes stateRoot of None \<Rightarrow> Inl (GoErr ''not bytes'') | Some b \<Rightarrow> cid_cast b))))"
    by (rule ext) (simp add: flush_answer_def go_value_def ffi_result_def)
  show ?thesis
    unfolding FVM_Flush_def cgo_FvmMachineFlush_def eq bind_io_assoc [symmetric]
    by (intro refines_bind bytes_type.refines_call refines_try_val refines_ret)
qed

section \<open>A session\<close>

datatype fvm_op = Apply bytes u64 | ApplyImplicit bytes | Flush

datatype 'gc fvm_answer = Applied "go_error + go_ApplyRet" | Flushed "go_error + 'gc"

fun FVM_call ::
    "(bytes \<Rightarrow> go_error + 'gc) \<Rightarrow> 'l logger \<Rightarrow> ('cid, 'code, 'blk, 'g, 'cfg, 'ctx, 'm, 'msg, 'addr) fvm_lib
      \<Rightarrow> 'addr fvm_consts \<Rightarrow> fvm_op \<Rightarrow> (('l \<times> 'g \<times> 'm InnerFvmMachine) world \<times> heap, 'gc fvm_answer) io" where
  "FVM_call cid_cast L V X (Apply b n) = bind_io (FVM_ApplyMessage L V X b n) (\<lambda>r. ret (Applied r))"
| "FVM_call cid_cast L V X (ApplyImplicit b) = bind_io (FVM_ApplyImplicitMessage L V X b) (\<lambda>r. ret (Applied r))"
| "FVM_call cid_cast L V X Flush = bind_io (FVM_Flush cid_cast L V) (\<lambda>r. ret (Flushed r))"

text \<open>The calls without a heap, and a list of calls one after the other.\<close>

fun spec_call ::
    "(bytes \<Rightarrow> go_error + 'gc) \<Rightarrow> 'l logger \<Rightarrow> ('cid, 'code, 'blk, 'g, 'cfg, 'ctx, 'm, 'msg, 'addr) fvm_lib
      \<Rightarrow> 'addr fvm_consts \<Rightarrow> fvm_op \<Rightarrow> (('l \<times> 'g \<times> 'm InnerFvmMachine) world, 'gc fvm_answer) io" where
  "spec_call cid_cast L V X (Apply b n) =
     bind_io (fvm_machine_execute_message L V X b n 0) (\<lambda>r. ret (Applied (answer (apply_ret True) r)))"
| "spec_call cid_cast L V X (ApplyImplicit b) =
     bind_io (fvm_machine_execute_message L V X b 0 1) (\<lambda>r. ret (Applied (answer (apply_ret False) r)))"
| "spec_call cid_cast L V X Flush = bind_io (fvm_machine_flush L V) (\<lambda>r. ret (Flushed (flush_answer cid_cast r)))"

fun in_turn :: "('o \<Rightarrow> ('s, 'r) io) \<Rightarrow> 'o list \<Rightarrow> ('s, 'r list) io" where
  "in_turn f [] = ret []"
| "in_turn f (c # cs) = bind_io (f c) (\<lambda>r. bind_io (in_turn f cs) (\<lambda>rs. ret (r # rs)))"

lemma call_refines: "refines C (spec_call cid_cast L V X c) (FVM_call cid_cast L V X c)"
proof (cases c)
  case (Apply b n)
  then show ?thesis
    using refines_bind [OF apply_message_refines(1) refines_ret, of C L V X b n Applied]
    by (simp add: bind_io_assoc)
next
  case (ApplyImplicit b)
  then show ?thesis
    using refines_bind [OF apply_message_refines(2) refines_ret, of C L V X b Applied]
    by (simp add: bind_io_assoc)
next
  case Flush
  then show ?thesis
    using refines_bind [OF flush_refines refines_ret, of C L V cid_cast Flushed] by (simp add: bind_io_assoc)
qed

lemma session_refines:
  "refines C (in_turn (spec_call cid_cast L V X) cs) (in_turn (FVM_call cid_cast L V X) cs)"
  by (induction cs) (simp_all add: refines_ret refines_bind call_refines)

section \<open>The memory of a machine\<close>

interpretation machine_ptr: ffi_layout R_InnerFvmMachine_ptr enc_machine
  by unfold_locales (simp add: enc_machine_def FvmMachine_layout_def split: option.split)

text \<open>An error: there is no pointer to take out, and the response is destroyed.\<close>

lemma create_error_run:
  fixes m :: "('w, 'm InnerFvmMachine option Result) io"
  assumes "heap_ok h" and "m w = (Returns (Result_err None emsg), w')"
  shows "\<exists>h'. bind_io (ffi_export (enc_Result enc_machine) m) (\<lambda>resp. bind_io (take_executor resp) (\<lambda>executor.
      with_response R_InnerFvmMachine_ptr (\<lambda>st emsg _. if st = status_num NoError then Inr executor else Inl emsg)
        (ret resp))) (w, h) = (Returns (Inl (enc_bytes emsg)), (w', h')) \<and> cells h' = cells h \<and> heap_ok h'"
proof -
  let ?v = "enc_Result enc_machine (Result_err None emsg :: 'm InnerFvmMachine option Result)"
  obtain p k where b: "box_new ?v h = (p, k)" by (cases "box_new ?v h")
  obtain B where B: "grows h k B" "holds k (VBox ?v) p B" "heap_ok k" by (rule box_new_holds [OF b assms(1)])
  from B(2) obtain a c1 c2 where "p = CBox (At a)" "cells k a = Some [CStruct [c1, c2, CBox Null]]"
    by (auto simp: enc_Result_def enc_machine_def Result_err_def)
  then have "take_executor p (w', k) = (Returns (CBox Null), (w', k))"
    by (simp add: take_executor_def take_value_def fun_upd_idem)
  with b assms(2) machine_ptr.response_released [OF B(2)] show ?thesis
    by (simp add: bind_io_def ffi_export_def with_response_def ret_def Result_err_def grows_without [OF B(1) assms(1)]
        heap_ok_without [OF B(3)])
qed

text \<open>A success: one cell more, the machine's, and the response is gone.\<close>

lemma create_ok_run:
  assumes "heap_ok h" and "m w = (Returns (Result_ok (Some i)), w')"
  shows "\<exists>h' a. bind_io (ffi_export (enc_Result enc_machine) m) (\<lambda>resp. bind_io (take_executor resp) (\<lambda>executor.
      with_response R_InnerFvmMachine_ptr (\<lambda>st emsg _. if st = status_num NoError then Inr executor else Inl emsg)
        (ret resp))) (w, h) = (Returns (Inr (CBox (At a))), (w', h')) \<and>
    cells h a = None \<and> cells h' = (cells h)(a \<mapsto> [CPlain PUnit]) \<and> heap_ok h'"
proof -
  let ?n = "next_addr h"
  have n: "cells h ?n = None" "cells h (Suc ?n) = None" using assms(1) by (simp_all add: heap_ok_def)
  then have upd: "(cells h)(?n \<mapsto> x, Suc ?n := None) = (cells h)(?n \<mapsto> x)" for x
    by (simp add: fun_upd_idem)
  show ?thesis
    using assms n
    by (intro exI [of _ "\<lparr>cells = (cells h)(?n \<mapsto> [CPlain PUnit]), next_addr = Suc (Suc ?n)\<rparr>"] exI [of _ ?n])
       (simp add: bind_io_def ffi_export_def with_response_def ret_def Result_ok_def enc_Result_def enc_bytes_def
        enc_machine_def box_new_def malloc_def take_executor_def take_value_def read_response_def Result_layout_def
        FvmMachine_layout_def is_none_def go_destroy_boxed destroy_response_def destructor_def free_def
        none_val_def upd heap_ok_def)
qed

section \<open>Every call is answered\<close>

text \<open>An executor that returns from every call, with a result or an error, and does not panic.\<close>

definition executor_total :: "('cid, 'code, 'blk, 'g, 'cfg, 'ctx, 'm, 'msg, 'addr) fvm_lib \<Rightarrow> bool" where
  "executor_total V \<longleftrightarrow>
     (\<forall>m k n s. \<exists>a s'. execute_message V m k n s = (Returns a, s')) \<and>
     (\<forall>s. \<exists>a s'. flush_machine V s = (Returns a, s'))"

text \<open>The wrapper's own side condition: it unwraps the conversion of the penalty and of the miner
  tip to 128 bits, and panics on an amount that is negative or larger.\<close>

definition amounts_fit :: "('cid, 'code, 'blk, 'g, 'cfg, 'ctx, 'm, 'msg, 'addr) fvm_lib \<Rightarrow> bool" where
  "amounts_fit V \<longleftrightarrow>
     (\<forall>m k n s r s'. execute_message V m k n s = (Returns (Inr r), s') \<longrightarrow>
        ret_penalty r \<in> {0..<2 ^ 128} \<and> ret_miner_tip r \<in> {0..<2 ^ 128})"

definition ready :: "('l \<times> 'g \<times> 'm InnerFvmMachine) world \<Rightarrow> bool" where
  "ready w \<longleftrightarrow> log_init w \<noteq> Poisoned \<and> usable (inner_of w)"

lemma log_lines_log_init:
  assumes "logger_ok L"
  shows "log_init w \<noteq> Poisoned \<Longrightarrow> log_init (log_started L name w) \<noteq> Poisoned"
    and "log_init (log_ended L name w) = log_init w"
proof -
  have i: "log_init (snd (info L m v)) = log_init v" for m v by (simp add: info_def lift_ext_def split: prod.split)
  have "log_init (snd (init_log L w)) \<noteq> Poisoned" if "log_init w \<noteq> Poisoned"
    using that assms
    by (cases "fil_logger_init L (ext w)"; cases "log_init w")
       (auto simp: logger_ok_def init_log_def call_once_def lift_ext_def split: exec.splits, metis exec.distinct(1,3) fst_conv)
  then show "log_init w \<noteq> Poisoned \<Longrightarrow> log_init (log_started L name w) \<noteq> Poisoned" by (simp add: log_started_def i)
  show "log_init (log_ended L name w) = log_init w" by (simp add: log_ended_def i)
qed

text \<open>A closure that returns and leaves the mutex alone or unpoisoned gives an answer.\<close>

lemma ready_call:
  assumes "logger_ok L" and "ready w"
    and cb: "\<And>g i. usable i \<Longrightarrow> \<exists>a g' i'. cb (g, i) = (Returns a, (g', i')) \<and> usable i'"
  shows "\<exists>r w'. catch_panic_response (own_logger L) d name (lift_ext (lift_snd cb)) w = (Returns r, w') \<and> ready w'"
proof -
  have p: "log_init w \<noteq> Poisoned" and u: "usable (inner_of w)" using assms(2) by (auto simp: ready_def)
  note lok = own_logger_ok [OF assms(1)]
  let ?v = "log_started (own_logger L) name w"
  from cb [OF u, of "fst (snd (ext w))"] obtain a g' i' where
    "cb (snd (ext ?v)) = (Returns a, (g', i'))" and "usable i'" by auto
  then show ?thesis
    using log_lines_log_init(1) [OF lok p, of name]
    by (simp add: catch_panic_response_eq [OF lok p] lift_ext_snd ready_def log_lines_log_init(2) [OF lok])
qed

lemma with_lock_ready:
  assumes "usable i" and "\<And>e. \<exists>a g' e'. body (g, e) = (Returns a, (g', e'))"
  shows "\<exists>a g' i'. with_lock body (g, i) = (Returns a, (g', i')) \<and> usable i'"
proof -
  from assms(1) obtain e where "machine i = Some \<lparr>poisoned = False, guarded_value = e\<rparr>"
    by (cases "machine i"; cases "the (machine i)") (auto simp: usable_def)
  with assms(2) [of e] show ?thesis by (auto simp: with_lock_usable usable_def)
qed

lemma execute_body_returns:
  assumes "executor_total V" and "amounts_fit V"
  shows "\<exists>a g' e'. try_io (execute_message V m k n) (apply_response X (to_vec V)) (g, e) = (Returns a, (g', e'))"
proof -
  obtain a g' e' where x: "execute_message V m k n (g, e) = (Returns a, (g', e'))"
    using assms(1) unfolding executor_total_def by (metis surj_pair)
  show ?thesis
  proof (cases a)
    case (Inl err)
    with x show ?thesis by (simp add: try_io_run)
  next
    case (Inr r')
    with x assms(2) have "ret_penalty r' \<in> {0..<2 ^ 128} \<and> ret_miner_tip r' \<in> {0..<2 ^ 128}"
      unfolding amounts_fit_def by blast
    with x Inr show ?thesis
      by (cases rule: apply_response_cases [of X "to_vec V" r' "(g', e')"]) (auto simp: try_io_run)
  qed
qed

lemma flush_body_returns:
  assumes "executor_total V"
  shows "\<exists>a g' e'. try_io (flush_machine V) (\<lambda>cid. ret (Inr (f cid))) (g, e) = (Returns a, (g', e'))"
proof -
  obtain a g' e' where x: "flush_machine V (g, e) = (Returns a, (g', e'))"
    using assms unfolding executor_total_def by (metis surj_pair)
  then show ?thesis by (cases a) (simp_all add: try_io_run ret_def)
qed

lemma exports_answer:
  assumes "logger_ok L" and "executor_total V" and "amounts_fit V" and "ready w"
  shows "\<exists>r w'. fvm_machine_execute_message L V X b n k w = (Returns r, w') \<and> ready w'"
    and "\<exists>r w'. fvm_machine_flush L V w = (Returns r, w') \<and> ready w'"
  unfolding fvm_machine_execute_message_def fvm_machine_flush_def Let_def
  by (rule ready_call [OF assms(1,4)], cases "msg_from_slice V b",
      auto simp: ret_def intro!: with_lock_ready execute_body_returns flush_body_returns assms(2,3))
     (rule ready_call [OF assms(1,4)], auto intro!: with_lock_ready flush_body_returns assms(2))

lemma call_answered:
  assumes "logger_ok L" and "executor_total V" and "amounts_fit V" and "ready w"
  shows "\<exists>r w'. spec_call cid_cast L V X c w = (Returns r, w') \<and> ready w'"
proof (cases c)
  case (Apply b n)
  with exports_answer(1) [OF assms, of X b n 0] show ?thesis by (auto simp: bind_io_def ret_def)
next
  case (ApplyImplicit b)
  with exports_answer(1) [OF assms, of X b 0 1] show ?thesis by (auto simp: bind_io_def ret_def)
next
  case Flush
  with exports_answer(2) [OF assms] show ?thesis by (auto simp: bind_io_def ret_def)
qed

lemma session_answered:
  assumes "logger_ok L" and "executor_total V" and "amounts_fit V"
  shows "ready w \<Longrightarrow> \<exists>rs w'. in_turn (spec_call cid_cast L V X) cs w = (Returns rs, w') \<and>
    length rs = length cs \<and> ready w'"
proof (induction cs arbitrary: w)
  case (Cons c cs)
  from call_answered [OF assms Cons.prems, of cid_cast X c] obtain r w1 where
    r: "spec_call cid_cast L V X c w = (Returns r, w1)" "ready w1" by blast
  from Cons.IH [OF r(2)] obtain rs w' where
    "in_turn (spec_call cid_cast L V X) cs w1 = (Returns rs, w')" "length rs = length cs" "ready w'" by blast
  with r(1) show ?case by (simp add: bind_io_Returns ret_def)
qed (simp add: ret_def)

section \<open>A concrete executor\<close>

text \<open>The machine that counts messages, without the message it panics on.\<close>

definition calm_fvm ::
    "(u8, unit, unit, (bytes \<rightharpoonup> bytes, u64) go_state, unit, unit, nat, bytes, u64) fvm_lib" where
  "calm_fvm = sample_fvm\<lparr>execute_message := (\<lambda>m k n. \<lambda>(g, e). (Returns (Inr sample_ret), (g, Suc e)))\<rparr>"

lemma calm_fvm_total: "executor_total calm_fvm" "amounts_fit calm_fvm"
  by (auto simp: executor_total_def amounts_fit_def calm_fvm_def sample_fvm_def sample_ret_def ret_def)

lemma sample_world_ready: "ready sample_world"
  by (simp add: ready_def usable_def new_inner_machine_def)

section \<open>Properties\<close>

text \<open>C17: a machine whose executor returns from every call without a panic, and whose penalties and
  miner tips are amounts of 128 bits (the wrapper panics on any other), answers every call
  of every sequence of messages and flushes that Go makes on it, stays usable afterwards,
  and no call leaves memory behind.\<close>
theorem machine_answers_every_call:
  assumes "logger_ok L" and "executor_total V" and "amounts_fit V" and "ready w" and "heap_ok h"
  shows "\<exists>rs w' h'. in_turn (FVM_call cid_cast L V X) cs (w, h) = (Returns rs, (w', h')) \<and>
    length rs = length cs \<and> ready w' \<and> cells h' = cells h"
proof -
  from session_answered [OF assms(1-4), of cid_cast X cs] obtain rs w' where
    "in_turn (spec_call cid_cast L V X) cs w = (Returns rs, w')" "length rs = length cs" "ready w'" by blast
  with refinesD [OF session_refines assms(5) refl, where w = w] show ?thesis
    by (metis exec.distinct(3))
qed

theorem machine_answers_every_call_witness:
  "\<exists>rs w' h'. in_turn (FVM_call (Inr :: bytes \<Rightarrow> go_error + bytes) silent_logger calm_fvm sample_consts) [Apply [0] 1, ApplyImplicit [9], Flush]
       (sample_world, empty_heap) = (Returns rs, (w', h')) \<and> length rs = 3 \<and> ready w' \<and> cells h' = Map.empty"
  using machine_answers_every_call [OF silent_logger_ok calm_fvm_total(1,2) sample_world_ready empty_heap_ok,
      of "Inr :: bytes \<Rightarrow> go_error + bytes" sample_consts "[Apply [0] 1, ApplyImplicit [9], Flush]"]
  by (simp add: empty_heap_def numeral_3_eq_3)

text \<open>C16: creating a machine gives the caller a pointer that is its own: of the response nothing is
  left, the machine is the one new allocation, whatever calls are made on it change no
  memory of the caller, and the finalizer gives the machine back, once, and takes the
  externs out of the registry. A creation that fails leaves no memory behind.\<close>
theorem machine_session_returns_its_memory:
  assumes "heap_ok h"
    and "create_fvm_machine L V C G H version epoch fee_hi fee_lo circ_hi circ_lo nv root manifest
      tracing store_id externs_id w0 = (Returns r, w1)"
    and "in_turn (spec_call cid_cast L V X) cs w = (Returns rs, w')"
  shows "if status_code r = NoError
    then \<exists>c h1 h2 h3. cgo_CreateFvmMachine L V C G H version epoch fee_hi fee_lo circ_hi circ_lo nv root manifest
          tracing store_id externs_id (w0, h) = (Returns (Inr c), (w1, h1)) \<and>
        in_turn (FVM_call cid_cast L V X) cs (w, h1) = (Returns rs, (w', h2)) \<and>
        FVM_finalize \<lparr>executor = Some c, exHandle = handle\<rparr> g h2 =
          Some (\<lparr>executor = None, exHandle = handle\<rparr>, Unregister handle g, h3) \<and>
        card (dom (cells h1) - dom (cells h)) = 1 \<and> cells h3 = cells h
    else \<exists>h1. cgo_CreateFvmMachine L V C G H version epoch fee_hi fee_lo circ_hi circ_lo nv root manifest
          tracing store_id externs_id (w0, h) = (Returns (Inl (enc_bytes (error_msg r))), (w1, h1)) \<and>
        cells h1 = cells h"
proof (cases "status_code r = NoError")
  case True
  with create_answers [OF assms(2)] obtain i where "r = Result_ok (Some i)" by (auto simp: Result_err_def)
  from create_ok_run [where m = "create_fvm_machine L V C G H version epoch fee_hi fee_lo circ_hi circ_lo nv root
      manifest tracing store_id externs_id", OF assms(1) assms(2) [unfolded this]]
  obtain h1 a where h1: "cgo_CreateFvmMachine L V C G H version epoch fee_hi fee_lo circ_hi circ_lo nv root manifest
      tracing store_id externs_id (w0, h) = (Returns (Inr (CBox (At a))), (w1, h1))"
    "cells h a = None" "cells h1 = (cells h)(a \<mapsto> [CPlain PUnit])" "heap_ok h1"
    unfolding cgo_CreateFvmMachine_def by blast
  from refinesD [OF session_refines h1(4) refl assms(3)] obtain h2 where
    h2: "in_turn (FVM_call cid_cast L V X) cs (w, h1) = (Returns rs, (w', h2))" "cells h2 = cells h1" by blast
  have "dom (cells h1) - dom (cells h) = {a}" using h1(2,3) by auto
  moreover have "drop_fvm_machine (CBox (At a)) h2 = Some (h2\<lparr>cells := cells h\<rparr>)"
    using h1(2,3) h2(2) by (simp add: drop_fvm_machine_def destructor_def free_def fun_upd_idem)
  ultimately show ?thesis using True h1(1) h2(1) by (simp add: FVM_finalize_def)
next
  case False
  with create_answers [OF assms(2)] obtain emsg where r: "r = Result_err None emsg" by (auto simp: Result_ok_def)
  from create_error_run [where m = "create_fvm_machine L V C G H version epoch fee_hi fee_lo circ_hi circ_lo nv root
      manifest tracing store_id externs_id", OF assms(1) assms(2) [unfolded this]] False r
  show ?thesis unfolding cgo_CreateFvmMachine_def by (auto simp: Result_err_def)
qed

theorem machine_session_returns_its_memory_witness:
  "\<exists>c w1 h1 rs w2 h2. cgo_CreateFvmMachine silent_logger calm_fvm byte_cids byte_go byte_hash V1 5 0 1 0 2 16 [8] []
       True 3 3 (sample_start, empty_heap) = (Returns (Inr c), (w1, h1)) \<and> card (dom (cells h1)) = 1 \<and>
     in_turn (FVM_call (Inr :: bytes \<Rightarrow> go_error + bytes) silent_logger calm_fvm sample_consts)
       [Apply [0] 1, Flush] (sample_world, h1) = (Returns rs, (w2, h2)) \<and> length rs = 2 \<and>
     (\<exists>f g h3. FVM_finalize \<lparr>executor = Some c, exHandle = 3\<rparr> mem_go h2 = Some (f, g, h3) \<and> cells h3 = Map.empty)"
proof -
  let ?c = "create_fvm_machine silent_logger calm_fvm byte_cids byte_go byte_hash V1 5 0 1 0 2 16 [8] [] True 3 3
    sample_start"
  let ?cs = "[Apply [0] 1, Flush]"
  let ?cast = "Inr :: bytes \<Rightarrow> go_error + bytes"
  have "\<exists>r. fst ?c = Returns r \<and> status_code r = NoError"
    by (simp add: create_eval calm_fvm_def fake_new_def Result_ok_def)
  then obtain r w1 where c: "?c = (Returns r, w1)" "status_code r = NoError" by (metis prod.collapse)
  from session_answered [OF silent_logger_ok calm_fvm_total(1,2) sample_world_ready, of ?cast sample_consts ?cs]
  obtain rs w2 where e: "in_turn (spec_call ?cast silent_logger calm_fvm sample_consts) ?cs sample_world =
      (Returns rs, w2)" "length rs = 2" by auto
  show ?thesis
    using machine_session_returns_its_memory [OF empty_heap_ok c(1) e(1), of 3 mem_go] c(2) e(2)
    by (auto simp: empty_heap_def)
qed

end
