(* ===== verification/Sessions.thy ===== *)
theory Sessions
  imports Util_Types
begin

text \<open>
  Total correctness of the programs that call the exported functions one after the other:
  \<open>wp m Q s\<close> says that \<open>m\<close>, started in \<open>s\<close>, returns (it neither panics nor touches
  foreign memory) with a value and a state that satisfy \<open>Q\<close>. What such a program relies on
  in a library is a law \<open>delivers\<close> per function, stated over a view of the library's state;
  the rules carry a law through a panic guard and through the question mark operator.
\<close>

section \<open>Weakest preconditions\<close>

definition wp :: "('s, 'a) io \<Rightarrow> ('a \<Rightarrow> 's \<Rightarrow> bool) \<Rightarrow> 's \<Rightarrow> bool" where
  "wp m Q s \<longleftrightarrow> (\<exists>a s'. m s = (Returns a, s') \<and> Q a s')"

lemma wpI: "m s = (Returns a, s') \<Longrightarrow> Q a s' \<Longrightarrow> wp m Q s"
  by (auto simp: wp_def)

lemma wp_mono: "wp m Q s \<Longrightarrow> (\<And>a s'. Q a s' \<Longrightarrow> Q' a s') \<Longrightarrow> wp m Q' s"
  by (auto simp: wp_def)

lemma wp_ret [simp]: "wp (ret a) Q s \<longleftrightarrow> Q a s"
  by (simp add: wp_def ret_def)

lemma wp_bind [simp]: "wp (bind_io m f) Q s \<longleftrightarrow> wp m (\<lambda>a. wp (f a) Q) s"
  by (auto simp: wp_def bind_io_def split: prod.splits exec.splits)

lemma wp_try_io [simp]:
  "wp (try_io m f) Q s \<longleftrightarrow> wp m (\<lambda>r. case r of Inl e \<Rightarrow> Q (Inl e) | Inr a \<Rightarrow> wp (f a) Q) s"
proof -
  have "(\<lambda>r. wp (case r of Inl e \<Rightarrow> ret (Inl e) | Inr a \<Rightarrow> f a) Q) =
      (\<lambda>r. case r of Inl e \<Rightarrow> Q (Inl e) | Inr a \<Rightarrow> wp (f a) Q)"
    by (auto simp: fun_eq_iff split: sum.splits)
  then show ?thesis by (simp add: try_io_def)
qed

lemma wp_raise [simp]: "\<not> wp (raise p) Q s"
  by (simp add: wp_def raise_def)

lemma wp_from_exec [simp]: "wp (from_exec x) Q s \<longleftrightarrow> (\<exists>a. x = Returns a \<and> Q a s)"
  by (auto simp: wp_def from_exec_def)

section \<open>Laws of a library\<close>

text \<open>
  \<open>I\<close> is the invariant of the library's state and \<open>F\<close> the view of it that the laws speak of.
  \<open>delivers I F m d Q\<close>: in every state that shows the view \<open>d\<close>, the function succeeds, and its
  value and the new view satisfy \<open>Q\<close>.
\<close>

definition delivers :: "('s \<Rightarrow> bool) \<Rightarrow> ('s \<Rightarrow> 'd) \<Rightarrow> ('s, 'e + 'a) io \<Rightarrow> 'd \<Rightarrow> ('a \<Rightarrow> 'd \<Rightarrow> bool) \<Rightarrow> bool" where
  "delivers I F m d Q \<longleftrightarrow>
     (\<forall>s. I s \<and> F s = d \<longrightarrow> wp m (\<lambda>r s'. \<exists>v. r = Inr v \<and> I s' \<and> Q v (F s')) s)"

text \<open>The world shows the view \<open>d\<close>, and its logger has not been poisoned.\<close>

definition shows_view :: "('s \<Rightarrow> bool) \<Rightarrow> ('s \<Rightarrow> 'd) \<Rightarrow> 'd \<Rightarrow> 's world \<Rightarrow> bool" where
  "shows_view I F d w \<longleftrightarrow> log_init w \<noteq> Poisoned \<and> I (ext w) \<and> F (ext w) = d"

text \<open>The logger works and changes nothing of what the laws speak of.\<close>

definition quiet :: "('s \<Rightarrow> bool) \<Rightarrow> ('s \<Rightarrow> 'd) \<Rightarrow> 's logger \<Rightarrow> bool" where
  "quiet I F L \<longleftrightarrow> logger_ok L \<and>
     (\<forall>s m. I s \<longrightarrow> I (snd (fil_logger_init L s)) \<and> F (snd (fil_logger_init L s)) = F s \<and>
       I (snd (log_info L m s)) \<and> F (snd (log_info L m s)) = F s)"

lemma shows_view_ext: "shows_view I F d w \<Longrightarrow> I e \<Longrightarrow> shows_view I F (F e) (w\<lparr>ext := e\<rparr>)"
  by (simp add: shows_view_def)

lemma info_shows_view: "quiet I F L \<Longrightarrow> shows_view I F d w \<Longrightarrow> shows_view I F d (snd (info L m w))"
  by (auto simp: quiet_def shows_view_def info_def lift_ext_def split: prod.splits) (metis snd_conv)+

lemma info_works:
  assumes "quiet I F L" and "shows_view I F d w" and "\<And>w'. shows_view I F d w' \<Longrightarrow> R () w'"
  shows "wp (info L m) R w"
proof -
  have "info L m w = (Returns (), snd (info L m w))" using assms(1) by (intro info_ok) (simp add: quiet_def)
  then show ?thesis by (rule wpI) (rule assms(3) [OF info_shows_view [OF assms(1,2)]])
qed

lemma init_log_shows_view:
  assumes "quiet I F L" and "shows_view I F d w"
  shows "shows_view I F d (snd (init_log L w))"
proof -
  obtain e where "fil_logger_init L (ext w) = (Returns (), e)" "I e" "F e = d"
    using assms unfolding quiet_def logger_ok_def shows_view_def by (metis prod.collapse)
  with assms(2) show ?thesis
    by (auto simp: shows_view_def init_log_def call_once_def lift_ext_def split: once_state.splits)
qed

lemma log_lines_show_view:
  assumes "quiet I F L" and "shows_view I F d w"
  shows "shows_view I F d (log_started L name w)" and "shows_view I F d (log_ended L name w)"
  unfolding log_started_def log_ended_def
  by (intro info_shows_view [OF assms(1)] init_log_shows_view [OF assms(1)] assms(2))+

lemma wp_lift_ext:
  assumes "delivers I F m d Q" and "shows_view I F d w"
    and "\<And>v d' w'. Q v d' \<Longrightarrow> shows_view I F d' w' \<Longrightarrow> R (Inr v) w'"
  shows "wp (lift_ext m) R w"
proof -
  from assms(1,2) obtain v e where m: "m (ext w) = (Returns (Inr v), e)" and "I e" "Q v (F e)"
    unfolding delivers_def shows_view_def wp_def by blast
  with assms(3) shows_view_ext [OF assms(2)] have "R (Inr v) (w\<lparr>ext := e\<rparr>)" by blast
  with m show ?thesis by (auto simp: lift_ext_def intro: wpI)
qed

lemma wp_try_lift:
  assumes "delivers I F m d Q" and "shows_view I F d w"
    and "\<And>v d' w'. Q v d' \<Longrightarrow> shows_view I F d' w' \<Longrightarrow> wp (k v) R w'"
  shows "wp (try_io (lift_ext m) k) R w"
  unfolding wp_try_io by (rule wp_lift_ext [OF assms(1,2)]) (simp add: assms(3))

section \<open>Guarded calls\<close>

text \<open>A call succeeds when its closure does.\<close>

lemma wp_guarded:
  assumes L: "quiet I F L" and w: "shows_view I F d w"
    and cb: "\<And>v. shows_view I F d v \<Longrightarrow> wp cb (\<lambda>r v'. \<exists>x d'. r = Inr x \<and> shows_view I F d' v' \<and> Q x d') v"
    and R: "\<And>x d' w'. Q x d' \<Longrightarrow> shows_view I F d' w' \<Longrightarrow> R (Result_ok x) w'"
  shows "wp (catch_panic_response L dflt name cb) R w"
proof -
  have ok: "logger_ok L" "log_init w \<noteq> Poisoned" using L w by (simp_all add: quiet_def shows_view_def)
  from cb [OF log_lines_show_view(1) [OF L w]] obtain x d' w' where
    run: "cb (log_started L name w) = (Returns (Inr x), w')" and w': "shows_view I F d' w'" and Q: "Q x d'"
    unfolding wp_def by blast
  have "catch_panic_response L dflt name cb w = (Returns (Result_ok x), log_ended L name w')"
    by (simp add: catch_panic_response_eq [OF ok] run Result_from_def map_err_string_def)
  then show ?thesis by (rule wpI) (rule R [OF Q log_lines_show_view(2) [OF L w']])
qed

text \<open>The shape of most exported functions: one library function, its value converted.\<close>

lemma wp_guarded_call:
  assumes "quiet I F L" and "shows_view I F d w" and "delivers I F m d Q"
    and "\<And>x d' w'. Q x d' \<Longrightarrow> shows_view I F d' w' \<Longrightarrow> R (Result_ok (f x)) w'"
  shows "wp (catch_panic_response L dflt name (try_io (lift_ext m) (\<lambda>x. ret (Inr (f x))))) R w"
proof (rule wp_guarded [OF assms(1,2), where Q = "\<lambda>y d'. \<exists>x. y = f x \<and> Q x d'"])
  fix v assume "shows_view I F d v"
  then show "wp (try_io (lift_ext m) (\<lambda>x. ret (Inr (f x))))
      (\<lambda>r v'. \<exists>y d'. r = Inr y \<and> shows_view I F d' v' \<and> (\<exists>x. y = f x \<and> Q x d')) v"
    by simp (rule wp_lift_ext [OF assms(3)], auto)
qed (use assms(4) in blast)

lemma delivers_mono: "delivers I F m d Q \<Longrightarrow> (\<And>v d'. Q v d' \<Longrightarrow> Q' v d') \<Longrightarrow> delivers I F m d Q'"
  unfolding delivers_def by (auto intro: wp_mono)

section \<open>Checks of a client\<close>

text \<open>The check that follows every call in the tests: on any status but \<open>NoError\<close> they panic with the
  name of the call; the message goes on with the error, which nothing reads.\<close>

definition expect_ok :: "string \<Rightarrow> 'a Result \<Rightarrow> ('s, 'b) io \<Rightarrow> ('s, 'b) io" where
  "expect_ok what resp k =
     (if status_code resp \<noteq> NoError then raise (StringPayload (what @ '' failed: '')) else k)"

definition assert_io :: "bool \<Rightarrow> panic_payload \<Rightarrow> ('s, 'b) io \<Rightarrow> ('s, 'b) io" where
  "assert_io b m k = (if b then k else raise m)"

lemma wp_checks [simp]:
  "wp (expect_ok what (Result_ok v) k) Q s \<longleftrightarrow> wp k Q s"
  "wp (assert_io b m k) Q s \<longleftrightarrow> b \<and> wp k Q s"
  by (simp_all add: expect_ok_def assert_io_def)

end
