(* ===== verification/Test_Disk.thy ===== *)
theory Test_Disk
  imports Sessions Proofs_Types
begin

text \<open>
  The files that the tests of \<open>rust/src/proofs/api.rs\<close> work with. The crates \<open>tempfile\<close> and
  \<open>rand\<close> and \<open>std::fs\<close> are the operations of \<open>test_env\<close>, with the contract \<open>env_contract\<close> over
  the view \<open>disk\<close>. The lemmas are the rules for what the tests do with files, and for which
  files they leave behind.
\<close>

section \<open>Files\<close>

text \<open>What the tests and the library see of the files: the file that a descriptor has open and the
  position in it, the bytes of every file, the directories with what each of them holds, and how
  many more files can be made. An anonymous file is known by the descriptor it was made with; all
  that lies in a directory is one sequence of bytes, which is empty for an empty directory.\<close>

datatype inode = Anon i32 | Named path

record disk =
  opened :: "i32 \<rightharpoonup> inode \<times> nat"
  bytes_of :: "inode \<rightharpoonup> bytes"
  caches :: "path \<rightharpoonup> bytes"
  room :: nat

text \<open>The crates \<open>tempfile\<close> and \<open>rand\<close>, and \<open>std::fs\<close>, as the tests call them. \<open>env_resize\<close>
  opens a file, which it creates if it has to, sets its length and closes it; \<open>env_read\<close> opens a
  file and reads all of it; \<open>env_mmap\<close> opens it and maps it, which an empty file may refuse.\<close>

record 's test_env =
  env_gen :: "nat \<Rightarrow> ('s, bytes) io"
  env_tempdir :: "('s, anyhow + path) io"
  env_tempfile :: "('s, anyhow + i32) io"
  env_write_all :: "i32 \<Rightarrow> bytes \<Rightarrow> ('s, anyhow + unit) io"
  env_seek_start :: "i32 \<Rightarrow> nat \<Rightarrow> ('s, anyhow + unit) io"
  env_named_tempfile :: "('s, anyhow + i32 \<times> path) io"
  env_keep :: "path \<Rightarrow> ('s, anyhow + unit) io"
  env_remove_file :: "path \<Rightarrow> ('s, anyhow + unit) io"
  env_file_len :: "path \<Rightarrow> ('s, anyhow + u64) io"
  env_resize :: "path \<Rightarrow> u64 \<Rightarrow> ('s, anyhow + unit) io"
  env_read :: "path \<Rightarrow> ('s, anyhow + bytes) io"
  env_mmap :: "path \<Rightarrow> ('s, anyhow + bytes) io"

section \<open>What the tests do with files\<close>

definition piece_file :: "'s test_env \<Rightarrow> bytes \<Rightarrow> ('s world, anyhow + i32) io" where
  "piece_file E data =
     try_io (lift_ext (env_tempfile E)) (\<lambda>piece_file.
     try_io (lift_ext (env_write_all E piece_file data)) (\<lambda>_.
     try_io (lift_ext (env_seek_start E piece_file 0)) (\<lambda>_.
     ret (Inr piece_file))))"

definition kept_file :: "'s test_env \<Rightarrow> ('s world, anyhow + i32 \<times> path) io" where
  "kept_file E =
     try_io (lift_ext (env_named_tempfile E)) (\<lambda>(file, path).
     try_io (lift_ext (env_keep E path)) (\<lambda>_. ret (Inr (file, path))))"

text \<open>\<open>ensure!(remove_file(path).is_ok(), msg)\<close>.\<close>

definition ensure_removed :: "'s test_env \<Rightarrow> path \<Rightarrow> string \<Rightarrow> ('s world, anyhow + unit) io" where
  "ensure_removed E path m =
     bind_io (lift_ext (env_remove_file E path)) (\<lambda>r.
       case r of Inl _ \<Rightarrow> ret (Inl (AnyhowMsg m)) | Inr _ \<Rightarrow> ret (Inr ()))"

section \<open>The contract\<close>

text \<open>Temporary files: fresh ones as long as there is room.\<close>

definition env_contract :: "('s \<Rightarrow> bool) \<Rightarrow> ('s \<Rightarrow> disk) \<Rightarrow> 's test_env \<Rightarrow> bool" where
  "env_contract I F E \<longleftrightarrow>
     (\<forall>n s. I s \<longrightarrow> wp (env_gen E n) (\<lambda>b s'. length b = n \<and> I s' \<and> F s' = F s) s) \<and>
     (\<forall>d. 0 < room d \<longrightarrow>
       delivers I F (env_tempdir E) d (\<lambda>p d'. caches d p = None \<and>
         d' = d\<lparr>caches := (caches d)(p \<mapsto> []), room := room d - 1\<rparr>) \<and>
       delivers I F (env_tempfile E) d (\<lambda>fd d'. opened d fd = None \<and> bytes_of d (Anon fd) = None \<and>
         d' = d\<lparr>opened := (opened d)(fd \<mapsto> (Anon fd, 0)), bytes_of := (bytes_of d)(Anon fd \<mapsto> []),
                room := room d - 1\<rparr>) \<and>
       delivers I F (env_named_tempfile E) d (\<lambda>(fd, p) d'. opened d fd = None \<and> bytes_of d (Named p) = None \<and>
         d' = d\<lparr>opened := (opened d)(fd \<mapsto> (Named p, 0)), bytes_of := (bytes_of d)(Named p \<mapsto> []),
                room := room d - 1\<rparr>)) \<and>
     (\<forall>d fd f b bs. opened d fd = Some (f, length b) \<and> bytes_of d f = Some b \<longrightarrow>
       delivers I F (env_write_all E fd bs) d (\<lambda>_ d'.
         d' = d\<lparr>opened := (opened d)(fd \<mapsto> (f, length (b @ bs))), bytes_of := (bytes_of d)(f \<mapsto> b @ bs)\<rparr>)) \<and>
     (\<forall>d fd f i n. opened d fd = Some (f, i) \<longrightarrow>
       delivers I F (env_seek_start E fd n) d (\<lambda>_ d'. d' = d\<lparr>opened := (opened d)(fd \<mapsto> (f, n))\<rparr>)) \<and>
     (\<forall>d p. bytes_of d (Named p) \<noteq> None \<longrightarrow>
       delivers I F (env_keep E p) d (\<lambda>_ d'. d' = d) \<and>
       delivers I F (env_remove_file E p) d (\<lambda>_ d'. d' = d\<lparr>bytes_of := (bytes_of d)(Named p := None)\<rparr>)) \<and>
     (\<forall>d p b. bytes_of d (Named p) = Some b \<longrightarrow>
       delivers I F (env_read E p) d (\<lambda>r d'. r = b \<and> d' = d) \<and>
       (b \<noteq> [] \<longrightarrow> delivers I F (env_mmap E p) d (\<lambda>r d'. r = b \<and> d' = d)) \<and>
       delivers I F (env_file_len E p) d (\<lambda>n d'. n = word_of_nat (length b) \<and> d' = d) \<and>
       (\<forall>n. delivers I F (env_resize E p n) d (\<lambda>_ d'.
          d' = d\<lparr>bytes_of := (bytes_of d)(Named p \<mapsto> take (unat n) b @ replicate (unat n - length b) 0)\<rparr>)))"

section \<open>Rules\<close>

lemmas gen_law = env_contract_def [THEN iffD1, THEN conjunct1, rule_format]
  and create_laws = env_contract_def [THEN iffD1, THEN conjunct2, THEN conjunct1, rule_format]
  and write_law = env_contract_def [THEN iffD1, THEN conjunct2, THEN conjunct2, THEN conjunct1, rule_format]
  and seek_law = env_contract_def [THEN iffD1, THEN conjunct2, THEN conjunct2, THEN conjunct2, THEN conjunct1, rule_format]
  and keep_laws = env_contract_def [THEN iffD1, THEN conjunct2, THEN conjunct2, THEN conjunct2, THEN conjunct2, THEN conjunct1,
    rule_format]
  and read_laws = env_contract_def [THEN iffD1, THEN conjunct2, THEN conjunct2, THEN conjunct2, THEN conjunct2, THEN conjunct2,
    rule_format]

lemma gen_works:
  assumes "env_contract I F E" and "shows_view I F d w"
    and R: "\<And>b w'. length b = n \<Longrightarrow> shows_view I F d w' \<Longrightarrow> R b w'"
  shows "wp (lift_ext (env_gen E n)) R w"
proof -
  have "I (ext w)" using assms(2) by (simp add: shows_view_def)
  from gen_law [OF assms(1) this, of n] obtain b e where "env_gen E n (ext w) = (Returns b, e)" "length b = n" "I e"
    "F e = F (ext w)" by (auto simp: wp_def)
  with R shows_view_ext [OF assms(2)] assms(2) show ?thesis
    by (auto simp: lift_ext_def shows_view_def intro!: wpI)
qed

lemma piece_file_works:
  assumes E: "env_contract I F E" and w: "shows_view I F d w" and "0 < room d"
    and R: "\<And>fd w'. opened d fd = None \<Longrightarrow> bytes_of d (Anon fd) = None \<Longrightarrow>
      shows_view I F (d\<lparr>opened := (opened d)(fd \<mapsto> (Anon fd, 0)), bytes_of := (bytes_of d)(Anon fd \<mapsto> data),
        room := room d - 1\<rparr>) w' \<Longrightarrow> R (Inr fd) w'"
  shows "wp (piece_file E data) R w"
  unfolding piece_file_def
proof (rule wp_try_lift [OF create_laws [OF E assms(3), THEN conjunct2, THEN conjunct1] w], elim conjE)
  fix fd d1 w1
  let ?files = "\<lambda>i b. d\<lparr>opened := (opened d)(fd \<mapsto> (Anon fd, i)), bytes_of := (bytes_of d)(Anon fd \<mapsto> b), room := room d - 1\<rparr>"
  assume fresh: "opened d fd = None" "bytes_of d (Anon fd) = None"
    and "d1 = ?files 0 []" and "shows_view I F d1 w1"
  then have w1: "shows_view I F (?files 0 []) w1" by simp
  have "?files 0 []\<lparr>opened := (opened (?files 0 []))(fd \<mapsto> (Anon fd, length ([] @ data))),
      bytes_of := (bytes_of (?files 0 []))(Anon fd \<mapsto> [] @ data)\<rparr> = ?files (length data) data" by (cases d) simp
  note law = write_law [OF E, of "?files 0 []" fd "Anon fd" "[]" data, unfolded this]
  have "?files (length data) data\<lparr>opened := (opened (?files (length data) data))(fd \<mapsto> (Anon fd, 0))\<rparr> = ?files 0 data"
    by (cases d) simp
  note law' = seek_law [OF E, of "?files (length data) data" fd "Anon fd" "length data" 0, unfolded this]
  show "wp (try_io (lift_ext (env_write_all E fd data)) (\<lambda>_. try_io (lift_ext (env_seek_start E fd 0)) (\<lambda>_. ret (Inr fd)))) R w1"
  proof (rule wp_try_lift [OF law w1])
    fix u d2 w2 assume "d2 = ?files (length data) data" and "shows_view I F d2 w2"
    then have "shows_view I F (?files (length data) data) w2" by simp
    then show "wp (try_io (lift_ext (env_seek_start E fd 0)) (\<lambda>_. ret (Inr fd))) R w2"
      by (rule wp_try_lift [OF law', rotated]) (use R [OF fresh] in simp_all)
  qed simp
qed

lemma named_tempfile_works:
  assumes E: "env_contract I F E" and w: "shows_view I F d w" and "0 < room d"
    and R: "\<And>fd p w'. opened d fd = None \<Longrightarrow> bytes_of d (Named p) = None \<Longrightarrow>
      shows_view I F (d\<lparr>opened := (opened d)(fd \<mapsto> (Named p, 0)), bytes_of := (bytes_of d)(Named p \<mapsto> []),
        room := room d - 1\<rparr>) w' \<Longrightarrow> R (Inr (fd, p)) w'"
  shows "wp (lift_ext (env_named_tempfile E)) R w"
  by (rule wp_lift_ext [OF create_laws [OF E assms(3), THEN conjunct2, THEN conjunct2] w]) (auto intro: R)

lemma kept_file_works:
  assumes E: "env_contract I F E" and w: "shows_view I F d w" and "0 < room d"
    and R: "\<And>fd p w'. opened d fd = None \<Longrightarrow> bytes_of d (Named p) = None \<Longrightarrow>
      shows_view I F (d\<lparr>opened := (opened d)(fd \<mapsto> (Named p, 0)), bytes_of := (bytes_of d)(Named p \<mapsto> []),
        room := room d - 1\<rparr>) w' \<Longrightarrow> R (Inr (fd, p)) w'"
  shows "wp (kept_file E) R w"
  unfolding kept_file_def wp_try_io
  by (rule named_tempfile_works [OF E w assms(3)])
     (simp, rule wp_lift_ext [OF keep_laws [OF E, THEN conjunct1]], auto intro: R)

text \<open>The same rules with the new disk as a variable, for tests that make many files.\<close>

lemma piece_file_makes:
  assumes "env_contract I F E" and "shows_view I F d w" and "0 < room d"
    and R: "\<And>fd d' w'. opened d fd = None \<Longrightarrow> bytes_of d (Anon fd) = None \<Longrightarrow> opened d' = (opened d)(fd \<mapsto> (Anon fd, 0)) \<Longrightarrow>
      bytes_of d' = (bytes_of d)(Anon fd \<mapsto> data) \<Longrightarrow> caches d' = caches d \<Longrightarrow> room d' = room d - 1 \<Longrightarrow> shows_view I F d' w' \<Longrightarrow>
      R (Inr fd) w'"
  shows "wp (piece_file E data) R w"
  by (rule piece_file_works [OF assms(1-3)], rule R) (assumption+, simp_all)

lemma kept_file_makes:
  assumes "env_contract I F E" and "shows_view I F d w" and "0 < room d"
    and R: "\<And>fd p d' w'. opened d fd = None \<Longrightarrow> bytes_of d (Named p) = None \<Longrightarrow> opened d' = (opened d)(fd \<mapsto> (Named p, 0)) \<Longrightarrow>
      bytes_of d' = (bytes_of d)(Named p \<mapsto> []) \<Longrightarrow> caches d' = caches d \<Longrightarrow> room d' = room d - 1 \<Longrightarrow> shows_view I F d' w' \<Longrightarrow>
      R (Inr (fd, p)) w'"
  shows "wp (kept_file E) R w"
  by (rule kept_file_works [OF assms(1-3)], rule R) (assumption+, simp_all)

lemma tempdir_makes:
  assumes "env_contract I F E" and "shows_view I F d w" and "0 < room d"
    and R: "\<And>p d' w'. caches d p = None \<Longrightarrow> opened d' = opened d \<Longrightarrow> bytes_of d' = bytes_of d \<Longrightarrow>
      caches d' = (caches d)(p \<mapsto> []) \<Longrightarrow>
      room d' = room d - 1 \<Longrightarrow> shows_view I F d' w' \<Longrightarrow> R (Inr p) w'"
  shows "wp (lift_ext (env_tempdir E)) R w"
  by (rule wp_lift_ext [OF create_laws [OF assms(1,3), THEN conjunct1] assms(2)]) (rule R, simp_all)

lemma read_works:
  assumes "env_contract I F E" and "shows_view I F d w" and "bytes_of d (Named p) = Some b"
    and "\<And>w'. shows_view I F d w' \<Longrightarrow> R (Inr b) w'"
  shows "wp (lift_ext (env_read E p)) R w"
  by (rule wp_lift_ext [OF read_laws [OF assms(1,3), THEN conjunct1] assms(2)]) (simp add: assms(4))

lemma mmap_works:
  assumes "env_contract I F E" and "shows_view I F d w" and "bytes_of d (Named p) = Some b" and "b \<noteq> []"
    and "\<And>w'. shows_view I F d w' \<Longrightarrow> R (Inr b) w'"
  shows "wp (lift_ext (env_mmap E p)) R w"
  by (rule wp_lift_ext [OF read_laws [OF assms(1,3), THEN conjunct2, THEN conjunct1, rule_format, OF assms(4)] assms(2)])
     (simp add: assms(5))

lemma file_len_works:
  assumes "env_contract I F E" and "shows_view I F d w" and "bytes_of d (Named p) = Some b"
    and "\<And>w'. shows_view I F d w' \<Longrightarrow> R (Inr (word_of_nat (length b))) w'"
  shows "wp (lift_ext (env_file_len E p)) R w"
  by (rule wp_lift_ext [OF read_laws [OF assms(1,3), THEN conjunct2, THEN conjunct2, THEN conjunct1] assms(2)]) (simp add: assms(4))

lemma resize_works:
  assumes "env_contract I F E" and "shows_view I F d w" and "bytes_of d (Named p) = Some b"
    and "\<And>w'. shows_view I F (d\<lparr>bytes_of := (bytes_of d)(Named p \<mapsto> take (unat n) b @ replicate (unat n - length b) 0)\<rparr>) w' \<Longrightarrow>
      R (Inr ()) w'"
  shows "wp (lift_ext (env_resize E p n)) R w"
  by (rule wp_lift_ext [OF read_laws [OF assms(1,3), THEN conjunct2, THEN conjunct2, THEN conjunct2, rule_format] assms(2)])
     (simp add: assms(4))

text \<open>The named files that a test has made, over those that were there before.\<close>

definition temporary :: "disk \<Rightarrow> disk \<Rightarrow> path set \<Rightarrow> bool" where
  "temporary d0 d ps \<longleftrightarrow>
     (\<forall>p. if p \<in> ps then bytes_of d0 (Named p) = None \<and> bytes_of d (Named p) \<noteq> None
          else bytes_of d (Named p) = bytes_of d0 (Named p))"

lemma temporary_same [simp]: "temporary d d {}"
  by (simp add: temporary_def)

lemma temporary_new:
  assumes "temporary d0 d ps" and "bytes_of d (Named p) = None"
  shows "temporary d0 (d\<lparr>opened := h, bytes_of := (bytes_of d)(Named p \<mapsto> b), room := n\<rparr>) (insert p ps)"
  using assms by (auto simp: temporary_def split: if_splits)

text \<open>What a step leaves alone: all descriptors but \<open>fds\<close>, all named files but \<open>ps\<close>, all directories but
  \<open>cs\<close>; it neither creates nor removes any.\<close>

definition touches :: "i32 set \<Rightarrow> path set \<Rightarrow> path set \<Rightarrow> disk \<Rightarrow> disk \<Rightarrow> bool" where
  "touches fds ps cs d d' \<longleftrightarrow>
     (\<forall>fd. fd \<notin> fds \<longrightarrow> opened d' fd = opened d fd) \<and>
     (\<forall>p. if p \<in> ps then bytes_of d (Named p) \<noteq> None \<and> bytes_of d' (Named p) \<noteq> None
          else bytes_of d' (Named p) = bytes_of d (Named p)) \<and>
     (\<forall>c. if c \<in> cs then caches d c \<noteq> None \<and> caches d' c \<noteq> None else caches d' c = caches d c) \<and>
     room d' = room d"

lemma touches_refl [simp]: "touches {} {} {} d d"
  by (simp add: touches_def)

lemma touches_trans:
  assumes "touches fds ps cs d d1" and "touches fds' ps' cs' d1 d2"
  shows "touches (fds \<union> fds') (ps \<union> ps') (cs \<union> cs') d d2"
proof -
  have "opened d2 fd = opened d fd" if "fd \<notin> fds \<union> fds'" for fd using assms that by (simp add: touches_def)
  moreover have "if p \<in> ps \<union> ps' then bytes_of d (Named p) \<noteq> None \<and> bytes_of d2 (Named p) \<noteq> None
      else bytes_of d2 (Named p) = bytes_of d (Named p)" for p using assms unfolding touches_def by (metis UnCI UnE)
  moreover have "if c \<in> cs \<union> cs' then caches d c \<noteq> None \<and> caches d2 c \<noteq> None else caches d2 c = caches d c" for c
    using assms unfolding touches_def by (metis UnCI UnE)
  moreover have "room d2 = room d" using assms by (simp add: touches_def)
  ultimately show ?thesis unfolding touches_def by blast
qed

lemma touches_bytes: "touches fds ps cs d d' \<Longrightarrow> p \<notin> ps \<Longrightarrow> bytes_of d' (Named p) = bytes_of d (Named p)"
  unfolding touches_def by metis

lemma touches_cache: "touches fds ps cs d d' \<Longrightarrow> c \<notin> cs \<Longrightarrow> caches d' c = caches d c"
  unfolding touches_def by metis

lemma touches_opened: "touches fds ps cs d d' \<Longrightarrow> fd \<notin> fds \<Longrightarrow> opened d' fd = opened d fd"
  by (simp add: touches_def)

lemma touches_exists:
  "touches fds ps cs d d' \<Longrightarrow> bytes_of d' (Named p) = None \<longleftrightarrow> bytes_of d (Named p) = None"
  "touches fds ps cs d d' \<Longrightarrow> caches d' c = None \<longleftrightarrow> caches d c = None"
  unfolding touches_def by metis+

lemma touches_room: "touches fds ps cs d d' \<Longrightarrow> room d' = room d"
  by (simp add: touches_def)

lemma temporary_touched:
  assumes "temporary d0 d ps" and "touches fds qs cs d d'" and "qs \<subseteq> ps"
  shows "temporary d0 d' ps"
  using assms touches_bytes [OF assms(2)] touches_exists(1) [OF assms(2)]
  unfolding temporary_def by (metis subsetD)

lemma temporary_fresh: "temporary d0 d ps \<Longrightarrow> bytes_of d (Named p) = None \<Longrightarrow> p \<notin> ps"
  by (auto simp: temporary_def)

lemma temporary_gone:
  "temporary d0 d ps \<Longrightarrow> shows_view I F d w \<Longrightarrow> ps = {} \<Longrightarrow>
   \<forall>p. bytes_of (F (ext w)) (Named p) = bytes_of d0 (Named p)"
  by (simp add: temporary_def shows_view_def)

text \<open>No descriptor that was open has moved, and every directory still holds what it held.\<close>

definition undisturbed :: "disk \<Rightarrow> disk \<Rightarrow> bool" where
  "undisturbed d d' \<longleftrightarrow> (\<forall>fd. opened d fd \<noteq> None \<longrightarrow> opened d' fd = opened d fd) \<and>
     (\<forall>c. caches d c \<noteq> None \<longrightarrow> caches d' c = caches d c)"

lemma undisturbed_trans: "undisturbed d d1 \<Longrightarrow> undisturbed d1 d2 \<Longrightarrow> undisturbed d d2"
  unfolding undisturbed_def by fastforce

lemma undisturbed_touched:
  assumes "undisturbed d d1" and "touches fds ps cs d1 d2" and "\<forall>fd \<in> fds. opened d fd = None"
    and "\<forall>c \<in> cs. caches d c = None"
  shows "undisturbed d d2"
  using assms unfolding undisturbed_def by (metis touches_opened touches_cache)

lemma remove_file_works:
  assumes E: "env_contract I F E" and w: "shows_view I F d w" and ps: "temporary d0 d ps" "p \<in> ps"
    and R: "\<And>d' w'. temporary d0 d' (ps - {p}) \<Longrightarrow> undisturbed d d' \<Longrightarrow> shows_view I F d' w' \<Longrightarrow> R (Inr ()) w'"
  shows "wp (lift_ext (env_remove_file E p)) R w"
proof -
  let ?d = "d\<lparr>bytes_of := (bytes_of d)(Named p := None)\<rparr>"
  have "bytes_of d (Named p) \<noteq> None" using ps by (auto simp: temporary_def)
  note law = keep_laws [OF E this, THEN conjunct2]
  have "temporary d0 ?d (ps - {p})" using ps by (auto simp: temporary_def split: if_splits)
  note R = R [OF this]
  have "undisturbed d ?d" by (simp add: undisturbed_def)
  note R = R [OF this]
  show ?thesis by (rule wp_lift_ext [OF law w]) (simp add: R)
qed

lemma ensure_removed_works:
  assumes "env_contract I F E" and "shows_view I F d w" and "temporary d0 d ps" and "p \<in> ps"
    and R: "\<And>d' w'. temporary d0 d' (ps - {p}) \<Longrightarrow> undisturbed d d' \<Longrightarrow> shows_view I F d' w' \<Longrightarrow> R (Inr ()) w'"
  shows "wp (ensure_removed E p m) R w"
  unfolding ensure_removed_def wp_bind by (rule remove_file_works [OF assms(1-4)]) (simp add: R)


end
