(* ===== verification/Seal_Contract.thy ===== *)
theory Seal_Contract
  imports Test_Disk Proofs_Post
begin

text \<open>
  What the tests of \<open>rust/src/proofs/api.rs\<close> rely on in the part of the proofs library that seals
  sectors (\<open>writes_pieces\<close>, \<open>seals_sectors\<close>, \<open>proves_sectors\<close>), in terms of the files and of what
  the outputs stand for (\<open>seal_meaning\<close>), and a rule for every exported function on a library
  that keeps it. The laws speak of what the library is documented to do with its own outputs: pieces
  lie at multiples of their size, a staged sector with its pieces can be sealed into an empty
  cache directory, the second phase goes on with the sealed file and the cache that the first
  one left, a replica can be proved with its file and its cache, a proof is accepted for the
  statement it was made for and can be aggregated with others. Nothing is asked of the library
  on files, caches and statements that it has not made or accepted itself.
\<close>

section \<open>The contract\<close>

text \<open>Pieces lie in a staged sector at multiples of their own size, so zeros may come before a piece.\<close>

definition alignment_before :: "nat \<Rightarrow> nat \<Rightarrow> nat" where
  "alignment_before pos n = (n - pos mod n) mod n"

definition end_of_pieces :: "u64 list \<Rightarrow> nat" where
  "end_of_pieces sizes = fold (\<lambda>n pos. pos + alignment_before pos (unat n) + unat n) sizes 0"

definition piece_sized :: "u64 \<Rightarrow> bool" where
  "piece_sized n \<longleftrightarrow> (\<exists>k < 50. unat n = 127 * 2 ^ k)"

text \<open>What is sealed, and the statement a proof of it makes.\<close>

record sector_job =
  job_proof :: api_RegisteredSealProof
  job_cache :: path
  job_sealed :: path
  job_prover :: array32
  job_sector :: u64
  job_ticket :: array32
  job_pieces :: "api_PieceInfo list"
  job_data :: bytes

record seal_statement =
  st_proof :: api_RegisteredSealProof
  st_comm_r :: array32
  st_comm_d :: array32
  st_prover :: array32
  st_sector :: u64
  st_ticket :: array32
  st_seed :: array32

definition statement_of :: "sector_job \<Rightarrow> SealPreCommitPhase2Output \<Rightarrow> array32 \<Rightarrow> seal_statement" where
  "statement_of job out seed =
     \<lparr>st_proof = out_registered_proof out, st_comm_r = out_comm_r out, st_comm_d = out_comm_d out,
      st_prover = job_prover job, st_sector = job_sector job, st_ticket = job_ticket job, st_seed = seed\<rparr>"

text \<open>What the bytes of a staged file, of a replica with its cache and of the outputs stand for; \<open>user_data\<close>
  takes the padding out of staged bytes, \<open>phase1_left\<close> and \<open>is_replica\<close> are about the bytes of the
  sealed file and what the cache directory holds, and \<open>encodes_job\<close> says that a sealed file is that
  of a job.\<close>

record ('p1, 'c1, 'fr) seal_meaning =
  holds_pieces :: "api_PieceInfo list \<Rightarrow> bytes \<Rightarrow> bool"
  user_data :: "bytes \<Rightarrow> bytes"
  data_commitment :: "api_RegisteredSealProof \<Rightarrow> api_PieceInfo list \<Rightarrow> array32"
  phase1_for :: "'p1 \<Rightarrow> sector_job \<Rightarrow> bool"
  phase1_left :: "'p1 \<Rightarrow> bytes \<Rightarrow> bytes \<Rightarrow> bool"
  is_replica :: "bytes \<Rightarrow> bytes \<Rightarrow> array32 \<Rightarrow> bool"
  encodes_job :: "bytes \<Rightarrow> sector_job \<Rightarrow> bool"
  replica_for :: "SealPreCommitPhase2Output \<Rightarrow> sector_job \<Rightarrow> bool"
  commit1_for :: "'c1 \<Rightarrow> seal_statement \<Rightarrow> bool"
  proves :: "bytes \<Rightarrow> seal_statement \<Rightarrow> bool"
  inputs_for :: "seal_statement \<Rightarrow> 'fr list list"
  aggregates :: "bytes \<Rightarrow> api_RegisteredAggregationProof \<Rightarrow> seal_statement list \<Rightarrow> bool"

text \<open>A piece is read from its file and written, padded, behind what its destination holds.\<close>

definition piece_written :: "disk \<Rightarrow> i32 \<Rightarrow> i32 \<Rightarrow> bytes \<Rightarrow> disk" where
  "piece_written d src dst b =
     (case (opened d src, opened d dst) of
        (Some (f, _), Some (g, _)) \<Rightarrow>
          d\<lparr>opened := (opened d)(src \<mapsto> (f, length (the (bytes_of d f))), dst \<mapsto> (g, length b)),
            bytes_of := (bytes_of d)(g \<mapsto> b)\<rparr>
      | _ \<Rightarrow> d)"

definition source_of :: "disk \<Rightarrow> i32 \<Rightarrow> bytes" where
  "source_of d fd = (case opened d fd of Some (f, _) \<Rightarrow> the (bytes_of d f) | None \<Rightarrow> [])"

definition can_write :: "disk \<Rightarrow> i32 \<Rightarrow> i32 \<Rightarrow> u64 \<Rightarrow> bytes \<Rightarrow> bool" where
  "can_write d src dst n b \<longleftrightarrow>
     piece_sized n \<and>
     (\<exists>f g data. opened d src = Some (f, 0) \<and> bytes_of d f = Some data \<and> length data = unat n \<and>
        opened d dst = Some (g, length b) \<and> bytes_of d g = Some b \<and> f \<noteq> g)"

definition writes_pieces ::
    "('s \<Rightarrow> bool) \<Rightarrow> ('s \<Rightarrow> disk) \<Rightarrow> ('s, 'p1, 'c1, 'fr) seal_lib \<Rightarrow> ('p1, 'c1, 'fr) seal_meaning \<Rightarrow> bool" where
  "writes_pieces I F S M \<longleftrightarrow>
     (\<forall>d p src dst n. can_write d src dst n [] \<longrightarrow>
        delivers I F (lib_write_and_preprocess S p src dst n) d (\<lambda>(piece, written) d'.
          written = n \<and> piece_size piece = n \<and>
          (\<exists>b. holds_pieces M [piece] b \<and> user_data M b = source_of d src \<and> d' = piece_written d src dst b))) \<and>
     (\<forall>d p src dst n b ps cap. can_write d src dst n b \<and> holds_pieces M ps b \<and>
        lib_max_user_bytes S p = Returns cap \<and> end_of_pieces (map piece_size ps @ [n]) \<le> unat cap \<longrightarrow>
        delivers I F (lib_add_piece S p src dst n (map piece_size ps)) d (\<lambda>(piece, written) d'.
          written = word_of_nat (alignment_before (end_of_pieces (map piece_size ps)) (unat n)) + n \<and>
          piece_size piece = n \<and>
          (\<exists>b'. holds_pieces M (ps @ [piece]) b' \<and>
             user_data M b' = user_data M b @
               replicate (alignment_before (end_of_pieces (map piece_size ps)) (unat n)) 0 @ source_of d src \<and>
             d' = piece_written d src dst b'))) \<and>
     lib_max_user_bytes S api_RegisteredSealProof.StackedDrg2KiBV1 = Returns 2032 \<and>
     lib_max_user_bytes S api_RegisteredSealProof.StackedDrg2KiBV1_1 = Returns 2032"

text \<open>A phase of sealing writes the sealed file and the cache directory of its job.\<close>

definition sector_left :: "disk \<Rightarrow> sector_job \<Rightarrow> bytes \<Rightarrow> bytes \<Rightarrow> disk" where
  "sector_left d job b c =
     d\<lparr>bytes_of := (bytes_of d)(Named (job_sealed job) \<mapsto> b), caches := (caches d)(job_cache job \<mapsto> c)\<rparr>"

lemma sector_left_simps [simp]:
  "opened (sector_left d job b c) = opened d" "room (sector_left d job b c) = room d"
  "bytes_of (sector_left d job b c) = (bytes_of d)(Named (job_sealed job) \<mapsto> b)"
  "caches (sector_left d job b c) = (caches d)(job_cache job \<mapsto> c)"
  by (simp_all add: sector_left_def)

lemma sector_left_again [simp]: "sector_left (sector_left d job b c) job b' c' = sector_left d job b' c'"
  by (simp add: sector_left_def)

lemma touches_sector_left:
  "bytes_of d (Named (job_sealed job)) \<noteq> None \<Longrightarrow> caches d (job_cache job) \<noteq> None \<Longrightarrow>
   touches {} {job_sealed job} {job_cache job} d (sector_left d job b c)"
  by (simp add: touches_def)

text \<open>The laws of sealing are for sectors of two kilobytes, which have 2032 bytes for the user, the size
  that the tests use, and for staged files that the pieces fill.\<close>

definition seals_sectors ::
    "('s \<Rightarrow> bool) \<Rightarrow> ('s \<Rightarrow> disk) \<Rightarrow> ('s, 'p1, 'c1, 'fr) seal_lib \<Rightarrow> ('p1, 'c1, 'fr) seal_meaning \<Rightarrow> bool" where
  "seals_sectors I F S M \<longleftrightarrow>
     (\<forall>d p ps b. lib_max_user_bytes S p = Returns 2032 \<and> holds_pieces M ps b \<and> ps \<noteq> [] \<and>
        end_of_pieces (map piece_size ps) = 2032 \<longrightarrow>
        delivers I F (lib_compute_comm_d S p ps) d (\<lambda>c d'. c = data_commitment M p ps \<and> d' = d)) \<and>
     (\<forall>d job staged b. bytes_of d (Named staged) = Some b \<and> holds_pieces M (job_pieces job) b \<and>
        job_data job = user_data M b \<and> staged \<noteq> job_sealed job \<and>
        bytes_of d (Named (job_sealed job)) \<noteq> None \<and> caches d (job_cache job) = Some [] \<and>
        lib_max_user_bytes S (job_proof job) = Returns 2032 \<and>
        end_of_pieces (map piece_size (job_pieces job)) = 2032 \<longrightarrow>
        delivers I F (lib_seal_pre_commit_phase1 S (job_proof job) (job_cache job) staged (job_sealed job)
          (job_prover job) (job_sector job) (job_ticket job) (job_pieces job)) d (\<lambda>out d'.
            phase1_for M out job \<and> (\<exists>b c. phase1_left M out b c \<and> d' = sector_left d job b c))) \<and>
     (\<forall>out job. phase1_for M out job \<longrightarrow> (\<exists>b. phase1_to_vec S out = Inr b \<and> phase1_from_slice S b = Inr out)) \<and>
     (\<forall>d out job b c. phase1_for M out job \<and> phase1_left M out b c \<and>
        bytes_of d (Named (job_sealed job)) = Some b \<and> caches d (job_cache job) = Some c \<longrightarrow>
        delivers I F (lib_seal_pre_commit_phase2 S out (job_cache job) (job_sealed job)) d (\<lambda>out2 d'.
          out_registered_proof out2 = job_proof job \<and>
          out_comm_d out2 = data_commitment M (job_proof job) (job_pieces job) \<and> replica_for M out2 job \<and>
          (\<exists>b c. is_replica M b c (out_comm_r out2) \<and> encodes_job M b job \<and> d' = sector_left d job b c)))"

text \<open>As many proofs as the network allows can be aggregated.\<close>

definition max_aggregated :: nat where
  "max_aggregated = 819"

definition proves_sectors ::
    "('s \<Rightarrow> bool) \<Rightarrow> ('s \<Rightarrow> disk) \<Rightarrow> ('s, 'p1, 'c1, 'fr) seal_lib \<Rightarrow> ('p1, 'c1, 'fr) seal_meaning \<Rightarrow> bool" where
  "proves_sectors I F S M \<longleftrightarrow>
     (\<forall>d job out seed b c. replica_for M out job \<and> bytes_of d (Named (job_sealed job)) = Some b \<and>
        caches d (job_cache job) = Some c \<and> is_replica M b c (out_comm_r out) \<and> encodes_job M b job \<longrightarrow>
        delivers I F (lib_seal_commit_phase1 S (job_cache job) (job_sealed job) (job_prover job) (job_sector job)
          (job_ticket job) seed out (job_pieces job)) d (\<lambda>c d'.
            commit1_for M c (statement_of job out seed) \<and> d' = d)) \<and>
     (\<forall>c st. commit1_for M c st \<longrightarrow> (\<exists>b. commit1_to_vec S c = Inr b \<and> commit1_from_slice S b = Inr c)) \<and>
     (\<forall>d c st. commit1_for M c st \<longrightarrow>
        delivers I F (lib_seal_commit_phase2 S c (st_prover st) (st_sector st)) d (\<lambda>proof d'.
          proves M proof st \<and> d' = d)) \<and>
     (\<forall>d proof st. proves M proof st \<longrightarrow>
        delivers I F (lib_verify_seal S (st_proof st) (st_comm_r st) (st_comm_d st) (st_prover st) (st_sector st)
          (st_ticket st) (st_seed st) proof) d (\<lambda>v d'. v \<and> d' = d)) \<and>
     (\<forall>proof st. proves M proof st \<longrightarrow> lib_get_seal_inputs S (st_proof st) (st_comm_r st) (st_comm_d st) (st_prover st) (st_sector st)
        (st_ticket st) (st_seed st) = Returns (Inr (inputs_for M st))) \<and>
     (\<forall>d p a sts proofs. sts \<noteq> [] \<and> length sts \<le> max_aggregated \<and> list_all2 (proves M) proofs sts \<and> list_all (\<lambda>st. st_proof st = p) sts \<longrightarrow>
        delivers I F (lib_aggregate_seal_commit_proofs S p a (map st_comm_r sts) (map st_seed sts) proofs) d
          (\<lambda>proof d'. aggregates M proof a sts \<and> d' = d)) \<and>
     (\<forall>d p a sts proof. aggregates M proof a sts \<and> list_all (\<lambda>st. st_proof st = p) sts \<longrightarrow>
        delivers I F (lib_verify_aggregate S p a proof (map st_comm_r sts) (map st_seed sts)
          (concat (map (inputs_for M) sts))) d (\<lambda>v d'. v \<and> d' = d))"

text \<open>A replica that can be proved, and one whose file was emptied while its cache is still there. The
  window PoSt of replicas of either kind reports the sectors of the second.\<close>

definition replica_ready :: "('p1, 'c1, 'fr) seal_meaning \<Rightarrow> disk \<Rightarrow> api_PrivateReplicaInfo \<Rightarrow> bool" where
  "replica_ready M d i \<longleftrightarrow> (\<exists>b c. bytes_of d (Named (api_pri_replica_path i)) = Some b \<and>
     caches d (api_pri_cache_dir i) = Some c \<and> is_replica M b c (api_pri_comm_r i))"

definition replica_emptied :: "('p1, 'c1, 'fr) seal_meaning \<Rightarrow> disk \<Rightarrow> api_PrivateReplicaInfo \<Rightarrow> bool" where
  "replica_emptied M d i \<longleftrightarrow> (\<exists>b c. bytes_of d (Named (api_pri_replica_path i)) = Some [] \<and>
     caches d (api_pri_cache_dir i) = Some c \<and> is_replica M b c (api_pri_comm_r i))"

definition finds_faults ::
    "('s \<Rightarrow> bool) \<Rightarrow> ('s \<Rightarrow> disk) \<Rightarrow> ('p1, 'c1, 'fr) seal_meaning \<Rightarrow> 's post_lib \<Rightarrow> bool" where
  "finds_faults I F M P \<longleftrightarrow>
     (\<forall>s randomness m prover faults. I s \<and> faults \<noteq> {} \<and> faults \<subseteq> dom m \<and>
        (\<forall>k i. m k = Some i \<longrightarrow> api_pri_proof i = api_RegisteredPoStProof.StackedDrgWindow2KiBV1 \<and>
           (if k \<in> faults then replica_emptied M (F s) i else replica_ready M (F s) i)) \<longrightarrow>
        wp (lib_window_post P randomness m prover) (\<lambda>r s'.
          (\<exists>t. r = Inl (FaultySectors (sorted_list_of_set faults) t)) \<and> I s' \<and> F s' = F s) s)"

section \<open>The exported functions on a library that keeps its contract\<close>

text \<open>The laws of the contracts, one by one.\<close>

lemmas comm_d_law = seals_sectors_def [THEN iffD1, THEN conjunct1, rule_format]
  and phase1_law = seals_sectors_def [THEN iffD1, THEN conjunct2, THEN conjunct1, rule_format]
  and phase1_json = seals_sectors_def [THEN iffD1, THEN conjunct2, THEN conjunct2, THEN conjunct1, rule_format]
  and phase2_law = seals_sectors_def [THEN iffD1, THEN conjunct2, THEN conjunct2, THEN conjunct2, rule_format]

lemmas commit1_law = proves_sectors_def [THEN iffD1, THEN conjunct1, rule_format]
  and commit1_json = proves_sectors_def [THEN iffD1, THEN conjunct2, THEN conjunct1, rule_format]
  and commit2_law = proves_sectors_def [THEN iffD1, THEN conjunct2, THEN conjunct2, THEN conjunct1, rule_format]
  and verify_law = proves_sectors_def [THEN iffD1, THEN conjunct2, THEN conjunct2, THEN conjunct2, THEN conjunct1, rule_format]
  and inputs_law = proves_sectors_def [THEN iffD1, THEN conjunct2, THEN conjunct2, THEN conjunct2, THEN conjunct2, THEN conjunct1, rule_format]
  and aggregate_law = proves_sectors_def [THEN iffD1, THEN conjunct2, THEN conjunct2, THEN conjunct2, THEN conjunct2, THEN conjunct2, THEN conjunct1, rule_format]
  and verify_aggregate_law = proves_sectors_def [THEN iffD1, THEN conjunct2, THEN conjunct2, THEN conjunct2, THEN conjunct2, THEN conjunct2, THEN conjunct2, rule_format]

lemma can_write_written:
  assumes "can_write d src dst n b"
  obtains f g where "opened d src = Some (f, 0)" and "opened d dst = Some (g, length b)" and "f \<noteq> g"
    and "\<And>b'. piece_written d src dst b' =
      d\<lparr>opened := (opened d)(src \<mapsto> (f, unat n), dst \<mapsto> (g, length b')), bytes_of := (bytes_of d)(g \<mapsto> b')\<rparr>"
  using assms by (auto simp: can_write_def piece_written_def)

lemma write_without_alignment_works:
  assumes "quiet I F L" and "writes_pieces I F S M" and "shows_view I F d w" and "can_write d src dst n []"
    and R: "\<And>piece b w'. piece_size piece = n \<Longrightarrow> holds_pieces M [piece] b \<Longrightarrow> user_data M b = source_of d src \<Longrightarrow>
      shows_view I F (piece_written d src dst b) w' \<Longrightarrow>
      R (Result_ok \<lparr>wwo_comm_p = commitment piece, wwo_total_write_unpadded = n\<rparr>) w'"
  shows "wp (write_without_alignment L S p src n dst) R w"
proof -
  have eq: "(\<lambda>(piece, written). ret (Inr \<lparr>wwo_comm_p = commitment piece, wwo_total_write_unpadded = written\<rparr>)) =
      (\<lambda>x. ret (Inr \<lparr>wwo_comm_p = commitment (fst x), wwo_total_write_unpadded = snd x\<rparr>))"
    by (simp add: fun_eq_iff split: prod.splits)
  from assms(2,4) have lib: "delivers I F (lib_write_and_preprocess S (to_api_seal p) src dst n) d (\<lambda>(piece, written) d'.
      written = n \<and> piece_size piece = n \<and>
      (\<exists>b. holds_pieces M [piece] b \<and> user_data M b = source_of d src \<and> d' = piece_written d src dst b))"
    by (simp add: writes_pieces_def)
  show ?thesis
    unfolding write_without_alignment_def Let_def moved_into_refs ref_fd_new eq
    by (rule wp_guarded_call [OF assms(1,3) lib]) (use R in auto)
qed

lemma write_with_alignment_works:
  assumes "quiet I F L" and "writes_pieces I F S M" and "shows_view I F d w" and "can_write d src dst n b"
    and "holds_pieces M ps b" and "lib_max_user_bytes S (to_api_seal p) = Returns cap"
    and "end_of_pieces (map piece_size ps @ [n]) \<le> unat cap" and sizes: "sizes = map piece_size ps"
    and R: "\<And>piece b' w'. piece_size piece = n \<Longrightarrow> holds_pieces M (ps @ [piece]) b' \<Longrightarrow>
      user_data M b' = user_data M b @ replicate (alignment_before (end_of_pieces sizes) (unat n)) 0 @ source_of d src \<Longrightarrow>
      shows_view I F (piece_written d src dst b') w' \<Longrightarrow>
      R (Result_ok \<lparr>wwa_comm_p = commitment piece,
        left_alignment_unpadded = word_of_nat (alignment_before (end_of_pieces sizes) (unat n)),
        wwa_total_write_unpadded = word_of_nat (alignment_before (end_of_pieces sizes) (unat n)) + n\<rparr>) w'"
  shows "wp (write_with_alignment L S p src n dst sizes) R w"
proof -
  have eq: "(\<lambda>(piece, written). ret (Inr \<lparr>wwa_comm_p = commitment piece, left_alignment_unpadded = written - n,
        wwa_total_write_unpadded = written\<rparr>)) =
      (\<lambda>x. ret (Inr \<lparr>wwa_comm_p = commitment (fst x), left_alignment_unpadded = snd x - n,
        wwa_total_write_unpadded = snd x\<rparr>))"
    by (simp add: fun_eq_iff split: prod.splits)
  from assms(2,4-7) have lib: "delivers I F (lib_add_piece S (to_api_seal p) src dst n sizes) d (\<lambda>(piece, written) d'.
      written = word_of_nat (alignment_before (end_of_pieces sizes) (unat n)) + n \<and>
      piece_size piece = n \<and> (\<exists>b'. holds_pieces M (ps @ [piece]) b' \<and>
        user_data M b' = user_data M b @ replicate (alignment_before (end_of_pieces sizes) (unat n)) 0 @ source_of d src \<and>
        d' = piece_written d src dst b'))"
    unfolding sizes by (simp add: writes_pieces_def)
  show ?thesis
    unfolding write_with_alignment_def Let_def moved_into_refs ref_fd_new eq
    by (rule wp_guarded_call [OF assms(1,3) lib]) (use R in auto)
qed

lemma generate_data_commitment_works:
  assumes "quiet I F L" and "seals_sectors I F S M" and "shows_view I F d w"
    and "lib_max_user_bytes S (to_api_seal p) = Returns 2032" and "holds_pieces M (map to_api_piece pieces) b"
    and "pieces \<noteq> []" and "end_of_pieces (map piece_size (map to_api_piece pieces)) = 2032"
    and R: "\<And>w'. shows_view I F d w' \<Longrightarrow>
      R (Result_ok (data_commitment M (to_api_seal p) (map to_api_piece pieces))) w'"
  shows "wp (generate_data_commitment L S p pieces) R w"
proof -
  have lib: "delivers I F (lib_compute_comm_d S (to_api_seal p) (map to_api_piece pieces)) d
      (\<lambda>c d'. c = data_commitment M (to_api_seal p) (map to_api_piece pieces) \<and> d' = d)"
    by (rule comm_d_law [OF assms(2)]) (use assms(4-7) in simp)
  show ?thesis
    unfolding generate_data_commitment_def Let_def
    by (rule wp_guarded_call [OF assms(1,3) lib]) (use R in blast)
qed

lemma seal_pre_commit_phase1_works:
  assumes "quiet I F L" and "seals_sectors I F S M" and "shows_view I F d w"
    and "bytes_of d (Named staged) = Some b" and "holds_pieces M (job_pieces job) b" and "job_data job = user_data M b"
    and "staged \<noteq> job_sealed job" and "bytes_of d (Named (job_sealed job)) \<noteq> None" and "caches d (job_cache job) = Some []"
    and "lib_max_user_bytes S (job_proof job) = Returns 2032"
    and "end_of_pieces (map piece_size (job_pieces job)) = 2032"
    and job: "job_proof job = to_api_seal p" "job_pieces job = map to_api_piece pieces"
    and R: "\<And>out json b c w'. phase1_for M out job \<Longrightarrow> phase1_from_slice S json = Inr out \<Longrightarrow> phase1_left M out b c \<Longrightarrow>
      shows_view I F (sector_left d job b c) w' \<Longrightarrow> R (Result_ok json) w'"
  shows "wp (seal_pre_commit_phase1 L S p (job_cache job) staged (job_sealed job) (job_sector job) (job_prover job)
    (job_ticket job) pieces) R w"
proof -
  let ?Q = "\<lambda>out d'. phase1_for M out job \<and> (\<exists>b c. phase1_left M out b c \<and> d' = sector_left d job b c)"
  have lib: "delivers I F (lib_seal_pre_commit_phase1 S (to_api_seal p) (job_cache job) staged (job_sealed job)
      (job_prover job) (job_sector job) (job_ticket job) (map to_api_piece pieces)) d ?Q"
    unfolding job [symmetric] by (rule phase1_law [OF assms(2)]) (use assms(4-11) in blast)
  have json: "\<exists>json. phase1_to_vec S out = Inr json \<and> phase1_from_slice S json = Inr out"
    if "phase1_for M out job" for out
    using phase1_json [OF assms(2) that] .
  show ?thesis
    unfolding seal_pre_commit_phase1_def Let_def as_path_buf_def try_val_simps
  proof (rule wp_guarded [OF assms(1,3), where Q = "\<lambda>json d'. \<exists>out. phase1_from_slice S json = Inr out \<and> ?Q out d'"])
    fix v assume v: "shows_view I F d v"
    show "wp (try_io (lift_ext (lib_seal_pre_commit_phase1 S (to_api_seal p) (job_cache job) staged (job_sealed job)
        (job_prover job) (job_sector job) (job_ticket job) (map to_api_piece pieces)))
        (\<lambda>result. try_val (phase1_to_vec S result) (\<lambda>result. ret (Inr result))))
      (\<lambda>r v'. \<exists>json d'. r = Inr json \<and> shows_view I F d' v' \<and> (\<exists>out. phase1_from_slice S json = Inr out \<and> ?Q out d')) v"
      by simp (rule wp_lift_ext [OF lib v], use json in fastforce)
  qed (use R in blast)
qed

lemma seal_pre_commit_phase2_works:
  assumes "quiet I F L" and "seals_sectors I F S M" and "shows_view I F d w"
    and "phase1_from_slice S json = Inr out" and "phase1_for M out job" and "phase1_left M out b0 c0"
    and "bytes_of d (Named (job_sealed job)) = Some b0" and "caches d (job_cache job) = Some c0"
    and R: "\<And>out2 b c w'. out_registered_proof out2 = job_proof job \<Longrightarrow>
      out_comm_d out2 = data_commitment M (job_proof job) (job_pieces job) \<Longrightarrow> replica_for M out2 job \<Longrightarrow>
      is_replica M b c (out_comm_r out2) \<Longrightarrow> encodes_job M b job \<Longrightarrow> shows_view I F (sector_left d job b c) w' \<Longrightarrow>
      R (Result_ok \<lparr>spc2_registered_proof = from_api_seal (out_registered_proof out2),
        spc2_comm_d = out_comm_d out2, spc2_comm_r = out_comm_r out2\<rparr>) w'"
  shows "wp (seal_pre_commit_phase2 L S json (job_cache job) (job_sealed job)) R w"
proof -
  have lib: "delivers I F (lib_seal_pre_commit_phase2 S out (job_cache job) (job_sealed job)) d (\<lambda>out2 d'.
      out_registered_proof out2 = job_proof job \<and> out_comm_d out2 = data_commitment M (job_proof job) (job_pieces job) \<and>
      replica_for M out2 job \<and> (\<exists>b c. is_replica M b c (out_comm_r out2) \<and> encodes_job M b job \<and> d' = sector_left d job b c))"
    by (rule phase2_law [OF assms(2)]) (use assms(5-8) in blast)
  show ?thesis
    unfolding seal_pre_commit_phase2_def as_path_buf_def try_val_simps assms(4)
    by (rule wp_guarded_call [OF assms(1,3) lib]) (blast intro: R)
qed

lemma seal_commit_phase1_works:
  assumes "quiet I F L" and "proves_sectors I F S M" and "shows_view I F d w" and "replica_for M out job"
    and "bytes_of d (Named (job_sealed job)) = Some b" and "caches d (job_cache job) = Some cc"
    and "is_replica M b cc (out_comm_r out)" and "encodes_job M b job"
    and out: "out_registered_proof out = to_api_seal p" and job: "job_pieces job = map to_api_piece pieces"
    and R: "\<And>c json w'. commit1_for M c (statement_of job out seed) \<Longrightarrow> commit1_from_slice S json = Inr c \<Longrightarrow>
      shows_view I F d w' \<Longrightarrow> R (Result_ok json) w'"
  shows "wp (seal_commit_phase1 L S p (out_comm_r out) (out_comm_d out) (job_cache job) (job_sealed job)
    (job_sector job) (job_prover job) (job_ticket job) seed pieces) R w"
proof -
  let ?Q = "\<lambda>c d'. commit1_for M c (statement_of job out seed) \<and> d' = d"
  have rec: "\<lparr>out_registered_proof = to_api_seal p, out_comm_r = out_comm_r out, out_comm_d = out_comm_d out\<rparr> = out"
    by (simp add: out [symmetric])
  have lib: "delivers I F (lib_seal_commit_phase1 S (job_cache job) (job_sealed job) (job_prover job) (job_sector job)
      (job_ticket job) seed out (map to_api_piece pieces)) d ?Q"
    unfolding job [symmetric] by (rule commit1_law [OF assms(2)]) (use assms(4-8) in blast)
  have json: "\<exists>json. commit1_to_vec S c = Inr json \<and> commit1_from_slice S json = Inr c"
    if "commit1_for M c (statement_of job out seed)" for c
    using commit1_json [OF assms(2) that] .
  show ?thesis
    unfolding seal_commit_phase1_def Let_def as_path_buf_def try_val_simps rec
  proof (rule wp_guarded [OF assms(1,3), where Q = "\<lambda>json d'. \<exists>c. commit1_from_slice S json = Inr c \<and> ?Q c d'"])
    fix v assume v: "shows_view I F d v"
    show "wp (try_io (lift_ext (lib_seal_commit_phase1 S (job_cache job) (job_sealed job) (job_prover job)
        (job_sector job) (job_ticket job) seed out (map to_api_piece pieces)))
        (\<lambda>output. try_val (commit1_to_vec S output) (\<lambda>result. ret (Inr result))))
      (\<lambda>r v'. \<exists>json d'. r = Inr json \<and> shows_view I F d' v' \<and> (\<exists>c. commit1_from_slice S json = Inr c \<and> ?Q c d')) v"
      by simp (rule wp_lift_ext [OF lib v], use json in fastforce)
  qed (use R in blast)
qed

lemma seal_commit_phase2_works:
  assumes "quiet I F L" and "proves_sectors I F S M" and "shows_view I F d w"
    and "commit1_from_slice S json = Inr c" and "commit1_for M c st"
    and R: "\<And>proof w'. proves M proof st \<Longrightarrow> shows_view I F d w' \<Longrightarrow> R (Result_ok proof) w'"
  shows "wp (seal_commit_phase2 L S json (st_sector st) (st_prover st)) R w"
proof -
  have lib: "delivers I F (lib_seal_commit_phase2 S c (st_prover st) (st_sector st)) d
      (\<lambda>proof d'. proves M proof st \<and> d' = d)"
    by (rule commit2_law [OF assms(2,5)])
  show ?thesis
    unfolding seal_commit_phase2_def assms(4) try_val_simps
    by (rule wp_guarded_call [OF assms(1,3) lib]) (blast intro: R)
qed

lemma verify_seal_works:
  assumes "quiet I F L" and "proves_sectors I F S M" and "shows_view I F d w" and "proves M proof st"
    and p: "st_proof st = to_api_seal p" and R: "\<And>w'. shows_view I F d w' \<Longrightarrow> R (Result_ok True) w'"
  shows "wp (verify_seal L S p (st_comm_r st) (st_comm_d st) (st_prover st) (st_ticket st) (st_seed st)
    (st_sector st) proof) R w"
proof -
  have lib: "delivers I F (lib_verify_seal S (to_api_seal p) (st_comm_r st) (st_comm_d st) (st_prover st)
      (st_sector st) (st_ticket st) (st_seed st) proof) d (\<lambda>v d'. v \<and> d' = d)"
    unfolding p [symmetric] by (rule verify_law [OF assms(2,4)])
  show ?thesis
    unfolding verify_seal_def Let_def by (rule wp_guarded_call [OF assms(1,3) lib]) (use R in auto)
qed

text \<open>The inputs that a client passes for a statement.\<close>

definition aggregation_input :: "seal_statement \<Rightarrow> AggregationInputs" where
  "aggregation_input st = \<lparr>ai_comm_r = st_comm_r st, ai_comm_d = st_comm_d st, ai_sector_id = st_sector st,
     ai_ticket = st_ticket st, ai_seed = st_seed st\<rparr>"

lemma aggregate_seal_proofs_works:
  assumes "quiet I F L" and "proves_sectors I F S M" and "shows_view I F d w" and "sts \<noteq> []" and "length sts \<le> max_aggregated"
    and "list_all2 (proves M) proofs sts" and "list_all (\<lambda>st. st_proof st = to_api_seal p) sts"
    and R: "\<And>proof w'. aggregates M proof (to_api_aggregation a) sts \<Longrightarrow> shows_view I F d w' \<Longrightarrow> R (Result_ok proof) w'"
  shows "wp (aggregate_seal_proofs L S p a (map st_comm_r sts) (map st_seed sts) proofs) R w"
proof -
  have lib: "delivers I F (lib_aggregate_seal_commit_proofs S (to_api_seal p) (to_api_aggregation a)
      (map st_comm_r sts) (map st_seed sts) proofs) d (\<lambda>proof d'. aggregates M proof (to_api_aggregation a) sts \<and> d' = d)"
    by (rule aggregate_law [OF assms(2)]) (use assms(4-7) in blast)
  show ?thesis
    unfolding aggregate_seal_proofs_def Let_def by (rule wp_guarded_call [OF assms(1,3) lib]) (blast intro: R)
qed

lemma verify_aggregate_seal_proof_works:
  assumes "quiet I F L" and "proves_sectors I F S M" and "shows_view I F d w" and T: "rayon_contract try_reduce"
    and "aggregates M proof (to_api_aggregation a) sts" and proofs: "list_all2 (proves M) proofs sts"
    and sts: "list_all (\<lambda>st. st_proof st = to_api_seal p \<and> st_prover st = prover) sts"
    and R: "\<And>w'. shows_view I F d w' \<Longrightarrow> R (Result_ok True) w'"
  shows "wp (verify_aggregate_seal_proof L S try_reduce p a prover proof (map aggregation_input sts)) R w"
proof -
  have lib: "delivers I F (lib_verify_aggregate S (to_api_seal p) (to_api_aggregation a) proof
      (map st_comm_r sts) (map st_seed sts) (concat (map (inputs_for M) sts))) d (\<lambda>v d'. v \<and> d' = d)"
    by (rule verify_aggregate_law [OF assms(2)]) (use assms(5) sts in \<open>auto simp: list_all_iff\<close>)
  have "convert_aggregation_inputs S p prover (aggregation_input st) = Returns (Inr (inputs_for M st))"
    if "st \<in> set sts" for st
  proof -
    from sts that have eq: "to_api_seal p = st_proof st" "prover = st_prover st" by (auto simp: list_all_iff)
    from proofs that obtain pr where "proves M pr st" by (auto simp: list_all2_conv_all_nth in_set_conv_nth)
    from inputs_law [OF assms(2) this] show ?thesis
      by (simp add: convert_aggregation_inputs_def aggregation_input_def eq)
  qed
  then have inputs: "map (convert_aggregation_inputs S p prover) (map aggregation_input sts) =
      map (\<lambda>v. Returns (Inr v)) (map (inputs_for M) sts)" by simp
  have fields: "map ai_comm_r (map aggregation_input sts) = map st_comm_r sts"
    "map ai_seed (map aggregation_input sts) = map st_seed sts" by (simp_all add: aggregation_input_def)
  have known: "try_io (from_exec (Returns (Inr x))) k = k x" for x and k :: "'fr list list \<Rightarrow> ('s world, anyhow + bool) io"
    by (simp add: try_io_def)
  show ?thesis
    unfolding verify_aggregate_seal_proof_def inputs reduced_inputs_ok [OF T] known Let_def fields
    by (rule wp_guarded_call [OF assms(1,3) lib]) (use R in auto)
qed

text \<open>The window PoSt of replicas whose files were emptied names all their sectors.\<close>

lemma faulty_window_post_works:
  assumes "quiet I F L" and "finds_faults I F M P" and "shows_view I F d w" and "replicas \<noteq> []"
    and "\<forall>r \<in> set replicas. pri_registered_proof r = RegisteredPoStProof.StackedDrgWindow2KiBV1 \<and>
      (\<exists>b c. bytes_of d (Named (pri_replica_path r)) = Some [] \<and> caches d (pri_cache_dir_path r) = Some c \<and>
         is_replica M b c (pri_comm_r r))"
    and R: "\<And>t w'. shows_view I F d w' \<Longrightarrow>
      R (Result_err \<lparr>wp_proofs = [], wp_faulty_sectors = sorted_list_of_set (pri_sector_id ` set replicas)\<rparr> t) w'"
  shows "wp (generate_window_post L P randomness replicas prover) R w"
proof -
  let ?v = "log_started L ''generate_window_post'' w"
  have ok: "logger_ok L" "log_init w \<noteq> Poisoned" using assms(1,3) by (simp_all add: quiet_def shows_view_def)
  have v: "shows_view I F d ?v" by (rule log_lines_show_view(1) [OF assms(1,3)])
  obtain m where m: "to_private_replica_info_map replicas = Inr m" and dom: "dom m = pri_sector_id ` set replicas"
    and entries: "\<And>k. m k = map_of (rev (map (\<lambda>i. (pri_sector_id i, snd (projr (private_replica i)))) replicas)) k"
    using replica_maps [where pris = replicas, THEN conjunct2, THEN conjunct2] by blast
  have empty: "api_pri_proof i = api_RegisteredPoStProof.StackedDrgWindow2KiBV1 \<and> replica_emptied M d i" if "m k = Some i" for k i
    using map_of_SomeD [OF that [unfolded entries]] assms(5) by (fastforce simp: private_replica_ok replica_emptied_def)
  have "wp (lib_window_post P randomness m prover) (\<lambda>r s'.
      (\<exists>t. r = Inl (FaultySectors (sorted_list_of_set (dom m)) t)) \<and> I s' \<and> F s' = F (ext ?v)) (ext ?v)"
    by (rule finds_faults_def [THEN iffD1, rule_format, OF assms(2)])
       (use v empty assms(4) dom in \<open>auto simp: shows_view_def domIff\<close>)
  then obtain t e where run: "lib_window_post P randomness m prover (ext ?v) =
      (Returns (Inl (FaultySectors (sorted_list_of_set (dom m)) t)), e)" and e: "I e" "F e = d"
    using v by (auto simp: wp_def shows_view_def)
  have "generate_window_post L P randomness replicas prover w =
      (Returns (Result_err \<lparr>wp_proofs = [], wp_faulty_sectors = sorted_list_of_set (dom m)\<rparr> (str_bytes t)),
       log_ended L ''generate_window_post'' (?v\<lparr>ext := e\<rparr>))"
    by (simp add: generate_window_post_def catch_panic_response_raw_eq [OF ok] m bind_io_def ret_def lift_ext_def
        run window_post_response_eq)
  moreover have "shows_view I F d (?v\<lparr>ext := e\<rparr>)" using shows_view_ext [OF v e(1)] e(2) by simp
  ultimately show ?thesis
    by (rule wpI [of _ _ _ _ R, OF _ R [OF log_lines_show_view(2) [OF assms(1)], unfolded dom [symmetric]]])
qed


end
