(* ===== verification/Test_Bench.thy ===== *)
theory Test_Bench
  imports Seal_Contract
begin

text \<open>
  A concrete bench on which the hypotheses of the theorems about the tests hold: temporary
  files on a disk that is the whole state, and a library that stages pieces, seals a sector by
  copying it, and unseals it. A commitment is the beginning of the data, a proof spells out its
  statement, and a verifier accepts no proof but that of the statement it is asked about. It
  knows sectors of two kilobytes only.
\<close>

section \<open>The operations\<close>

text \<open>Its state is the disk itself. A new file gets the number of the files that can still be made as its
  descriptor and as the length of its name, so it is fresh.\<close>

fun inode_rank :: "inode \<Rightarrow> nat" where
  "inode_rank (Anon fd) = unat fd"
| "inode_rank (Named p) = length p"

definition bench_ok :: "disk \<Rightarrow> bool" where
  "bench_ok d \<longleftrightarrow> room d < 2 ^ 32 \<and> (\<forall>fd \<in> dom (opened d). room d < unat fd) \<and>
     (\<forall>f \<in> dom (bytes_of d). room d < inode_rank f) \<and> (\<forall>p \<in> dom (caches d). room d < length p)"

definition bench_env :: "disk test_env" where
  "bench_env =
     \<lparr>env_gen = (\<lambda>n. ret (replicate n 7)),
      env_tempdir = (\<lambda>d. let p = replicate (room d) 0
        in (Returns (Inr p), d\<lparr>caches := (caches d)(p \<mapsto> []), room := room d - 1\<rparr>)),
      env_tempfile = (\<lambda>d. let fd = word_of_nat (room d)
        in (Returns (Inr fd), d\<lparr>opened := (opened d)(fd \<mapsto> (Anon fd, 0)), bytes_of := (bytes_of d)(Anon fd \<mapsto> []),
              room := room d - 1\<rparr>)),
      env_write_all = (\<lambda>fd bs d. case opened d fd of
          Some (f, _) \<Rightarrow> let b = the (bytes_of d f) @ bs
            in (Returns (Inr ()), d\<lparr>opened := (opened d)(fd \<mapsto> (f, length b)), bytes_of := (bytes_of d)(f \<mapsto> b)\<rparr>)
        | None \<Rightarrow> (Returns (Inl (AnyhowMsg [])), d)),
      env_seek_start = (\<lambda>fd n d. case opened d fd of
          Some (f, _) \<Rightarrow> (Returns (Inr ()), d\<lparr>opened := (opened d)(fd \<mapsto> (f, n))\<rparr>)
        | None \<Rightarrow> (Returns (Inl (AnyhowMsg [])), d)),
      env_named_tempfile = (\<lambda>d. let fd = word_of_nat (room d); p = replicate (room d) 0
        in (Returns (Inr (fd, p)), d\<lparr>opened := (opened d)(fd \<mapsto> (Named p, 0)), bytes_of := (bytes_of d)(Named p \<mapsto> []),
              room := room d - 1\<rparr>)),
      env_keep = (\<lambda>p. ret (Inr ())),
      env_remove_file = (\<lambda>p d. (Returns (Inr ()), d\<lparr>bytes_of := (bytes_of d)(Named p := None)\<rparr>)),
      env_file_len = (\<lambda>p d. (Returns (Inr (word_of_nat (length (the (bytes_of d (Named p)))))), d)),
      env_resize = (\<lambda>p n d. let b = the (bytes_of d (Named p))
        in (Returns (Inr ()), d\<lparr>bytes_of := (bytes_of d)(Named p \<mapsto> take (unat n) b @ replicate (unat n - length b) 0)\<rparr>)),
      env_read = (\<lambda>p d. (Returns (Inr (the (bytes_of d (Named p)))), d)),
      env_mmap = (\<lambda>p d. (Returns (Inr (the (bytes_of d (Named p)))), d))\<rparr>"

definition bench_logger :: "disk logger" where
  "bench_logger = \<lparr>fil_logger_init = ret (), fil_logger_init_with_file = (\<lambda>_. ret ()), log_info = (\<lambda>_. ret ())\<rparr>"

text \<open>A staged file is the user's data with one byte of padding for every 127.\<close>

definition bench_stage :: "bytes \<Rightarrow> bytes" where
  "bench_stage data = data @ replicate (length data div 127) 0"

definition bench_user :: "bytes \<Rightarrow> bytes" where
  "bench_user b = take (length b - length b div 128) b"

text \<open>Commitments are the first bytes of the data, filled up with zeros.\<close>

definition bench_hash :: "bytes \<Rightarrow> array32" where
  "bench_hash b = take 32 (b @ replicate 32 0)"

definition bench_comm_d :: "api_PieceInfo list \<Rightarrow> array32" where
  "bench_comm_d pieces = bench_hash (concat (map commitment pieces))"

definition bench_kinds :: "api_RegisteredSealProof list" where
  "bench_kinds = [api_RegisteredSealProof.StackedDrg2KiBV1, api_RegisteredSealProof.StackedDrg2KiBV1_1]"

definition bench_tag :: "api_RegisteredSealProof \<Rightarrow> u8" where
  "bench_tag p = (if p = api_RegisteredSealProof.StackedDrg2KiBV1 then 1 else 0)"

text \<open>A proof is its statement in bytes.\<close>

definition bench_code :: "seal_statement \<Rightarrow> bytes" where
  "bench_code st = bench_tag (st_proof st) # ucast (st_sector st) #
     st_comm_r st @ st_comm_d st @ st_prover st @ st_ticket st @ st_seed st"

text \<open>The first phase puts the staged bytes into the cache and returns them with the data commitment. The
  second phase goes on only when they are still there; it leaves the replica, which is a copy of
  them, and its commitment in the cache, which the prover asks for.\<close>

definition bench_seal :: "(disk, api_RegisteredSealProof \<times> array32 \<times> bytes, bytes, bytes) seal_lib" where
  "bench_seal =
     \<lparr>lib_add_piece = (\<lambda>p src dst n sizes d.
        let pad = alignment_before (end_of_pieces sizes) (unat n); old = bench_user (source_of d dst)
        in (Returns (Inr (\<lparr>commitment = bench_hash (source_of d src), piece_size = n\<rparr>, word_of_nat pad + n)),
            piece_written d src dst (bench_stage (old @ replicate pad 0 @ source_of d src)))),
      lib_write_and_preprocess = (\<lambda>p src dst n d.
        (Returns (Inr (\<lparr>commitment = bench_hash (source_of d src), piece_size = n\<rparr>, n)),
         piece_written d src dst (bench_stage (source_of d src)))),
      lib_fauxrep = (\<lambda>p c s. ret (Inr zero32)), lib_fauxrep2 = (\<lambda>p c s. ret (Inr zero32)),
      lib_seal_pre_commit_phase1 = (\<lambda>p c st se prover sector ticket pieces d.
        let b = the (bytes_of d (Named st))
        in (Returns (Inr (p, bench_comm_d pieces, b)),
            d\<lparr>bytes_of := (bytes_of d)(Named se \<mapsto> []), caches := (caches d)(c \<mapsto> b)\<rparr>)),
      phase1_to_vec = (\<lambda>(p, u, b). Inr (bench_tag p # u @ b)),
      phase1_from_slice = (\<lambda>bs. Inr (if hd bs = 1 then api_RegisteredSealProof.StackedDrg2KiBV1
        else api_RegisteredSealProof.StackedDrg2KiBV1_1, take 32 (tl bs), drop 32 (tl bs))),
      lib_seal_pre_commit_phase2 = (\<lambda>(p, u, b) c se d.
        if caches d c \<noteq> Some b then (Returns (Inl (AnyhowMsg ''no labels'')), d)
        else (Returns (Inr \<lparr>out_registered_proof = p, out_comm_r = bench_hash b, out_comm_d = u\<rparr>),
              d\<lparr>bytes_of := (bytes_of d)(Named se \<mapsto> b), caches := (caches d)(c \<mapsto> bench_hash b)\<rparr>)),
      lib_seal_commit_phase1 = (\<lambda>c r prover sector ticket seed out pieces d.
        (Returns (if caches d c \<noteq> Some (out_comm_r out) then Inl (AnyhowMsg ''no trees'')
           else Inr (bench_code \<lparr>st_proof = out_registered_proof out, st_comm_r = out_comm_r out,
             st_comm_d = out_comm_d out, st_prover = prover, st_sector = sector, st_ticket = ticket, st_seed = seed\<rparr>)), d)),
      commit1_to_vec = Inr, commit1_from_slice = Inr,
      lib_seal_commit_phase2 = (\<lambda>c prover sector. ret (Inr c)),
      lib_aggregate_seal_commit_proofs = (\<lambda>p a rs seeds outs. ret (Inr (concat outs))),
      lib_get_seal_inputs = (\<lambda>p r u prover sector ticket seed. Returns (Inr [[bench_code \<lparr>st_proof = p, st_comm_r = r,
        st_comm_d = u, st_prover = prover, st_sector = sector, st_ticket = ticket, st_seed = seed\<rparr>]])),
      lib_verify_aggregate = (\<lambda>p a proof rs seeds inputs. ret (Inr (proof = concat (concat inputs)))),
      lib_file_path = (\<lambda>fd d. (Returns (case opened d fd of Some (Named p, _) \<Rightarrow> Some p | _ \<Rightarrow> None), d)),
      lib_get_unsealed_range_mapped = (\<lambda>p c s fd prover sector comm_d t i n d.
        let b = take (unat n) (drop (unat i) (bench_user (the (bytes_of d (Named s)))))
        in (Returns (Inr (word_of_nat (length b))), case opened d fd of
              Some (f, _) \<Rightarrow> d\<lparr>opened := (opened d)(fd \<mapsto> (f, length b)), bytes_of := (bytes_of d)(f \<mapsto> b)\<rparr>
            | None \<Rightarrow> d)),
      lib_verify_seal = (\<lambda>p r u prover sector t seed proof. ret (Inr (proof = bench_code \<lparr>st_proof = p, st_comm_r = r,
        st_comm_d = u, st_prover = prover, st_sector = sector, st_ticket = t, st_seed = seed\<rparr>))),
      lib_generate_piece_commitment = (\<lambda>p fd n d.
        (Returns (Inr \<lparr>commitment = bench_hash (source_of d fd), piece_size = n\<rparr>), d)),
      lib_compute_comm_d = (\<lambda>p pieces. ret (Inr (bench_comm_d pieces))), lib_clear_cache = (\<lambda>n c. ret (Inr ())),
      lib_max_user_bytes = (\<lambda>p. if p \<in> set bench_kinds then Returns 2032 else Panics unwrap_failed)\<rparr>"

definition bench_meaning :: "(api_RegisteredSealProof \<times> array32 \<times> bytes, bytes, bytes) seal_meaning" where
  "bench_meaning =
     \<lparr>holds_pieces = (\<lambda>ps b. length (bench_user b) = end_of_pieces (map piece_size ps) \<and> b = bench_stage (bench_user b) \<and>
        (ps \<noteq> [] \<longrightarrow> commitment (last ps) =
           bench_hash (drop (length (bench_user b) - unat (piece_size (last ps))) (bench_user b)))),
      user_data = bench_user, data_commitment = (\<lambda>_. bench_comm_d),
      phase1_for = (\<lambda>(p, u, b) job. p = job_proof job \<and> u = bench_comm_d (job_pieces job) \<and> job_data job = bench_user b \<and>
        length b = 2048 \<and> p \<in> set bench_kinds),
      phase1_left = (\<lambda>(p, u, b) _ c. c = b),
      is_replica = (\<lambda>b c r. length b = 2048 \<and> r = bench_hash b \<and> c = r), encodes_job = (\<lambda>b job. bench_user b = job_data job),
      replica_for = (\<lambda>out job. out_registered_proof out = job_proof job \<and> length (out_comm_r out) = 32 \<and>
        length (job_data job) = 2032),
      commit1_for = (\<lambda>c st. c = bench_code st), proves = (\<lambda>b st. b = bench_code st),
      inputs_for = (\<lambda>st. [[bench_code st]]), aggregates = (\<lambda>b _ sts. b = concat (map bench_code sts))\<rparr>"

text \<open>The proofs of spacetime spell out the sectors, their commitments, the randomness and the prover. A
  challenge is the randomness and the prover, one element for every byte.\<close>

definition bench_vanilla :: "u64 \<Rightarrow> array32 \<Rightarrow> bytes \<Rightarrow> bytes" where
  "bench_vanilla sector comm_r challenge = ucast sector # comm_r @ challenge"

definition bench_spacetime_proof :: "array32 \<Rightarrow> array32 \<Rightarrow> (u64 \<rightharpoonup> array32) \<Rightarrow> bytes" where
  "bench_spacetime_proof r prover replicas =
     concat (map (\<lambda>k. bench_vanilla k (the (replicas k)) (r @ prover)) (sorted_list_of_set (dom replicas)))"

definition bench_post :: "disk post_lib" where
  "bench_post =
     \<lparr>lib_winning_post_sector_challenge = (\<lambda>p r n prover. ret (Inr [0])),
      lib_fallback_sector_challenges = (\<lambda>p r sectors prover.
        ret (Inr (map (\<lambda>k. (k, map ucast (r @ prover))) (sorted_list_of_set (set sectors))))),
      lib_single_vanilla_proof = (\<lambda>p sector replica cs d.
        (Returns (if caches d (api_pri_cache_dir replica) \<noteq> Some (api_pri_comm_r replica) then Inl (AnyhowMsg ''no trees'')
           else Inr (bench_vanilla sector (api_pri_comm_r replica) (map ucast cs))), d)),
      lib_winning_post_with_vanilla = (\<lambda>p r prover vs. ret (Inr [(p, concat vs)])),
      lib_winning_post = (\<lambda>r replicas prover. ret (Inr [(api_RegisteredPoStProof.StackedDrgWinning2KiBV1,
        bench_spacetime_proof r prover (map_option api_pri_comm_r \<circ> replicas))])),
      lib_verify_winning_post = (\<lambda>r proof replicas prover.
        ret (Inr (proof = bench_spacetime_proof r prover (map_option api_pub_comm_r \<circ> replicas)))),
      lib_window_post_with_vanilla = (\<lambda>p r prover vs. ret (Inr [(p, concat vs)])),
      lib_window_post = (\<lambda>r replicas prover d.
        let faults = {k \<in> dom replicas. bytes_of d (Named (api_pri_replica_path (the (replicas k)))) = Some []}
        in (Returns (if faults \<noteq> {} then Inl (FaultySectors (sorted_list_of_set faults) ''faulty'')
            else Inr [(api_RegisteredPoStProof.StackedDrgWindow2KiBV1,
              bench_spacetime_proof r prover (map_option api_pri_comm_r \<circ> replicas))]), d)),
      lib_verify_window_post = (\<lambda>r proofs replicas prover.
        ret (Inr (map snd proofs = [bench_spacetime_proof r prover (map_option api_pub_comm_r \<circ> replicas)]))),
      lib_merge_window_post_partition_proofs = (\<lambda>p ps. ret (Inr (concat ps))),
      lib_num_partition_for_fallback_post = (\<lambda>p n. ret (Inr 1)),
      lib_single_window_post_with_vanilla = (\<lambda>p r prover vs i. ret (Inr (concat vs)))\<rparr>"

definition bench_start :: "disk world" where
  "bench_start = \<lparr>log_init = Incomplete, open_fds = (\<lambda>_. False),
     ext = \<lparr>opened = Map.empty, bytes_of = Map.empty, caches = Map.empty, room = 100\<rparr>\<rparr>"

section \<open>It keeps the contracts\<close>

lemma delivers_id: "m d = (Returns (Inr v), e) \<Longrightarrow> (I d \<Longrightarrow> I e \<and> Q v e) \<Longrightarrow> delivers I id m d Q"
  by (auto simp: delivers_def intro: wpI)

lemma bench_keeps:
  assumes "bench_ok d" and "dom h \<subseteq> dom (opened d)" and "dom m \<subseteq> dom (bytes_of d)"
  shows "bench_ok (d\<lparr>opened := h, bytes_of := m\<rparr>)"
  using assms unfolding bench_ok_def by simp blast

lemma bench_writes:
  assumes "bench_ok d" and "bytes_of d f \<noteq> None"
  shows "bench_ok (d\<lparr>bytes_of := (bytes_of d)(f := b)\<rparr>)"
proof -
  have "dom ((bytes_of d)(f := b)) \<subseteq> dom (bytes_of d)" using assms(2) by (cases b) (simp_all add: domIff)
  from bench_keeps [OF assms(1) order_refl this] show ?thesis by simp
qed

lemma bench_caches:
  "bench_ok d \<Longrightarrow> caches d p \<noteq> None \<Longrightarrow> bench_ok (d\<lparr>caches := (caches d)(p \<mapsto> c)\<rparr>)"
  unfolding bench_ok_def by auto

lemma bench_sector_left:
  assumes "bench_ok d" and "bytes_of d (Named (job_sealed job)) \<noteq> None" and "caches d (job_cache job) \<noteq> None"
  shows "bench_ok (sector_left d job b c)"
proof -
  have "bench_ok (d\<lparr>bytes_of := (bytes_of d)(Named (job_sealed job) := Some b)\<rparr>)"
    by (rule bench_writes [OF assms(1,2)])
  from bench_caches [OF this, of "job_cache job" c] assms(3) show ?thesis by (simp add: sector_left_def)
qed

lemma bench_written:
  assumes "bench_ok d" and "can_write d src dst n b0"
  shows "bench_ok (piece_written d src dst b)"
proof -
  from assms(2) obtain f g where fg: "opened d src = Some (f, 0)" "opened d dst = Some (g, length b0)" "f \<noteq> g"
    "\<And>b'. piece_written d src dst b' = d\<lparr>opened := (opened d)(src \<mapsto> (f, unat n), dst \<mapsto> (g, length b')),
       bytes_of := (bytes_of d)(g \<mapsto> b')\<rparr>" and g: "bytes_of d g = Some b0"
    by (auto simp: can_write_def piece_written_def)
  show ?thesis unfolding fg(4) by (rule bench_keeps [OF assms(1)]) (simp_all add: domIff fg g)
qed

lemma bench_creates:
  assumes "bench_ok d" and "unat fd = room d" and "inode_rank f = room d" and "0 < room d"
  shows "bench_ok (d\<lparr>opened := (opened d)(fd \<mapsto> x), bytes_of := (bytes_of d)(f \<mapsto> b), room := room d - Suc 0\<rparr>)"
  using assms unfolding bench_ok_def by (simp add: less_imp_diff_less)

lemma bench_fresh:
  "bench_ok d \<Longrightarrow> unat fd = room d \<Longrightarrow> opened d fd = None"
  "bench_ok d \<Longrightarrow> inode_rank f = room d \<Longrightarrow> bytes_of d f = None"
  "bench_ok d \<Longrightarrow> length p = room d \<Longrightarrow> caches d p = None"
  unfolding bench_ok_def by (metis domIff less_irrefl)+

lemma bench_number: "bench_ok d \<Longrightarrow> unat (word_of_nat (room d) :: i32) = room d"
  by (simp add: bench_ok_def unat_of_nat)

lemma bench_env_contract: "env_contract bench_ok id bench_env"
  unfolding env_contract_def
proof (intro conjI allI impI)
  fix d :: disk assume room: "0 < room d"
  show "delivers bench_ok id (env_tempdir bench_env) d (\<lambda>p d'. caches d p = None \<and>
      d' = d\<lparr>caches := (caches d)(p \<mapsto> []), room := room d - 1\<rparr>)"
    by (rule delivers_id) (simp add: bench_env_def Let_def,
        use room in \<open>simp add: bench_fresh, simp add: bench_ok_def less_imp_diff_less\<close>)
  show "delivers bench_ok id (env_tempfile bench_env) d (\<lambda>fd d'. opened d fd = None \<and> bytes_of d (Anon fd) = None \<and>
      d' = d\<lparr>opened := (opened d)(fd \<mapsto> (Anon fd, 0)), bytes_of := (bytes_of d)(Anon fd \<mapsto> []), room := room d - 1\<rparr>)"
    by (rule delivers_id) (simp add: bench_env_def Let_def, simp add: bench_number bench_fresh bench_creates room)
  show "delivers bench_ok id (env_named_tempfile bench_env) d (\<lambda>(fd, p) d'. opened d fd = None \<and> bytes_of d (Named p) = None \<and>
      d' = d\<lparr>opened := (opened d)(fd \<mapsto> (Named p, 0)), bytes_of := (bytes_of d)(Named p \<mapsto> []), room := room d - 1\<rparr>)"
    by (rule delivers_id) (simp add: bench_env_def Let_def, simp add: bench_number bench_fresh bench_creates room)
next
  fix d :: disk and fd f b bs
  assume "opened d fd = Some (f, length b) \<and> bytes_of d f = Some b"
  then show "delivers bench_ok id (env_write_all bench_env fd bs) d (\<lambda>_ d'.
      d' = d\<lparr>opened := (opened d)(fd \<mapsto> (f, length (b @ bs))), bytes_of := (bytes_of d)(f \<mapsto> b @ bs)\<rparr>)"
    by (intro delivers_id) (auto simp: bench_env_def Let_def intro!: bench_keeps split: if_splits)
next
  fix d :: disk and fd f i n
  assume "opened d fd = Some (f, i)"
  then show "delivers bench_ok id (env_seek_start bench_env fd n) d (\<lambda>_ d'. d' = d\<lparr>opened := (opened d)(fd \<mapsto> (f, n))\<rparr>)"
    by (intro delivers_id) (simp add: bench_env_def, auto simp: bench_ok_def split: if_splits)
qed (auto simp: bench_env_def ret_def intro!: delivers_id wpI bench_writes)

lemma bench_user_stage [simp]: "bench_user (bench_stage data) = data"
proof -
  let ?m = "length data div 127"
  have "length data + ?m = 128 * ?m + length data mod 127" by simp
  moreover have "(128 * ?m + length data mod 127) div 128 = ?m" by (simp add: div_eq_0_iff)
  ultimately have "length data + ?m - (length data + ?m) div 128 = length data" by simp
  then show ?thesis by (simp add: bench_user_def bench_stage_def)
qed

lemma bench_staged: "length (bench_user b) = 2032 \<Longrightarrow> b = bench_stage (bench_user b) \<Longrightarrow> length b = 2048"
  by (drule arg_cong [of b _ length]) (simp add: bench_stage_def)

lemma end_of_pieces_snoc:
  "end_of_pieces (sizes @ [n]) = end_of_pieces sizes + alignment_before (end_of_pieces sizes) (unat n) + unat n"
  "end_of_pieces [n] = unat n"
  by (simp_all add: end_of_pieces_def alignment_before_def)

lemma can_write_sources:
  assumes "can_write d src dst n b"
  shows "source_of d dst = b" and "length (source_of d src) = unat n"
  using assms by (auto simp: can_write_def source_of_def)

lemma length_bench_hash [simp]: "length (bench_hash b) = 32"
  by (simp add: bench_hash_def)

lemma bench_writes_pieces: "writes_pieces bench_ok id bench_seal bench_meaning"
  unfolding writes_pieces_def
proof (intro conjI allI impI)
  fix d p src dst n assume w: "can_write d src dst n []"
  show "delivers bench_ok id (lib_write_and_preprocess bench_seal p src dst n) d (\<lambda>(piece, written) d'.
      written = n \<and> piece_size piece = n \<and> (\<exists>b. holds_pieces bench_meaning [piece] b \<and>
        user_data bench_meaning b = source_of d src \<and> d' = piece_written d src dst b))"
    by (rule delivers_id)
       (simp add: bench_seal_def, simp add: bench_meaning_def bench_written [OF _ w],
        rule exI [of _ "bench_stage (source_of d src)"], simp add: end_of_pieces_snoc can_write_sources [OF w])
next
  fix d p src dst n b ps and cap :: u64
  assume "can_write d src dst n b \<and> holds_pieces bench_meaning ps b \<and> lib_max_user_bytes bench_seal p = Returns cap \<and>
    end_of_pieces (map piece_size ps @ [n]) \<le> unat cap"
  then have w: "can_write d src dst n b" and held: "length (bench_user b) = end_of_pieces (map piece_size ps)"
    by (simp_all add: bench_meaning_def)
  let ?pad = "alignment_before (end_of_pieces (map piece_size ps)) (unat n)"
  show "delivers bench_ok id (lib_add_piece bench_seal p src dst n (map piece_size ps)) d (\<lambda>(piece, written) d'.
      written = word_of_nat ?pad + n \<and> piece_size piece = n \<and> (\<exists>b'. holds_pieces bench_meaning (ps @ [piece]) b' \<and>
        user_data bench_meaning b' = user_data bench_meaning b @ replicate ?pad 0 @ source_of d src \<and>
        d' = piece_written d src dst b'))"
    by (rule delivers_id)
       (simp add: bench_seal_def Let_def, simp add: bench_meaning_def bench_written [OF _ w] can_write_sources [OF w],
        rule exI [of _ "bench_stage (bench_user b @ replicate ?pad 0 @ source_of d src)"],
        simp add: end_of_pieces_snoc can_write_sources [OF w] held)
qed (simp_all add: bench_seal_def bench_kinds_def)

lemma bench_phases [simp]:
  "lib_seal_pre_commit_phase1 bench_seal p (job_cache job) st (job_sealed job) prover sector ticket pieces d =
     (let b = the (bytes_of d (Named st)) in (Returns (Inr (p, bench_comm_d pieces, b)), sector_left d job [] b))"
  "caches d (job_cache job) = Some b \<Longrightarrow> lib_seal_pre_commit_phase2 bench_seal (p, u, b) (job_cache job) (job_sealed job) d =
     (Returns (Inr \<lparr>out_registered_proof = p, out_comm_r = bench_hash b, out_comm_d = u\<rparr>),
      sector_left d job b (bench_hash b))"
  "lib_compute_comm_d bench_seal p pieces = ret (Inr (bench_comm_d pieces))"
  by (simp_all add: bench_seal_def sector_left_def Let_def)

lemma bench_seals_sectors: "seals_sectors bench_ok id bench_seal bench_meaning"
  unfolding seals_sectors_def
proof (intro conjI allI impI)
  fix d :: disk and staged b and job :: sector_job
  assume a: "bytes_of d (Named staged) = Some b \<and> holds_pieces bench_meaning (job_pieces job) b \<and>
    job_data job = user_data bench_meaning b \<and> staged \<noteq> job_sealed job \<and> bytes_of d (Named (job_sealed job)) \<noteq> None \<and>
    caches d (job_cache job) = Some [] \<and> lib_max_user_bytes bench_seal (job_proof job) = Returns 2032 \<and>
    end_of_pieces (map piece_size (job_pieces job)) = 2032"
  let ?out = "(job_proof job, bench_comm_d (job_pieces job), b)"
  have "job_proof job \<in> set bench_kinds" using a by (auto simp: bench_seal_def split: if_splits)
  moreover from this a have "length b = 2048" by (intro bench_staged) (simp_all add: bench_meaning_def)
  ultimately have out: "phase1_for bench_meaning ?out job" "phase1_left bench_meaning ?out [] b"
    using a by (auto simp: bench_meaning_def)
  show "delivers bench_ok id (lib_seal_pre_commit_phase1 bench_seal (job_proof job) (job_cache job) staged
      (job_sealed job) (job_prover job) (job_sector job) (job_ticket job) (job_pieces job)) d (\<lambda>out d'.
      phase1_for bench_meaning out job \<and> (\<exists>b c. phase1_left bench_meaning out b c \<and> d' = sector_left d job b c))"
    by (rule delivers_id [of _ _ ?out "sector_left d job [] b"]) (use a out in \<open>auto intro!: bench_sector_left\<close>)
next
  fix out :: "api_RegisteredSealProof \<times> array32 \<times> bytes" and job :: sector_job assume "phase1_for bench_meaning out job"
  then show "\<exists>b. phase1_to_vec bench_seal out = Inr b \<and> phase1_from_slice bench_seal b = Inr out"
    by (cases out) (auto simp: bench_seal_def bench_meaning_def bench_kinds_def bench_tag_def bench_comm_d_def)
next
  fix d :: disk and out b c and job :: sector_job
  assume a: "phase1_for bench_meaning out job \<and> phase1_left bench_meaning out b c \<and>
    bytes_of d (Named (job_sealed job)) = Some b \<and> caches d (job_cache job) = Some c"
  then have out: "out = (job_proof job, bench_comm_d (job_pieces job), c)" "job_data job = bench_user c" "length c = 2048"
    by (auto simp: bench_meaning_def)
  have user: "length (bench_user c) = 2032" by (simp add: bench_user_def out)
  show "delivers bench_ok id (lib_seal_pre_commit_phase2 bench_seal out (job_cache job) (job_sealed job)) d (\<lambda>out2 d'.
      out_registered_proof out2 = job_proof job \<and>
      out_comm_d out2 = data_commitment bench_meaning (job_proof job) (job_pieces job) \<and>
      replica_for bench_meaning out2 job \<and> (\<exists>b c. is_replica bench_meaning b c (out_comm_r out2) \<and>
        encodes_job bench_meaning b job \<and> d' = sector_left d job b c))"
    unfolding out(1)
    by (rule delivers_id, rule bench_phases(2), use a in simp, intro conjI exI [of _ c] exI [of _ "bench_hash c"])
       (use a in \<open>simp_all add: bench_sector_left bench_meaning_def out(2,3) user\<close>)
qed (auto simp: bench_meaning_def ret_def intro!: delivers_id)

lemma bench_aggregate_inputs: "concat (concat (map (inputs_for bench_meaning) sts)) = map bench_code sts"
  by (induction sts) (simp_all add: bench_meaning_def)

lemma bench_proofs: "list_all2 (proves bench_meaning) proofs sts \<Longrightarrow> proofs = map bench_code sts"
  by (induction rule: list_all2_induct) (simp_all add: bench_meaning_def)

lemma bench_proves_sectors: "proves_sectors bench_ok id bench_seal bench_meaning"
  unfolding proves_sectors_def
proof (intro conjI allI impI)
  fix d :: disk and job :: sector_job and out seed b c
  assume "replica_for bench_meaning out job \<and> bytes_of d (Named (job_sealed job)) = Some b \<and>
    caches d (job_cache job) = Some c \<and> is_replica bench_meaning b c (out_comm_r out) \<and> encodes_job bench_meaning b job"
  then have "caches d (job_cache job) = Some (out_comm_r out)" by (auto simp: bench_meaning_def)
  then show "delivers bench_ok id (lib_seal_commit_phase1 bench_seal (job_cache job) (job_sealed job) (job_prover job)
      (job_sector job) (job_ticket job) seed out (job_pieces job)) d
      (\<lambda>c d'. commit1_for bench_meaning c (statement_of job out seed) \<and> d' = d)"
    by (intro delivers_id) (simp_all add: bench_seal_def bench_meaning_def statement_of_def)
next
  fix d :: disk and p a sts proofs
  assume "sts \<noteq> [] \<and> length sts \<le> max_aggregated \<and> list_all2 (proves bench_meaning) proofs sts \<and>
    list_all (\<lambda>st. st_proof st = p) sts"
  then have "proofs = map bench_code sts" by (simp add: bench_proofs)
  then show "delivers bench_ok id (lib_aggregate_seal_commit_proofs bench_seal p a (map st_comm_r sts) (map st_seed sts) proofs) d
      (\<lambda>proof d'. aggregates bench_meaning proof a sts \<and> d' = d)"
    by (intro delivers_id) (simp add: bench_seal_def ret_def, simp add: bench_meaning_def)
next
  fix d :: disk and p a sts pr
  assume "aggregates bench_meaning pr a sts \<and> list_all (\<lambda>st. st_proof st = p) sts"
  then show "delivers bench_ok id (lib_verify_aggregate bench_seal p a pr (map st_comm_r sts) (map st_seed sts)
      (concat (map (inputs_for bench_meaning) sts))) d (\<lambda>v d'. v \<and> d' = d)"
    by (intro delivers_id) (simp add: bench_seal_def ret_def, simp add: bench_aggregate_inputs, simp add: bench_meaning_def)
qed (auto simp: bench_seal_def bench_meaning_def bench_code_def ret_def intro!: delivers_id)

lemma bench_ready:
  "replica_ready bench_meaning d i \<Longrightarrow> bytes_of d (Named (api_pri_replica_path i)) \<noteq> Some [] \<and>
     caches d (api_pri_cache_dir i) = Some (api_pri_comm_r i)"
  by (auto simp: replica_ready_def bench_meaning_def)

lemma bench_finds_faults: "finds_faults bench_ok id bench_meaning bench_post"
  unfolding finds_faults_def
proof (intro allI impI)
  fix d :: disk and randomness prover and m :: "u64 \<rightharpoonup> api_PrivateReplicaInfo" and faults
  assume a: "bench_ok d \<and> faults \<noteq> {} \<and> faults \<subseteq> dom m \<and> (\<forall>k i. m k = Some i \<longrightarrow>
    api_pri_proof i = api_RegisteredPoStProof.StackedDrgWindow2KiBV1 \<and>
    (if k \<in> faults then replica_emptied bench_meaning (id d) i else replica_ready bench_meaning (id d) i))"
  have "bytes_of d (Named (api_pri_replica_path (the (m k)))) = Some [] \<longleftrightarrow> k \<in> faults" if "k \<in> dom m" for k
  proof -
    from that obtain i where i: "m k = Some i" by blast
    with a [unfolded id_apply] have "if k \<in> faults then replica_emptied bench_meaning d i else replica_ready bench_meaning d i"
      by blast
    with i show ?thesis using bench_ready [of d i] by (auto simp: replica_emptied_def split: if_splits)
  qed
  then have "{k \<in> dom m. bytes_of d (Named (api_pri_replica_path (the (m k)))) = Some []} = faults" using a by blast
  then show "wp (lib_window_post bench_post randomness m prover) (\<lambda>r s'.
      (\<exists>t. r = Inl (FaultySectors (sorted_list_of_set faults) t)) \<and> bench_ok s' \<and> id s' = id d) d"
    using a by (intro wpI) (simp add: bench_post_def Let_def, auto)
qed

lemma bench_quiet: "quiet bench_ok id bench_logger"
  by (simp add: quiet_def logger_ok_def bench_logger_def ret_def)

lemma bench_start_view: "shows_view bench_ok id (ext bench_start) bench_start" "room (ext bench_start) = 100"
  by (simp_all add: shows_view_def bench_start_def bench_ok_def)

end
