(* ===== verification/Update_Contract.thy ===== *)
theory Update_Contract
  imports Test_Bench Proofs_Update
begin

text \<open>
  What the test of sealing relies on in the library for empty sector updates (\<open>encodes_updates\<close>,
  \<open>proves_updates\<close>)
  and in the contents of staged files and replicas (\<open>sector_contents\<close>), a rule for every exported
  function of sector updates on a library that keeps the contract, and the bench's instance.
  Staged data is encoded into a sector key; the new replica, with the key, gives the data back,
  and with the data the key; an update is proved, in one step or by partitions.
\<close>

section \<open>The contract\<close>

text \<open>An update of a sector: the replica that is the key, the staged data, the new replica, what the
  cache directories of both replicas hold, and the commitments.\<close>

record sector_update =
  su_proof :: api_RegisteredUpdateProof
  su_key :: bytes
  su_key_cache :: bytes
  su_data :: bytes
  su_replica :: bytes
  su_cache :: bytes
  su_comm_r_old :: array32
  su_comm_r_new :: array32
  su_comm_d_new :: array32

record update_meaning =
  updated :: "sector_update \<Rightarrow> bool"
  partitions_for :: "bytes list \<Rightarrow> sector_update \<Rightarrow> bool"
  update_proof_for :: "bytes \<Rightarrow> sector_update \<Rightarrow> bool"

text \<open>A file is written together with a cache directory.\<close>

definition written_with :: "disk \<Rightarrow> path \<Rightarrow> bytes \<Rightarrow> path \<Rightarrow> bytes \<Rightarrow> disk" where
  "written_with d p b cache c = d\<lparr>bytes_of := (bytes_of d)(Named p \<mapsto> b), caches := (caches d)(cache \<mapsto> c)\<rparr>"

lemma written_with_simps [simp]:
  "opened (written_with d p b cache c) = opened d" "room (written_with d p b cache c) = room d"
  "bytes_of (written_with d p b cache c) = (bytes_of d)(Named p \<mapsto> b)"
  "caches (written_with d p b cache c) = (caches d)(cache \<mapsto> c)"
  by (simp_all add: written_with_def)

text \<open>The laws are for sectors of two kilobytes, the size that the test uses. New replicas and removed
  data go with a cache directory that was empty; the key is used with the cache it has.\<close>

definition encodes_updates ::
    "('s \<Rightarrow> bool) \<Rightarrow> ('s \<Rightarrow> disk) \<Rightarrow> ('p1, 'c1, 'fr) seal_meaning \<Rightarrow> 's update_lib \<Rightarrow> update_meaning \<Rightarrow> bool" where
  "encodes_updates I F M U N \<longleftrightarrow>
     (\<forall>d new new_cache key key_cache staged pieces comm_r kb kc sb nb.
        bytes_of d (Named key) = Some kb \<and> caches d key_cache = Some kc \<and> is_replica M kb kc comm_r \<and>
        bytes_of d (Named staged) = Some sb \<and> holds_pieces M pieces sb \<and> bytes_of d (Named new) = Some nb \<and>
        length kb = 2048 \<and> length sb = 2048 \<and> length nb = 2048 \<and> new \<noteq> key \<and> new \<noteq> staged \<and>
        caches d new_cache = Some [] \<and> new_cache \<noteq> key_cache \<longrightarrow>
        delivers I F (lib_encode_into U api_RegisteredUpdateProof.StackedDrg2KiBV1 new new_cache key key_cache staged pieces) d
          (\<lambda>out d'. \<exists>b c. updated N \<lparr>su_proof = api_RegisteredUpdateProof.StackedDrg2KiBV1, su_key = kb,
               su_key_cache = kc, su_data = sb, su_replica = b, su_cache = c, su_comm_r_old = comm_r,
               su_comm_r_new = out_comm_r_new out, su_comm_d_new = out_comm_d_new out\<rparr> \<and>
             d' = written_with d new b new_cache c)) \<and>
     (\<forall>d u dest key key_cache replica ob. updated N u \<and> bytes_of d (Named dest) = Some ob \<and>
        length ob = length (su_key u) \<and> bytes_of d (Named key) = Some (su_key u) \<and>
        caches d key_cache = Some (su_key_cache u) \<and> bytes_of d (Named replica) = Some (su_replica u) \<and>
        dest \<noteq> key \<and> dest \<noteq> replica \<longrightarrow>
        delivers I F (lib_decode_from U (su_proof u) dest replica key key_cache (su_comm_d_new u)) d
          (\<lambda>_ d'. d' = d\<lparr>bytes_of := (bytes_of d)(Named dest \<mapsto> su_data u)\<rparr>)) \<and>
     (\<forall>d u dest dest_cache data replica key_cache ob. updated N u \<and> bytes_of d (Named dest) = Some ob \<and>
        length ob = length (su_key u) \<and> caches d dest_cache = Some [] \<and> dest_cache \<noteq> key_cache \<and>
        bytes_of d (Named data) = Some (su_data u) \<and> bytes_of d (Named replica) = Some (su_replica u) \<and>
        caches d key_cache = Some (su_key_cache u) \<and> dest \<noteq> data \<and> dest \<noteq> replica \<longrightarrow>
        delivers I F (lib_remove_encoded_data U (su_proof u) dest dest_cache replica key_cache data (su_comm_d_new u)) d
          (\<lambda>_ d'. \<exists>c. d' = written_with d dest (su_key u) dest_cache c))"

definition proves_updates ::
    "('s \<Rightarrow> bool) \<Rightarrow> ('s \<Rightarrow> disk) \<Rightarrow> 's update_lib \<Rightarrow> update_meaning \<Rightarrow> bool" where
  "proves_updates I F U N \<longleftrightarrow>
     (\<forall>d u key key_cache replica cache. updated N u \<and> bytes_of d (Named key) = Some (su_key u) \<and>
        bytes_of d (Named replica) = Some (su_replica u) \<and> caches d key_cache = Some (su_key_cache u) \<and>
        caches d cache = Some (su_cache u) \<longrightarrow>
        delivers I F (lib_generate_partition_proofs U (su_proof u) (su_comm_r_old u) (su_comm_r_new u) (su_comm_d_new u)
          key key_cache replica cache) d (\<lambda>ps d'. partitions_for N ps u \<and> d' = d) \<and>
        delivers I F (lib_update_proof U (su_proof u) (su_comm_r_old u) (su_comm_r_new u) (su_comm_d_new u)
          key key_cache replica cache) d (\<lambda>b d'. update_proof_for N b u \<and> d' = d)) \<and>
     (\<forall>d u ps. partitions_for N ps u \<longrightarrow>
        delivers I F (lib_verify_partition_proofs U (su_proof u) ps (su_comm_r_old u) (su_comm_r_new u)
          (su_comm_d_new u)) d (\<lambda>v d'. v \<and> d' = d) \<and>
        delivers I F (lib_update_proof_with_vanilla U (su_proof u) ps (su_comm_r_old u) (su_comm_r_new u)
          (su_comm_d_new u)) d (\<lambda>b d'. update_proof_for N b u \<and> d' = d)) \<and>
     (\<forall>d u b. update_proof_for N b u \<longrightarrow>
        delivers I F (lib_verify_update_proof U (su_proof u) b (su_comm_r_old u) (su_comm_r_new u)
          (su_comm_d_new u)) d (\<lambda>v d'. v \<and> d' = d))"

text \<open>Staged data and replicas are made of field elements of 32 bytes, and 127 bytes of the user take
  128 of them.\<close>

definition fr_elements :: "(bytes \<Rightarrow> anyhow + 'el) \<Rightarrow> bytes \<Rightarrow> bool" where
  "fr_elements into_fr b \<longleftrightarrow> b \<noteq> [] \<and> 32 dvd length b \<and>
     (\<forall>i. 32 dvd i \<and> i + 32 \<le> length b \<longrightarrow> (\<exists>x. into_fr (take 32 (drop i b)) = Inr x))"

definition sector_contents ::
    "(bytes \<Rightarrow> anyhow + 'el) \<Rightarrow> ('s, 'p1, 'c1, 'fr) seal_lib \<Rightarrow> ('p1, 'c1, 'fr) seal_meaning \<Rightarrow> bool" where
  "sector_contents into_fr S M \<longleftrightarrow>
     (\<forall>p cap ps b. lib_max_user_bytes S p = Returns cap \<and> holds_pieces M ps b \<and>
        end_of_pieces (map piece_size ps) = unat cap \<longrightarrow> 127 * length b = 128 * unat cap \<and> fr_elements into_fr b) \<and>
     (\<forall>out job b c. replica_for M out job \<and> is_replica M b c (out_comm_r out) \<longrightarrow>
        127 * length b = 128 * length (job_data job) \<and> fr_elements into_fr b)"

lemmas encode_law = encodes_updates_def [THEN iffD1, THEN conjunct1, rule_format]
  and decode_law = encodes_updates_def [THEN iffD1, THEN conjunct2, THEN conjunct1, rule_format]
  and remove_law = encodes_updates_def [THEN iffD1, THEN conjunct2, THEN conjunct2, rule_format]
  and partition_laws = proves_updates_def [THEN iffD1, THEN conjunct1, rule_format, OF _ conjI, OF _ _ conjI,
    OF _ _ _ conjI, OF _ _ _ _ conjI]
  and vanilla_laws = proves_updates_def [THEN iffD1, THEN conjunct2, THEN conjunct1, rule_format]
  and verify_update_law = proves_updates_def [THEN iffD1, THEN conjunct2, THEN conjunct2, rule_format]
  and staged_contents = sector_contents_def [THEN iffD1, THEN conjunct1, rule_format, OF _ conjI, OF _ _ conjI]
  and replica_contents = sector_contents_def [THEN iffD1, THEN conjunct2, rule_format, OF _ conjI]

section \<open>The exported functions on a library that keeps its contract\<close>

lemma encode_into_works:
  assumes "quiet I F L" and U: "encodes_updates I F M U N" and "shows_view I F d w"
    and files: "bytes_of d (Named key) = Some kb" "caches d key_cache = Some kc" "is_replica M kb kc comm_r"
      "bytes_of d (Named staged) = Some sb" "holds_pieces M (map to_api_piece pieces) sb" "bytes_of d (Named new) = Some nb"
    and lens: "length kb = 2048" "length sb = 2048" "length nb = 2048"
    and paths: "new \<noteq> key" "new \<noteq> staged" "caches d new_cache = Some []" "new_cache \<noteq> key_cache"
    and R: "\<And>out u w'. updated N u \<Longrightarrow> su_proof u = api_RegisteredUpdateProof.StackedDrg2KiBV1 \<Longrightarrow> su_key u = kb \<Longrightarrow>
      su_key_cache u = kc \<Longrightarrow> su_data u = sb \<Longrightarrow> su_comm_r_old u = comm_r \<Longrightarrow>
      upd_comm_r_new out = su_comm_r_new u \<Longrightarrow> upd_comm_d_new out = su_comm_d_new u \<Longrightarrow>
      shows_view I F (written_with d new (su_replica u) new_cache (su_cache u)) w' \<Longrightarrow> R (Result_ok out) w'"
  shows "wp (empty_sector_update_encode_into L U RegisteredUpdateProof.StackedDrg2KiBV1 new new_cache key key_cache staged
    pieces) R w"
proof -
  let ?u = "\<lambda>out b c. \<lparr>su_proof = api_RegisteredUpdateProof.StackedDrg2KiBV1, su_key = kb, su_key_cache = kc,
    su_data = sb, su_replica = b, su_cache = c, su_comm_r_old = comm_r,
    su_comm_r_new = out_comm_r_new out, su_comm_d_new = out_comm_d_new out\<rparr>"
  have lib: "delivers I F (lib_encode_into U api_RegisteredUpdateProof.StackedDrg2KiBV1 new new_cache key key_cache staged
      (map to_api_piece pieces)) d (\<lambda>out d'. \<exists>b c. updated N (?u out b c) \<and> d' = written_with d new b new_cache c)"
    by (rule encode_law [OF U]) (use files lens paths in blast)
  have done': "R (Result_ok \<lparr>upd_comm_r_new = out_comm_r_new out, upd_comm_r_last_new = out_comm_r_last_new out,
      upd_comm_d_new = out_comm_d_new out\<rparr>) w'"
    if "updated N (?u out b c)" "shows_view I F (written_with d new b new_cache c) w'" for out b c w'
    using R [OF that(1), of "\<lparr>upd_comm_r_new = out_comm_r_new out, upd_comm_r_last_new = out_comm_r_last_new out,
      upd_comm_d_new = out_comm_d_new out\<rparr>"] that(2) by simp
  show ?thesis
    unfolding empty_sector_update_encode_into_def as_path_buf_def try_val_simps Let_def to_api_update.simps
    by (rule wp_guarded_call [OF assms(1,3) lib]) (use done' in blast)
qed

lemma decode_from_works:
  assumes "quiet I F L" and U: "encodes_updates I F M U N" and "shows_view I F d w" and u: "updated N u"
      "su_proof u = to_api_update p"
    and files: "bytes_of d (Named dest) = Some ob" "length ob = length (su_key u)" "bytes_of d (Named key) = Some (su_key u)"
      "caches d key_cache = Some (su_key_cache u)" "bytes_of d (Named replica) = Some (su_replica u)" "dest \<noteq> key"
      "dest \<noteq> replica"
    and R: "\<And>w'. shows_view I F (d\<lparr>bytes_of := (bytes_of d)(Named dest \<mapsto> su_data u)\<rparr>) w' \<Longrightarrow> R (Result_ok ()) w'"
  shows "wp (empty_sector_update_decode_from L U p dest replica key key_cache (su_comm_d_new u)) R w"
proof -
  have lib: "delivers I F (lib_decode_from U (to_api_update p) dest replica key key_cache (su_comm_d_new u)) d
      (\<lambda>_ d'. d' = d\<lparr>bytes_of := (bytes_of d)(Named dest \<mapsto> su_data u)\<rparr>)"
    unfolding u(2) [symmetric] by (rule decode_law [OF U]) (use u(1) files in blast)
  show ?thesis
    unfolding empty_sector_update_decode_from_def as_path_buf_def try_val_simps
    by (rule wp_guarded_call [OF assms(1,3) lib]) (use R in blast)
qed

lemma remove_encoded_data_works:
  assumes "quiet I F L" and U: "encodes_updates I F M U N" and "shows_view I F d w" and u: "updated N u"
      "su_proof u = to_api_update p"
    and files: "bytes_of d (Named dest) = Some ob" "length ob = length (su_key u)" "caches d dest_cache = Some []"
      "dest_cache \<noteq> key_cache" "bytes_of d (Named data) = Some (su_data u)" "bytes_of d (Named replica) = Some (su_replica u)"
      "caches d key_cache = Some (su_key_cache u)" "dest \<noteq> data" "dest \<noteq> replica"
    and R: "\<And>c w'. shows_view I F (written_with d dest (su_key u) dest_cache c) w' \<Longrightarrow> R (Result_ok ()) w'"
  shows "wp (empty_sector_update_remove_encoded_data L U p dest dest_cache replica key_cache data (su_comm_d_new u)) R w"
proof -
  have lib: "delivers I F (lib_remove_encoded_data U (to_api_update p) dest dest_cache replica key_cache data
      (su_comm_d_new u)) d (\<lambda>_ d'. \<exists>c. d' = written_with d dest (su_key u) dest_cache c)"
    unfolding u(2) [symmetric] by (rule remove_law [OF U]) (use u(1) files in blast)
  show ?thesis
    unfolding empty_sector_update_remove_encoded_data_def as_path_buf_def try_val_simps
    by (rule wp_guarded_call [OF assms(1,3) lib]) (use R in blast)
qed

lemma update_provers_work:
  assumes "quiet I F L" and U: "proves_updates I F U N" and "shows_view I F d w" and u: "updated N u"
      "su_proof u = to_api_update p"
    and files: "bytes_of d (Named key) = Some (su_key u)" "bytes_of d (Named replica) = Some (su_replica u)"
      "caches d key_cache = Some (su_key_cache u)" "caches d cache = Some (su_cache u)"
  shows "(\<And>ps w'. partitions_for N ps u \<Longrightarrow> shows_view I F d w' \<Longrightarrow> R (Result_ok ps) w') \<Longrightarrow>
      wp (generate_empty_sector_update_partition_proofs L U p (su_comm_r_old u) (su_comm_r_new u) (su_comm_d_new u)
        key key_cache replica cache) R w"
    and "(\<And>b w'. update_proof_for N b u \<Longrightarrow> shows_view I F d w' \<Longrightarrow> R' (Result_ok b) w') \<Longrightarrow>
      wp (generate_empty_sector_update_proof L U p (su_comm_r_old u) (su_comm_r_new u) (su_comm_d_new u)
        key key_cache replica cache) R' w"
  unfolding generate_empty_sector_update_partition_proofs_def generate_empty_sector_update_proof_def as_path_buf_def
    try_val_simps u(2) [symmetric]
  by (rule wp_guarded_call [OF assms(1,3) partition_laws [OF U u(1) files, THEN conjunct1]], blast,
      rule wp_guarded_call [OF assms(1,3) partition_laws [OF U u(1) files, THEN conjunct2]], blast)

lemma partition_users_work:
  assumes "quiet I F L" and U: "proves_updates I F U N" and "shows_view I F d w" and u: "partitions_for N ps u"
      "su_proof u = to_api_update p"
  shows "(\<And>w'. shows_view I F d w' \<Longrightarrow> R (Result_ok True) w') \<Longrightarrow>
      wp (verify_empty_sector_update_partition_proofs L U p ps (su_comm_r_old u) (su_comm_r_new u) (su_comm_d_new u)) R w"
    and "(\<And>b w'. update_proof_for N b u \<Longrightarrow> shows_view I F d w' \<Longrightarrow> R' (Result_ok b) w') \<Longrightarrow>
      wp (generate_empty_sector_update_proof_with_vanilla L U p ps (su_comm_r_old u) (su_comm_r_new u) (su_comm_d_new u)) R' w"
  unfolding verify_empty_sector_update_partition_proofs_def generate_empty_sector_update_proof_with_vanilla_def
    u(2) [symmetric]
  by (rule wp_guarded_call [OF assms(1,3) vanilla_laws [OF U u(1), THEN conjunct1]], auto)
     (rule wp_guarded_call [OF assms(1,3) vanilla_laws [OF U u(1), THEN conjunct2]], blast)

lemma verify_update_proof_works:
  assumes "quiet I F L" and U: "proves_updates I F U N" and "shows_view I F d w" and u: "update_proof_for N b u"
      "su_proof u = to_api_update p" and "\<And>w'. shows_view I F d w' \<Longrightarrow> R (Result_ok True) w'"
  shows "wp (verify_empty_sector_update_proof L U p b (su_comm_r_old u) (su_comm_r_new u) (su_comm_d_new u)) R w"
  unfolding verify_empty_sector_update_proof_def u(2) [symmetric] Let_def
  by (rule wp_guarded_call [OF assms(1,3) verify_update_law [OF U u(1)]]) (use assms(6) in auto)

section \<open>The bench\<close>

text \<open>A new replica is the sum of the key and the data, byte by byte, and its cache holds its commitment.
  The two partition proofs spell out the replica commitments and the data commitment; both caches
  have to hold the commitments of their replicas.\<close>

definition bench_update_proofs :: "array32 \<Rightarrow> array32 \<Rightarrow> array32 \<Rightarrow> bytes list" where
  "bench_update_proofs r_old r_new d_new = [r_old @ r_new, d_new]"

definition bench_update :: "disk update_lib" where
  "bench_update =
     \<lparr>lib_encode_into = (\<lambda>p new nc key kc staged pieces d.
        let b = map2 (+) (the (bytes_of d (Named key))) (the (bytes_of d (Named staged)))
        in (Returns (Inr \<lparr>out_comm_r_new = bench_hash b, out_comm_r_last_new = bench_hash b, out_comm_d_new = bench_comm_d pieces\<rparr>),
            written_with d new b nc (bench_hash b))),
      lib_decode_from = (\<lambda>p dest r key kc c d. (Returns (Inr ()), d\<lparr>bytes_of := (bytes_of d)(Named dest \<mapsto>
        map2 (-) (the (bytes_of d (Named r))) (the (bytes_of d (Named key))))\<rparr>)),
      lib_remove_encoded_data = (\<lambda>p dest dc r kc data c d. (Returns (Inr ()), written_with d dest
        (map2 (-) (the (bytes_of d (Named r))) (the (bytes_of d (Named data)))) dc (the (caches d kc)))),
      lib_generate_partition_proofs = (\<lambda>p a b c k kc r rc d.
        (Returns (if caches d kc = Some a \<and> caches d rc = Some b then Inr (bench_update_proofs a b c)
           else Inl (AnyhowMsg ''no trees'')), d)),
      lib_verify_partition_proofs = (\<lambda>p ps a b c. ret (Inr (ps = bench_update_proofs a b c))),
      lib_update_proof_with_vanilla = (\<lambda>p ps a b c. ret (Inr (concat ps))),
      lib_update_proof = (\<lambda>p a b c k kc r rc d.
        (Returns (if caches d kc = Some a \<and> caches d rc = Some b then Inr (concat (bench_update_proofs a b c))
           else Inl (AnyhowMsg ''no trees'')), d)),
      lib_verify_update_proof = (\<lambda>p b r r' c. ret (Inr (b = concat (bench_update_proofs r r' c))))\<rparr>"

definition bench_proofs_of :: "sector_update \<Rightarrow> bytes list" where
  "bench_proofs_of u = bench_update_proofs (su_comm_r_old u) (su_comm_r_new u) (su_comm_d_new u)"

definition bench_updated :: update_meaning where
  "bench_updated =
     \<lparr>updated = (\<lambda>u. length (su_key u) = length (su_data u) \<and> su_replica u = map2 (+) (su_key u) (su_data u) \<and>
        su_key_cache u = su_comm_r_old u \<and> su_cache u = su_comm_r_new u),
      partitions_for = (\<lambda>ps u. ps = bench_proofs_of u), update_proof_for = (\<lambda>b u. b = concat (bench_proofs_of u))\<rparr>"

definition bench_into_fr :: "bytes \<Rightarrow> anyhow + bytes" where
  "bench_into_fr b = (if length b = 32 then Inr b else Inl (AnyhowMsg ''not an element''))"

lemma map2_plus_minus:
  fixes xs ys :: "'a :: ab_group_add list"
  assumes "length xs = length ys"
  shows "map2 (-) (map2 (+) xs ys) xs = ys" and "map2 (-) (map2 (+) xs ys) ys = xs"
  using assms by (induction xs ys rule: list_induct2) simp_all

lemma bench_written_with:
  assumes "bench_ok d" and "bytes_of d (Named p) \<noteq> None" and "caches d cache \<noteq> None"
  shows "bench_ok (written_with d p b cache c)"
proof -
  have "bench_ok (d\<lparr>bytes_of := (bytes_of d)(Named p := Some b)\<rparr>)" by (rule bench_writes [OF assms(1,2)])
  from bench_caches [OF this, of cache c] assms(3) show ?thesis by (simp add: written_with_def)
qed

lemma bench_encodes_updates: "encodes_updates bench_ok id bench_meaning bench_update bench_updated"
  unfolding encodes_updates_def
proof (intro conjI allI impI)
  fix d :: disk and new new_cache key key_cache staged :: path and pieces comm_r and kb kc sb nb :: bytes
  assume a: "bytes_of d (Named key) = Some kb \<and> caches d key_cache = Some kc \<and> is_replica bench_meaning kb kc comm_r \<and>
    bytes_of d (Named staged) = Some sb \<and> holds_pieces bench_meaning pieces sb \<and> bytes_of d (Named new) = Some nb \<and>
    length kb = 2048 \<and> length sb = 2048 \<and> length nb = 2048 \<and> new \<noteq> key \<and> new \<noteq> staged \<and>
    caches d new_cache = Some [] \<and> new_cache \<noteq> key_cache"
  let ?b = "map2 (+) kb sb"
  have run: "lib_encode_into bench_update api_RegisteredUpdateProof.StackedDrg2KiBV1 new new_cache key key_cache staged pieces d =
      (Returns (Inr \<lparr>out_comm_r_new = bench_hash ?b, out_comm_r_last_new = bench_hash ?b, out_comm_d_new = bench_comm_d pieces\<rparr>),
       written_with d new ?b new_cache (bench_hash ?b))" using a by (simp add: bench_update_def Let_def)
  show "delivers bench_ok id (lib_encode_into bench_update api_RegisteredUpdateProof.StackedDrg2KiBV1 new new_cache key
      key_cache staged pieces) d (\<lambda>out d'. \<exists>b c. updated bench_updated \<lparr>su_proof = api_RegisteredUpdateProof.StackedDrg2KiBV1,
        su_key = kb, su_key_cache = kc, su_data = sb, su_replica = b, su_cache = c, su_comm_r_old = comm_r,
        su_comm_r_new = out_comm_r_new out, su_comm_d_new = out_comm_d_new out\<rparr> \<and> d' = written_with d new b new_cache c)"
    by (rule delivers_id, rule run, intro conjI exI [of _ ?b] exI [of _ "bench_hash ?b"])
       (use a in \<open>simp_all add: bench_updated_def bench_meaning_def bench_written_with\<close>)
next
  fix d :: disk and u :: sector_update and dest dest_cache data replica key_cache :: path and ob :: bytes
  assume a: "updated bench_updated u \<and> bytes_of d (Named dest) = Some ob \<and> length ob = length (su_key u) \<and>
    caches d dest_cache = Some [] \<and> dest_cache \<noteq> key_cache \<and> bytes_of d (Named data) = Some (su_data u) \<and>
    bytes_of d (Named replica) = Some (su_replica u) \<and> caches d key_cache = Some (su_key_cache u) \<and> dest \<noteq> data \<and> dest \<noteq> replica"
  have "lib_remove_encoded_data bench_update (su_proof u) dest dest_cache replica key_cache data (su_comm_d_new u) d =
      (Returns (Inr ()), written_with d dest (su_key u) dest_cache (su_key_cache u))"
    using a by (simp add: bench_update_def bench_updated_def map2_plus_minus)
  then show "delivers bench_ok id (lib_remove_encoded_data bench_update (su_proof u) dest dest_cache replica key_cache data
      (su_comm_d_new u)) d (\<lambda>_ d'. \<exists>c. d' = written_with d dest (su_key u) dest_cache c)"
    by (rule delivers_id) (use a in \<open>auto simp: bench_written_with\<close>)
qed (auto simp: bench_update_def bench_updated_def bench_writes map2_plus_minus intro!: delivers_id)

lemma bench_proves_updates: "proves_updates bench_ok id bench_update bench_updated"
  unfolding proves_updates_def
  by (auto simp: bench_update_def bench_updated_def bench_proofs_of_def ret_def intro!: delivers_id)

lemma bench_elements: "b \<noteq> [] \<Longrightarrow> 32 dvd length b \<Longrightarrow> fr_elements bench_into_fr b"
  by (auto simp: fr_elements_def bench_into_fr_def)

lemma bench_sector_contents: "sector_contents bench_into_fr bench_seal bench_meaning"
  unfolding sector_contents_def
proof (intro conjI allI impI; elim conjE)
  fix p cap ps b
  assume "lib_max_user_bytes bench_seal p = Returns cap" and "holds_pieces bench_meaning ps b"
    and "end_of_pieces (map piece_size ps) = unat cap"
  then have "cap = 2032" and "length b = 2048"
    by (auto simp: bench_seal_def bench_meaning_def bench_staged split: if_splits)
  then show "127 * length b = 128 * unat cap" and "fr_elements bench_into_fr b" by (auto intro!: bench_elements)
qed (auto simp: bench_meaning_def bench_user_def intro!: bench_elements)

end
