(* ===== verification/Seal_Tests.thy ===== *)
theory Seal_Tests
  imports Test_Bench
begin

text \<open>
  Tests of \<open>rust/src/proofs/api.rs\<close> as programs over the exported functions: they write pieces, seal
  a sector, prove and verify it, aggregate proofs, and look for a faulty sector. The properties
  are that the tests pass on every library that keeps its contract: the exported functions hand
  its values over so that the proofs verify. A test owns its responses and drops them at its
  end; their memory is the subject of the theory Responses. The descriptors that a test leaves
  open are not followed.
\<close>

section \<open>The tests\<close>

definition write_and_check ::
    "'s logger \<Rightarrow> ('s, 'p1, 'c1, 'fr) seal_lib \<Rightarrow> RegisteredSealProof \<Rightarrow> i32 \<Rightarrow> i32 \<Rightarrow> i32
      \<Rightarrow> ('s world, anyhow + unit) io" where
  "write_and_check L S registered_proof src_fd_a src_fd_b dst_fd =
     bind_io (write_without_alignment L S registered_proof src_fd_a 127 dst_fd) (\<lambda>resp.
     expect_ok ''write_without_alignment'' resp (
     assert_io (wwo_total_write_unpadded (value_of resp) = 127)
       (StringPayload ''should have added 127 bytes of (unpadded) left alignment'') (
     let existing = [127]
     in
     bind_io (write_with_alignment L S registered_proof src_fd_b 508 dst_fd existing) (\<lambda>resp.
     expect_ok ''write_with_alignment'' resp (
     assert_io (left_alignment_unpadded (value_of resp) = 381)
       (StringPayload ''should have added 381 bytes of (unpadded) left alignment'') (
     ret (Inr ())))))))"

definition test_write_with_and_without_alignment ::
    "'s test_env \<Rightarrow> 's logger \<Rightarrow> ('s, 'p1, 'c1, 'fr) seal_lib \<Rightarrow> ('s world, anyhow + unit) io" where
  "test_write_with_and_without_alignment E L S =
     (let registered_proof = RegisteredSealProof.StackedDrg2KiBV1
      in
      bind_io (lift_ext (env_gen E 508)) (\<lambda>buf.
      try_io (piece_file E (take 127 buf)) (\<lambda>src_fd_a.
      try_io (piece_file E (take 508 buf)) (\<lambda>src_fd_b.
      try_io (lift_ext (env_tempfile E)) (\<lambda>dst_fd.
      write_and_check L S registered_proof src_fd_a src_fd_b dst_fd)))))"

text \<open>The files that the sealing tests start with: a cache directory, two pieces of random bytes, and
  the staged and the sealed sector.\<close>

definition sector_files ::
    "'s test_env \<Rightarrow> ('s world, anyhow + path \<times> bytes \<times> i32 \<times> i32 \<times> i32 \<times> path \<times> i32 \<times> path) io" where
  "sector_files E =
     try_io (lift_ext (env_tempdir E)) (\<lambda>cache_dir_path.
     bind_io (lift_ext (env_gen E 2032)) (\<lambda>buf_a.
     try_io (piece_file E (take 127 buf_a)) (\<lambda>piece_file_a_fd.
     try_io (piece_file E (take 1016 buf_a)) (\<lambda>piece_file_b_fd.
     try_io (kept_file E) (\<lambda>(staged_sector_fd, staged_path).
     try_io (kept_file E) (\<lambda>(sealed_fd, sealed_path).
     ret (Inr (cache_dir_path, buf_a, piece_file_a_fd, piece_file_b_fd, staged_sector_fd, staged_path, sealed_fd,
       sealed_path))))))))"

text \<open>What the sealing tests share: two pieces are written, their data commitment computed, and the
  sector sealed up to the second pre-commit phase.\<close>

definition write_two_pieces ::
    "'s logger \<Rightarrow> ('s, 'p1, 'c1, 'fr) seal_lib \<Rightarrow> RegisteredSealProof \<Rightarrow> i32 \<Rightarrow> i32 \<Rightarrow> i32
      \<Rightarrow> ('s world, PublicPieceInfo list \<times> WriteWithoutAlignment Result \<times> WriteWithAlignment Result) io" where
  "write_two_pieces L S registered_proof_seal piece_file_a_fd piece_file_b_fd staged_sector_fd =
     bind_io (write_without_alignment L S registered_proof_seal piece_file_a_fd 127 staged_sector_fd) (\<lambda>resp_a1.
     expect_ok ''write_without_alignment'' resp_a1 (
     let existing_piece_sizes = [127]
     in
     bind_io (write_with_alignment L S registered_proof_seal piece_file_b_fd 1016 staged_sector_fd
       existing_piece_sizes) (\<lambda>resp_a2.
     expect_ok ''write_with_alignment'' resp_a2 (
     let pieces = [\<lparr>num_bytes = 127, comm_p = wwo_comm_p (value_of resp_a1)\<rparr>,
                   \<lparr>num_bytes = 1016, comm_p = wwa_comm_p (value_of resp_a2)\<rparr>]
     in ret (pieces, resp_a1, resp_a2)))))"

definition pre_commit_sector ::
    "'s logger \<Rightarrow> ('s, 'p1, 'c1, 'fr) seal_lib \<Rightarrow> RegisteredSealProof \<Rightarrow> path \<Rightarrow> path \<Rightarrow> path \<Rightarrow> u64 \<Rightarrow> array32
      \<Rightarrow> array32 \<Rightarrow> PublicPieceInfo list \<Rightarrow> ('s world, array32 Result \<times> SealPreCommitPhase2 Result) io" where
  "pre_commit_sector L S registered_proof_seal cache_dir_path staged_path sealed_path sector_id prover_id ticket
     pieces =
     bind_io (generate_data_commitment L S registered_proof_seal pieces) (\<lambda>resp_x.
     expect_ok ''generate_data_commitment'' resp_x (
     bind_io (seal_pre_commit_phase1 L S registered_proof_seal cache_dir_path staged_path sealed_path sector_id
       prover_id ticket pieces) (\<lambda>resp_b1.
     expect_ok ''seal_pre_commit_phase1'' resp_b1 (
     bind_io (seal_pre_commit_phase2 L S (value_of resp_b1) cache_dir_path sealed_path) (\<lambda>resp_b2.
     expect_ok ''seal_pre_commit_phase2'' resp_b2 (
     ret (resp_x, resp_b2)))))))"

text \<open>The commitments are compared, then the sector is proved and verified twice; the proofs are the
  results. The comparison is of the formatted arrays, which are equal when the arrays are.\<close>

definition commit_sector ::
    "'s logger \<Rightarrow> ('s, 'p1, 'c1, 'fr) seal_lib \<Rightarrow> RegisteredSealProof \<Rightarrow> path \<Rightarrow> path \<Rightarrow> u64 \<Rightarrow> array32 \<Rightarrow> array32
      \<Rightarrow> array32 \<Rightarrow> PublicPieceInfo list \<Rightarrow> array32 Result \<Rightarrow> SealPreCommitPhase2 Result
      \<Rightarrow> ('s world, bytes Result \<times> bytes Result) io" where
  "commit_sector L S registered_proof_seal cache_dir_path sealed_path sector_id prover_id ticket seed pieces
     resp_x resp_b2 =
     (let pre_computed_comm_d = value_of resp_x;
          pre_commit_comm_d = spc2_comm_d (value_of resp_b2);
          comm_r = spc2_comm_r (value_of resp_b2);
          comm_d = spc2_comm_d (value_of resp_b2)
      in
      assert_io (pre_computed_comm_d = pre_commit_comm_d)
        (StringPayload ''pre-computed CommD and pre-commit CommD don't match'') (
      bind_io (seal_commit_phase1 L S registered_proof_seal comm_r comm_d cache_dir_path sealed_path sector_id
        prover_id ticket seed pieces) (\<lambda>resp_c1.
      expect_ok ''seal_commit_phase1'' resp_c1 (
      bind_io (seal_commit_phase2 L S (value_of resp_c1) sector_id prover_id) (\<lambda>resp_c2.
      expect_ok ''seal_commit_phase2'' resp_c2 (
      bind_io (verify_seal L S registered_proof_seal comm_r comm_d prover_id ticket seed sector_id
        (value_of resp_c2)) (\<lambda>resp_d.
      expect_ok ''seal_commit'' resp_d (
      assert_io (value_of resp_d) (StrPayload ''proof was not valid'') (
      bind_io (seal_commit_phase2 L S (value_of resp_c1) sector_id prover_id) (\<lambda>resp_c22.
      expect_ok ''seal_commit_phase2'' resp_c22 (
      bind_io (verify_seal L S registered_proof_seal comm_r comm_d prover_id ticket seed sector_id
        (value_of resp_c22)) (\<lambda>resp_d2.
      expect_ok ''seal_commit'' resp_d2 (
      assert_io (value_of resp_d2) (StrPayload ''proof was not valid'') (
      ret (resp_c2, resp_c22)))))))))))))))"

definition aggregate_and_verify ::
    "'s logger \<Rightarrow> ('s, 'p1, 'c1, 'fr) seal_lib \<Rightarrow> 'fr rayon \<Rightarrow> RegisteredSealProof \<Rightarrow> RegisteredAggregationProof \<Rightarrow> u64 \<Rightarrow> array32
      \<Rightarrow> array32 \<Rightarrow> array32 \<Rightarrow> SealPreCommitPhase2 Result \<Rightarrow> bytes Result \<Rightarrow> bytes Result \<Rightarrow> ('s world, unit) io" where
  "aggregate_and_verify L S try_reduce registered_proof_seal registered_aggregation sector_id prover_id ticket seed
     resp_b2 resp_c2 resp_c22 =
     (let seal_commit_responses = [value_of resp_c2, value_of resp_c22];
          comm_rs = [spc2_comm_r (value_of resp_b2), spc2_comm_r (value_of resp_b2)];
          seeds = [seed, seed]
      in
      bind_io (aggregate_seal_proofs L S registered_proof_seal registered_aggregation comm_rs seeds
        seal_commit_responses) (\<lambda>resp_aggregate_proof.
      expect_ok ''aggregate_seal_proofs'' resp_aggregate_proof (
      let inputs = [\<lparr>ai_comm_r = spc2_comm_r (value_of resp_b2), ai_comm_d = spc2_comm_d (value_of resp_b2),
                     ai_sector_id = sector_id, ai_ticket = ticket, ai_seed = seed\<rparr>,
                    \<lparr>ai_comm_r = spc2_comm_r (value_of resp_b2), ai_comm_d = spc2_comm_d (value_of resp_b2),
                     ai_sector_id = sector_id, ai_ticket = ticket, ai_seed = seed\<rparr>]
      in
      bind_io (verify_aggregate_seal_proof L S try_reduce registered_proof_seal registered_aggregation prover_id
        (value_of resp_aggregate_proof) inputs) (\<lambda>resp_ad.
      expect_ok ''verify_aggregate_seal_proof'' resp_ad (
      assert_io (value_of resp_ad) (StrPayload ''aggregated proof was not valid'') (
      ret ()))))))"

definition test_sealing_aggregation ::
    "'s test_env \<Rightarrow> 's logger \<Rightarrow> ('s, 'p1, 'c1, 'fr) seal_lib \<Rightarrow> 'fr rayon \<Rightarrow> RegisteredSealProof
      \<Rightarrow> RegisteredAggregationProof \<Rightarrow> ('s world, anyhow + unit) io" where
  "test_sealing_aggregation E L S try_reduce registered_proof_seal registered_aggregation =
     (let prover_id = replicate 32 1; sector_id = 42; seed = replicate 32 5; ticket = replicate 32 6
      in
      try_io (sector_files E) (\<lambda>(cache_dir_path, _, piece_file_a_fd, piece_file_b_fd, staged_sector_fd, staged_path,
        _, sealed_path).
      bind_io (write_two_pieces L S registered_proof_seal piece_file_a_fd piece_file_b_fd staged_sector_fd)
        (\<lambda>(pieces, _, _).
      bind_io (pre_commit_sector L S registered_proof_seal cache_dir_path staged_path sealed_path sector_id prover_id
        ticket pieces) (\<lambda>(resp_x, resp_b2).
      bind_io (commit_sector L S registered_proof_seal cache_dir_path sealed_path sector_id prover_id ticket seed
        pieces resp_x resp_b2) (\<lambda>(resp_c2, resp_c22).
      bind_io (aggregate_and_verify L S try_reduce registered_proof_seal registered_aggregation sector_id prover_id
        ticket seed resp_b2 resp_c2 resp_c22) (\<lambda>_.
      try_io (ensure_removed E staged_path ''failed to remove staged_path'') (\<lambda>_.
      try_io (ensure_removed E sealed_path ''failed to remove sealed_path'') (\<lambda>_.
      ret (Inr ())))))))))"

definition test_sealing_aggregation_v1 where
  "test_sealing_aggregation_v1 E L S try_reduce =
     test_sealing_aggregation E L S try_reduce RegisteredSealProof.StackedDrg2KiBV1 RegisteredAggregationProof.SnarkPackV1"

definition test_sealing_aggregation_v1_1 where
  "test_sealing_aggregation_v1_1 E L S try_reduce =
     test_sealing_aggregation E L S try_reduce RegisteredSealProof.StackedDrg2KiBV1_1 RegisteredAggregationProof.SnarkPackV1"

text \<open>The named file of the faulty replica is removed when it is dropped, at the end of the block,
  whether or not the removal succeeds.\<close>

definition test_faulty_sectors_inner ::
    "'s test_env \<Rightarrow> 's logger \<Rightarrow> ('s, 'p1, 'c1, 'fr) seal_lib \<Rightarrow> 's post_lib \<Rightarrow> RegisteredSealProof
      \<Rightarrow> ('s world, anyhow + unit) io" where
  "test_faulty_sectors_inner E L S P registered_proof_seal =
     (let registered_proof_window_post = RegisteredPoStProof.StackedDrgWindow2KiBV1;
          prover_id = replicate 32 1; randomness = replicate 32 7; sector_id = 42; ticket = replicate 32 6
      in
      try_io (sector_files E) (\<lambda>(cache_dir_path, _, piece_file_a_fd, piece_file_b_fd, staged_sector_fd, staged_path,
        _, sealed_path).
      bind_io (write_two_pieces L S registered_proof_seal piece_file_a_fd piece_file_b_fd staged_sector_fd)
        (\<lambda>(pieces, _, _).
      bind_io (pre_commit_sector L S registered_proof_seal cache_dir_path staged_path sealed_path sector_id prover_id
        ticket pieces) (\<lambda>(_, resp_b2).
      try_io (lift_ext (env_named_tempfile E)) (\<lambda>(_, faulty_sealed_path).
      let private_replicas = [\<lparr>pri_registered_proof = registered_proof_window_post,
            pri_cache_dir_path = cache_dir_path, pri_comm_r = spc2_comm_r (value_of resp_b2),
            pri_replica_path = faulty_sealed_path, pri_sector_id = sector_id\<rparr>]
      in
      bind_io (generate_window_post L P randomness private_replicas prover_id) (\<lambda>resp_j.
      assert_io (status_code resp_j = UnclassifiedError)
        (StringPayload ''generate_window_post should have failed'') (
      assert_io (wp_faulty_sectors (value_of resp_j) = [42]) (StringPayload ''sector 42 should be faulty'') (
      bind_io (try_io (ensure_removed E staged_path ''failed to remove staged_path'') (\<lambda>_.
        ensure_removed E sealed_path ''failed to remove sealed_path'')) (\<lambda>r.
      bind_io (lift_ext (env_remove_file E faulty_sealed_path)) (\<lambda>_. ret r))))))))))"

definition test_faulty_sectors_v1 where
  "test_faulty_sectors_v1 E L S P = test_faulty_sectors_inner E L S P RegisteredSealProof.StackedDrg2KiBV1"

definition test_faulty_sectors_v1_1 where
  "test_faulty_sectors_v1_1 E L S P = test_faulty_sectors_inner E L S P RegisteredSealProof.StackedDrg2KiBV1_1"

section \<open>Stages of the tests\<close>

text \<open>What the tests know of their files when they start, over the files \<open>d0\<close> that were there before;
  \<open>ps\<close> are the named files made since.\<close>

definition files_ready ::
    "disk \<Rightarrow> disk \<Rightarrow> path set \<Rightarrow> path \<Rightarrow> bytes \<Rightarrow> i32 \<Rightarrow> i32 \<Rightarrow> i32 \<Rightarrow> path \<Rightarrow> i32 \<Rightarrow> path \<Rightarrow> bool" where
  "files_ready d0 d ps cache buf a b staged_fd staged sealed_fd sealed \<longleftrightarrow>
     caches d cache = Some [] \<and> length buf = 2032 \<and> distinct [a, b, staged_fd, sealed_fd] \<and> staged \<noteq> sealed \<and>
     opened d a = Some (Anon a, 0) \<and> bytes_of d (Anon a) = Some (take 127 buf) \<and>
     opened d b = Some (Anon b, 0) \<and> bytes_of d (Anon b) = Some (take 1016 buf) \<and>
     opened d staged_fd = Some (Named staged, 0) \<and> bytes_of d (Named staged) = Some [] \<and>
     opened d sealed_fd = Some (Named sealed, 0) \<and> bytes_of d (Named sealed) = Some [] \<and>
     temporary d0 d ps \<and> {staged, sealed} \<subseteq> ps"

lemma sector_files_works:
  assumes E: "env_contract I F E" and w: "shows_view I F d0 w" and "5 \<le> room d0"
    and R: "\<And>d cache buf a b staged_fd staged sealed_fd sealed w'.
      files_ready d0 d {staged, sealed} cache buf a b staged_fd staged sealed_fd sealed \<Longrightarrow> room d = room d0 - 5 \<Longrightarrow>
      shows_view I F d w' \<Longrightarrow> R (Inr (cache, buf, a, b, staged_fd, staged, sealed_fd, sealed)) w'"
  shows "wp (sector_files E) R w"
proof -
  have "0 < room d0" using assms(3) by simp
  note dir = create_laws [OF E this, THEN conjunct1]
  show ?thesis
    unfolding sector_files_def
    apply (rule wp_try_lift [OF dir w])
    apply (unfold wp_bind wp_try_io)
    apply (erule gen_works [OF E])
    apply (erule piece_file_works [OF E], use assms(3) in simp, simp only: sum.case)
    apply (erule piece_file_works [OF E], use assms(3) in simp, simp only: sum.case)
    apply (erule kept_file_works [OF E], use assms(3) in simp, simp only: sum.case prod.case wp_try_io)
    apply (erule kept_file_works [OF E], use assms(3) in simp, simp only: sum.case prod.case wp_ret)
    apply (erule R [rotated 2])
     apply (auto simp: files_ready_def temporary_def split: if_splits)
    done
qed

lemma piece_sizes [simp]: "piece_sized 127" "piece_sized 508" "piece_sized 1016"
  unfolding piece_sized_def by (rule exI [of _ 0], simp, rule exI [of _ 2], simp, rule exI [of _ 3], simp)

lemma sector_layout [simp]:
  "alignment_before (end_of_pieces [127]) 508 = 381" "alignment_before (end_of_pieces [127]) 1016 = 889"
  "end_of_pieces [127, 508] = 1016" "end_of_pieces [127, 1016] = 2032"
  by (simp_all add: alignment_before_def end_of_pieces_def)

lemma to_api_piece_back: "piece_size x = n \<Longrightarrow> to_api_piece \<lparr>num_bytes = n, comm_p = commitment x\<rparr> = x"
  by (cases x) (simp add: to_api_piece_def)

text \<open>The user's bytes in the sector: the first piece, the alignment, the second piece.\<close>

definition sector_data :: "bytes \<Rightarrow> bytes \<Rightarrow> bytes" where
  "sector_data first second = take 127 first @ replicate 889 0 @ take 1016 second"

definition pieces_staged ::
    "('p1, 'c1, 'fr) seal_meaning \<Rightarrow> disk \<Rightarrow> path \<Rightarrow> PublicPieceInfo list \<Rightarrow> bytes \<Rightarrow> bool" where
  "pieces_staged M d staged pieces data \<longleftrightarrow>
     map num_bytes pieces = [127, 1016] \<and>
     (\<exists>bs. bytes_of d (Named staged) = Some bs \<and> holds_pieces M (map to_api_piece pieces) bs \<and> user_data M bs = data)"

lemma write_two_pieces_works:
  assumes L: "quiet I F L" and W: "writes_pieces I F S M" and w: "shows_view I F d w"
    and cap: "lib_max_user_bytes S (to_api_seal p) = Returns 2032"
    and files: "opened d a = Some (Anon a, 0)" "bytes_of d (Anon a) = Some (take 127 buf)" "opened d b = Some (Anon b, 0)"
      "bytes_of d (Anon b) = Some (take 1016 buf')" "opened d staged_fd = Some (Named staged, 0)"
      "bytes_of d (Named staged) = Some []"
    and lens: "length buf = 2032" "length buf' = 2032" and fds: "distinct [a, b, staged_fd]"
    and R: "\<And>pieces d' w' a1 a2. pieces_staged M d' staged pieces (sector_data buf buf') \<Longrightarrow>
      touches {a, b, staged_fd} {staged} {} d d' \<Longrightarrow>
      wwo_total_write_unpadded a1 = 127 \<Longrightarrow> left_alignment_unpadded a2 = 889 \<Longrightarrow> wwa_total_write_unpadded a2 = 1905 \<Longrightarrow>
      shows_view I F d' w' \<Longrightarrow> R (pieces, Result_ok a1, Result_ok a2) w'"
  shows "wp (write_two_pieces L S p a b staged_fd) R w"
proof -
  let ?d1 = "\<lambda>b1. piece_written d a staged_fd b1"
  let ?d = "\<lambda>b1 b2. piece_written (?d1 b1) b staged_fd b2"
  have a: "can_write d a staged_fd 127 []" using files lens by (auto simp: can_write_def)
  have b: "can_write (?d1 b1) b staged_fd 1016 b1" for b1
    using files lens fds by (auto simp: can_write_def piece_written_def)
  have src: "source_of d a = take 127 buf" "source_of (?d1 b1) b = take 1016 buf'" for b1
    using files fds by (auto simp: source_of_def piece_written_def)
  have view: "touches {a, b, staged_fd} {staged} {} d (?d b1 b2) \<and> bytes_of (?d b1 b2) (Named staged) = Some b2" for b1 b2
    using files fds by (simp add: touches_def piece_written_def)
  have done': "R ([\<lparr>num_bytes = 127, comm_p = commitment piece1\<rparr>, \<lparr>num_bytes = 1016, comm_p = commitment piece2\<rparr>],
      Result_ok \<lparr>wwo_comm_p = commitment piece1, wwo_total_write_unpadded = 127\<rparr>,
      Result_ok \<lparr>wwa_comm_p = commitment piece2, left_alignment_unpadded = 889, wwa_total_write_unpadded = 1905\<rparr>) w2"
    if "piece_size piece1 = 127" "piece_size piece2 = 1016" "holds_pieces M [piece1, piece2] b2"
      "user_data M b2 = take 127 buf @ replicate 889 0 @ take 1016 buf'"
      and w2: "shows_view I F (?d b1 b2) w2" for piece1 piece2 b1 b2 w2
    by (rule R [OF _ view [THEN conjunct1] _ _ _ w2])
       (use that view in \<open>simp_all add: pieces_staged_def sector_data_def to_api_piece_back\<close>)
  show ?thesis
    unfolding write_two_pieces_def wp_bind Let_def
    by (rule write_without_alignment_works [OF L W w a], unfold wp_checks wp_bind,
        rule write_with_alignment_works [OF L W _ b _ cap], assumption, assumption) (simp_all add: done' src)
qed

text \<open>The job that the tests do, and what they know after it: the sealed file is the replica, with its
  cache.\<close>

abbreviation test_job ::
    "RegisteredSealProof \<Rightarrow> path \<Rightarrow> path \<Rightarrow> u64 \<Rightarrow> array32 \<Rightarrow> array32 \<Rightarrow> PublicPieceInfo list \<Rightarrow> bytes \<Rightarrow> sector_job" where
  "test_job p cache sealed sector prover ticket pieces data \<equiv>
     \<lparr>job_proof = to_api_seal p, job_cache = cache, job_sealed = sealed, job_prover = prover, job_sector = sector,
      job_ticket = ticket, job_pieces = map to_api_piece pieces, job_data = data\<rparr>"

definition sector_sealed ::
    "('p1, 'c1, 'fr) seal_meaning \<Rightarrow> disk \<Rightarrow> sector_job \<Rightarrow> SealPreCommitPhase2Output \<Rightarrow> bool" where
  "sector_sealed M d job out \<longleftrightarrow>
     out_registered_proof out = job_proof job \<and> replica_for M out job \<and>
     (\<exists>b c. bytes_of d (Named (job_sealed job)) = Some b \<and> caches d (job_cache job) = Some c \<and>
        is_replica M b c (out_comm_r out) \<and> encodes_job M b job)"

lemma sector_sealed_touched:
  assumes "sector_sealed M d job out" and "touches fds ps cs d d'" and "job_sealed job \<notin> ps"
    and "job_cache job \<notin> cs"
  shows "sector_sealed M d' job out"
  using assms(1) by (simp add: sector_sealed_def touches_bytes [OF assms(2,3)] touches_cache [OF assms(2,4)])

lemma pre_commit_sector_works:
  assumes L: "quiet I F L" and S: "seals_sectors I F S M" and w: "shows_view I F d w"
    and staged: "pieces_staged M d staged pieces data" and files: "staged \<noteq> sealed" "bytes_of d (Named sealed) \<noteq> None"
    and cache: "caches d cache = Some []" and cap: "lib_max_user_bytes S (to_api_seal p) = Returns 2032"
    and R: "\<And>out d' w'. sector_sealed M d' (test_job p cache sealed sector prover ticket pieces data) out \<Longrightarrow>
      touches {} {sealed} {cache} d d' \<Longrightarrow> shows_view I F d' w' \<Longrightarrow>
      R (Result_ok (out_comm_d out), Result_ok \<lparr>spc2_registered_proof = p, spc2_comm_d = out_comm_d out,
        spc2_comm_r = out_comm_r out\<rparr>) w'"
  shows "wp (pre_commit_sector L S p cache staged sealed sector prover ticket pieces) R w"
proof -
  let ?job = "test_job p cache sealed sector prover ticket pieces data"
  let ?c = "data_commitment M (to_api_seal p) (map to_api_piece pieces)"
  from staged obtain bs where held: "bytes_of d (Named staged) = Some bs" "holds_pieces M (map to_api_piece pieces) bs"
      "data = user_data M bs"
    and sizes: "map num_bytes pieces = [127, 1016]" by (auto simp: pieces_staged_def)
  have full: "pieces \<noteq> []" "end_of_pieces (map piece_size (map to_api_piece pieces)) = 2032"
    using sizes by (auto simp: to_api_piece_def comp_def)
  have done': "R (Result_ok ?c, Result_ok \<lparr>spc2_registered_proof = p, spc2_comm_d = ?c, spc2_comm_r = out_comm_r out\<rparr>) w'"
    if "out_registered_proof out = to_api_seal p" "out_comm_d out = ?c" "replica_for M out ?job"
      "is_replica M b c (out_comm_r out)" "encodes_job M b ?job" "shows_view I F (sector_left d ?job b c) w'" for out b c w'
    using R [of "sector_left d ?job b c" out w'] touches_sector_left [of d ?job b c] files(2) cache that
    by (simp add: sector_sealed_def)
  note phase1 = seal_pre_commit_phase1_works [OF L S _ held(1), where job = ?job and p = p and pieces = pieces,
      unfolded sector_job.simps, OF _ held(2,3) files cache cap full(2) refl refl]
  note phase2 = seal_pre_commit_phase2_works [OF L S, where job = ?job, unfolded sector_job.simps]
  show ?thesis
    unfolding pre_commit_sector_def wp_bind
    apply (rule generate_data_commitment_works [OF L S w cap held(2) full], unfold wp_checks wp_bind)
    apply (rule phase1, assumption, unfold wp_checks wp_bind Result_ok_sel)
    apply (rule phase2, assumption, assumption, assumption, assumption)
      apply (simp_all add: done' seal_enum.from_to)
    done
qed

text \<open>The two stages together, from the files of a test to the sealed sector.\<close>

lemma sealed_sector_works:
  assumes L: "quiet I F L" and W: "writes_pieces I F S M" and Q: "seals_sectors I F S M" and w: "shows_view I F d w"
    and cap: "lib_max_user_bytes S (to_api_seal p) = Returns 2032"
    and ready: "files_ready d0 d ps cache buf a b staged_fd staged sealed_fd sealed"
    and R: "\<And>pieces out d' w' a1 a2.
      sector_sealed M d' (test_job p cache sealed sector prover ticket pieces (sector_data buf buf)) out \<Longrightarrow>
      touches {a, b, staged_fd} {staged, sealed} {cache} d d' \<Longrightarrow> temporary d0 d' ps \<Longrightarrow>
      wwo_total_write_unpadded a1 = 127 \<Longrightarrow> left_alignment_unpadded a2 = 889 \<Longrightarrow> wwa_total_write_unpadded a2 = 1905 \<Longrightarrow>
      shows_view I F d' w' \<Longrightarrow>
      wp (k pieces (Result_ok a1) (Result_ok a2) (Result_ok (out_comm_d out)) (Result_ok \<lparr>spc2_registered_proof = p,
        spc2_comm_d = out_comm_d out, spc2_comm_r = out_comm_r out\<rparr>)) R w'"
  shows "wp (bind_io (write_two_pieces L S p a b staged_fd) (\<lambda>(pieces, a1, a2).
    bind_io (pre_commit_sector L S p cache staged sealed sector prover ticket pieces) (\<lambda>(x, b2). k pieces a1 a2 x b2))) R w"
proof -
  have files: "distinct [a, b, staged_fd]" "staged \<noteq> sealed" "bytes_of d (Named sealed) \<noteq> None" "caches d cache = Some []"
    and data: "opened d a = Some (Anon a, 0)" "bytes_of d (Anon a) = Some (take 127 buf)" "opened d b = Some (Anon b, 0)"
      "bytes_of d (Anon b) = Some (take 1016 buf)" "opened d staged_fd = Some (Named staged, 0)"
      "bytes_of d (Named staged) = Some []" "length buf = 2032"
    and temp: "temporary d0 d ps" "{staged, sealed} \<subseteq> ps"
    using ready by (simp_all add: files_ready_def)
  show ?thesis
    unfolding wp_bind
  proof (rule write_two_pieces_works [OF L W w cap data(1-6,7,7) files(1)], simp only: prod.case wp_bind)
    fix pieces d1 w1 and a1 :: WriteWithoutAlignment and a2 :: WriteWithAlignment
    assume staged: "pieces_staged M d1 staged pieces (sector_data buf buf)" and t1: "touches {a, b, staged_fd} {staged} {} d d1"
      and out: "wwo_total_write_unpadded a1 = 127" "left_alignment_unpadded a2 = 889" "wwa_total_write_unpadded a2 = 1905"
      and w1: "shows_view I F d1 w1"
    have sealed: "bytes_of d1 (Named sealed) \<noteq> None" "caches d1 cache = Some []"
      using files touches_bytes [OF t1, of sealed] touches_cache [OF t1, of cache] by simp_all
    have done': "wp (k pieces (Result_ok a1) (Result_ok a2) (Result_ok (out_comm_d out)) (Result_ok \<lparr>spc2_registered_proof = p,
        spc2_comm_d = out_comm_d out, spc2_comm_r = out_comm_r out\<rparr>)) R w2"
      if job: "sector_sealed M d2 (test_job p cache sealed sector prover ticket pieces (sector_data buf buf)) out"
        and t2: "touches {} {sealed} {cache} d1 d2" and w2: "shows_view I F d2 w2" for out d2 w2
    proof -
      from touches_trans [OF t1 t2] have t: "touches {a, b, staged_fd} {staged, sealed} {cache} d d2" by (simp add: insert_commute)
      show ?thesis by (rule R [OF job t temporary_touched [OF temp(1) t temp(2)] out w2])
    qed
    show "wp (pre_commit_sector L S p cache staged sealed sector prover ticket pieces)
      (\<lambda>a. wp (case a of (x, b2) \<Rightarrow> k pieces (Result_ok a1) (Result_ok a2) x b2) R) w1"
      by (rule pre_commit_sector_works [OF L Q w1 staged files(2) sealed cap]) (simp add: done')
  qed
qed

lemma commit_sector_works:
  assumes L: "quiet I F L" and S: "proves_sectors I F S M" and w: "shows_view I F d w"
    and sealed: "sector_sealed M d (test_job p cache sealed sector prover ticket pieces data) out"
    and R: "\<And>proof proof' w'. proves M proof (statement_of (test_job p cache sealed sector prover ticket pieces data) out seed) \<Longrightarrow>
      proves M proof' (statement_of (test_job p cache sealed sector prover ticket pieces data) out seed) \<Longrightarrow>
      shows_view I F d w' \<Longrightarrow> R (Result_ok proof, Result_ok proof') w'"
  shows "wp (commit_sector L S p cache sealed sector prover ticket seed pieces (Result_ok (out_comm_d out))
    (Result_ok \<lparr>spc2_registered_proof = q, spc2_comm_d = out_comm_d out, spc2_comm_r = out_comm_r out\<rparr>)) R w"
proof -
  let ?job = "test_job p cache sealed sector prover ticket pieces data"
  let ?st = "statement_of ?job out seed"
  from sealed obtain b c where
    replica: "replica_for M out ?job" "bytes_of d (Named sealed) = Some b" "caches d cache = Some c"
      "is_replica M b c (out_comm_r out)" "encodes_job M b ?job"
    and out: "out_registered_proof out = to_api_seal p" by (auto simp: sector_sealed_def)
  have st: "st_proof ?st = to_api_seal p" "st_comm_r ?st = out_comm_r out" "st_comm_d ?st = out_comm_d out"
    "st_prover ?st = prover" "st_sector ?st = sector" "st_ticket ?st = ticket" "st_seed ?st = seed"
    by (simp_all add: statement_of_def out)
  note phase1 = seal_commit_phase1_works [OF L S _ replica(1), unfolded sector_job.simps, OF _ replica(2-5) out refl]
  note phase2 = seal_commit_phase2_works [OF L S, where st = ?st, unfolded st]
  note verify = verify_seal_works [OF L S, where st = ?st, unfolded st]
  show ?thesis
    unfolding commit_sector_def Let_def Result_ok_sel SealPreCommitPhase2.simps
    apply (simp only: wp_checks wp_bind simp_thms)
    apply (rule phase1 [OF w], unfold wp_checks wp_bind Result_ok_sel)
    apply (rule phase2, assumption, assumption, assumption, unfold wp_checks wp_bind Result_ok_sel)
    apply (rule verify, assumption, assumption, rule refl, unfold wp_checks wp_bind Result_ok_sel simp_thms)
    apply (rule phase2, assumption, assumption, assumption, unfold wp_checks wp_bind Result_ok_sel)
    apply (rule verify, assumption, assumption, rule refl, unfold wp_checks wp_ret Result_ok_sel simp_thms)
    apply (erule (2) R)
    done
qed

lemma aggregate_and_verify_works:
  assumes L: "quiet I F L" and S: "proves_sectors I F S M" and w: "shows_view I F d w"
    and T: "rayon_contract try_reduce" and st: "st = statement_of (test_job p cache sealed sector prover ticket pieces data) out seed"
      "out_registered_proof out = to_api_seal p"
    and proofs: "proves M proof st" "proves M proof' st" and R: "\<And>w'. shows_view I F d w' \<Longrightarrow> R () w'"
  shows "wp (aggregate_and_verify L S try_reduce p agg sector prover ticket seed
    (Result_ok \<lparr>spc2_registered_proof = q, spc2_comm_d = out_comm_d out, spc2_comm_r = out_comm_r out\<rparr>)
    (Result_ok proof) (Result_ok proof')) R w"
proof -
  have lists: "[out_comm_r out, out_comm_r out] = map st_comm_r [st, st]" "[seed, seed] = map st_seed [st, st]"
    "[\<lparr>ai_comm_r = out_comm_r out, ai_comm_d = out_comm_d out, ai_sector_id = sector, ai_ticket = ticket, ai_seed = seed\<rparr>,
      \<lparr>ai_comm_r = out_comm_r out, ai_comm_d = out_comm_d out, ai_sector_id = sector, ai_ticket = ticket, ai_seed = seed\<rparr>] =
     map aggregation_input [st, st]" and st_fields: "st_proof st = to_api_seal p" "st_prover st = prover"
    by (simp_all add: st statement_of_def aggregation_input_def)
  have both: "list_all2 (proves M) [proof, proof'] [st, st]" using proofs by simp
  show ?thesis
    unfolding aggregate_and_verify_def Let_def Result_ok_sel SealPreCommitPhase2.simps wp_bind lists
    by (rule aggregate_seal_proofs_works [OF L S w _ _ both], simp, simp add: max_aggregated_def, simp add: st_fields,
        unfold wp_checks wp_bind Result_ok_sel, rule verify_aggregate_seal_proof_works [OF L S _ T _ both], assumption,
        assumption) (simp_all add: st_fields R)
qed

lemma write_and_check_works:
  assumes L: "quiet I F L" and W: "writes_pieces I F S M" and w: "shows_view I F d w"
    and cap: "lib_max_user_bytes S (to_api_seal p) = Returns 2032"
    and a: "can_write d a dst 127 []" and b: "\<And>b1. can_write (piece_written d a dst b1) b dst 508 b1"
  shows "wp (write_and_check L S p a b dst) (\<lambda>r _. r = Inr ()) w"
  unfolding write_and_check_def Let_def wp_bind
  by (rule write_without_alignment_works [OF L W w a], unfold wp_checks wp_bind Result_ok_sel,
      simp only: WriteWithoutAlignment.simps simp_thms, rule write_with_alignment_works [OF L W _ b _ cap],
      assumption, assumption) simp_all


section \<open>Properties\<close>

text \<open>The test of the two writing functions passes: on a library that puts pieces at multiples of
  their size, \<open>write_without_alignment\<close> reports 127 bytes and \<open>write_with_alignment\<close> 381 bytes of
  alignment before a piece of 508.\<close>
lemma alignment_test_passes:
  assumes L: "quiet I F L" and E: "env_contract I F E" and W: "writes_pieces I F S M"
    and w: "shows_view I F d w" and room: "3 \<le> room d"
  shows "\<exists>w'. test_write_with_and_without_alignment E L S w = (Returns (Inr ()), w')"
proof -
  have cap: "lib_max_user_bytes S (to_api_seal RegisteredSealProof.StackedDrg2KiBV1) = Returns 2032"
    using W by (simp add: writes_pieces_def)
  have "wp (test_write_with_and_without_alignment E L S) (\<lambda>r _. r = Inr ()) w"
    unfolding test_write_with_and_without_alignment_def Let_def wp_bind
    apply (rule gen_works [OF E w], unfold wp_try_io)
    apply (erule piece_file_works [OF E], use room in simp, simp only: sum.case wp_try_io)
    apply (erule piece_file_works [OF E], use room in simp, simp only: sum.case wp_try_io)
    apply (erule wp_lift_ext [OF create_laws [OF E, THEN conjunct2, THEN conjunct1], rotated])
     apply (simp only: sum.case)
     apply (erule write_and_check_works [OF L W _ cap])
      apply (auto simp: can_write_def piece_written_def split: if_splits)[2]
    apply (use room in simp)
    done
  then show ?thesis by (auto simp: wp_def)
qed

lemma alignment_test_passes_instance:
  "\<exists>w'. test_write_with_and_without_alignment bench_env bench_logger bench_seal bench_start = (Returns (Inr ()), w')"
  by (rule alignment_test_passes [OF bench_quiet bench_env_contract bench_writes_pieces bench_start_view(1)])
     (simp add: bench_start_view)

text \<open>C13: the test of aggregation passes, for both versions of the proof, on every library that keeps the
  contracts of writing pieces, sealing and proving over the files and their caches, with a logger
  that returns, temporary files for as many as the test makes, and a parallel reduction that
  reduces its items in order: a sector that is sealed through the exported functions is proved, its
  proofs verify one by one and aggregated, and the test leaves no named file behind. Every value
  that one function of the library returns reaches the next one in the place where it belongs.\<close>
theorem sealing_aggregation_test_passes:
  assumes L: "quiet I F L" and E: "env_contract I F E" and W: "writes_pieces I F S M" and Q: "seals_sectors I F S M"
    and P: "proves_sectors I F S M" and T: "rayon_contract try_reduce" and w: "shows_view I F d w" and room: "5 \<le> room d"
    and p: "p \<in> {RegisteredSealProof.StackedDrg2KiBV1, RegisteredSealProof.StackedDrg2KiBV1_1}"
  shows "\<exists>w'. test_sealing_aggregation E L S try_reduce p agg w = (Returns (Inr ()), w') \<and>
    (\<forall>path. bytes_of (F (ext w')) (Named path) = bytes_of d (Named path))"
proof -
  from p W have cap: "lib_max_user_bytes S (to_api_seal p) = Returns 2032" by (auto simp: writes_pieces_def)
  have "wp (test_sealing_aggregation E L S try_reduce p agg) (\<lambda>r w'. r = Inr () \<and>
    (\<forall>path. bytes_of (F (ext w')) (Named path) = bytes_of d (Named path))) w"
    unfolding test_sealing_aggregation_def Let_def wp_try_io
    apply (rule sector_files_works [OF E w room], simp only: sum.case prod.case)
    apply (rule sealed_sector_works [OF L W Q _ cap], assumption, assumption, unfold wp_bind)
    apply (rule commit_sector_works [OF L P], assumption, assumption, simp only: prod.case wp_bind)
    apply (rule aggregate_and_verify_works [OF L P _ T], assumption, rule refl, simp add: sector_sealed_def, assumption, assumption,
        simp only: wp_try_io)
    apply (rule ensure_removed_works [OF E], assumption, assumption, simp, simp only: sum.case wp_try_io)
    apply (rule ensure_removed_works [OF E], assumption, assumption, force simp: files_ready_def)
    apply (simp only: sum.case wp_ret simp_thms, erule (1) temporary_gone, blast)
    done
  then show ?thesis by (auto simp: wp_def)
qed

theorem sealing_aggregation_test_passes_witness:
  "\<exists>w'. test_sealing_aggregation bench_env bench_logger bench_seal sequential RegisteredSealProof.StackedDrg2KiBV1
     RegisteredAggregationProof.SnarkPackV1 bench_start = (Returns (Inr ()), w') \<and>
   (\<forall>path. bytes_of (id (ext w')) (Named path) = bytes_of (ext bench_start) (Named path))"
  by (rule sealing_aggregation_test_passes [OF bench_quiet bench_env_contract bench_writes_pieces bench_seals_sectors
        bench_proves_sectors sequential_contract bench_start_view(1)]) (simp_all add: bench_start_view)

text \<open>The test of faulty sectors passes, for both versions of the proof: when the file of a sealed
  sector is empty, \<open>generate_window_post\<close> fails and names the sector 42; the test leaves no named
  file behind.\<close>
lemma faulty_sectors_test_passes:
  assumes L: "quiet I F L" and E: "env_contract I F E" and W: "writes_pieces I F S M" and Q: "seals_sectors I F S M"
    and P: "finds_faults I F M P" and w: "shows_view I F d w" and room: "6 \<le> room d"
    and p: "p \<in> {RegisteredSealProof.StackedDrg2KiBV1, RegisteredSealProof.StackedDrg2KiBV1_1}"
  shows "\<exists>w'. test_faulty_sectors_inner E L S P p w = (Returns (Inr ()), w') \<and>
    (\<forall>path. bytes_of (F (ext w')) (Named path) = bytes_of d (Named path))"
proof -
  from p W have cap: "lib_max_user_bytes S (to_api_seal p) = Returns 2032" by (auto simp: writes_pieces_def)
  have room': "5 \<le> room d" using room by simp
  have "wp (test_faulty_sectors_inner E L S P p) (\<lambda>r w'. r = Inr () \<and>
    (\<forall>path. bytes_of (F (ext w')) (Named path) = bytes_of d (Named path))) w"
    unfolding test_faulty_sectors_inner_def Let_def wp_try_io
    apply (rule sector_files_works [OF E w room'], simp only: sum.case prod.case)
    apply (rule sealed_sector_works [OF L W Q _ cap], assumption, assumption, unfold wp_try_io)
    apply (rule named_tempfile_works [OF E], assumption, use room in \<open>simp add: touches_room\<close>)
    apply (frule (1) temporary_fresh)
    apply (simp only: sum.case prod.case wp_bind wp_try_io)
    apply (rule faulty_window_post_works [OF L P], assumption, simp, simp, fastforce simp: sector_sealed_def)
    apply (simp only: wp_checks wp_bind wp_try_io Result_err_sel GenerateWindowPoSt.simps, intro conjI refl, simp)
    apply (rule ensure_removed_works [OF E], assumption, erule (1) temporary_new,
        simp, simp only: sum.case)
    apply (rule ensure_removed_works [OF E], assumption, assumption, force simp: files_ready_def, simp only: wp_bind)
    apply (rule remove_file_works [OF E], assumption, assumption, force)
    apply (simp only: wp_ret simp_thms, erule (1) temporary_gone, blast)
    done
  then show ?thesis by (auto simp: wp_def)
qed

lemma faulty_sectors_test_passes_instance:
  "\<exists>w'. test_faulty_sectors_inner bench_env bench_logger bench_seal bench_post RegisteredSealProof.StackedDrg2KiBV1_1
     bench_start = (Returns (Inr ()), w') \<and>
   (\<forall>path. bytes_of (id (ext w')) (Named path) = bytes_of (ext bench_start) (Named path))"
  by (rule faulty_sectors_test_passes [OF bench_quiet bench_env_contract bench_writes_pieces bench_seals_sectors
        bench_finds_faults bench_start_view(1)]) (simp_all add: bench_start_view)

end
