(* ===== verification/Update_Tests.thy ===== *)
theory Update_Tests
  imports Update_Contract Seal_Tests
begin

text \<open>
  The part of the sealing test of \<open>rust/src/proofs/api.rs\<close> that updates the sector: new data is
  encoded into it, the update is proved and verified, the data is decoded and removed again,
  and both results are compared with the files they must be equal to (\<open>compare_elements\<close>). The
  lemmas are the rules for its stages and that it succeeds and leaves the files as they were.
\<close>

section \<open>Comparing files\<close>

text \<open>The indices of \<open>(0..end).step_by(step)\<close>, and slicing, which panics out of range.\<close>

definition step_by :: "nat \<Rightarrow> nat \<Rightarrow> nat list" where
  "step_by stop step = map (\<lambda>k. k * step) [0..<(stop + step - 1) div step]"

definition slice_of :: "bytes \<Rightarrow> nat \<Rightarrow> nat \<Rightarrow> bytes exec" where
  "slice_of data from len =
     (if length data < from + len then Panics (StringPayload ''range end index out of range for slice'')
      else Returns (take len (drop from data)))"

text \<open>\<open>bytes_into_fr\<close> is the function of the crate \<open>fr32\<close>; an element has 32 bytes.\<close>

fun compare_loop :: "(bytes \<Rightarrow> anyhow + 'el) \<Rightarrow> bytes \<Rightarrow> bytes \<Rightarrow> nat list \<Rightarrow> (anyhow + unit) exec" where
  "compare_loop bytes_into_fr data1 data2 [] = Returns (Inr ())"
| "compare_loop bytes_into_fr data1 data2 (index # rest) =
     bind_exec (slice_of data1 index 32) (\<lambda>slice1.
     case bytes_into_fr slice1 of
       Inl e \<Rightarrow> Returns (Inl e)
     | Inr fr1 \<Rightarrow>
         bind_exec (slice_of data2 index 32) (\<lambda>slice2.
         case bytes_into_fr slice2 of
           Inl e \<Rightarrow> Returns (Inl e)
         | Inr fr2 \<Rightarrow>
             if fr1 = fr2 then compare_loop bytes_into_fr data1 data2 rest
             else Returns (Inl (AnyhowMsg ''Data mismatch when comparing elements''))))"

text \<open>The lines of the log go on with the two paths, which nothing reads.\<close>

definition compare_elements ::
    "'s test_env \<Rightarrow> 's logger \<Rightarrow> (bytes \<Rightarrow> anyhow + 'el) \<Rightarrow> path \<Rightarrow> path \<Rightarrow> ('s world, anyhow + unit) io" where
  "compare_elements E L bytes_into_fr path1 path2 =
     bind_io (info L ''Comparing elements between '') (\<lambda>_.
     try_io (lift_ext (env_mmap E path1)) (\<lambda>data1.
     try_io (lift_ext (env_mmap E path2)) (\<lambda>data2.
     try_io (lift_ext (env_file_len E path1)) (\<lambda>stop.
     try_io (lift_ext (env_file_len E path2)) (\<lambda>len2.
     if len2 \<noteq> stop then ret (Inl (AnyhowMsg ''File sizes must match''))
     else
       try_io (from_exec (compare_loop bytes_into_fr data1 data2 (step_by (unat stop) 32))) (\<lambda>_.
       bind_io (info L ''Match found for '') (\<lambda>_.
       ret (Inr ()))))))))"

section \<open>Updating the sector\<close>

definition update_files ::
    "'s test_env \<Rightarrow> bytes \<Rightarrow>
     ('s world, anyhow + path \<times> path \<times> bytes \<times> i32 \<times> i32 \<times> i32 \<times> path \<times> path \<times> path \<times> path) io" where
  "update_files E buf_a =
     try_io (lift_ext (env_tempdir E)) (\<lambda>new_cache_dir_path.
     try_io (lift_ext (env_tempdir E)) (\<lambda>removed_data_dir_path.
     bind_io (lift_ext (env_gen E 2032)) (\<lambda>buf_b.
     try_io (piece_file E (take 127 buf_b)) (\<lambda>piece_file_c_fd.
     try_io (piece_file E (take 1016 buf_a)) (\<lambda>piece_file_d_fd.
     try_io (kept_file E) (\<lambda>(new_staged_sector_fd, new_staged_path).
     try_io (kept_file E) (\<lambda>(_, new_sealed_path).
     try_io (kept_file E) (\<lambda>(_, decoded_path).
     try_io (kept_file E) (\<lambda>(_, removed_data_path).
     ret (Inr (new_cache_dir_path, removed_data_dir_path, buf_b, piece_file_c_fd, piece_file_d_fd, new_staged_sector_fd,
       new_staged_path, new_sealed_path, decoded_path, removed_data_path)))))))))))"

definition encode_update ::
    "'s test_env \<Rightarrow> 's logger \<Rightarrow> ('s, 'p1, 'c1, 'fr) seal_lib \<Rightarrow> 's update_lib \<Rightarrow> RegisteredSealProof \<Rightarrow> RegisteredUpdateProof
      \<Rightarrow> path \<Rightarrow> path \<Rightarrow> i32 \<Rightarrow> i32 \<Rightarrow> i32 \<Rightarrow> path \<Rightarrow> path \<Rightarrow> path
      \<Rightarrow> ('s world, anyhow + u64 \<times> EmptySectorUpdateEncodeInto Result) io" where
  "encode_update E L S U registered_proof_seal registered_proof_empty_sector_update cache_dir_path sealed_path
     piece_file_c_fd piece_file_d_fd new_staged_sector_fd new_staged_path new_sealed_path new_cache_dir_path =
     bind_io (write_two_pieces L S registered_proof_seal piece_file_c_fd piece_file_d_fd new_staged_sector_fd)
       (\<lambda>(new_pieces, _, _).
     bind_io (generate_data_commitment L S registered_proof_seal new_pieces) (\<lambda>resp_new_x.
     expect_ok ''generate_data_commitment'' resp_new_x (
     try_io (lift_ext (env_file_len E sealed_path)) (\<lambda>new_sealed_target_len.
     try_io (lift_ext (env_resize E new_sealed_path new_sealed_target_len)) (\<lambda>_.
     bind_io (empty_sector_update_encode_into L U registered_proof_empty_sector_update new_sealed_path
       new_cache_dir_path sealed_path cache_dir_path new_staged_path new_pieces) (\<lambda>resp_encode.
     expect_ok ''empty_sector_update_encode_into'' resp_encode (
     ret (Inr (new_sealed_target_len, resp_encode)))))))))"

definition prove_update ::
    "'s logger \<Rightarrow> 's update_lib \<Rightarrow> RegisteredUpdateProof \<Rightarrow> array32 \<Rightarrow> array32 \<Rightarrow> array32 \<Rightarrow> path \<Rightarrow> path \<Rightarrow> path \<Rightarrow> path
      \<Rightarrow> ('s world, unit) io" where
  "prove_update L U registered_proof_empty_sector_update comm_r comm_r_new comm_d_new sealed_path cache_dir_path
     new_sealed_path new_cache_dir_path =
     bind_io (generate_empty_sector_update_partition_proofs L U registered_proof_empty_sector_update comm_r comm_r_new
       comm_d_new sealed_path cache_dir_path new_sealed_path new_cache_dir_path) (\<lambda>resp_partition_proofs.
     expect_ok ''generate_partition_proofs'' resp_partition_proofs (
     bind_io (verify_empty_sector_update_partition_proofs L U registered_proof_empty_sector_update
       (value_of resp_partition_proofs) comm_r comm_r_new comm_d_new) (\<lambda>resp_verify_partition_proofs.
     expect_ok ''verify_partition_proofs'' resp_verify_partition_proofs (
     bind_io (generate_empty_sector_update_proof_with_vanilla L U registered_proof_empty_sector_update
       (value_of resp_partition_proofs) comm_r comm_r_new comm_d_new) (\<lambda>resp_empty_sector_update.
     expect_ok ''generate_empty_sector_update_proof_with_vanilla'' resp_empty_sector_update (
     bind_io (verify_empty_sector_update_proof L U registered_proof_empty_sector_update
       (value_of resp_empty_sector_update) comm_r comm_r_new comm_d_new) (\<lambda>resp_verify_empty_sector_update.
     expect_ok ''verify_empty_sector_update_proof'' resp_verify_empty_sector_update (
     bind_io (generate_empty_sector_update_proof L U registered_proof_empty_sector_update comm_r comm_r_new comm_d_new
       sealed_path cache_dir_path new_sealed_path new_cache_dir_path) (\<lambda>resp_empty_sector_update2.
     expect_ok ''generate_empty_sector_update_proof'' resp_empty_sector_update2 (
     bind_io (verify_empty_sector_update_proof L U registered_proof_empty_sector_update
       (value_of resp_empty_sector_update2) comm_r comm_r_new comm_d_new) (\<lambda>resp_verify_empty_sector_update2.
     expect_ok ''verify_empty_sector_update_proof'' resp_verify_empty_sector_update2 (
     ret ()))))))))))))"

definition decode_update ::
    "'s test_env \<Rightarrow> 's logger \<Rightarrow> 's update_lib \<Rightarrow> (bytes \<Rightarrow> anyhow + 'el) \<Rightarrow> RegisteredUpdateProof \<Rightarrow> u64 \<Rightarrow> array32
      \<Rightarrow> path \<Rightarrow> path \<Rightarrow> path \<Rightarrow> path \<Rightarrow> path \<Rightarrow> path \<Rightarrow> path \<Rightarrow> ('s world, anyhow + unit) io" where
  "decode_update E L U bytes_into_fr registered_proof_empty_sector_update new_sealed_target_len comm_d_new sealed_path
     cache_dir_path new_staged_path new_sealed_path decoded_path removed_data_path removed_data_dir_path =
     try_io (lift_ext (env_resize E decoded_path new_sealed_target_len)) (\<lambda>_.
     bind_io (empty_sector_update_decode_from L U registered_proof_empty_sector_update decoded_path new_sealed_path
       sealed_path cache_dir_path comm_d_new) (\<lambda>resp_decode.
     expect_ok ''empty_sector_update_decode_from'' resp_decode (
     try_io (compare_elements E L bytes_into_fr decoded_path new_staged_path) (\<lambda>_.
     try_io (lift_ext (env_resize E removed_data_path new_sealed_target_len)) (\<lambda>_.
     bind_io (empty_sector_update_remove_encoded_data L U registered_proof_empty_sector_update removed_data_path
       removed_data_dir_path new_sealed_path cache_dir_path new_staged_path comm_d_new) (\<lambda>resp_removed.
     expect_ok ''empty_sector_update_remove_encoded_data'' resp_removed (
     compare_elements E L bytes_into_fr removed_data_path sealed_path)))))))"

definition update_sector ::
    "'s test_env \<Rightarrow> 's logger \<Rightarrow> ('s, 'p1, 'c1, 'fr) seal_lib \<Rightarrow> 's update_lib \<Rightarrow> (bytes \<Rightarrow> anyhow + 'el) \<Rightarrow> RegisteredSealProof
      \<Rightarrow> path \<Rightarrow> path \<Rightarrow> bytes \<Rightarrow> array32 \<Rightarrow> ('s world, anyhow + unit) io" where
  "update_sector E L S U bytes_into_fr registered_proof_seal cache_dir_path sealed_path buf_a comm_r =
     (let registered_proof_empty_sector_update = RegisteredUpdateProof.StackedDrg2KiBV1
      in
      try_io (update_files E buf_a) (\<lambda>(new_cache_dir_path, removed_data_dir_path, _, piece_file_c_fd, piece_file_d_fd,
        new_staged_sector_fd, new_staged_path, new_sealed_path, decoded_path, removed_data_path).
      try_io (encode_update E L S U registered_proof_seal registered_proof_empty_sector_update cache_dir_path sealed_path
        piece_file_c_fd piece_file_d_fd new_staged_sector_fd new_staged_path new_sealed_path new_cache_dir_path)
        (\<lambda>(new_sealed_target_len, resp_encode).
      bind_io (prove_update L U registered_proof_empty_sector_update comm_r (upd_comm_r_new (value_of resp_encode))
        (upd_comm_d_new (value_of resp_encode)) sealed_path cache_dir_path new_sealed_path new_cache_dir_path) (\<lambda>_.
      try_io (decode_update E L U bytes_into_fr registered_proof_empty_sector_update new_sealed_target_len
        (upd_comm_d_new (value_of resp_encode)) sealed_path cache_dir_path new_staged_path new_sealed_path decoded_path
        removed_data_path removed_data_dir_path) (\<lambda>_.
      try_io (ensure_removed E new_staged_path ''failed to remove new_staged_path'') (\<lambda>_.
      try_io (ensure_removed E new_sealed_path ''failed to remove new_sealed_path'') (\<lambda>_.
      try_io (ensure_removed E decoded_path ''failed to remove decoded_path'') (\<lambda>_.
      ensure_removed E removed_data_path ''failed to remove unseal_path''))))))))"

section \<open>Comparing files that are the same\<close>

lemma compare_loop_same:
  assumes "\<forall>i \<in> set is. i + 32 \<le> length b \<and> (\<exists>x. into_fr (take 32 (drop i b)) = Inr x)"
  shows "compare_loop into_fr b b is = Returns (Inr ())"
  using assms by (induction "is") (auto simp: slice_of_def bind_exec_def)

lemma step_by_elements:
  assumes "32 dvd stop" and "i \<in> set (step_by stop 32)"
  shows "32 dvd i \<and> i + 32 \<le> stop"
proof -
  from assms(1) obtain m where m: "stop = 32 * m" by blast
  have "(32 * m + 31) div 32 = m" by simp
  with assms(2) obtain k where "i = k * 32" "k < m" by (auto simp: step_by_def m)
  then show ?thesis by (simp add: m)
qed

lemma compare_elements_works:
  assumes E: "env_contract I F E" and L: "quiet I F L" and w: "shows_view I F d w"
    and files: "bytes_of d (Named p) = Some b" "bytes_of d (Named q) = Some b" and el: "fr_elements into_fr b"
    and R: "\<And>w'. shows_view I F d w' \<Longrightarrow> R (Inr ()) w'"
  shows "wp (compare_elements E L into_fr p q) R w"
proof -
  let ?stop = "unat (word_of_nat (length b) :: u64)"
  have b: "b \<noteq> []" "32 dvd length b" using el by (simp_all add: fr_elements_def)
  have stop: "?stop = length b mod 2 ^ 64" by (simp add: unat_of_nat)
  have "(32 :: nat) dvd 2 ^ 64" by simp
  with b(2) have "32 dvd ?stop" unfolding stop by (rule dvd_mod)
  moreover have "?stop \<le> length b" unfolding stop by (rule mod_less_eq_dividend)
  ultimately have loop: "compare_loop into_fr b b (step_by ?stop 32) = Returns (Inr ())"
    using step_by_elements [of ?stop] el by (intro compare_loop_same) (fastforce simp: fr_elements_def)
  show ?thesis
    unfolding compare_elements_def wp_bind wp_try_io
    apply (rule info_works [OF L w], erule mmap_works [OF E], rule files, rule b, simp only: sum.case)
    apply (erule mmap_works [OF E], rule files, rule b, simp only: sum.case wp_try_io)
    apply (erule file_len_works [OF E], rule files, simp only: sum.case wp_try_io)
    apply (erule file_len_works [OF E], rule files, simp only: sum.case if_cancel simp_thms if_False wp_try_io loop)
    apply (simp only: wp_from_exec exec.inject simp_thms sum.case wp_bind ex_simps)
    apply (erule info_works [OF L], simp add: R)
    done
qed

section \<open>Stages\<close>

text \<open>The files of the update, over the files \<open>d0\<close> that were there before it.\<close>

definition update_ready ::
    "disk \<Rightarrow> disk \<Rightarrow> bytes \<Rightarrow> path \<Rightarrow> path \<Rightarrow> bytes \<Rightarrow> i32 \<Rightarrow> i32 \<Rightarrow> i32 \<Rightarrow> path \<Rightarrow> path \<Rightarrow> path \<Rightarrow> path \<Rightarrow> bool" where
  "update_ready d0 d buf_a cache removed_dir buf c e staged_fd staged sealed decoded removed \<longleftrightarrow>
     caches d cache = Some [] \<and> caches d removed_dir = Some [] \<and> cache \<noteq> removed_dir \<and>
     (\<forall>q \<in> {cache, removed_dir}. caches d0 q = None) \<and> length buf = 2032 \<and> distinct [c, e, staged_fd] \<and>
     distinct [staged, sealed, decoded, removed] \<and>
     opened d c = Some (Anon c, 0) \<and> bytes_of d (Anon c) = Some (take 127 buf) \<and>
     opened d e = Some (Anon e, 0) \<and> bytes_of d (Anon e) = Some (take 1016 buf_a) \<and>
     opened d staged_fd = Some (Named staged, 0) \<and> bytes_of d (Named staged) = Some [] \<and>
     bytes_of d (Named sealed) = Some [] \<and> bytes_of d (Named decoded) = Some [] \<and> bytes_of d (Named removed) = Some [] \<and>
     temporary d0 d {staged, sealed, decoded, removed} \<and> undisturbed d0 d \<and> (\<forall>fd \<in> {c, e, staged_fd}. opened d0 fd = None)"

lemma fresh_upd: "(m(k \<mapsto> v)) x = None \<longleftrightarrow> x \<noteq> k \<and> m x = None"
  by simp

lemma update_files_works:
  assumes E: "env_contract I F E" and w: "shows_view I F d0 w" and "8 \<le> room d0"
    and R: "\<And>d cache removed_dir buf c e staged_fd staged sealed decoded removed w'.
      update_ready d0 d buf_a cache removed_dir buf c e staged_fd staged sealed decoded removed \<Longrightarrow> shows_view I F d w' \<Longrightarrow>
      R (Inr (cache, removed_dir, buf, c, e, staged_fd, staged, sealed, decoded, removed)) w'"
  shows "wp (update_files E buf_a) R w"
  unfolding update_files_def wp_try_io
  apply (rule tempdir_makes [OF E w], use assms(3) in simp, simp only: sum.case wp_try_io)
  apply (erule tempdir_makes [OF E], use assms(3) in simp, simp only: sum.case wp_bind)
  apply (erule gen_works [OF E], unfold wp_try_io)
  apply (erule piece_file_makes [OF E], use assms(3) in simp, simp only: sum.case)
  apply (erule piece_file_makes [OF E], use assms(3) in simp, simp only: sum.case)
  apply (erule kept_file_makes [OF E], use assms(3) in simp, simp only: sum.case prod.case wp_try_io)
  apply (erule kept_file_makes [OF E], use assms(3) in simp, simp only: sum.case prod.case wp_try_io)
  apply (erule kept_file_makes [OF E], use assms(3) in simp, simp only: sum.case prod.case wp_try_io)
  apply (erule kept_file_makes [OF E], use assms(3) in simp, simp only: sum.case prod.case wp_ret)
  apply (erule R [rotated])
  apply (simp only: fresh_upd inode.inject inode.distinct simp_thms)
  apply (elim conjE)
  apply (simp (no_asm_simp) add: update_ready_def temporary_def undisturbed_def)
  done

text \<open>What the test knows once the data is encoded.\<close>

definition update_encoded ::
    "update_meaning \<Rightarrow> (bytes \<Rightarrow> anyhow + 'el) \<Rightarrow> disk \<Rightarrow> sector_update \<Rightarrow> path \<Rightarrow> path \<Rightarrow> path \<Rightarrow> path \<Rightarrow> path \<Rightarrow> bool" where
  "update_encoded N into_fr d u key key_cache replica cache staged \<longleftrightarrow>
     updated N u \<and> su_proof u = to_api_update RegisteredUpdateProof.StackedDrg2KiBV1 \<and>
     bytes_of d (Named key) = Some (su_key u) \<and> bytes_of d (Named replica) = Some (su_replica u) \<and>
     caches d key_cache = Some (su_key_cache u) \<and> caches d cache = Some (su_cache u) \<and>
     bytes_of d (Named staged) = Some (su_data u) \<and> length (su_key u) = 2048 \<and>
     fr_elements into_fr (su_key u) \<and> fr_elements into_fr (su_data u)"

lemma zeros:
  "take (unat (word_of_nat 2048 :: u64)) [] @ replicate (unat (word_of_nat 2048 :: u64) - length ([] :: bytes)) 0 =
     (replicate 2048 0 :: bytes)"
  by (simp)

lemma encode_update_works:
  assumes L: "quiet I F L" and E: "env_contract I F E" and W: "writes_pieces I F S M" and Q: "seals_sectors I F S M"
    and C: "sector_contents into_fr S M" and U: "encodes_updates I F M U N" and w: "shows_view I F d w"
    and cap: "lib_max_user_bytes S (to_api_seal p) = Returns 2032"
    and job: "replica_for M out job" "is_replica M kb kc (out_comm_r out)" "length (job_data job) = 2032"
    and key: "bytes_of d (Named key) = Some kb" "key \<notin> {staged, sealed}" "caches d key_cache = Some kc" "cache \<noteq> key_cache"
    and buf_a: "length buf_a = 2032"
    and ready: "update_ready d0 d buf_a cache removed_dir buf c e staged_fd staged sealed decoded removed"
    and R: "\<And>u enc d' w'. update_encoded N into_fr d' u key key_cache sealed cache staged \<Longrightarrow> su_comm_r_old u = out_comm_r out \<Longrightarrow> upd_comm_r_new enc = su_comm_r_new u \<Longrightarrow>
      upd_comm_d_new enc = su_comm_d_new u \<Longrightarrow> touches {c, e, staged_fd} {staged, sealed} {cache} d d' \<Longrightarrow>
      shows_view I F d' w' \<Longrightarrow> R (Inr (2048, Result_ok enc)) w'"
  shows "wp (encode_update E L S U p RegisteredUpdateProof.StackedDrg2KiBV1 key_cache key c e staged_fd staged sealed cache) R w"
proof -
  have files: "opened d c = Some (Anon c, 0)" "bytes_of d (Anon c) = Some (take 127 buf)" "opened d e = Some (Anon e, 0)"
      "bytes_of d (Anon e) = Some (take 1016 buf_a)" "opened d staged_fd = Some (Named staged, 0)"
      "bytes_of d (Named staged) = Some []" and lens: "length buf = 2032" "length buf_a = 2032"
    and fds: "distinct [c, e, staged_fd]" and new: "bytes_of d (Named sealed) = Some []" "staged \<noteq> sealed" "caches d cache = Some []"
    using ready buf_a by (simp_all add: update_ready_def)
  have kb: "length kb = 2048" "fr_elements into_fr kb" using replica_contents [OF C job(1,2)] job(3) by simp_all
  show ?thesis
    unfolding encode_update_def wp_bind
  proof (rule write_two_pieces_works [OF L W w cap files lens fds], simp only: prod.case wp_bind)
    fix pieces d1 w1
    assume staged: "pieces_staged M d1 staged pieces (sector_data buf buf_a)" and t1: "touches {c, e, staged_fd} {staged} {} d d1"
      and w1: "shows_view I F d1 w1"
    from staged obtain sb where sb: "bytes_of d1 (Named staged) = Some sb" "holds_pieces M (map to_api_piece pieces) sb"
      and sizes: "map num_bytes pieces = [127, 1016]" by (auto simp: pieces_staged_def)
    have full: "pieces \<noteq> []" "end_of_pieces (map piece_size (map to_api_piece pieces)) = 2032"
      using sizes by (auto simp: to_api_piece_def comp_def)
    have sb_len: "length sb = 2048" "fr_elements into_fr sb" using staged_contents [OF C cap sb(2)] full(2) by simp_all
    let ?d2 = "d1\<lparr>bytes_of := (bytes_of d1)(Named sealed \<mapsto> replicate 2048 0)\<rparr>"
    let ?d3 = "\<lambda>b q. written_with ?d2 sealed b cache q"
    have d1: "bytes_of d1 (Named key) = Some kb" "bytes_of d1 (Named sealed) = Some []" "caches d1 cache = Some []"
      "caches d1 key_cache = Some kc"
      using touches_bytes [OF t1] touches_cache [OF t1] key new by simp_all
    have "touches {} {sealed} {cache} d1 (?d3 b q)" for b q using d1(2,3) by (simp add: touches_def)
    from touches_trans [OF t1 this] have t: "touches {c, e, staged_fd} {staged, sealed} {cache} d (?d3 b q)" for b q
      by (simp add: insert_commute)
    note encode = encode_into_works [OF L U, where key = key and kb = kb and key_cache = key_cache and kc = kc and
        comm_r = "out_comm_r out" and staged = staged and sb = sb and pieces = pieces and new = sealed and
        nb = "replicate 2048 0" and new_cache = cache and d = ?d2]
    have encode_files: "bytes_of ?d2 (Named key) = Some kb" "caches ?d2 key_cache = Some kc" "is_replica M kb kc (out_comm_r out)"
      "bytes_of ?d2 (Named staged) = Some sb" "holds_pieces M (map to_api_piece pieces) sb"
      "bytes_of ?d2 (Named sealed) = Some (replicate 2048 0)" "length kb = 2048" "length sb = 2048"
      "length (replicate 2048 0 :: bytes) = 2048" "sealed \<noteq> key" "sealed \<noteq> staged" "caches ?d2 cache = Some []" "cache \<noteq> key_cache"
      using d1 key new sb kb sb_len job by auto
    show "wp (generate_data_commitment L S p pieces) (\<lambda>x. wp (expect_ok ''generate_data_commitment'' x
        (try_io (lift_ext (env_file_len E key)) (\<lambda>n. try_io (lift_ext (env_resize E sealed n)) (\<lambda>_.
         bind_io (empty_sector_update_encode_into L U RegisteredUpdateProof.StackedDrg2KiBV1 sealed cache key
           key_cache staged pieces) (\<lambda>resp. expect_ok ''empty_sector_update_encode_into'' resp
             (ret (Inr (n, resp)))))))) R) w1"
      apply (rule generate_data_commitment_works [OF L Q w1 cap sb(2) full], unfold wp_checks wp_try_io)
      apply (erule file_len_works [OF E], rule d1, simp only: sum.case wp_try_io kb)
      apply (erule resize_works [OF E], rule d1, simp only: sum.case wp_bind zeros)
      apply (erule encode, (rule encode_files)+)
      apply (simp only: wp_checks wp_ret of_nat_numeral)
      apply (rule R [OF _ _ _ _ t], use key new in \<open>simp_all add: update_encoded_def d1 sb kb sb_len\<close>)
      done
  qed
qed

lemma prove_update_works:
  assumes L: "quiet I F L" and U: "proves_updates I F U N" and w: "shows_view I F d w"
    and u: "update_encoded N into_fr d u key key_cache replica cache staged" and R: "\<And>w'. shows_view I F d w' \<Longrightarrow> R () w'"
  shows "wp (prove_update L U RegisteredUpdateProof.StackedDrg2KiBV1 (su_comm_r_old u) (su_comm_r_new u) (su_comm_d_new u)
    key key_cache replica cache) R w"
proof -
  have u: "updated N u" and p: "su_proof u = to_api_update RegisteredUpdateProof.StackedDrg2KiBV1"
    and files: "bytes_of d (Named key) = Some (su_key u)" "bytes_of d (Named replica) = Some (su_replica u)"
      "caches d key_cache = Some (su_key_cache u)" "caches d cache = Some (su_cache u)"
    using u by (simp_all add: update_encoded_def)
  note make = update_provers_work [OF L U _ u p files] and combine = partition_users_work [OF L U _ _ p]
    and check = verify_update_proof_works [OF L U _ _ p]
  show ?thesis
    unfolding prove_update_def wp_bind
    apply (rule make(1) [OF w], unfold wp_checks wp_bind Result_ok_sel)
    apply (rule combine(1), assumption, assumption, unfold wp_checks wp_bind)
    apply (rule combine(2), assumption, assumption, unfold wp_checks wp_bind Result_ok_sel)
    apply (rule check, assumption, assumption, unfold wp_checks wp_bind)
    apply (rule make(2), assumption, unfold wp_checks wp_bind Result_ok_sel)
    apply (rule check, assumption, assumption, unfold wp_checks wp_ret)
    apply (erule R)
    done
qed

text \<open>The test looks at the status of the three verifications and not at their verdicts: this part
  passes on a library whose verifiers refuse every proof.\<close>

lemma update_verdicts_not_checked:
  assumes L: "quiet I F L" and U: "proves_updates I F U N" and w: "shows_view I F d w"
    and u: "update_encoded N into_fr d u key key_cache replica cache staged"
    and U': "U' = U\<lparr>lib_verify_partition_proofs := (\<lambda>p ps a b c. ret (Inr False)),
      lib_verify_update_proof := (\<lambda>p proof a b c. ret (Inr False))\<rparr>"
  shows "\<exists>w'. prove_update L U' RegisteredUpdateProof.StackedDrg2KiBV1 (su_comm_r_old u) (su_comm_r_new u) (su_comm_d_new u)
    key key_cache replica cache w = (Returns (), w')"
proof -
  have same: "generate_empty_sector_update_partition_proofs L U' = generate_empty_sector_update_partition_proofs L U"
    "generate_empty_sector_update_proof_with_vanilla L U' = generate_empty_sector_update_proof_with_vanilla L U"
    "generate_empty_sector_update_proof L U' = generate_empty_sector_update_proof L U"
    by (simp_all add: fun_eq_iff U' generate_empty_sector_update_partition_proofs_def
        generate_empty_sector_update_proof_with_vanilla_def generate_empty_sector_update_proof_def)
  have refuses: "delivers I F (ret (Inr False)) d (\<lambda>v d'. v = False \<and> d' = d)" by (auto simp: delivers_def)
  have no: "wp (verify_empty_sector_update_partition_proofs L U' p ps a b c) R v" "wp (verify_empty_sector_update_proof L U' p pr a b c) R v"
    if "shows_view I F d v" and "\<And>v'. shows_view I F d v' \<Longrightarrow> R (Result_ok False) v'" for p ps pr a b c R v
    unfolding verify_empty_sector_update_partition_proofs_def verify_empty_sector_update_proof_def U' Let_def
    by (simp, rule wp_guarded_call [OF L that(1) refuses], use that(2) in force)+
  have u: "updated N u" and p: "su_proof u = to_api_update RegisteredUpdateProof.StackedDrg2KiBV1"
    and files: "bytes_of d (Named key) = Some (su_key u)" "bytes_of d (Named replica) = Some (su_replica u)"
      "caches d key_cache = Some (su_key_cache u)" "caches d cache = Some (su_cache u)"
    using u by (simp_all add: update_encoded_def)
  note make = update_provers_work [OF L U _ u p files] and combine = partition_users_work(2) [OF L U _ _ p]
  have "wp (prove_update L U' RegisteredUpdateProof.StackedDrg2KiBV1 (su_comm_r_old u) (su_comm_r_new u) (su_comm_d_new u)
    key key_cache replica cache) (\<lambda>_ _. True) w"
    unfolding prove_update_def wp_bind same
    apply (rule make(1) [OF w], unfold wp_checks wp_bind Result_ok_sel)
    apply (rule no(1), assumption, unfold wp_checks wp_bind)
    apply (rule combine, assumption, assumption, unfold wp_checks wp_bind Result_ok_sel)
    apply (rule no(2), assumption, unfold wp_checks wp_bind)
    apply (rule make(2), assumption, unfold wp_checks wp_bind Result_ok_sel)
    apply (rule no(2), assumption, simp)
    done
  then show ?thesis by (auto simp: wp_def)
qed

lemma decode_update_works:
  assumes L: "quiet I F L" and E: "env_contract I F E" and U: "encodes_updates I F M U N" and w: "shows_view I F d w"
    and u: "update_encoded N into_fr d u key key_cache replica cache staged"
    and files: "bytes_of d (Named decoded) = Some []" "bytes_of d (Named removed) = Some []" "caches d removed_dir = Some []"
    and paths: "distinct [staged, replica, decoded, removed]" "key \<notin> {staged, replica, decoded, removed}"
      "removed_dir \<noteq> key_cache"
    and R: "\<And>d' w'. touches {} {decoded, removed} {removed_dir} d d' \<Longrightarrow> shows_view I F d' w' \<Longrightarrow> R (Inr ()) w'"
  shows "wp (decode_update E L U into_fr RegisteredUpdateProof.StackedDrg2KiBV1 2048 (su_comm_d_new u) key key_cache
    staged replica decoded removed removed_dir) R w"
proof -
  have zero: "take (unat (2048 :: u64)) [] @ replicate (unat (2048 :: u64) - length ([] :: bytes)) 0 = (replicate 2048 0 :: bytes)"
    using zeros by simp
  have u: "updated N u" and p: "su_proof u = to_api_update RegisteredUpdateProof.StackedDrg2KiBV1"
    and enc: "bytes_of d (Named key) = Some (su_key u)" "bytes_of d (Named replica) = Some (su_replica u)"
      "caches d key_cache = Some (su_key_cache u)" "bytes_of d (Named staged) = Some (su_data u)" "length (su_key u) = 2048"
      "fr_elements into_fr (su_key u)" "fr_elements into_fr (su_data u)"
    using u by (simp_all add: update_encoded_def)
  have len: "length (replicate 2048 0 :: bytes) = length (su_key u)" by (simp add: enc)
  define put where "put f b d = d\<lparr>bytes_of := (bytes_of d)(Named f \<mapsto> b)\<rparr>" for f b and d :: disk
  have put [simp]: "bytes_of (put f b d) (Named q) = (if q = f then Some b else bytes_of d (Named q))"
    "opened (put f b d) = opened d" "caches (put f b d) = caches d" "room (put f b d) = room d" for f b q d
    by (simp_all add: put_def)
  let ?d1 = "put decoded (replicate 2048 0) d" let ?d2 = "put decoded (su_data u) ?d1"
  let ?d3 = "put removed (replicate 2048 0) ?d2" let ?d4 = "\<lambda>q. written_with ?d3 removed (su_key u) removed_dir q"
  have ne: "decoded \<noteq> key" "decoded \<noteq> replica" "removed \<noteq> staged" "removed \<noteq> replica" "staged \<noteq> decoded" "removed \<noteq> decoded"
    "decoded \<noteq> removed" "replica \<noteq> decoded" "key \<noteq> decoded" "key \<noteq> removed" "staged \<noteq> removed" "replica \<noteq> removed"
    using paths by auto
  have touched: "touches {} {decoded, removed} {removed_dir} d (?d4 q)" for q using files by (simp add: touches_def)
  note resize = resize_works [OF E, folded put_def] and decode = decode_from_works [OF L U _ u p, folded put_def]
    and remove = remove_encoded_data_works [OF L U _ u p] and same = compare_elements_works [OF E L]
  show ?thesis
    unfolding decode_update_def wp_try_io
    apply (rule resize [OF w files(1)], simp only: sum.case wp_bind zero)
    apply (erule decode, simp, rule len, simp add: ne enc, simp add: enc, simp add: ne enc, rule ne, rule ne, unfold wp_checks wp_try_io)
    apply (erule same [where b = "su_data u"], simp, simp add: ne enc, rule enc, simp only: sum.case wp_try_io)
    apply (erule resize, simp add: ne files(2), simp only: sum.case wp_bind zero)
    apply (erule remove, simp, rule len, simp add: files(3), rule paths(3), simp add: ne enc, simp add: ne enc, simp add: enc,
        rule ne, rule ne, unfold wp_checks)
    apply (erule same [where b = "su_key u"], simp, simp add: ne enc, rule enc)
    apply (erule R [OF touched])
    done
qed

text \<open>The whole update: it succeeds, and no file and no descriptor is changed by it.\<close>

lemma update_sector_works:
  assumes L: "quiet I F L" and E: "env_contract I F E" and W: "writes_pieces I F S M" and Q: "seals_sectors I F S M"
    and C: "sector_contents into_fr S M" and U: "encodes_updates I F M U N" "proves_updates I F U N"
    and w: "shows_view I F d0 w" and room: "8 \<le> room d0"
    and cap: "lib_max_user_bytes S (to_api_seal p) = Returns 2032"
    and sealed: "sector_sealed M d0 job out" and lens: "length (job_data job) = 2032" "length buf_a = 2032"
    and R: "\<And>d w'. temporary d0 d {} \<Longrightarrow> undisturbed d0 d \<Longrightarrow> shows_view I F d w' \<Longrightarrow> R (Inr ()) w'"
  shows "wp (update_sector E L S U into_fr p (job_cache job) (job_sealed job) buf_a (out_comm_r out)) R w"
  unfolding update_sector_def Let_def wp_try_io
proof (rule update_files_works [OF E w room], simp only: sum.case prod.case wp_try_io)
  fix d cache removed_dir buf c e staged_fd and staged new decoded removed :: path and w1
  let ?ps = "{staged, new, decoded, removed}"
  assume ready: "update_ready d0 d buf_a cache removed_dir buf c e staged_fd staged new decoded removed"
    and w1: "shows_view I F d w1"
  from sealed obtain kb kc where kb: "replica_for M out job" "is_replica M kb kc (out_comm_r out)"
    and key: "bytes_of d0 (Named (job_sealed job)) = Some kb" "caches d0 (job_cache job) = Some kc" by (auto simp: sector_sealed_def)
  have temp: "temporary d0 d ?ps" and und: "undisturbed d0 d" and fresh: "\<forall>fd \<in> {c, e, staged_fd}. opened d0 fd = None"
    and paths: "distinct [staged, new, decoded, removed]"
    and files: "bytes_of d (Named decoded) = Some []" "bytes_of d (Named removed) = Some []" "caches d removed_dir = Some []"
    and dirs: "cache \<noteq> removed_dir" "\<forall>q \<in> {cache, removed_dir}. caches d0 q = None"
    using ready by (simp_all add: update_ready_def)
  have notin: "job_sealed job \<notin> ?ps" and key': "bytes_of d (Named (job_sealed job)) = Some kb"
    using temp key(1) unfolding temporary_def by (metis option.distinct(1))+
  have cache': "caches d (job_cache job) = Some kc" "cache \<noteq> job_cache job" "removed_dir \<noteq> job_cache job"
    using und key(2) dirs(2) by (auto simp: undisturbed_def)
  have done': "R (Inr ()) w'" if "temporary d0 d' (?ps - {staged} - {new} - {decoded} - {removed})" "undisturbed d0 d'"
    "shows_view I F d' w'" for d' w'
  proof -
    have "?ps - {staged} - {new} - {decoded} - {removed} = {}" by blast
    from R [OF that(1) [unfolded this] that(2,3)] show ?thesis .
  qed
  show "wp (encode_update E L S U p RegisteredUpdateProof.StackedDrg2KiBV1 (job_cache job) (job_sealed job) c e staged_fd
      staged new cache) (\<lambda>r. case r of Inl err \<Rightarrow> R (Inl err) | Inr a \<Rightarrow> wp (case a of (n, resp) \<Rightarrow>
      bind_io (prove_update L U RegisteredUpdateProof.StackedDrg2KiBV1 (out_comm_r out) (upd_comm_r_new (value_of resp))
        (upd_comm_d_new (value_of resp)) (job_sealed job) (job_cache job) new cache) (\<lambda>_.
      try_io (decode_update E L U into_fr RegisteredUpdateProof.StackedDrg2KiBV1 n (upd_comm_d_new (value_of resp))
        (job_sealed job) (job_cache job) staged new decoded removed removed_dir) (\<lambda>_.
      try_io (ensure_removed E staged ''failed to remove new_staged_path'') (\<lambda>_.
      try_io (ensure_removed E new ''failed to remove new_sealed_path'') (\<lambda>_.
      try_io (ensure_removed E decoded ''failed to remove decoded_path'') (\<lambda>_.
      ensure_removed E removed ''failed to remove unseal_path'')))))) R) w1"
  proof (rule encode_update_works [OF L E W Q C U(1) w1 cap kb lens(1) key' _ cache'(1,2) lens(2) ready], use notin in simp,
      simp only: sum.case prod.case wp_bind Result_ok_sel)
    fix u d2 w2 and resp :: EmptySectorUpdateEncodeInto
    assume enc: "update_encoded N into_fr d2 u (job_sealed job) (job_cache job) new cache staged"
      and u: "su_comm_r_old u = out_comm_r out"
      and t: "touches {c, e, staged_fd} {staged, new} {cache} d d2" and w2: "shows_view I F d2 w2"
    have files2: "bytes_of d2 (Named decoded) = Some []" "bytes_of d2 (Named removed) = Some []" "caches d2 removed_dir = Some []"
      using files paths dirs(1) touches_bytes [OF t, of decoded] touches_bytes [OF t, of removed]
        touches_cache [OF t, of removed_dir] by auto
    have left: "temporary d0 d3 ?ps \<and> undisturbed d0 d3" if "touches {} {decoded, removed} {removed_dir} d2 d3" for d3
    proof -
      from touches_trans [OF t that]
      have "touches {c, e, staged_fd} ({staged, new} \<union> {decoded, removed}) ({cache} \<union> {removed_dir}) d d3" by simp
      then show ?thesis using temporary_touched [OF temp] undisturbed_touched [OF und] fresh dirs(2) by simp
    qed
    show "wp (prove_update L U RegisteredUpdateProof.StackedDrg2KiBV1 (out_comm_r out) (su_comm_r_new u)
        (su_comm_d_new u) (job_sealed job) (job_cache job) new cache) (\<lambda>_. wp (
        try_io (decode_update E L U into_fr RegisteredUpdateProof.StackedDrg2KiBV1 2048 (su_comm_d_new u)
          (job_sealed job) (job_cache job) staged new decoded removed removed_dir) (\<lambda>_.
        try_io (ensure_removed E staged ''failed to remove new_staged_path'') (\<lambda>_.
        try_io (ensure_removed E new ''failed to remove new_sealed_path'') (\<lambda>_.
        try_io (ensure_removed E decoded ''failed to remove decoded_path'') (\<lambda>_.
        ensure_removed E removed ''failed to remove unseal_path''))))) R) w2"
      unfolding u [symmetric]
      apply (rule prove_update_works [OF L U(2) w2 enc], unfold wp_try_io)
      apply (rule decode_update_works [OF L E U(1) _ enc files2 paths notin cache'(3)], assumption, drule left, elim conjE,
          simp only: sum.case wp_try_io)
      apply (rule ensure_removed_works [OF E], assumption, assumption, simp, simp only: sum.case wp_try_io)
      apply (rule ensure_removed_works [OF E], assumption, assumption, use paths in simp, simp only: sum.case wp_try_io)
      apply (rule ensure_removed_works [OF E], assumption, assumption, use paths in simp, simp only: sum.case)
      apply (rule ensure_removed_works [OF E], assumption, assumption, use paths in simp)
      apply (rule done', assumption, blast intro: undisturbed_trans, assumption)
      done
  qed
qed

end
