(* ===== verification/Post_Contract.thy ===== *)
theory Post_Contract
  imports Test_Bench
begin

text \<open>
  What the test of sealing relies on in the part of the proofs library for proofs of spacetime
  (\<open>proves_spacetime\<close>), a rule for every exported function of it on a library that keeps the
  contract, and the bench's instance. A proof is made for a claim: the registered proof, the
  randomness, the prover and the replicas by sector, with their commitments. It is made in one
  step, from the vanilla proofs of the sectors, or from the proof of a partition, and each way
  the verifier accepts it for the public replicas of the claim.
\<close>

section \<open>The contract\<close>

record post_claim =
  cl_proof :: api_RegisteredPoStProof
  cl_randomness :: array32
  cl_prover :: array32
  cl_replicas :: "u64 \<rightharpoonup> array32"

record post_meaning =
  challenged :: "post_claim \<Rightarrow> u64 \<Rightarrow> u64 list \<Rightarrow> bool"
  vanilla_for :: "bytes \<Rightarrow> post_claim \<Rightarrow> u64 \<Rightarrow> bool"
  winning_for :: "bytes \<Rightarrow> post_claim \<Rightarrow> bool"
  window_for :: "(api_RegisteredPoStProof \<times> bytes) list \<Rightarrow> post_claim \<Rightarrow> bool"
  partition_for :: "bytes \<Rightarrow> post_claim \<Rightarrow> bool"

definition sectors_of :: "post_claim \<Rightarrow> u64 list" where
  "sectors_of c = sorted_list_of_set (dom (cl_replicas c))"

definition private_claim :: "post_claim \<Rightarrow> (u64 \<rightharpoonup> api_PrivateReplicaInfo) \<Rightarrow> bool" where
  "private_claim c m \<longleftrightarrow> m \<noteq> Map.empty \<and> (\<forall>k. cl_replicas c k = map_option api_pri_comm_r (m k)) \<and>
     (\<forall>i \<in> ran m. api_pri_proof i = cl_proof c)"

definition public_claim :: "post_claim \<Rightarrow> u64 \<rightharpoonup> api_PublicReplicaInfo" where
  "public_claim c k = map_option (\<lambda>r. \<lparr>api_pub_proof = cl_proof c, api_pub_comm_r = r\<rparr>) (cl_replicas c k)"

text \<open>The laws are for sectors of two kilobytes: a winning proof is for one sector, a partition of a
  window proof has up to two.\<close>

definition challenges_sectors ::
    "('s \<Rightarrow> bool) \<Rightarrow> ('s \<Rightarrow> disk) \<Rightarrow> ('p1, 'c1, 'fr) seal_meaning \<Rightarrow> 's post_lib \<Rightarrow> post_meaning \<Rightarrow> bool" where
  "challenges_sectors I F M P N \<longleftrightarrow>
     (\<forall>d randomness n prover. 0 < n \<longrightarrow>
        delivers I F (lib_winning_post_sector_challenge P api_RegisteredPoStProof.StackedDrgWinning2KiBV1 randomness n prover) d
          (\<lambda>cs d'. cs \<noteq> [] \<and> d' = d)) \<and>
     (\<forall>d c sectors. sectors \<noteq> [] \<and> set sectors = dom (cl_replicas c) \<longrightarrow>
        delivers I F (lib_fallback_sector_challenges P (cl_proof c) (cl_randomness c) sectors (cl_prover c)) d
          (\<lambda>out d'. map fst out = sectors_of c \<and> (\<forall>(k, cs) \<in> set out. challenged N c k cs) \<and> d' = d)) \<and>
     (\<forall>d c k i cs. challenged N c k cs \<and> replica_ready M d i \<and> cl_replicas c k = Some (api_pri_comm_r i) \<and>
        api_pri_proof i = cl_proof c \<longrightarrow>
        delivers I F (lib_single_vanilla_proof P (cl_proof c) k i cs) d (\<lambda>v d'. vanilla_for N v c k \<and> d' = d))"

definition proves_winning ::
    "('s \<Rightarrow> bool) \<Rightarrow> ('s \<Rightarrow> disk) \<Rightarrow> ('p1, 'c1, 'fr) seal_meaning \<Rightarrow> 's post_lib \<Rightarrow> post_meaning \<Rightarrow> bool" where
  "proves_winning I F M P N \<longleftrightarrow>
     (\<forall>d c m. cl_proof c = api_RegisteredPoStProof.StackedDrgWinning2KiBV1 \<and> card (dom (cl_replicas c)) = 1 \<and>
        private_claim c m \<and> (\<forall>i \<in> ran m. replica_ready M d i) \<longrightarrow>
        delivers I F (lib_winning_post P (cl_randomness c) m (cl_prover c)) d
          (\<lambda>ps d'. winning_for N (concat (map snd ps)) c \<and> d' = d)) \<and>
     (\<forall>d c vs. cl_proof c = api_RegisteredPoStProof.StackedDrgWinning2KiBV1 \<and> card (dom (cl_replicas c)) = 1 \<and>
        list_all2 (\<lambda>v. vanilla_for N v c) vs (sectors_of c) \<longrightarrow>
        delivers I F (lib_winning_post_with_vanilla P (cl_proof c) (cl_randomness c) (cl_prover c) vs) d
          (\<lambda>ps d'. winning_for N (concat (map snd ps)) c \<and> d' = d)) \<and>
     (\<forall>d c b. winning_for N b c \<longrightarrow>
        delivers I F (lib_verify_winning_post P (cl_randomness c) b (public_claim c) (cl_prover c)) d (\<lambda>v d'. v \<and> d' = d))"

definition proves_window ::
    "('s \<Rightarrow> bool) \<Rightarrow> ('s \<Rightarrow> disk) \<Rightarrow> ('p1, 'c1, 'fr) seal_meaning \<Rightarrow> 's post_lib \<Rightarrow> post_meaning \<Rightarrow> bool" where
  "proves_window I F M P N \<longleftrightarrow>
     (\<forall>d c m. cl_proof c = api_RegisteredPoStProof.StackedDrgWindow2KiBV1 \<and> private_claim c m \<and>
        (\<forall>i \<in> ran m. replica_ready M d i) \<longrightarrow>
        delivers I F (lib_window_post P (cl_randomness c) m (cl_prover c)) d (\<lambda>ps d'. window_for N ps c \<and> d' = d)) \<and>
     (\<forall>d c vs. cl_proof c = api_RegisteredPoStProof.StackedDrgWindow2KiBV1 \<and> vs \<noteq> [] \<and>
        list_all2 (\<lambda>v. vanilla_for N v c) vs (sectors_of c) \<longrightarrow>
        delivers I F (lib_window_post_with_vanilla P (cl_proof c) (cl_randomness c) (cl_prover c) vs) d
          (\<lambda>ps d'. window_for N ps c \<and> d' = d)) \<and>
     (\<forall>d c ps. window_for N ps c \<longrightarrow>
        delivers I F (lib_verify_window_post P (cl_randomness c) ps (public_claim c) (cl_prover c)) d (\<lambda>v d'. v \<and> d' = d)) \<and>
     (\<forall>d n. 0 < n \<and> n \<le> 2 \<longrightarrow>
        delivers I F (lib_num_partition_for_fallback_post P api_RegisteredPoStProof.StackedDrgWindow2KiBV1 n) d
          (\<lambda>k d'. k = 1 \<and> d' = d)) \<and>
     (\<forall>d c vs. cl_proof c = api_RegisteredPoStProof.StackedDrgWindow2KiBV1 \<and> vs \<noteq> [] \<and> length vs \<le> 2 \<and>
        list_all2 (\<lambda>v. vanilla_for N v c) vs (sectors_of c) \<longrightarrow>
        delivers I F (lib_single_window_post_with_vanilla P (cl_proof c) (cl_randomness c) (cl_prover c) vs 0) d
          (\<lambda>b d'. partition_for N b c \<and> d' = d)) \<and>
     (\<forall>d c b. partition_for N b c \<longrightarrow>
        delivers I F (lib_merge_window_post_partition_proofs P (cl_proof c) [b]) d
          (\<lambda>b' d'. window_for N [(cl_proof c, b')] c \<and> d' = d))"

lemmas winning_challenge_law = challenges_sectors_def [THEN iffD1, THEN conjunct1, rule_format]
  and fallback_law = challenges_sectors_def [THEN iffD1, THEN conjunct2, THEN conjunct1, rule_format, OF _ conjI]
  and vanilla_law = challenges_sectors_def [THEN iffD1, THEN conjunct2, THEN conjunct2, rule_format]

lemmas winning_law = proves_winning_def [THEN iffD1, THEN conjunct1, rule_format]
  and winning_vanilla_law = proves_winning_def [THEN iffD1, THEN conjunct2, THEN conjunct1, rule_format]
  and verify_winning_law = proves_winning_def [THEN iffD1, THEN conjunct2, THEN conjunct2, rule_format]

lemmas window_law = proves_window_def [THEN iffD1, THEN conjunct1, rule_format]
  and window_vanilla_law = proves_window_def [THEN iffD1, THEN conjunct2, THEN conjunct1, rule_format]
  and verify_window_law = proves_window_def [THEN iffD1, THEN conjunct2, THEN conjunct2, THEN conjunct1, rule_format]
  and partitions_law = proves_window_def [THEN iffD1, THEN conjunct2, THEN conjunct2, THEN conjunct2, THEN conjunct1,
    rule_format]
  and partition_law = proves_window_def [THEN iffD1, THEN conjunct2, THEN conjunct2, THEN conjunct2, THEN conjunct2,
    THEN conjunct1, rule_format]
  and merge_law = proves_window_def [THEN iffD1, THEN conjunct2, THEN conjunct2, THEN conjunct2, THEN conjunct2,
    THEN conjunct2, rule_format]

section \<open>Claims of a caller\<close>

text \<open>The claim that a caller makes with a slice of private replicas, and the public replicas it passes
  to the verifier.\<close>

definition claim_of :: "RegisteredPoStProof \<Rightarrow> array32 \<Rightarrow> array32 \<Rightarrow> PrivateReplicaInfo list \<Rightarrow> post_claim" where
  "claim_of p randomness prover replicas =
     \<lparr>cl_proof = to_api_post p, cl_randomness = randomness, cl_prover = prover,
      cl_replicas = map_of (map (\<lambda>r. (pri_sector_id r, pri_comm_r r)) replicas)\<rparr>"

definition public_of :: "PrivateReplicaInfo \<Rightarrow> PublicReplicaInfo" where
  "public_of r = \<lparr>pub_registered_proof = pri_registered_proof r, pub_comm_r = pri_comm_r r, pub_sector_id = pri_sector_id r\<rparr>"

definition replicas_ready ::
    "('p1, 'c1, 'fr) seal_meaning \<Rightarrow> disk \<Rightarrow> RegisteredPoStProof \<Rightarrow> PrivateReplicaInfo list \<Rightarrow> bool" where
  "replicas_ready M d p replicas \<longleftrightarrow> replicas \<noteq> [] \<and> distinct (map pri_sector_id replicas) \<and>
     (\<forall>r \<in> set replicas. pri_registered_proof r = p \<and>
        (\<exists>b c. bytes_of d (Named (pri_replica_path r)) = Some b \<and> caches d (pri_cache_dir_path r) = Some c \<and>
           is_replica M b c (pri_comm_r r)))"

lemma claim_of_simps [simp]:
  "cl_proof (claim_of p randomness prover replicas) = to_api_post p"
  "cl_randomness (claim_of p randomness prover replicas) = randomness"
  "cl_prover (claim_of p randomness prover replicas) = prover"
  "dom (cl_replicas (claim_of p randomness prover replicas)) = pri_sector_id ` set replicas"
  by (simp_all add: claim_of_def dom_map_of_conv_image_fst image_image)

lemma claim_of_replica:
  "distinct (map pri_sector_id replicas) \<Longrightarrow> r \<in> set replicas \<Longrightarrow>
   cl_replicas (claim_of p randomness prover replicas) (pri_sector_id r) = Some (pri_comm_r r)"
  by (auto simp: claim_of_def comp_def intro!: map_of_is_SomeI)

lemma private_map_claims:
  assumes "replicas_ready M d p replicas"
  obtains m where "to_private_replica_info_map replicas = Inr m" and "private_claim (claim_of p randomness prover replicas) m"
    and "\<forall>i \<in> ran m. replica_ready M d i"
proof -
  let ?api = "\<lambda>r. \<lparr>api_pri_proof = to_api_post (pri_registered_proof r), api_pri_comm_r = pri_comm_r r,
    api_pri_cache_dir = pri_cache_dir_path r, api_pri_replica_path = pri_replica_path r\<rparr>"
  let ?m = "map_of (map (\<lambda>r. (pri_sector_id r, ?api r)) replicas)"
  have ids: "distinct (map pri_sector_id replicas)" and ne: "replicas \<noteq> []"
    and ok: "\<And>r. r \<in> set replicas \<Longrightarrow> pri_registered_proof r = p \<and> replica_ready M d (?api r)"
    using assms by (auto simp: replicas_ready_def replica_ready_def)
  have "map private_replica replicas = map Inr (map (\<lambda>r. (pri_sector_id r, ?api r)) replicas)"
    by (simp add: private_replica_ok)
  then have "to_private_replica_info_map replicas = Inr (collect_map (map (\<lambda>r. (pri_sector_id r, ?api r)) replicas))"
    by (simp add: to_private_replica_info_map_def collect_results_map_Inr del: map_map)
  moreover have "collect_map (map (\<lambda>r. (pri_sector_id r, ?api r)) replicas) = ?m"
    unfolding collect_map_eq by (rule map_of_rev_distinct) (simp add: comp_def ids)
  ultimately have m: "to_private_replica_info_map replicas = Inr ?m" by simp
  have comm: "cl_replicas (claim_of p randomness prover replicas) k = map_option api_pri_comm_r (?m k)" for k
    by (induction replicas) (auto simp: claim_of_def)
  have ran: "api_pri_proof i = to_api_post p \<and> replica_ready M d i" if "i \<in> ran ?m" for i
  proof -
    from that obtain r where "r \<in> set replicas" "i = ?api r" by (auto simp: ran_def dest!: map_of_SomeD)
    with ok [of r] show ?thesis by auto
  qed
  have some: "?m \<noteq> Map.empty" using ne by (cases replicas) (auto simp: fun_eq_iff)
  have "private_claim (claim_of p randomness prover replicas) ?m"
    unfolding private_claim_def claim_of_simps using some comm ran by blast
  with m ran that [of ?m] show ?thesis by blast
qed

lemma public_map_claims:
  assumes "replicas_ready M d p replicas"
  shows "to_public_replica_info_map (map public_of replicas) = public_claim (claim_of p randomness prover replicas)"
proof -
  let ?e = "\<lambda>r. (pri_sector_id r, \<lparr>api_pub_proof = to_api_post p, api_pub_comm_r = pri_comm_r r\<rparr>)"
  have ids: "distinct (map pri_sector_id replicas)" and ps: "\<forall>r \<in> set replicas. pri_registered_proof r = p"
    using assms by (auto simp: replicas_ready_def)
  have "to_public_replica_info_map (map public_of replicas) = collect_map (map ?e replicas)"
    unfolding to_public_replica_info_map_def
    by (rule arg_cong [where f = collect_map]) (use ps in \<open>simp add: public_replica_def public_of_def\<close>)
  also have "\<dots> = map_of (map ?e replicas)"
    unfolding collect_map_eq by (rule map_of_rev_distinct) (simp add: comp_def ids)
  also have "\<dots> = public_claim (claim_of p randomness prover replicas)"
    by (induction replicas) (auto simp: public_claim_def claim_of_def fun_eq_iff)
  finally show ?thesis .
qed

section \<open>The exported functions on a library that keeps its contract\<close>

lemma wp_guarded_raw:
  assumes L: "quiet I F L" and w: "shows_view I F d w"
    and cb: "\<And>v. shows_view I F d v \<Longrightarrow> wp cb (\<lambda>r v'. \<exists>d'. shows_view I F d' v' \<and> Q r d') v"
    and R: "\<And>r d' w'. Q r d' \<Longrightarrow> shows_view I F d' w' \<Longrightarrow> R r w'"
  shows "wp (catch_panic_response_raw L dflt name cb) R w"
proof -
  have ok: "logger_ok L" "log_init w \<noteq> Poisoned" using L w by (simp_all add: quiet_def shows_view_def)
  from cb [OF log_lines_show_view(1) [OF L w]] obtain r d' w' where
    run: "cb (log_started L name w) = (Returns r, w')" and w': "shows_view I F d' w'" and Q: "Q r d'"
    unfolding wp_def by blast
  have "catch_panic_response_raw L dflt name cb w = (Returns r, log_ended L name w')"
    by (simp add: catch_panic_response_raw_eq [OF ok] run)
  then show ?thesis by (rule wpI) (rule R [OF Q log_lines_show_view(2) [OF L w']])
qed

lemma wp_guarded_raw_call:
  assumes "quiet I F L" and "shows_view I F d w" and "delivers I F m d Q"
    and "\<And>x d' w'. Q x d' \<Longrightarrow> shows_view I F d' w' \<Longrightarrow> R (f (Inr x)) w'"
  shows "wp (catch_panic_response_raw L dflt name (bind_io (lift_ext m) (\<lambda>r. ret (f r)))) R w"
proof (rule wp_guarded_raw [OF assms(1,2), where Q = "\<lambda>y d'. \<exists>x. y = f (Inr x) \<and> Q x d'"])
  fix v assume "shows_view I F d v"
  then show "wp (bind_io (lift_ext m) (\<lambda>r. ret (f r))) (\<lambda>r v'. \<exists>d'. shows_view I F d' v' \<and> (\<exists>x. r = f (Inr x) \<and> Q x d')) v"
    by simp (rule wp_lift_ext [OF assms(3)], auto)
qed (use assms(4) in blast)

lemma winning_challenge_works:
  assumes "quiet I F L" and "challenges_sectors I F M P N" and "shows_view I F d w" and "0 < n"
    and R: "\<And>cs w'. cs \<noteq> [] \<Longrightarrow> shows_view I F d w' \<Longrightarrow> R (Result_ok cs) w'"
  shows "wp (generate_winning_post_sector_challenge L P RegisteredPoStProof.StackedDrgWinning2KiBV1 randomness n prover) R w"
  unfolding generate_winning_post_sector_challenge_def to_api_post.simps
  by (rule wp_guarded_call [OF assms(1,3) winning_challenge_law [OF assms(2,4)]]) (use R in blast)

lemma fallback_challenges_work:
  assumes "quiet I F L" and "challenges_sectors I F M P N" and "shows_view I F d w"
    and c: "c = claim_of p randomness prover replicas" and "sectors \<noteq> []" "set sectors = pri_sector_id ` set replicas"
    and R: "\<And>out w'. map fst out = sectors_of c \<Longrightarrow> \<forall>(k, cs) \<in> set out. challenged N c k cs \<Longrightarrow>
      shows_view I F d w' \<Longrightarrow> R (Result_ok \<lparr>fb_ids = map fst out, fb_challenges = map snd out\<rparr>) w'"
  shows "wp (generate_fallback_sector_challenges L P p randomness sectors prover) R w"
proof -
  have lib: "delivers I F (lib_fallback_sector_challenges P (to_api_post p) randomness sectors prover) d
      (\<lambda>out d'. map fst out = sectors_of c \<and> (\<forall>(k, cs) \<in> set out. challenged N c k cs) \<and> d' = d)"
    using fallback_law [OF assms(2,5), of c d] assms(6) by (simp add: c)
  have eq: "map (\<lambda>(i, _). i) xs = map fst xs" "map (\<lambda>(_, cs). cs) xs = map snd xs" for xs :: "(u64 \<times> u64 list) list"
    by (auto simp: case_prod_beta)
  show ?thesis
    unfolding generate_fallback_sector_challenges_def Let_def eq
    by (rule wp_guarded_call [OF assms(1,3) lib]) (use R in blast)
qed

lemma single_vanilla_proof_works:
  assumes "quiet I F L" and "challenges_sectors I F M P N" and "shows_view I F d w"
    and c: "c = claim_of p randomness prover replicas" and ready: "replicas_ready M d p replicas" "r \<in> set replicas"
    and "challenged N c (pri_sector_id r) cs"
    and R: "\<And>v w'. vanilla_for N v c (pri_sector_id r) \<Longrightarrow> shows_view I F d w' \<Longrightarrow> R (Result_ok v) w'"
  shows "wp (generate_single_vanilla_proof L P r cs) R w"
proof -
  let ?i = "\<lparr>api_pri_proof = to_api_post (pri_registered_proof r), api_pri_comm_r = pri_comm_r r,
    api_pri_cache_dir = pri_cache_dir_path r, api_pri_replica_path = pri_replica_path r\<rparr>"
  have "replica_ready M d ?i" and p: "pri_registered_proof r = p" and ids: "distinct (map pri_sector_id replicas)"
    using ready by (auto simp: replicas_ready_def replica_ready_def)
  then have lib: "delivers I F (lib_single_vanilla_proof P (cl_proof c) (pri_sector_id r) ?i cs) d
      (\<lambda>v d'. vanilla_for N v c (pri_sector_id r) \<and> d' = d)"
    by (intro vanilla_law [OF assms(2)] conjI assms(7)) (simp_all add: c claim_of_replica ready)
  have c': "to_api_post (pri_registered_proof r) = cl_proof c" by (simp add: c p)
  show ?thesis
    unfolding generate_single_vanilla_proof_def Let_def as_path_buf_def try_val_simps
    by (rule wp_guarded_call [OF assms(1,3) lib [folded c']]) (use R in blast)
qed

lemma winning_posts_work:
  assumes "quiet I F L" and N: "proves_winning I F M P N" and "shows_view I F d w"
    and c: "c = claim_of RegisteredPoStProof.StackedDrgWinning2KiBV1 randomness prover [r]"
    and R: "\<And>ps w'. winning_for N (concat (map post_proof ps)) c \<Longrightarrow> shows_view I F d w' \<Longrightarrow> R (Result_ok ps) w'"
  shows "replicas_ready M d RegisteredPoStProof.StackedDrgWinning2KiBV1 [r] \<Longrightarrow>
      wp (generate_winning_post L P randomness [r] prover) R w"
    and "list_all2 (\<lambda>v. vanilla_for N v c) vs (sectors_of c) \<Longrightarrow>
      wp (generate_winning_post_with_vanilla L P RegisteredPoStProof.StackedDrgWinning2KiBV1 randomness prover vs) R w"
proof -
  have one: "cl_proof c = api_RegisteredPoStProof.StackedDrgWinning2KiBV1" "card (dom (cl_replicas c)) = 1" by (simp_all add: c)
  have ffi: "concat (map post_proof (ffi_post_proofs ps)) = concat (map snd ps)" for ps
    by (simp add: ffi_post_proofs_def comp_def case_prod_beta)
  show "wp (generate_winning_post L P randomness [r] prover) R w"
    if "replicas_ready M d RegisteredPoStProof.StackedDrgWinning2KiBV1 [r]"
  proof (rule private_map_claims [OF that, of randomness prover])
    fix m assume m: "to_private_replica_info_map [r] = Inr m" "\<forall>i \<in> ran m. replica_ready M d i"
      and cl: "private_claim (claim_of RegisteredPoStProof.StackedDrgWinning2KiBV1 randomness prover [r]) m"
    have "delivers I F (lib_winning_post P (cl_randomness c) m (cl_prover c)) d
        (\<lambda>ps d'. winning_for N (concat (map snd ps)) c \<and> d' = d)"
      by (rule winning_law [OF N]) (use one m cl c in blast)
    note lib = this [unfolded c claim_of_simps, folded c]
    show ?thesis
      unfolding generate_winning_post_def m try_val_simps
      by (rule wp_guarded_call [OF assms(1,3) lib]) (use R ffi in auto)
  qed
  show "wp (generate_winning_post_with_vanilla L P RegisteredPoStProof.StackedDrgWinning2KiBV1 randomness prover vs) R w"
    if vs: "list_all2 (\<lambda>v. vanilla_for N v c) vs (sectors_of c)"
  proof -
    have "delivers I F (lib_winning_post_with_vanilla P (cl_proof c) (cl_randomness c) (cl_prover c) vs) d
        (\<lambda>ps d'. winning_for N (concat (map snd ps)) c \<and> d' = d)"
      by (rule winning_vanilla_law [OF N]) (use one vs in blast)
    note lib = this [unfolded c claim_of_simps, folded c]
    show ?thesis
      unfolding generate_winning_post_with_vanilla_def
      by (rule wp_guarded_call [OF assms(1,3) lib]) (use R ffi in auto)
  qed
qed

lemma verify_winning_post_works:
  assumes "quiet I F L" and N: "proves_winning I F M P N" and "shows_view I F d w"
    and c: "winning_for N (concat (map post_proof ps)) (claim_of p randomness prover replicas)"
    and ready: "replicas_ready M d p replicas" and R: "\<And>w'. shows_view I F d w' \<Longrightarrow> R (Result_ok True) w'"
  shows "wp (verify_winning_post L P randomness (map public_of replicas) ps prover) R w"
  unfolding verify_winning_post_def Let_def public_map_claims [OF ready, of randomness prover]
  by (rule wp_guarded_call [OF assms(1,3) verify_winning_law [OF N c, unfolded claim_of_simps]]) (use R in auto)

lemma window_posts_work:
  assumes "quiet I F L" and N: "proves_window I F M P N" and "shows_view I F d w"
    and c: "c = claim_of RegisteredPoStProof.StackedDrgWindow2KiBV1 randomness prover replicas"
    and R: "\<And>ps w'. window_for N (map (\<lambda>x. (to_api_post (post_registered_proof x), post_proof x)) ps) c \<Longrightarrow>
      shows_view I F d w' \<Longrightarrow> R (Result_ok \<lparr>wp_proofs = ps, wp_faulty_sectors = []\<rparr>) w'"
  shows "replicas_ready M d RegisteredPoStProof.StackedDrgWindow2KiBV1 replicas \<Longrightarrow>
      wp (generate_window_post L P randomness replicas prover) R w"
    and "list_all2 (\<lambda>v. vanilla_for N v c) vs (sectors_of c) \<Longrightarrow> vs \<noteq> [] \<Longrightarrow>
      wp (generate_window_post_with_vanilla L P RegisteredPoStProof.StackedDrgWindow2KiBV1 randomness prover vs) R w"
proof -
  have one: "cl_proof c = api_RegisteredPoStProof.StackedDrgWindow2KiBV1" by (simp add: c)
  have done': "R (window_post_response (Inr ps)) w'" if "window_for N ps c" "shows_view I F d w'" for ps w'
    using R [of "ffi_post_proofs ps" w'] that by (simp add: window_post_response_eq ffi_post_proofs_back)
  show "wp (generate_window_post L P randomness replicas prover) R w"
    if "replicas_ready M d RegisteredPoStProof.StackedDrgWindow2KiBV1 replicas"
  proof (rule private_map_claims [OF that, of randomness prover])
    fix m assume m: "to_private_replica_info_map replicas = Inr m" "\<forall>i \<in> ran m. replica_ready M d i"
      and cl: "private_claim (claim_of RegisteredPoStProof.StackedDrgWindow2KiBV1 randomness prover replicas) m"
    have "delivers I F (lib_window_post P (cl_randomness c) m (cl_prover c)) d (\<lambda>ps d'. window_for N ps c \<and> d' = d)"
      by (rule window_law [OF N]) (use one m cl c in blast)
    note lib = this [unfolded c claim_of_simps, folded c]
    show ?thesis
      unfolding generate_window_post_def m try_val_simps
      by (rule wp_guarded_raw_call [OF assms(1,3) lib]) (use done' in blast)
  qed
  show "wp (generate_window_post_with_vanilla L P RegisteredPoStProof.StackedDrgWindow2KiBV1 randomness prover vs) R w"
    if vs: "list_all2 (\<lambda>v. vanilla_for N v c) vs (sectors_of c)" "vs \<noteq> []"
  proof -
    have "delivers I F (lib_window_post_with_vanilla P (cl_proof c) (cl_randomness c) (cl_prover c) vs) d
        (\<lambda>ps d'. window_for N ps c \<and> d' = d)"
      by (rule window_vanilla_law [OF N]) (use one vs in blast)
    note lib = this [unfolded c claim_of_simps, folded c]
    show ?thesis
      unfolding generate_window_post_with_vanilla_def
      by (rule wp_guarded_raw_call [OF assms(1,3) lib]) (use done' in blast)
  qed
qed

lemma verify_window_post_works:
  assumes "quiet I F L" and N: "proves_window I F M P N" and "shows_view I F d w"
    and c: "window_for N (map (\<lambda>x. (to_api_post (post_registered_proof x), post_proof x)) ps)
      (claim_of p randomness prover replicas)"
    and ready: "replicas_ready M d p replicas" and R: "\<And>w'. shows_view I F d w' \<Longrightarrow> R (Result_ok True) w'"
  shows "wp (verify_window_post L P randomness (map public_of replicas) ps prover) R w"
  unfolding verify_window_post_def Let_def public_map_claims [OF ready, of randomness prover]
  by (rule wp_guarded_call [OF assms(1,3) verify_window_law [OF N c, unfolded claim_of_simps]]) (use R in auto)

lemma num_partitions_works:
  assumes "quiet I F L" and N: "proves_window I F M P N" and "shows_view I F d w" and "0 < n" "n \<le> 2"
    and R: "\<And>w'. shows_view I F d w' \<Longrightarrow> R (Result_ok 1) w'"
  shows "wp (get_num_partition_for_fallback_post L P RegisteredPoStProof.StackedDrgWindow2KiBV1 n) R w"
proof -
  have lib: "delivers I F (lib_num_partition_for_fallback_post P (to_api_post RegisteredPoStProof.StackedDrgWindow2KiBV1) n) d
      (\<lambda>k d'. k = 1 \<and> d' = d)" using partitions_law [OF N] assms(4,5) by simp
  show ?thesis
    unfolding get_num_partition_for_fallback_post_def by (rule wp_guarded_call [OF assms(1,3) lib]) (use R in auto)
qed

lemma single_window_post_works:
  assumes "quiet I F L" and N: "proves_window I F M P N" and "shows_view I F d w"
    and c: "c = claim_of RegisteredPoStProof.StackedDrgWindow2KiBV1 randomness prover replicas"
    and vs: "list_all2 (\<lambda>v. vanilla_for N v c) vs (sectors_of c)" "vs \<noteq> []" "length vs \<le> 2"
    and R: "\<And>b w'. partition_for N b c \<Longrightarrow> shows_view I F d w' \<Longrightarrow>
      R (Result_ok \<lparr>sw_partition_proof = \<lparr>partition_registered_proof = RegisteredPoStProof.StackedDrgWindow2KiBV1,
        partition_proof_bytes = b\<rparr>, single_faulty_sectors = []\<rparr>) w'"
  shows "wp (generate_single_window_post_with_vanilla L P RegisteredPoStProof.StackedDrgWindow2KiBV1 randomness prover vs 0) R w"
proof -
  have "delivers I F (lib_single_window_post_with_vanilla P (cl_proof c) (cl_randomness c) (cl_prover c) vs 0) d
      (\<lambda>b d'. partition_for N b c \<and> d' = d)"
    by (rule partition_law [OF N]) (use vs c in \<open>simp add: c\<close>)
  note lib = this [unfolded c claim_of_simps, folded c]
  have done': "R (single_window_post_response RegisteredPoStProof.StackedDrgWindow2KiBV1 (Inr b)) w'"
    if "partition_for N b c" "shows_view I F d w'" for b w'
    using R [OF that] by (simp add: single_window_post_response_def Result_default_def Result_ok_def
        GenerateSingleWindowPoStWithVanilla_default_def)
  show ?thesis
    unfolding generate_single_window_post_with_vanilla_def
    by (rule wp_guarded_raw_call [OF assms(1,3) lib]) (use done' in blast)
qed

lemma merge_partition_works:
  assumes "quiet I F L" and N: "proves_window I F M P N" and "shows_view I F d w"
    and c: "c = claim_of p randomness prover replicas" and b: "partition_for N b c"
    and R: "\<And>b' w'. window_for N [(to_api_post p, b')] c \<Longrightarrow> shows_view I F d w' \<Longrightarrow>
      R (Result_ok \<lparr>post_registered_proof = p, post_proof = b'\<rparr>) w'"
  shows "wp (merge_window_post_partition_proofs L P p [b]) R w"
  unfolding merge_window_post_partition_proofs_def
  by (rule wp_guarded_call [OF assms(1,3) merge_law [OF N b, unfolded c claim_of_simps, folded c]]) (use R in blast)

section \<open>The bench\<close>

definition bench_proof_of :: "post_claim \<Rightarrow> bytes" where
  "bench_proof_of c = bench_spacetime_proof (cl_randomness c) (cl_prover c) (cl_replicas c)"

definition bench_spacetime :: post_meaning where
  "bench_spacetime =
     \<lparr>challenged = (\<lambda>c _ cs. cs = map ucast (cl_randomness c @ cl_prover c)),
      vanilla_for = (\<lambda>v c k. v = bench_vanilla k (the (cl_replicas c k)) (cl_randomness c @ cl_prover c)),
      winning_for = (\<lambda>b c. b = bench_proof_of c), window_for = (\<lambda>ps c. map snd ps = [bench_proof_of c]),
      partition_for = (\<lambda>b c. b = bench_proof_of c)\<rparr>"

text \<open>The bytes of a challenge survive their way through the elements.\<close>

lemma bench_challenge_bytes [simp]: "map (ucast :: u64 \<Rightarrow> u8) (map ucast (b :: bytes)) = b"
  by (induction b) (simp_all add: ucast_down_ucast_id is_down)

lemma bench_vanillas:
  "list_all2 (\<lambda>v. vanilla_for bench_spacetime v c) vs (sectors_of c) \<Longrightarrow> concat vs = bench_proof_of c"
proof -
  assume "list_all2 (\<lambda>v. vanilla_for bench_spacetime v c) vs (sectors_of c)"
  then have "vs = map (\<lambda>k. bench_vanilla k (the (cl_replicas c k)) (cl_randomness c @ cl_prover c)) (sectors_of c)"
    by (induction rule: list_all2_induct) (simp_all add: bench_spacetime_def)
  then show ?thesis by (simp add: bench_proof_of_def bench_spacetime_proof_def sectors_of_def)
qed

lemma bench_claims:
  "private_claim c m \<Longrightarrow> bench_spacetime_proof (cl_randomness c) (cl_prover c) (map_option api_pri_comm_r \<circ> m) = bench_proof_of c"
  "bench_spacetime_proof (cl_randomness c) (cl_prover c) (map_option api_pub_comm_r \<circ> public_claim c) = bench_proof_of c"
proof -
  have "map_option api_pub_comm_r \<circ> public_claim c = cl_replicas c"
    by (simp add: fun_eq_iff public_claim_def option.map_comp comp_def option.map_ident)
  then show "bench_spacetime_proof (cl_randomness c) (cl_prover c) (map_option api_pub_comm_r \<circ> public_claim c) = bench_proof_of c"
    by (simp add: bench_proof_of_def)
  show "bench_spacetime_proof (cl_randomness c) (cl_prover c) (map_option api_pri_comm_r \<circ> m) = bench_proof_of c"
    if "private_claim c m"
  proof -
    from that have "map_option api_pri_comm_r \<circ> m = cl_replicas c" by (simp add: fun_eq_iff private_claim_def)
    then show ?thesis by (simp add: bench_proof_of_def)
  qed
qed

lemma bench_challenges_sectors: "challenges_sectors bench_ok id bench_meaning bench_post bench_spacetime"
  unfolding challenges_sectors_def
proof (intro conjI allI impI)
  fix d :: disk and c :: post_claim and k i cs
  assume a: "challenged bench_spacetime c k cs \<and> replica_ready bench_meaning d i \<and> cl_replicas c k = Some (api_pri_comm_r i) \<and>
    api_pri_proof i = cl_proof c"
  then have "cs = map ucast (cl_randomness c @ cl_prover c)" and "caches d (api_pri_cache_dir i) = Some (api_pri_comm_r i)"
    using bench_ready by (simp_all add: bench_spacetime_def)
  then have "lib_single_vanilla_proof bench_post (cl_proof c) k i cs d =
      (Returns (Inr (bench_vanilla k (api_pri_comm_r i) (cl_randomness c @ cl_prover c))), d)"
    using bench_challenge_bytes [of "cl_randomness c @ cl_prover c"] by (simp add: bench_post_def del: map_map map_append)
  then show "delivers bench_ok id (lib_single_vanilla_proof bench_post (cl_proof c) k i cs) d
      (\<lambda>v d'. vanilla_for bench_spacetime v c k \<and> d' = d)"
    by (rule delivers_id) (use a in \<open>simp add: bench_spacetime_def\<close>)
qed (auto simp: bench_post_def bench_spacetime_def sectors_of_def ret_def comp_def intro!: delivers_id)

lemma bench_proves_winning: "proves_winning bench_ok id bench_meaning bench_post bench_spacetime"
  unfolding proves_winning_def
  by (auto simp: bench_post_def ret_def bench_claims bench_vanillas intro!: delivers_id) (simp_all add: bench_spacetime_def)

lemma bench_proves_window: "proves_window bench_ok id bench_meaning bench_post bench_spacetime"
  unfolding proves_window_def
proof (intro conjI allI impI)
  fix d :: disk and c :: post_claim and m
  assume "cl_proof c = api_RegisteredPoStProof.StackedDrgWindow2KiBV1 \<and> private_claim c m \<and>
    (\<forall>i \<in> ran m. replica_ready bench_meaning d i)"
  then have claim: "private_claim c m" and ready: "\<forall>i \<in> ran m. replica_ready bench_meaning d i" by simp_all
  have "{k \<in> dom m. bytes_of d (Named (api_pri_replica_path (the (m k)))) = Some []} = {}"
    using ready bench_ready by (fastforce simp: ran_def)
  then have "lib_window_post bench_post (cl_randomness c) m (cl_prover c) d =
      (Returns (Inr [(api_RegisteredPoStProof.StackedDrgWindow2KiBV1, bench_proof_of c)]), d)"
    by (simp add: bench_post_def Let_def bench_claims(1) [OF claim])
  then show "delivers bench_ok id (lib_window_post bench_post (cl_randomness c) m (cl_prover c)) d
      (\<lambda>ps d'. window_for bench_spacetime ps c \<and> d' = d)"
    by (rule delivers_id) (simp add: bench_spacetime_def)
qed (auto simp: bench_post_def ret_def bench_claims bench_vanillas intro!: delivers_id, simp_all add: bench_spacetime_def)

end
