(* ===== verification/Post_Tests.thy ===== *)
theory Post_Tests
  imports Post_Contract
begin

text \<open>
  The parts of the sealing test of \<open>rust/src/proofs/api.rs\<close> that prove and verify storage over
  time: winning and window proofs, each in one step and from the vanilla proofs of the
  sectors, and the window proof merged from its partitions. The lemmas are that every part
  succeeds on replicas that are ready, and leaves the files alone.
\<close>

section \<open>The parts of the test\<close>

text \<open>\<open>if !verdict { panic!(..) }\<close>.\<close>

definition or_panic :: "bool \<Rightarrow> string \<Rightarrow> ('s, 'b) io \<Rightarrow> ('s, 'b) io" where
  "or_panic b m k = (if \<not> b then raise (StrPayload m) else k)"

definition winning_post ::
    "'s logger \<Rightarrow> 's post_lib \<Rightarrow> RegisteredPoStProof \<Rightarrow> array32 \<Rightarrow> array32 \<Rightarrow> u64 list \<Rightarrow> PrivateReplicaInfo list
      \<Rightarrow> PublicReplicaInfo list \<Rightarrow> ('s world, unit) io" where
  "winning_post L P registered_proof_winning_post randomness prover_id sectors private_replicas public_replicas =
     bind_io (generate_winning_post_sector_challenge L P registered_proof_winning_post randomness
       (word_of_nat (length sectors)) prover_id) (\<lambda>resp_f.
     expect_ok ''generate_candidates'' resp_f (
     if value_of resp_f = [] then raise (StrPayload ''generate_candidates produced no results'')
     else
       bind_io (generate_winning_post L P randomness private_replicas prover_id) (\<lambda>resp_h.
       expect_ok ''generate_winning_post'' resp_h (
       bind_io (verify_winning_post L P randomness public_replicas (value_of resp_h) prover_id) (\<lambda>resp_i.
       expect_ok ''verify_winning_post'' resp_i (
       or_panic (value_of resp_i) ''verify_winning_post rejected the provided proof as invalid'' (
       ret ())))))))"

text \<open>The loop that asks for the vanilla proof of every challenged sector; \<open>i\<close> is the index of the
  enumeration.\<close>

fun gather_vanilla ::
    "'s logger \<Rightarrow> 's post_lib \<Rightarrow> PrivateReplicaInfo list \<Rightarrow> u64 list \<Rightarrow> nat \<Rightarrow> u64 list list \<Rightarrow> ('s world, bytes list) io" where
  "gather_vanilla L P private_replicas sector_ids i [] = ret []"
| "gather_vanilla L P private_replicas sector_ids i (challenges # rest) =
     (if length sector_ids \<le> i then raise (StringPayload ''index out of bounds'')
      else
        case find (\<lambda>replica. pri_sector_id replica = sector_ids ! i) private_replicas of
          None \<Rightarrow> raise (StringPayload ''failed to find private replica info'')
        | Some replica \<Rightarrow>
            bind_io (generate_single_vanilla_proof L P replica challenges) (\<lambda>resp_vp.
            expect_ok ''generate_single_vanilla_proof'' resp_vp (
            bind_io (gather_vanilla L P private_replicas sector_ids (Suc i) rest) (\<lambda>vanilla_proofs.
            ret (value_of resp_vp # vanilla_proofs)))))"

definition challenge_sectors ::
    "'s logger \<Rightarrow> 's post_lib \<Rightarrow> RegisteredPoStProof \<Rightarrow> array32 \<Rightarrow> array32 \<Rightarrow> u64 list
      \<Rightarrow> ('s world, u64 list \<times> u64 list list) io" where
  "challenge_sectors L P registered_proof randomness prover_id sectors =
     bind_io (generate_fallback_sector_challenges L P registered_proof randomness sectors prover_id) (\<lambda>resp_sc.
     expect_ok ''fallback_sector_challenges'' resp_sc (
     let sector_ids = fb_ids (value_of resp_sc); sector_challenges = fb_challenges (value_of resp_sc)
     in
     assert_io (length sector_ids = length sector_challenges)
       (StringPayload ''Challenge iterations must match the number of sector ids'') (
     ret (sector_ids, sector_challenges))))"

definition distributed_winning_post ::
    "'s logger \<Rightarrow> 's post_lib \<Rightarrow> RegisteredPoStProof \<Rightarrow> array32 \<Rightarrow> array32 \<Rightarrow> u64 list \<Rightarrow> PrivateReplicaInfo list
      \<Rightarrow> PublicReplicaInfo list \<Rightarrow> ('s world, unit) io" where
  "distributed_winning_post L P registered_proof_winning_post randomness prover_id sectors private_replicas
     public_replicas =
     bind_io (challenge_sectors L P registered_proof_winning_post randomness prover_id sectors)
       (\<lambda>(sector_ids, sector_challenges).
     bind_io (gather_vanilla L P private_replicas sector_ids 0 sector_challenges) (\<lambda>vanilla_proofs.
     bind_io (generate_winning_post_with_vanilla L P registered_proof_winning_post randomness prover_id
       vanilla_proofs) (\<lambda>resp_wpwv.
     expect_ok ''generate_winning_post_with_vanilla'' resp_wpwv (
     bind_io (verify_winning_post L P randomness public_replicas (value_of resp_wpwv) prover_id) (\<lambda>resp_di.
     expect_ok ''verify_winning_post'' resp_di (
     or_panic (value_of resp_di) ''verify_winning_post rejected the provided proof as invalid'' (
     ret ())))))))"

definition verify_window ::
    "'s logger \<Rightarrow> 's post_lib \<Rightarrow> array32 \<Rightarrow> array32 \<Rightarrow> PublicReplicaInfo list \<Rightarrow> PoStProof list \<Rightarrow> ('s world, unit) io" where
  "verify_window L P randomness prover_id public_replicas proofs =
     bind_io (verify_window_post L P randomness public_replicas proofs prover_id) (\<lambda>resp_k.
     expect_ok ''verify_window_post'' resp_k (
     or_panic (value_of resp_k) ''verify_window_post rejected the provided proof as invalid'' (
     ret ())))"

definition window_post ::
    "'s logger \<Rightarrow> 's post_lib \<Rightarrow> array32 \<Rightarrow> array32 \<Rightarrow> PrivateReplicaInfo list \<Rightarrow> PublicReplicaInfo list
      \<Rightarrow> ('s world, unit) io" where
  "window_post L P randomness prover_id private_replicas public_replicas =
     bind_io (generate_window_post L P randomness private_replicas prover_id) (\<lambda>resp_j.
     expect_ok ''generate_window_post'' resp_j (
     verify_window L P randomness prover_id public_replicas (wp_proofs (value_of resp_j))))"

definition distributed_window_post ::
    "'s logger \<Rightarrow> 's post_lib \<Rightarrow> RegisteredPoStProof \<Rightarrow> array32 \<Rightarrow> array32 \<Rightarrow> u64 list \<Rightarrow> PrivateReplicaInfo list
      \<Rightarrow> PublicReplicaInfo list \<Rightarrow> ('s world, u64 list \<times> u64 list list) io" where
  "distributed_window_post L P registered_proof_window_post randomness prover_id sectors private_replicas
     public_replicas =
     bind_io (challenge_sectors L P registered_proof_window_post randomness prover_id sectors)
       (\<lambda>(sector_ids, sector_challenges).
     bind_io (gather_vanilla L P private_replicas sector_ids 0 sector_challenges) (\<lambda>vanilla_proofs.
     bind_io (generate_window_post_with_vanilla L P registered_proof_window_post randomness prover_id
       vanilla_proofs) (\<lambda>resp_wpwv2.
     expect_ok ''generate_window_post_with_vanilla'' resp_wpwv2 (
     bind_io (verify_window L P randomness prover_id public_replicas (wp_proofs (value_of resp_wpwv2))) (\<lambda>_.
     ret (sector_ids, sector_challenges))))))"

text \<open>The loop over the partitions.\<close>

fun prove_partitions ::
    "'s logger \<Rightarrow> 's post_lib \<Rightarrow> RegisteredPoStProof \<Rightarrow> array32 \<Rightarrow> array32 \<Rightarrow> PrivateReplicaInfo list \<Rightarrow> u64 list
      \<Rightarrow> u64 list list \<Rightarrow> u64 list \<Rightarrow> ('s world, bytes list) io" where
  "prove_partitions L P registered_proof_window_post randomness prover_id private_replicas sector_ids
     sector_challenges [] = ret []"
| "prove_partitions L P registered_proof_window_post randomness prover_id private_replicas sector_ids
     sector_challenges (partition_index # rest) =
     bind_io (gather_vanilla L P private_replicas sector_ids 0 sector_challenges) (\<lambda>vanilla_proofs.
     bind_io (generate_single_window_post_with_vanilla L P registered_proof_window_post randomness prover_id
       vanilla_proofs partition_index) (\<lambda>single_partition_proof_resp.
     expect_ok ''generate_single_window_post_with_vanilla'' single_partition_proof_resp (
     bind_io (prove_partitions L P registered_proof_window_post randomness prover_id private_replicas sector_ids
       sector_challenges rest) (\<lambda>partition_proofs.
     ret (partition_proof_bytes (sw_partition_proof (value_of single_partition_proof_resp)) # partition_proofs)))))"

definition single_partition_post ::
    "'s logger \<Rightarrow> 's post_lib \<Rightarrow> RegisteredPoStProof \<Rightarrow> array32 \<Rightarrow> array32 \<Rightarrow> u64 list \<Rightarrow> PrivateReplicaInfo list
      \<Rightarrow> PublicReplicaInfo list \<Rightarrow> u64 list \<Rightarrow> u64 list list \<Rightarrow> ('s world, unit) io" where
  "single_partition_post L P registered_proof_window_post randomness prover_id sectors private_replicas
     public_replicas sector_ids sector_challenges =
     bind_io (get_num_partition_for_fallback_post L P registered_proof_window_post (word_of_nat (length sectors)))
       (\<lambda>num_partitions_resp.
     expect_ok ''get_num_partition_for_fallback_post'' num_partitions_resp (
     bind_io (prove_partitions L P registered_proof_window_post randomness prover_id private_replicas sector_ids
       sector_challenges (map word_of_nat [0..<unat (value_of num_partitions_resp)])) (\<lambda>partition_proofs.
     bind_io (merge_window_post_partition_proofs L P registered_proof_window_post partition_proofs)
       (\<lambda>merged_proof_resp.
     expect_ok ''merge_window_post_partition_proofs'' merged_proof_resp (
     verify_window L P randomness prover_id public_replicas [value_of merged_proof_resp])))))"

section \<open>They succeed\<close>

lemma wp_or_panic [simp]: "wp (or_panic b m k) Q s \<longleftrightarrow> b \<and> wp k Q s"
  by (simp add: or_panic_def)

lemma winning_post_works:
  assumes L: "quiet I F L" and N: "challenges_sectors I F M P N" "proves_winning I F M P N" and w: "shows_view I F d w"
    and ready: "replicas_ready M d RegisteredPoStProof.StackedDrgWinning2KiBV1 [r]"
    and R: "\<And>w'. shows_view I F d w' \<Longrightarrow> R () w'"
  shows "wp (winning_post L P RegisteredPoStProof.StackedDrgWinning2KiBV1 randomness prover [k] [r] [public_of r]) R w"
proof -
  note verify = verify_winning_post_works [OF L N(2) _ _ ready, simplified]
  show ?thesis
    unfolding winning_post_def wp_bind
    apply (rule winning_challenge_works [OF L N(1) w], simp, unfold wp_checks Result_ok_sel)
    apply (simp only: if_False wp_bind)
    apply (rule winning_posts_work(1) [OF L N(2) _ refl _ ready], assumption, unfold wp_checks wp_bind Result_ok_sel)
    apply (erule (1) verify, unfold wp_checks wp_or_panic wp_ret Result_ok_sel simp_thms)
    apply (erule R)
    done
qed

lemma find_replica:
  assumes "k \<in> pri_sector_id ` set replicas"
  obtains r where "find (\<lambda>r. pri_sector_id r = k) replicas = Some r" "r \<in> set replicas" "pri_sector_id r = k"
  using assms by (cases "find (\<lambda>r. pri_sector_id r = k) replicas")
    (auto simp: find_None_iff find_Some_iff)

lemma gather_vanilla_works:
  assumes L: "quiet I F L" and N: "challenges_sectors I F M P N" and ready: "replicas_ready M d p replicas"
    and c: "c = claim_of p randomness prover replicas"
    and es: "drop i ids = map fst es" "\<forall>(k, cs) \<in> set es. k \<in> pri_sector_id ` set replicas \<and> challenged N c k cs"
    and w: "shows_view I F d w"
    and R: "\<And>vs w'. list_all2 (\<lambda>v. vanilla_for N v c) vs (map fst es) \<Longrightarrow> shows_view I F d w' \<Longrightarrow> R vs w'"
  shows "wp (gather_vanilla L P replicas ids i (map snd es)) R w"
  using es w R
proof (induction es arbitrary: i w R)
  case (Cons e es)
  obtain k cs where e: "e = (k, cs)" by fastforce
  have i: "i < length ids" "ids ! i = k" "drop (Suc i) ids = map fst es"
    using Cons.prems(1) e
    by (simp_all add: nth_via_drop drop_Suc tl_drop [symmetric], metis drop_all leI list.distinct(1))
  have "k \<in> pri_sector_id ` set replicas" using Cons.prems(2) e by simp
  then obtain r where r: "find (\<lambda>r. pri_sector_id r = k) replicas = Some r" "r \<in> set replicas" "pri_sector_id r = k"
    by (rule find_replica)
  have ch: "challenged N c (pri_sector_id r) cs" using Cons.prems(2) e r(3) by simp
  have rest: "\<forall>(k, cs) \<in> set es. k \<in> pri_sector_id ` set replicas \<and> challenged N c k cs" using Cons.prems(2) by simp
  have "wp (generate_single_vanilla_proof L P r cs) (\<lambda>resp. wp (expect_ok ''generate_single_vanilla_proof'' resp (
      bind_io (gather_vanilla L P replicas ids (Suc i) (map snd es)) (\<lambda>vs. ret (value_of resp # vs)))) R) w"
  proof (rule single_vanilla_proof_works [OF L N Cons.prems(3) c ready r(2) ch], unfold wp_checks wp_bind Result_ok_sel wp_ret)
    fix v w' assume v: "vanilla_for N v c (pri_sector_id r)" and w': "shows_view I F d w'"
    show "wp (gather_vanilla L P replicas ids (Suc i) (map snd es)) (\<lambda>vs. R (v # vs)) w'"
      by (rule Cons.IH [OF i(3) rest w']) (use Cons.prems(4) v e r(3) in simp)
  qed
  then show ?case using i r by (simp add: e)
qed simp

lemma gather_all_works:
  assumes "quiet I F L" and "challenges_sectors I F M P N" and "replicas_ready M d p replicas"
    and "c = claim_of p randomness prover replicas" and "map fst es = sectors_of c"
    and "\<forall>(k, cs) \<in> set es. k \<in> pri_sector_id ` set replicas \<and> challenged N c k cs" and "shows_view I F d w"
    and R: "\<And>vs w'. list_all2 (\<lambda>v. vanilla_for N v c) vs (sectors_of c) \<Longrightarrow> shows_view I F d w' \<Longrightarrow> R vs w'"
  shows "wp (gather_vanilla L P replicas (sectors_of c) 0 (map snd es)) R w"
  by (rule gather_vanilla_works [OF assms(1-4) _ assms(6,7)]) (simp_all add: assms(5) R)

lemma distributed_challenges_work:
  assumes L: "quiet I F L" and N: "challenges_sectors I F M P N" and w: "shows_view I F d w"
    and c: "c = claim_of p randomness prover replicas" and sectors: "sectors \<noteq> []" "set sectors = pri_sector_id ` set replicas"
    and R: "\<And>es w'. map fst es = sectors_of c \<Longrightarrow>
      \<forall>(k, cs) \<in> set es. k \<in> pri_sector_id ` set replicas \<and> challenged N c k cs \<Longrightarrow> shows_view I F d w' \<Longrightarrow>
      R (sectors_of c, map snd es) w'"
  shows "wp (challenge_sectors L P p randomness prover sectors) R w"
proof -
  have "R (sectors_of c, map snd es) w'" if es: "map fst es = sectors_of c" "\<forall>(k, cs) \<in> set es. challenged N c k cs"
    and "shows_view I F d w'" for es w'
  proof (rule R [OF es(1) _ that(3)], clarify)
    fix k cs assume e: "(k, cs) \<in> set es"
    then have "k \<in> set (sectors_of c)" unfolding es(1) [symmetric] by force
    then have "k \<in> pri_sector_id ` set replicas" by (simp add: sectors_of_def c)
    with es(2) e show "k \<in> pri_sector_id ` set replicas \<and> challenged N c k cs" by blast
  qed
  then show ?thesis
    unfolding challenge_sectors_def wp_bind Let_def
    by (intro fallback_challenges_work [OF L N w c sectors]) (auto dest: arg_cong [of _ _ length])
qed

lemma distributed_winning_post_works:
  assumes L: "quiet I F L" and N: "challenges_sectors I F M P N" "proves_winning I F M P N" and w: "shows_view I F d w"
    and ready: "replicas_ready M d RegisteredPoStProof.StackedDrgWinning2KiBV1 [r]"
    and R: "\<And>w'. shows_view I F d w' \<Longrightarrow> R () w'"
  shows "wp (distributed_winning_post L P RegisteredPoStProof.StackedDrgWinning2KiBV1 randomness prover [pri_sector_id r]
    [r] [public_of r]) R w"
proof -
  note verify = verify_winning_post_works [OF L N(2) _ _ ready, simplified]
  note gather = gather_all_works [OF L N(1) ready refl]
  show ?thesis
    unfolding distributed_winning_post_def wp_bind
    apply (rule distributed_challenges_work [OF L N(1) w refl, where replicas = "[r]"], simp, simp, simp only: prod.case wp_bind)
    apply (rule gather, assumption, assumption, assumption, unfold wp_bind)
    apply (rule winning_posts_work(2) [OF L N(2) _ refl], assumption, unfold wp_checks wp_bind Result_ok_sel)
     apply (erule (1) verify, unfold wp_checks wp_or_panic wp_ret Result_ok_sel simp_thms, erule R)
    apply simp
    done
qed

lemma verify_window_works:
  assumes L: "quiet I F L" and N: "proves_window I F M P N" and w: "shows_view I F d w"
    and c: "window_for N (map (\<lambda>x. (to_api_post (post_registered_proof x), post_proof x)) ps)
      (claim_of p randomness prover replicas)"
    and ready: "replicas_ready M d p replicas" and R: "\<And>w'. shows_view I F d w' \<Longrightarrow> R () w'"
  shows "wp (verify_window L P randomness prover (map public_of replicas) ps) R w"
  unfolding verify_window_def wp_bind by (rule verify_window_post_works [OF L N w c ready]) (simp add: R)

lemma window_post_works:
  assumes L: "quiet I F L" and N: "proves_window I F M P N" and w: "shows_view I F d w"
    and ready: "replicas_ready M d RegisteredPoStProof.StackedDrgWindow2KiBV1 replicas"
    and R: "\<And>w'. shows_view I F d w' \<Longrightarrow> R () w'"
  shows "wp (window_post L P randomness prover replicas (map public_of replicas)) R w"
  unfolding window_post_def wp_bind
  by (rule window_posts_work(1) [OF L N w refl _ ready], unfold wp_checks Result_ok_sel, simp only: GenerateWindowPoSt.simps)
     (erule (1) verify_window_works [OF L N _ _ ready], erule R)

lemma distributed_window_post_works:
  assumes L: "quiet I F L" and N: "challenges_sectors I F M P N" "proves_window I F M P N" and w: "shows_view I F d w"
    and ready: "replicas_ready M d RegisteredPoStProof.StackedDrgWindow2KiBV1 replicas"
    and c: "c = claim_of RegisteredPoStProof.StackedDrgWindow2KiBV1 randomness prover replicas"
    and R: "\<And>es w'. map fst es = sectors_of c \<Longrightarrow>
      \<forall>(k, cs) \<in> set es. k \<in> pri_sector_id ` set replicas \<and> challenged N c k cs \<Longrightarrow> shows_view I F d w' \<Longrightarrow>
      R (sectors_of c, map snd es) w'"
  shows "wp (distributed_window_post L P RegisteredPoStProof.StackedDrgWindow2KiBV1 randomness prover
    (map pri_sector_id replicas) replicas (map public_of replicas)) R w"
proof -
  have some: "map pri_sector_id replicas \<noteq> []" "set (map pri_sector_id replicas) = pri_sector_id ` set replicas"
    using ready by (simp_all add: replicas_ready_def)
  then have "sectors_of c \<noteq> []" by (simp add: sectors_of_def c)
  then have vs: "vs \<noteq> []" if "list_all2 (\<lambda>v. vanilla_for N v c) vs (sectors_of c)" for vs
    using that by auto
  note gather = gather_all_works [OF L N(1) ready c]
  show ?thesis
    unfolding distributed_window_post_def wp_bind
    apply (rule distributed_challenges_work [OF L N(1) w c some], simp only: prod.case wp_bind)
    apply (rule gather, assumption, assumption, assumption, unfold wp_bind)
    apply (rule window_posts_work(2) [OF L N(2) _ c], assumption, unfold wp_checks wp_bind Result_ok_sel)
      apply (simp only: GenerateWindowPoSt.simps, rule verify_window_works [OF L N(2) _ _ ready], assumption, simp only: c)
      apply (simp only: wp_ret, erule (2) R)
     apply (assumption, erule vs)
    done
qed

lemma single_partition_post_works:
  assumes L: "quiet I F L" and N: "challenges_sectors I F M P N" "proves_window I F M P N" and w: "shows_view I F d w"
    and ready: "replicas_ready M d RegisteredPoStProof.StackedDrgWindow2KiBV1 replicas" "length replicas \<le> 2"
    and c: "c = claim_of RegisteredPoStProof.StackedDrgWindow2KiBV1 randomness prover replicas"
    and es: "map fst es = sectors_of c" "\<forall>(k, cs) \<in> set es. k \<in> pri_sector_id ` set replicas \<and> challenged N c k cs"
    and R: "\<And>w'. shows_view I F d w' \<Longrightarrow> R () w'"
  shows "wp (single_partition_post L P RegisteredPoStProof.StackedDrgWindow2KiBV1 randomness prover
    (map pri_sector_id replicas) replicas (map public_of replicas) (sectors_of c) (map snd es)) R w"
proof -
  have some: "replicas \<noteq> []" using ready by (simp add: replicas_ready_def)
  then have n: "0 < (word_of_nat (length (map pri_sector_id replicas)) :: u64)"
    "(word_of_nat (length (map pri_sector_id replicas)) :: u64) \<le> 2"
    using ready(2) by (cases replicas; cases "tl replicas"; simp)+
  have "length (sectors_of c) \<le> 2" "sectors_of c \<noteq> []"
    using ready(2) some card_image_le [of "set replicas" pri_sector_id] card_length [of replicas]
    by (simp_all add: sectors_of_def c)
  then have vs: "vs \<noteq> []" "length vs \<le> 2" if "list_all2 (\<lambda>v. vanilla_for N v c) vs (sectors_of c)" for vs
    using that list_all2_lengthD [OF that] by auto
  note gather = gather_all_works [OF L N(1) ready(1) c es]
  have one: "map word_of_nat [0..<unat (1 :: u64)] = [0 :: u64]" by simp
  have loop: "wp (prove_partitions L P RegisteredPoStProof.StackedDrgWindow2KiBV1 randomness prover replicas (sectors_of c)
      (map snd es) [0]) R' v" if v: "shows_view I F d v" and R': "\<And>b w'. partition_for N b c \<Longrightarrow> shows_view I F d w' \<Longrightarrow> R' [b] w'"
    for R' v
    unfolding prove_partitions.simps wp_bind
    apply (rule gather [OF v])
    apply (rule single_window_post_works [OF L N(2) _ c], assumption, assumption, erule vs, erule vs)
    apply (unfold wp_checks wp_bind wp_ret Result_ok_sel)
    apply (simp only: GenerateSingleWindowPoStWithVanilla.simps PartitionSnarkProof.simps)
    apply (erule (1) R')
    done
  show ?thesis
    unfolding single_partition_post_def wp_bind
    apply (rule num_partitions_works [OF L N(2) w n], unfold wp_checks wp_bind Result_ok_sel)
    apply (unfold one, erule loop, rule merge_partition_works [OF L N(2) _ c], assumption, assumption, unfold wp_checks Result_ok_sel)
    apply (rule verify_window_works [OF L N(2) _ _ ready(1)], assumption, simp add: c, erule R)
    done
qed

end
