(* ===== verification/Sealing_Test.thy ===== *)
theory Sealing_Test
  imports Update_Tests Post_Tests
begin

text \<open>
  The sealing test of \<open>rust/src/proofs/api.rs\<close> as a whole: a sector is sealed, proved and verified,
  updated and restored, unsealed and compared with the pieces, and its storage is proved and
  verified in five ways. The property is that the test passes on a library that keeps its
  contracts, and leaves no named file behind. Responses are dropped by the test; their memory
  is the subject of the theory Responses.
\<close>

section \<open>The test\<close>

definition unseal_and_compare ::
    "'s test_env \<Rightarrow> 's logger \<Rightarrow> ('s, 'p1, 'c1, 'fr) seal_lib \<Rightarrow> RegisteredSealProof \<Rightarrow> path \<Rightarrow> i32 \<Rightarrow> i32 \<Rightarrow> path \<Rightarrow> u64
      \<Rightarrow> array32 \<Rightarrow> array32 \<Rightarrow> array32 \<Rightarrow> bytes \<Rightarrow> WriteWithoutAlignment Result \<Rightarrow> WriteWithAlignment Result
      \<Rightarrow> ('s world, anyhow + unit) io" where
  "unseal_and_compare E L S registered_proof_seal cache_dir_path sealed_fd unseal_fd unseal_path sector_id prover_id ticket
     comm_d buf_a resp_a1 resp_a2 =
     bind_io (unseal_range L S registered_proof_seal cache_dir_path sealed_fd unseal_fd sector_id prover_id ticket comm_d
       0 2032) (\<lambda>resp_e.
     expect_ok ''unseal'' resp_e (
     try_io (lift_ext (env_read E unseal_path)) (\<lambda>buf_b.
     let piece_a_len = wwo_total_write_unpadded (value_of resp_a1);
         piece_b_len = wwa_total_write_unpadded (value_of resp_a2);
         piece_b_prefix_len = left_alignment_unpadded (value_of resp_a2);
         alignment = replicate (unat piece_b_prefix_len) 0
     in
     bind_io (from_exec (slice_of buf_a 0 (unat piece_a_len))) (\<lambda>piece_a.
     bind_io (from_exec (slice_of buf_a 0 (unat (piece_b_len - piece_b_prefix_len)))) (\<lambda>piece_b.
     let expected = concat [piece_a, alignment, piece_b]
     in
     assert_io (expected = buf_b) (StringPayload ''original bytes don't match unsealed bytes'') (
     ret (Inr ())))))))"

definition spacetime_proofs ::
    "'s logger \<Rightarrow> 's post_lib \<Rightarrow> path \<Rightarrow> path \<Rightarrow> array32 \<Rightarrow> u64 \<Rightarrow> u64 \<Rightarrow> array32 \<Rightarrow> array32 \<Rightarrow> ('s world, unit) io" where
  "spacetime_proofs L P cache_dir_path sealed_path comm_r sector_id sector_id2 randomness prover_id =
     (let registered_proof_winning_post = RegisteredPoStProof.StackedDrgWinning2KiBV1;
          registered_proof_window_post = RegisteredPoStProof.StackedDrgWindow2KiBV1;
          sectors = [sector_id];
          private_replicas = [\<lparr>pri_registered_proof = registered_proof_winning_post, pri_cache_dir_path = cache_dir_path,
            pri_comm_r = comm_r, pri_replica_path = sealed_path, pri_sector_id = sector_id\<rparr>];
          public_replicas = [\<lparr>pub_registered_proof = registered_proof_winning_post, pub_comm_r = comm_r,
            pub_sector_id = sector_id\<rparr>]
      in
      bind_io (winning_post L P registered_proof_winning_post randomness prover_id sectors private_replicas
        public_replicas) (\<lambda>_.
      bind_io (distributed_winning_post L P registered_proof_winning_post randomness prover_id sectors
        private_replicas public_replicas) (\<lambda>_.
      let private_replicas = [\<lparr>pri_registered_proof = registered_proof_window_post, pri_cache_dir_path = cache_dir_path,
            pri_comm_r = comm_r, pri_replica_path = sealed_path, pri_sector_id = sector_id\<rparr>];
          public_replicas = [\<lparr>pub_registered_proof = registered_proof_window_post, pub_comm_r = comm_r,
            pub_sector_id = sector_id\<rparr>]
      in
      bind_io (window_post L P randomness prover_id private_replicas public_replicas) (\<lambda>_.
      let sectors = [sector_id, sector_id2];
          private_replicas = [\<lparr>pri_registered_proof = registered_proof_window_post, pri_cache_dir_path = cache_dir_path,
            pri_comm_r = comm_r, pri_replica_path = sealed_path, pri_sector_id = sector_id\<rparr>,
            \<lparr>pri_registered_proof = registered_proof_window_post, pri_cache_dir_path = cache_dir_path,
            pri_comm_r = comm_r, pri_replica_path = sealed_path, pri_sector_id = sector_id2\<rparr>];
          public_replicas = [\<lparr>pub_registered_proof = registered_proof_window_post, pub_comm_r = comm_r,
            pub_sector_id = sector_id\<rparr>, \<lparr>pub_registered_proof = registered_proof_window_post, pub_comm_r = comm_r,
            pub_sector_id = sector_id2\<rparr>]
      in
      bind_io (distributed_window_post L P registered_proof_window_post randomness prover_id sectors private_replicas
        public_replicas) (\<lambda>(sector_ids, sector_challenges).
      single_partition_post L P registered_proof_window_post randomness prover_id sectors private_replicas
        public_replicas sector_ids sector_challenges)))))"

definition test_sealing_inner ::
    "'s test_env \<Rightarrow> 's logger \<Rightarrow> ('s, 'p1, 'c1, 'fr) seal_lib \<Rightarrow> 's update_lib \<Rightarrow> 's post_lib \<Rightarrow> (bytes \<Rightarrow> anyhow + 'el)
      \<Rightarrow> RegisteredSealProof \<Rightarrow> ('s world, anyhow + unit) io" where
  "test_sealing_inner E L S U P bytes_into_fr registered_proof_seal =
     (let prover_id = replicate 32 1; randomness = replicate 32 7; sector_id = 42; sector_id2 = 43;
          seed = replicate 32 5; ticket = replicate 32 6
      in
      try_io (sector_files E) (\<lambda>(cache_dir_path, buf_a, piece_file_a_fd, piece_file_b_fd, staged_sector_fd, staged_path,
        sealed_fd, sealed_path).
      try_io (kept_file E) (\<lambda>(unseal_fd, unseal_path).
      bind_io (write_two_pieces L S registered_proof_seal piece_file_a_fd piece_file_b_fd staged_sector_fd)
        (\<lambda>(pieces, resp_a1, resp_a2).
      bind_io (pre_commit_sector L S registered_proof_seal cache_dir_path staged_path sealed_path sector_id prover_id
        ticket pieces) (\<lambda>(resp_x, resp_b2).
      bind_io (commit_sector L S registered_proof_seal cache_dir_path sealed_path sector_id prover_id ticket seed
        pieces resp_x resp_b2) (\<lambda>_.
      try_io (update_sector E L S U bytes_into_fr registered_proof_seal cache_dir_path sealed_path buf_a
        (spc2_comm_r (value_of resp_b2))) (\<lambda>_.
      try_io (unseal_and_compare E L S registered_proof_seal cache_dir_path sealed_fd unseal_fd unseal_path sector_id
        prover_id ticket (spc2_comm_d (value_of resp_b2)) buf_a resp_a1 resp_a2) (\<lambda>_.
      bind_io (spacetime_proofs L P cache_dir_path sealed_path (spc2_comm_r (value_of resp_b2)) sector_id sector_id2
        randomness prover_id) (\<lambda>_.
      try_io (ensure_removed E staged_path ''failed to remove staged_path'') (\<lambda>_.
      try_io (ensure_removed E sealed_path ''failed to remove sealed_path'') (\<lambda>_.
      try_io (ensure_removed E unseal_path ''failed to remove unseal_path'') (\<lambda>_.
      ret (Inr ())))))))))))))"

definition test_sealing_v1 where
  "test_sealing_v1 E L S U P bytes_into_fr =
     test_sealing_inner E L S U P bytes_into_fr RegisteredSealProof.StackedDrg2KiBV1"

definition test_sealing_v1_1 where
  "test_sealing_v1_1 E L S U P bytes_into_fr =
     test_sealing_inner E L S U P bytes_into_fr RegisteredSealProof.StackedDrg2KiBV1_1"

section \<open>Unsealing\<close>

text \<open>The path of a descriptor is the name of its file; a range of a sealed sector with its cache is that
  range of the user's data.\<close>

definition unseals_sectors ::
    "('s \<Rightarrow> bool) \<Rightarrow> ('s \<Rightarrow> disk) \<Rightarrow> ('s, 'p1, 'c1, 'fr) seal_lib \<Rightarrow> ('p1, 'c1, 'fr) seal_meaning \<Rightarrow> bool" where
  "unseals_sectors I F S M \<longleftrightarrow>
     (\<forall>s fd p i. I s \<and> opened (F s) fd = Some (Named p, i) \<and> bytes_of (F s) (Named p) \<noteq> None \<longrightarrow>
        wp (lib_file_path S fd) (\<lambda>r s'. r = Some p \<and> I s' \<and> F s' = F s) s) \<and>
     (\<forall>d job out b c fd dest index amount. replica_for M out job \<and> bytes_of d (Named (job_sealed job)) = Some b \<and>
        caches d (job_cache job) = Some c \<and> is_replica M b c (out_comm_r out) \<and> encodes_job M b job \<and> opened d fd = Some (Named dest, 0) \<and>
        bytes_of d (Named dest) = Some [] \<and> dest \<noteq> job_sealed job \<and>
        unat index + unat amount \<le> length (job_data job) \<longrightarrow>
        delivers I F (lib_get_unsealed_range_mapped S (job_proof job) (job_cache job) (job_sealed job) fd (job_prover job)
            (job_sector job) (out_comm_d out) (job_ticket job) index amount) d
          (\<lambda>_ d'. d' = d\<lparr>opened := (opened d)(fd \<mapsto> (Named dest, unat amount)),
             bytes_of := (bytes_of d)(Named dest \<mapsto> take (unat amount) (drop (unat index) (job_data job)))\<rparr>))"

lemmas file_path_law = unseals_sectors_def [THEN iffD1, THEN conjunct1, rule_format]
  and unseal_law = unseals_sectors_def [THEN iffD1, THEN conjunct2, rule_format]

lemma wp_files_until_raw:
  "wp m (\<lambda>r w'. \<exists>a. r = Inr a \<and> Q r w') w \<Longrightarrow> wp (files_until_raw fds m) Q w"
  by (auto simp: wp_def files_until_raw_def)

lemma file_path_works:
  assumes "unseals_sectors I F S M" and w: "shows_view I F d w"
    and "opened d fd = Some (Named p, i)" and "bytes_of d (Named p) \<noteq> None"
    and R: "\<And>w'. shows_view I F d w' \<Longrightarrow> R (Some p) w'"
  shows "wp (lift_ext (lib_file_path S fd)) R w"
proof -
  have "wp (lib_file_path S fd) (\<lambda>r s'. r = Some p \<and> I s' \<and> F s' = F (ext w)) (ext w)"
    by (rule file_path_law [OF assms(1)]) (use assms(3,4) w in \<open>auto simp: shows_view_def\<close>)
  then obtain e where "lib_file_path S fd (ext w) = (Returns (Some p), e)" "I e" "F e = F (ext w)"
    by (auto simp: wp_def)
  with w R show ?thesis
    by (auto simp: shows_view_def lift_ext_def intro!: wpI)
qed

lemma unseal_range_works:
  assumes L: "quiet I F L" and S: "unseals_sectors I F S M" and w: "shows_view I F d w"
    and sealed: "sector_sealed M d job out" "opened d sealed_fd = Some (Named (job_sealed job), i)"
    and dest: "opened d fd = Some (Named dest, 0)" "bytes_of d (Named dest) = Some []" "dest \<noteq> job_sealed job"
    and len: "unat index + unat amount \<le> length (job_data job)" and p: "job_proof job = to_api_seal p"
    and R: "\<And>w'. shows_view I F (d\<lparr>opened := (opened d)(fd \<mapsto> (Named dest, unat amount)),
      bytes_of := (bytes_of d)(Named dest \<mapsto> take (unat amount) (drop (unat index) (job_data job)))\<rparr>) w' \<Longrightarrow>
      R (Result_ok ()) w'"
  shows "wp (unseal_range L S p (job_cache job) sealed_fd fd (job_sector job) (job_prover job) (job_ticket job) (out_comm_d out)
    index amount) R w"
proof -
  let ?d = "d\<lparr>opened := (opened d)(fd \<mapsto> (Named dest, unat amount)),
      bytes_of := (bytes_of d)(Named dest \<mapsto> take (unat amount) (drop (unat index) (job_data job)))\<rparr>"
  from sealed(1) obtain b c where b: "replica_for M out job" "bytes_of d (Named (job_sealed job)) = Some b"
    "caches d (job_cache job) = Some c" "is_replica M b c (out_comm_r out)" "encodes_job M b job" by (auto simp: sector_sealed_def)
  have lib: "delivers I F (lib_get_unsealed_range_mapped S (to_api_seal p) (job_cache job) (job_sealed job) fd
      (job_prover job) (job_sector job) (out_comm_d out) (job_ticket job) index amount) d (\<lambda>_ d'. d' = ?d)"
    unfolding p [symmetric] by (rule unseal_law [OF S]) (use b dest len in blast)
  show ?thesis
    unfolding unseal_range_def as_path_buf_def try_val_simps
  proof (rule wp_guarded [OF L w, where Q = "\<lambda>_ d'. d' = ?d"])
    fix v assume v: "shows_view I F d v"
    show "wp (files_until_raw [fd, sealed_fd] (bind_io (lift_ext (lib_file_path S sealed_fd)) (\<lambda>sealed_path.
        case sealed_path of None \<Rightarrow> raise unwrap_failed
        | Some sealed \<Rightarrow> try_io (lift_ext (lib_get_unsealed_range_mapped S (to_api_seal p) (job_cache job) sealed fd
            (job_prover job) (job_sector job) (out_comm_d out) (job_ticket job) index amount)) (\<lambda>_. ret (Inr ())))))
      (\<lambda>r v'. \<exists>x d'. r = Inr x \<and> shows_view I F d' v' \<and> d' = ?d) v"
      by (rule wp_files_until_raw, unfold wp_bind, rule file_path_works [OF S v sealed(2)], use b in simp,
          simp only: option.case wp_try_io, rule wp_lift_ext [OF lib], assumption) simp
  qed (simp add: R)
qed

lemma unseal_and_compare_works:
  assumes L: "quiet I F L" and E: "env_contract I F E" and S: "unseals_sectors I F S M" and w: "shows_view I F d w"
    and sealed: "sector_sealed M d (test_job p cache sealed sector prover ticket pieces (sector_data buf buf)) out"
      "opened d sealed_fd = Some (Named sealed, i)"
    and dest: "opened d fd = Some (Named dest, 0)" "bytes_of d (Named dest) = Some []" "dest \<noteq> sealed"
    and len: "length buf = 2032"
    and a: "wwo_total_write_unpadded a1 = 127" "left_alignment_unpadded a2 = 889" "wwa_total_write_unpadded a2 = 1905"
    and R: "\<And>d' w'. touches {fd} {dest} {} d d' \<Longrightarrow> shows_view I F d' w' \<Longrightarrow> R (Inr ()) w'"
  shows "wp (unseal_and_compare E L S p cache sealed_fd fd dest sector prover ticket (out_comm_d out) buf (Result_ok a1)
    (Result_ok a2)) R w"
proof -
  let ?job = "test_job p cache sealed sector prover ticket pieces (sector_data buf buf)"
  let ?d = "d\<lparr>opened := (opened d)(fd \<mapsto> (Named dest, 2032)), bytes_of := (bytes_of d)(Named dest \<mapsto> sector_data buf buf)\<rparr>"
  have n: "length (sector_data buf buf) = 2032" by (simp add: sector_data_def len)
  have t: "touches {fd} {dest} {} d ?d" using dest(1,2) by (simp add: touches_def)
  have slices: "slice_of buf 0 (unat (127 :: u64)) = Returns (take 127 buf)"
    "slice_of buf 0 (unat (1905 - 889 :: u64)) = Returns (take 1016 buf)" by (simp_all add: slice_of_def len)
  have range: "unat (2032 :: u64) = 2032" "take 2032 (drop (unat (0 :: u64)) (sector_data buf buf)) = sector_data buf buf"
    using n by simp_all
  note unseal = unseal_range_works [OF L S w, where job = ?job and out = out and index = 0 and amount = 2032 and p = p,
      unfolded sector_job.simps range, OF sealed dest _ refl]
  show ?thesis
    unfolding unseal_and_compare_def Let_def wp_bind Result_ok_sel a
    apply (rule unseal, simp add: n, unfold wp_checks wp_try_io)
    apply (erule read_works [OF E], simp, simp only: sum.case wp_bind slices wp_from_exec wp_checks exec.inject simp_thms wp_ret)
    apply (simp add: sector_data_def R [OF t [unfolded sector_data_def]])
    done
qed

lemma bench_unseals_sectors: "unseals_sectors bench_ok id bench_seal bench_meaning"
  unfolding unseals_sectors_def
proof (intro conjI allI impI)
  fix d :: disk and job :: sector_job and out b c fd dest and index amount :: u64
  assume a: "replica_for bench_meaning out job \<and> bytes_of d (Named (job_sealed job)) = Some b \<and>
    caches d (job_cache job) = Some c \<and> is_replica bench_meaning b c (out_comm_r out) \<and> encodes_job bench_meaning b job \<and> opened d fd = Some (Named dest, 0) \<and>
    bytes_of d (Named dest) = Some [] \<and> dest \<noteq> job_sealed job \<and> unat index + unat amount \<le> length (job_data job)"
  let ?b = "take (unat amount) (drop (unat index) (job_data job))"
  have data: "bench_user b = job_data job" and len: "length ?b = unat amount"
    using a by (auto simp: bench_meaning_def)
  have keep: "bench_ok d \<Longrightarrow> bench_ok (d\<lparr>opened := (opened d)(fd \<mapsto> (Named dest, unat amount)),
      bytes_of := (bytes_of d)(Named dest \<mapsto> ?b)\<rparr>)"
    by (rule bench_keeps) (use a in \<open>auto split: if_splits\<close>)
  show "delivers bench_ok id (lib_get_unsealed_range_mapped bench_seal (job_proof job) (job_cache job) (job_sealed job) fd
      (job_prover job) (job_sector job) (out_comm_d out) (job_ticket job) index amount) d
      (\<lambda>_ d'. d' = d\<lparr>opened := (opened d)(fd \<mapsto> (Named dest, unat amount)), bytes_of := (bytes_of d)(Named dest \<mapsto> ?b)\<rparr>)"
    by (rule delivers_id) (simp add: bench_seal_def Let_def, use a data len keep in simp)
qed (auto simp: bench_seal_def intro!: wpI)

section \<open>The test passes\<close>

lemma spacetime_proofs_work:
  assumes L: "quiet I F L" and N: "challenges_sectors I F M P N" "proves_winning I F M P N" "proves_window I F M P N"
    and w: "shows_view I F d w" and sealed: "bytes_of d (Named sealed) = Some b" "caches d cache = Some c"
      "is_replica M b c comm_r"
    and ids: "sector \<noteq> sector2" and R: "\<And>w'. shows_view I F d w' \<Longrightarrow> R () w'"
  shows "wp (spacetime_proofs L P cache sealed comm_r sector sector2 randomness prover) R w"
proof -
  let ?r = "\<lambda>p k. \<lparr>pri_registered_proof = p, pri_cache_dir_path = cache, pri_comm_r = comm_r, pri_replica_path = sealed,
    pri_sector_id = k\<rparr>"
  let ?winning = "RegisteredPoStProof.StackedDrgWinning2KiBV1" and ?window = "RegisteredPoStProof.StackedDrgWindow2KiBV1"
  have ready: "replicas_ready M d ?winning [?r ?winning sector]" "replicas_ready M d ?window [?r ?window sector]"
    "replicas_ready M d ?window [?r ?window sector, ?r ?window sector2]"
    using sealed ids by (auto simp: replicas_ready_def)
  note winning = winning_post_works [OF L N(1,2) _ ready(1), unfolded public_of_def PrivateReplicaInfo.simps]
    and winning' = distributed_winning_post_works [OF L N(1,2) _ ready(1), unfolded public_of_def PrivateReplicaInfo.simps]
    and window = window_post_works [OF L N(3) _ ready(2), unfolded list.map public_of_def PrivateReplicaInfo.simps]
    and window' = distributed_window_post_works [OF L N(1,3) _ ready(3) refl, unfolded list.map public_of_def
      PrivateReplicaInfo.simps]
    and single = single_partition_post_works [OF L N(1,3) _ ready(3) _ refl, unfolded list.map public_of_def
      PrivateReplicaInfo.simps]
  show ?thesis
    unfolding spacetime_proofs_def Let_def wp_bind
    apply (rule winning [OF w], rule winning', assumption, rule window, assumption, rule window', assumption)
    apply (simp only: prod.case, rule single, assumption, simp, assumption, assumption, erule R)
    done
qed

lemma files_ready_more:
  assumes "files_ready d0 d ps cache buf a b staged_fd staged sealed_fd sealed" and "opened d fd = None"
    and "bytes_of d (Named q) = None"
  shows "files_ready d0 (d\<lparr>opened := (opened d)(fd \<mapsto> (Named q, 0)), bytes_of := (bytes_of d)(Named q \<mapsto> []), room := n\<rparr>)
    (insert q ps) cache buf a b staged_fd staged sealed_fd sealed"
  using assms by (auto simp: files_ready_def intro!: temporary_new)

lemma unseal_ready:
  assumes ready: "files_ready d0 d ps cache buf a b staged_fd staged sealed_fd sealed" and new: "opened d fd = None"
      "bytes_of d (Named q) = None"
    and t: "touches {a, b, staged_fd} {staged, sealed} {cache} (d\<lparr>opened := (opened d)(fd \<mapsto> (Named q, 0)),
      bytes_of := (bytes_of d)(Named q \<mapsto> []), room := n\<rparr>) d'"
  shows "opened d' sealed_fd = Some (Named sealed, 0) \<and> opened d' fd = Some (Named q, 0) \<and> bytes_of d' (Named q) = Some [] \<and>
    distinct [staged, sealed, q] \<and> length buf = 2032 \<and> room d' = n"
proof -
  have r: "opened d sealed_fd = Some (Named sealed, 0)" "opened d a = Some (Anon a, 0)" "opened d b = Some (Anon b, 0)"
    "opened d staged_fd = Some (Named staged, 0)" "bytes_of d (Named staged) = Some []" "bytes_of d (Named sealed) = Some []"
    "distinct [a, b, staged_fd, sealed_fd]" "staged \<noteq> sealed" "length buf = 2032" using ready by (simp_all add: files_ready_def)
  have ne: "fd \<notin> {a, b, staged_fd}" "fd \<noteq> sealed_fd" "q \<notin> {staged, sealed}" using r new by auto
  with touches_opened [OF t, of fd] touches_opened [OF t, of sealed_fd] touches_bytes [OF t, of q] touches_room [OF t] r
  show ?thesis by auto
qed

lemma temporary_restored: "temporary d0 d ps \<Longrightarrow> temporary d d' {} \<Longrightarrow> temporary d0 d' ps"
  by (simp add: temporary_def)

text \<open>What follows when the sector is sealed, on the disk \<open>d\<close>: the update, the comparison, the proofs, and
  the removal of the files.\<close>

lemma sealed_sector_stages_work:
  assumes L: "quiet I F L" and E: "env_contract I F E" and W: "writes_pieces I F S M" and Q: "seals_sectors I F S M"
    and C: "sector_contents into_fr S M"
    and U: "encodes_updates I F M U N" "proves_updates I F U N" and X: "unseals_sectors I F S M"
    and P: "challenges_sectors I F M P K" "proves_winning I F M P K" "proves_window I F M P K"
    and w: "shows_view I F d w" and room: "8 \<le> room d" and cap: "lib_max_user_bytes S (to_api_seal p) = Returns 2032"
    and sealed: "sector_sealed M d (test_job p cache sealed sector prover ticket pieces (sector_data buf buf)) out"
    and fds: "opened d sealed_fd = Some (Named sealed, 0)" "opened d unseal_fd = Some (Named unseal, 0)"
      "bytes_of d (Named unseal) = Some []"
    and temp: "temporary d0 d {unseal, staged, sealed}" "distinct [staged, sealed, unseal]"
    and buf: "length buf = 2032" and ids: "sector \<noteq> sector2"
    and a: "wwo_total_write_unpadded a1 = 127" "left_alignment_unpadded a2 = 889" "wwa_total_write_unpadded a2 = 1905"
  shows "wp (try_io (update_sector E L S U into_fr p cache sealed buf (out_comm_r out)) (\<lambda>_.
      try_io (unseal_and_compare E L S p cache sealed_fd unseal_fd unseal sector prover ticket (out_comm_d out) buf
        (Result_ok a1) (Result_ok a2)) (\<lambda>_.
      bind_io (spacetime_proofs L P cache sealed (out_comm_r out) sector sector2 randomness prover) (\<lambda>_.
      try_io (ensure_removed E staged m1) (\<lambda>_. try_io (ensure_removed E sealed m2) (\<lambda>_.
      try_io (ensure_removed E unseal m3) (\<lambda>_. ret (Inr ()))))))))
    (\<lambda>r w'. r = Inr () \<and> (\<forall>path. bytes_of (F (ext w')) (Named path) = bytes_of d0 (Named path))) w"
  unfolding wp_try_io
proof (rule update_sector_works [OF L E W Q C U w room cap sealed, unfolded sector_job.simps, OF _ buf],
    simp add: sector_data_def buf, simp only: sum.case wp_try_io)
  let ?job = "test_job p cache sealed sector prover ticket pieces (sector_data buf buf)"
  fix d1 w1 assume d1: "temporary d d1 {}" "undisturbed d d1" and w1: "shows_view I F d1 w1"
  have bytes: "bytes_of d1 (Named q) = bytes_of d (Named q)" for q using d1(1) by (simp add: temporary_def)
  have sealed1: "sector_sealed M d1 ?job out" using sealed d1(2) by (auto simp: sector_sealed_def bytes undisturbed_def)
  have fds1: "opened d1 sealed_fd = Some (Named sealed, 0)" "opened d1 unseal_fd = Some (Named unseal, 0)"
    "bytes_of d1 (Named unseal) = Some []" "unseal \<noteq> sealed"
    using fds d1(2) temp(2) by (auto simp: undisturbed_def bytes)
  have temp1: "temporary d0 d1 {unseal, staged, sealed}" by (rule temporary_restored [OF temp(1) d1(1)])
  show "wp (unseal_and_compare E L S p cache sealed_fd unseal_fd unseal sector prover ticket (out_comm_d out) buf
      (Result_ok a1) (Result_ok a2)) (\<lambda>r. case r of Inl e \<Rightarrow> \<lambda>w'. Inl e = Inr () \<and>
        (\<forall>path. bytes_of (F (ext w')) (Named path) = bytes_of d0 (Named path)) | Inr x \<Rightarrow> wp (
      bind_io (spacetime_proofs L P cache sealed (out_comm_r out) sector sector2 randomness prover) (\<lambda>_.
      try_io (ensure_removed E staged m1) (\<lambda>_. try_io (ensure_removed E sealed m2) (\<lambda>_.
      try_io (ensure_removed E unseal m3) (\<lambda>_. ret (Inr ()))))))
      (\<lambda>r w'. r = Inr () \<and> (\<forall>path. bytes_of (F (ext w')) (Named path) = bytes_of d0 (Named path)))) w1"
  proof (rule unseal_and_compare_works [OF L E X w1 sealed1 fds1 buf a], simp only: sum.case wp_bind)
    fix d2 w2 assume t: "touches {unseal_fd} {unseal} {} d1 d2" and w2: "shows_view I F d2 w2"
    have "sector_sealed M d2 ?job out" by (rule sector_sealed_touched [OF sealed1 t]) (use fds1(4) in simp_all)
    then obtain b c where b: "bytes_of d2 (Named sealed) = Some b" "caches d2 cache = Some c" "is_replica M b c (out_comm_r out)"
      by (auto simp: sector_sealed_def)
    have temp2: "temporary d0 d2 {unseal, staged, sealed}" by (rule temporary_touched [OF temp1 t]) simp
    show "wp (spacetime_proofs L P cache sealed (out_comm_r out) sector sector2 randomness prover) (\<lambda>_. wp (
        try_io (ensure_removed E staged m1) (\<lambda>_. try_io (ensure_removed E sealed m2) (\<lambda>_.
        try_io (ensure_removed E unseal m3) (\<lambda>_. ret (Inr ())))))
        (\<lambda>r w'. r = Inr () \<and> (\<forall>path. bytes_of (F (ext w')) (Named path) = bytes_of d0 (Named path)))) w2"
      apply (rule spacetime_proofs_work [OF L P w2 b ids], unfold wp_try_io)
      apply (rule ensure_removed_works [OF E _ temp2], assumption, simp, simp only: sum.case wp_try_io)
      apply (rule ensure_removed_works [OF E], assumption, assumption, use temp(2) in force, simp only: sum.case wp_try_io)
      apply (rule ensure_removed_works [OF E], assumption, assumption, use temp(2) in force)
      apply (simp only: sum.case wp_ret simp_thms, erule (1) temporary_gone, blast)
      done
  qed
qed



end
