(* ===== verification/Go_Bls.thy ===== *)
theory Go_Bls
  imports Go_Memory
begin

text \<open>
  The BLS functions as Go calls them (\<open>bls.go\<close>, \<open>cgo/bls.go\<close>): the exported function answers with
  a boxed array, or a null pointer for \<open>None\<close>, the wrapper copies the array and destroys the
  box. The properties relate the wrappers to the exported functions, the two verification
  functions to each other, and run the test of the module on any library that keeps its
  contract.
\<close>

section \<open>Boxed arrays\<close>

definition box_array :: "bytes option exec \<Rightarrow> ('w \<times> heap, cval) io" where
  "box_array x = (\<lambda>(w, h).
     case x of
       Returns None \<Rightarrow> (Returns (CBox Null), (w, h))
     | Returns (Some b) \<Rightarrow> (case box_new (VPlain (PArray b)) h of (p, h') \<Rightarrow> (Returns p, (w, h')))
     | Panics p \<Rightarrow> (Panics p, (w, h))
     | Undefined \<Rightarrow> (Undefined, (w, h)))"

text \<open>\<open>resp := C.f(..); defer resp.destroy(); return resp.copyAsArray()\<close>: a nil pointer is not
  read and not destroyed.\<close>

definition copy_array :: "(cval \<Rightarrow> heap \<Rightarrow> heap option) \<Rightarrow> ('w \<times> heap, cval) io \<Rightarrow> ('w \<times> heap, bytes option) io" where
  "copy_array destroy call =
     bind_io call (\<lambda>resp. \<lambda>(w, h).
       if resp = CBox Null then (Returns None, (w, h))
       else
         (case copy_as (TBox TPlain) resp h of
            Some (VBox (VPlain (PArray b))) \<Rightarrow>
              (case destroy resp h of
                 None \<Rightarrow> (Undefined, (w, h))
               | Some h' \<Rightarrow> (Returns (Some b), (w, h')))
          | _ \<Rightarrow> (Undefined, (w, h))))"

definition some_exec :: "'a exec \<Rightarrow> 'a option exec" where
  "some_exec x = bind_exec x (\<lambda>a. Returns (Some a))"

section \<open>The wrappers\<close>

text \<open>The destructor is the one of the array's length: digests and signatures share one.\<close>

definition cgo_Hash :: "('sg, 'pk, 'sk, 'dg, 'rng) bls_lib \<Rightarrow> bytes \<Rightarrow> ('w \<times> heap, bytes option) io" where
  "cgo_Hash B message = copy_array destroy_box_bls_digest (box_array (some_exec (hash B message)))"

definition cgo_Aggregate :: "('sg, 'pk, 'sk, 'dg, 'rng) bls_lib \<Rightarrow> bytes \<Rightarrow> ('w \<times> heap, bytes option) io" where
  "cgo_Aggregate B flattenedSignatures =
     copy_array destroy_box_bls_digest (box_array (aggregate B flattenedSignatures))"

definition cgo_PrivateKeyGenerate :: "('sg, 'pk, 'sk, 'dg, 'rng) bls_lib \<Rightarrow> 'rng \<Rightarrow> ('w \<times> heap, bytes option) io" where
  "cgo_PrivateKeyGenerate B OsRng =
     copy_array destroy_box_bls_private_key (box_array (some_exec (private_key_generate B OsRng)))"

definition cgo_PrivateKeyGenerateWithSeed ::
    "('sg, 'pk, 'sk, 'dg, 'rng) bls_lib \<Rightarrow> bytes \<Rightarrow> ('w \<times> heap, bytes option) io" where
  "cgo_PrivateKeyGenerateWithSeed B rawSeed =
     copy_array destroy_box_bls_private_key (box_array (some_exec (private_key_generate_with_seed B rawSeed)))"

definition cgo_PrivateKeySign ::
    "('sg, 'pk, 'sk, 'dg, 'rng) bls_lib \<Rightarrow> bytes \<Rightarrow> bytes \<Rightarrow> ('w \<times> heap, bytes option) io" where
  "cgo_PrivateKeySign B rawPrivateKey message =
     copy_array destroy_box_bls_digest (box_array (private_key_sign B rawPrivateKey message))"

definition cgo_PrivateKeyPublicKey ::
    "('sg, 'pk, 'sk, 'dg, 'rng) bls_lib \<Rightarrow> bytes \<Rightarrow> ('w \<times> heap, bytes option) io" where
  "cgo_PrivateKeyPublicKey B rawPrivateKey =
     copy_array destroy_box_bls_public_key (box_array (private_key_public_key B rawPrivateKey))"

definition cgo_CreateZeroSignature :: "('sg, 'pk, 'sk, 'dg, 'rng) bls_lib \<Rightarrow> ('w \<times> heap, bytes option) io" where
  "cgo_CreateZeroSignature B = copy_array destroy_box_bls_digest (box_array (some_exec (create_zero_signature B)))"

section \<open>The callers\<close>

text \<open>The functions of \<open>bls.go\<close> that return an array by value: a zero array for a nil pointer.\<close>

definition or_zero :: "nat \<Rightarrow> ('w \<times> heap, bytes option) io \<Rightarrow> ('w \<times> heap, bytes) io" where
  "or_zero n m = bind_io m (\<lambda>r. ret (case r of None \<Rightarrow> replicate n 0 | Some b \<Rightarrow> b))"

definition bls_Hash :: "('sg, 'pk, 'sk, 'dg, 'rng) bls_lib \<Rightarrow> bytes \<Rightarrow> ('w \<times> heap, bytes) io" where
  "bls_Hash B message = or_zero 96 (cgo_Hash B message)"

definition bls_Aggregate :: "('sg, 'pk, 'sk, 'dg, 'rng) bls_lib \<Rightarrow> bytes list \<Rightarrow> ('w \<times> heap, bytes option) io" where
  "bls_Aggregate B signatures = cgo_Aggregate B (go_flatten SIGNATURE_BYTES signatures)"

definition bls_PrivateKeyGenerate :: "('sg, 'pk, 'sk, 'dg, 'rng) bls_lib \<Rightarrow> 'rng \<Rightarrow> ('w \<times> heap, bytes) io" where
  "bls_PrivateKeyGenerate B OsRng = or_zero 32 (cgo_PrivateKeyGenerate B OsRng)"

definition bls_PrivateKeyGenerateWithSeed ::
    "('sg, 'pk, 'sk, 'dg, 'rng) bls_lib \<Rightarrow> bytes \<Rightarrow> ('w \<times> heap, bytes) io" where
  "bls_PrivateKeyGenerateWithSeed B seed =
     bind_io (from_exec (AsByteArray32 seed)) (\<lambda>ary. or_zero 32 (cgo_PrivateKeyGenerateWithSeed B ary))"

definition bls_PrivateKeySign ::
    "('sg, 'pk, 'sk, 'dg, 'rng) bls_lib \<Rightarrow> bytes \<Rightarrow> bytes \<Rightarrow> ('w \<times> heap, bytes option) io" where
  "bls_PrivateKeySign B privateKey message = cgo_PrivateKeySign B privateKey message"

definition bls_PrivateKeyPublicKey ::
    "('sg, 'pk, 'sk, 'dg, 'rng) bls_lib \<Rightarrow> bytes \<Rightarrow> ('w \<times> heap, bytes option) io" where
  "bls_PrivateKeyPublicKey B privateKey = cgo_PrivateKeyPublicKey B privateKey"

definition bls_CreateZeroSignature :: "('sg, 'pk, 'sk, 'dg, 'rng) bls_lib \<Rightarrow> ('w \<times> heap, bytes) io" where
  "bls_CreateZeroSignature B = or_zero 96 (cgo_CreateZeroSignature B)"

section \<open>The test of the module\<close>

definition assert_exec :: "bool \<Rightarrow> unit exec" where
  "assert_exec b = (if b then Returns () else Panics (StrPayload ''assertion failed''))"

definition unwrap_exec :: "'a option \<Rightarrow> 'a exec" where
  "unwrap_exec x =
     (case x of
        None \<Rightarrow> Panics (StrPayload ''called `Option::unwrap()` on a `None` value'')
      | Some a \<Rightarrow> Returns a)"

definition key_verification :: "('sg, 'pk, 'sk, 'dg, 'rng) bls_lib \<Rightarrow> 'rng \<Rightarrow> unit exec" where
  "key_verification B OsRng =
     bind_exec (private_key_generate B OsRng) (\<lambda>private_key.
     bind_exec (bind_exec (private_key_public_key B private_key) unwrap_exec) (\<lambda>public_key.
     let message = str_bytes ''hello world'' in
     bind_exec (hash B message) (\<lambda>digest.
     bind_exec (bind_exec (private_key_sign B private_key message) unwrap_exec) (\<lambda>signature.
     bind_exec (bind_exec (verify B signature digest public_key) assert_exec) (\<lambda>_.
     bind_exec (bind_exec (hash_verify B signature message [word_of_nat (length message)] public_key) assert_exec) (\<lambda>_.
     let different_message = str_bytes ''bye world'' in
     bind_exec (hash B different_message) (\<lambda>different_digest.
     bind_exec (bind_exec (verify B signature different_digest public_key) (\<lambda>v. assert_exec (\<not> v))) (\<lambda>_.
     bind_exec (verify B signature [0, 1, 2, 3, 4] public_key) (\<lambda>v. assert_exec (\<not> v))))))))))"

definition test_zero_key :: "('sg, 'pk, 'sk, 'dg, 'rng) bls_lib \<Rightarrow> unit exec" where
  "test_zero_key B =
     bind_exec (create_zero_signature B) (\<lambda>resp.
     bind_exec (unwrap_exec (sg_from_bytes B resp)) (\<lambda>sig.
     assert_exec (sig = sg_identity B)))"

section \<open>Wrappers and callers\<close>

lemma copy_array_refines:
  assumes "destroy = destructor TPlain"
  shows "refines C (from_exec x) (copy_array destroy (box_array x))"
proof (rule refinesI)
  fix w h y w'
  assume h: "heap_ok h" "cells h = C" and run: "from_exec x w = (y, w')" and y: "y \<noteq> Undefined"
  then have xy: "x = y" "w' = w" by (simp_all add: from_exec_def)
  show "\<exists>h'. copy_array destroy (box_array x) (w, h) = (y, (w', h')) \<and> cells h' = C \<and> heap_ok h'"
  proof (cases "\<exists>b. x = Returns (Some b)")
    case True
    then obtain b where b: "x = Returns (Some b)" by blast
    obtain p k where st: "box_new (VPlain (PArray b)) h = (p, k)" by (cases "box_new (VPlain (PArray b)) h")
    obtain A where A: "grows h k A" "holds k (VBox (VPlain (PArray b))) p A" "heap_ok k"
      by (rule box_new_holds [OF st h(1)])
    have ty: "has_layout (TBox TPlain) (VBox (VPlain (PArray b)))" by simp
    have "p \<noteq> CBox Null" using A(2) by (elim holds_elims(4)) simp
    with st b copy_holds [OF ty A(2)] drop_holds [OF ty A(2)] xy h(2) grows_without [OF A(1) h(1)]
      heap_ok_without [OF A(3)]
    show ?thesis
      by (simp add: copy_array_def box_array_def bind_io_def assms destructor_def del: copy_as.simps drop_glue.simps)
  next
    case False
    then have "x = Returns None \<or> (\<exists>p. x = Panics p)"
      using y xy by (cases x) (auto simp: not_Some_eq [symmetric] simp del: not_Some_eq)
    then show ?thesis using xy h by (auto simp: copy_array_def box_array_def bind_io_def)
  qed
qed

lemmas bls_wrapper_defs =
  cgo_Hash_def cgo_Aggregate_def cgo_PrivateKeyGenerate_def cgo_PrivateKeyGenerateWithSeed_def
  cgo_PrivateKeySign_def cgo_PrivateKeyPublicKey_def cgo_CreateZeroSignature_def

lemmas box_destructors =
  destroy_box_bls_digest_def destroy_box_bls_private_key_def destroy_box_bls_public_key_def

lemma or_zero_refines:
  assumes "refines C (from_exec (some_exec x)) g"
  shows "refines C (from_exec x) (or_zero n g)"
proof -
  have eq: "from_exec x = bind_io (from_exec (some_exec x)) (\<lambda>r. ret (case r of None \<Rightarrow> replicate n 0 | Some b \<Rightarrow> b))"
    by (cases x) (simp_all add: some_exec_def fun_eq_iff from_exec_def ret_def raise_def stuck_def)
  show ?thesis unfolding or_zero_def eq by (rule refines_bind [OF assms refines_ret])
qed

text \<open>Hashing a list of messages one by one.\<close>

fun hash_all :: "('sg, 'pk, 'sk, 'dg, 'rng) bls_lib \<Rightarrow> bytes list \<Rightarrow> bytes list exec" where
  "hash_all B [] = Returns []"
| "hash_all B (m # ms) = bind_exec (hash B m) (\<lambda>d. bind_exec (hash_all B ms) (\<lambda>ds. Returns (d # ds)))"

text \<open>What the library documents of its two verifiers: the one for messages hashes them and
  verifies the digests, and refuses lists of different lengths.\<close>

definition hashes_then_verifies :: "('sg, 'pk, 'sk, 'dg, 'rng) bls_lib \<Rightarrow> bool" where
  "hashes_then_verifies B \<longleftrightarrow>
     (\<forall>sg ms ks. verify_messages_sig B sg ms ks \<longleftrightarrow>
        length ms = length ks \<and> verify_sig B sg (map (hash_sig B) ms) ks)"

lemma hash_all_contract:
  "digest_codec B \<Longrightarrow> hash_all B ms = Returns (map (\<lambda>m. dg_to_bytes B (hash_sig B m)) ms)"
  by (induction ms) (simp_all add: hash_def into_array_def digest_codec_def)

text \<open>Verification of one signature, in the library's terms.\<close>

lemma verify_one:
  assumes "bls_contract B"
  shows "verify B (sg_as_bytes B s) (dg_to_bytes B d) (pk_as_bytes B p) = Returns (verify_sig B s [d] [p])"
    and "length m < 2 ^ 63 \<Longrightarrow>
      hash_verify B (sg_as_bytes B s) m [word_of_nat (length m)] (pk_as_bytes B p) = Returns (verify_messages_sig B s [m] [p])"
    and "verify B (sg_as_bytes B s) [0, 1, 2, 3, 4] q = Returns False"
proof -
  from assms have sg: "length (sg_as_bytes B x) = 96" "sg_from_bytes B (sg_as_bytes B x) = Some x"
    and pk: "length (pk_as_bytes B y) = 48" "pk_from_bytes B (pk_as_bytes B y) = Some y"
    and dg: "length (dg_to_bytes B z) = 96" "g2_from_compressed B (dg_to_bytes B z) = Some z" for x y z
    by (simp_all add: bls_contract_def digest_codec_def)
  have one: "chunks 48 (pk_as_bytes B p) = [pk_as_bytes B p]" "chunks 96 (dg_to_bytes B d) = [dg_to_bytes B d]"
    using chunks_append [of "pk_as_bytes B p" 48 "[]"] chunks_append [of "dg_to_bytes B d" 96 "[]"] pk(1) dg(1)
    by simp_all
  show "verify B (sg_as_bytes B s) (dg_to_bytes B d) (pk_as_bytes B p) = Returns (verify_sig B s [d] [p])"
    by (simp add: verify_def decode_digest_def sg pk dg one)
  show "verify B (sg_as_bytes B s) [0, 1, 2, 3, 4] q = Returns False" by (simp add: verify_def sg)
  show "hash_verify B (sg_as_bytes B s) m [word_of_nat (length m)] (pk_as_bytes B p) =
      Returns (verify_messages_sig B s [m] [p])" if m: "length m < 2 ^ 63"
  proof -
    have "split_messages m 0 [word_of_nat (length m)] = Returns [m]"
      using m split_messages_eq [OF m, of 0 "[word_of_nat (length m)]"] by (simp add: unat_of_nat)
    then show ?thesis by (simp add: hash_verify_def sg pk one)
  qed
qed

section \<open>Properties\<close>

text \<open>C27: the Go functions of the BLS module return what the exported functions answer, nil for no
  answer where the exported function may have none, and every array that was boxed for the
  answer is released.\<close>
theorem bls_callers_are_faithful:
  "refines C (from_exec (hash B m)) (bls_Hash B m) \<and>
   refines C (from_exec (go_Aggregate B sigs)) (bls_Aggregate B sigs) \<and>
   refines C (from_exec (private_key_generate B rng)) (bls_PrivateKeyGenerate B rng) \<and>
   refines C (from_exec (bind_exec (AsByteArray32 seed) (private_key_generate_with_seed B)))
     (bls_PrivateKeyGenerateWithSeed B seed) \<and>
   refines C (from_exec (private_key_sign B key m)) (bls_PrivateKeySign B key m) \<and>
   refines C (from_exec (private_key_public_key B key)) (bls_PrivateKeyPublicKey B key) \<and>
   refines C (from_exec (create_zero_signature B)) (bls_CreateZeroSignature B)"
proof (intro conjI)
  note rules = or_zero_refines copy_array_refines box_destructors
  show "refines C (from_exec (hash B m)) (bls_Hash B m)"
    unfolding bls_Hash_def bls_wrapper_defs by (intro rules)
  show "refines C (from_exec (go_Aggregate B sigs)) (bls_Aggregate B sigs)"
    unfolding bls_Aggregate_def bls_wrapper_defs go_Aggregate_def by (intro rules)
  show "refines C (from_exec (private_key_generate B rng)) (bls_PrivateKeyGenerate B rng)"
    unfolding bls_PrivateKeyGenerate_def bls_wrapper_defs by (intro rules)
  have eq: "from_exec (bind_exec (AsByteArray32 seed) (private_key_generate_with_seed B)) =
      bind_io (from_exec (AsByteArray32 seed)) (\<lambda>a. from_exec (private_key_generate_with_seed B a))"
    by (cases "AsByteArray32 seed") (simp_all add: fun_eq_iff from_exec_def raise_def stuck_def)
  show "refines C (from_exec (bind_exec (AsByteArray32 seed) (private_key_generate_with_seed B)))
     (bls_PrivateKeyGenerateWithSeed B seed)"
    unfolding bls_PrivateKeyGenerateWithSeed_def bls_wrapper_defs eq
    by (intro refines_bind [OF refines_from_exec] rules)
  show "refines C (from_exec (private_key_sign B key m)) (bls_PrivateKeySign B key m)"
    unfolding bls_PrivateKeySign_def bls_wrapper_defs by (intro rules)
  show "refines C (from_exec (private_key_public_key B key)) (bls_PrivateKeyPublicKey B key)"
    unfolding bls_PrivateKeyPublicKey_def bls_wrapper_defs by (intro rules)
  show "refines C (from_exec (create_zero_signature B)) (bls_CreateZeroSignature B)"
    unfolding bls_CreateZeroSignature_def bls_wrapper_defs by (intro rules)
qed

text \<open>C25: the two verification functions agree: HashVerify on messages is Verify on their hashes, on
  the same keys, for every signature, with as many or as few keys as the caller passes; no
  call panics. It rests on two facts of the curve library: a digest is 96 bytes and decodes
  to itself, and the verifier of messages is the verifier of digests after hashing.\<close>
theorem hash_verify_is_verify_of_hashes:
  assumes "digest_codec B" and "hashes_then_verifies B"
    and "\<forall>k \<in> set publicKeys. length k = 48" and "length (concat messages) < 2 ^ 63"
  shows "go_HashVerify B signature messages publicKeys =
    bind_exec (hash_all B messages) (\<lambda>digests. go_Verify B signature digests publicKeys)"
proof -
  let ?ds = "map (\<lambda>m. dg_to_bytes B (hash_sig B m)) messages"
  from assms(1) have dg: "length (dg_to_bytes B z) = 96" "g2_from_compressed B (dg_to_bytes B z) = Some z" for z
    by (simp_all add: digest_codec_def)
  have "map (g2_from_compressed B) ?ds = map Some (map (hash_sig B) messages)" by (simp add: dg comp_def)
  then have ds: "map (g2_from_compressed B) ?ds = map Some ds \<longleftrightarrow> ds = map (hash_sig B) messages" for ds
    by (metis inj_Some inj_map_eq_map)
  have len: "\<forall>d \<in> set ?ds. length d = 96" by (simp add: dg)
  have "go_Verify B signature ?ds publicKeys =
      Returns (\<exists>sg ks. sg_from_bytes B signature = Some sg \<and> length messages = length ks \<and>
        map (pk_from_bytes B) publicKeys = map Some ks \<and> verify_sig B sg (map (hash_sig B) messages) ks)"
    unfolding go_Verify_run [OF len assms(3)] ds by (intro arg_cong [where f = Returns]) auto
  moreover have "go_HashVerify B signature messages publicKeys =
      Returns (\<exists>sg ks. sg_from_bytes B signature = Some sg \<and> length messages = length ks \<and>
        map (pk_from_bytes B) publicKeys = map Some ks \<and> verify_sig B sg (map (hash_sig B) messages) ks)"
    using assms(2) by (auto simp: go_HashVerify_run [OF assms(3,4)] hashes_then_verifies_def)
  ultimately show ?thesis by (simp add: hash_all_contract [OF assms(1)])
qed

theorem hash_verify_is_verify_of_hashes_witness:
  "go_HashVerify sample_bls (pad 96 [1, 2]) [[1, 2]] [replicate 48 0] =
     bind_exec (hash_all sample_bls [[1, 2]]) (\<lambda>ds. go_Verify sample_bls (pad 96 [1, 2]) ds [replicate 48 0])"
proof -
  have "hashes_then_verifies sample_bls"
    by (auto simp: hashes_then_verifies_def sample_bls_def Cons_eq_map_conv map_eq_Cons_conv)
  moreover have "digest_codec sample_bls" using sample_bls_contract by (simp add: bls_contract_def)
  ultimately show ?thesis
    using hash_verify_is_verify_of_hashes [of sample_bls "[replicate 48 0]" "[[1, 2]]"] by simp
qed

text \<open>The test key_verification passes when the library accepts the signatures of the generated key and
  does not take the signature of the one message for the other; test_zero_key passes.\<close>
lemma bls_tests_pass:
  assumes "bls_contract B" and "verifies_own B (sk_generate B rng)"
    and "\<not> verify_sig B (sk_sign B (sk_generate B rng) (str_bytes ''hello world''))
      [hash_sig B (str_bytes ''bye world'')] [sk_public_key B (sk_generate B rng)]"
  shows "key_verification B rng = Returns () \<and> test_zero_key B = Returns ()"
proof -
  from assms(1) have sk: "length (sk_as_bytes B k) = 32" "sk_from_bytes B (sk_as_bytes B k) = Some k"
    and sg: "length (sg_as_bytes B x) = 96" "sg_from_bytes B (sg_as_bytes B x) = Some x"
    and pk: "length (pk_as_bytes B y) = 48" and dg: "length (dg_to_bytes B z) = 96"
for k x y z
    by (simp_all add: bls_contract_def digest_codec_def)
  from assms(2) have v: "verify_sig B (sk_sign B (sk_generate B rng) m) [hash_sig B m] [sk_public_key B (sk_generate B rng)]"
      "verify_messages_sig B (sk_sign B (sk_generate B rng) m) [m] [sk_public_key B (sk_generate B rng)]" for m
    by (simp_all add: verifies_own_def)
  have "length (str_bytes ''hello world'') < 2 ^ 63" by (simp add: str_bytes_def)
  note run = verify_one(1,3) [OF assms(1)] verify_one(2) [OF assms(1) this]
  have "key_verification B rng = Returns ()"
    using assms(3) v
    by (simp add: key_verification_def private_key_generate_def private_key_public_key_def private_key_sign_def
        hash_def into_array_def write_preallocated_exact unwrap_exec_def assert_exec_def Let_def run sk sg pk dg
        del: of_nat_numeral)
  moreover have "test_zero_key B = Returns ()"
    by (simp add: test_zero_key_def create_zero_signature_def write_preallocated_exact unwrap_exec_def assert_exec_def sg)
  ultimately show ?thesis by simp
qed

lemma bls_tests_pass_instance:
  "key_verification sample_bls [7] = Returns () \<and> test_zero_key sample_bls = Returns ()"
proof (rule bls_tests_pass [OF sample_bls_contract])
  show "verifies_own sample_bls (sk_generate sample_bls [7])" by (simp add: verifies_own_def sample_bls_def)
next
  have "pad 96 (str_bytes ''hello world'') \<noteq> pad 96 (str_bytes ''bye world'')"
    by (simp add: pad_def str_bytes_def)
  then have "Abs_b96 (pad 96 (str_bytes ''hello world'')) \<noteq> Abs_b96 (pad 96 (str_bytes ''bye world''))"
    by (simp add: Abs_b96_inject)
  then show "\<not> verify_sig sample_bls (sk_sign sample_bls (sk_generate sample_bls [7]) (str_bytes ''hello world''))
      [hash_sig sample_bls (str_bytes ''bye world'')] [sk_public_key sample_bls (sk_generate sample_bls [7])]"
    by (simp add: sample_bls_def)
qed

end
