(* ===== verification/Unit_Tests.thy ===== *)
theory Unit_Tests
  imports Sealing_Test Go_Bls Lotus_Trace Util_Api
begin

text \<open>
  The tests of the other functions: the trace builder (\<open>fvm/machine.rs\<close>), the accessors of the
  registered proofs (\<open>proofs/api.rs\<close>) and the list of devices (\<open>util/api.rs\<close>), with the
  validation that \<open>str::from_utf8\<close> does. The property is that they pass.
\<close>

section \<open>Strings and assertions\<close>

text \<open>\<open>str::from_utf8(bytes).unwrap()\<close>; a string is its bytes.\<close>

definition from_utf8_unwrap :: "bytes \<Rightarrow> bytes exec" where
  "from_utf8_unwrap b = (if utf8_valid b then Returns b else Panics unwrap_failed)"

definition assert_eq_exec :: "'a \<Rightarrow> 'a \<Rightarrow> unit exec" where
  "assert_eq_exec a b =
     (if a = b then Returns () else Panics (StringPayload ''assertion failed: `(left == right)`''))"

section \<open>The tests\<close>

definition index_exec :: "'a list \<Rightarrow> nat \<Rightarrow> 'a exec" where
  "index_exec xs i = (if i < length xs then Returns (xs ! i) else Panics (StringPayload ''index out of bounds''))"

definition test_lotus_trace :: "'addr fvm_consts \<Rightarrow> unit exec" where
  "test_lotus_trace X =
     (let call_event = Call \<lparr>sp_from = 0, sp_to = new_id X 0, sp_method = 0, sp_params = [], sp_value = 0\<rparr>;
          return_result = ExecutionEvent.Return (Inl (''illegal'', IllegalArgument));
          trace = [call_event, call_event, return_result, call_event, call_event, return_result, return_result,
                   return_result]
      in
      bind_exec (unwrap_exec (case trace of [] \<Rightarrow> None | ev # trace_iter \<Rightarrow> Some (ev, trace_iter))) (\<lambda>(ev, trace_iter).
      case build_lotus_trace X ev trace_iter of
        Inl _ \<Rightarrow> Panics unwrap_failed
      | Inr (lotus_trace, trace_iter) \<Rightarrow>
          bind_exec (assert_exec (trace_iter = [])) (\<lambda>_.
          bind_exec (assert_eq_exec (length (subcalls lotus_trace)) 2) (\<lambda>_.
          bind_exec (index_exec (subcalls lotus_trace) 0) (\<lambda>first.
          bind_exec (assert_eq_exec (length (subcalls first)) 0) (\<lambda>_.
          bind_exec (index_exec (subcalls lotus_trace) 1) (\<lambda>second.
          bind_exec (assert_eq_exec (length (subcalls second)) 1) (\<lambda>_.
          bind_exec (index_exec (subcalls second) 0) (\<lambda>inner.
          assert_eq_exec (length (subcalls inner)) 0)))))))))"

text \<open>All calls are made before the first answer is looked at; a panic of one ends the test.\<close>

fun run_all :: "'a exec list \<Rightarrow> 'a list exec" where
  "run_all [] = Returns []"
| "run_all (x # xs) = bind_exec x (\<lambda>a. bind_exec (run_all xs) (\<lambda>as. Returns (a # as)))"

fun check_names :: "bytes Result list \<Rightarrow> unit exec" where
  "check_names [] = Returns ()"
| "check_names (r # rs) =
     (if status_code r \<noteq> NoError
      then bind_exec (from_utf8_unwrap (error_msg r)) (\<lambda>_. Panics (StringPayload ''non-success exit code''))
      else
        bind_exec (from_utf8_unwrap (value_of r)) (\<lambda>y.
        bind_exec (assert_exec (y \<noteq> [])) (\<lambda>_.
        check_names rs)))"

definition test_proof_types ::
    "api_RegisteredSealProof proof_info \<Rightarrow> api_RegisteredPoStProof proof_info \<Rightarrow> unit exec" where
  "test_proof_types I J =
     (let seal_types = [RegisteredSealProof.StackedDrg2KiBV1, RegisteredSealProof.StackedDrg8MiBV1,
            RegisteredSealProof.StackedDrg512MiBV1, RegisteredSealProof.StackedDrg32GiBV1,
            RegisteredSealProof.StackedDrg64GiBV1, RegisteredSealProof.StackedDrg2KiBV1_1,
            RegisteredSealProof.StackedDrg8MiBV1_1, RegisteredSealProof.StackedDrg512MiBV1_1,
            RegisteredSealProof.StackedDrg32GiBV1_1, RegisteredSealProof.StackedDrg64GiBV1_1];
          post_types = [RegisteredPoStProof.StackedDrgWinning2KiBV1, RegisteredPoStProof.StackedDrgWinning8MiBV1,
            RegisteredPoStProof.StackedDrgWinning512MiBV1, RegisteredPoStProof.StackedDrgWinning32GiBV1,
            RegisteredPoStProof.StackedDrgWinning64GiBV1, RegisteredPoStProof.StackedDrgWindow2KiBV1,
            RegisteredPoStProof.StackedDrgWindow8MiBV1, RegisteredPoStProof.StackedDrgWindow512MiBV1,
            RegisteredPoStProof.StackedDrgWindow32GiBV1, RegisteredPoStProof.StackedDrgWindow64GiBV1]
      in
      bind_exec (run_all
        (concat (map (\<lambda>st. [get_seal_params_cid I st, get_seal_verifying_key_cid I st, get_seal_params_path I st,
           get_seal_verifying_key_path I st, get_seal_circuit_identifier I st, get_seal_version I st]) seal_types) @
         concat (map (\<lambda>pt. [get_post_params_cid J pt, get_post_verifying_key_cid J pt, get_post_params_path J pt,
           get_post_verifying_key_path J pt, get_post_circuit_identifier J pt, get_post_version J pt]) post_types)))
        check_names)"

definition test_get_gpu_devices :: "'s logger \<Rightarrow> ('s, string list) io \<Rightarrow> ('s world, unit) io" where
  "test_get_gpu_devices L device_names =
     bind_io (get_gpu_devices L device_names) (\<lambda>resp.
     bind_io (from_exec (assert_exec (error_msg resp = []))) (\<lambda>_.
     bind_io (from_exec (run_all (map from_utf8_unwrap (value_of resp)))) (\<lambda>devices.
     from_exec (assert_eq_exec (length devices) (length (value_of resp))))))"

section \<open>They pass\<close>

text \<open>A name that the API gives is not empty, and as any string of Rust it is valid UTF-8.\<close>

definition proper_name :: "string \<Rightarrow> bool" where
  "proper_name s \<longleftrightarrow> s \<noteq> [] \<and> utf8_valid (str_bytes s)"

definition names_proofs :: "'p proof_info \<Rightarrow> bool" where
  "names_proofs I \<longleftrightarrow> (\<forall>p. (\<exists>s. params_cid I p = Returns (Inr s) \<and> proper_name s) \<and>
     (\<exists>s. verifying_key_cid I p = Returns (Inr s) \<and> proper_name s) \<and>
     (\<exists>s. cache_params_path I p = Returns (Inr s) \<and> proper_name s) \<and>
     (\<exists>s. cache_verifying_key_path I p = Returns (Inr s) \<and> proper_name s) \<and>
     (\<exists>s. circuit_identifier I p = Returns (Inr s) \<and> proper_name s) \<and> proper_name (debug_fmt I p))"

definition name_answer :: "bytes Result exec \<Rightarrow> bool" where
  "name_answer x \<longleftrightarrow> (\<exists>s. x = Returns (Result_ok (str_bytes s)) \<and> proper_name s)"

lemma collect_names:
  assumes "\<forall>x \<in> set xs. name_answer x"
  shows "\<exists>rs. run_all xs = Returns rs \<and> check_names rs = Returns ()"
  using assms
proof (induction xs)
  case (Cons x xs)
  then obtain rs s where "run_all xs = Returns rs" "check_names rs = Returns ()" "x = Returns (Result_ok (str_bytes s))"
    "proper_name s" by (auto simp: name_answer_def)
  then show ?case
    by (auto simp: bind_exec_def from_utf8_unwrap_def assert_eq_exec_def assert_exec_def proper_name_def str_bytes_def)
qed simp

lemma accessor_name: "\<exists>s. x = Returns (Inr s) \<and> proper_name s \<Longrightarrow> name_answer (accessor_outcome x)"
  by (auto simp: name_answer_def accessor_outcome_def)

lemma accessor_names:
  assumes "names_proofs I"
  shows "name_answer (accessor_outcome (params_cid I p))" "name_answer (accessor_outcome (verifying_key_cid I p))"
    "name_answer (accessor_outcome (cache_params_path I p))" "name_answer (accessor_outcome (cache_verifying_key_path I p))"
    "name_answer (accessor_outcome (circuit_identifier I p))" "name_answer (Returns (Result_ok (str_bytes (debug_fmt I p))))"
  using assms [unfolded names_proofs_def, rule_format, of p]
  by (auto intro!: accessor_name) (simp add: name_answer_def, blast)

lemma proof_types_test_passes:
  assumes "names_proofs I" and "names_proofs J"
  shows "test_proof_types I J = Returns ()"
proof -
  have seal: "\<forall>x \<in> set [get_seal_params_cid I st, get_seal_verifying_key_cid I st, get_seal_params_path I st,
      get_seal_verifying_key_path I st, get_seal_circuit_identifier I st, get_seal_version I st]. name_answer x" for st
    using seal_accessors_run [of I st] accessor_names [OF assms(1), of "to_api_seal st"] by simp
  have post: "\<forall>x \<in> set [get_post_params_cid J pt, get_post_verifying_key_cid J pt, get_post_params_path J pt,
      get_post_verifying_key_path J pt, get_post_circuit_identifier J pt, get_post_version J pt]. name_answer x" for pt
    using post_accessors_run [of J pt] accessor_names [OF assms(2), of "to_api_post pt"] by simp
  have "\<exists>rs. run_all (concat (map (\<lambda>st. [get_seal_params_cid I st, get_seal_verifying_key_cid I st,
      get_seal_params_path I st, get_seal_verifying_key_path I st, get_seal_circuit_identifier I st, get_seal_version I st]) sts) @
      concat (map (\<lambda>pt. [get_post_params_cid J pt, get_post_verifying_key_cid J pt, get_post_params_path J pt,
      get_post_verifying_key_path J pt, get_post_circuit_identifier J pt, get_post_version J pt]) pts)) = Returns rs \<and>
      check_names rs = Returns ()" for sts pts
    by (rule collect_names) (use seal post in \<open>simp only: set_append set_concat set_map\<close>, blast)
  then show ?thesis unfolding test_proof_types_def Let_def bind_exec_def by (metis exec.case(1))
qed

lemma collect_utf8:
  "\<forall>b \<in> set bs. utf8_valid b \<Longrightarrow> run_all (map from_utf8_unwrap bs) = Returns bs"
  by (induction bs) (simp_all add: bind_exec_def from_utf8_unwrap_def)

lemma gpu_devices_test_passes:
  assumes L: "quiet I F L" and w: "shows_view I F d w"
    and devices: "\<And>s. I s \<Longrightarrow> wp device_names (\<lambda>names s'. I s' \<and> F s' = F s \<and> (\<forall>n \<in> set names. utf8_valid (str_bytes n))) s"
  shows "\<exists>w'. test_get_gpu_devices L device_names w = (Returns (), w')"
proof -
  have "wp (get_gpu_devices L device_names) (\<lambda>resp _. error_msg resp = [] \<and> (\<forall>b \<in> set (value_of resp). utf8_valid b)) w"
    unfolding get_gpu_devices_def
  proof (rule wp_guarded [OF L w, where Q = "\<lambda>bs _. \<forall>b \<in> set bs. utf8_valid b"])
    fix v assume v: "shows_view I F d v"
    then have "wp device_names (\<lambda>names s'. I s' \<and> F s' = F (ext v) \<and> (\<forall>n \<in> set names. utf8_valid (str_bytes n))) (ext v)"
      by (intro devices) (simp add: shows_view_def)
    then obtain names e where "device_names (ext v) = (Returns names, e)" "I e" "F e = F (ext v)"
      "\<forall>n \<in> set names. utf8_valid (str_bytes n)" by (auto simp: wp_def)
    with v show "wp (bind_io (lift_ext device_names) (\<lambda>devices. ret (Inr (map str_bytes devices))))
        (\<lambda>r v'. \<exists>x d'. r = Inr x \<and> shows_view I F d' v' \<and> (\<forall>b \<in> set x. utf8_valid b)) v"
      unfolding wp_bind by (intro wpI [where a = names]) (auto simp: lift_ext_def shows_view_def)
  qed (simp add: Result_ok_def)
  then have "wp (test_get_gpu_devices L device_names) (\<lambda>_ _. True) w"
    unfolding test_get_gpu_devices_def wp_bind
    by (rule wp_mono) (simp add: assert_exec_def collect_utf8 assert_eq_exec_def)
  then show ?thesis by (auto simp: wp_def)
qed

text \<open>The tests of the trace builder, of the accessors and of the device list pass: the trace is rebuilt
  with the calls nested as they were made, whatever the constants of the FVM are; every accessor
  answers with a name for each of the twenty registered proofs that a test can name; the list of
  devices comes back without an error and in valid UTF-8.\<close>
lemma unit_tests_pass:
  assumes "names_proofs I" and "names_proofs J" and "quiet V F L" and "shows_view V F d w"
    and "\<And>s. V s \<Longrightarrow> wp device_names (\<lambda>names s'. V s' \<and> F s' = F s \<and> (\<forall>n \<in> set names. utf8_valid (str_bytes n))) s"
  shows "test_lotus_trace X = Returns () \<and> test_proof_types I J = Returns () \<and>
    (\<exists>w'. test_get_gpu_devices L device_names w = (Returns (), w'))"
proof (intro conjI)
  show "test_lotus_trace X = Returns ()"
    by (simp add: test_lotus_trace_def Let_def unwrap_exec_def bind_exec_def build_lotus_trace_def assert_exec_def
        assert_eq_exec_def index_exec_def)
qed (use proof_types_test_passes [OF assms(1,2)] gpu_devices_test_passes [OF assms(3-5)] in blast)+

definition bench_names :: "'p proof_info" where
  "bench_names =
     \<lparr>params_cid = (\<lambda>_. Returns (Inr ''Qm'')), verifying_key_cid = (\<lambda>_. Returns (Inr ''Qm'')),
      cache_params_path = (\<lambda>_. Returns (Inr ''/p'')), cache_verifying_key_path = (\<lambda>_. Returns (Inr ''/v'')),
      circuit_identifier = (\<lambda>_. Returns (Inr ''c'')), debug_fmt = (\<lambda>_. ''V1'')\<rparr>"

lemma unit_tests_pass_instance:
  "test_lotus_trace sample_consts = Returns () \<and> test_proof_types bench_names bench_names = Returns () \<and>
   (\<exists>w'. test_get_gpu_devices bench_logger (ret [''gpu'']) bench_start = (Returns (), w'))"
  by (rule unit_tests_pass [OF _ _ bench_quiet bench_start_view(1)])
     (simp_all add: names_proofs_def bench_names_def proper_name_def str_bytes_def)

end
