(* ===== verification/Log_Test.thy ===== *)
theory Log_Test
  imports Sessions Util_Api Go_Bls "HOL-Library.Sublist"
begin

text \<open>
  \<open>test_init_log_fd\<close> of \<open>rust/src/util/api.rs\<close>, which hands the writing end of a pipe to the logger and
  reads a line of the log back. Three owners close that one descriptor: the test's \<open>writer\<close>, the
  logger, and the \<open>File\<close> of the second call. The property is what this means for the test and
  for the logger after it.
\<close>

section \<open>The test\<close>

text \<open>The kernel's pipes, the environment of the process, and the reads and writes of a \<open>File\<close>. A write to a
  descriptor that is closed fails, so these see the table of descriptors.\<close>

record 's pipe_env =
  env_pipe2 :: "('s world, (i32 \<times> i32) option) io"
  env_set_var :: "string \<Rightarrow> string \<Rightarrow> ('s, unit) io"
  env_fd_write_all :: "i32 \<Rightarrow> bytes \<Rightarrow> ('s world, anyhow + unit) io"
  env_read_line :: "i32 \<Rightarrow> ('s world, anyhow + bytes) io"

text \<open>The files that a block owns are dropped in this order at its end, whether it returns or unwinds.\<close>

definition owning :: "i32 list \<Rightarrow> ('s world, 'a) io \<Rightarrow> ('s world, 'a) io" where
  "owning fds m w =
     (case m w of
        (Undefined, w') \<Rightarrow> (Undefined, w')
      | (x, w') \<Rightarrow> (x, fold (\<lambda>fd v. snd (drop_file fd v)) fds w'))"

definition unwrap_result :: "'e + 'a \<Rightarrow> 'a exec" where
  "unwrap_result r = (case r of Inl _ \<Rightarrow> Panics unwrap_failed | Inr a \<Rightarrow> Returns a)"

definition newline :: u8 where
  "newline = 10"

definition log_line :: string where
  "log_line = ''a log message''"

text \<open>Between the creation of the pipe and the end of the test, \<open>writer\<close> and \<open>reader\<close> own its two ends.\<close>

definition log_through_pipe :: "'s logger \<Rightarrow> 's pipe_env \<Rightarrow> i32 \<Rightarrow> i32 \<Rightarrow> ('s world, unit) io" where
  "log_through_pipe L E read_fd write_fd =
     bind_io (lift_ext (env_set_var E ''RUST_LOG'' ''debug'')) (\<lambda>_.
     bind_io (init_log_fd L write_fd) (\<lambda>resp.
     bind_io (info L log_line) (\<lambda>_.
     bind_io (env_fd_write_all E write_fd [newline]) (\<lambda>written.
     bind_io (from_exec (unwrap_result written)) (\<lambda>_.
     bind_io (env_read_line E read_fd) (\<lambda>line.
     bind_io (from_exec (unwrap_result line)) (\<lambda>log_message.
     bind_io (from_exec (assert_exec (suffix (str_bytes log_line @ [newline]) log_message))) (\<lambda>_.
     bind_io (init_log_fd L write_fd) (\<lambda>resp_error.
     from_exec (assert_exec (status_code resp_error \<noteq> NoError)))))))))))"

definition test_init_log_fd :: "'s logger \<Rightarrow> 's pipe_env \<Rightarrow> ('s world, unit) io" where
  "test_init_log_fd L E =
     bind_io (env_pipe2 E) (\<lambda>fds.
       case fds of
         None \<Rightarrow> raise (StrPayload ''Cannot create pipe'')
       | Some (read_fd, write_fd) \<Rightarrow> owning [write_fd, read_fd] (log_through_pipe L E read_fd write_fd))"

section \<open>What it relies on\<close>

text \<open>\<open>rust_log\<close> is the environment variable; \<open>logs_to\<close> the descriptor and the value of \<open>rust_log\<close> that the
  logger was started with; \<open>unread\<close> what was written to the pipe and has not been delivered by the reader.\<close>

record log_view =
  rust_log :: "string option"
  logs_to :: "(i32 \<times> string option) option"
  ends :: "(i32 \<times> i32) option"
  unread :: bytes

definition pipe_contract :: "('s \<Rightarrow> bool) \<Rightarrow> ('s \<Rightarrow> log_view) \<Rightarrow> 's logger \<Rightarrow> 's pipe_env \<Rightarrow> bool" where
  "pipe_contract I F L E \<longleftrightarrow>
     (\<forall>w rd wr w'. I (ext w) \<and> env_pipe2 E w = (Returns (Some (rd, wr)), w') \<longrightarrow>
       \<not> open_fds w rd \<and> \<not> open_fds w wr \<and> rd \<noteq> wr \<and> I (ext w') \<and>
       F (ext w') = (F (ext w))\<lparr>ends := Some (rd, wr), unread := []\<rparr> \<and>
       w' = w\<lparr>open_fds := (open_fds w)(rd := True, wr := True), ext := ext w'\<rparr>) \<and>
     (\<forall>s v. I s \<longrightarrow> wp (env_set_var E ''RUST_LOG'' v) (\<lambda>_ s'. I s' \<and> F s' = (F s)\<lparr>rust_log := Some v\<rparr>) s) \<and>
     (\<forall>s fd. I s \<longrightarrow>
       wp (fil_logger_init_with_file L fd) (\<lambda>_ s'. I s' \<and> F s' = (F s)\<lparr>logs_to := Some (fd, rust_log (F s))\<rparr>) s) \<and>
     (\<forall>s m rd wr. I s \<and> ends (F s) = Some (rd, wr) \<longrightarrow>
       wp (log_info L m) (\<lambda>_ s'. I s' \<and> ends (F s') = ends (F s)) s \<and>
       (logs_to (F s) = Some (wr, Some ''debug'') \<and> newline \<notin> set (str_bytes m) \<and> utf8_valid (str_bytes m) \<longrightarrow>
        wp (log_info L m) (\<lambda>_ s'. \<exists>line. suffix (str_bytes m) line \<and> newline \<notin> set line \<and> utf8_valid line \<and>
          F s' = (F s)\<lparr>unread := unread (F s) @ line @ [newline]\<rparr>) s)) \<and>
     (\<forall>w rd wr bs. I (ext w) \<and> ends (F (ext w)) = Some (rd, wr) \<longrightarrow>
       (if open_fds w wr
        then \<exists>e. env_fd_write_all E wr bs w = (Returns (Inr ()), w\<lparr>ext := e\<rparr>) \<and> I e \<and>
          F e = (F (ext w))\<lparr>unread := unread (F (ext w)) @ bs\<rparr>
        else \<exists>err. env_fd_write_all E wr bs w = (Returns (Inl err), w)) \<and>
       (\<forall>line rest. open_fds w rd \<and> unread (F (ext w)) = line @ newline # rest \<and> newline \<notin> set line \<and>
          utf8_valid line \<longrightarrow>
        (\<exists>e. env_read_line E rd w = (Returns (Inr (line @ [newline])), w\<lparr>ext := e\<rparr>) \<and> I e \<and>
          F e = (F (ext w))\<lparr>unread := rest\<rparr>)))"

lemmas pipe_law = pipe_contract_def [THEN iffD1, THEN conjunct1, rule_format]
  and set_var_law = pipe_contract_def [THEN iffD1, THEN conjunct2, THEN conjunct1, rule_format]
  and start_law = pipe_contract_def [THEN iffD1, THEN conjunct2, THEN conjunct2, THEN conjunct1, rule_format]
  and log_law = pipe_contract_def [THEN iffD1, THEN conjunct2, THEN conjunct2, THEN conjunct2, THEN conjunct1, rule_format]
  and fd_law = pipe_contract_def [THEN iffD1, THEN conjunct2, THEN conjunct2, THEN conjunct2, THEN conjunct2, rule_format]

section \<open>The outcome\<close>

lemma log_line_plain: "newline \<notin> set (str_bytes log_line)" "utf8_valid (str_bytes log_line)"
  by (simp_all add: newline_def log_line_def str_bytes_def)

text \<open>As the first user of the logger the program runs to its end, and the second call has closed the
  writing end.\<close>

lemma log_through_pipe_first:
  assumes C: "pipe_contract I F L E" and w: "log_init w = Incomplete" "I (ext w)" "ends (F (ext w)) = Some (rd, wr)"
    "unread (F (ext w)) = []" "open_fds w rd" "open_fds w wr"
  shows "\<exists>e. log_through_pipe L E rd wr w =
      (Returns (), w\<lparr>log_init := Completed, open_fds := (open_fds w)(wr := False), ext := e\<rparr>) \<and>
    logs_to (F e) = Some (wr, Some ''debug'')"
proof -
  obtain e1 where e1: "env_set_var E ''RUST_LOG'' ''debug'' (ext w) = (Returns (), e1)" "I e1"
      "F e1 = (F (ext w))\<lparr>rust_log := Some ''debug''\<rparr>"
    using set_var_law [OF C w(2), of "''debug''"] by (auto simp: wp_def)
  obtain e2 where e2: "fil_logger_init_with_file L wr e1 = (Returns (), e2)" "I e2"
      "F e2 = (F e1)\<lparr>logs_to := Some (wr, Some ''debug'')\<rparr>"
    using start_law [OF C e1(2), of wr] e1(3) by (auto simp: wp_def)
  have ends2: "ends (F e2) = Some (rd, wr)" "logs_to (F e2) = Some (wr, Some ''debug'')" "unread (F e2) = []"
    using e1(3) e2(3) w by simp_all
  obtain e3 line where e3: "log_info L log_line e2 = (Returns (), e3)" "I e3" and line: "suffix (str_bytes log_line) line"
      "newline \<notin> set line" "utf8_valid line" "F e3 = (F e2)\<lparr>unread := line @ [newline]\<rparr>"
    using log_law [OF C conjI [OF e2(2) ends2(1)], of log_line] ends2 log_line_plain by (auto simp: wp_def)
  define v where "v = w\<lparr>log_init := Completed, ext := e3\<rparr>"
  have v: "I (ext v) \<and> ends (F (ext v)) = Some (rd, wr)" "open_fds v = open_fds w"
    using e3 line(4) ends2 by (simp_all add: v_def)
  obtain e4 where e4: "env_fd_write_all E wr [newline] v = (Returns (Inr ()), v\<lparr>ext := e4\<rparr>)" "I e4"
      "F e4 = (F e3)\<lparr>unread := line @ [newline, newline]\<rparr>"
    using fd_law [OF C v(1), THEN conjunct1, of "[newline]"] w(6) v(2) line(4) by (auto simp: v_def)
  have v4: "I (ext (v\<lparr>ext := e4\<rparr>)) \<and> ends (F (ext (v\<lparr>ext := e4\<rparr>))) = Some (rd, wr)"
    using e4 line(4) ends2 by simp
  obtain e5 where e5: "env_read_line E rd (v\<lparr>ext := e4\<rparr>) = (Returns (Inr (line @ [newline])), v\<lparr>ext := e5\<rparr>)" "I e5"
      "F e5 = (F e4)\<lparr>unread := [newline]\<rparr>"
    using fd_law [OF C v4, THEN conjunct2, rule_format, of line "[newline]"] w(5) v(2) line(2,3) e4(3) by auto
  have first: "init_log_fd L wr (w\<lparr>ext := e1\<rparr>) = (Returns (Result_ok ()), w\<lparr>log_init := Completed, ext := e2\<rparr>)"
    using init_log_fd_fresh [of "w\<lparr>ext := e1\<rparr>" L wr e2] w(1) e2(1) by simp
  obtain m where again: "init_log_fd L wr (v\<lparr>ext := e5\<rparr>) =
      (Returns (Result_err () m), w\<lparr>log_init := Completed, open_fds := (open_fds w)(wr := False), ext := e5\<rparr>)"
    using init_log_fd_late [of "v\<lparr>ext := e5\<rparr>" L wr] by (auto simp: v_def)
  have "logs_to (F e5) = Some (wr, Some ''debug'')" using e5(3) e4(3) line(4) ends2 by simp
  moreover have "suffix (str_bytes log_line @ [newline]) (line @ [newline])" using line(1) by simp
  ultimately show ?thesis
    unfolding log_through_pipe_def
    by (intro exI [of _ e5])
       (simp add: bind_io_def lift_ext_def e1(1) first info_def e3(1) v_def [symmetric] e4(1) e5(1) again from_exec_def
         unwrap_result_def assert_exec_def Result_err_def)
qed

text \<open>After any other call the first call closes the writing end, and the test's own write fails.\<close>

lemma log_through_pipe_late:
  assumes C: "pipe_contract I F L E" and w: "log_init w \<noteq> Incomplete" "I (ext w)" "ends (F (ext w)) = Some (rd, wr)"
  shows "\<exists>e. log_through_pipe L E rd wr w =
      (Panics unwrap_failed, w\<lparr>open_fds := (open_fds w)(wr := False), ext := e\<rparr>)"
proof -
  obtain e1 where e1: "env_set_var E ''RUST_LOG'' ''debug'' (ext w) = (Returns (), e1)" "I e1"
      "F e1 = (F (ext w))\<lparr>rust_log := Some ''debug''\<rparr>"
    using set_var_law [OF C w(2), of "''debug''"] by (auto simp: wp_def)
  obtain m where first: "init_log_fd L wr (w\<lparr>ext := e1\<rparr>) =
      (Returns (Result_err () m), w\<lparr>open_fds := (open_fds w)(wr := False), ext := e1\<rparr>)"
    using init_log_fd_late [of "w\<lparr>ext := e1\<rparr>" L wr] w(1) by auto
  have ends1: "ends (F e1) = Some (rd, wr)" using e1(3) w(3) by simp
  obtain e2 where e2: "log_info L log_line e1 = (Returns (), e2)" "I e2" "ends (F e2) = Some (rd, wr)"
    using log_law [OF C conjI [OF e1(2) ends1], THEN conjunct1, of log_line] ends1 by (auto simp: wp_def)
  define v where "v = w\<lparr>open_fds := (open_fds w)(wr := False), ext := e2\<rparr>"
  obtain err where "env_fd_write_all E wr [newline] v = (Returns (Inl err), v)"
    using fd_law [OF C, of v rd wr, THEN conjunct1] e2 by (auto simp: v_def)
  then show ?thesis
    unfolding log_through_pipe_def
    by (intro exI [of _ e2])
       (simp add: bind_io_def lift_ext_def e1(1) first info_def e2(1) v_def [symmetric] from_exec_def unwrap_result_def,
        simp add: v_def raise_def)
qed

text \<open>C36: the test of \<open>init_log_fd\<close> passes if and only if it is the first user of the logger. Then it also leaves
  the process with a logger that writes to a descriptor which has been closed; it fails, with the
  \<open>unwrap\<close> of its own write, if any other exported function was called before it, since
  \<open>init_log_fd\<close> closes the descriptor that the test still owns. No descriptor is left open.\<close>
theorem init_log_fd_test_outcome:
  assumes "pipe_contract I F L E" and "I (ext w)" and "env_pipe2 E w = (Returns (Some (rd, wr)), w1)"
  shows "\<exists>e.
    if log_init w = Incomplete
    then test_init_log_fd L E w = (Returns (), w\<lparr>log_init := Completed, ext := e\<rparr>) \<and>
      logs_to (F e) = Some (wr, Some ''debug'') \<and> \<not> open_fds w wr
    else test_init_log_fd L E w = (Panics unwrap_failed, w\<lparr>ext := e\<rparr>)"
proof -
  define e1 where "e1 = ext w1"
  note made = pipe_law [OF assms(1) conjI [OF assms(2,3)]]
  have new: "\<not> open_fds w rd" "\<not> open_fds w wr" "I e1" "ends (F e1) = Some (rd, wr)" "unread (F e1) = []" and "rd \<noteq> wr"
    using made by (simp_all add: e1_def)
  have w1: "w1 = w\<lparr>open_fds := (open_fds w)(rd := True, wr := True), ext := e1\<rparr>"
    using made unfolding e1_def by blast
  have restored: "(open_fds w)(rd := False, wr := False) = open_fds w" using new(1,2) by (simp add: fun_eq_iff)
  have run: "test_init_log_fd L E w = owning [wr, rd] (log_through_pipe L E rd wr) w1"
    using assms(3) by (simp add: test_init_log_fd_def bind_io_def)
  have drops: "snd (drop_file rd (snd (drop_file wr v))) = v\<lparr>open_fds := open_fds w\<rparr>"
    if "open_fds v = (open_fds w1)(wr := False)" for v
    using that restored by (simp add: drop_file_def w1 fun_upd_twist [OF \<open>rd \<noteq> wr\<close>])
  show ?thesis
  proof (cases "log_init w = Incomplete")
    case True
    with log_through_pipe_first [OF assms(1), of w1 rd wr] new obtain e where
      "log_through_pipe L E rd wr w1 =
        (Returns (), w1\<lparr>log_init := Completed, open_fds := (open_fds w1)(wr := False), ext := e\<rparr>)"
      "logs_to (F e) = Some (wr, Some ''debug'')" by (auto simp: w1 \<open>rd \<noteq> wr\<close>)
    moreover have "w1\<lparr>log_init := Completed, open_fds := open_fds w, ext := e\<rparr> = w\<lparr>log_init := Completed, ext := e\<rparr>"
      by (simp add: w1)
    ultimately show ?thesis using True new(2) by (intro exI [of _ e]) (simp add: run owning_def drops)
  next
    case False
    with log_through_pipe_late [OF assms(1), of w1 rd wr] new obtain e where
      "log_through_pipe L E rd wr w1 = (Panics unwrap_failed, w1\<lparr>open_fds := (open_fds w1)(wr := False), ext := e\<rparr>)"
      by (auto simp: w1)
    moreover have "w1\<lparr>ext := e, open_fds := open_fds w\<rparr> = w\<lparr>ext := e\<rparr>" by (simp add: w1)
    ultimately show ?thesis using False by (intro exI [of _ e]) (simp add: run owning_def drops)
  qed
qed

text \<open>A logger that writes each line after its level, and pipes with the descriptors 3 and 4.\<close>

definition line_logger :: "log_view logger" where
  "line_logger =
     \<lparr>fil_logger_init = ret (),
      fil_logger_init_with_file = (\<lambda>fd s. (Returns (), s\<lparr>logs_to := Some (fd, rust_log s)\<rparr>)),
      log_info = (\<lambda>m s. (Returns (),
        case (logs_to s, ends s) of
          (Some (fd, Some lv), Some (rd, wr)) \<Rightarrow>
            if fd = wr then s\<lparr>unread := unread s @ str_bytes ''INFO '' @ str_bytes m @ [newline]\<rparr> else s
        | _ \<Rightarrow> s))\<rparr>"

definition small_pipes :: "log_view pipe_env" where
  "small_pipes =
     \<lparr>env_pipe2 = (\<lambda>w. if open_fds w 3 \<or> open_fds w 4 then (Returns None, w)
        else (Returns (Some (3, 4)), w\<lparr>open_fds := (open_fds w)(3 := True, 4 := True),
                ext := (ext w)\<lparr>ends := Some (3, 4), unread := []\<rparr>\<rparr>)),
      env_set_var = (\<lambda>k v s. (Returns (), if k = ''RUST_LOG'' then s\<lparr>rust_log := Some v\<rparr> else s)),
      env_fd_write_all = (\<lambda>fd bs w. if open_fds w fd
        then (Returns (Inr ()), w\<lparr>ext := (ext w)\<lparr>unread := unread (ext w) @ bs\<rparr>\<rparr>)
        else (Returns (Inl (AnyhowMsg ''Bad file descriptor'')), w)),
      env_read_line = (\<lambda>fd w.
        let (line, rest) = (takeWhile (\<lambda>b. b \<noteq> newline) (unread (ext w)), dropWhile (\<lambda>b. b \<noteq> newline) (unread (ext w)))
        in (Returns (Inr (line @ take 1 rest)), w\<lparr>ext := (ext w)\<lparr>unread := drop 1 rest\<rparr>\<rparr>))\<rparr>"

lemma line_prefix: "newline \<notin> set (str_bytes ''INFO '')" "utf8_valid (str_bytes ''INFO '' @ bs) = utf8_valid bs"
  by (simp_all add: newline_def str_bytes_def)

lemma line_logger_writes:
  fixes s :: log_view
  assumes "ends s = Some (rd, wr)" "logs_to s = Some (wr, Some ''debug'')" "newline \<notin> set (str_bytes m)"
    "utf8_valid (str_bytes m)"
  shows "wp (log_info line_logger m) (\<lambda>_ s'. \<exists>line. suffix (str_bytes m) line \<and> newline \<notin> set line \<and> utf8_valid line \<and>
    s' = s\<lparr>unread := unread s @ line @ [newline]\<rparr>) s"
proof (rule wpI)
  show "log_info line_logger m s =
      (Returns (), s\<lparr>unread := unread s @ str_bytes ''INFO '' @ str_bytes m @ [newline]\<rparr>)"
    using assms(1,2) by (simp add: line_logger_def)
  show "\<exists>line. suffix (str_bytes m) line \<and> newline \<notin> set line \<and> utf8_valid line \<and>
      s\<lparr>unread := unread s @ str_bytes ''INFO '' @ str_bytes m @ [newline]\<rparr> = s\<lparr>unread := unread s @ line @ [newline]\<rparr>"
    using assms(3,4) line_prefix by (intro exI [of _ "str_bytes ''INFO '' @ str_bytes m"]) (simp add: suffix_def)
qed

lemma small_pipes_contract: "pipe_contract (\<lambda>_. True) (\<lambda>s. s) line_logger small_pipes"
  unfolding pipe_contract_def
proof (intro conjI allI impI; (elim conjE)?)
  fix s :: log_view and m rd wr
  assume "ends s = Some (rd, wr)"
  then show "wp (log_info line_logger m) (\<lambda>_ s'. True \<and> ends s' = ends s) s"
    by (auto simp: line_logger_def wp_def split: option.splits)
next
  fix s :: log_view and m rd wr
  assume "ends s = Some (rd, wr)" "logs_to s = Some (wr, Some ''debug'')" "newline \<notin> set (str_bytes m)"
    "utf8_valid (str_bytes m)"
  then show "wp (log_info line_logger m) (\<lambda>_ s'. \<exists>line. suffix (str_bytes m) line \<and> newline \<notin> set line \<and>
      utf8_valid line \<and> s' = s\<lparr>unread := unread s @ line @ [newline]\<rparr>) s"
    by (rule line_logger_writes)
qed (auto simp: small_pipes_def line_logger_def wp_def takeWhile_append dropWhile_append split: if_splits)

theorem init_log_fd_test_outcome_witness:
  "\<exists>e. test_init_log_fd line_logger small_pipes
      \<lparr>log_init = Incomplete, open_fds = (\<lambda>fd. fd < 3), ext = \<lparr>rust_log = None, logs_to = None, ends = None, unread = []\<rparr>\<rparr> =
     (Returns (), \<lparr>log_init = Completed, open_fds = (\<lambda>fd. fd < 3), ext = e\<rparr>) \<and> logs_to e = Some (4, Some ''debug'')"
proof -
  let ?w = "\<lparr>log_init = Incomplete, open_fds = (\<lambda>fd. fd < 3),
    ext = \<lparr>rust_log = None, logs_to = None, ends = None, unread = []\<rparr>\<rparr>"
  have "env_pipe2 small_pipes ?w = (Returns (Some (3, 4)), snd (env_pipe2 small_pipes ?w))"
    by (simp add: small_pipes_def)
  from init_log_fd_test_outcome [OF small_pipes_contract TrueI this] show ?thesis by simp
qed

end
