(* ===== verification/Go_Sectors.thy ===== *)
theory Go_Sectors
  imports Go_Memory "HOL-Library.Multiset"
begin

text \<open>
  \<open>SortedPrivateSectorInfo\<close> of \<open>types.go\<close>, the list of sectors that the Go callers of the proofs of
  spacetime take. The properties are its invariant, strictly ascending sector numbers with the
  first info of each number, and what it is worth in Rust: no replica replaces another in the
  map that the exported functions make of the list.
\<close>

section \<open>The list\<close>

text \<open>The loop over the infos: \<open>seen\<close> holds the sector numbers that were kept.\<close>

fun keep_unseen :: "u64 set \<Rightarrow> 'cid PrivateSectorInfo list \<Rightarrow> 'cid PrivateSectorInfo list" where
  "keep_unseen seen [] = []"
| "keep_unseen seen (s # sectorInfo) =
     (if priv_SectorNumber s \<in> seen then keep_unseen seen sectorInfo
      else s # keep_unseen (insert (priv_SectorNumber s) seen) sectorInfo)"

text \<open>\<open>sort.Slice\<close> gives a sorted permutation; here the one that keeps equal elements in order.\<close>

definition NewSortedPrivateSectorInfo :: "'cid PrivateSectorInfo list \<Rightarrow> 'cid PrivateSectorInfo list" where
  "NewSortedPrivateSectorInfo sectorInfo = sort_key priv_SectorNumber (keep_unseen {} sectorInfo)"

section \<open>Its invariant\<close>

lemma keep_unseen_set: "set (keep_unseen seen xs) \<subseteq> set xs"
  by (induction xs arbitrary: seen) auto

lemma keep_unseen_numbers:
  "distinct (map priv_SectorNumber (keep_unseen seen xs)) \<and>
   priv_SectorNumber ` set (keep_unseen seen xs) = priv_SectorNumber ` set xs - seen"
  by (induction xs arbitrary: seen) auto

lemma keep_unseen_first:
  "find (\<lambda>s. priv_SectorNumber s = n) (keep_unseen seen xs) =
     (if n \<in> seen then None else find (\<lambda>s. priv_SectorNumber s = n) xs)"
  by (induction xs arbitrary: seen) auto

lemma find_distinct_key:
  assumes "distinct (map f xs)" and "mset xs = mset ys"
  shows "find (\<lambda>x. f x = n) xs = find (\<lambda>x. f x = n) ys"
proof -
  have key: "find (\<lambda>x. f x = n) zs = map_of (map (\<lambda>x. (f x, x)) zs) n" for zs
    by (induction zs) simp_all
  have ys: "distinct (map f ys)" using assms mset_eq_imp_distinct_iff [of "map f xs" "map f ys"] by simp
  have "map_of (map (\<lambda>x. (f x, x)) xs) = map_of (map (\<lambda>x. (f x, x)) ys)"
    by (rule map_of_inject_set [THEN iffD2]) (use assms(1) ys mset_eq_setD [OF assms(2)] in \<open>simp_all add: comp_def\<close>)
  then show ?thesis unfolding key by (rule fun_cong)
qed

lemma strictly_sorted_unique:
  assumes "sorted (map f xs)" and "sorted (map f ys)" and "mset xs = mset ys" and "distinct (map f xs)"
  shows "xs = ys"
proof -
  have "inj_on f (set xs \<union> set ys)" using assms(4) mset_eq_setD [OF assms(3)] by (simp add: distinct_map)
  moreover have "sort (map f ys) = map f xs" by (rule properties_for_sort) (use assms(1,3) in simp_all)
  then have "map f xs = map f ys" using assms(2) by (simp add: sorted_sort_id)
  ultimately show ?thesis by (simp add: inj_on_map_eq_map)
qed

lemma replicas_of_numbers:
  "replicas_of G xs = Returns (Inr rs) \<Longrightarrow> map pri_sector_id rs = map priv_SectorNumber xs"
proof (induction xs arbitrary: rs)
  case (Cons x xs)
  then obtain r where "replica_of G x = Returns r" by (cases "replica_of G x") (auto simp: bind_exec_def)
  with Cons show ?case
    by (auto simp: bind_exec_def replica_of_def split: sum.splits exec.splits) (auto simp: map_sum_def split: sum.splits)
qed simp

section \<open>Properties\<close>

text \<open>C22: the infos that NewSortedPrivateSectorInfo returns have strictly ascending sector numbers; there is one
  for each number that was passed, the first; and whatever algorithm sorts them, the result is
  the same. The replicas converted from them have these numbers, so the map that the exported
  functions make of them has an entry for each and none replaces another.\<close>
theorem sorted_private_sector_info:
  assumes "replicas_of G (NewSortedPrivateSectorInfo xs) = Returns (Inr replicas)"
  shows "sorted_wrt (<) (map priv_SectorNumber (NewSortedPrivateSectorInfo xs)) \<and>
    (\<forall>n. find (\<lambda>s. priv_SectorNumber s = n) (NewSortedPrivateSectorInfo xs) = find (\<lambda>s. priv_SectorNumber s = n) xs) \<and>
    (\<forall>ys. mset ys = mset (keep_unseen {} xs) \<and> sorted (map priv_SectorNumber ys) \<longrightarrow> ys = NewSortedPrivateSectorInfo xs) \<and>
    (\<exists>m. to_private_replica_info_map replicas = Inr m \<and> dom m = priv_SectorNumber ` set xs \<and>
      card (dom m) = length replicas)"
proof (intro conjI allI impI; (elim conjE)?)
  let ?ys = "NewSortedPrivateSectorInfo xs"
  have perm: "mset ?ys = mset (keep_unseen {} xs)" and sorted: "sorted (map priv_SectorNumber ?ys)"
    by (simp_all add: NewSortedPrivateSectorInfo_def)
  have numbers: "distinct (map priv_SectorNumber (keep_unseen {} xs))"
    "priv_SectorNumber ` set ?ys = priv_SectorNumber ` set xs"
    using keep_unseen_numbers [of "{}" xs] mset_eq_setD [OF perm] by auto
  then have distinct: "distinct (map priv_SectorNumber ?ys)"
    using perm mset_eq_imp_distinct_iff [of "map priv_SectorNumber ?ys" "map priv_SectorNumber (keep_unseen {} xs)"] by simp
  show "sorted_wrt (<) (map priv_SectorNumber ?ys)" using sorted distinct by (simp add: strict_sorted_iff)
  show "find (\<lambda>s. priv_SectorNumber s = n) ?ys = find (\<lambda>s. priv_SectorNumber s = n) xs" for n
    using find_distinct_key [OF distinct perm] keep_unseen_first [of n "{}" xs] by simp
  show "ys = ?ys" if "mset ys = mset (keep_unseen {} xs)" "sorted (map priv_SectorNumber ys)" for ys
    using strictly_sorted_unique [OF sorted that(2) _ distinct] perm that(1) by simp
  have ids: "map pri_sector_id replicas = map priv_SectorNumber ?ys" by (rule replicas_of_numbers [OF assms])
  obtain m where m: "to_private_replica_info_map replicas = Inr m" "dom m = pri_sector_id ` set replicas"
    using replica_maps [where pris = replicas, THEN conjunct2, THEN conjunct2] by blast
  moreover have "pri_sector_id ` set replicas = priv_SectorNumber ` set xs"
    using arg_cong [OF ids, of set] numbers(2) by simp
  moreover have "distinct (map pri_sector_id replicas)" unfolding ids by (rule distinct)
  from distinct_card [OF this] have "card (pri_sector_id ` set replicas) = length replicas" by simp
  ultimately show "\<exists>m. to_private_replica_info_map replicas = Inr m \<and> dom m = priv_SectorNumber ` set xs \<and>
      card (dom m) = length replicas" by simp
qed

text \<open>Three infos, two of them for one sector. They come back ordered by their numbers, with the CIDs in
  descending order.\<close>

definition three_infos :: "nat PrivateSectorInfo list" where
  "three_infos =
     [(sample_private 13)\<lparr>priv_SealedCID := 4\<rparr>, (sample_private 5)\<lparr>priv_SealedCID := 8\<rparr>, (sample_private 13)\<lparr>priv_SealedCID := 9\<rparr>]"

theorem sorted_private_sector_info_witness:
  "map priv_SectorNumber (NewSortedPrivateSectorInfo three_infos) = [5, 13] \<and>
   map priv_SealedCID (NewSortedPrivateSectorInfo three_infos) = [8, 4] \<and>
   sorted_wrt (<) (map priv_SectorNumber (NewSortedPrivateSectorInfo three_infos))"
proof -
  have sorted: "NewSortedPrivateSectorInfo three_infos =
      [(sample_private 5)\<lparr>priv_SealedCID := 8\<rparr>, (sample_private 13)\<lparr>priv_SealedCID := 4\<rparr>]"
    by (simp add: NewSortedPrivateSectorInfo_def three_infos_def sample_private_def)
  obtain replicas where "replicas_of sample_conv (NewSortedPrivateSectorInfo three_infos) = Returns (Inr replicas)"
    by (simp add: sorted replica_of_def to32ByteCommR_def AsByteArray32_def sample_conv_def sample_private_def bind_exec_def)
  from sorted_private_sector_info [OF this] sorted show ?thesis by (simp add: sample_private_def)
qed

end
