(* ===== verification/Go_Sealing.thy ===== *)
theory Go_Sealing
  imports Go_Memory
begin

text \<open>
  The callers of \<open>proofs.go\<close> that write pieces, seal, unseal and verify sectors, and those of
  \<open>sector_update.go\<close>. They convert CIDs, miner ids, proof types and piece sizes, call one wrapper
  and convert its answer back. The properties are that each of them answers with the exported
  function's answer on the converted arguments, each in its place, and gives back what it
  allocated; and that \<open>GeneratePieceCID\<close> loses the error of a failed commitment. The packages
  for CIDs and piece sizes are the record \<open>abi_conv\<close>.
\<close>

section \<open>Conversions\<close>

datatype abi_RegisteredSealProof =
    abi_StackedDrg2KiBV1
  | abi_StackedDrg8MiBV1
  | abi_StackedDrg512MiBV1
  | abi_StackedDrg32GiBV1
  | abi_StackedDrg64GiBV1
  | abi_StackedDrg2KiBV1_1
  | abi_StackedDrg8MiBV1_1
  | abi_StackedDrg512MiBV1_1
  | abi_StackedDrg32GiBV1_1
  | abi_StackedDrg64GiBV1_1
  | abi_OtherSeal int

datatype abi_RegisteredUpdateProof =
    abi_Update2KiBV1
  | abi_Update8MiBV1
  | abi_Update512MiBV1
  | abi_Update32GiBV1
  | abi_Update64GiBV1
  | abi_OtherUpdate int

datatype abi_RegisteredAggregationProof = abi_SnarkPackV1 | abi_OtherAggregation int

fun toFilRegisteredSealProof :: "abi_RegisteredSealProof \<Rightarrow> go_error + RegisteredSealProof" where
  "toFilRegisteredSealProof abi_StackedDrg2KiBV1 = Inr RegisteredSealProof.StackedDrg2KiBV1"
| "toFilRegisteredSealProof abi_StackedDrg8MiBV1 = Inr RegisteredSealProof.StackedDrg8MiBV1"
| "toFilRegisteredSealProof abi_StackedDrg512MiBV1 = Inr RegisteredSealProof.StackedDrg512MiBV1"
| "toFilRegisteredSealProof abi_StackedDrg32GiBV1 = Inr RegisteredSealProof.StackedDrg32GiBV1"
| "toFilRegisteredSealProof abi_StackedDrg64GiBV1 = Inr RegisteredSealProof.StackedDrg64GiBV1"
| "toFilRegisteredSealProof abi_StackedDrg2KiBV1_1 = Inr RegisteredSealProof.StackedDrg2KiBV1_1"
| "toFilRegisteredSealProof abi_StackedDrg8MiBV1_1 = Inr RegisteredSealProof.StackedDrg8MiBV1_1"
| "toFilRegisteredSealProof abi_StackedDrg512MiBV1_1 = Inr RegisteredSealProof.StackedDrg512MiBV1_1"
| "toFilRegisteredSealProof abi_StackedDrg32GiBV1_1 = Inr RegisteredSealProof.StackedDrg32GiBV1_1"
| "toFilRegisteredSealProof abi_StackedDrg64GiBV1_1 = Inr RegisteredSealProof.StackedDrg64GiBV1_1"
| "toFilRegisteredSealProof (abi_OtherSeal _) =
     Inl (GoErr ''no mapping to C.FFIRegisteredSealProof value available'')"

fun toFilRegisteredUpdateProof :: "abi_RegisteredUpdateProof \<Rightarrow> go_error + RegisteredUpdateProof" where
  "toFilRegisteredUpdateProof abi_Update2KiBV1 = Inr RegisteredUpdateProof.StackedDrg2KiBV1"
| "toFilRegisteredUpdateProof abi_Update8MiBV1 = Inr RegisteredUpdateProof.StackedDrg8MiBV1"
| "toFilRegisteredUpdateProof abi_Update512MiBV1 = Inr RegisteredUpdateProof.StackedDrg512MiBV1"
| "toFilRegisteredUpdateProof abi_Update32GiBV1 = Inr RegisteredUpdateProof.StackedDrg32GiBV1"
| "toFilRegisteredUpdateProof abi_Update64GiBV1 = Inr RegisteredUpdateProof.StackedDrg64GiBV1"
| "toFilRegisteredUpdateProof (abi_OtherUpdate _) =
     Inl (GoErr ''no mapping to abi.RegisteredUpdateProof value available'')"

fun toFilRegisteredAggregationProof :: "abi_RegisteredAggregationProof \<Rightarrow> go_error + RegisteredAggregationProof" where
  "toFilRegisteredAggregationProof abi_SnarkPackV1 = Inr RegisteredAggregationProof.SnarkPackV1"
| "toFilRegisteredAggregationProof (abi_OtherAggregation _) =
     Inl (GoErr ''no mapping to abi.RegisteredAggregationProof value available'')"

text \<open>The packages \<open>go-fil-commcid\<close> and \<open>go-state-types\<close>, as the callers use them. A commitment that is
  not 32 bytes long has no CID.\<close>

record 'cid abi_conv =
  CIDToDataCommitmentV1 :: "'cid \<Rightarrow> bytes option"
  CIDToPieceCommitmentV1 :: "'cid \<Rightarrow> bytes option"
  DataCommitmentV1ToCID :: "bytes \<Rightarrow> 'cid option"
  PieceCommitmentV1ToCID :: "bytes \<Rightarrow> 'cid option"
  ReplicaCommitmentV1ToCID :: "bytes \<Rightarrow> 'cid option"
  Unpadded :: "u64 \<Rightarrow> u64"
  SectorSize :: "abi_RegisteredSealProof \<Rightarrow> u64 option"

definition to32ByteCommD :: "'cid abi_conv \<Rightarrow> 'cid \<Rightarrow> (go_error + array32) exec" where
  "to32ByteCommD K unsealedCID =
     (case CIDToDataCommitmentV1 K unsealedCID of
        None \<Rightarrow> Returns (Inl (GoErr ''failed to transform sealed CID to CommD''))
      | Some commD \<Rightarrow> bind_exec (AsByteArray32 commD) (\<lambda>a. Returns (Inr a)))"

definition to32ByteCommP :: "'cid abi_conv \<Rightarrow> 'cid \<Rightarrow> (go_error + array32) exec" where
  "to32ByteCommP K pieceCID =
     (case CIDToPieceCommitmentV1 K pieceCID of
        None \<Rightarrow> Returns (Inl (GoErr ''failed to transform sealed CID to CommP''))
      | Some commP \<Rightarrow> bind_exec (AsByteArray32 commP) (\<lambda>a. Returns (Inr a)))"

text \<open>\<open>abi.PieceInfo\<close>: the size is that of the padded piece.\<close>

record 'cid abi_PieceInfo =
  PieceSize :: u64
  PieceCID :: 'cid

fun toFilPublicPieceInfos :: "'cid abi_conv \<Rightarrow> 'cid abi_PieceInfo list \<Rightarrow> (go_error + PublicPieceInfo list) exec" where
  "toFilPublicPieceInfos K [] = Returns (Inr [])"
| "toFilPublicPieceInfos K (p # src) =
     bind_exec (to32ByteCommP K (PieceCID p)) (\<lambda>r.
     case r of
       Inl e \<Rightarrow> Returns (Inl e)
     | Inr commP \<Rightarrow>
         bind_exec (toFilPublicPieceInfos K src) (\<lambda>rest.
         Returns (map_sum id (Cons \<lparr>num_bytes = Unpadded K (PieceSize p), comm_p = commP\<rparr>) rest)))"

section \<open>Answers\<close>

text \<open>What a caller makes of the wrapper's result: the error, or the value, converted; the conversion
  may fail.\<close>

definition go_answer :: "(val \<Rightarrow> go_error + 'b) \<Rightarrow> val + val \<Rightarrow> go_error + 'b" where
  "go_answer f r = (case r of Inl e \<Rightarrow> Inl (FfiErr e) | Inr v \<Rightarrow> f v)"

definition as_bool :: "val \<Rightarrow> bool" where
  "as_bool v = (case v of VPlain (PBool b) \<Rightarrow> b | _ \<Rightarrow> False)"

definition as_array :: "val \<Rightarrow> bytes" where
  "as_array v = (case v of VPlain (PArray b) \<Rightarrow> b | _ \<Rightarrow> [])"

definition as_word :: "val \<Rightarrow> u64" where
  "as_word v = (case v of VPlain (PWord n) \<Rightarrow> n | _ \<Rightarrow> 0)"

definition as_slice :: "val \<Rightarrow> bytes" where
  "as_slice v = (case dec_bytes v of Some b \<Rightarrow> b | None \<Rightarrow> [])"

definition as_words :: "val \<Rightarrow> u64 list" where
  "as_words v = (case dec_words v of Some ws \<Rightarrow> ws | None \<Rightarrow> [])"

definition as_slices :: "val \<Rightarrow> bytes list" where
  "as_slices v = (case v of VSlice vs \<Rightarrow> map as_slice vs | _ \<Rightarrow> [])"

definition cid_of :: "(bytes \<Rightarrow> 'cid option) \<Rightarrow> bytes \<Rightarrow> go_error + 'cid" where
  "cid_of toCID b = (case toCID b of None \<Rightarrow> Inl (GoErr ''commitments must be 32 bytes long'') | Some c \<Rightarrow> Inr c)"

text \<open>Two commitments, the replica's first, as CIDs.\<close>

definition cids_of :: "'cid abi_conv \<Rightarrow> bytes \<Rightarrow> bytes \<Rightarrow> go_error + 'cid \<times> 'cid" where
  "cids_of K commRRaw commDRaw =
     (case cid_of (ReplicaCommitmentV1ToCID K) commRRaw of
        Inl e \<Rightarrow> Inl e
      | Inr commR \<Rightarrow> map_sum id (Pair commR) (cid_of (DataCommitmentV1ToCID K) commDRaw))"

section \<open>Pieces\<close>

text \<open>A file is its descriptor.\<close>

definition go_GeneratePieceCIDFromFile ::
    "'cid abi_conv \<Rightarrow> 's logger \<Rightarrow> ('s, 'p1, 'c1, 'fr) seal_lib \<Rightarrow> abi_RegisteredSealProof \<Rightarrow> i32 \<Rightarrow> u64
      \<Rightarrow> ('s world \<times> heap, go_error + 'cid) io" where
  "go_GeneratePieceCIDFromFile K L S proofType pieceFd pieceSize =
     try_val (toFilRegisteredSealProof proofType) (\<lambda>sp.
     bind_io (cgo_GeneratePieceCommitment L S sp pieceFd pieceSize) (\<lambda>resp.
     ret (go_answer (\<lambda>v. cid_of (PieceCommitmentV1ToCID K) (as_array (get_field 0 v))) resp)))"

text \<open>\<open>os.Open\<close> and \<open>Close\<close>. The caller returns a pair: a CID, or \<open>cid.Undef\<close>, and an error, or \<open>nil\<close>.\<close>

record 's go_os =
  os_Open :: "bytes \<Rightarrow> ('s world, go_error + i32) io"
  os_Close :: "i32 \<Rightarrow> ('s world, go_error option) io"

definition on_world :: "('w, 'a) io \<Rightarrow> ('w \<times> heap, 'a) io" where
  "on_world m = (\<lambda>(w, h). case m w of (x, w') \<Rightarrow> (x, (w', h)))"

definition go_GeneratePieceCID ::
    "'cid abi_conv \<Rightarrow> 's go_os \<Rightarrow> 's logger \<Rightarrow> ('s, 'p1, 'c1, 'fr) seal_lib \<Rightarrow> abi_RegisteredSealProof \<Rightarrow> bytes \<Rightarrow> u64
      \<Rightarrow> ('s world \<times> heap, 'cid option \<times> go_error option) io" where
  "go_GeneratePieceCID K Os L S proofType piecePath pieceSize =
     bind_io (on_world (os_Open Os piecePath)) (\<lambda>r.
     case r of
       Inl err \<Rightarrow> ret (None, Some err)
     | Inr pieceFile \<Rightarrow>
         bind_io (go_GeneratePieceCIDFromFile K L S proofType pieceFile pieceSize) (\<lambda>pcd.
         case pcd of
           Inl err \<Rightarrow> bind_io (on_world (os_Close Os pieceFile)) (\<lambda>err'. ret (None, err'))
         | Inr pcd \<Rightarrow> bind_io (on_world (os_Close Os pieceFile)) (\<lambda>err'. ret (Some pcd, err'))))"

definition go_GenerateUnsealedCID ::
    "'cid abi_conv \<Rightarrow> 's logger \<Rightarrow> ('s, 'p1, 'c1, 'fr) seal_lib \<Rightarrow> abi_RegisteredSealProof \<Rightarrow> 'cid abi_PieceInfo list
      \<Rightarrow> ('s world \<times> heap, go_error + 'cid) io" where
  "go_GenerateUnsealedCID K L S proofType pieces =
     try_val (toFilRegisteredSealProof proofType) (\<lambda>sp.
     try_io (from_exec (toFilPublicPieceInfos K pieces)) (\<lambda>filPublicPieceInfos.
     bind_io (cgo_GenerateDataCommitment L S sp filPublicPieceInfos) (\<lambda>resp.
     ret (go_answer (\<lambda>v. cid_of (DataCommitmentV1ToCID K) (as_array v)) resp))))"

text \<open>The wrapper returns the left alignment, the total and the commitment, in this order.\<close>

definition go_WriteWithAlignment ::
    "'cid abi_conv \<Rightarrow> 's logger \<Rightarrow> ('s, 'p1, 'c1, 'fr) seal_lib \<Rightarrow> abi_RegisteredSealProof \<Rightarrow> i32 \<Rightarrow> u64 \<Rightarrow> i32
      \<Rightarrow> u64 list \<Rightarrow> ('s world \<times> heap, go_error + u64 \<times> u64 \<times> 'cid) io" where
  "go_WriteWithAlignment K L S proofType pieceFd pieceBytes stagedSectorFd existingPieceSizes =
     try_val (toFilRegisteredSealProof proofType) (\<lambda>sp.
     bind_io (cgo_WriteWithAlignment L S sp pieceFd pieceBytes stagedSectorFd existingPieceSizes) (\<lambda>resp.
     ret (go_answer (\<lambda>v. map_sum id (\<lambda>commP. (as_word (get_field 0 v), as_word (get_field 1 v), commP))
       (cid_of (PieceCommitmentV1ToCID K) (as_array (get_field 2 v)))) resp)))"

definition go_WriteWithoutAlignment ::
    "'cid abi_conv \<Rightarrow> 's logger \<Rightarrow> ('s, 'p1, 'c1, 'fr) seal_lib \<Rightarrow> abi_RegisteredSealProof \<Rightarrow> i32 \<Rightarrow> u64 \<Rightarrow> i32
      \<Rightarrow> ('s world \<times> heap, go_error + u64 \<times> 'cid) io" where
  "go_WriteWithoutAlignment K L S proofType pieceFd pieceBytes stagedSectorFd =
     try_val (toFilRegisteredSealProof proofType) (\<lambda>sp.
     bind_io (cgo_WriteWithoutAlignment L S sp pieceFd pieceBytes stagedSectorFd) (\<lambda>resp.
     ret (go_answer (\<lambda>v. map_sum id (Pair (as_word (get_field 0 v)))
       (cid_of (PieceCommitmentV1ToCID K) (as_array (get_field 1 v)))) resp)))"

section \<open>Sealing\<close>

definition go_SealPreCommitPhase1 ::
    "('cid, 'sp) go_conv \<Rightarrow> 'cid abi_conv \<Rightarrow> 's logger \<Rightarrow> ('s, 'p1, 'c1, 'fr) seal_lib \<Rightarrow> abi_RegisteredSealProof \<Rightarrow> bytes
      \<Rightarrow> bytes \<Rightarrow> bytes \<Rightarrow> u64 \<Rightarrow> u64 \<Rightarrow> bytes \<Rightarrow> 'cid abi_PieceInfo list \<Rightarrow> ('s world \<times> heap, go_error + bytes) io" where
  "go_SealPreCommitPhase1 G K L S proofType cacheDirPath stagedSectorPath sealedSectorPath sectorNum minerID ticket pieces =
     try_val (toFilRegisteredSealProof proofType) (\<lambda>sp.
     try_io (from_exec (toProverID G minerID)) (\<lambda>proverID.
     try_io (from_exec (toFilPublicPieceInfos K pieces)) (\<lambda>filPublicPieceInfos.
     bind_io (from_exec (AsByteArray32 ticket)) (\<lambda>ticketBytes.
     bind_io (cgo_SealPreCommitPhase1 L S sp cacheDirPath stagedSectorPath sealedSectorPath sectorNum proverID ticketBytes
       filPublicPieceInfos) (\<lambda>resp.
     ret (go_answer (Inr \<circ> as_slice) resp))))))"

definition go_SealPreCommitPhase2 ::
    "'cid abi_conv \<Rightarrow> 's logger \<Rightarrow> ('s, 'p1, 'c1, 'fr) seal_lib \<Rightarrow> bytes \<Rightarrow> bytes \<Rightarrow> bytes
      \<Rightarrow> ('s world \<times> heap, go_error + 'cid \<times> 'cid) io" where
  "go_SealPreCommitPhase2 K L S phase1Output cacheDirPath sealedSectorPath =
     bind_io (cgo_SealPreCommitPhase2 L S phase1Output cacheDirPath sealedSectorPath) (\<lambda>resp.
     ret (go_answer (\<lambda>v. cids_of K (as_array (get_field 0 v)) (as_array (get_field 1 v))) resp))"

definition go_SealCommitPhase1 ::
    "('cid, 'sp) go_conv \<Rightarrow> 'cid abi_conv \<Rightarrow> 's logger \<Rightarrow> ('s, 'p1, 'c1, 'fr) seal_lib \<Rightarrow> abi_RegisteredSealProof \<Rightarrow> 'cid \<Rightarrow> 'cid
      \<Rightarrow> bytes \<Rightarrow> bytes \<Rightarrow> u64 \<Rightarrow> u64 \<Rightarrow> bytes \<Rightarrow> bytes \<Rightarrow> 'cid abi_PieceInfo list
      \<Rightarrow> ('s world \<times> heap, go_error + bytes) io" where
  "go_SealCommitPhase1 G K L S proofType sealedCID unsealedCID cacheDirPath sealedSectorPath sectorNum minerID ticket seed
     pieces =
     try_val (toFilRegisteredSealProof proofType) (\<lambda>sp.
     try_io (from_exec (toProverID G minerID)) (\<lambda>proverID.
     try_io (from_exec (to32ByteCommR G sealedCID)) (\<lambda>commR.
     try_io (from_exec (to32ByteCommD K unsealedCID)) (\<lambda>commD.
     try_io (from_exec (toFilPublicPieceInfos K pieces)) (\<lambda>filPublicPieceInfos.
     bind_io (from_exec (AsByteArray32 ticket)) (\<lambda>ticketBytes.
     bind_io (from_exec (AsByteArray32 seed)) (\<lambda>seedBytes.
     bind_io (cgo_SealCommitPhase1 L S sp commR commD cacheDirPath sealedSectorPath sectorNum proverID ticketBytes seedBytes
       filPublicPieceInfos) (\<lambda>resp.
     ret (go_answer (Inr \<circ> as_slice) resp)))))))))"

definition go_SealCommitPhase2 ::
    "('cid, 'sp) go_conv \<Rightarrow> 's logger \<Rightarrow> ('s, 'p1, 'c1, 'fr) seal_lib \<Rightarrow> bytes \<Rightarrow> u64 \<Rightarrow> u64
      \<Rightarrow> ('s world \<times> heap, go_error + bytes) io" where
  "go_SealCommitPhase2 G L S phase1Output sectorNum minerID =
     try_io (from_exec (toProverID G minerID)) (\<lambda>proverID.
     bind_io (cgo_SealCommitPhase2 L S phase1Output sectorNum proverID) (\<lambda>resp.
     ret (go_answer (Inr \<circ> as_slice) resp)))"

text \<open>\<open>proof5.SealVerifyInfo\<close>, with the fields that the caller reads.\<close>

record 'cid SealVerifyInfo =
  svi_SealProof :: abi_RegisteredSealProof
  svi_Miner :: u64
  svi_Number :: u64
  svi_Randomness :: bytes
  svi_InteractiveRandomness :: bytes
  svi_Proof :: bytes
  svi_SealedCID :: 'cid
  svi_UnsealedCID :: 'cid

definition go_VerifySeal ::
    "('cid, 'sp) go_conv \<Rightarrow> 'cid abi_conv \<Rightarrow> 's logger \<Rightarrow> ('s, 'p1, 'c1, 'fr) seal_lib \<Rightarrow> 'cid SealVerifyInfo
      \<Rightarrow> ('s world \<times> heap, go_error + bool) io" where
  "go_VerifySeal G K L S verifyInfo =
     try_val (toFilRegisteredSealProof (svi_SealProof verifyInfo)) (\<lambda>sp.
     try_io (from_exec (to32ByteCommR G (svi_SealedCID verifyInfo))) (\<lambda>commR.
     try_io (from_exec (to32ByteCommD K (svi_UnsealedCID verifyInfo))) (\<lambda>commD.
     try_io (from_exec (toProverID G (svi_Miner verifyInfo))) (\<lambda>proverID.
     bind_io (from_exec (AsByteArray32 (svi_Randomness verifyInfo))) (\<lambda>randomness.
     bind_io (from_exec (AsByteArray32 (svi_InteractiveRandomness verifyInfo))) (\<lambda>interactiveRandomness.
     bind_io (cgo_VerifySeal L S sp commR commD proverID randomness interactiveRandomness (svi_Number verifyInfo)
       (svi_Proof verifyInfo)) (\<lambda>resp.
     ret (go_answer (Inr \<circ> as_bool) resp))))))))"

text \<open>\<open>proof5.AggregateSealVerifyInfo\<close> and \<open>AggregateSealVerifyProofAndInfos\<close>.\<close>

record 'cid AggregateSealVerifyInfo =
  asv_Number :: u64
  asv_Randomness :: bytes
  asv_InteractiveRandomness :: bytes
  asv_SealedCID :: 'cid
  asv_UnsealedCID :: 'cid

record 'cid AggregateSealVerifyProofAndInfos =
  agg_Miner :: u64
  agg_SealProof :: abi_RegisteredSealProof
  agg_AggregateProof :: abi_RegisteredAggregationProof
  agg_Proof :: bytes
  agg_Infos :: "'cid AggregateSealVerifyInfo list"

fun toAggregationInputs ::
    "('cid, 'sp) go_conv \<Rightarrow> 'cid abi_conv \<Rightarrow> 'cid AggregateSealVerifyInfo list \<Rightarrow> (go_error + AggregationInputs list) exec" where
  "toAggregationInputs G K [] = Returns (Inr [])"
| "toAggregationInputs G K (i # infos) =
     bind_exec (to32ByteCommR G (asv_SealedCID i)) (\<lambda>r.
     case r of
       Inl e \<Rightarrow> Returns (Inl e)
     | Inr commR \<Rightarrow>
         bind_exec (to32ByteCommD K (asv_UnsealedCID i)) (\<lambda>d.
         case d of
           Inl e \<Rightarrow> Returns (Inl e)
         | Inr commD \<Rightarrow>
             bind_exec (AsByteArray32 (asv_Randomness i)) (\<lambda>ticket.
             bind_exec (AsByteArray32 (asv_InteractiveRandomness i)) (\<lambda>seed.
             bind_exec (toAggregationInputs G K infos) (\<lambda>rest.
             Returns (map_sum id (Cons \<lparr>ai_comm_r = commR, ai_comm_d = commD, ai_sector_id = asv_Number i,
               ai_ticket = ticket, ai_seed = seed\<rparr>) rest))))))"

definition go_VerifyAggregateSeals ::
    "('cid, 'sp) go_conv \<Rightarrow> 'cid abi_conv \<Rightarrow> 's logger \<Rightarrow> ('s, 'p1, 'c1, 'fr) seal_lib \<Rightarrow> 'fr rayon
      \<Rightarrow> 'cid AggregateSealVerifyProofAndInfos \<Rightarrow> ('s world \<times> heap, go_error + bool) io" where
  "go_VerifyAggregateSeals G K L S try_reduce aggregateInfo =
     (if agg_Infos aggregateInfo = [] then ret (Inl (GoErr ''no seal verify infos''))
      else
        try_io (from_exec (toAggregationInputs G K (agg_Infos aggregateInfo))) (\<lambda>inputs.
        try_val (toFilRegisteredSealProof (agg_SealProof aggregateInfo)) (\<lambda>sp.
        try_io (from_exec (toProverID G (agg_Miner aggregateInfo))) (\<lambda>proverID.
        try_val (toFilRegisteredAggregationProof (agg_AggregateProof aggregateInfo)) (\<lambda>rap.
        bind_io (cgo_VerifyAggregateSealProof L S try_reduce sp rap proverID (agg_Proof aggregateInfo) inputs) (\<lambda>resp.
        ret (go_answer (Inr \<circ> as_bool) resp)))))))"

text \<open>The loop that collects the seeds and the replica commitments.\<close>

fun seedsAndCommRs ::
    "('cid, 'sp) go_conv \<Rightarrow> 'cid AggregateSealVerifyInfo list \<Rightarrow> (go_error + array32 list \<times> array32 list) exec" where
  "seedsAndCommRs G [] = Returns (Inr ([], []))"
| "seedsAndCommRs G (i # infos) =
     bind_exec (AsByteArray32 (asv_InteractiveRandomness i)) (\<lambda>seed.
     bind_exec (to32ByteCommR G (asv_SealedCID i)) (\<lambda>r.
     case r of
       Inl e \<Rightarrow> Returns (Inl e)
     | Inr commR \<Rightarrow>
         bind_exec (seedsAndCommRs G infos) (\<lambda>rest.
         Returns (map_sum id (\<lambda>(seeds, commRs). (seed # seeds, commR # commRs)) rest))))"

definition go_AggregateSealProofs ::
    "('cid, 'sp) go_conv \<Rightarrow> 's logger \<Rightarrow> ('s, 'p1, 'c1, 'fr) seal_lib \<Rightarrow> 'cid AggregateSealVerifyProofAndInfos \<Rightarrow> bytes list
      \<Rightarrow> ('s world \<times> heap, go_error + bytes) io" where
  "go_AggregateSealProofs G L S aggregateInfo proofs =
     try_val (toFilRegisteredSealProof (agg_SealProof aggregateInfo)) (\<lambda>sp.
     try_io (from_exec (seedsAndCommRs G (agg_Infos aggregateInfo))) (\<lambda>(seeds, commRs).
     bind_io (toVanillaProofs proofs) (\<lambda>pfs.
     deferred (makeCleanerSBU pfs)
       (try_val (toFilRegisteredAggregationProof (agg_AggregateProof aggregateInfo)) (\<lambda>rap.
        bind_io (read_heap (read_list slice_uint8 dec_bytes pfs)) (\<lambda>outs.
        bind_io (cgo_AggregateSealProofs L S sp rap commRs seeds outs) (\<lambda>resp.
        ret (go_answer (Inr \<circ> as_slice) resp))))))))"

section \<open>Unsealing\<close>

definition go_UnsealRange ::
    "('cid, 'sp) go_conv \<Rightarrow> 'cid abi_conv \<Rightarrow> 's logger \<Rightarrow> ('s, 'p1, 'c1, 'fr) seal_lib \<Rightarrow> abi_RegisteredSealProof \<Rightarrow> bytes
      \<Rightarrow> i32 \<Rightarrow> i32 \<Rightarrow> u64 \<Rightarrow> u64 \<Rightarrow> bytes \<Rightarrow> 'cid \<Rightarrow> u64 \<Rightarrow> u64 \<Rightarrow> ('s world \<times> heap, go_error + unit) io" where
  "go_UnsealRange G K L S proofType cacheDirPath sealedSectorFd unsealOutputFd sectorNum minerID ticket unsealedCID
     unpaddedByteIndex unpaddedBytesAmount =
     try_val (toFilRegisteredSealProof proofType) (\<lambda>sp.
     try_io (from_exec (toProverID G minerID)) (\<lambda>proverID.
     try_io (from_exec (to32ByteCommD K unsealedCID)) (\<lambda>commD.
     bind_io (from_exec (AsByteArray32 ticket)) (\<lambda>ticketBytes.
     bind_io (cgo_UnsealRange L S sp cacheDirPath sealedSectorFd unsealOutputFd sectorNum proverID ticketBytes commD
       unpaddedByteIndex unpaddedBytesAmount) (\<lambda>resp.
     ret (go_answer (\<lambda>_. Inr ()) resp))))))"

definition go_Unseal ::
    "('cid, 'sp) go_conv \<Rightarrow> 'cid abi_conv \<Rightarrow> 's logger \<Rightarrow> ('s, 'p1, 'c1, 'fr) seal_lib \<Rightarrow> abi_RegisteredSealProof \<Rightarrow> bytes
      \<Rightarrow> i32 \<Rightarrow> i32 \<Rightarrow> u64 \<Rightarrow> u64 \<Rightarrow> bytes \<Rightarrow> 'cid \<Rightarrow> ('s world \<times> heap, go_error + unit) io" where
  "go_Unseal G K L S proofType cacheDirPath sealedSector unsealOutput sectorNum minerID ticket unsealedCID =
     (case SectorSize K proofType of
        None \<Rightarrow> ret (Inl (GoErr ''unsupported proof type''))
      | Some sectorSize \<Rightarrow>
          go_UnsealRange G K L S proofType cacheDirPath sealedSector unsealOutput sectorNum minerID ticket unsealedCID
            0 (Unpadded K sectorSize))"

section \<open>The other callers\<close>

definition go_GenerateWinningPoStSectorChallenge ::
    "('cid, 'sp) go_conv \<Rightarrow> 's logger \<Rightarrow> 's post_lib \<Rightarrow> abi_RegisteredPoStProof \<Rightarrow> u64 \<Rightarrow> bytes \<Rightarrow> u64
      \<Rightarrow> ('s world \<times> heap, go_error + u64 list) io" where
  "go_GenerateWinningPoStSectorChallenge G L P proofType minerID randomness eligibleSectorsLen =
     try_io (from_exec (toProverID G minerID)) (\<lambda>proverID.
     try_val (toFilRegisteredPoStProof proofType) (\<lambda>pp.
     bind_io (from_exec (AsByteArray32 randomness)) (\<lambda>randomnessBytes.
     bind_io (cgo_GenerateWinningPoStSectorChallenge L P pp randomnessBytes eligibleSectorsLen proverID) (\<lambda>resp.
     ret (go_answer (Inr \<circ> as_words) resp)))))"

definition go_GetGPUDevices :: "'s logger \<Rightarrow> ('s, string list) io \<Rightarrow> ('s world \<times> heap, go_error + bytes list) io" where
  "go_GetGPUDevices L device_names =
     bind_io (cgo_GetGpuDevices L device_names) (\<lambda>resp. ret (go_answer (Inr \<circ> as_slices) resp))"

definition go_GetSealVersion ::
    "api_RegisteredSealProof proof_info \<Rightarrow> abi_RegisteredSealProof \<Rightarrow> ('w \<times> heap, go_error + bytes) io" where
  "go_GetSealVersion I proofType =
     try_val (toFilRegisteredSealProof proofType) (\<lambda>sp.
     bind_io (cgo_GetSealVersion I sp) (\<lambda>resp. ret (go_answer (Inr \<circ> as_slice) resp)))"

definition go_GetPoStVersion ::
    "api_RegisteredPoStProof proof_info \<Rightarrow> abi_RegisteredPoStProof \<Rightarrow> ('w \<times> heap, go_error + bytes) io" where
  "go_GetPoStVersion I proofType =
     try_val (toFilRegisteredPoStProof proofType) (\<lambda>pp.
     bind_io (cgo_GetPoStVersion I pp) (\<lambda>resp. ret (go_answer (Inr \<circ> as_slice) resp)))"

definition go_GetNumPartitionForFallbackPost ::
    "'s logger \<Rightarrow> 's post_lib \<Rightarrow> abi_RegisteredPoStProof \<Rightarrow> u64 \<Rightarrow> ('s world \<times> heap, go_error + u64) io" where
  "go_GetNumPartitionForFallbackPost L P proofType numSectors =
     try_val (toFilRegisteredPoStProof proofType) (\<lambda>pp.
     bind_io (cgo_GetNumPartitionForFallbackPost L P pp numSectors) (\<lambda>resp. ret (go_answer (Inr \<circ> as_word) resp)))"

definition go_ClearCache ::
    "'s logger \<Rightarrow> ('s, 'p1, 'c1, 'fr) seal_lib \<Rightarrow> u64 \<Rightarrow> bytes \<Rightarrow> ('s world \<times> heap, go_error + unit) io" where
  "go_ClearCache L S sectorSize cacheDirPath =
     bind_io (cgo_ClearCache L S sectorSize cacheDirPath) (\<lambda>resp. ret (go_answer (\<lambda>_. Inr ()) resp))"

definition go_FauxRep ::
    "'cid abi_conv \<Rightarrow> 's logger \<Rightarrow> ('s, 'p1, 'c1, 'fr) seal_lib \<Rightarrow> abi_RegisteredSealProof \<Rightarrow> bytes \<Rightarrow> bytes
      \<Rightarrow> ('s world \<times> heap, go_error + 'cid) io" where
  "go_FauxRep K L S proofType cacheDirPath sealedSectorPath =
     try_val (toFilRegisteredSealProof proofType) (\<lambda>sp.
     bind_io (cgo_Fauxrep L S sp cacheDirPath sealedSectorPath) (\<lambda>resp.
     ret (go_answer (\<lambda>v. cid_of (ReplicaCommitmentV1ToCID K) (as_array v)) resp)))"

definition go_FauxRep2 ::
    "'cid abi_conv \<Rightarrow> 's logger \<Rightarrow> ('s, 'p1, 'c1, 'fr) seal_lib \<Rightarrow> abi_RegisteredSealProof \<Rightarrow> bytes \<Rightarrow> bytes
      \<Rightarrow> ('s world \<times> heap, go_error + 'cid) io" where
  "go_FauxRep2 K L S proofType cacheDirPath existingPAuxPath =
     try_val (toFilRegisteredSealProof proofType) (\<lambda>sp.
     bind_io (cgo_Fauxrep2 L S sp cacheDirPath existingPAuxPath) (\<lambda>resp.
     ret (go_answer (\<lambda>v. cid_of (ReplicaCommitmentV1ToCID K) (as_array v)) resp)))"

section \<open>Sector updates\<close>

definition go_EncodeInto ::
    "'cid abi_conv \<Rightarrow> 's logger \<Rightarrow> 's update_lib \<Rightarrow> abi_RegisteredUpdateProof \<Rightarrow> bytes \<Rightarrow> bytes \<Rightarrow> bytes \<Rightarrow> bytes \<Rightarrow> bytes
      \<Rightarrow> 'cid abi_PieceInfo list \<Rightarrow> ('s world \<times> heap, go_error + 'cid \<times> 'cid) io" where
  "go_EncodeInto K L U proofType newReplicaPath newReplicaCachePath sectorKeyPath sectorKeyCachePath stagedDataPath pieces =
     try_val (toFilRegisteredUpdateProof proofType) (\<lambda>up.
     try_io (from_exec (toFilPublicPieceInfos K pieces)) (\<lambda>filPublicPieceInfos.
     bind_io (cgo_EmptySectorUpdateEncodeInto L U up newReplicaPath newReplicaCachePath sectorKeyPath sectorKeyCachePath
       stagedDataPath filPublicPieceInfos) (\<lambda>resp.
     ret (go_answer (\<lambda>v. cids_of K (as_array (get_field 0 v)) (as_array (get_field 1 v))) resp))))"

definition go_DecodeFrom ::
    "'cid abi_conv \<Rightarrow> 's logger \<Rightarrow> 's update_lib \<Rightarrow> abi_RegisteredUpdateProof \<Rightarrow> bytes \<Rightarrow> bytes \<Rightarrow> bytes \<Rightarrow> bytes \<Rightarrow> 'cid
      \<Rightarrow> ('s world \<times> heap, go_error + unit) io" where
  "go_DecodeFrom K L U proofType outDataPath replicaPath sectorKeyPath sectorKeyCachePath unsealedCID =
     try_val (toFilRegisteredUpdateProof proofType) (\<lambda>up.
     try_io (from_exec (to32ByteCommD K unsealedCID)) (\<lambda>commD.
     bind_io (cgo_EmptySectorUpdateDecodeFrom L U up outDataPath replicaPath sectorKeyPath sectorKeyCachePath commD) (\<lambda>resp.
     ret (go_answer (\<lambda>_. Inr ()) resp))))"

definition go_RemoveData ::
    "'cid abi_conv \<Rightarrow> 's logger \<Rightarrow> 's update_lib \<Rightarrow> abi_RegisteredUpdateProof \<Rightarrow> bytes \<Rightarrow> bytes \<Rightarrow> bytes \<Rightarrow> bytes \<Rightarrow> bytes
      \<Rightarrow> 'cid \<Rightarrow> ('s world \<times> heap, go_error + unit) io" where
  "go_RemoveData K L U proofType sectorKeyPath sectorKeyCachePath replicaPath replicaCachePath dataPath unsealedCID =
     try_val (toFilRegisteredUpdateProof proofType) (\<lambda>up.
     try_io (from_exec (to32ByteCommD K unsealedCID)) (\<lambda>commD.
     bind_io (cgo_EmptySectorUpdateRemoveEncodedData L U up sectorKeyPath sectorKeyCachePath replicaPath replicaCachePath
       dataPath commD) (\<lambda>resp.
     ret (go_answer (\<lambda>_. Inr ()) resp))))"

text \<open>The paths of the new replica come first in the caller and last in the wrapper.\<close>

definition go_GenerateUpdateVanillaProofs ::
    "('cid, 'sp) go_conv \<Rightarrow> 'cid abi_conv \<Rightarrow> 's logger \<Rightarrow> 's update_lib \<Rightarrow> abi_RegisteredUpdateProof \<Rightarrow> 'cid \<Rightarrow> 'cid \<Rightarrow> 'cid
      \<Rightarrow> bytes \<Rightarrow> bytes \<Rightarrow> bytes \<Rightarrow> bytes \<Rightarrow> ('s world \<times> heap, go_error + bytes list) io" where
  "go_GenerateUpdateVanillaProofs G K L U proofType oldSealedCID newSealedCID unsealedCID newReplicaPath newReplicaCachePath
     sectorKeyPath sectorKeyCachePath =
     try_val (toFilRegisteredUpdateProof proofType) (\<lambda>up.
     try_io (from_exec (wrapped ''transforming old CommR: '' (to32ByteCommR G oldSealedCID))) (\<lambda>commRold.
     try_io (from_exec (wrapped ''transforming new CommR: '' (to32ByteCommR G newSealedCID))) (\<lambda>commRnew.
     try_io (from_exec (wrapped ''transforming new CommD: '' (to32ByteCommD K unsealedCID))) (\<lambda>commD.
     bind_io (cgo_GenerateEmptySectorUpdatePartitionProofs L U up commRold commRnew commD sectorKeyPath sectorKeyCachePath
       newReplicaPath newReplicaCachePath) (\<lambda>resp.
     ret (go_answer (Inr \<circ> as_slices) resp))))))"

text \<open>\<open>toUpdateVanillaProofs\<close> does what \<open>toVanillaProofs\<close> does, its cleaner what \<open>makeCleanerSBU\<close> does.\<close>

definition toUpdateVanillaProofs :: "bytes list \<Rightarrow> ('w \<times> heap, cval list) io" where
  "toUpdateVanillaProofs src = toVanillaProofs src"

definition go_VerifyVanillaProofs ::
    "('cid, 'sp) go_conv \<Rightarrow> 'cid abi_conv \<Rightarrow> 's logger \<Rightarrow> 's update_lib \<Rightarrow> abi_RegisteredUpdateProof \<Rightarrow> 'cid \<Rightarrow> 'cid \<Rightarrow> 'cid
      \<Rightarrow> bytes list \<Rightarrow> ('s world \<times> heap, go_error + bool) io" where
  "go_VerifyVanillaProofs G K L U proofType oldSealedCID newSealedCID unsealedCID vanillaProofs =
     try_val (toFilRegisteredUpdateProof proofType) (\<lambda>up.
     try_io (from_exec (wrapped ''transorming old CommR: '' (to32ByteCommR G oldSealedCID))) (\<lambda>commRold.
     try_io (from_exec (wrapped ''transorming new CommR: '' (to32ByteCommR G newSealedCID))) (\<lambda>commRnew.
     try_io (from_exec (wrapped ''transorming new CommD: '' (to32ByteCommD K unsealedCID))) (\<lambda>commD.
     bind_io (toUpdateVanillaProofs vanillaProofs) (\<lambda>proofs.
     deferred (makeCleanerSBU proofs)
       (bind_io (read_heap (read_list slice_uint8 dec_bytes proofs)) (\<lambda>ps.
        bind_io (cgo_VerifyEmptySectorUpdatePartitionProofs L U up ps commRold commRnew commD) (\<lambda>resp.
        ret (go_answer (Inr \<circ> as_bool) resp)))))))))"

definition go_GenerateUpdateProofWithVanilla ::
    "('cid, 'sp) go_conv \<Rightarrow> 'cid abi_conv \<Rightarrow> 's logger \<Rightarrow> 's update_lib \<Rightarrow> abi_RegisteredUpdateProof \<Rightarrow> 'cid \<Rightarrow> 'cid \<Rightarrow> 'cid
      \<Rightarrow> bytes list \<Rightarrow> ('s world \<times> heap, go_error + bytes) io" where
  "go_GenerateUpdateProofWithVanilla G K L U proofType oldSealedCID newSealedCID unsealedCID vanillaProofs =
     try_val (toFilRegisteredUpdateProof proofType) (\<lambda>up.
     try_io (from_exec (wrapped ''transorming old CommR: '' (to32ByteCommR G oldSealedCID))) (\<lambda>commRold.
     try_io (from_exec (wrapped ''transorming new CommR: '' (to32ByteCommR G newSealedCID))) (\<lambda>commRnew.
     try_io (from_exec (wrapped ''transorming new CommD: '' (to32ByteCommD K unsealedCID))) (\<lambda>commD.
     bind_io (toUpdateVanillaProofs vanillaProofs) (\<lambda>proofs.
     deferred (makeCleanerSBU proofs)
       (bind_io (read_heap (read_list slice_uint8 dec_bytes proofs)) (\<lambda>ps.
        bind_io (cgo_GenerateEmptySectorUpdateProofWithVanilla L U up ps commRold commRnew commD) (\<lambda>resp.
        ret (go_answer (Inr \<circ> as_slice) resp)))))))))"

definition go_GenerateUpdateProof ::
    "('cid, 'sp) go_conv \<Rightarrow> 'cid abi_conv \<Rightarrow> 's logger \<Rightarrow> 's update_lib \<Rightarrow> abi_RegisteredUpdateProof \<Rightarrow> 'cid \<Rightarrow> 'cid \<Rightarrow> 'cid
      \<Rightarrow> bytes \<Rightarrow> bytes \<Rightarrow> bytes \<Rightarrow> bytes \<Rightarrow> ('s world \<times> heap, go_error + bytes) io" where
  "go_GenerateUpdateProof G K L U proofType oldSealedCID newSealedCID unsealedCID newReplicaPath newReplicaCachePath
     sectorKeyPath sectorKeyCachePath =
     try_val (toFilRegisteredUpdateProof proofType) (\<lambda>up.
     try_io (from_exec (wrapped ''transorming old CommR: '' (to32ByteCommR G oldSealedCID))) (\<lambda>commRold.
     try_io (from_exec (wrapped ''transorming new CommR: '' (to32ByteCommR G newSealedCID))) (\<lambda>commRnew.
     try_io (from_exec (wrapped ''transorming new CommD: '' (to32ByteCommD K unsealedCID))) (\<lambda>commD.
     bind_io (cgo_GenerateEmptySectorUpdateProof L U up commRold commRnew commD sectorKeyPath sectorKeyCachePath
       newReplicaPath newReplicaCachePath) (\<lambda>resp.
     ret (go_answer (Inr \<circ> as_slice) resp))))))"

text \<open>\<open>proof.ReplicaUpdateInfo\<close>\<close>

record 'cid ReplicaUpdateInfo =
  rui_UpdateProofType :: abi_RegisteredUpdateProof
  rui_OldSealedSectorCID :: 'cid
  rui_NewSealedSectorCID :: 'cid
  rui_NewUnsealedSectorCID :: 'cid
  rui_Proof :: bytes

definition go_VerifyUpdateProof ::
    "('cid, 'sp) go_conv \<Rightarrow> 'cid abi_conv \<Rightarrow> 's logger \<Rightarrow> 's update_lib \<Rightarrow> 'cid ReplicaUpdateInfo
      \<Rightarrow> ('s world \<times> heap, go_error + bool) io" where
  "go_VerifyUpdateProof G K L U updateInfo =
     try_val (toFilRegisteredUpdateProof (rui_UpdateProofType updateInfo)) (\<lambda>up.
     try_io (from_exec (wrapped ''transforming old CommR: '' (to32ByteCommR G (rui_OldSealedSectorCID updateInfo)))) (\<lambda>commRold.
     try_io (from_exec (wrapped ''tranfsorming new CommR: '' (to32ByteCommR G (rui_NewSealedSectorCID updateInfo)))) (\<lambda>commRnew.
     try_io (from_exec (wrapped ''transforming new CommD: '' (to32ByteCommD K (rui_NewUnsealedSectorCID updateInfo)))) (\<lambda>commD.
     bind_io (cgo_VerifyEmptySectorUpdateProof L U up (rui_Proof updateInfo) commRold commRnew commD) (\<lambda>resp.
     ret (go_answer (Inr \<circ> as_bool) resp))))))"

section \<open>What the callers answer\<close>

text \<open>The answer of a caller for a response: the value, converted, or the error text.\<close>

definition answer_with :: "('a \<Rightarrow> go_error + 'b) \<Rightarrow> 'a Result \<Rightarrow> go_error + 'b" where
  "answer_with f r = (if status_code r = NoError then f (value_of r) else Inl (FfiErr (enc_bytes (error_msg r))))"

lemma status_num_ok: "status_num (status_code r) = 0 \<longleftrightarrow> status_code r = NoError"
  by (cases "status_code r") simp_all

context ffi_layout
begin

lemma refines_go_answer:
  assumes "\<And>v. f (enc_v v) = f' v"
  shows "refines C (bind_io m (\<lambda>r. ret (answer_with f' r)))
    (bind_io (go_call rtype (ffi_export (enc_Result enc_v) m)) (\<lambda>r. ret (go_answer f r)))"
proof -
  have "(\<lambda>r. ret (answer_with f' r)) = (\<lambda>r. bind_io (ret (go_value enc_v r)) (\<lambda>r. ret (go_answer f r)))"
    by (rule ext) (simp add: answer_with_def go_value_def go_answer_def assms)
  then show ?thesis
    unfolding \<open>(\<lambda>r. ret (answer_with f' r)) = _\<close> bind_io_assoc [symmetric]
    by (intro refines_bind refines_call refines_ret)
qed

lemma refines_go_fields:
  assumes "\<And>v. f (pick_fields is (enc_v v)) = f' v"
  shows "refines C (bind_io m (\<lambda>r. ret (answer_with f' r)))
    (bind_io (go_call_fields rtype is (ffi_export (enc_Result enc_v) m)) (\<lambda>r. ret (go_answer f r)))"
proof -
  let ?copy = "\<lambda>st emsg v. check_and_copy st emsg (pick_fields is v)"
  have "(\<lambda>r. ret (answer_with f' r)) = (\<lambda>r. bind_io (ret (?copy (status_num (status_code r)) (enc_bytes (error_msg r))
      (enc_v (value_of r)))) (\<lambda>r. ret (go_answer f r)))"
    by (rule ext) (simp add: answer_with_def check_and_copy_def status_num_ok go_answer_def assms)
  then show ?thesis
    unfolding \<open>(\<lambda>r. ret (answer_with f' r)) = _\<close> go_call_fields_def bind_io_assoc [symmetric]
    by (intro refines_bind refines_with_response refines_ret)
qed

end

text \<open>Go's copies are read back as the values they were made of.\<close>

lemma as_enc [simp]:
  "as_bool (VPlain (PBool b)) = b" "as_array (VPlain (PArray a)) = a" "as_word (VPlain (PWord n)) = n"
  "as_slice (enc_bytes bs) = bs" "as_words (enc_words ws) = ws" "as_slices (enc_slices bss) = bss"
proof -
  show "as_slices (enc_slices bss) = bss"
    by (simp add: as_slices_def enc_slices_def as_slice_def comp_def)
  show "as_words (enc_words ws) = ws"
    using those_map_Some [of ws] by (simp add: as_words_def dec_words_def enc_words_def comp_def)
qed (simp_all add: as_bool_def as_array_def as_word_def as_slice_def)

lemmas picked = pick_fields_def get_field_def enc_PieceCommitment_def enc_WriteWithAlignment_def
  enc_WriteWithoutAlignment_def enc_PreCommitPhase2_def enc_EncodeInto_def

lemmas call_rules = bool_type.refines_go_answer bytes_type.refines_go_answer void_type.refines_go_answer
  array32_type.refines_go_answer words_type.refines_go_answer slices_type.refines_go_answer size_type.refines_go_answer
  piece_type.refines_go_fields aligned_type.refines_go_fields unaligned_type.refines_go_fields
  phase2_type.refines_go_fields encode_type.refines_go_fields

section \<open>Pieces and sealing\<close>

lemma piece_callers_refine:
  assumes "toFilRegisteredSealProof proofType = Inr sp"
  shows "refines C (bind_io (generate_piece_commitment L S sp fd n)
        (\<lambda>r. ret (answer_with (\<lambda>v. cid_of (PieceCommitmentV1ToCID K) (gpc_comm_p v)) r)))
      (go_GeneratePieceCIDFromFile K L S proofType fd n)"
    and "refines C (bind_io (write_without_alignment L S sp fd n staged)
        (\<lambda>r. ret (answer_with (\<lambda>v. map_sum id (Pair (wwo_total_write_unpadded v))
          (cid_of (PieceCommitmentV1ToCID K) (wwo_comm_p v))) r)))
      (go_WriteWithoutAlignment K L S proofType fd n staged)"
    and "refines C (bind_io (write_with_alignment L S sp fd n staged sizes)
        (\<lambda>r. ret (answer_with (\<lambda>v. map_sum id (\<lambda>c. (left_alignment_unpadded v, wwa_total_write_unpadded v, c))
          (cid_of (PieceCommitmentV1ToCID K) (wwa_comm_p v))) r)))
      (go_WriteWithAlignment K L S proofType fd n staged sizes)"
  unfolding go_GeneratePieceCIDFromFile_def go_WriteWithoutAlignment_def go_WriteWithAlignment_def assms try_val_simps
    cgo_defs
  by (rule call_rules, simp add: picked)+

lemma seal_callers_refine:
  assumes sp: "toFilRegisteredSealProof proofType = Inr sp" and prover: "toProverID G minerID = Returns (Inr prover)"
    and r: "to32ByteCommR G sealedCID = Returns (Inr commR)" and d: "to32ByteCommD K unsealedCID = Returns (Inr commD)"
    and ps: "toFilPublicPieceInfos K pieces = Returns (Inr infos)"
    and t: "AsByteArray32 ticket = Returns ticket32" and s: "AsByteArray32 seed = Returns seed32"
  shows "refines C (bind_io (generate_data_commitment L S sp infos)
        (\<lambda>r. ret (answer_with (cid_of (DataCommitmentV1ToCID K)) r)))
      (go_GenerateUnsealedCID K L S proofType pieces)"
    and "refines C (bind_io (seal_pre_commit_phase1 L S sp cache staged sealed n prover ticket32 infos)
        (\<lambda>r. ret (answer_with Inr r)))
      (go_SealPreCommitPhase1 G K L S proofType cache staged sealed n minerID ticket pieces)"
    and "refines C (bind_io (seal_pre_commit_phase2 L S out1 cache sealed)
        (\<lambda>r. ret (answer_with (\<lambda>v. cids_of K (spc2_comm_r v) (spc2_comm_d v)) r)))
      (go_SealPreCommitPhase2 K L S out1 cache sealed)"
    and "refines C (bind_io (seal_commit_phase1 L S sp commR commD cache sealed n prover ticket32 seed32 infos)
        (\<lambda>r. ret (answer_with Inr r)))
      (go_SealCommitPhase1 G K L S proofType sealedCID unsealedCID cache sealed n minerID ticket seed pieces)"
    and "refines C (bind_io (seal_commit_phase2 L S out1 n prover) (\<lambda>r. ret (answer_with Inr r)))
      (go_SealCommitPhase2 G L S out1 n minerID)"
    and "refines C (bind_io (verify_seal L S sp commR commD prover ticket32 seed32 n proof) (\<lambda>r. ret (answer_with Inr r)))
      (go_VerifySeal G K L S \<lparr>svi_SealProof = proofType, svi_Miner = minerID, svi_Number = n, svi_Randomness = ticket,
        svi_InteractiveRandomness = seed, svi_Proof = proof, svi_SealedCID = sealedCID, svi_UnsealedCID = unsealedCID\<rparr>)"
    and "refines C (bind_io (unseal_range L S sp cache fd out_fd n prover ticket32 commD i m) (\<lambda>r. ret (answer_with Inr r)))
      (go_UnsealRange G K L S proofType cache fd out_fd n minerID ticket unsealedCID i m)"
  unfolding go_GenerateUnsealedCID_def go_SealPreCommitPhase1_def go_SealPreCommitPhase2_def go_SealCommitPhase1_def
    go_SealCommitPhase2_def go_VerifySeal_def go_UnsealRange_def SealVerifyInfo.simps cgo_defs
    assms try_val_simps try_io_converted bind_io_from_exec(1)
  by (rule call_rules, simp add: picked)+

lemma faux_callers_refine:
  assumes "toFilRegisteredSealProof proofType = Inr sp"
  shows "refines C (bind_io (fauxrep L S sp cache path) (\<lambda>r. ret (answer_with (cid_of (ReplicaCommitmentV1ToCID K)) r)))
      (go_FauxRep K L S proofType cache path)"
    and "refines C (bind_io (fauxrep2 L S sp cache path) (\<lambda>r. ret (answer_with (cid_of (ReplicaCommitmentV1ToCID K)) r)))
      (go_FauxRep2 K L S proofType cache path)"
    and "refines C (bind_io (from_exec (get_seal_version I sp)) (\<lambda>r. ret (answer_with Inr r))) (go_GetSealVersion I proofType)"
    and "refines C (bind_io (clear_cache L S n cache) (\<lambda>r. ret (answer_with Inr r))) (go_ClearCache L S n cache)"
    and "refines C (bind_io (get_gpu_devices L devices) (\<lambda>r. ret (answer_with Inr r))) (go_GetGPUDevices L devices)"
  unfolding go_FauxRep_def go_FauxRep2_def go_GetSealVersion_def go_ClearCache_def go_GetGPUDevices_def assms try_val_simps
    cgo_defs
  by (rule call_rules, simp)+

lemma post_query_callers_refine:
  assumes "toFilRegisteredPoStProof proofType = Inr pp" and "toProverID G minerID = Returns (Inr prover)"
    and "AsByteArray32 randomness = Returns rnd"
  shows "refines C (bind_io (generate_winning_post_sector_challenge L P pp rnd n prover) (\<lambda>r. ret (answer_with Inr r)))
      (go_GenerateWinningPoStSectorChallenge G L P proofType minerID randomness n)"
    and "refines C (bind_io (get_num_partition_for_fallback_post L P pp n) (\<lambda>r. ret (answer_with Inr r)))
      (go_GetNumPartitionForFallbackPost L P proofType n)"
    and "refines C (bind_io (from_exec (get_post_version I pp)) (\<lambda>r. ret (answer_with Inr r))) (go_GetPoStVersion I proofType)"
  unfolding go_GenerateWinningPoStSectorChallenge_def go_GetNumPartitionForFallbackPost_def go_GetPoStVersion_def assms
    try_val_simps try_io_converted bind_io_from_exec(1) cgo_defs
  by (rule call_rules, simp)+

section \<open>A concrete package for CIDs\<close>

text \<open>A CID is the commitment itself. The address of a miner is one byte.\<close>

definition bytes_conv :: "(bytes, unit) go_conv" where
  "bytes_conv =
     \<lparr>CIDToReplicaCommitmentV1 = (\<lambda>c. if length c = 32 then Some c else None),
      IDAddressPayload = (\<lambda>i. Some [ucast i]),
      RegisteredWindowPoStProof = (\<lambda>_. Some abi_StackedDrgWindow2KiBV1),
      RegisteredWinningPoStProof = (\<lambda>_. Some abi_StackedDrgWinning2KiBV1)\<rparr>"

definition bytes_abi :: "bytes abi_conv" where
  "bytes_abi =
     \<lparr>CIDToDataCommitmentV1 = (\<lambda>c. if length c = 32 then Some c else None),
      CIDToPieceCommitmentV1 = (\<lambda>c. if length c = 32 then Some c else None),
      DataCommitmentV1ToCID = (\<lambda>c. if length c = 32 then Some c else None),
      PieceCommitmentV1ToCID = (\<lambda>c. if length c = 32 then Some c else None),
      ReplicaCommitmentV1ToCID = (\<lambda>c. if length c = 32 then Some c else None),
      Unpadded = (\<lambda>n. n - n div 128),
      SectorSize = (\<lambda>p. if p \<in> {abi_StackedDrg2KiBV1, abi_StackedDrg2KiBV1_1} then Some 2048 else None)\<rparr>"

lemma zero32_converts:
  "to32ByteCommR bytes_conv zero32 = Returns (Inr zero32)" "to32ByteCommD bytes_abi zero32 = Returns (Inr zero32)"
  "to32ByteCommP bytes_abi zero32 = Returns (Inr zero32)" "AsByteArray32 zero32 = Returns zero32"
  by (simp_all add: to32ByteCommR_def to32ByteCommD_def to32ByteCommP_def bytes_conv_def bytes_abi_def AsByteArray32_def
      zero32_def)

section \<open>Properties\<close>

text \<open>C20: the callers of sector updates and of aggregation answer with the exported function's answer on
  the converted arguments: old and new commitments, the paths of the new replica and those of
  the sector key, seeds and replica commitments each reach the parameter that is meant for
  them, and the memory of the proofs that are handed over is given back in every case.\<close>
theorem update_callers_refine:
  assumes up: "toFilRegisteredUpdateProof proofType = Inr u" and sp: "toFilRegisteredSealProof sealType = Inr p"
    and old: "to32ByteCommR G oldCID = Returns (Inr r_old)" and new: "to32ByteCommR G newCID = Returns (Inr r_new)"
    and d: "to32ByteCommD K unsealedCID = Returns (Inr commD)"
    and ps: "toFilPublicPieceInfos K pieces = Returns (Inr piece_infos)" and small: "list_all small proofs"
    and prover: "toProverID G minerID = Returns (Inr prover)" and infos: "infos \<noteq> []"
    and inputs: "toAggregationInputs G K infos = Returns (Inr ais)"
    and seeds: "seedsAndCommRs G infos = Returns (Inr (seeds, commRs))"
  shows "refines C (bind_io (empty_sector_update_encode_into L U u new_path new_cache key key_cache staged piece_infos)
        (\<lambda>r. ret (answer_with (\<lambda>v. cids_of K (upd_comm_r_new v) (upd_comm_d_new v)) r)))
      (go_EncodeInto K L U proofType new_path new_cache key key_cache staged pieces) \<and>
    refines C (bind_io (empty_sector_update_decode_from L U u out_path replica key key_cache commD)
        (\<lambda>r. ret (answer_with Inr r)))
      (go_DecodeFrom K L U proofType out_path replica key key_cache unsealedCID) \<and>
    refines C (bind_io (empty_sector_update_remove_encoded_data L U u key key_cache replica replica_cache data_path commD)
        (\<lambda>r. ret (answer_with Inr r)))
      (go_RemoveData K L U proofType key key_cache replica replica_cache data_path unsealedCID) \<and>
    refines C (bind_io (generate_empty_sector_update_partition_proofs L U u r_old r_new commD key key_cache new_path new_cache)
        (\<lambda>r. ret (answer_with Inr r)))
      (go_GenerateUpdateVanillaProofs G K L U proofType oldCID newCID unsealedCID new_path new_cache key key_cache) \<and>
    refines C (bind_io (verify_empty_sector_update_partition_proofs L U u proofs r_old r_new commD)
        (\<lambda>r. ret (answer_with Inr r)))
      (go_VerifyVanillaProofs G K L U proofType oldCID newCID unsealedCID proofs) \<and>
    refines C (bind_io (generate_empty_sector_update_proof_with_vanilla L U u proofs r_old r_new commD)
        (\<lambda>r. ret (answer_with Inr r)))
      (go_GenerateUpdateProofWithVanilla G K L U proofType oldCID newCID unsealedCID proofs) \<and>
    refines C (bind_io (generate_empty_sector_update_proof L U u r_old r_new commD key key_cache new_path new_cache)
        (\<lambda>r. ret (answer_with Inr r)))
      (go_GenerateUpdateProof G K L U proofType oldCID newCID unsealedCID new_path new_cache key key_cache) \<and>
    refines C (bind_io (verify_empty_sector_update_proof L U u proof r_old r_new commD) (\<lambda>r. ret (answer_with Inr r)))
      (go_VerifyUpdateProof G K L U \<lparr>rui_UpdateProofType = proofType, rui_OldSealedSectorCID = oldCID,
        rui_NewSealedSectorCID = newCID, rui_NewUnsealedSectorCID = unsealedCID, rui_Proof = proof\<rparr>) \<and>
    refines C (bind_io (verify_aggregate_seal_proof L S try_reduce p RegisteredAggregationProof.SnarkPackV1 prover proof ais)
        (\<lambda>r. ret (answer_with Inr r)))
      (go_VerifyAggregateSeals G K L S try_reduce \<lparr>agg_Miner = minerID, agg_SealProof = sealType,
        agg_AggregateProof = abi_SnarkPackV1, agg_Proof = proof, agg_Infos = infos\<rparr>) \<and>
    refines C (bind_io (aggregate_seal_proofs L S p RegisteredAggregationProof.SnarkPackV1 commRs seeds proofs)
        (\<lambda>r. ret (answer_with Inr r)))
      (go_AggregateSealProofs G L S \<lparr>agg_Miner = minerID, agg_SealProof = sealType, agg_AggregateProof = abi_SnarkPackV1,
        agg_Proof = proof, agg_Infos = infos\<rparr> proofs)"
proof (intro conjI)
  note converted = up sp old new d ps prover inputs seeds try_val_simps try_io_converted bind_io_from_exec(1) wrapped_Returns
  note given_back = refines_with_vanilla [OF small] refines_read
  show "refines C (bind_io (verify_empty_sector_update_partition_proofs L U u proofs r_old r_new commD)
        (\<lambda>r. ret (answer_with Inr r)))
      (go_VerifyVanillaProofs G K L U proofType oldCID newCID unsealedCID proofs)"
    unfolding go_VerifyVanillaProofs_def toUpdateVanillaProofs_def converted cgo_defs
    by (assumption | rule given_back call_rules | simp)+
  show "refines C (bind_io (generate_empty_sector_update_proof_with_vanilla L U u proofs r_old r_new commD)
        (\<lambda>r. ret (answer_with Inr r)))
      (go_GenerateUpdateProofWithVanilla G K L U proofType oldCID newCID unsealedCID proofs)"
    unfolding go_GenerateUpdateProofWithVanilla_def toUpdateVanillaProofs_def converted cgo_defs
    by (assumption | rule given_back call_rules | simp)+
  show "refines C (bind_io (aggregate_seal_proofs L S p RegisteredAggregationProof.SnarkPackV1 commRs seeds proofs)
        (\<lambda>r. ret (answer_with Inr r)))
      (go_AggregateSealProofs G L S \<lparr>agg_Miner = minerID, agg_SealProof = sealType, agg_AggregateProof = abi_SnarkPackV1,
        agg_Proof = proof, agg_Infos = infos\<rparr> proofs)"
    unfolding go_AggregateSealProofs_def AggregateSealVerifyProofAndInfos.simps toFilRegisteredAggregationProof.simps
      converted prod.case cgo_defs
    by (assumption | rule given_back call_rules | simp)+
qed (unfold go_EncodeInto_def go_DecodeFrom_def go_RemoveData_def go_GenerateUpdateVanillaProofs_def go_GenerateUpdateProof_def
      go_VerifyUpdateProof_def go_VerifyAggregateSeals_def ReplicaUpdateInfo.simps AggregateSealVerifyProofAndInfos.simps
      toFilRegisteredAggregationProof.simps if_not_P [OF infos] up sp old new d ps prover inputs try_val_simps
      try_io_converted bind_io_from_exec(1) wrapped_Returns cgo_defs,
     (rule call_rules, simp add: picked)+)

theorem update_callers_refine_witness:
  "\<forall>C. refines C (bind_io (generate_empty_sector_update_proof_with_vanilla silent_logger sample_update
        RegisteredUpdateProof.StackedDrg2KiBV1 [[1, 2], [], [3]] zero32 zero32 zero32) (\<lambda>r. ret (answer_with Inr r)))
      (go_GenerateUpdateProofWithVanilla bytes_conv bytes_abi silent_logger sample_update abi_Update2KiBV1 zero32 zero32 zero32
        [[1, 2], [], [3]])"
proof
  fix C
  let ?info = "\<lparr>asv_Number = 5, asv_Randomness = zero32, asv_InteractiveRandomness = zero32, asv_SealedCID = zero32,
    asv_UnsealedCID = zero32\<rparr>"
  have "toProverID bytes_conv 7 = Returns (Inr (7 # replicate 31 0))"
    by (simp add: toProverID_def bytes_conv_def AsByteArray32_def)
  note callers = update_callers_refine [of abi_Update2KiBV1 RegisteredUpdateProof.StackedDrg2KiBV1 abi_StackedDrg2KiBV1
      RegisteredSealProof.StackedDrg2KiBV1 bytes_conv zero32 zero32 zero32 zero32 bytes_abi zero32 zero32 "[]" "[]"
      "[[1, 2], [], [3]]" 7 "7 # replicate 31 0" "[?info]"
      "[\<lparr>ai_comm_r = zero32, ai_comm_d = zero32, ai_sector_id = 5, ai_ticket = zero32, ai_seed = zero32\<rparr>]" "[zero32]" "[zero32]"
      C silent_logger sample_update, OF _ _ _ _ _ _ _ this]
  show "refines C (bind_io (generate_empty_sector_update_proof_with_vanilla silent_logger sample_update
        RegisteredUpdateProof.StackedDrg2KiBV1 [[1, 2], [], [3]] zero32 zero32 zero32) (\<lambda>r. ret (answer_with Inr r)))
      (go_GenerateUpdateProofWithVanilla bytes_conv bytes_abi silent_logger sample_update abi_Update2KiBV1 zero32 zero32 zero32
        [[1, 2], [], [3]])"
    by (rule callers [THEN conjunct2, THEN conjunct2, THEN conjunct2, THEN conjunct2, THEN conjunct2, THEN conjunct1])
       (simp_all add: zero32_converts)
qed

text \<open>C23: the outcome of GeneratePieceCID once its file is open. A CID comes back when the commitment was
  computed; but when it could not be computed, the caller gets the undefined CID and the error of
  closing the file, which is none when closing works: the failure is not reported.\<close>
theorem piece_cid_error_is_lost:
  assumes "os_Open Os path w = (Returns (Inr fd), w1)" and "toFilRegisteredSealProof proofType = Inr sp"
    and "generate_piece_commitment L S sp fd n w1 = (Returns r, w2)" and "os_Close Os fd w2 = (Returns closing, w3)"
    and "heap_ok h"
  shows "\<exists>h'. go_GeneratePieceCID K Os L S proofType path n (w, h) =
      (Returns (if status_code r = NoError then PieceCommitmentV1ToCID K (gpc_comm_p (value_of r)) else None, closing),
       (w3, h')) \<and> cells h' = cells h"
proof -
  let ?f = "\<lambda>v. cid_of (PieceCommitmentV1ToCID K) (gpc_comm_p v)"
  have "bind_io (generate_piece_commitment L S sp fd n) (\<lambda>r. ret (answer_with ?f r)) w1 = (Returns (answer_with ?f r), w2)"
    using assms(3) by (simp add: bind_io_def ret_def)
  from refinesD [OF piece_callers_refine(1) [OF assms(2)] assms(5) refl this] obtain h' where
    "go_GeneratePieceCIDFromFile K L S proofType fd n (w1, h) = (Returns (answer_with ?f r), (w2, h'))" "cells h' = cells h"
    by auto
  then show ?thesis
    using assms(1,4)
    by (cases "PieceCommitmentV1ToCID K (gpc_comm_p (value_of r))")
       (simp_all add: go_GeneratePieceCID_def on_world_def bind_io_def ret_def answer_with_def cid_of_def)
qed

theorem piece_cid_error_is_lost_witness:
  "\<exists>w' h'. go_GeneratePieceCID bytes_abi \<lparr>os_Open = (\<lambda>_. ret (Inr 3)), os_Close = (\<lambda>_. ret None)\<rparr> silent_logger
       (sample_seal\<lparr>lib_generate_piece_commitment := (\<lambda>p fd n. ret (Inl (AnyhowMsg ''read failed'')))\<rparr>)
       abi_StackedDrg2KiBV1 [47, 112] 127 (fresh_world, empty_heap) = (Returns (None, None), (w', h'))"
proof -
  let ?S = "sample_seal\<lparr>lib_generate_piece_commitment := (\<lambda>p fd n. ret (Inl (AnyhowMsg ''read failed'')))\<rparr>"
  let ?Os = "\<lparr>os_Open = (\<lambda>_. ret (Inr 3)), os_Close = (\<lambda>_. ret None)\<rparr> :: string list go_os"
  let ?run = "generate_piece_commitment silent_logger ?S RegisteredSealProof.StackedDrg2KiBV1 3 127 fresh_world"
  have "fst ?run = Returns (Result_err GeneratePieceCommitment_default (str_bytes ''read failed''))"
    by (simp add: generate_piece_commitment_def seal_eval)
  then obtain w2 where run: "?run = (Returns (Result_err GeneratePieceCommitment_default (str_bytes ''read failed'')), w2)"
    by (metis prod.collapse)
  have opens: "os_Open ?Os [47, 112] fresh_world = (Returns (Inr 3), fresh_world)"
    and closes: "os_Close ?Os 3 w2 = (Returns None, w2)" by (simp_all add: ret_def)
  from piece_cid_error_is_lost [OF opens _ run closes empty_heap_ok, of abi_StackedDrg2KiBV1 bytes_abi]
  show ?thesis by (auto simp: Result_err_def)
qed

end
