(* ===== verification/Go_Challenges.thy ===== *)
theory Go_Challenges
  imports Go_Sealing
begin

text \<open>
  \<open>GeneratePoStFallbackSectorChallenges\<close> of \<open>distributed.go\<close>. The library's map of challenges is taken
  apart into two slices in Rust and put together again in Go. The property is that the client gets
  the library's map.
\<close>

section \<open>The caller\<close>

record FallbackChallenges =
  Sectors :: "u64 list"
  Challenges :: "u64 \<rightharpoonup> u64 list"

text \<open>The loop over the two slices; an index beyond the second panics.\<close>

fun pair_challenges :: "u64 list \<Rightarrow> u64 list list \<Rightarrow> FallbackChallenges \<Rightarrow> FallbackChallenges exec" where
  "pair_challenges [] challenges out = Returns out"
| "pair_challenges (secNum # ids) (c # challenges) out =
     pair_challenges ids challenges
       (out\<lparr>Sectors := Sectors out @ [secNum], Challenges := (Challenges out)(secNum \<mapsto> c)\<rparr>)"
| "pair_challenges (secNum # ids) [] out = Panics (StringPayload ''index out of range'')"

definition as_words_list :: "val \<Rightarrow> u64 list list" where
  "as_words_list v = (case v of VSlice vs \<Rightarrow> map as_words vs | _ \<Rightarrow> [])"

definition go_GeneratePoStFallbackSectorChallenges ::
    "('cid, 'sp) go_conv \<Rightarrow> 's logger \<Rightarrow> 's post_lib \<Rightarrow> abi_RegisteredPoStProof \<Rightarrow> u64 \<Rightarrow> bytes \<Rightarrow> u64 list
      \<Rightarrow> ('s world \<times> heap, go_error + FallbackChallenges) io" where
  "go_GeneratePoStFallbackSectorChallenges G L P proofType minerID randomness sectorIds =
     try_io (from_exec (toProverID G minerID)) (\<lambda>proverID.
     try_val (toFilRegisteredPoStProof proofType) (\<lambda>pp.
     bind_io (from_exec (AsByteArray32 randomness)) (\<lambda>randomnessBytes.
     bind_io (cgo_GenerateFallbackSectorChallenges L P pp randomnessBytes sectorIds proverID) (\<lambda>resp.
     case resp of
       Inl e \<Rightarrow> ret (Inl (FfiErr e))
     | Inr v \<Rightarrow>
         bind_io (from_exec (pair_challenges (as_words (get_field 0 v)) (as_words_list (get_field 1 v))
           \<lparr>Sectors = [], Challenges = Map.empty\<rparr>)) (\<lambda>out. ret (Inr out))))))"

section \<open>What it computes\<close>

lemma pair_challenges_entries:
  "pair_challenges (map fst es) (map snd es) out =
     Returns (out\<lparr>Sectors := Sectors out @ map fst es, Challenges := Challenges out ++ map_of (rev es)\<rparr>)"
proof (induction es arbitrary: out)
  case (Cons e es)
  have "(Challenges out)(fst e \<mapsto> snd e) ++ map_of (rev es) = Challenges out ++ map_of (rev (e # es))"
    by (auto simp: map_add_def fun_eq_iff split: option.split)
  with Cons show ?case by (simp add: fun_upd_def)
qed simp

lemma as_words_list_enc [simp]: "as_words_list (VSlice (map enc_words wss)) = wss"
  by (simp add: as_words_list_def comp_def)

text \<open>The response of the exported function on every outcome of the library.\<close>

lemma fallback_challenges_response:
  assumes "logger_ok L" and "log_init w \<noteq> Poisoned"
    and "lib_fallback_sector_challenges P (to_api_post pp) rnd ids prover
      (ext (log_started L ''generate_fallback_sector_challenges'' w)) = (x, e)" and "x \<noteq> Undefined"
  shows "\<exists>r w'. generate_fallback_sector_challenges L P pp rnd ids prover w = (Returns r, w') \<and>
    (case x of
       Returns (Inr es) \<Rightarrow> r = Result_ok \<lparr>fb_ids = map fst es, fb_challenges = map snd es\<rparr>
     | Returns (Inl e) \<Rightarrow> status_code r \<noteq> NoError \<and> error_msg r = str_bytes (anyhow_to_string e)
     | Panics p \<Rightarrow> status_code r \<noteq> NoError \<and> error_msg r = str_bytes (panic_text p)
     | Undefined \<Rightarrow> False)"
  unfolding generate_fallback_sector_challenges_def Let_def catch_panic_response_eq [OF assms(1,2)]
  using assms(3,4)
  by (cases x) (auto simp: try_io_def bind_io_def lift_ext_def ret_def Result_from_def map_err_string_def Result_err_def
      fst_def [symmetric] snd_def [symmetric] case_prod_beta split: sum.splits)

section \<open>Properties\<close>

text \<open>C21: GeneratePoStFallbackSectorChallenges gives the client the library's map: the sectors in the map's
  order and for each its challenges. An error and a panic of the library are an error with its text. It
  never panics itself, since the two slices of the response are equally long, and releases the
  response.\<close>
theorem fallback_challenges_reach_the_client:
  assumes L: "logger_ok L" "log_init w \<noteq> Poisoned"
    and args: "toProverID G minerID = Returns (Inr prover)" "toFilRegisteredPoStProof proofType = Inr pp"
      "AsByteArray32 randomness = Returns rnd"
    and lib: "lib_fallback_sector_challenges P (to_api_post pp) rnd ids prover
      (ext (log_started L ''generate_fallback_sector_challenges'' w)) = (x, e)" "x \<noteq> Undefined"
    and entries: "\<And>es. x = Returns (Inr es) \<Longrightarrow> distinct (map fst es)"
    and h: "heap_ok h"
  shows "\<exists>w' h'. go_GeneratePoStFallbackSectorChallenges G L P proofType minerID randomness ids (w, h) =
      (Returns (case x of
           Returns (Inr es) \<Rightarrow> Inr \<lparr>Sectors = map fst es, Challenges = map_of es\<rparr>
         | Returns (Inl e) \<Rightarrow> Inl (FfiErr (enc_bytes (str_bytes (anyhow_to_string e))))
         | Panics p \<Rightarrow> Inl (FfiErr (enc_bytes (str_bytes (panic_text p))))), (w', h')) \<and>
      cells h' = cells h \<and> heap_ok h'"
proof -
  obtain r w' where run: "generate_fallback_sector_challenges L P pp rnd ids prover w = (Returns r, w')"
    and r: "case x of
       Returns (Inr es) \<Rightarrow> r = Result_ok \<lparr>fb_ids = map fst es, fb_challenges = map snd es\<rparr>
     | Returns (Inl e) \<Rightarrow> status_code r \<noteq> NoError \<and> error_msg r = str_bytes (anyhow_to_string e)
     | Panics p \<Rightarrow> status_code r \<noteq> NoError \<and> error_msg r = str_bytes (panic_text p)
     | Undefined \<Rightarrow> False"
    using fallback_challenges_response [OF L lib] by blast
  have "bind_io (generate_fallback_sector_challenges L P pp rnd ids prover)
      (\<lambda>r. ret (go_value enc_FallbackSectorChallenges r)) w = (Returns (go_value enc_FallbackSectorChallenges r), w')"
    using run by (simp add: bind_io_def ret_def)
  from refinesD [OF challenges_type.refines_call h refl this] obtain h' where
    call: "cgo_GenerateFallbackSectorChallenges L P pp rnd ids prover (w, h) =
      (Returns (go_value enc_FallbackSectorChallenges r), (w', h'))" and h': "cells h' = cells h" "heap_ok h'"
    by (auto simp: cgo_GenerateFallbackSectorChallenges_def)
  have "pair_challenges (map fst es) (map snd es) \<lparr>Sectors = [], Challenges = Map.empty\<rparr> =
      Returns \<lparr>Sectors = map fst es, Challenges = map_of es\<rparr>" if "x = Returns (Inr es)" for es
    by (simp add: pair_challenges_entries map_of_rev_distinct [OF entries [OF that]])
  with r call h' lib(2) show ?thesis
    by (cases x) (auto simp: go_GeneratePoStFallbackSectorChallenges_def args try_io_converted try_val_simps bind_io_from_exec
        bind_io_def go_value_def enc_FallbackSectorChallenges_def get_field_def from_exec_def ret_def Result_ok_def
        split: sum.splits)
qed

theorem fallback_challenges_reach_the_client_witness:
  "\<exists>w' h'. go_GeneratePoStFallbackSectorChallenges bytes_conv silent_logger sample_post abi_StackedDrgWindow2KiBV1 7 zero32
       [1, 2] (fresh_world, empty_heap) =
     (Returns (Inr \<lparr>Sectors = [1, 2], Challenges = [1 \<mapsto> [10, 11], 2 \<mapsto> [20]]\<rparr>), (w', h'))"
proof -
  let ?e = "ext (log_started silent_logger ''generate_fallback_sector_challenges'' fresh_world)"
  have prover: "toProverID bytes_conv 7 = Returns (Inr (7 # replicate 31 0))"
    by (simp add: toProverID_def bytes_conv_def AsByteArray32_def)
  have lib: "lib_fallback_sector_challenges sample_post (to_api_post RegisteredPoStProof.StackedDrgWindow2KiBV1) zero32 [1, 2]
      (7 # replicate 31 0) ?e = (Returns (Inr [(1, [10, 11]), (2, [20])]), ?e)"
    by (simp add: sample_post_def ret_def)
  have map: "[2 \<mapsto> [20::u64], 1 \<mapsto> [10, 11]] = [1::u64 \<mapsto> [10, 11], 2 \<mapsto> [20]]"
    by (auto simp: fun_eq_iff)
  from fallback_challenges_reach_the_client [OF silent_logger_ok fresh_world_ok prover _ zero32_converts(4) lib _ _
      empty_heap_ok, of abi_StackedDrgWindow2KiBV1] show ?thesis
    by (auto simp: map)
qed

end
