(* ===== verification/Go_Workflow.thy ===== *)
theory Go_Workflow
  imports Go_Sealing Sealing_Test
begin

text \<open>
  \<open>WorkflowProofsLifecycle\<close> of \<open>workflows.go\<close>, from the first piece to the unsealed data: a Go client
  writes two pieces, seals a sector, proves it, verifies the proof and unseals the sector, all
  through the callers of \<open>proofs.go\<close>. The property is that it succeeds on a library that keeps its
  contract and gives its memory back: the commitments that one function returns survive their way
  through CIDs to the next one. \<open>go_wp\<close> is total correctness of a Go program, together with the
  cells of the heap that it has to restore.
\<close>

section \<open>The program\<close>

text \<open>\<open>t.RequireNoError\<close>. A check that fails ends the program; the helper's \<open>Assert\<close> methods go on after a
  failure, with the test already lost.\<close>

definition require_ok :: "'e + 'a \<Rightarrow> ('a \<Rightarrow> ('w, 'b) io) \<Rightarrow> ('w, 'b) io" where
  "require_ok r k = (case r of Inl e \<Rightarrow> raise (StringPayload ''unexpected error'') | Inr a \<Rightarrow> k a)"

text \<open>A file is its descriptor and its name. Syncing it to the disk is not modelled.\<close>

definition requireTempFile :: "'s test_env \<Rightarrow> bytes \<Rightarrow> ('s world, i32 \<times> path) io" where
  "requireTempFile E contents =
     bind_io (lift_ext (env_named_tempfile E)) (\<lambda>r. require_ok r (\<lambda>(fd, name).
     bind_io (lift_ext (env_write_all E fd contents)) (\<lambda>r. require_ok r (\<lambda>_.
     bind_io (lift_ext (env_seek_start E fd 0)) (\<lambda>r. require_ok r (\<lambda>_.
     ret (fd, name)))))))"

definition seek_to_head :: "'s test_env \<Rightarrow> i32 \<Rightarrow> ('s world, anyhow + unit) io" where
  "seek_to_head E fd = lift_ext (env_seek_start E fd 0)"

text \<open>The first piece is written without alignment, the second with it.\<close>

definition workflow_piece_a ::
    "'cid abi_conv \<Rightarrow> 's test_env \<Rightarrow> 's logger \<Rightarrow> ('s, 'p1, 'c1, 'fr) seal_lib \<Rightarrow> abi_RegisteredSealProof
      \<Rightarrow> i32 \<Rightarrow> bytes \<Rightarrow> ('s world \<times> heap, 'cid) io" where
  "workflow_piece_a K E L S sealProofType stagedSectorFile someBytes =
     bind_io (on_world (requireTempFile E (take 127 someBytes))) (\<lambda>(pieceFileA, _).
     bind_io (go_GeneratePieceCIDFromFile K L S sealProofType pieceFileA 127) (\<lambda>r. require_ok r (\<lambda>pieceCIDA.
     bind_io (on_world (seek_to_head E pieceFileA)) (\<lambda>r. require_ok r (\<lambda>_.
     bind_io (go_WriteWithoutAlignment K L S sealProofType pieceFileA 127 stagedSectorFile) (\<lambda>r. require_ok r (\<lambda>(n, pieceCID).
     assert_io (n = 127) (StringPayload ''not equal'') (
     assert_io (pieceCID = pieceCIDA) (StringPayload ''not true'') (
     ret pieceCIDA)))))))))"

definition workflow_piece_b ::
    "'cid abi_conv \<Rightarrow> 's test_env \<Rightarrow> 's logger \<Rightarrow> ('s, 'p1, 'c1, 'fr) seal_lib \<Rightarrow> abi_RegisteredSealProof
      \<Rightarrow> i32 \<Rightarrow> bytes \<Rightarrow> ('s world \<times> heap, 'cid) io" where
  "workflow_piece_b K E L S sealProofType stagedSectorFile someBytes =
     bind_io (on_world (requireTempFile E (take 1016 someBytes))) (\<lambda>(pieceFileB, _).
     bind_io (go_GeneratePieceCIDFromFile K L S sealProofType pieceFileB 1016) (\<lambda>r. require_ok r (\<lambda>pieceCIDB.
     bind_io (on_world (seek_to_head E pieceFileB)) (\<lambda>r. require_ok r (\<lambda>_.
     bind_io (go_WriteWithAlignment K L S sealProofType pieceFileB 1016 stagedSectorFile [127])
       (\<lambda>r. require_ok r (\<lambda>(left, tot, pieceCID).
     assert_io (left = 889) (StringPayload ''not equal'') (
     assert_io (tot = 1905) (StringPayload ''not equal'') (
     assert_io (pieceCID = pieceCIDB) (StringPayload ''not true'') (
     ret pieceCIDB))))))))))"

definition workflow_pieces ::
    "'cid abi_conv \<Rightarrow> (u64 \<Rightarrow> u64) \<Rightarrow> 's test_env \<Rightarrow> 's logger \<Rightarrow> ('s, 'p1, 'c1, 'fr) seal_lib \<Rightarrow> abi_RegisteredSealProof
      \<Rightarrow> i32 \<Rightarrow> bytes \<Rightarrow> ('s world \<times> heap, 'cid abi_PieceInfo list) io" where
  "workflow_pieces K Padded E L S sealProofType stagedSectorFile someBytes =
     bind_io (workflow_piece_a K E L S sealProofType stagedSectorFile someBytes) (\<lambda>pieceCIDA.
     bind_io (workflow_piece_b K E L S sealProofType stagedSectorFile someBytes) (\<lambda>pieceCIDB.
     ret [\<lparr>PieceSize = Padded 127, PieceCID = pieceCIDA\<rparr>, \<lparr>PieceSize = Padded 1016, PieceCID = pieceCIDB\<rparr>]))"

definition workflow_pre_commit ::
    "('cid, 'sp) go_conv \<Rightarrow> 'cid abi_conv \<Rightarrow> 's logger \<Rightarrow> ('s, 'p1, 'c1, 'fr) seal_lib \<Rightarrow> abi_RegisteredSealProof \<Rightarrow> path \<Rightarrow> path
      \<Rightarrow> path \<Rightarrow> u64 \<Rightarrow> u64 \<Rightarrow> bytes \<Rightarrow> 'cid abi_PieceInfo list \<Rightarrow> ('s world \<times> heap, 'cid \<times> 'cid) io" where
  "workflow_pre_commit G K L S sealProofType sectorCacheDirPath stagedName sealedName sectorNum minerID ticket publicPieces =
     bind_io (go_GenerateUnsealedCID K L S sealProofType publicPieces) (\<lambda>r. require_ok r (\<lambda>preGeneratedUnsealedCID.
     bind_io (go_SealPreCommitPhase1 G K L S sealProofType sectorCacheDirPath stagedName sealedName sectorNum minerID
       ticket publicPieces) (\<lambda>r. require_ok r (\<lambda>sealPreCommitPhase1Output.
     bind_io (go_SealPreCommitPhase2 K L S sealPreCommitPhase1Output sectorCacheDirPath sealedName)
       (\<lambda>r. require_ok r (\<lambda>(sealedCID, unsealedCID).
     assert_io (unsealedCID = preGeneratedUnsealedCID)
       (StringPayload ''prover and verifier should agree on data commitment'') (
     ret (sealedCID, unsealedCID))))))))"

definition workflow_commit ::
    "('cid, 'sp) go_conv \<Rightarrow> 'cid abi_conv \<Rightarrow> 's logger \<Rightarrow> ('s, 'p1, 'c1, 'fr) seal_lib \<Rightarrow> abi_RegisteredSealProof \<Rightarrow> path
      \<Rightarrow> path \<Rightarrow> u64 \<Rightarrow> u64 \<Rightarrow> bytes \<Rightarrow> bytes \<Rightarrow> 'cid abi_PieceInfo list \<Rightarrow> 'cid \<Rightarrow> 'cid \<Rightarrow> ('s world \<times> heap, bytes) io" where
  "workflow_commit G K L S sealProofType sectorCacheDirPath sealedName sectorNum minerID ticket seed publicPieces
     sealedCID unsealedCID =
     bind_io (go_SealCommitPhase1 G K L S sealProofType sealedCID unsealedCID sectorCacheDirPath sealedName sectorNum
       minerID ticket seed publicPieces) (\<lambda>r. require_ok r (\<lambda>sealCommitPhase1Output.
     bind_io (go_SealCommitPhase2 G L S sealCommitPhase1Output sectorNum minerID) (\<lambda>r. require_ok r (\<lambda>proof.
     bind_io (go_VerifySeal G K L S \<lparr>svi_SealProof = sealProofType, svi_Miner = minerID, svi_Number = sectorNum,
         svi_Randomness = ticket, svi_InteractiveRandomness = seed, svi_Proof = proof, svi_SealedCID = sealedCID,
         svi_UnsealedCID = unsealedCID\<rparr>) (\<lambda>r. require_ok r (\<lambda>isValid.
     assert_io isValid (StringPayload ''proof wasn't valid'') (
     ret proof)))))))"

text \<open>The sealed file is rewound, unsealed into another file, and that file read. A slice that reaches
  beyond what was read panics.\<close>

definition workflow_unsealed ::
    "'s test_env \<Rightarrow> i32 \<Rightarrow> i32 \<times> path \<Rightarrow> (i32 \<Rightarrow> ('s world \<times> heap, go_error + unit) io) \<Rightarrow> ('s world \<times> heap, bytes) io" where
  "workflow_unsealed E sealedSectorFile output unseal =
     bind_io (on_world (seek_to_head E sealedSectorFile)) (\<lambda>r. require_ok r (\<lambda>_.
     bind_io (unseal (fst output)) (\<lambda>r. require_ok r (\<lambda>_.
     bind_io (on_world (seek_to_head E (fst output))) (\<lambda>r. require_ok r (\<lambda>_.
     bind_io (on_world (lift_ext (env_read E (snd output)))) (\<lambda>r. require_ok r ret)))))))"

definition workflow_unseal_sector ::
    "('cid, 'sp) go_conv \<Rightarrow> 'cid abi_conv \<Rightarrow> 's test_env \<Rightarrow> 's logger \<Rightarrow> ('s, 'p1, 'c1, 'fr) seal_lib \<Rightarrow> abi_RegisteredSealProof
      \<Rightarrow> path \<Rightarrow> i32 \<Rightarrow> i32 \<times> path \<Rightarrow> u64 \<Rightarrow> u64 \<Rightarrow> bytes \<Rightarrow> 'cid \<Rightarrow> bytes \<Rightarrow> ('s world \<times> heap, unit) io" where
  "workflow_unseal_sector G K E L S sealProofType sectorCacheDirPath sealedSectorFile output sectorNum minerID ticket
     unsealedCID someBytes =
     bind_io (workflow_unsealed E sealedSectorFile output (\<lambda>out. go_Unseal G K L S sealProofType sectorCacheDirPath
       sealedSectorFile out sectorNum minerID ticket unsealedCID)) (\<lambda>contents.
     bind_io (from_exec (slice_of contents 0 127)) (\<lambda>first.
     assert_io (take 127 someBytes = first) (StringPayload ''bytes aren't equal'') (
     bind_io (from_exec (slice_of contents 127 889)) (\<lambda>gap.
     assert_io (replicate 889 0 = gap) (StringPayload ''bytes aren't equal'') (
     bind_io (from_exec (slice_of contents 1016 1016)) (\<lambda>second.
     assert_io (take 1016 someBytes = second) (StringPayload ''bytes aren't equal'') (
     ret ())))))))"

definition workflow_unseal_piece ::
    "('cid, 'sp) go_conv \<Rightarrow> 'cid abi_conv \<Rightarrow> 's test_env \<Rightarrow> 's logger \<Rightarrow> ('s, 'p1, 'c1, 'fr) seal_lib \<Rightarrow> abi_RegisteredSealProof
      \<Rightarrow> path \<Rightarrow> i32 \<Rightarrow> i32 \<times> path \<Rightarrow> u64 \<Rightarrow> u64 \<Rightarrow> bytes \<Rightarrow> 'cid \<Rightarrow> u64 \<Rightarrow> u64 \<Rightarrow> bytes \<Rightarrow> ('s world \<times> heap, unit) io" where
  "workflow_unseal_piece G K E L S sealProofType sectorCacheDirPath sealedSectorFile output sectorNum minerID ticket
     unsealedCID index amount someBytes =
     bind_io (workflow_unsealed E sealedSectorFile output (\<lambda>out. go_UnsealRange G K L S sealProofType sectorCacheDirPath
       sealedSectorFile out sectorNum minerID ticket unsealedCID index amount)) (\<lambda>contents.
     assert_io (length contents = unat amount) (StringPayload ''not equal'') (
     bind_io (from_exec (slice_of contents 0 (unat amount))) (\<lambda>piece.
     assert_io (take (unat amount) someBytes = piece) (StringPayload ''bytes aren't equal'') (
     ret ()))))"

definition workflow_unseal ::
    "('cid, 'sp) go_conv \<Rightarrow> 'cid abi_conv \<Rightarrow> 's test_env \<Rightarrow> 's logger \<Rightarrow> ('s, 'p1, 'c1, 'fr) seal_lib \<Rightarrow> abi_RegisteredSealProof
      \<Rightarrow> path \<Rightarrow> i32 \<Rightarrow> i32 \<times> path \<Rightarrow> i32 \<times> path \<Rightarrow> i32 \<times> path \<Rightarrow> u64 \<Rightarrow> u64 \<Rightarrow> bytes \<Rightarrow> 'cid \<Rightarrow> bytes
      \<Rightarrow> ('s world \<times> heap, unit) io" where
  "workflow_unseal G K E L S sealProofType sectorCacheDirPath sealedSectorFile outputA outputB outputC sectorNum minerID
     ticket unsealedCID someBytes =
     bind_io (workflow_unseal_sector G K E L S sealProofType sectorCacheDirPath sealedSectorFile outputA sectorNum minerID
       ticket unsealedCID someBytes) (\<lambda>_.
     bind_io (workflow_unseal_piece G K E L S sealProofType sectorCacheDirPath sealedSectorFile outputB sectorNum minerID
       ticket unsealedCID 0 127 someBytes) (\<lambda>_.
     workflow_unseal_piece G K E L S sealProofType sectorCacheDirPath sealedSectorFile outputC sectorNum minerID
       ticket unsealedCID 1016 1016 someBytes))"

text \<open>From the first piece to the unsealed data, with the constants of the workflow. The files and
  directories that it makes before are arguments.\<close>

definition workflow_lifecycle ::
    "('cid, 'sp) go_conv \<Rightarrow> 'cid abi_conv \<Rightarrow> (u64 \<Rightarrow> u64) \<Rightarrow> 's test_env \<Rightarrow> 's logger \<Rightarrow> ('s, 'p1, 'c1, 'fr) seal_lib
      \<Rightarrow> path \<Rightarrow> i32 \<times> path \<Rightarrow> i32 \<times> path \<Rightarrow> i32 \<times> path \<Rightarrow> i32 \<times> path \<Rightarrow> i32 \<times> path \<Rightarrow> bytes
      \<Rightarrow> ('s world \<times> heap, 'cid \<times> 'cid \<times> bytes) io" where
  "workflow_lifecycle G K Padded E L S sectorCacheDirPath staged sealed outputA outputB outputC someBytes =
     (let sealProofType = abi_StackedDrg2KiBV1; minerID = 42; sectorNum = 42; ticket = [5, 4, 2]; seed = [7, 4, 2]
      in
      bind_io (workflow_pieces K Padded E L S sealProofType (fst staged) someBytes) (\<lambda>publicPieces.
      bind_io (workflow_pre_commit G K L S sealProofType sectorCacheDirPath (snd staged) (snd sealed) sectorNum minerID ticket
        publicPieces) (\<lambda>(sealedCID, unsealedCID).
      bind_io (workflow_commit G K L S sealProofType sectorCacheDirPath (snd sealed) sectorNum minerID ticket seed publicPieces
        sealedCID unsealedCID) (\<lambda>proof.
      bind_io (workflow_unseal G K E L S sealProofType sectorCacheDirPath (fst sealed) outputA outputB outputC sectorNum
        minerID ticket unsealedCID someBytes) (\<lambda>_.
      ret (sealedCID, unsealedCID, proof))))))"

section \<open>Total correctness of Go programs\<close>

definition go_wp :: "(addr \<rightharpoonup> cval list) \<Rightarrow> ('w \<times> heap, 'a) io \<Rightarrow> ('a \<Rightarrow> 'w \<Rightarrow> bool) \<Rightarrow> 'w \<Rightarrow> bool" where
  "go_wp C g R w \<longleftrightarrow> (\<forall>h. heap_ok h \<and> cells h = C \<longrightarrow>
     wp g (\<lambda>a s. R a (fst s) \<and> cells (snd s) = C \<and> heap_ok (snd s)) (w, h))"

lemma go_wpI:
  "(\<And>h. heap_ok h \<Longrightarrow> cells h = C \<Longrightarrow> wp g (\<lambda>a s. R a (fst s) \<and> cells (snd s) = C \<and> heap_ok (snd s)) (w, h)) \<Longrightarrow>
   go_wp C g R w"
  by (simp add: go_wp_def)

lemma go_wp_ret: "R a w \<Longrightarrow> go_wp C (ret a) R w"
  by (simp add: go_wp_def)

lemma go_wp_bind:
  assumes "go_wp C m (\<lambda>a. go_wp C (f a) R) w"
  shows "go_wp C (bind_io m f) R w"
proof (rule go_wpI)
  fix h assume "heap_ok h" "cells h = C"
  with assms have "wp m (\<lambda>a s. go_wp C (f a) R (fst s) \<and> cells (snd s) = C \<and> heap_ok (snd s)) (w, h)"
    by (simp add: go_wp_def)
  then show "wp (bind_io m f) (\<lambda>a s. R a (fst s) \<and> cells (snd s) = C \<and> heap_ok (snd s)) (w, h)"
    unfolding wp_bind by (rule wp_mono) (auto simp: go_wp_def)
qed

lemma go_wp_on_world: "wp m R w \<Longrightarrow> go_wp C (on_world m) R w"
  by (auto simp: go_wp_def wp_def on_world_def)

lemma go_wp_checks:
  "go_wp C (k a) R w \<Longrightarrow> go_wp C (require_ok (Inr a) k) R w"
  "go_wp C g R w \<Longrightarrow> b \<Longrightarrow> go_wp C (assert_io b m g) R w"
  by (simp_all add: require_ok_def assert_io_def)

lemma wp_require [simp]: "wp (require_ok (Inr a) k) Q s \<longleftrightarrow> wp (k a) Q s"
  by (simp add: require_ok_def)

lemma answer_with_ok [simp]: "answer_with f (Result_ok v) = f v"
  by (simp add: answer_with_def)

text \<open>A rule for an exported function carries over to its caller.\<close>

lemma go_wp_call:
  assumes "refines C (bind_io m (\<lambda>r. ret (answer_with f r))) g" and "wp m (\<lambda>r. R (answer_with f r)) w"
  shows "go_wp C g R w"
proof (rule go_wpI)
  fix h assume h: "heap_ok h" "cells h = C"
  from assms(2) obtain r w' where "m w = (Returns r, w')" and R: "R (answer_with f r) w'" by (auto simp: wp_def)
  then have "bind_io m (\<lambda>r. ret (answer_with f r)) w = (Returns (answer_with f r), w')" by (simp add: bind_io_def ret_def)
  from refinesD [OF assms(1) h this] obtain h' where
    "g (w, h) = (Returns (answer_with f r), (w', h'))" "cells h' = C" "heap_ok h'" by blast
  with R show "wp g (\<lambda>a s. R a (fst s) \<and> cells (snd s) = C \<and> heap_ok (snd s)) (w, h)" by (auto intro: wpI)
qed

section \<open>What the workflow relies on\<close>

text \<open>\<open>go-fil-commcid\<close>: every commitment of 32 bytes has a CID and can be read back from it; and the size
  of a padded piece gives back the size of the piece, which is 2032 for a sector of two kilobytes
  (\<open>go-state-types\<close>).\<close>

definition cids_ok :: "('cid, 'sp) go_conv \<Rightarrow> 'cid abi_conv \<Rightarrow> bool" where
  "cids_ok G K \<longleftrightarrow> (\<forall>b. length b = 32 \<longrightarrow>
     (\<exists>c. ReplicaCommitmentV1ToCID K b = Some c \<and> CIDToReplicaCommitmentV1 G c = Some b) \<and>
     (\<exists>c. DataCommitmentV1ToCID K b = Some c \<and> CIDToDataCommitmentV1 K c = Some b) \<and>
     (\<exists>c. PieceCommitmentV1ToCID K b = Some c \<and> CIDToPieceCommitmentV1 K c = Some b))"

definition sizes_ok :: "'cid abi_conv \<Rightarrow> (u64 \<Rightarrow> u64) \<Rightarrow> bool" where
  "sizes_ok K Padded \<longleftrightarrow> (\<forall>n. piece_sized n \<longrightarrow> Unpadded K (Padded n) = n) \<and>
     SectorSize K abi_StackedDrg2KiBV1 = Some 2048 \<and> Unpadded K 2048 = 2032"

text \<open>The commitment of a piece is a function \<open>pc\<close> of its bytes, whether it is computed from a file or while
  the piece is written; the other commitments are arrays of 32 bytes too. The last piece of a
  sector is the last that the user's data holds.\<close>

definition commits_pieces ::
    "('s \<Rightarrow> bool) \<Rightarrow> ('s \<Rightarrow> disk) \<Rightarrow> ('s, 'p1, 'c1, 'fr) seal_lib \<Rightarrow> ('p1, 'c1, 'fr) seal_meaning \<Rightarrow> (bytes \<Rightarrow> array32) \<Rightarrow> bool" where
  "commits_pieces I F S M pc \<longleftrightarrow>
     (\<forall>d p fd f data n. piece_sized n \<and> opened d fd = Some (f, 0) \<and> bytes_of d f = Some data \<and> length data = unat n \<longrightarrow>
        delivers I F (lib_generate_piece_commitment S p fd n) d (\<lambda>piece d'. commitment piece = pc data \<and>
          (\<exists>i. d' = d\<lparr>opened := (opened d)(fd \<mapsto> (f, i))\<rparr>))) \<and>
     (\<forall>ps piece b. holds_pieces M (ps @ [piece]) b \<longrightarrow>
        commitment piece = pc (drop (length (user_data M b) - unat (piece_size piece)) (user_data M b))) \<and>
     (\<forall>data. length (pc data) = 32) \<and>
     (\<forall>p ps. length (data_commitment M p ps) = 32) \<and>
     (\<forall>out job. replica_for M out job \<longrightarrow> length (out_comm_r out) = 32)"

lemmas piece_commitment_law = commits_pieces_def [THEN iffD1, THEN conjunct1, rule_format]
  and last_piece_law = commits_pieces_def [THEN iffD1, THEN conjunct2, THEN conjunct1, rule_format]
  and commitment_lengths = commits_pieces_def [THEN iffD1, THEN conjunct2, THEN conjunct2, THEN conjunct1, rule_format]
    commits_pieces_def [THEN iffD1, THEN conjunct2, THEN conjunct2, THEN conjunct2, THEN conjunct1, rule_format]
    commits_pieces_def [THEN iffD1, THEN conjunct2, THEN conjunct2, THEN conjunct2, THEN conjunct2, rule_format]

lemma AsByteArray32_same: "length b = 32 \<Longrightarrow> AsByteArray32 b = Returns b"
  by (simp add: AsByteArray32_def)

lemma cid_conversions:
  assumes "cids_ok G K" and "length b = 32"
  obtains r d p where "cid_of (ReplicaCommitmentV1ToCID K) b = Inr r" "to32ByteCommR G r = Returns (Inr b)"
    and "cid_of (DataCommitmentV1ToCID K) b = Inr d" "to32ByteCommD K d = Returns (Inr b)"
    and "cid_of (PieceCommitmentV1ToCID K) b = Inr p" "to32ByteCommP K p = Returns (Inr b)"
proof -
  from assms obtain r d p where "ReplicaCommitmentV1ToCID K b = Some r" "CIDToReplicaCommitmentV1 G r = Some b"
    "DataCommitmentV1ToCID K b = Some d" "CIDToDataCommitmentV1 K d = Some b"
    "PieceCommitmentV1ToCID K b = Some p" "CIDToPieceCommitmentV1 K p = Some b" unfolding cids_ok_def by blast
  then show thesis
    by (intro that [of r d p])
       (simp_all add: cid_of_def to32ByteCommR_def to32ByteCommD_def to32ByteCommP_def AsByteArray32_same [OF assms(2)])
qed

section \<open>The pieces\<close>

text \<open>An empty file: the sealed sector and the outputs of the workflow before they are written.\<close>

definition empty_output :: "disk \<Rightarrow> i32 \<times> path \<Rightarrow> bool" where
  "empty_output d out \<longleftrightarrow> opened d (fst out) = Some (Named (snd out), 0) \<and> bytes_of d (Named (snd out)) = Some []"

lemma empty_output_touched:
  "empty_output d out \<Longrightarrow> touches fds ps cs d d' \<Longrightarrow> fst out \<notin> fds \<Longrightarrow> snd out \<notin> ps \<Longrightarrow> empty_output d' out"
  by (simp add: empty_output_def touches_opened touches_bytes)

lemma requireTempFile_makes:
  assumes E: "env_contract I F E" and w: "shows_view I F d w" and "0 < room d"
    and R: "\<And>fd p d' w'. opened d fd = None \<Longrightarrow> bytes_of d (Named p) = None \<Longrightarrow>
      opened d' = (opened d)(fd \<mapsto> (Named p, 0)) \<Longrightarrow> bytes_of d' = (bytes_of d)(Named p \<mapsto> contents) \<Longrightarrow>
      caches d' = caches d \<Longrightarrow> room d' = room d - 1 \<Longrightarrow> shows_view I F d' w' \<Longrightarrow> R (fd, p) w'"
  shows "wp (requireTempFile E contents) R w"
  unfolding requireTempFile_def wp_bind
proof (rule named_tempfile_works [OF E w assms(3)], unfold wp_require prod.case wp_bind)
  fix fd p w1
  let ?d = "\<lambda>i b. d\<lparr>opened := (opened d)(fd \<mapsto> (Named p, i)), bytes_of := (bytes_of d)(Named p \<mapsto> b), room := room d - 1\<rparr>"
  assume fresh: "opened d fd = None" "bytes_of d (Named p) = None" and w1: "shows_view I F (?d 0 []) w1"
  have seek: "wp (lift_ext (env_seek_start E fd 0)) (\<lambda>r. wp (require_ok r (\<lambda>_. ret (fd, p))) R) w2"
    if d2: "opened d2 = (opened d)(fd \<mapsto> (Named p, i))" "bytes_of d2 = (bytes_of d)(Named p \<mapsto> contents)" "caches d2 = caches d"
      "room d2 = room d - 1" and w2: "shows_view I F d2 w2" for d2 w2 i
    by (rule wp_lift_ext [OF seek_law [OF E, of d2 fd "Named p" i 0] w2])
       (simp_all add: d2, rule R [OF fresh], auto simp: d2)
  show "wp (lift_ext (env_write_all E fd contents)) (\<lambda>r. wp (require_ok r (\<lambda>_. bind_io (lift_ext (env_seek_start E fd 0))
      (\<lambda>r. require_ok r (\<lambda>_. ret (fd, p))))) R) w1"
    by (intro wp_lift_ext [OF write_law [OF E, of "?d 0 []" fd "Named p" "[]" contents] w1])
       (simp_all, rule seek, auto)
qed

lemma wp_file_unless_panic: "wp m R w \<Longrightarrow> wp (file_unless_panic fd m) R w"
  by (auto simp: wp_def file_unless_panic_def)

lemma generate_piece_commitment_works:
  assumes L: "quiet I F L" and C: "commits_pieces I F S M pc" and w: "shows_view I F d w"
    and piece: "piece_sized n" "opened d fd = Some (f, 0)" "bytes_of d f = Some data" "length data = unat n"
    and R: "\<And>i r w'. gpc_comm_p r = pc data \<Longrightarrow> shows_view I F (d\<lparr>opened := (opened d)(fd \<mapsto> (f, i))\<rparr>) w' \<Longrightarrow> R (Result_ok r) w'"
  shows "wp (generate_piece_commitment L S p fd n) R w"
proof -
  let ?Q = "\<lambda>piece d'. commitment piece = pc data \<and> (\<exists>i. d' = d\<lparr>opened := (opened d)(fd \<mapsto> (f, i))\<rparr>)"
  have lib: "delivers I F (lib_generate_piece_commitment S (to_api_seal p) fd n) d ?Q"
    by (rule piece_commitment_law [OF C]) (use piece in blast)
  show ?thesis
    unfolding generate_piece_commitment_def
  proof (rule wp_guarded [OF L w, where Q = "\<lambda>r d'. gpc_comm_p r = pc data \<and> (\<exists>i. d' = d\<lparr>opened := (opened d)(fd \<mapsto> (f, i))\<rparr>)"])
    fix v assume v: "shows_view I F d v"
    show "wp (bind_io (file_unless_panic fd (lift_ext (lib_generate_piece_commitment S (to_api_seal p) fd n)))
        (\<lambda>result. try_val (map_sum id (\<lambda>meta. \<lparr>gpc_comm_p = commitment meta, num_bytes_aligned = piece_size meta\<rparr>) result)
          (\<lambda>result. ret (Inr result))))
      (\<lambda>r v'. \<exists>x d'. r = Inr x \<and> shows_view I F d' v' \<and> gpc_comm_p x = pc data \<and>
        (\<exists>i. d' = d\<lparr>opened := (opened d)(fd \<mapsto> (f, i))\<rparr>)) v"
      unfolding wp_bind by (rule wp_file_unless_panic, rule wp_lift_ext [OF lib v]) auto
  qed (use R in blast)
qed

text \<open>The steps that both pieces share: a file is made, its commitment computed, and the file rewound.\<close>

lemma piece_with_cid_works:
  assumes L: "quiet I F L" and E: "env_contract I F E" and C: "commits_pieces I F S M pc" and K: "cids_ok G K"
    and p: "toFilRegisteredSealProof t = Inr p" and w: "shows_view I F d w" and room: "0 < room d"
    and data: "piece_sized n" "length data = unat n"
    and R: "\<And>fd q c d' w'. opened d fd = None \<Longrightarrow> bytes_of d (Named q) = None \<Longrightarrow>
      opened d' = (opened d)(fd \<mapsto> (Named q, 0)) \<Longrightarrow> bytes_of d' = (bytes_of d)(Named q \<mapsto> data) \<Longrightarrow>
      caches d' = caches d \<Longrightarrow> room d' = room d - 1 \<Longrightarrow> cid_of (PieceCommitmentV1ToCID K) (pc data) = Inr c \<Longrightarrow>
      to32ByteCommP K c = Returns (Inr (pc data)) \<Longrightarrow> shows_view I F d' w' \<Longrightarrow> go_wp H (k fd c) R w'"
  shows "go_wp H (bind_io (on_world (requireTempFile E data)) (\<lambda>(fd, _).
      bind_io (go_GeneratePieceCIDFromFile K L S t fd n) (\<lambda>r. require_ok r (\<lambda>c.
      bind_io (on_world (seek_to_head E fd)) (\<lambda>r. require_ok r (\<lambda>_. k fd c)))))) R w"
proof (rule go_wp_bind, rule go_wp_on_world, rule requireTempFile_makes [OF E w room], simp only: prod.case)
  fix fd q d1 w1
  assume fresh: "opened d fd = None" "bytes_of d (Named q) = None"
    and d1: "opened d1 = (opened d)(fd \<mapsto> (Named q, 0))" "bytes_of d1 = (bytes_of d)(Named q \<mapsto> data)" "caches d1 = caches d"
      "room d1 = room d - 1" and w1: "shows_view I F d1 w1"
  obtain c where c: "cid_of (PieceCommitmentV1ToCID K) (pc data) = Inr c" "to32ByteCommP K c = Returns (Inr (pc data))"
    using cid_conversions [OF K commitment_lengths(1) [OF C]] by metis
  have opens: "opened d1 fd = Some (Named q, 0)" "bytes_of d1 (Named q) = Some data" using d1 by simp_all
  have seek: "wp (seek_to_head E fd) (\<lambda>r. go_wp H (require_ok r (\<lambda>_. k fd c)) R) w2"
    if w2: "shows_view I F (d1\<lparr>opened := (opened d1)(fd \<mapsto> (Named q, i))\<rparr>) w2" for i w2
    unfolding seek_to_head_def
    by (rule wp_lift_ext [OF seek_law [OF E, of "d1\<lparr>opened := (opened d1)(fd \<mapsto> (Named q, i))\<rparr>" fd "Named q" i 0] w2])
       (simp, rule go_wp_checks, rule R [OF fresh _ _ _ _ c], simp_all add: d1)
  show "go_wp H (bind_io (go_GeneratePieceCIDFromFile K L S t fd n) (\<lambda>r. require_ok r (\<lambda>c.
      bind_io (on_world (seek_to_head E fd)) (\<lambda>r. require_ok r (\<lambda>_. k fd c))))) R w1"
    by (rule go_wp_bind, rule go_wp_call [OF piece_callers_refine(1) [OF p]],
        rule generate_piece_commitment_works [OF L C w1 data(1) opens data(2)])
       (simp add: c, rule go_wp_checks, rule go_wp_bind, rule go_wp_on_world, rule seek)
qed

lemma toFilPublicPieceInfos_two:
  assumes "sizes_ok K Padded" and "to32ByteCommP K a = Returns (Inr r)" and "to32ByteCommP K b = Returns (Inr q)"
  shows "toFilPublicPieceInfos K [\<lparr>PieceSize = Padded 127, PieceCID = a\<rparr>, \<lparr>PieceSize = Padded 1016, PieceCID = b\<rparr>] =
    Returns (Inr [\<lparr>num_bytes = 127, comm_p = r\<rparr>, \<lparr>num_bytes = 1016, comm_p = q\<rparr>])"
  using assms by (simp add: sizes_ok_def bind_exec_def)

text \<open>What a written piece leaves of the files.\<close>

lemma piece_written_fields:
  assumes "opened d src = Some (f, i)" and "opened d dst = Some (g, j)"
  shows "opened (piece_written d src dst b) dst = Some (g, length b)" "bytes_of (piece_written d src dst b) = (bytes_of d)(g \<mapsto> b)"
    "caches (piece_written d src dst b) = caches d" "room (piece_written d src dst b) = room d"
    "source_of d src = the (bytes_of d f)"
  using assms by (simp_all add: piece_written_def source_of_def)

lemma written_keeps_outputs:
  assumes "opened d1 src = Some (Named q, i)" and "opened d1 dst = Some (Named staged, j)"
    and "opened d src = None" and "bytes_of d (Named q) = None"
    and "opened d1 = (opened d)(src \<mapsto> (Named q, 0))" and "bytes_of d1 = (bytes_of d)(Named q \<mapsto> data)"
    and "empty_output d out" and "fst out \<noteq> dst" and "snd out \<noteq> staged"
  shows "empty_output (piece_written d1 src dst b) out"
  using assms by (auto simp: empty_output_def piece_written_def)

lemma workflow_piece_a_works:
  assumes L: "quiet I F L" and E: "env_contract I F E" and W: "writes_pieces I F S M" and C: "commits_pieces I F S M pc"
    and K: "cids_ok G K" and p: "toFilRegisteredSealProof t = Inr p"
    and w: "shows_view I F d w" and room: "0 < room d"
    and staged: "opened d fd = Some (Named staged, 0)" "bytes_of d (Named staged) = Some []"
    and len: "127 \<le> length someBytes"
    and R: "\<And>c q b d' w'. to32ByteCommP K c = Returns (Inr (pc (take 127 someBytes))) \<Longrightarrow>
      holds_pieces M [\<lparr>commitment = pc (take 127 someBytes), piece_size = 127\<rparr>] b \<Longrightarrow> user_data M b = take 127 someBytes \<Longrightarrow>
      bytes_of d (Named q) = None \<Longrightarrow> opened d' fd = Some (Named staged, length b) \<Longrightarrow>
      bytes_of d' = (bytes_of d)(Named q \<mapsto> take 127 someBytes, Named staged \<mapsto> b) \<Longrightarrow> caches d' = caches d \<Longrightarrow>
      room d' = room d - 1 \<Longrightarrow>
      (\<And>out. empty_output d out \<Longrightarrow> fst out \<noteq> fd \<Longrightarrow> snd out \<noteq> staged \<Longrightarrow> empty_output d' out) \<Longrightarrow>
      shows_view I F d' w' \<Longrightarrow> R c w'"
  shows "go_wp H (workflow_piece_a K E L S t fd someBytes) R w"
  unfolding workflow_piece_a_def
proof (rule piece_with_cid_works [OF L E C K p w room])
  fix src q c d1 w1
  assume fresh: "opened d src = None" "bytes_of d (Named q) = None"
    and d1: "opened d1 = (opened d)(src \<mapsto> (Named q, 0))" "bytes_of d1 = (bytes_of d)(Named q \<mapsto> take 127 someBytes)"
      "caches d1 = caches d" "room d1 = room d - 1"
    and c: "cid_of (PieceCommitmentV1ToCID K) (pc (take 127 someBytes)) = Inr c"
      "to32ByteCommP K c = Returns (Inr (pc (take 127 someBytes)))" and w1: "shows_view I F d1 w1"
  have ne: "src \<noteq> fd" "q \<noteq> staged" using fresh staged by auto
  have opens: "opened d1 src = Some (Named q, 0)" "opened d1 fd = Some (Named staged, 0)" using d1 ne staged by simp_all
  have "can_write d1 src fd 127 []" using opens d1 ne staged len by (auto simp: can_write_def)
  then show "go_wp H (bind_io (go_WriteWithoutAlignment K L S t src 127 fd) (\<lambda>r. require_ok r (\<lambda>(n, pieceCID).
      assert_io (n = 127) (StringPayload ''not equal'') (assert_io (pieceCID = c) (StringPayload ''not true'') (ret c))))) R w1"
  proof (rule go_wp_bind [OF go_wp_call [OF piece_callers_refine(2) [OF p] write_without_alignment_works [OF L W w1]]])
    fix piece b w2
    assume piece: "piece_size piece = 127" and held: "holds_pieces M [piece] b" "user_data M b = source_of d1 src"
      and w2: "shows_view I F (piece_written d1 src fd b) w2"
    note fields = piece_written_fields [OF opens]
    have data: "user_data M b = take 127 someBytes" using held(2) fields(5) d1 by simp
    with last_piece_law [OF C, of "[]" piece b] held(1) piece len have comm: "commitment piece = pc (take 127 someBytes)" by simp
    with held(1) piece have "holds_pieces M [\<lparr>commitment = pc (take 127 someBytes), piece_size = 127\<rparr>] b" by (cases piece) simp
    from R [OF c(2) this data fresh(2) _ _ _ _ written_keeps_outputs [OF opens fresh d1(1,2)] w2] have "R c w2"
      using d1 by (simp add: fields)
    then show "go_wp H (require_ok (answer_with (\<lambda>v. map_sum id (Pair (wwo_total_write_unpadded v))
        (cid_of (PieceCommitmentV1ToCID K) (wwo_comm_p v))) (Result_ok \<lparr>wwo_comm_p = commitment piece, wwo_total_write_unpadded = 127\<rparr>))
        (\<lambda>(n, pieceCID). assert_io (n = 127) (StringPayload ''not equal'')
          (assert_io (pieceCID = c) (StringPayload ''not true'') (ret c)))) R w2"
      by (simp add: comm c require_ok_def assert_io_def go_wp_ret)
  qed
qed (use len in simp_all)

lemma workflow_piece_b_works:
  assumes L: "quiet I F L" and E: "env_contract I F E" and W: "writes_pieces I F S M" and C: "commits_pieces I F S M pc"
    and K: "cids_ok G K" and p: "toFilRegisteredSealProof t = Inr p"
    and w: "shows_view I F d w" and room: "0 < room d" and cap: "lib_max_user_bytes S (to_api_seal p) = Returns 2032"
    and staged: "opened d fd = Some (Named staged, length b)" "bytes_of d (Named staged) = Some b"
    and first: "holds_pieces M [first] b" "piece_size first = 127" and len: "1016 \<le> length someBytes"
    and R: "\<And>c q b' d' w'. to32ByteCommP K c = Returns (Inr (pc (take 1016 someBytes))) \<Longrightarrow>
      holds_pieces M [first, \<lparr>commitment = pc (take 1016 someBytes), piece_size = 1016\<rparr>] b' \<Longrightarrow>
      user_data M b' = user_data M b @ replicate 889 0 @ take 1016 someBytes \<Longrightarrow> bytes_of d (Named q) = None \<Longrightarrow>
      bytes_of d' = (bytes_of d)(Named q \<mapsto> take 1016 someBytes, Named staged \<mapsto> b') \<Longrightarrow> caches d' = caches d \<Longrightarrow>
      (\<And>out. empty_output d out \<Longrightarrow> fst out \<noteq> fd \<Longrightarrow> snd out \<noteq> staged \<Longrightarrow> empty_output d' out) \<Longrightarrow>
      shows_view I F d' w' \<Longrightarrow> R c w'"
  shows "go_wp H (workflow_piece_b K E L S t fd someBytes) R w"
  unfolding workflow_piece_b_def
proof (rule piece_with_cid_works [OF L E C K p w room])
  fix src q c d1 w1
  assume fresh: "opened d src = None" "bytes_of d (Named q) = None"
    and d1: "opened d1 = (opened d)(src \<mapsto> (Named q, 0))" "bytes_of d1 = (bytes_of d)(Named q \<mapsto> take 1016 someBytes)"
      "caches d1 = caches d" "room d1 = room d - 1"
    and c: "cid_of (PieceCommitmentV1ToCID K) (pc (take 1016 someBytes)) = Inr c"
      "to32ByteCommP K c = Returns (Inr (pc (take 1016 someBytes)))" and w1: "shows_view I F d1 w1"
  have ne: "src \<noteq> fd" "q \<noteq> staged" using fresh staged by auto
  have opens: "opened d1 src = Some (Named q, 0)" "opened d1 fd = Some (Named staged, length b)" using d1 ne staged by simp_all
  have "can_write d1 src fd 1016 b" using opens d1 ne staged len by (auto simp: can_write_def)
  note aligned = write_with_alignment_works [OF L W w1 this first(1) cap]
  show "go_wp H (bind_io (go_WriteWithAlignment K L S t src 1016 fd [127]) (\<lambda>r. require_ok r (\<lambda>(left, tot, pieceCID).
      assert_io (left = 889) (StringPayload ''not equal'') (assert_io (tot = 1905) (StringPayload ''not equal'')
      (assert_io (pieceCID = c) (StringPayload ''not true'') (ret c)))))) R w1"
  proof (rule go_wp_bind [OF go_wp_call [OF piece_callers_refine(3) [OF p] aligned]])
    fix piece b' w2
    assume piece: "piece_size piece = 1016" and held: "holds_pieces M ([first] @ [piece]) b'"
      "user_data M b' = user_data M b @ replicate (alignment_before (end_of_pieces [127]) (unat (1016 :: u64))) 0 @ source_of d1 src"
      and w2: "shows_view I F (piece_written d1 src fd b') w2"
    note fields = piece_written_fields [OF opens]
    have data: "user_data M b' = user_data M b @ replicate 889 0 @ take 1016 someBytes" using held(2) fields(5) d1 by simp
    with last_piece_law [OF C held(1)] piece len have comm: "commitment piece = pc (take 1016 someBytes)" by simp
    with held(1) piece have "holds_pieces M [first, \<lparr>commitment = pc (take 1016 someBytes), piece_size = 1016\<rparr>] b'"
      by (cases piece) simp
    from R [OF c(2) this data fresh(2) _ _ written_keeps_outputs [OF opens fresh d1(1,2)] w2] have "R c w2"
      using d1 by (simp add: fields)
    then show "go_wp H (require_ok (answer_with (\<lambda>v. map_sum id (\<lambda>c. (left_alignment_unpadded v, wwa_total_write_unpadded v, c))
        (cid_of (PieceCommitmentV1ToCID K) (wwa_comm_p v))) (Result_ok \<lparr>wwa_comm_p = commitment piece,
          left_alignment_unpadded = word_of_nat (alignment_before (end_of_pieces [127]) (unat (1016 :: u64))),
          wwa_total_write_unpadded = word_of_nat (alignment_before (end_of_pieces [127]) (unat (1016 :: u64))) + 1016\<rparr>))
        (\<lambda>(left, tot, pieceCID). assert_io (left = 889) (StringPayload ''not equal'') (assert_io (tot = 1905)
          (StringPayload ''not equal'') (assert_io (pieceCID = c) (StringPayload ''not true'') (ret c))))) R w2"
      by (simp add: comm c require_ok_def assert_io_def go_wp_ret)
  qed (simp_all add: first)
qed (use len in simp_all)

lemma workflow_pieces_works:
  assumes L: "quiet I F L" and E: "env_contract I F E" and W: "writes_pieces I F S M" and C: "commits_pieces I F S M pc"
    and K: "cids_ok G K" and Z: "sizes_ok K Padded" and p: "toFilRegisteredSealProof t = Inr p"
    and w: "shows_view I F d w" and room: "2 \<le> room d" and cap: "lib_max_user_bytes S (to_api_seal p) = Returns 2032"
    and staged: "opened d fd = Some (Named staged, 0)" "bytes_of d (Named staged) = Some []"
    and len: "length someBytes = 2032"
    and R: "\<And>pieces infos d' w'. toFilPublicPieceInfos K pieces = Returns (Inr infos) \<Longrightarrow>
      pieces_staged M d' staged infos (sector_data someBytes someBytes) \<Longrightarrow> caches d' = caches d \<Longrightarrow>
      (\<And>out. empty_output d out \<Longrightarrow> fst out \<noteq> fd \<Longrightarrow> snd out \<noteq> staged \<Longrightarrow> empty_output d' out) \<Longrightarrow>
      shows_view I F d' w' \<Longrightarrow> R pieces w'"
  shows "go_wp H (workflow_pieces K Padded E L S t fd someBytes) R w"
  unfolding workflow_pieces_def
proof (rule go_wp_bind, rule workflow_piece_a_works [OF L E W C K p w _ staged])
  let ?first = "\<lparr>commitment = pc (take 127 someBytes), piece_size = 127 :: u64\<rparr>"
  fix cidA qA b d1 w1
  assume cidA: "to32ByteCommP K cidA = Returns (Inr (pc (take 127 someBytes)))" and held: "holds_pieces M [?first] b"
    and data: "user_data M b = take 127 someBytes" and open1: "opened d1 fd = Some (Named staged, length b)"
    and d1: "bytes_of d1 = (bytes_of d)(Named qA \<mapsto> take 127 someBytes, Named staged \<mapsto> b)" "caches d1 = caches d"
      "room d1 = room d - 1" and w1: "shows_view I F d1 w1"
    and outs1: "\<And>out. empty_output d out \<Longrightarrow> fst out \<noteq> fd \<Longrightarrow> snd out \<noteq> staged \<Longrightarrow> empty_output d1 out"
  have "0 < room d1" "bytes_of d1 (Named staged) = Some b" using d1 room by simp_all
  note second = workflow_piece_b_works [OF L E W C K p w1 this(1) cap open1 this(2) held]
  show "go_wp H (bind_io (workflow_piece_b K E L S t fd someBytes) (\<lambda>pieceCIDB.
      ret [\<lparr>PieceSize = Padded 127, PieceCID = cidA\<rparr>, \<lparr>PieceSize = Padded 1016, PieceCID = pieceCIDB\<rparr>])) R w1"
  proof (rule go_wp_bind [OF second], rule_tac [3] go_wp_ret)
    fix cidB q b' d2 w2
    assume cidB: "to32ByteCommP K cidB = Returns (Inr (pc (take 1016 someBytes)))"
      and held: "holds_pieces M [?first, \<lparr>commitment = pc (take 1016 someBytes), piece_size = 1016\<rparr>] b'"
      and data2: "user_data M b' = user_data M b @ replicate 889 0 @ take 1016 someBytes"
      and d2: "bytes_of d2 = (bytes_of d1)(Named q \<mapsto> take 1016 someBytes, Named staged \<mapsto> b')" "caches d2 = caches d1"
      and outs2: "\<And>out. empty_output d1 out \<Longrightarrow> fst out \<noteq> fd \<Longrightarrow> snd out \<noteq> staged \<Longrightarrow> empty_output d2 out"
      and w2: "shows_view I F d2 w2"
    have "pieces_staged M d2 staged [\<lparr>num_bytes = 127, comm_p = pc (take 127 someBytes)\<rparr>,
        \<lparr>num_bytes = 1016, comm_p = pc (take 1016 someBytes)\<rparr>] (sector_data someBytes someBytes)"
      using held d2 by (simp add: pieces_staged_def sector_data_def data data2 to_api_piece_def)
    from R [OF toFilPublicPieceInfos_two [OF Z cidA cidB] this _ outs2 [OF outs1] w2] d1 d2
    show "R [\<lparr>PieceSize = Padded 127, PieceCID = cidA\<rparr>, \<lparr>PieceSize = Padded 1016, PieceCID = cidB\<rparr>] w2" by simp
  qed (use len in simp_all)
qed (use room len in simp_all)

section \<open>Sealing\<close>

lemma workflow_pre_commit_works:
  assumes L: "quiet I F L" and Q: "seals_sectors I F S M" and C: "commits_pieces I F S M pc"
    and K: "cids_ok G K" and p: "toFilRegisteredSealProof t = Inr p" and prover: "toProverID G minerID = Returns (Inr prover)"
    and tick: "AsByteArray32 ticket = Returns ticket32" and pieces: "toFilPublicPieceInfos K pieces = Returns (Inr infos)"
    and w: "shows_view I F d w" and staged: "pieces_staged M d staged infos data"
    and files: "staged \<noteq> sealed" "bytes_of d (Named sealed) \<noteq> None"
    and cache: "caches d cache = Some []" and cap: "lib_max_user_bytes S (to_api_seal p) = Returns 2032"
    and R: "\<And>out sealedCID unsealedCID d' w'. sector_sealed M d' (test_job p cache sealed sector prover ticket32 infos data) out \<Longrightarrow>
      to32ByteCommR G sealedCID = Returns (Inr (out_comm_r out)) \<Longrightarrow> to32ByteCommD K unsealedCID = Returns (Inr (out_comm_d out)) \<Longrightarrow>
      touches {} {sealed} {cache} d d' \<Longrightarrow> shows_view I F d' w' \<Longrightarrow> R (sealedCID, unsealedCID) w'"
  shows "go_wp H (workflow_pre_commit G K L S t cache staged sealed sector minerID ticket pieces) R w"
proof -
  let ?job = "test_job p cache sealed sector prover ticket32 infos data"
  let ?c = "data_commitment M (to_api_seal p) (map to_api_piece infos)"
  let ?d = "\<lambda>b q. sector_left d ?job b q"
  from staged obtain bs where held: "bytes_of d (Named staged) = Some bs" "holds_pieces M (map to_api_piece infos) bs"
      "data = user_data M bs"
    and sizes: "map num_bytes infos = [127, 1016]" by (auto simp: pieces_staged_def)
  have full: "infos \<noteq> []" "end_of_pieces (map piece_size (map to_api_piece infos)) = 2032"
    using sizes by (auto simp: to_api_piece_def comp_def)
  obtain unsealedCID where commD: "cid_of (DataCommitmentV1ToCID K) ?c = Inr unsealedCID"
      "to32ByteCommD K unsealedCID = Returns (Inr ?c)"
    using cid_conversions [OF K commitment_lengths(2) [OF C]] by metis
  obtain someCID where some: "to32ByteCommR G someCID = Returns (Inr zero32)"
    using cid_conversions [OF K] by (metis length_replicate zero32_def)
  note calls = seal_callers_refine [OF p prover some commD(2) pieces tick tick]
  note phase1 = seal_pre_commit_phase1_works [OF L Q _ held(1), where job = ?job and p = p and pieces = infos,
      unfolded sector_job.simps, OF _ held(2,3) files cache cap full(2) refl refl]
  note phase2 = seal_pre_commit_phase2_works [OF L Q, where job = ?job, unfolded sector_job.simps]
  have done': "go_wp H (require_ok (cids_of K (out_comm_r out) (out_comm_d out)) (\<lambda>(r, u).
      assert_io (u = unsealedCID) (StringPayload ''prover and verifier should agree on data commitment'') (ret (r, u)))) R w'"
    if out: "out_registered_proof out = to_api_seal p" "out_comm_d out = ?c" "replica_for M out ?job"
      "is_replica M b q (out_comm_r out)" "encodes_job M b ?job" and w': "shows_view I F (?d b q) w'" for out b q w'
  proof -
    obtain r where r: "cid_of (ReplicaCommitmentV1ToCID K) (out_comm_r out) = Inr r" "to32ByteCommR G r = Returns (Inr (out_comm_r out))"
      using cid_conversions [OF K commitment_lengths(3) [OF C out(3)]] by metis
    have t: "touches {} {sealed} {cache} d (?d b q)" using touches_sector_left [of d ?job b q] files(2) cache by simp
    have "sector_sealed M (?d b q) ?job out" using out by (simp add: sector_sealed_def)
    from R [OF this r(2) _ t w'] have "R (r, unsealedCID) w'" using commD(2) out(2) by simp
    then show ?thesis by (simp add: cids_of_def r out(2) commD(1) require_ok_def assert_io_def go_wp_ret)
  qed
  show ?thesis
    unfolding workflow_pre_commit_def
    apply (rule go_wp_bind, rule go_wp_call [OF calls(1)], rule generate_data_commitment_works [OF L Q w cap held(2) full])
    apply (simp only: answer_with_ok commD, rule go_wp_checks)
    apply (rule go_wp_bind, rule go_wp_call [OF calls(2)], rule phase1, assumption)
    apply (simp only: answer_with_ok, rule go_wp_checks)
    apply (rule go_wp_bind, rule go_wp_call [OF calls(3)], rule phase2, assumption, assumption, assumption, assumption)
      apply (simp, simp)
    apply (unfold answer_with_ok SealPreCommitPhase2.simps, rule done', assumption, assumption, assumption, assumption, assumption)
    apply simp
    done
qed

lemma workflow_commit_works:
  assumes L: "quiet I F L" and V: "proves_sectors I F S M" and p: "toFilRegisteredSealProof t = Inr p"
    and prover: "toProverID G minerID = Returns (Inr prover)"
    and tick: "AsByteArray32 ticket = Returns ticket32" and seed: "AsByteArray32 seed = Returns seed32"
    and pieces: "toFilPublicPieceInfos K pieces = Returns (Inr infos)" and w: "shows_view I F d w"
    and sealed: "sector_sealed M d (test_job p cache sealed sector prover ticket32 infos data) out"
    and r: "to32ByteCommR G sealedCID = Returns (Inr (out_comm_r out))"
    and u: "to32ByteCommD K unsealedCID = Returns (Inr (out_comm_d out))"
    and R: "\<And>proof w'. proves M proof (statement_of (test_job p cache sealed sector prover ticket32 infos data) out seed32) \<Longrightarrow>
      shows_view I F d w' \<Longrightarrow> R proof w'"
  shows "go_wp H (workflow_commit G K L S t cache sealed sector minerID ticket seed pieces sealedCID unsealedCID) R w"
proof -
  let ?job = "test_job p cache sealed sector prover ticket32 infos data"
  let ?st = "statement_of ?job out seed32"
  from sealed obtain b c where
    replica: "replica_for M out ?job" "bytes_of d (Named sealed) = Some b" "caches d cache = Some c"
      "is_replica M b c (out_comm_r out)" "encodes_job M b ?job"
    and out: "out_registered_proof out = to_api_seal p" by (auto simp: sector_sealed_def)
  have st: "st_proof ?st = to_api_seal p" "st_comm_r ?st = out_comm_r out" "st_comm_d ?st = out_comm_d out"
    "st_prover ?st = prover" "st_sector ?st = sector" "st_ticket ?st = ticket32" "st_seed ?st = seed32"
    by (simp_all add: statement_of_def out)
  note calls = seal_callers_refine [OF p prover r u pieces tick seed]
  note phase1 = seal_commit_phase1_works [OF L V w replica(1), unfolded sector_job.simps, OF replica(2-5) out refl]
  note phase2 = seal_commit_phase2_works [OF L V, where st = ?st, unfolded st]
  note verify = verify_seal_works [OF L V, where st = ?st, unfolded st]
  show ?thesis
    unfolding workflow_commit_def
    apply (rule go_wp_bind, rule go_wp_call [OF calls(4)], rule phase1, simp only: answer_with_ok, rule go_wp_checks)
    apply (rule go_wp_bind, rule go_wp_call [OF calls(5)], rule phase2, assumption, assumption, assumption,
        simp only: answer_with_ok, rule go_wp_checks)
    apply (rule go_wp_bind, rule go_wp_call [OF calls(6)], rule verify, assumption, assumption, rule refl)
    apply (simp only: answer_with_ok, rule go_wp_checks, rule go_wp_checks, rule go_wp_ret, erule (1) R, rule TrueI)
    done
qed

section \<open>Unsealing\<close>

lemma seek_to_head_works:
  assumes E: "env_contract I F E" and w: "shows_view I F d w" and "opened d fd = Some (Named q, i)"
    and R: "\<And>d' w'. opened d' = (opened d)(fd \<mapsto> (Named q, 0)) \<Longrightarrow> bytes_of d' = bytes_of d \<Longrightarrow> caches d' = caches d \<Longrightarrow>
      room d' = room d \<Longrightarrow> shows_view I F d' w' \<Longrightarrow> R (Inr ()) w'"
  shows "wp (seek_to_head E fd) R w"
  unfolding seek_to_head_def by (rule wp_lift_ext [OF seek_law [OF E assms(3), of 0] w]) (simp, erule R [rotated 4], simp_all)

text \<open>The range that was asked for is read back; only the two files have changed.\<close>

lemma workflow_unsealed_works:
  assumes L: "quiet I F L" and E: "env_contract I F E" and X: "unseals_sectors I F S M" and w: "shows_view I F d w"
    and sealed: "sector_sealed M d job out" "opened d sealed_fd = Some (Named (job_sealed job), i)"
    and dest: "opened d fd = Some (Named dest, 0)" "bytes_of d (Named dest) = Some []" "dest \<noteq> job_sealed job" "fd \<noteq> sealed_fd"
    and len: "unat index + unat amount \<le> length (job_data job)" and p: "job_proof job = to_api_seal p"
    and call: "refines H (bind_io (unseal_range L S p (job_cache job) sealed_fd fd (job_sector job) (job_prover job)
        (job_ticket job) (out_comm_d out) index amount) (\<lambda>r. ret (answer_with Inr r))) (unseal fd)"
    and R: "\<And>d' w'. touches {sealed_fd, fd} {dest} {} d d' \<Longrightarrow> opened d' sealed_fd = Some (Named (job_sealed job), 0) \<Longrightarrow>
      shows_view I F d' w' \<Longrightarrow> R (take (unat amount) (drop (unat index) (job_data job))) w'"
  shows "go_wp H (workflow_unsealed E sealed_fd (fd, dest) unseal) R w"
  unfolding workflow_unsealed_def fst_conv snd_conv
proof (rule go_wp_bind, rule go_wp_on_world, rule seek_to_head_works [OF E w sealed(2)], rule go_wp_checks, rule go_wp_bind)
  let ?data = "take (unat amount) (drop (unat index) (job_data job))"
  fix d1 w1
  assume d1: "opened d1 = (opened d)(sealed_fd \<mapsto> (Named (job_sealed job), 0))" "bytes_of d1 = bytes_of d" "caches d1 = caches d"
    "room d1 = room d" and w1: "shows_view I F d1 w1"
  have "sector_sealed M d1 job out" "opened d1 sealed_fd = Some (Named (job_sealed job), 0)" "opened d1 fd = Some (Named dest, 0)"
    "bytes_of d1 (Named dest) = Some []" using sealed dest d1 by (simp_all add: sector_sealed_def)
  note unseal = unseal_range_works [OF L X w1 this dest(3) len p]
  show "go_wp H (unseal fd) (\<lambda>r. go_wp H (require_ok r (\<lambda>_. bind_io (on_world (seek_to_head E fd)) (\<lambda>r. require_ok r (\<lambda>_.
      bind_io (on_world (lift_ext (env_read E dest))) (\<lambda>r. require_ok r ret))))) R) w1"
  proof (rule go_wp_call [OF call], rule unseal, simp only: answer_with_ok, rule go_wp_checks, rule go_wp_bind, rule go_wp_on_world,
      erule seek_to_head_works [OF E], simp, rule go_wp_checks, rule go_wp_bind, rule go_wp_on_world)
    let ?d2 = "d1\<lparr>opened := (opened d1)(fd \<mapsto> (Named dest, unat amount)), bytes_of := (bytes_of d1)(Named dest \<mapsto> ?data)\<rparr>"
    fix d3 w3
    assume d3: "opened d3 = (opened ?d2)(fd \<mapsto> (Named dest, 0))" "bytes_of d3 = bytes_of ?d2" "caches d3 = caches ?d2"
      "room d3 = room ?d2"
      and w3: "shows_view I F d3 w3"
    have "touches {sealed_fd, fd} {dest} {} d d3" "opened d3 sealed_fd = Some (Named (job_sealed job), 0)"
      using d1 d3 dest by (simp_all add: touches_def)
    note R = R [OF this]
    show "wp (lift_ext (env_read E dest)) (\<lambda>r. go_wp H (require_ok r ret) R) w3"
      by (rule read_works [OF E w3, of dest ?data]) (simp add: d3, rule go_wp_checks, rule go_wp_ret, erule R)
  qed
qed

lemma sector_data_parts:
  assumes "length b = 2032"
  shows "slice_of (sector_data b b) 0 127 = Returns (take 127 b)" "slice_of (sector_data b b) 127 889 = Returns (replicate 889 0)"
    "slice_of (sector_data b b) 1016 1016 = Returns (take 1016 b)" "length (sector_data b b) = 2032"
    "take 127 (sector_data b b) = take 127 b" "take 1016 (drop 1016 (sector_data b b)) = take 1016 b"
  using assms by (simp_all add: slice_of_def sector_data_def)

lemma workflow_unseal_works:
  assumes L: "quiet I F L" and E: "env_contract I F E" and X: "unseals_sectors I F S M" and Z: "sizes_ok K Padded"
    and calls: "\<And>fd i n. refines H (bind_io (unseal_range L S p cache sealed_fd fd sector prover ticket32 (out_comm_d out) i n)
        (\<lambda>r. ret (answer_with Inr r)))
      (go_UnsealRange G K L S abi_StackedDrg2KiBV1 cache sealed_fd fd sector minerID ticket unsealedCID i n)"
    and w: "shows_view I F d w" and len: "length someBytes = 2032"
    and sealed: "sector_sealed M d (test_job p cache sealed sector prover ticket32 infos (sector_data someBytes someBytes)) out"
      "opened d sealed_fd = Some (Named sealed, i)"
    and outs: "empty_output d A" "empty_output d B" "empty_output d C"
    and fds: "distinct [sealed_fd, fst A, fst B, fst C]" "distinct [sealed, snd A, snd B, snd C]"
    and R: "\<And>w'. R () w'"
  shows "go_wp H (workflow_unseal G K E L S abi_StackedDrg2KiBV1 cache sealed_fd A B C sector minerID ticket unsealedCID someBytes) R w"
proof -
  let ?data = "sector_data someBytes someBytes"
  let ?job = "test_job p cache sealed sector prover ticket32 infos ?data"
  let ?ready = "\<lambda>d w. sector_sealed M d ?job out \<and> (\<exists>j. opened d sealed_fd = Some (Named sealed, j)) \<and> shows_view I F d w"
  let ?go = "\<lambda>index amount fd. go_UnsealRange G K L S abi_StackedDrg2KiBV1 cache sealed_fd fd sector minerID ticket
    unsealedCID index amount"
  note parts = sector_data_parts [OF len]
  have step: "go_wp H (workflow_unsealed E sealed_fd o' (?go index amount)) Q w1"
    if ready: "?ready d1 w1" and o': "empty_output d1 o'" "fst o' \<noteq> sealed_fd" "snd o' \<noteq> sealed"
      and range: "unat index + unat amount \<le> 2032"
      and Q: "\<And>d2 w2. touches {sealed_fd, fst o'} {snd o'} {} d1 d2 \<Longrightarrow> ?ready d2 w2 \<Longrightarrow>
        Q (take (unat amount) (drop (unat index) ?data)) w2"
    for d1 w1 o' Q and index amount :: u64
  proof -
    from ready obtain j where sealed1: "sector_sealed M d1 ?job out" "opened d1 sealed_fd = Some (Named sealed, j)"
      and w1: "shows_view I F d1 w1" by blast
    have "touches {sealed_fd, fst o'} {snd o'} {} d1 d2 \<Longrightarrow> sector_sealed M d2 ?job out" for d2
      by (erule sector_sealed_touched [OF sealed1(1)]) (use o'(3) in simp_all)
    then show ?thesis
      using workflow_unsealed_works [OF L E X w1 sealed1(1), of sealed_fd j "fst o'" "snd o'" index amount p H
          "?go index amount" Q] sealed1(2) o' range parts(4) calls Q by (simp add: empty_output_def)
  qed
  have piece: "go_wp H (workflow_unseal_piece G K E L S abi_StackedDrg2KiBV1 cache sealed_fd o' sector minerID ticket unsealedCID
      index amount someBytes) Q w1"
    if "?ready d1 w1" "empty_output d1 o'" "fst o' \<noteq> sealed_fd" "snd o' \<noteq> sealed"
      and range: "unat index + unat amount \<le> 2032" "take (unat amount) (drop (unat index) ?data) = take (unat amount) someBytes"
      and Q: "\<And>d2 w2. touches {sealed_fd, fst o'} {snd o'} {} d1 d2 \<Longrightarrow> ?ready d2 w2 \<Longrightarrow> Q () w2"
    for d1 w1 o' Q and index amount :: u64
    unfolding workflow_unseal_piece_def
    by (rule go_wp_bind, rule step [OF that(1-5)])
       (use range len in \<open>simp add: slice_of_def assert_io_def go_wp_ret Q\<close>)
  have whole: "go_wp H (workflow_unseal_sector G K E L S abi_StackedDrg2KiBV1 cache sealed_fd o' sector minerID ticket unsealedCID
      someBytes) Q w1"
    if "?ready d1 w1" "empty_output d1 o'" "fst o' \<noteq> sealed_fd" "snd o' \<noteq> sealed"
      and Q: "\<And>d2 w2. touches {sealed_fd, fst o'} {snd o'} {} d1 d2 \<Longrightarrow> ?ready d2 w2 \<Longrightarrow> Q () w2" for d1 w1 o' Q
  proof -
    have range: "go_Unseal G K L S abi_StackedDrg2KiBV1 cache sealed_fd fd sector minerID ticket unsealedCID = ?go 0 2032 fd" for fd
      using Z by (simp add: go_Unseal_def sizes_ok_def)
    show ?thesis
      unfolding workflow_unseal_sector_def range
      by (rule go_wp_bind, rule step [OF that(1-4)])
         (simp_all add: parts assert_io_def go_wp_ret Q)
  qed
  have ne: "fst A \<noteq> sealed_fd" "fst B \<noteq> sealed_fd" "fst C \<noteq> sealed_fd" "snd A \<noteq> sealed" "snd B \<noteq> sealed" "snd C \<noteq> sealed"
    "fst B \<notin> {sealed_fd, fst A}" "snd B \<notin> {snd A}" "fst C \<notin> {sealed_fd, fst A}" "snd C \<notin> {snd A}" "fst C \<notin> {sealed_fd, fst B}"
    "snd C \<notin> {snd B}" using fds by auto
  have ready: "?ready d w" using w sealed by blast
  show ?thesis
    unfolding workflow_unseal_def
  proof (rule go_wp_bind, rule whole [OF ready outs(1) ne(1,4)], rule go_wp_bind)
    fix d1 w1 assume t1: "touches {sealed_fd, fst A} {snd A} {} d d1" and ready1: "?ready d1 w1"
    have outs1: "empty_output d1 B" "empty_output d1 C" using outs ne(7-10) empty_output_touched [OF _ t1] by blast+
    show "go_wp H (workflow_unseal_piece G K E L S abi_StackedDrg2KiBV1 cache sealed_fd B sector minerID ticket unsealedCID 0 127
        someBytes) (\<lambda>_. go_wp H (workflow_unseal_piece G K E L S abi_StackedDrg2KiBV1 cache sealed_fd C sector minerID ticket
        unsealedCID 1016 1016 someBytes) R) w1"
    proof (rule piece [OF ready1 outs1(1) ne(2,5)])
      fix d2 w2 assume t2: "touches {sealed_fd, fst B} {snd B} {} d1 d2" and ready2: "?ready d2 w2"
      have "empty_output d2 C" by (rule empty_output_touched [OF outs1(2) t2 ne(11,12)])
      from piece [OF ready2 this ne(3,6)] show "go_wp H (workflow_unseal_piece G K E L S abi_StackedDrg2KiBV1 cache sealed_fd C
          sector minerID ticket unsealedCID 1016 1016 someBytes) R w2" by (simp add: parts R)
    qed (simp_all add: parts)
  qed
qed

text \<open>A sealed sector is proved, verified and unsealed.\<close>

lemma workflow_commit_unseal_works:
  assumes L: "quiet I F L" and E: "env_contract I F E" and V: "proves_sectors I F S M" and X: "unseals_sectors I F S M"
    and Z: "sizes_ok K Padded" and p: "toFilRegisteredSealProof abi_StackedDrg2KiBV1 = Inr p"
    and prover: "toProverID G minerID = Returns (Inr prover)"
    and arrays: "AsByteArray32 ticket = Returns ticket32" "AsByteArray32 seed = Returns seed32"
    and pieces: "toFilPublicPieceInfos K pieces = Returns (Inr infos)" and w: "shows_view I F d w" and len: "length someBytes = 2032"
    and sealed: "sector_sealed M d (test_job p cache (snd sealed) sector prover ticket32 infos (sector_data someBytes someBytes)) out"
      "opened d (fst sealed) = Some (Named (snd sealed), i)"
    and r: "to32ByteCommR G sealedCID = Returns (Inr (out_comm_r out))"
    and u: "to32ByteCommD K unsealedCID = Returns (Inr (out_comm_d out))"
    and outs: "empty_output d A" "empty_output d B" "empty_output d C"
    and fds: "distinct [fst sealed, fst A, fst B, fst C]" "distinct [snd sealed, snd A, snd B, snd C]"
    and R: "\<And>proof w'. proves M proof \<lparr>st_proof = to_api_seal p, st_comm_r = out_comm_r out, st_comm_d = out_comm_d out,
        st_prover = prover, st_sector = sector, st_ticket = ticket32, st_seed = seed32\<rparr> \<Longrightarrow> R (sealedCID, unsealedCID, proof) w'"
  shows "go_wp H (bind_io (workflow_commit G K L S abi_StackedDrg2KiBV1 cache (snd sealed) sector minerID ticket seed pieces sealedCID
      unsealedCID) (\<lambda>proof. bind_io (workflow_unseal G K E L S abi_StackedDrg2KiBV1 cache (fst sealed) A B C sector minerID ticket
      unsealedCID someBytes) (\<lambda>_. ret (sealedCID, unsealedCID, proof)))) R w"
proof -
  note calls = seal_callers_refine(7) [OF p prover r u pieces arrays]
  note unseal = workflow_unseal_works [OF L E X Z calls _ len sealed outs fds]
  have "out_registered_proof out = to_api_seal p" using sealed(1) by (simp add: sector_sealed_def)
  then show ?thesis
    by (intro go_wp_bind workflow_commit_works [OF L V p prover arrays pieces w sealed(1) r u], elim unseal, intro go_wp_ret R)
       (simp add: statement_of_def)
qed

lemma workflow_sector_works:
  assumes L: "quiet I F L" and E: "env_contract I F E" and Q: "seals_sectors I F S M" and V: "proves_sectors I F S M"
    and X: "unseals_sectors I F S M" and P: "commits_pieces I F S M pc" and K: "cids_ok G K" and Z: "sizes_ok K Padded"
    and p: "toFilRegisteredSealProof abi_StackedDrg2KiBV1 = Inr p" and cap: "lib_max_user_bytes S (to_api_seal p) = Returns 2032"
    and prover: "toProverID G minerID = Returns (Inr prover)"
    and arrays: "AsByteArray32 ticket = Returns ticket32" "AsByteArray32 seed = Returns seed32"
    and pieces: "toFilPublicPieceInfos K pieces = Returns (Inr infos)" "pieces_staged M d staged infos (sector_data someBytes someBytes)"
    and w: "shows_view I F d w" and len: "length someBytes = 2032" and cache: "staged \<noteq> snd sealed" "caches d cache = Some []"
    and outs: "empty_output d sealed" "empty_output d A" "empty_output d B" "empty_output d C"
    and fds: "distinct [fst sealed, fst A, fst B, fst C]" "distinct [snd sealed, snd A, snd B, snd C]"
    and R: "\<And>sealedCID unsealedCID proof r u w'. to32ByteCommR G sealedCID = Returns (Inr r) \<Longrightarrow>
      to32ByteCommD K unsealedCID = Returns (Inr u) \<Longrightarrow> proves M proof \<lparr>st_proof = to_api_seal p, st_comm_r = r, st_comm_d = u,
        st_prover = prover, st_sector = sector, st_ticket = ticket32, st_seed = seed32\<rparr> \<Longrightarrow> R (sealedCID, unsealedCID, proof) w'"
  shows "go_wp H (bind_io (workflow_pre_commit G K L S abi_StackedDrg2KiBV1 cache staged (snd sealed) sector minerID ticket pieces)
    (\<lambda>(sealedCID, unsealedCID). bind_io (workflow_commit G K L S abi_StackedDrg2KiBV1 cache (snd sealed) sector minerID ticket seed
      pieces sealedCID unsealedCID) (\<lambda>proof. bind_io (workflow_unseal G K E L S abi_StackedDrg2KiBV1 cache (fst sealed) A B C sector
      minerID ticket unsealedCID someBytes) (\<lambda>_. ret (sealedCID, unsealedCID, proof))))) R w"
proof -
  have exists: "bytes_of d (Named (snd sealed)) \<noteq> None" using outs(1) by (simp add: empty_output_def)
  note pre_commit = workflow_pre_commit_works [OF L Q P K p prover arrays(1) pieces(1) w pieces(2) cache(1) exists cache(2) cap]
  show ?thesis
  proof (rule go_wp_bind, rule pre_commit, unfold prod.case)
    fix out sealedCID unsealedCID d2 w2
    assume sealed2: "sector_sealed M d2 (test_job p cache (snd sealed) sector prover ticket32 infos (sector_data someBytes someBytes)) out"
      and r: "to32ByteCommR G sealedCID = Returns (Inr (out_comm_r out))"
      and u: "to32ByteCommD K unsealedCID = Returns (Inr (out_comm_d out))" and t: "touches {} {snd sealed} {cache} d d2"
      and w2: "shows_view I F d2 w2"
    have opened2: "opened d2 (fst sealed) = Some (Named (snd sealed), 0)"
      using outs(1) touches_opened [OF t] by (simp add: empty_output_def)
    have outs2: "empty_output d2 A" "empty_output d2 B" "empty_output d2 C"
      using fds empty_output_touched [OF outs(2) t] empty_output_touched [OF outs(3) t] empty_output_touched [OF outs(4) t]
      by auto
    show "go_wp H (bind_io (workflow_commit G K L S abi_StackedDrg2KiBV1 cache (snd sealed) sector minerID ticket seed
        pieces sealedCID unsealedCID) (\<lambda>proof. bind_io (workflow_unseal G K E L S abi_StackedDrg2KiBV1 cache (fst sealed) A B C
        sector minerID ticket unsealedCID someBytes) (\<lambda>_. ret (sealedCID, unsealedCID, proof)))) R w2"
      by (rule workflow_commit_unseal_works [OF L E V X Z p prover arrays pieces(1) w2 len sealed2 opened2 r u outs2 fds])
         (rule R [OF r u])
  qed
qed

section \<open>The bench\<close>

lemma bench_commits_pieces: "commits_pieces bench_ok id bench_seal bench_meaning bench_hash"
proof -
  have "delivers bench_ok id (lib_generate_piece_commitment bench_seal p fd n) d (\<lambda>piece d'. commitment piece = bench_hash data \<and>
      (\<exists>i. d' = d\<lparr>opened := (opened d)(fd \<mapsto> (f, i))\<rparr>))" if "opened d fd = Some (f, 0)" "bytes_of d f = Some data"
    for d p fd f n data
    by (rule delivers_id) (simp add: bench_seal_def ret_def,
        use that in \<open>auto intro!: exI [of _ 0] simp: fun_upd_idem source_of_def\<close>)
  then show ?thesis by (auto simp: commits_pieces_def bench_meaning_def bench_comm_d_def)
qed

lemma bytes_cids_ok: "cids_ok bytes_conv bytes_abi"
  by (simp add: cids_ok_def bytes_conv_def bytes_abi_def)

definition pad127 :: "u64 \<Rightarrow> u64" where
  "pad127 n = n + n div 127"

lemma bytes_sizes_ok: "sizes_ok bytes_abi pad127"
  unfolding sizes_ok_def
proof (intro conjI allI impI)
  fix n :: u64 assume "piece_sized n"
  then obtain k where k: "k < 50" "unat n = 127 * 2 ^ k" by (auto simp: piece_sized_def)
  have "(2::nat) ^ k \<le> 2 ^ 50" by (rule power_increasing) (use k in simp_all)
  moreover have quot: "unat (n div 127) = 2 ^ k" by (simp add: unat_div k)
  ultimately have sum: "unat (pad127 n) = 128 * 2 ^ k" by (simp add: pad127_def unat_word_ariths k)
  then have "unat (pad127 n div 128) = unat (n div 127)" by (simp add: unat_div k)
  then have "pad127 n div 128 = n div 127" by (simp add: word_unat_eq_iff)
  then show "Unpadded bytes_abi (pad127 n) = n" by (simp add: bytes_abi_def pad127_def)
qed (simp_all add: bytes_abi_def)

text \<open>The files that the workflow has made before its first piece: the staged and the sealed sector and
  three outputs, all empty, and the directory of the cache.\<close>

definition workflow_ready :: "disk \<Rightarrow> path \<Rightarrow> i32 \<times> path \<Rightarrow> i32 \<times> path \<Rightarrow> i32 \<times> path \<Rightarrow> i32 \<times> path \<Rightarrow> i32 \<times> path \<Rightarrow> bool" where
  "workflow_ready d cache staged sealed A B C \<longleftrightarrow>
     list_all (empty_output d) [staged, sealed, A, B, C] \<and> distinct (map fst [staged, sealed, A, B, C]) \<and>
     distinct (map snd [staged, sealed, A, B, C]) \<and> caches d cache = Some [] \<and> 2 \<le> room d"

definition workflow_start :: "disk world" where
  "workflow_start = \<lparr>log_init = Incomplete, open_fds = (\<lambda>_. False),
     ext = \<lparr>opened = map_of (map (\<lambda>n. (word_of_nat n, (Named (replicate n 1), 0))) [11..<16]),
            bytes_of = map_of (map (\<lambda>n. (Named (replicate n 1), [])) [11..<16]), caches = [replicate 10 3 \<mapsto> []], room = 5\<rparr>\<rparr>"

lemma workflow_start_ready:
  "workflow_ready (ext workflow_start) (replicate 10 3) (11, replicate 11 1) (12, replicate 12 1) (13, replicate 13 1)
     (14, replicate 14 1) (15, replicate 15 1)"
  and workflow_start_view: "shows_view bench_ok id (ext workflow_start) workflow_start"
  by (simp_all add: workflow_ready_def empty_output_def workflow_start_def upt_rec shows_view_def bench_ok_def dom_def)

section \<open>Properties\<close>

text \<open>C4: the workflow succeeds, up to the unsealed data, on every library that keeps the contracts of writing
  pieces and their commitments, sealing, proving and unsealing over the files and their caches, with
  every package that reads commitments back from their CIDs and sizes from padded ones, a logger that
  returns, an address that gives a prover, empty files and an empty cache to start with and room for
  two more files: the sizes and the CIDs of the pieces
  are the expected ones, prover and client agree on the unsealed CID, the proof is valid, the
  sector and its pieces are unsealed to the bytes that were written, and the memory that crossed
  the boundary has been given back. The proof is one for the statement that the returned CIDs, the
  miner, the sector, the ticket and the seed make.\<close>
theorem workflow_lifecycle_succeeds:
  assumes L: "quiet I F L" and E: "env_contract I F E" and W: "writes_pieces I F S M" and Q: "seals_sectors I F S M"
    and V: "proves_sectors I F S M" and X: "unseals_sectors I F S M" and P: "commits_pieces I F S M pc"
    and K: "cids_ok G K" and Z: "sizes_ok K Padded" and prover: "toProverID G 42 = Returns (Inr prover)"
    and w: "shows_view I F d w" and files: "workflow_ready d cache staged sealed A B C"
    and len: "length someBytes = 2032" and h: "heap_ok h"
  shows "\<exists>sealedCID unsealedCID proof w' h' r u.
    workflow_lifecycle G K Padded E L S cache staged sealed A B C someBytes (w, h) =
      (Returns (sealedCID, unsealedCID, proof), (w', h')) \<and>
    to32ByteCommR G sealedCID = Returns (Inr r) \<and> to32ByteCommD K unsealedCID = Returns (Inr u) \<and>
    proves M proof \<lparr>st_proof = api_RegisteredSealProof.StackedDrg2KiBV1, st_comm_r = r, st_comm_d = u, st_prover = prover,
      st_sector = 42, st_ticket = [5, 4, 2] @ replicate 29 0, st_seed = [7, 4, 2] @ replicate 29 0\<rparr> \<and>
    cells h' = cells h \<and> heap_ok h'"
proof -
  let ?p = RegisteredSealProof.StackedDrg2KiBV1
  let ?ticket = "[5, 4, 2] @ replicate 29 0" and ?seed = "[7, 4, 2] @ replicate 29 0"
  let ?R = "\<lambda>(sealedCID, unsealedCID, proof) w'. \<exists>r u. to32ByteCommR G sealedCID = Returns (Inr r) \<and>
    to32ByteCommD K unsealedCID = Returns (Inr u) \<and> proves M proof \<lparr>st_proof = api_RegisteredSealProof.StackedDrg2KiBV1,
      st_comm_r = r, st_comm_d = u, st_prover = prover, st_sector = 42, st_ticket = ?ticket, st_seed = ?seed\<rparr>"
  have p: "toFilRegisteredSealProof abi_StackedDrg2KiBV1 = Inr ?p" by simp
  have cap: "lib_max_user_bytes S (to_api_seal ?p) = Returns 2032" using W by (simp add: writes_pieces_def)
  have arrays: "AsByteArray32 [5, 4, 2] = Returns ?ticket" "AsByteArray32 [7, 4, 2] = Returns ?seed"
    by (simp_all add: AsByteArray32_def)
  have room: "2 \<le> room d" and cache: "caches d cache = Some []" and "empty_output d staged" and names: "snd staged \<noteq> snd sealed"
    and outs: "empty_output d sealed" "empty_output d A" "empty_output d B" "empty_output d C"
    and fds: "distinct [fst sealed, fst A, fst B, fst C]" "distinct [snd sealed, snd A, snd B, snd C]"
    and ne: "fst staged \<notin> {fst sealed, fst A, fst B, fst C}" "snd staged \<notin> {snd sealed, snd A, snd B, snd C}"
    using files by (auto simp: workflow_ready_def)
  then have staged: "opened d (fst staged) = Some (Named (snd staged), 0)" "bytes_of d (Named (snd staged)) = Some []"
    by (simp_all add: empty_output_def)
  have "go_wp (cells h) (workflow_lifecycle G K Padded E L S cache staged sealed A B C someBytes) ?R w"
    unfolding workflow_lifecycle_def Let_def
  proof (rule go_wp_bind, rule workflow_pieces_works [OF L E W P K Z p w room cap staged len])
    fix pieces infos d1 w1
    assume pieces: "toFilPublicPieceInfos K pieces = Returns (Inr infos)"
      "pieces_staged M d1 (snd staged) infos (sector_data someBytes someBytes)" and "caches d1 = caches d" and w1: "shows_view I F d1 w1"
      and keep: "\<And>out. empty_output d out \<Longrightarrow> fst out \<noteq> fst staged \<Longrightarrow> snd out \<noteq> snd staged \<Longrightarrow> empty_output d1 out"
    then have outs1: "empty_output d1 sealed" "empty_output d1 A" "empty_output d1 B" "empty_output d1 C" and cache1: "caches d1 cache = Some []"
      using keep [OF outs(1)] keep [OF outs(2)] keep [OF outs(3)] keep [OF outs(4)] ne cache by auto
    show "go_wp (cells h) (bind_io (workflow_pre_commit G K L S abi_StackedDrg2KiBV1 cache (snd staged) (snd sealed) 42 42 [5, 4, 2]
        pieces) (\<lambda>(sealedCID, unsealedCID). bind_io (workflow_commit G K L S abi_StackedDrg2KiBV1 cache (snd sealed) 42 42 [5, 4, 2]
        [7, 4, 2] pieces sealedCID unsealedCID) (\<lambda>proof. bind_io (workflow_unseal G K E L S abi_StackedDrg2KiBV1 cache (fst sealed)
        A B C 42 42 [5, 4, 2] unsealedCID someBytes) (\<lambda>_. ret (sealedCID, unsealedCID, proof))))) ?R w1"
      by (rule workflow_sector_works [OF L E Q V X P K Z p cap prover arrays pieces w1 len names cache1 outs1 fds]) auto
  qed
  with h show ?thesis unfolding go_wp_def wp_def by fastforce
qed

theorem workflow_lifecycle_succeeds_witness:
  "\<exists>sealedCID unsealedCID proof w' h'.
    workflow_lifecycle bytes_conv bytes_abi pad127 bench_env bench_logger bench_seal (replicate 10 3) (11, replicate 11 1) (12, replicate 12 1)
      (13, replicate 13 1) (14, replicate 14 1) (15, replicate 15 1) (replicate 2032 9) (workflow_start, empty_heap) =
      (Returns (sealedCID, unsealedCID, proof), (w', h')) \<and> cells h' = Map.empty"
proof -
  have prover: "toProverID bytes_conv 42 = Returns (Inr (42 # replicate 31 0))"
    by (simp add: toProverID_def bytes_conv_def AsByteArray32_def)
  have len: "length (replicate 2032 (9 :: u8)) = 2032" by simp
  have "cells empty_heap = Map.empty" by (simp add: empty_heap_def)
  with workflow_lifecycle_succeeds [OF bench_quiet bench_env_contract bench_writes_pieces bench_seals_sectors
      bench_proves_sectors bench_unseals_sectors bench_commits_pieces bytes_cids_ok bytes_sizes_ok prover
      workflow_start_view workflow_start_ready len empty_heap_ok]
  show ?thesis by metis
qed

end
