(* ===== verification/Spec2Isabelle.thy ===== *)
theory Spec2Isabelle
  imports Fvm_Client Unit_Tests Log_Test Go_Sectors Go_Challenges Go_Workflow
begin

text \<open>
  A verification library for \<open>filecoin-ffi\<close>: the Rust library \<open>rust/src\<close> that gives Filecoin
  clients written in Go the proofs, the BLS signatures and the FVM, behind a C boundary.

  \<^bold>\<open>The program.\<close> Every exported function converts its arguments, calls a library and wraps
  what comes back into a response struct; a guard catches panics, since unwinding must not
  cross the boundary. The FVM calls back into the client through functions exported by Go
  (\<open>cgo/*.go\<close>): its blockstore, its randomness and its fault checks are found by a handle in
  a table. The components and their theories, in the order they build on each other:

  \<^item> \<open>FFI_Prelude\<close>: machine integers (\<open>u64\<close> and so on are words), the outcome of a piece of
    code (\<open>Returns\<close>, \<open>Panics\<close> with a payload, \<open>Undefined\<close> for an access outside the memory it
    was given), state passing over outcomes (\<open>io\<close>, \<open>bind_io\<close>, and \<open>try_io\<close> for the question
    mark operator), \<open>keeps f m\<close> (a computation leaves a part of the state alone), slices.
  \<^item> \<open>Util_Types\<close> and \<open>Util_Api\<close> (\<open>util/types.rs\<close>, \<open>util/api.rs\<close>): the response struct, the
    guards \<open>catch_panic_response\<close> and its variants, the logger behind its \<open>Once\<close>. The state
    is \<open>world\<close>: the \<open>Once\<close>, the table of open descriptors, and \<open>ext\<close>, what the libraries
    own. The locales \<open>unwind_guard\<close> and \<open>panic_guard\<close> state what a caller relies on and are
    interpreted on the five guards.
  \<^item> \<open>Bls\<close> (\<open>bls/api.rs\<close>, \<open>bls.go\<close>): aggregation, verification, keys, over the record
    \<open>bls_lib\<close> of the signature library; the Go callers that flatten their arguments.
  \<^item> \<open>Lotus_Trace\<close> (\<open>build_lotus_trace\<close> of \<open>fvm/machine.rs\<close>): the call tree from a flat list of
    events, against a datatype of call trees as specification.
  \<^item> \<open>Go_Side\<close> (\<open>cgo/registry.go\<close>, \<open>cgo/blockstore.go\<close>, \<open>cgo/extern.go\<close>, \<open>fvm/cgo\<close>): the
    callbacks, the table of handles and the shared error codes, over the record \<open>externs\<close>
    of the client's functions.
  \<^item> \<open>Cgo_Blockstore\<close> and \<open>Blockstores\<close> (\<open>fvm/blockstore\<close>): the store that calls Go, with the
    buffering of \<open>put_many_keyed\<close>, and the two stores in memory. The contract of a store is
    the locales \<open>Blockstore_read\<close> and \<open>Blockstore_write\<close>; \<open>Overlay_store\<close>, \<open>Fake_store\<close> and
    \<open>Fake_write\<close> carry it through the stores in memory by \<open>sublocale\<close>; all are interpreted
    on \<open>CgoBlockstore\<close> over a client store that keeps its own contract (\<open>go_store_ok\<close>).
  \<^item> \<open>Externs\<close> (\<open>fvm/externs.rs\<close>): randomness and consensus faults from the client.
  \<^item> \<open>Fvm_Machine\<close> (\<open>fvm/machine.rs\<close>, \<open>fvm/types.rs\<close>, \<open>fvm.go\<close>): creating a machine, executing
    messages, flushing; the mutex and its poisoning as a step relation; token amounts as
    two 64-bit halves; the Go callers.
  \<^item> \<open>Proofs_Types\<close> (\<open>proofs/types.rs\<close>, \<open>proofs/helpers.rs\<close>): enums, structs, conversions,
    replica maps; the locale \<open>api_enum\<close> is interpreted on the four enums.
  \<^item> \<open>Par_Reduce\<close>: what rayon's \<open>try_reduce\<close> may answer, in terms of the ways of putting brackets
    around the items (\<open>rayon_contract\<close>); the locale \<open>monoid_reduction\<close> says what comes out for
    an associative operation, and is interpreted on the extension of vectors.
  \<^item> \<open>Proofs_Seal\<close>, \<open>Proofs_Post\<close>, \<open>Proofs_Update\<close> (\<open>proofs/api.rs\<close>): all exported functions of
    the proofs module, over records of the functions of \<open>filecoin_proofs_api\<close>. Files made from
    descriptors are dropped where Rust drops them; \<open>FileDescriptorRef\<close> is a file inside a
    \<open>ManuallyDrop\<close>, whose drop does not reach the file.
  \<^item> \<open>Boxes\<close> and \<open>Responses\<close> (\<open>destructor!\<close> and the response types of \<open>util/types.rs\<close>,
    \<open>proofs/types.rs\<close>, \<open>fvm/types.rs\<close>; \<open>cgo/types.go\<close>): the memory that crosses the boundary. A
    heap of allocations, a layout for each response type, storing a value, Rust's drop glue
    by recursion on the layout, every exported destructor and the \<open>destroy\<close> methods of Go.
    The locale \<open>ffi_layout\<close> (a HOL type whose values have a layout) and its extension
    \<open>ffi_type\<close> (and no two values look the same) carry the lemmas on calls; they are
    interpreted on the value type of every response.
  \<^item> \<open>Go_Calls\<close> (\<open>cgo/proofs.go\<close>): the wrappers that call, check, copy and destroy.
  \<^item> \<open>Go_Proofs\<close> and \<open>Go_Memory\<close> (\<open>proofs.go\<close>, \<open>distributed.go\<close>, \<open>cgo/helpers.go\<close>): the callers that
    allocate their arguments, and their refinement of computations without a heap.
  \<^item> \<open>Go_Sealing\<close> (\<open>proofs.go\<close>, \<open>sector_update.go\<close>): the callers that write pieces, seal, unseal,
    aggregate and update, with the conversions of CIDs; \<open>Go_Challenges\<close> (\<open>distributed.go\<close>) and
    \<open>Go_Sectors\<close> (\<open>types.go\<close>): the challenges of sectors and the sorted list of sectors.
  \<^item> \<open>Fvm_Client\<close> (\<open>fvm.go\<close>, \<open>cgo/fvm.go\<close>) and \<open>Go_Bls\<close> (\<open>bls.go\<close>, \<open>cgo/bls.go\<close>): the client of a
    machine with its finalizer, and the BLS functions with their boxed arrays.

  \<^item> \<open>Sessions\<close>: programs that call the exported functions one after the other. \<open>wp m Q s\<close> is total
    correctness; \<open>delivers I F m d Q\<close> is a law of a library's function over a view \<open>F\<close> of its
    state; rules carry laws through the guards and the question mark operator.
  \<^item> \<open>Test_Disk\<close>, \<open>Seal_Contract\<close>, \<open>Update_Contract\<close>, \<open>Post_Contract\<close>: the files that the tests use, what
    they rely on in the provers (in terms of the files, of what the cache directories hold, and
    of what the outputs stand for), and a rule for every exported function of the proofs module. \<open>Test_Bench\<close> and the last section
    of each contract have a small library that keeps the contracts and whose verifiers accept
    the proof of the statement they are asked about and no other.
  \<^item> \<open>Seal_Tests\<close>, \<open>Update_Tests\<close>, \<open>Post_Tests\<close>, \<open>Sealing_Test\<close>, \<open>Unit_Tests\<close>, \<open>Log_Test\<close> (the test modules of
    \<open>proofs/api.rs\<close>, \<open>fvm/machine.rs\<close>, \<open>util/api.rs\<close>): the tests as programs, by stages, and that
    they pass on every library that keeps the contracts, which are hypotheses; for the test of \<open>init_log_fd\<close>, when it does.
  \<^item> \<open>Go_Workflow\<close> (\<open>workflows.go\<close>): a Go client that seals and unseals a sector; \<open>go_wp\<close> lifts the rules for the
    exported functions through \<open>refines\<close> to their callers.

  \<^bold>\<open>What the lemmas show.\<close> Guards: no panic leaves them, and the exact response on each
  branch; the two raw guards hand on the response of the closure as it is. Stores: the buffered writes are a run of bounded batches, blocks written through
  the bridge are read back, blocks with a wrong CID stay in memory. Machine: results reach
  the Go caller unchanged, a panic ends the machine for good. Traces: the builder inverts
  the event list of a call tree exactly. BLS: every outcome of verification, and the round
  trip of the Go callers. Proofs: values pass between phases, provers and verifiers
  unchanged; which functions close which descriptors; which errors carry faulty sectors.
  Memory: a response is read back and released exactly once by the method Go calls; wrappers
  and callers compute what the exported functions answer (\<open>refines C m g\<close>: \<open>g\<close> does what \<open>m\<close>
  does, from a heap with the cells \<open>C\<close> back to one) except that the two verifiers of proofs
  of spacetime keep the memory of the proofs; a session on a machine returns its memory, and
  every call of it is answered as long as the executor does not panic and its amounts fit 128
  bits. Sessions: the tests of the proofs module pass on a library that keeps the contracts, so along sealing, proving, aggregating, updating, unsealing and the
  proofs of spacetime each value reaches the function that needs it, in its place; the workflow
  of a Go client succeeds on such a library too, so commitments survive their way through CIDs.

  \<^bold>\<open>Bounds.\<close> All functions are total; the recursion of \<open>trace_loop\<close> ends because each call
  consumes its return event (\<open>build_fuel\<close> counts the steps: one more than there are events),
  the other loops are structural or cut a list. Lengths that are cast to \<open>i32\<close> are read back
  with \<open>sint\<close>; the lemmas that need a length to survive the cast say so (\<open>small_block\<close>, \<open>2 ^ 31\<close>).
  Arithmetic on \<open>usize\<close> and \<open>u64\<close> wraps, as in a release build. The parallel reduction
  of \<open>verify_aggregate_seal_proof\<close> is a parameter, with rayon's contract as a hypothesis and the
  sequential reduction as its instance. The tests
  need room for the files they make (14 for the sealing test), which \<open>room\<close> counts.

  \<^bold>\<open>Not modelled.\<close> Header generation and build files; the test of \<open>bls/api.rs\<close> that compares a key
  with 32 fixed bytes, which is a value of the generator; of \<open>types.go\<close> the JSON encodings, the
  public list that nothing makes and \<open>SplitSortedPrivateSectorInfo\<close>, whose bounds are the
  capacity of a slice; the values that Go's error texts carry with \<open>%v\<close>; of \<open>workflows.go\<close> what comes after the unsealed data, which the sealing test of
  Rust has too, and the workflows that check one call on many inputs.
  A full pipe and a reader that waits for ever (\<open>Log_Test\<close>) are not modelled. The tests drop
  their responses at their end, with the destructors that \<open>Responses\<close> is about; in the models
  of the tests a response is its value. Addresses are never used twice on the heap, so a
  pointer to released memory is found out; the layout of a machine behind its pointer is one
  allocation. The libraries are parameters: what is assumed of one is a hypothesis of the lemma
  that needs it, and each such lemma has an instance with a concrete library. \<open>as_path_buf\<close> is
  the Linux variant.
\<close>

section \<open>Properties that span the components\<close>

text \<open>The accessors of seal and PoSt proofs answer with the string or the error of the API's
  method for the same proof. They are the exported functions of the proofs module that
  run outside the guards: a panic of the method leaves the library.\<close>
lemma accessors_run_unguarded:
  "get_seal_params_cid I p = accessor_outcome (params_cid I (to_api_seal p)) \<and>
   get_seal_verifying_key_cid I p = accessor_outcome (verifying_key_cid I (to_api_seal p)) \<and>
   get_seal_params_path I p = accessor_outcome (cache_params_path I (to_api_seal p)) \<and>
   get_seal_verifying_key_path I p = accessor_outcome (cache_verifying_key_path I (to_api_seal p)) \<and>
   get_seal_circuit_identifier I p = accessor_outcome (circuit_identifier I (to_api_seal p)) \<and>
   get_post_params_cid J q = accessor_outcome (params_cid J (to_api_post q)) \<and>
   get_post_verifying_key_cid J q = accessor_outcome (verifying_key_cid J (to_api_post q)) \<and>
   get_post_params_path J q = accessor_outcome (cache_params_path J (to_api_post q)) \<and>
   get_post_verifying_key_path J q = accessor_outcome (cache_verifying_key_path J (to_api_post q)) \<and>
   get_post_circuit_identifier J q = accessor_outcome (circuit_identifier J (to_api_post q)) \<and>
   accessor_outcome (Returns (Inr name)) = Returns (Result_ok (str_bytes name)) \<and>
   accessor_outcome (Panics payload) = Panics payload"
  using seal_accessors_run [of I p] post_accessors_run [of J q] by (simp add: accessor_outcome_def)

end
